(* ===== verification/Prelude.thy ===== *)
theory Prelude
  imports Main "HOL-Library.AList" "HOL-Library.Char_ord"
begin

text \<open>
  Shared vocabulary of the development: Go's time and durations, the byte-string functions of
  package \<^verbatim>\<open>strings\<close> that the code calls, Go maps with string keys as the type \<open>gmap\<close>, and
  the interface \<open>table\<close> (what a map promises its clients) with the lemmas that the runtime
  tables, the rate limiters, the idempotency cache and the operator sessions use.

  Conventions. A Go \<^verbatim>\<open>string\<close> or \<^verbatim>\<open>[]byte\<close> is a \<^typ>\<open>string\<close>: a list of bytes, so \<open>length\<close> is
  Go's \<^verbatim>\<open>len\<close>. Functions of package \<^verbatim>\<open>strings\<close> that Go defines on Unicode white space or case are
  modelled on the ASCII range. \<^verbatim>\<open>time.Time\<close> is an integer, the nanoseconds since Go's zero time.
\<close>

named_theorems gosimps \<open>definitions of the Go helpers, unfolded together\<close>
named_theorems invI \<open>introduction rules for the invariants of the tables\<close>

section \<open>Time\<close>

type_synonym go_time = int
type_synonym go_duration = int

definition Second :: go_duration where "Second = 1000000000"
definition Minute :: go_duration where "Minute = 60 * Second"
definition Hour :: go_duration where "Hour = 60 * Minute"

text \<open>Go's \<^verbatim>\<open>t.IsZero()\<close>, \<^verbatim>\<open>t.After(u)\<close> and \<^verbatim>\<open>t.Unix()\<close>; the Unix epoch is 62135596800 s after the zero time.\<close>

definition IsZero :: "go_time \<Rightarrow> bool" where "IsZero t = (t = 0)"
definition After :: "go_time \<Rightarrow> go_time \<Rightarrow> bool" where "After t u = (u < t)"
definition Unix :: "go_time \<Rightarrow> int" where "Unix t = t div Second - 62135596800"

text \<open>Go's integer division truncates towards zero.\<close>

definition go_div :: "int \<Rightarrow> int \<Rightarrow> int" where
  "go_div a b = sgn a * sgn b * (\<bar>a\<bar> div \<bar>b\<bar>)"

section \<open>Byte strings\<close>

definition is_space :: "char \<Rightarrow> bool" where
  "is_space c = (c \<in> {CHR '' '', CHR 0x09, CHR 0x0A, CHR 0x0B, CHR 0x0C, CHR 0x0D})"

definition TrimRight :: "string \<Rightarrow> string \<Rightarrow> string" where
  "TrimRight s cs = rev (dropWhile (\<lambda>c. c \<in> set cs) (rev s))"

definition TrimLeft :: "string \<Rightarrow> string \<Rightarrow> string" where
  "TrimLeft s cs = dropWhile (\<lambda>c. c \<in> set cs) s"

definition TrimSpace :: "string \<Rightarrow> string" where
  "TrimSpace s = rev (dropWhile is_space (rev (dropWhile is_space s)))"

fun HasPrefix :: "string \<Rightarrow> string \<Rightarrow> bool" where
  "HasPrefix s [] = True"
| "HasPrefix [] (p # ps) = False"
| "HasPrefix (c # s) (p # ps) = (c = p \<and> HasPrefix s ps)"

definition TrimPrefix :: "string \<Rightarrow> string \<Rightarrow> string" where
  "TrimPrefix s p = (if HasPrefix s p then drop (length p) s else s)"

definition HasSuffix :: "string \<Rightarrow> string \<Rightarrow> bool" where
  "HasSuffix s p = HasPrefix (rev s) (rev p)"

fun Contains :: "string \<Rightarrow> string \<Rightarrow> bool" where
  "Contains [] sub = (sub = [])"
| "Contains (c # s) sub = (HasPrefix (c # s) sub \<or> Contains s sub)"

definition ContainsAny :: "string \<Rightarrow> string \<Rightarrow> bool" where
  "ContainsAny s cs = list_ex (\<lambda>c. c \<in> set cs) s"

text \<open>\<^verbatim>\<open>strings.Fields\<close>: the maximal runs of non-space bytes, in order.\<close>

fun fields_acc :: "string \<Rightarrow> string \<Rightarrow> string list" where
  "fields_acc acc [] = (if acc = [] then [] else [rev acc])"
| "fields_acc acc (c # s) =
     (if is_space c then (if acc = [] then fields_acc [] s else rev acc # fields_acc [] s)
      else fields_acc (c # acc) s)"

definition Fields :: "string \<Rightarrow> string list" where
  "Fields s = fields_acc [] s"

text \<open>\<^verbatim>\<open>strings.Split\<close> with a separator of one byte.\<close>

fun split_acc :: "char \<Rightarrow> string \<Rightarrow> string \<Rightarrow> string list" where
  "split_acc sep acc [] = [rev acc]"
| "split_acc sep acc (c # s) =
     (if c = sep then rev acc # split_acc sep [] s else split_acc sep (c # acc) s)"

definition Split :: "string \<Rightarrow> char \<Rightarrow> string list" where
  "Split s sep = split_acc sep [] s"

lemma split_acc_none: "sep \<notin> set s \<Longrightarrow> split_acc sep acc s = [rev acc @ s]"
  by (induction s arbitrary: acc) auto

lemma split_acc_append: "sep \<notin> set s \<Longrightarrow> split_acc sep acc (s @ sep # t) = (rev acc @ s) # split_acc sep [] t"
  by (induction s arbitrary: acc) auto

lemma Split_none: "sep \<notin> set s \<Longrightarrow> Split s sep = [s]"
  by (simp add: Split_def split_acc_none)

lemma Split_append: "sep \<notin> set s \<Longrightarrow> Split (s @ sep # t) sep = s # Split t sep"
  by (simp add: Split_def split_acc_append)

definition upper_char :: "char \<Rightarrow> char" where
  "upper_char c = (if 97 \<le> (of_char c :: nat) \<and> of_char c \<le> (122 :: nat)
     then char_of ((of_char c :: nat) - 32) else c)"

definition lower_char :: "char \<Rightarrow> char" where
  "lower_char c = (if 65 \<le> (of_char c :: nat) \<and> of_char c \<le> (90 :: nat)
     then char_of ((of_char c :: nat) + 32) else c)"

definition ToUpper :: "string \<Rightarrow> string" where "ToUpper = map upper_char"
definition ToLower :: "string \<Rightarrow> string" where "ToLower = map lower_char"
definition EqualFold :: "string \<Rightarrow> string \<Rightarrow> bool" where
  "EqualFold a b = (ToLower a = ToLower b)"

definition is_lower :: "char \<Rightarrow> bool" where
  "is_lower c = (97 \<le> (of_char c :: nat) \<and> of_char c \<le> (122 :: nat))"
definition is_upper :: "char \<Rightarrow> bool" where
  "is_upper c = (65 \<le> (of_char c :: nat) \<and> of_char c \<le> (90 :: nat))"
definition is_digit :: "char \<Rightarrow> bool" where
  "is_digit c = (48 \<le> (of_char c :: nat) \<and> of_char c \<le> (57 :: nat))"

text \<open>Decimal rendering, as \<^verbatim>\<open>strconv.Itoa\<close> and \<^verbatim>\<open>audit.itoa\<close> produce it.\<close>

definition digit_char :: "nat \<Rightarrow> char" where
  "digit_char d = char_of (48 + d :: nat)"

fun itoa_nat :: "nat \<Rightarrow> string" where
  "itoa_nat n = (if n < 10 then [digit_char n] else itoa_nat (n div 10) @ [digit_char (n mod 10)])"

declare itoa_nat.simps [simp del]

definition Itoa :: "int \<Rightarrow> string" where
  "Itoa n = (if n < 0 then CHR ''-'' # itoa_nat (nat (- n)) else itoa_nat (nat n))"

section \<open>Go maps with string keys\<close>

text \<open>
  A Go map is a list of entries with distinct keys; the order of the list is one iteration
  order of the map. Reading a missing key is \<open>None\<close>, \<open>gsweep P\<close> is the loop
  \<^verbatim>\<open>for k, v := range m { if P(v) { delete(m, k) } }\<close>.
\<close>

typedef 'v gmap = "{xs :: (string \<times> 'v) list. distinct (map fst xs)}"
  morphisms entries Gmap
  by (rule exI [of _ "[]"]) simp

setup_lifting type_definition_gmap

lift_definition gempty :: "'v gmap" is "[]" by simp

lift_definition gget :: "'v gmap \<Rightarrow> string \<Rightarrow> 'v option" is "map_of" .

lift_definition gput :: "string \<Rightarrow> 'v \<Rightarrow> 'v gmap \<Rightarrow> 'v gmap" is "AList.update"
  by (rule distinct_update)

lift_definition gdel :: "string \<Rightarrow> 'v gmap \<Rightarrow> 'v gmap" is "AList.delete"
  by (rule distinct_delete)

lift_definition gsweep :: "('v \<Rightarrow> bool) \<Rightarrow> 'v gmap \<Rightarrow> 'v gmap" is "\<lambda>P. filter (\<lambda>e. \<not> P (snd e))"
  by (simp add: distinct_map_filter)

lift_definition glen :: "'v gmap \<Rightarrow> nat" is "length" .

lift_definition gvals :: "'v gmap \<Rightarrow> 'v list" is "map snd" .

lift_definition gkeys :: "'v gmap \<Rightarrow> string list" is "map fst" .

instantiation gmap :: (equal) equal
begin

definition equal_gmap :: "'a gmap \<Rightarrow> 'a gmap \<Rightarrow> bool" where
  "equal_gmap m n = (entries m = entries n)"

instance
  by standard (simp add: equal_gmap_def entries_inject)

end

text \<open>A map read with the comma-ok idiom dropped: the zero value for a missing key.\<close>

definition gget_or :: "'v \<Rightarrow> 'v gmap \<Rightarrow> string \<Rightarrow> 'v" where
  "gget_or z m k = (case gget m k of None \<Rightarrow> z | Some v \<Rightarrow> v)"

definition gall :: "(string \<Rightarrow> 'v \<Rightarrow> bool) \<Rightarrow> 'v gmap \<Rightarrow> bool" where
  "gall P m = list_all (\<lambda>(k, v). P k v) (entries m)"

text \<open>Building a map in a loop over a slice: later entries overwrite earlier ones.\<close>

definition gmap_of :: "(string \<times> 'v) list \<Rightarrow> 'v gmap" where
  "gmap_of kvs = foldl (\<lambda>m (k, v). gput k v m) gempty kvs"

section \<open>The laws of a map\<close>

lemma gget_gempty [simp]: "gget gempty k = None"
  by transfer simp

lemma gget_gput [simp]: "gget (gput k v m) = (gget m)(k \<mapsto> v)"
  by transfer (simp add: update_conv')

lemma gget_gdel [simp]: "gget (gdel k m) = (gget m)(k := None)"
  by transfer (simp add: delete_conv')

lemma map_of_filter_snd:
  "distinct (map fst xs) \<Longrightarrow>
     map_of (filter (\<lambda>e. \<not> P (snd e)) xs) k =
       (case map_of xs k of None \<Rightarrow> None | Some v \<Rightarrow> if P v then None else Some v)"
proof (induction xs)
  case Nil
  then show ?case by simp
next
  case (Cons e xs)
  have "map_of xs k = None" if "fst e = k"
    using Cons.prems that by (auto simp: map_of_eq_None_iff)
  with Cons show ?case by (cases e) auto
qed

lemma gget_gsweep:
  "gget (gsweep P m) k = (case gget m k of None \<Rightarrow> None | Some v \<Rightarrow> if P v then None else Some v)"
  by transfer (rule map_of_filter_snd)

lemma gget_gsweep_Some [simp]:
  "gget (gsweep P m) k = Some v \<longleftrightarrow> gget m k = Some v \<and> \<not> P v"
  by (auto simp: gget_gsweep split: option.splits)

lemma gget_gsweep_None_iff [simp]:
  "gget (gsweep P m) k = None \<longleftrightarrow> (\<forall>v. gget m k = Some v \<longrightarrow> P v)"
  by (auto simp: gget_gsweep split: option.splits)

lemma gget_gsweep_None: "gget m k = None \<Longrightarrow> gget (gsweep P m) k = None"
  by (simp add: gget_gsweep)

lemma gsweep_gempty [simp]: "gsweep P gempty = gempty"
  by transfer simp

lemma filter_AList_update:
  "map_of xs k = None \<Longrightarrow> filter P (AList.update k v xs) = filter P xs @ (if P (k, v) then [(k, v)] else [])"
  by (induction xs) auto

lemma gsweep_gput_keep [simp]:
  "gget m k = None \<Longrightarrow> \<not> P v \<Longrightarrow> gsweep P (gput k v m) = gput k v (gsweep P m)"
proof transfer
  fix m :: "(string \<times> 'a) list" and k v and P :: "'a \<Rightarrow> bool"
  assume a: "distinct (map fst m)" "map_of m k = None" "\<not> P v"
  have "map_of (filter (\<lambda>e. \<not> P (snd e)) m) k = None"
    using a by (simp add: map_of_filter_snd)
  with a show "filter (\<lambda>e. \<not> P (snd e)) (AList.update k v m) =
      AList.update k v (filter (\<lambda>e. \<not> P (snd e)) m)"
    using filter_AList_update [of m k "\<lambda>e. \<not> P (snd e)" v]
      filter_AList_update [of "filter (\<lambda>e. \<not> P (snd e)) m" k "\<lambda>_. True" v]
    by simp
qed

lemma gsweep_gput_drop [simp]:
  "gget m k = None \<Longrightarrow> P v \<Longrightarrow> gsweep P (gput k v m) = gsweep P m"
  by transfer (simp add: filter_AList_update)

lemma glen_gempty [simp]: "glen gempty = 0"
  by transfer simp

lemma length_update_alist:
  "length (AList.update k v xs) = (if map_of xs k = None then Suc (length xs) else length xs)"
  by (induction xs) auto

lemma glen_gput [simp]:
  "glen (gput k v m) = (if gget m k = None then Suc (glen m) else glen m)"
  by transfer (rule length_update_alist)

lemma length_delete_alist:
  "distinct (map fst xs) \<Longrightarrow>
     length (AList.delete k xs) = (if map_of xs k = None then length xs else length xs - 1)"
proof (induction xs)
  case Nil
  then show ?case by simp
next
  case (Cons e xs)
  show ?case
  proof (cases "fst e = k")
    case True
    then have "k \<notin> fst ` set xs" using Cons.prems by auto
    then have "AList.delete k xs = xs" by (rule delete_id)
    with True show ?thesis by (cases e) auto
  next
    case False
    have "length xs > 0" if "map_of xs k \<noteq> None" using that by (cases xs) auto
    with False Cons show ?thesis by (cases e) auto
  qed
qed

lemma glen_gdel [simp]:
  "glen (gdel k m) = (if gget m k = None then glen m else glen m - 1)"
  by transfer (rule length_delete_alist)

lemma glen_pos: "gget m k = Some v \<Longrightarrow> 0 < glen m"
  by transfer (auto dest: map_of_SomeD)

lemma glen_gsweep_le [simp]: "glen (gsweep P m) \<le> glen m"
  by transfer simp

lemma gvals_set: "v \<in> set (gvals m) \<longleftrightarrow> (\<exists>k. gget m k = Some v)"
  by transfer (auto simp: map_of_eq_Some_iff intro: rev_image_eqI)

lemma gkeys_set: "k \<in> set (gkeys m) \<longleftrightarrow> (\<exists>v. gget m k = Some v)"
  by transfer (auto simp: map_of_eq_Some_iff intro: rev_image_eqI)

lemma gvals_gempty [simp]: "gvals gempty = []"
  by transfer simp

lemma gall_iff: "gall P m \<longleftrightarrow> (\<forall>k v. gget m k = Some v \<longrightarrow> P k v)"
  unfolding gall_def list_all_iff by transfer (auto simp: map_of_eq_Some_iff)

lemma entries_gempty [simp]: "entries gempty = []"
  by transfer simp

lemma entries_gput [simp]: "entries (gput k v m) = AList.update k v (entries m)"
  by transfer simp

lemma entries_gdel [simp]: "entries (gdel k m) = AList.delete k (entries m)"
  by transfer simp

lemma glen_dom: "glen m = card (dom (gget m))"
proof transfer
  fix m :: "(string \<times> 'a) list"
  assume "distinct (map fst m)"
  then show "length m = card (dom (map_of m))"
    using distinct_card [of "map fst m"] by (simp add: dom_map_of_conv_image_fst)
qed

lemma finite_dom_gget [simp]: "finite (dom (gget m))"
  by transfer (rule finite_dom_map_of)

lemma gmap_of_snoc: "gmap_of (kvs @ [(k, v)]) = gput k v (gmap_of kvs)"
  by (simp add: gmap_of_def)

lemma gget_gmap_of: "gget (gmap_of kvs) = map_of (rev kvs)"
proof (induction kvs rule: rev_induct)
  case Nil
  then show ?case by (simp add: gmap_of_def fun_eq_iff)
next
  case (snoc e kvs)
  then show ?case by (cases e) (simp add: gmap_of_snoc)
qed

lemma gget_gmap_of_distinct: "distinct (map fst kvs) \<Longrightarrow> gget (gmap_of kvs) = map_of kvs"
proof -
  assume d: "distinct (map fst kvs)"
  then have "distinct (map fst (rev kvs))" by (simp flip: rev_map)
  with d show ?thesis
    by (simp add: gget_gmap_of fun_eq_iff) (metis (no_types, lifting) map_of_eq_Some_iff not_Some_eq set_rev)
qed

section \<open>The interface of a table\<close>

text \<open>
  What the stateful components rely on in a map. The laws are discharged once for \<open>gmap\<close>; the
  lemmas about bounded tables are proved inside the locale and reach the components through
  the interpretation \<open>gm\<close>.
\<close>

locale table =
  fixes empty :: "'m"
    and get :: "'m \<Rightarrow> 'k \<Rightarrow> 'v option"
    and put :: "'k \<Rightarrow> 'v \<Rightarrow> 'm \<Rightarrow> 'm"
    and del :: "'k \<Rightarrow> 'm \<Rightarrow> 'm"
    and sweep :: "('v \<Rightarrow> bool) \<Rightarrow> 'm \<Rightarrow> 'm"
    and len :: "'m \<Rightarrow> nat"
  assumes get_empty: "get empty k = None"
    and get_put: "get (put k v m) = (get m)(k \<mapsto> v)"
    and get_del: "get (del k m) = (get m)(k := None)"
    and get_sweep: "get (sweep P m) k = Some v \<longleftrightarrow> get m k = Some v \<and> \<not> P v"
    and len_empty: "len empty = 0"
    and len_put: "len (put k v m) = (if get m k = None then Suc (len m) else len m)"
    and len_del: "len (del k m) = (if get m k = None then len m else len m - 1)"
    and len_pos: "get m k = Some v \<Longrightarrow> 0 < len m"
    and len_sweep: "len (sweep P m) \<le> len m"
begin

text \<open>Every row of the table satisfies a predicate on its key and value.\<close>

definition rows :: "('k \<Rightarrow> 'v \<Rightarrow> bool) \<Rightarrow> 'm \<Rightarrow> bool" where
  "rows Q m \<longleftrightarrow> (\<forall>k v. get m k = Some v \<longrightarrow> Q k v)"

lemma rowsD: "rows Q m \<Longrightarrow> get m k = Some v \<Longrightarrow> Q k v"
  by (simp add: rows_def)

lemma rows_empty: "rows Q empty"
  by (simp add: rows_def get_empty)

lemma rows_put: "rows Q m \<Longrightarrow> Q k v \<Longrightarrow> rows Q (put k v m)"
  by (simp add: rows_def get_put)

lemma rows_del: "rows Q m \<Longrightarrow> rows Q (del k m)"
  by (simp add: rows_def get_del)

lemma rows_sweep: "rows Q m \<Longrightarrow> rows Q (sweep P m)"
  by (simp add: rows_def get_sweep)

lemma rows_mono: "rows Q m \<Longrightarrow> (\<And>k v. Q k v \<Longrightarrow> R k v) \<Longrightarrow> rows R m"
  by (auto simp: rows_def)

text \<open>A bounded insert: a new key is admitted only below the bound, an old one always.\<close>

lemma bounded_put:
  "len m \<le> cap \<Longrightarrow> get m k \<noteq> None \<or> len m < cap \<Longrightarrow> len (put k v m) \<le> cap"
  by (auto simp: len_put)

lemma bounded_del: "len m \<le> cap \<Longrightarrow> len (del k m) \<le> cap"
  using len_pos [of m k] by (auto simp: len_del)

lemma bounded_sweep: "len m \<le> cap \<Longrightarrow> len (sweep P m) \<le> cap"
  using len_sweep [of P m] by simp

text \<open>Replacing one row by another never grows the table.\<close>

lemma rotate_len:
  assumes "get m old = Some w"
  shows "len (put k v (del old m)) \<le> len m"
  using len_pos [OF assms] assms by (auto simp: len_put len_del get_del)

lemma get_after_del: "get (del k m) k = None"
  by (simp add: get_del)

lemma del_None_iff: "get (del k m) j = None \<longleftrightarrow> j = k \<or> get m j = None"
  by (simp add: get_del)

lemma sweep_None: "get m k = None \<Longrightarrow> get (sweep P m) k = None"
  using get_sweep [of P m k] by (cases "get (sweep P m) k") auto

end

interpretation gm: table gempty gget gput gdel gsweep glen
  by unfold_locales (auto simp: glen_pos)

lemmas gmap_bounds = gm.bounded_put gm.bounded_del gm.bounded_sweep gm.rotate_len
lemmas gmap_rows [invI] = gm.rows_empty gm.rows_put gm.rows_del gm.rows_sweep

section \<open>Byte-string lemmas\<close>

lemma HasPrefix_iff: "HasPrefix s p \<longleftrightarrow> (\<exists>t. s = p @ t)"
  by (induction s p rule: HasPrefix.induct) auto

lemma HasPrefix_append [simp]: "HasPrefix (p @ s) p"
  by (simp add: HasPrefix_iff)

lemma TrimPrefix_append [simp]: "TrimPrefix (p @ s) p = s"
  by (simp add: TrimPrefix_def)

lemma digit_char_inj: "d < 10 \<Longrightarrow> e < 10 \<Longrightarrow> digit_char d = digit_char e \<longleftrightarrow> d = e"
proof -
  assume "d < 10" "e < 10"
  then have "(of_char (char_of (48 + d :: nat) :: char) :: nat) = 48 + d"
    "(of_char (char_of (48 + e :: nat) :: char) :: nat) = 48 + e"
    by simp_all
  then show ?thesis unfolding digit_char_def by (metis add_left_cancel)
qed

lemma itoa_nat_ne [simp]: "itoa_nat n \<noteq> []"
  by (subst itoa_nat.simps) simp

lemma itoa_nat_inj: "itoa_nat m = itoa_nat n \<longleftrightarrow> m = n"
proof (induction m arbitrary: n rule: itoa_nat.induct)
  case (1 m)
  show ?case
  proof (cases "m < 10 \<or> n < 10")
    case True
    then show ?thesis
      by (subst (1 2) itoa_nat.simps) (auto simp: digit_char_inj append_eq_Cons_conv dest: sym)
  next
    case False
    then have m: "itoa_nat m = itoa_nat (m div 10) @ [digit_char (m mod 10)]"
      and n: "itoa_nat n = itoa_nat (n div 10) @ [digit_char (n mod 10)]"
      by (simp_all add: itoa_nat.simps)
    have "itoa_nat m = itoa_nat n \<longleftrightarrow> m div 10 = n div 10 \<and> m mod 10 = n mod 10"
      unfolding m n using False 1 [of "n div 10"] by (simp add: digit_char_inj)
    then show ?thesis by (metis div_mult_mod_eq)
  qed
qed

end
