(* ===== verification/Domainerr.thy ===== *)
theory Domainerr
  imports Prelude
begin

text \<open>
  Errors. A Go error is kept unrendered: the format string with its arguments
  (\<^verbatim>\<open>fmt.Errorf\<close>), an error wrapped with \<^verbatim>\<open>%w\<close>, or a domain error of
  \<^verbatim>\<open>internal/domainerr\<close> with its code. \<open>CodeOf\<close> sees through wrapping as \<^verbatim>\<open>errors.As\<close> does.
\<close>

datatype go_error =
    Errorf string "string list"
  | Wrapf string "string list" go_error
  | DomainError string string "string list"

definition CodeRevisionConflict :: string where "CodeRevisionConflict = ''revision_conflict''"
definition CodeValidation :: string where "CodeValidation = ''validation_failed''"
definition CodeNotFound :: string where "CodeNotFound = ''not_found''"
definition CodeConflict :: string where "CodeConflict = ''conflict''"
definition CodeInternal :: string where "CodeInternal = ''internal''"
definition CodeUnauthorized :: string where "CodeUnauthorized = ''unauthorized''"
definition CodeForbidden :: string where "CodeForbidden = ''forbidden''"
definition CodeProtocol :: string where "CodeProtocol = ''unsupported_protocol_version''"

lemmas code_defs [gosimps] = CodeRevisionConflict_def CodeValidation_def CodeNotFound_def
  CodeConflict_def CodeInternal_def CodeUnauthorized_def CodeForbidden_def CodeProtocol_def

definition RevisionConflict :: "string \<Rightarrow> string \<Rightarrow> go_error" where
  "RevisionConflict current expected = DomainError CodeRevisionConflict
     ''active revision %s does not match expectedRevision %s'' [current, expected]"

definition Validation :: "string \<Rightarrow> string list \<Rightarrow> go_error" where
  "Validation msg args = DomainError CodeValidation msg args"

definition NotFound :: "string \<Rightarrow> string list \<Rightarrow> go_error" where
  "NotFound msg args = DomainError CodeNotFound msg args"

definition Conflict :: "string \<Rightarrow> string list \<Rightarrow> go_error" where
  "Conflict msg args = DomainError CodeConflict msg args"

definition Unauthorized :: "string \<Rightarrow> string list \<Rightarrow> go_error" where
  "Unauthorized msg args = DomainError CodeUnauthorized msg args"

definition Forbidden :: "string \<Rightarrow> string list \<Rightarrow> go_error" where
  "Forbidden msg args = DomainError CodeForbidden msg args"

definition Protocol :: "string \<Rightarrow> string list \<Rightarrow> go_error" where
  "Protocol msg args = DomainError CodeProtocol msg args"

lemmas domainerr_defs [gosimps] = RevisionConflict_def Validation_def NotFound_def Conflict_def
  Unauthorized_def Forbidden_def Protocol_def

fun CodeOf :: "go_error \<Rightarrow> string" where
  "CodeOf (Errorf f args) = []"
| "CodeOf (Wrapf f args e) = CodeOf e"
| "CodeOf (DomainError c f args) = c"

text \<open>A sequence of checks: the first failing one is the result, as with early returns.\<close>

definition check :: "bool \<Rightarrow> go_error \<Rightarrow> go_error option" where
  "check bad e = (if bad then Some e else None)"

fun first_err :: "go_error option list \<Rightarrow> go_error option" where
  "first_err [] = None"
| "first_err (None # es) = first_err es"
| "first_err (Some e # es) = Some e"

lemma check_None [simp]: "check bad e = None \<longleftrightarrow> \<not> bad"
  by (simp add: check_def)

lemma first_err_None: "first_err es = None \<longleftrightarrow> (\<forall>e \<in> set es. e = None)"
  by (induction es rule: first_err.induct) auto

lemma first_err_Cons_None [simp]: "first_err (e # es) = None \<longleftrightarrow> e = None \<and> first_err es = None"
  by (cases e) auto

lemma first_err_append_None [simp]:
  "first_err (es @ fs) = None \<longleftrightarrow> first_err es = None \<and> first_err fs = None"
  by (induction es) auto

end
