(* ===== verification/Totp.thy ===== *)
theory Totp
  imports Domainerr "HOL-Library.Word"
begin

unbundle bit_operations_syntax

text \<open>
  \<^verbatim>\<open>internal/totp\<close>: the HOTP truncation over a MAC (\<open>hmac\<close>, HMAC-SHA-1 in the program, an
  argument here), the TOTP verification window, and the parsing of secret files over a base-32
  decoder (\<open>b32\<close> padded, \<open>b32raw\<close> unpadded).
\<close>

definition Period :: int where "Period = 30"
definition Digits :: nat where "Digits = 6"
definition MinSecret :: nat where "MinSecret = 10"
definition ACR :: string where "ACR = ''urn:labsso:acr:mfa''"

definition byte_at :: "string \<Rightarrow> nat \<Rightarrow> 64 word" where
  "byte_at s i = of_nat (of_char (s ! i))"

text \<open>\<^verbatim>\<open>binary.BigEndian.PutUint64\<close>\<close>

definition be64 :: "64 word \<Rightarrow> string" where
  "be64 w = map (\<lambda>i. char_of (unat (drop_bit (56 - 8 * i) w AND 255))) [0..<8]"

text \<open>The decimal rendering \<^verbatim>\<open>%06d\<close>.\<close>

definition pad6 :: "nat \<Rightarrow> string" where
  "pad6 n = (let s = itoa_nat n in replicate (6 - length s) (CHR ''0'') @ s)"

definition hotp_bin :: "string \<Rightarrow> 64 word" where
  "hotp_bin mac = (let off = unat (byte_at mac (length mac - 1) AND 15) in
     push_bit 24 (byte_at mac off AND 127) OR push_bit 16 (byte_at mac (off + 1))
       OR push_bit 8 (byte_at mac (off + 2)) OR byte_at mac (off + 3))"

definition hotp :: "(string \<Rightarrow> string \<Rightarrow> string) \<Rightarrow> string \<Rightarrow> int \<Rightarrow> string" where
  "hotp hmac secret counter =
     pad6 (unat (hotp_bin (hmac secret (be64 (of_int counter)))) mod 1000000)"

definition Code :: "(string \<Rightarrow> string \<Rightarrow> string) \<Rightarrow> string \<Rightarrow> go_time \<Rightarrow> string" where
  "Code hmac secret now = hotp hmac secret (go_div (Unix now) Period)"

text \<open>The step that matched, tried in the order current, previous, next.\<close>

definition Verify :: "(string \<Rightarrow> string \<Rightarrow> string) \<Rightarrow> string \<Rightarrow> string \<Rightarrow> go_time \<Rightarrow> int option" where
  "Verify hmac secret code0 now = (let code = TrimSpace code0 in
     if length code \<noteq> Digits then None
     else let t = go_div (Unix now) Period
          in find (\<lambda>step. hotp hmac secret step = code) [t, t - 1, t + 1])"

fun first_line :: "string list \<Rightarrow> string" where
  "first_line [] = []"
| "first_line (l # ls) = (let s = TrimSpace l in
     if s = [] \<or> HasPrefix s ''#'' then first_line ls else s)"

definition ParseSecret ::
  "(string \<Rightarrow> string option) \<Rightarrow> (string \<Rightarrow> string option) \<Rightarrow> string \<Rightarrow> go_error + string" where
  "ParseSecret b32 b32raw raw = (let l = first_line (Split raw (CHR 0x0A)) in
     if l = [] then Inl (Errorf ''empty totp secret'' [])
     else let s = filter (\<lambda>c. c \<noteq> CHR '' '') l;
              dec = (case b32 s of Some b \<Rightarrow> Some b | None \<Rightarrow> b32raw (TrimRight s ''=''))
          in case dec of
            None \<Rightarrow> Inl (Errorf ''invalid totp secret: %w'' [])
          | Some secret \<Rightarrow>
              if length secret < MinSecret
              then Inl (Errorf ''totp secret shorter than %d bytes'' [itoa_nat MinSecret])
              else Inr secret)"

section \<open>Lemmas\<close>

lemma itoa_nat_length: "n < 10 ^ Suc k \<Longrightarrow> length (itoa_nat n) \<le> Suc k"
proof (induction k arbitrary: n)
  case 0
  then show ?case by (subst itoa_nat.simps) simp
next
  case (Suc k)
  show ?case
  proof (cases "n < 10")
    case True
    then show ?thesis by (subst itoa_nat.simps) simp
  next
    case False
    have "n div 10 < 10 ^ Suc k" using Suc.prems by (simp add: less_mult_imp_div_less)
    then have "length (itoa_nat (n div 10)) \<le> Suc k" by (rule Suc.IH)
    with False show ?thesis by (subst itoa_nat.simps) simp
  qed
qed

lemma pad6_length: "n < 1000000 \<Longrightarrow> length (pad6 n) = 6"
  using itoa_nat_length [of n 5] by (simp add: pad6_def Let_def)

lemma hotp_length: "length (hotp hmac secret counter) = 6"
  by (simp add: hotp_def pad6_length)

lemma Verify_Some:
  "Verify hmac secret code now = Some step \<Longrightarrow>
     hotp hmac secret step = TrimSpace code \<and> \<bar>step - go_div (Unix now) Period\<bar> \<le> 1"
  by (auto simp: Verify_def Let_def split: if_splits)

lemma itoa_nat_digits: "list_all is_digit (itoa_nat n)"
proof (induction n rule: itoa_nat.induct)
  case (1 n)
  have d: "is_digit (digit_char (m mod 10))" for m :: nat
  proof -
    have "(of_char (char_of (48 + m mod 10 :: nat) :: char) :: nat) = 48 + m mod 10" by simp
    then show ?thesis by (simp add: is_digit_def digit_char_def)
  qed
  show ?case
  proof (cases "n < 10")
    case True
    then show ?thesis using d [of n] by (subst itoa_nat.simps) simp
  next
    case False
    then show ?thesis using 1 d [of n] by (subst itoa_nat.simps) simp
  qed
qed

lemma hotp_no_space: "TrimSpace (hotp hmac secret counter) = hotp hmac secret counter"
proof -
  have dig: "list_all is_digit (hotp hmac secret counter)"
    using itoa_nat_digits
    by (auto simp: hotp_def pad6_def Let_def list_all_iff is_digit_def)
  have nsp: "\<not> is_space c" if "is_digit c" for c
    using that by (auto simp: is_space_def is_digit_def)
  let ?h = "hotp hmac secret counter"
  have all: "\<forall>c \<in> set ?h. \<not> is_space c" using dig nsp by (auto simp: list_all_iff)
  then have "dropWhile is_space ?h = ?h" by (cases ?h) auto
  moreover have "dropWhile is_space (rev ?h) = rev ?h" using all by (cases "rev ?h") (auto dest: arg_cong [where f = set])
  ultimately show ?thesis by (simp add: TrimSpace_def)
qed

end
