(* ===== verification/Runtime.thy ===== *)
theory Runtime
  imports Totp
begin

text \<open>
  \<^verbatim>\<open>internal/oidc/runtime.go\<close> and \<^verbatim>\<open>rejection.go\<close>: the mutable protocol state shared by the OIDC,
  SAML, WS-Fed and login handlers. Every operation of the code holds the runtime mutex, so each
  is one atomic state transformer here. A read of \<^verbatim>\<open>time.Now()\<close> is an argument of the operation
  and so is the identifier that \<^verbatim>\<open>randomID()\<close> returns. The reject callback is the trace
  \<open>rt_rejects\<close> of the reasons it was called with, kept when a callback is installed.
\<close>

section \<open>State\<close>

record pending =
  pd_Generation :: int
  pd_ID :: string
  pd_Protocol :: string
  pd_ClientID :: string
  pd_RedirectURI :: string
  pd_Scope :: string
  pd_State :: string
  pd_Nonce :: string
  pd_Challenge :: string
  pd_Method :: string
  pd_ACSURL :: string
  pd_RequestID :: string
  pd_SPEntityID :: string
  pd_RelayState :: string
  pd_Created :: go_time

definition zero_pending :: pending where
  "zero_pending = \<lparr>pd_Generation = 0, pd_ID = [], pd_Protocol = [], pd_ClientID = [],
     pd_RedirectURI = [], pd_Scope = [], pd_State = [], pd_Nonce = [], pd_Challenge = [],
     pd_Method = [], pd_ACSURL = [], pd_RequestID = [], pd_SPEntityID = [], pd_RelayState = [],
     pd_Created = 0\<rparr>"

definition ProtocolOIDC :: string where "ProtocolOIDC = ''oidc''"
definition ProtocolSAML :: string where "ProtocolSAML = ''saml''"

record authcode =
  ac_Generation :: int
  ac_Code :: string
  ac_ClientID :: string
  ac_RedirectURI :: string
  ac_UserID :: string
  ac_Username :: string
  ac_Scope :: string
  ac_Nonce :: string
  ac_Challenge :: string
  ac_Expires :: go_time
  ac_MFACompleted :: bool

record refresh =
  rf_Generation :: int
  rf_Token :: string
  rf_ClientID :: string
  rf_UserID :: string
  rf_Username :: string
  rf_Scope :: string
  rf_Expires :: go_time
  rf_MFACompleted :: bool

record loginsession =
  ss_Generation :: int
  ss_ID :: string
  ss_UserID :: string
  ss_Username :: string
  ss_Expires :: go_time
  ss_MFACompleted :: bool

definition zero_session :: loginsession where
  "zero_session = \<lparr>ss_Generation = 0, ss_ID = [], ss_UserID = [], ss_Username = [],
     ss_Expires = 0, ss_MFACompleted = False\<rparr>"

record runtime =
  rt_minimumGeneration :: int
  rt_hasReject :: bool
  rt_rejects :: "string list"
  rt_pending :: "pending gmap"
  rt_codes :: "authcode gmap"
  rt_refresh :: "refresh gmap"
  rt_sessions :: "loginsession gmap"
  rt_totpOverlay :: "string gmap"
  rt_totpLastStep :: "int gmap"
  rt_paused :: bool
  rt_forceFail :: bool
  rt_forceConsent :: bool
  rt_inject :: string

definition NewRuntime :: runtime where
  "NewRuntime = \<lparr>rt_minimumGeneration = 0, rt_hasReject = False, rt_rejects = [],
     rt_pending = gempty, rt_codes = gempty, rt_refresh = gempty, rt_sessions = gempty,
     rt_totpOverlay = gempty, rt_totpLastStep = gempty, rt_paused = False, rt_forceFail = False,
     rt_forceConsent = False, rt_inject = []\<rparr>"

definition maxRows :: nat where "maxRows = 4096"
definition pendingTTL :: go_duration where "pendingTTL = 10 * Minute"

section \<open>Bounds and expiry\<close>

definition pending_fields :: "pending \<Rightarrow> string list" where
  "pending_fields p = [pd_ID p, pd_Protocol p, pd_ClientID p, pd_RedirectURI p, pd_Scope p,
     pd_State p, pd_Nonce p, pd_Challenge p, pd_Method p, pd_ACSURL p, pd_RequestID p,
     pd_SPEntityID p, pd_RelayState p]"

definition PendingBounded :: "pending \<Rightarrow> bool" where
  "PendingBounded p =
     (if length (pd_Nonce p) > 1024 \<or> length (pd_Scope p) > 1024 \<or> length (pd_RequestID p) > 1024
      then False
      else list_all (\<lambda>f. length f \<le> 4096) (pending_fields p)
           \<and> sum_list (map length (pending_fields p)) \<le> 16384)"

definition pending_expired :: "go_time \<Rightarrow> pending \<Rightarrow> bool" where
  "pending_expired now p = After now (pd_Created p + pendingTTL)"

definition session_expired :: "go_time \<Rightarrow> loginsession \<Rightarrow> bool" where
  "session_expired now s = (\<not> IsZero (ss_Expires s) \<and> After now (ss_Expires s))"

definition cleanupLocked :: "go_time \<Rightarrow> runtime \<Rightarrow> runtime" where
  "cleanupLocked now r = r\<lparr>
     rt_pending := gsweep (pending_expired now) (rt_pending r),
     rt_codes := gsweep (\<lambda>c. After now (ac_Expires c)) (rt_codes r),
     rt_refresh := gsweep (\<lambda>t. After now (rf_Expires t)) (rt_refresh r),
     rt_sessions := gsweep (session_expired now) (rt_sessions r)\<rparr>"

definition GenerationUsable :: "int \<Rightarrow> runtime \<Rightarrow> bool" where
  "GenerationUsable g r = (g = 0 \<or> g \<ge> rt_minimumGeneration r)"

text \<open>The guard \<^verbatim>\<open>Generation != 0 && Generation < minimumGeneration\<close> of every insertion.\<close>

definition stale_generation :: "int \<Rightarrow> runtime \<Rightarrow> bool" where
  "stale_generation g r = (g \<noteq> 0 \<and> g < rt_minimumGeneration r)"

section \<open>Pending requests\<close>

definition PutPending :: "go_time \<Rightarrow> go_time \<Rightarrow> string \<Rightarrow> pending \<Rightarrow> runtime \<Rightarrow> pending \<times> runtime" where
  "PutPending now now' rid p r =
     (if \<not> PendingBounded p then (zero_pending, r)
      else if stale_generation (pd_Generation p) r then (zero_pending, r)
      else let r1 = cleanupLocked now r in
        if gget (rt_pending r1) (pd_ID p) = None \<and> glen (rt_pending r1) \<ge> maxRows
        then (zero_pending, r1)
        else let p1 = (if pd_ID p = [] then p\<lparr>pd_ID := rid\<rparr> else p);
                 p2 = (if IsZero (pd_Created p1) then p1\<lparr>pd_Created := now'\<rparr> else p1)
             in (p2, r1\<lparr>rt_pending := gput (pd_ID p2) p2 (rt_pending r1)\<rparr>))"

definition livePendingLocked :: "go_time \<Rightarrow> string \<Rightarrow> runtime \<Rightarrow> pending option \<times> runtime" where
  "livePendingLocked now pid r = (case gget (rt_pending r) pid of
     None \<Rightarrow> (None, r)
   | Some p \<Rightarrow>
       if \<not> IsZero (pd_Created p) \<and> After now (pd_Created p + pendingTTL)
       then (None, r\<lparr>rt_pending := gdel pid (rt_pending r)\<rparr>)
       else (Some p, r))"

definition GetPending :: "go_time \<Rightarrow> string \<Rightarrow> runtime \<Rightarrow> pending option \<times> runtime" where
  "GetPending now pid r = livePendingLocked now pid r"

definition TakePending :: "go_time \<Rightarrow> string \<Rightarrow> runtime \<Rightarrow> pending option \<times> runtime" where
  "TakePending now pid r = (let (p, r1) = livePendingLocked now pid r
     in (p, if p \<noteq> None then r1\<lparr>rt_pending := gdel pid (rt_pending r1)\<rparr> else r1))"

section \<open>Authorization codes\<close>

definition PutCode :: "go_time \<Rightarrow> authcode \<Rightarrow> runtime \<Rightarrow> bool \<times> runtime" where
  "PutCode now c r =
     (if stale_generation (ac_Generation c) r then (False, r)
      else let r1 = cleanupLocked now r in
        if gget (rt_codes r1) (ac_Code c) = None \<and> glen (rt_codes r1) \<ge> maxRows then (False, r1)
        else (True, r1\<lparr>rt_codes := gput (ac_Code c) c (rt_codes r1)\<rparr>))"

definition TakeCode :: "string \<Rightarrow> runtime \<Rightarrow> authcode option \<times> runtime" where
  "TakeCode code r = (let c = gget (rt_codes r) code
     in (c, if c \<noteq> None then r\<lparr>rt_codes := gdel code (rt_codes r)\<rparr> else r))"

section \<open>Refresh tokens\<close>

definition PutRefresh :: "go_time \<Rightarrow> refresh \<Rightarrow> runtime \<Rightarrow> bool \<times> runtime" where
  "PutRefresh now t r =
     (if stale_generation (rf_Generation t) r then (False, r)
      else let r1 = cleanupLocked now r in
        if gget (rt_refresh r1) (rf_Token t) = None \<and> glen (rt_refresh r1) \<ge> maxRows then (False, r1)
        else (True, r1\<lparr>rt_refresh := gput (rf_Token t) t (rt_refresh r1)\<rparr>))"

definition GetRefresh :: "string \<Rightarrow> runtime \<Rightarrow> refresh option" where
  "GetRefresh token r = gget (rt_refresh r) token"

definition TakeRefresh :: "string \<Rightarrow> runtime \<Rightarrow> refresh option \<times> runtime" where
  "TakeRefresh token r = (let t = gget (rt_refresh r) token
     in (t, if t \<noteq> None then r\<lparr>rt_refresh := gdel token (rt_refresh r)\<rparr> else r))"

definition RotateRefresh :: "go_time \<Rightarrow> string \<Rightarrow> refresh \<Rightarrow> runtime \<Rightarrow> bool \<times> runtime" where
  "RotateRefresh now old nxt r = (case gget (rt_refresh r) old of
     None \<Rightarrow> (False, r)
   | Some t \<Rightarrow>
       if After now (rf_Expires t) \<or> stale_generation (rf_Generation nxt) r then (False, r)
       else (True, r\<lparr>rt_refresh := gput (rf_Token nxt) nxt (gdel old (rt_refresh r))\<rparr>))"

section \<open>Login sessions\<close>

definition PutSession :: "go_time \<Rightarrow> string \<Rightarrow> loginsession \<Rightarrow> runtime \<Rightarrow> loginsession \<times> runtime" where
  "PutSession now rid s r =
     (if stale_generation (ss_Generation s) r then (zero_session, r)
      else let r1 = cleanupLocked now r in
        if gget (rt_sessions r1) (ss_ID s) = None \<and> glen (rt_sessions r1) \<ge> maxRows
        then (zero_session, r1)
        else let s1 = (if ss_ID s = [] then s\<lparr>ss_ID := rid\<rparr> else s)
             in (s1, r1\<lparr>rt_sessions := gput (ss_ID s1) s1 (rt_sessions r1)\<rparr>))"

definition GetSession :: "go_time \<Rightarrow> string \<Rightarrow> runtime \<Rightarrow> loginsession option \<times> runtime" where
  "GetSession now sid r = (case gget (rt_sessions r) sid of
     None \<Rightarrow> (None, r)
   | Some s \<Rightarrow>
       if session_expired now s then (None, r\<lparr>rt_sessions := gdel sid (rt_sessions r)\<rparr>)
       else (Some s, r))"

definition ListSessions :: "go_time \<Rightarrow> runtime \<Rightarrow> loginsession list \<times> runtime" where
  "ListSessions now r = (let live = gsweep (session_expired now) (rt_sessions r)
     in (gvals live, r\<lparr>rt_sessions := live\<rparr>))"

definition ExpireAll :: "runtime \<Rightarrow> nat \<times> runtime" where
  "ExpireAll r = (glen (rt_sessions r),
     r\<lparr>rt_sessions := gempty, rt_codes := gempty, rt_refresh := gempty\<rparr>)"

definition purgeUserLocked :: "string \<Rightarrow> runtime \<Rightarrow> runtime" where
  "purgeUserLocked uid r = r\<lparr>
     rt_codes := gsweep (\<lambda>c. ac_UserID c = uid) (rt_codes r),
     rt_refresh := gsweep (\<lambda>t. rf_UserID t = uid) (rt_refresh r)\<rparr>"

definition ExpireSession :: "string \<Rightarrow> runtime \<Rightarrow> bool \<times> runtime" where
  "ExpireSession sid r = (case gget (rt_sessions r) sid of
     None \<Rightarrow> (False, r)
   | Some s \<Rightarrow> (True, purgeUserLocked (ss_UserID s) (r\<lparr>rt_sessions := gdel sid (rt_sessions r)\<rparr>)))"

section \<open>Purge, reset and generations\<close>

definition purgeProtocolLocked :: "runtime \<Rightarrow> runtime" where
  "purgeProtocolLocked r = r\<lparr>rt_pending := gempty, rt_codes := gempty, rt_refresh := gempty,
     rt_sessions := gempty\<rparr>"

definition PurgeProtocol :: "runtime \<Rightarrow> runtime" where
  "PurgeProtocol r = purgeProtocolLocked r"

definition Reset :: "runtime \<Rightarrow> runtime" where
  "Reset r = (purgeProtocolLocked r)\<lparr>rt_totpOverlay := gempty, rt_totpLastStep := gempty,
     rt_paused := False, rt_forceFail := False, rt_forceConsent := False, rt_inject := []\<rparr>"

definition InvalidateBefore :: "int \<Rightarrow> runtime \<Rightarrow> runtime" where
  "InvalidateBefore g r = purgeProtocolLocked (r\<lparr>rt_minimumGeneration := g\<rparr>)"

section \<open>Second factor\<close>

definition GetTOTPOverlay :: "string \<Rightarrow> runtime \<Rightarrow> string option" where
  "GetTOTPOverlay uid r = gget (rt_totpOverlay r) uid"

definition SetTOTPOverlay :: "string \<Rightarrow> string \<Rightarrow> runtime \<Rightarrow> runtime" where
  "SetTOTPOverlay uid secret r = r\<lparr>rt_totpOverlay := gput uid secret (rt_totpOverlay r),
     rt_totpLastStep := gdel uid (rt_totpLastStep r)\<rparr>"

definition ClearTOTPOverlay :: "string \<Rightarrow> runtime \<Rightarrow> runtime" where
  "ClearTOTPOverlay uid r = r\<lparr>rt_totpOverlay := gdel uid (rt_totpOverlay r),
     rt_totpLastStep := gdel uid (rt_totpLastStep r)\<rparr>"

definition HasTOTPOverlay :: "string \<Rightarrow> runtime \<Rightarrow> bool" where
  "HasTOTPOverlay uid r = (gget (rt_totpOverlay r) uid \<noteq> None)"

definition VerifyAndRecordTOTPGeneration ::
  "(string \<Rightarrow> string \<Rightarrow> string) \<Rightarrow> string \<Rightarrow> string \<Rightarrow> string \<Rightarrow> go_time \<Rightarrow> int \<Rightarrow> runtime \<Rightarrow> bool \<times> runtime" where
  "VerifyAndRecordTOTPGeneration hmac uid secret code now generation r =
     (case Verify hmac secret code now of
        None \<Rightarrow> (False, r)
      | Some step \<Rightarrow>
          if stale_generation generation r then (False, r)
          else if (case gget (rt_totpLastStep r) uid of None \<Rightarrow> False | Some l \<Rightarrow> step \<le> l) then (False, r)
          else (True, r\<lparr>rt_totpLastStep := gput uid step (rt_totpLastStep r)\<rparr>))"

definition VerifyAndRecordTOTP ::
  "(string \<Rightarrow> string \<Rightarrow> string) \<Rightarrow> string \<Rightarrow> string \<Rightarrow> string \<Rightarrow> go_time \<Rightarrow> runtime \<Rightarrow> bool \<times> runtime" where
  "VerifyAndRecordTOTP hmac uid secret code now r =
     VerifyAndRecordTOTPGeneration hmac uid secret code now 0 r"

definition ExpireIncompleteMFA :: "runtime \<Rightarrow> runtime" where
  "ExpireIncompleteMFA r = r\<lparr>
     rt_sessions := gsweep (\<lambda>s. \<not> ss_MFACompleted s) (rt_sessions r),
     rt_codes := gsweep (\<lambda>c. \<not> ac_MFACompleted c) (rt_codes r),
     rt_refresh := gsweep (\<lambda>t. \<not> rf_MFACompleted t) (rt_refresh r)\<rparr>"

definition SessionUsable :: "loginsession \<Rightarrow> string \<Rightarrow> bool" where
  "SessionUsable s mode =
     (if mode = ''force-fail'' \<or> (mode = ''always'' \<and> \<not> ss_MFACompleted s) then False else True)"

section \<open>Tunables and the reject callback\<close>

definition SetPaused :: "bool \<Rightarrow> runtime \<Rightarrow> runtime" where "SetPaused v r = r\<lparr>rt_paused := v\<rparr>"
definition SetForceFail :: "bool \<Rightarrow> runtime \<Rightarrow> runtime" where "SetForceFail v r = r\<lparr>rt_forceFail := v\<rparr>"
definition SetForceConsent :: "bool \<Rightarrow> runtime \<Rightarrow> runtime" where
  "SetForceConsent v r = r\<lparr>rt_forceConsent := v\<rparr>"
definition SetInject :: "string \<Rightarrow> runtime \<Rightarrow> runtime" where "SetInject v r = r\<lparr>rt_inject := v\<rparr>"

definition TakeInject :: "runtime \<Rightarrow> string \<times> runtime" where
  "TakeInject r = (rt_inject r, r\<lparr>rt_inject := []\<rparr>)"

definition SetReject :: "bool \<Rightarrow> runtime \<Rightarrow> runtime" where "SetReject v r = r\<lparr>rt_hasReject := v\<rparr>"

definition Reject :: "string \<Rightarrow> runtime \<Rightarrow> runtime" where
  "Reject reason r = (if rt_hasReject r then r\<lparr>rt_rejects := rt_rejects r @ [reason]\<rparr> else r)"

text \<open>\<^verbatim>\<open>AuditRejected\<close>: a handler that answered with a status of 400 or more is reported.\<close>

definition AuditRejected :: "string \<Rightarrow> nat \<Rightarrow> runtime \<Rightarrow> runtime" where
  "AuditRejected category status r = (if status \<ge> 400 then Reject category r else r)"

lemmas runtime_ops = PutPending_def livePendingLocked_def GetPending_def TakePending_def
  PutCode_def TakeCode_def PutRefresh_def GetRefresh_def TakeRefresh_def RotateRefresh_def
  PutSession_def GetSession_def ListSessions_def ExpireAll_def purgeUserLocked_def
  ExpireSession_def purgeProtocolLocked_def PurgeProtocol_def Reset_def InvalidateBefore_def
  GetTOTPOverlay_def SetTOTPOverlay_def ClearTOTPOverlay_def HasTOTPOverlay_def
  VerifyAndRecordTOTPGeneration_def VerifyAndRecordTOTP_def ExpireIncompleteMFA_def
  SetPaused_def SetForceFail_def SetForceConsent_def SetInject_def TakeInject_def
  SetReject_def Reject_def AuditRejected_def cleanupLocked_def

end
