(* ===== verification/Limiter.thy ===== *)
theory Limiter
  imports Prelude
begin

text \<open>
  The sliding-window rate limiter of \<^verbatim>\<open>internal/oidc/limit.go\<close>, duplicated in
  \<^verbatim>\<open>internal/loginui/ui.go\<close>. \<open>allow now key l\<close> is one locked call at the instant \<open>now\<close>.
\<close>

record limiter =
  lm_n :: int
  lm_window :: go_duration
  lm_hits :: "go_time list gmap"

definition newLimiter :: "int \<Rightarrow> go_duration \<Rightarrow> limiter" where
  "newLimiter n window = \<lparr>lm_n = n, lm_window = window, lm_hits = gempty\<rparr>"

definition maxKeys :: nat where "maxKeys = 4096"

definition stale :: "go_time \<Rightarrow> go_time list \<Rightarrow> bool" where
  "stale c hits = (hits = [] \<or> \<not> After (last hits) c)"

definition allow :: "go_time \<Rightarrow> string \<Rightarrow> limiter \<Rightarrow> bool \<times> limiter" where
  "allow now key l = (let
     c = now - lm_window l;
     hits = gsweep (stale c) (lm_hits l)
   in if gget hits key = None \<and> glen hits \<ge> maxKeys then (False, l\<lparr>lm_hits := hits\<rparr>)
      else let kept = filter (\<lambda>t. After t c) (gget_or [] hits key)
           in if int (length kept) \<ge> lm_n l then (False, l\<lparr>lm_hits := gput key kept hits\<rparr>)
              else (True, l\<lparr>lm_hits := gput key (kept @ [now]) hits\<rparr>))"

text \<open>A run: the requests in order, each with its instant and key; the outcome of each.\<close>

fun allow_run :: "limiter \<Rightarrow> (go_time \<times> string) list \<Rightarrow> bool list \<times> limiter" where
  "allow_run l [] = ([], l)"
| "allow_run l ((now, key) # rs) =
     (let (ok, l1) = allow now key l; (oks, l2) = allow_run l1 rs in (ok # oks, l2))"

end
