(* ===== verification/Model.thy ===== *)
theory Model
  imports Domainerr
begin

text \<open>
  The configuration document of \<^verbatim>\<open>internal/model\<close>: its records, the validation of hosts,
  ports, URIs, listen addresses and management paths (\<^verbatim>\<open>urls.go\<close>), the structural validation
  \<open>ValidateIDs\<close> (\<^verbatim>\<open>document.go\<close>) and the change operations (\<^verbatim>\<open>operation.go\<close>), together with
  \<open>Normalize\<close> of \<^verbatim>\<open>internal/config/load.go\<close>.

  A \<^verbatim>\<open>*bool\<close> is a \<^typ>\<open>bool option\<close>; a nil slice and an empty slice are the same list. The
  parsers \<^verbatim>\<open>url.Parse\<close> and \<^verbatim>\<open>net.ParseIP\<close> are arguments, collected in the record \<open>netlib\<close>.
\<close>

section \<open>Parsers of the standard library\<close>

record url =
  url_Scheme :: string
  url_Opaque :: string
  url_HasUser :: bool
  url_Host :: string
  url_Path :: string
  url_RawQuery :: string
  url_ForceQuery :: bool
  url_Fragment :: string
  url_Hostname :: string
  url_Port :: string

record netlib =
  url_Parse :: "string \<Rightarrow> url option"
  net_ParseIP :: "string \<Rightarrow> bool"
  net_IsLoopback :: "string \<Rightarrow> bool"

text \<open>
  \<^verbatim>\<open>net.SplitHostPort\<close>: the port follows the last colon; a bracketed host may contain colons;
  any other bracket or extra colon is an error.
\<close>

definition last_colon :: "string \<Rightarrow> (string \<times> string) option" where
  "last_colon s = (let r = rev s; p = takeWhile (\<lambda>c. c \<noteq> CHR '':'') r
     in if length p = length r then None
        else Some (rev (drop (Suc (length p)) r), rev p))"

definition SplitHostPort :: "string \<Rightarrow> (string \<times> string) option" where
  "SplitHostPort hp = (case last_colon hp of
     None \<Rightarrow> None
   | Some (pre, port) \<Rightarrow>
       if HasPrefix hp ''['' then
         (let host = takeWhile (\<lambda>c. c \<noteq> CHR '']'') (drop 1 pre)
          in if pre = CHR ''['' # host @ '']''
                \<and> CHR ''['' \<notin> set host \<and> CHR ''['' \<notin> set port \<and> CHR '']'' \<notin> set port
             then Some (host, port) else None)
       else if CHR '':'' \<in> set pre \<or> CHR ''['' \<in> set hp \<or> CHR '']'' \<in> set hp then None
       else Some (pre, port))"

text \<open>\<^verbatim>\<open>path.Clean\<close>: drop empty and dot elements, resolve dot-dot elements lexically.\<close>

fun clean_elems :: "bool \<Rightarrow> string list \<Rightarrow> string list \<Rightarrow> string list" where
  "clean_elems rooted acc [] = rev acc"
| "clean_elems rooted acc (e # es) =
     (if e = [] \<or> e = ''.'' then clean_elems rooted acc es
      else if e = ''..'' then
        (case acc of
           a # acc' \<Rightarrow> if a \<noteq> ''..'' then clean_elems rooted acc' es
                       else clean_elems rooted (e # acc) es
         | [] \<Rightarrow> if rooted then clean_elems rooted [] es else clean_elems rooted [e] es)
      else clean_elems rooted (e # acc) es)"

fun join_slash :: "string list \<Rightarrow> string" where
  "join_slash [] = []"
| "join_slash [e] = e"
| "join_slash (e # es) = e @ ''/'' @ join_slash es"

definition path_Clean :: "string \<Rightarrow> string" where
  "path_Clean p = (if p = [] then ''.''
     else let rooted = HasPrefix p ''/'';
              body = join_slash (clean_elems rooted [] (Split p (CHR ''/'')))
          in if rooted then CHR ''/'' # body else if body = [] then ''.'' else body)"

text \<open>\<^verbatim>\<open>strconv.Atoi\<close> on a string already known to hold digits only.\<close>

definition atoi_digits :: "string \<Rightarrow> nat" where
  "atoi_digits s = foldl (\<lambda>n c. 10 * n + (of_char c - 48)) 0 s"

section \<open>The document\<close>

definition APIVersion :: string where "APIVersion = ''labsso.dev/v1alpha1''"
definition Kind :: string where "Kind = ''LabSSO''"

record httpslistener =
  hl_Address :: string
  hl_CertRef :: string
  hl_KeyRef :: string

record mgmtlistener =
  ml_Address :: string
  ml_RESTPath :: string
  ml_MCPPath :: string
  ml_AllowLegacyClients :: bool

record listeners =
  ls_HTTPS :: httpslistener
  ls_Management :: mgmtlistener

record profile =
  pf_Vendor :: string
  pf_TenantID :: string

record protocols =
  pr_OIDC :: "bool option"
  pr_SAML :: "bool option"
  pr_WSFed :: "bool option"

record client_saml =
  cs_EntityID :: string
  cs_ACSURLs :: "string list"

record client =
  cl_ID :: string
  cl_ClientID :: string
  cl_RedirectURIs :: "string list"
  cl_Public :: bool
  cl_SecretRef :: string
  cl_Scopes :: "string list"
  cl_PreConsent :: bool
  cl_SAML :: client_saml

record user =
  us_ID :: string
  us_Username :: string
  us_Email :: string
  us_PasswordRef :: string
  us_PasswordHashRef :: string
  us_TOTPSecretRef :: string
  us_GroupIDs :: "string list"
  us_Enabled :: "bool option"

record group =
  gr_ID :: string
  gr_Name :: string

record auth =
  au_SessionTTL :: go_duration
  au_MFAMode :: string

record group_overage =
  go_EntraGraphStub :: bool
  go_OktaFailAt :: int
  go_GenericCap :: int

record spec =
  sp_Listeners :: listeners
  sp_Issuer :: string
  sp_Profile :: profile
  sp_Protocols :: protocols
  sp_SigningKeyRef :: string
  sp_Clients :: "client list"
  sp_Users :: "user list"
  sp_Groups :: "group list"
  sp_Auth :: auth
  sp_GroupOverage :: group_overage
  sp_UIEnabled :: "bool option"
  sp_AccessTokenRef :: string

record document =
  dc_APIVersion :: string
  dc_Kind :: string
  dc_Name :: string
  dc_Spec :: spec

text \<open>Zero values of the types that the code reads from missing map keys or stores on removal.\<close>

definition zero_client :: client where
  "zero_client = \<lparr>cl_ID = [], cl_ClientID = [], cl_RedirectURIs = [], cl_Public = False,
     cl_SecretRef = [], cl_Scopes = [], cl_PreConsent = False,
     cl_SAML = \<lparr>cs_EntityID = [], cs_ACSURLs = []\<rparr>\<rparr>"

definition zero_user :: user where
  "zero_user = \<lparr>us_ID = [], us_Username = [], us_Email = [], us_PasswordRef = [],
     us_PasswordHashRef = [], us_TOTPSecretRef = [], us_GroupIDs = [], us_Enabled = None\<rparr>"

definition zero_group :: group where "zero_group = \<lparr>gr_ID = [], gr_Name = []\<rparr>"
definition zero_profile :: profile where "zero_profile = \<lparr>pf_Vendor = [], pf_TenantID = []\<rparr>"
definition zero_protocols :: protocols where
  "zero_protocols = \<lparr>pr_OIDC = None, pr_SAML = None, pr_WSFed = None\<rparr>"
definition zero_auth :: auth where "zero_auth = \<lparr>au_SessionTTL = 0, au_MFAMode = []\<rparr>"
definition zero_overage :: group_overage where
  "zero_overage = \<lparr>go_EntraGraphStub = False, go_OktaFailAt = 0, go_GenericCap = 0\<rparr>"
definition zero_mgmt :: mgmtlistener where
  "zero_mgmt = \<lparr>ml_Address = [], ml_RESTPath = [], ml_MCPPath = [], ml_AllowLegacyClients = False\<rparr>"
definition zero_https :: httpslistener where
  "zero_https = \<lparr>hl_Address = [], hl_CertRef = [], hl_KeyRef = []\<rparr>"
definition zero_listeners :: listeners where
  "zero_listeners = \<lparr>ls_HTTPS = zero_https, ls_Management = zero_mgmt\<rparr>"

definition BoolVal :: "bool option \<Rightarrow> bool \<Rightarrow> bool" where
  "BoolVal p def = (case p of None \<Rightarrow> def | Some b \<Rightarrow> b)"

definition IsEnabled :: "bool option \<Rightarrow> bool \<Rightarrow> bool" where
  "IsEnabled p def = BoolVal p def"

definition vendors :: "string list" where
  "vendors = [''generic'', ''entra'', ''okta'', ''ping'', ''adfs'', ''google'', ''keycloak'',
     ''iam-identity-center'', ''duo'', ''siteminder'', ''shibboleth'']"

definition ValidVendor :: "string \<Rightarrow> bool" where
  "ValidVendor v = (v \<in> set vendors)"

definition ValidMFA :: "string \<Rightarrow> bool" where
  "ValidMFA mode = (mode = ''never'' \<or> mode = ''always'' \<or> mode = ''force-fail'')"

section \<open>Hosts, ports, URIs and paths\<close>

definition host_char :: "char \<Rightarrow> bool" where
  "host_char c = (is_lower c \<or> is_upper c \<or> is_digit c \<or> c = CHR ''-'')"

definition valid_label :: "string \<Rightarrow> bool" where
  "valid_label l = (l \<noteq> [] \<and> length l \<le> 63 \<and> hd l \<noteq> CHR ''-'' \<and> last l \<noteq> CHR ''-''
     \<and> list_all host_char l)"

definition ValidHost :: "netlib \<Rightarrow> string \<Rightarrow> bool" where
  "ValidHost N host =
     (if net_ParseIP N host then True
      else if host = [] \<or> length host > 253 then False
      else list_all valid_label (Split host (CHR ''.'')))"

definition ValidPort :: "string \<Rightarrow> bool" where
  "ValidPort port =
     (if port = [] then False
      else if \<not> list_all is_digit port then False
      else let n = atoi_digits port in n < 2 ^ 63 \<and> 0 < n \<and> n \<le> 65535)"

definition is_control :: "char \<Rightarrow> bool" where
  "is_control c = ((of_char c :: nat) < 32 \<or> (of_char c :: nat) = 127)"

definition space_or_control :: "char \<Rightarrow> bool" where
  "space_or_control c = (is_space c \<or> is_control c)"

definition ValidateURI :: "netlib \<Rightarrow> string \<Rightarrow> bool \<Rightarrow> go_error option" where
  "ValidateURI N raw httpsOnly = (case url_Parse N raw of
     None \<Rightarrow> Some (Errorf ''invalid recipient URI'' [])
   | Some u \<Rightarrow>
     if url_Scheme u = [] \<or> url_HasUser u \<or> url_Fragment u \<noteq> []
        \<or> ContainsAny raw [CHR ''*'', CHR 0x5C, CHR ''#''] \<or> list_ex space_or_control raw
     then Some (Errorf ''invalid recipient URI'' [])
     else if url_Scheme u = ''https'' \<or> url_Scheme u = ''http'' then
       (if httpsOnly \<and> url_Scheme u \<noteq> ''https'' then Some (Errorf ''HTTPS required'' [])
        else if \<not> ValidHost N (url_Hostname u) \<or> (url_Port u \<noteq> [] \<and> \<not> ValidPort (url_Port u))
                \<or> HasSuffix (url_Host u) '':''
        then Some (Errorf ''invalid recipient host/port'' [])
        else None)
     else if httpsOnly \<or> url_Scheme u = ''javascript'' \<or> url_Scheme u = ''data''
             \<or> url_Scheme u = ''file'' \<or> \<not> Contains (url_Scheme u) ''.''
             \<or> (url_Path u = [] \<and> url_Opaque u = [])
     then Some (Errorf ''unsupported native redirect scheme'' [])
     else None)"

definition ValidateListenAddress :: "netlib \<Rightarrow> string \<Rightarrow> bool \<Rightarrow> go_error option" where
  "ValidateListenAddress N raw management = (case SplitHostPort raw of
     None \<Rightarrow> Some (Errorf ''invalid listen address'' [])
   | Some (host, port) \<Rightarrow>
     if (port \<noteq> ''0'' \<and> \<not> ValidPort port) \<or> (host \<noteq> [] \<and> \<not> ValidHost N host)
     then Some (Errorf ''invalid listen address'' [])
     else if management \<and> atoi_digits port = 443
     then Some (Errorf ''management listener must not use port 443'' [])
     else None)"

definition path_not_literal :: "string \<Rightarrow> bool" where
  "path_not_literal p = (p = ''/'' \<or> \<not> HasPrefix p ''/'' \<or> path_Clean p \<noteq> p
     \<or> ContainsAny p (''{}%?#'' @ [CHR 0x5C, CHR '' '', CHR 0x09, CHR 0x0D, CHR 0x0A])
     \<or> list_ex space_or_control p \<or> HasSuffix p ''/'')"

definition paths_overlap :: "string \<Rightarrow> string \<Rightarrow> bool" where
  "paths_overlap p q = (p = q \<or> HasPrefix p (q @ ''/'') \<or> HasPrefix q (p @ ''/''))"

definition ValidateManagementPaths :: "string \<Rightarrow> string \<Rightarrow> go_error option" where
  "ValidateManagementPaths rest mcp =
     (if list_ex path_not_literal [rest, mcp]
      then Some (Errorf ''management paths must be literal clean non-root paths'' [])
      else if paths_overlap rest mcp
      then Some (Errorf ''management paths must not overlap'' [])
      else if list_ex (\<lambda>p. paths_overlap p ''/app.js'') [rest, mcp]
      then Some (Errorf ''management path overlaps reserved route'' [])
      else None)"

definition segment_char :: "char \<Rightarrow> bool" where
  "segment_char c = (is_lower c \<or> is_upper c \<or> is_digit c \<or> c = CHR ''-'' \<or> c = CHR ''_'' \<or> c = CHR ''.'')"

definition validSegment :: "string \<Rightarrow> bool" where
  "validSegment s = (if s = [] \<or> s = ''.'' \<or> s = ''..'' then False else list_all segment_char s)"

section \<open>Structural validation\<close>

text \<open>
  The three loops of \<open>ValidateIDs\<close>. The maps \<^verbatim>\<open>groups\<close>, \<^verbatim>\<open>users\<close>, \<^verbatim>\<open>usernames\<close>, \<^verbatim>\<open>clients\<close> and
  \<^verbatim>\<open>clientIDs\<close> of the code are sets of keys, kept as lists.
\<close>

fun check_groups :: "nat \<Rightarrow> string list \<Rightarrow> group list \<Rightarrow> go_error option" where
  "check_groups i seen [] = None"
| "check_groups i seen (g # gs) =
     (if gr_ID g = [] then Some (Errorf ''spec.groups[%d].id is required'' [itoa_nat i])
      else if gr_ID g \<in> set seen then Some (Errorf ''spec.groups: duplicate id %q'' [gr_ID g])
      else check_groups (Suc i) (gr_ID g # seen) gs)"

fun check_group_refs :: "nat \<Rightarrow> string list \<Rightarrow> string list \<Rightarrow> go_error option" where
  "check_group_refs i groups [] = None"
| "check_group_refs i groups (gid # gids) =
     (if gid \<notin> set groups then Some (Errorf ''spec.users[%d].groupIds: dangling %q'' [itoa_nat i, gid])
      else check_group_refs i groups gids)"

fun check_users :: "string list \<Rightarrow> nat \<Rightarrow> string list \<Rightarrow> string list \<Rightarrow> user list \<Rightarrow> go_error option" where
  "check_users groups i ids names [] = None"
| "check_users groups i ids names (u # us) =
     (if us_ID u = [] then Some (Errorf ''spec.users[%d].id is required'' [itoa_nat i])
      else if us_ID u \<in> set ids then Some (Errorf ''spec.users: duplicate id %q'' [us_ID u])
      else if us_Username u = [] then Some (Errorf ''spec.users[%d].username is required'' [itoa_nat i])
      else if us_Username u \<in> set names
      then Some (Errorf ''spec.users: duplicate username %q'' [us_Username u])
      else if us_PasswordRef u \<noteq> [] \<and> us_PasswordHashRef u \<noteq> []
      then Some (Errorf ''choose passwordRef or passwordHashRef'' [])
      else if us_PasswordRef u = [] \<and> us_PasswordHashRef u = []
      then Some (Errorf ''spec.users[%d]: passwordRef or passwordHashRef is required'' [itoa_nat i])
      else case check_group_refs i groups (us_GroupIDs u) of
          Some e \<Rightarrow> Some e
        | None \<Rightarrow> check_users groups (Suc i) (us_ID u # ids) (us_Username u # names) us)"

fun check_uris :: "netlib \<Rightarrow> bool \<Rightarrow> string \<Rightarrow> string list \<Rightarrow> string list \<Rightarrow> go_error option" where
  "check_uris N httpsOnly fmt args [] = None"
| "check_uris N httpsOnly fmt args (u # us) =
     (case ValidateURI N u httpsOnly of
        Some e \<Rightarrow> Some (Wrapf fmt args e)
      | None \<Rightarrow> check_uris N httpsOnly fmt args us)"

definition client_key :: "client \<Rightarrow> string" where
  "client_key c = (if cl_ClientID c = [] then cl_ID c else cl_ClientID c)"

fun check_clients :: "netlib \<Rightarrow> nat \<Rightarrow> string list \<Rightarrow> string list \<Rightarrow> client list \<Rightarrow> go_error option" where
  "check_clients N i ids cids [] = None"
| "check_clients N i ids cids (c # cs) =
     (if cl_ID c = [] then Some (Errorf ''spec.clients[%d].id is required'' [itoa_nat i])
      else if cl_ID c \<in> set ids then Some (Errorf ''spec.clients: duplicate id %q'' [cl_ID c])
      else if client_key c \<in> set cids
      then Some (Errorf ''spec.clients: duplicate clientId %q'' [client_key c])
      else case first_err [
            check_uris N False ''client %q redirectURI: %w'' [cl_ID c] (cl_RedirectURIs c),
            (if cs_EntityID (cl_SAML c) \<noteq> [] \<and> cs_ACSURLs (cl_SAML c) = []
             then check_uris N True ''SAML fallback ACS requires HTTPS: %w'' [] (cl_RedirectURIs c)
             else None),
            check_uris N True ''client %q ACS URL: %w'' [cl_ID c] (cs_ACSURLs (cl_SAML c)),
            check (\<not> cl_Public c \<and> cl_SecretRef c = [])
              (Errorf ''spec.clients[%d]: confidential client requires secretRef'' [itoa_nat i])] of
          Some e \<Rightarrow> Some e
        | None \<Rightarrow> check_clients N (Suc i) (cl_ID c # ids) (client_key c # cids) cs)"

definition ValidateIDs :: "netlib \<Rightarrow> document \<Rightarrow> go_error option" where
  "ValidateIDs N d = (let s = dc_Spec d; https = ls_HTTPS (sp_Listeners s);
       mg = ls_Management (sp_Listeners s) in first_err [
     check (dc_APIVersion d \<noteq> APIVersion) (Errorf ''apiVersion must be %s'' [APIVersion]),
     check (dc_Kind d \<noteq> Kind) (Errorf ''kind must be %s'' [Kind]),
     check (\<not> validSegment (dc_Name d)) (Errorf ''metadata.name is required'' []),
     check (pf_TenantID (sp_Profile s) \<noteq> [] \<and> \<not> validSegment (pf_TenantID (sp_Profile s)))
       (Errorf ''tenantId must be a safe path segment'' []),
     (if hl_Address https \<noteq> [] then ValidateListenAddress N (hl_Address https) False else None),
     (if ml_Address mg \<noteq> [] then ValidateListenAddress N (ml_Address mg) True else None),
     (if ml_RESTPath mg \<noteq> [] \<and> ml_MCPPath mg \<noteq> []
      then ValidateManagementPaths (ml_RESTPath mg) (ml_MCPPath mg) else None),
     check (au_SessionTTL (sp_Auth s) < 0) (Errorf ''sessionTTL must not be negative'' []),
     check_groups 0 [] (sp_Groups s),
     check_users (map gr_ID (sp_Groups s)) 0 [] [] (sp_Users s),
     check_clients N 0 [] [] (sp_Clients s),
     check (pf_Vendor (sp_Profile s) \<noteq> [] \<and> \<not> ValidVendor (pf_Vendor (sp_Profile s)))
       (Errorf ''spec.profile.vendor %q is not a known vendor'' [pf_Vendor (sp_Profile s)]),
     check (au_MFAMode (sp_Auth s) \<noteq> [] \<and> \<not> ValidMFA (au_MFAMode (sp_Auth s)))
       (Errorf ''spec.auth.mfa.mode %q is invalid'' [au_MFAMode (sp_Auth s)])])"

section \<open>Normalisation\<close>

definition default_str :: "string \<Rightarrow> string \<Rightarrow> string" where
  "default_str d s = (if s = [] then d else s)"

definition Normalize :: "document \<Rightarrow> document" where
  "Normalize d = d\<lparr>dc_Spec := (let s = dc_Spec d; ls = sp_Listeners s in s\<lparr>
     sp_Listeners := \<lparr>
       ls_HTTPS = (ls_HTTPS ls)\<lparr>hl_Address := default_str '':10443'' (hl_Address (ls_HTTPS ls))\<rparr>,
       ls_Management = (ls_Management ls)\<lparr>
         ml_Address := default_str '':8080'' (ml_Address (ls_Management ls)),
         ml_RESTPath := default_str ''/v1'' (ml_RESTPath (ls_Management ls)),
         ml_MCPPath := default_str ''/mcp'' (ml_MCPPath (ls_Management ls))\<rparr>\<rparr>,
     sp_Profile := (sp_Profile s)\<lparr>pf_Vendor := default_str ''generic'' (pf_Vendor (sp_Profile s))\<rparr>,
     sp_Protocols := \<lparr>
       pr_OIDC = Some (BoolVal (pr_OIDC (sp_Protocols s)) True),
       pr_SAML = Some (BoolVal (pr_SAML (sp_Protocols s)) False),
       pr_WSFed = Some (BoolVal (pr_WSFed (sp_Protocols s)) False)\<rparr>,
     sp_Auth := (sp_Auth s)\<lparr>au_MFAMode := default_str ''never'' (au_MFAMode (sp_Auth s))\<rparr>,
     sp_GroupOverage := (sp_GroupOverage s)\<lparr>
       go_OktaFailAt := (if go_OktaFailAt (sp_GroupOverage s) = 0 then 100 else go_OktaFailAt (sp_GroupOverage s)),
       go_GenericCap := (if go_GenericCap (sp_GroupOverage s) = 0 then 200 else go_GenericCap (sp_GroupOverage s))\<rparr>,
     sp_UIEnabled := Some (BoolVal (sp_UIEnabled s) True)\<rparr>)\<rparr>"

section \<open>Change operations\<close>

datatype target_kind = TargetClient | TargetUser | TargetGroup | TargetProfile | TargetProtocols
  | TargetAuth | TargetGroupOverage | TargetListeners | TargetAccess | TargetUI
  | TargetManagement | TargetIssuer

text \<open>The wire names of the target kinds; an unknown name is no target.\<close>

definition AllTargetKinds :: "(string \<times> target_kind) list" where
  "AllTargetKinds = [(''client'', TargetClient), (''user'', TargetUser), (''group'', TargetGroup),
     (''profile'', TargetProfile), (''protocols'', TargetProtocols), (''auth'', TargetAuth),
     (''groupOverage'', TargetGroupOverage), (''listeners'', TargetListeners),
     (''access'', TargetAccess), (''ui'', TargetUI), (''management'', TargetManagement),
     (''issuer'', TargetIssuer)]"

definition ValidTarget :: "string \<Rightarrow> bool" where
  "ValidTarget k = list_ex (\<lambda>(n, _). n = k) AllTargetKinds"

end
