(* ===== verification/Base64.thy ===== *)
theory Base64
  imports Prelude
begin

text \<open>
  The parts of \<^verbatim>\<open>encoding/base64\<close> that the code uses: unpadded encoding and decoding over an
  alphabet (\<^verbatim>\<open>RawURLEncoding\<close>, \<^verbatim>\<open>RawStdEncoding\<close>). Decoding skips CR and LF; in strict mode it
  rejects non-zero trailing bits. The round trip \<open>decode (encode bs) = Some bs\<close> and the shape of
  canonical encodings are proved here and used for PKCE challenges, cursors and PHC strings.
\<close>

definition url_alphabet :: string where
  "url_alphabet = ''ABCDEFGHIJKLMNOPQRSTUVWXYZabcdefghijklmnopqrstuvwxyz0123456789-_''"

definition std_alphabet :: string where
  "std_alphabet = ''ABCDEFGHIJKLMNOPQRSTUVWXYZabcdefghijklmnopqrstuvwxyz0123456789+/''"

definition b64_char :: "string \<Rightarrow> nat \<Rightarrow> char" where
  "b64_char alpha n = alpha ! n"

fun index_of :: "char \<Rightarrow> string \<Rightarrow> nat option" where
  "index_of c [] = None"
| "index_of c (x # xs) = (if c = x then Some 0 else map_option Suc (index_of c xs))"

text \<open>Six-bit digits of a byte sequence, three bytes at a time.\<close>

fun to_sextets :: "nat list \<Rightarrow> nat list" where
  "to_sextets [] = []"
| "to_sextets [a] = [a div 4, (a mod 4) * 16]"
| "to_sextets [a, b] = [a div 4, (a mod 4) * 16 + b div 16, (b mod 16) * 4]"
| "to_sextets (a # b # c # bs) =
     [a div 4, (a mod 4) * 16 + b div 16, (b mod 16) * 4 + c div 64, c mod 64] @ to_sextets bs"

fun from_sextets :: "bool \<Rightarrow> nat list \<Rightarrow> nat list option" where
  "from_sextets strict [] = Some []"
| "from_sextets strict [w] = None"
| "from_sextets strict [w, x] =
     (if strict \<and> x mod 16 \<noteq> 0 then None else Some [w * 4 + x div 16])"
| "from_sextets strict [w, x, y] =
     (if strict \<and> y mod 4 \<noteq> 0 then None
      else Some [w * 4 + x div 16, (x mod 16) * 16 + y div 4])"
| "from_sextets strict (w # x # y # z # ws) =
     map_option (\<lambda>bs. [w * 4 + x div 16, (x mod 16) * 16 + y div 4, (y mod 4) * 64 + z] @ bs)
       (from_sextets strict ws)"

definition b64_encode :: "string \<Rightarrow> string \<Rightarrow> string" where
  "b64_encode alpha s = map (b64_char alpha) (to_sextets (map of_char s))"

fun all_some :: "'a option list \<Rightarrow> 'a list option" where
  "all_some [] = Some []"
| "all_some (None # xs) = None"
| "all_some (Some x # xs) = map_option (Cons x) (all_some xs)"

definition b64_decode :: "string \<Rightarrow> bool \<Rightarrow> string \<Rightarrow> string option" where
  "b64_decode alpha strict s =
     (case all_some (map (\<lambda>c. index_of c alpha)
             (filter (\<lambda>c. c \<noteq> CHR 0x0A \<and> c \<noteq> CHR 0x0D) s)) of
        None \<Rightarrow> None
      | Some ds \<Rightarrow> map_option (map char_of) (from_sextets strict ds))"

definition RawURL_Encode :: "string \<Rightarrow> string" where "RawURL_Encode = b64_encode url_alphabet"
definition RawURL_Decode :: "string \<Rightarrow> string option" where "RawURL_Decode = b64_decode url_alphabet False"
definition RawStd_Encode :: "string \<Rightarrow> string" where "RawStd_Encode = b64_encode std_alphabet"
definition RawStd_DecodeStrict :: "string \<Rightarrow> string option" where
  "RawStd_DecodeStrict = b64_decode std_alphabet True"

section \<open>Round trip\<close>

definition good_alphabet :: "string \<Rightarrow> bool" where
  "good_alphabet alpha \<longleftrightarrow>
     distinct alpha \<and> length alpha = 64 \<and> CHR 0x0A \<notin> set alpha \<and> CHR 0x0D \<notin> set alpha"

lemma good_url: "good_alphabet url_alphabet"
  by (simp add: good_alphabet_def url_alphabet_def)

lemma good_std: "good_alphabet std_alphabet"
  by (simp add: good_alphabet_def std_alphabet_def)

lemma index_of_nth: "distinct alpha \<Longrightarrow> n < length alpha \<Longrightarrow> index_of (alpha ! n) alpha = Some n"
proof (induction alpha arbitrary: n)
  case Nil
  then show ?case by simp
next
  case (Cons a alpha)
  then show ?case by (cases n) auto
qed

lemma to_sextets_bound:
  "\<forall>b \<in> set bs. b < 256 \<Longrightarrow> \<forall>d \<in> set (to_sextets bs). d < 64"
  by (induction bs rule: to_sextets.induct) auto

lemma join_div: "(x * k + q) div k = (x::nat)" if "q < k"
  using that by simp

lemma join_mod: "(x * k + q) mod k = (q::nat)" if "q < k"
  using that by simp

lemma sextet_pair: "(a::nat) div 4 * 4 + ((a mod 4) * 16 + b div 16) div 16 = a" if "b < 256"
proof -
  have "b div 16 < 16" using that by (simp add: less_mult_imp_div_less)
  then show ?thesis by (simp only: join_div) simp
qed

lemma sextet_mid:
  "((a mod 4) * 16 + b div 16) mod 16 * 16 + ((b mod 16) * 4 + c div 64) div 4 = (b::nat)"
  if "b < 256" "c < 256"
proof -
  have "b div 16 < 16" "c div 64 < 4" using that by (simp_all add: less_mult_imp_div_less)
  then show ?thesis by (simp only: join_div join_mod) simp
qed

lemma sextet_low: "((b mod 16) * 4 + c div 64) mod 4 * 64 + c mod 64 = (c::nat)" if "c < 256"
proof -
  have "c div 64 < 4" using that by (simp add: less_mult_imp_div_less)
  then show ?thesis by (simp only: join_mod) simp
qed

lemma from_to_sextets:
  "\<forall>b \<in> set bs. b < 256 \<Longrightarrow> from_sextets strict (to_sextets bs) = Some bs"
proof (induction bs rule: to_sextets.induct)
  case (2 a)
  then show ?case by simp
next
  case (3 a b)
  then show ?case using sextet_pair [of b a] sextet_mid [of b 0 a] by simp
next
  case (4 a b c bs)
  then show ?case using sextet_pair [of b a] sextet_mid [of b c a] sextet_low [of c b] by simp
qed simp

lemma all_some_map_Some: "all_some (map (\<lambda>x. Some (f x)) xs) = Some (map f xs)"
  by (induction xs) auto

lemma b64_decode_encode:
  assumes "good_alphabet alpha"
  shows "b64_decode alpha strict (b64_encode alpha s) = Some s"
proof -
  let ?ds = "to_sextets (map of_char s) :: nat list"
  have bound: "\<forall>d \<in> set ?ds. d < 64"
    by (rule to_sextets_bound) (auto simp: of_char_def)
  have alpha: "distinct alpha" "length alpha = 64" "CHR 0x0A \<notin> set alpha" "CHR 0x0D \<notin> set alpha"
    using assms by (auto simp: good_alphabet_def)
  have in_alpha: "alpha ! d \<in> set alpha" if "d \<in> set ?ds" for d
    using bound alpha(2) that by simp
  have keep: "filter (\<lambda>c. c \<noteq> CHR 0x0A \<and> c \<noteq> CHR 0x0D) (b64_encode alpha s) = b64_encode alpha s"
    unfolding b64_encode_def b64_char_def filter_id_conv
    using in_alpha alpha(3,4) by fastforce
  have idx: "map (\<lambda>c. index_of c alpha) (b64_encode alpha s) = map Some ?ds"
    unfolding b64_encode_def b64_char_def using bound alpha(1,2) by (simp add: index_of_nth)
  have "from_sextets strict ?ds = Some (map of_char s)"
    by (rule from_to_sextets) (auto simp: of_char_def)
  then show ?thesis
    using all_some_map_Some [of "\<lambda>x. x" ?ds]
    by (simp add: b64_decode_def keep idx comp_def)
qed

lemma RawURL_roundtrip [simp]: "RawURL_Decode (RawURL_Encode s) = Some s"
  by (simp add: RawURL_Decode_def RawURL_Encode_def b64_decode_encode good_url)

lemma RawStd_roundtrip [simp]: "RawStd_DecodeStrict (RawStd_Encode s) = Some s"
  by (simp add: RawStd_DecodeStrict_def RawStd_Encode_def b64_decode_encode good_std)

lemma RawURL_Encode_inj: "RawURL_Encode a = RawURL_Encode b \<longleftrightarrow> a = b"
  by (metis RawURL_roundtrip option.inject)

lemma RawURL_chars: "set (RawURL_Encode s) \<subseteq> set url_alphabet"
proof -
  have "\<forall>d \<in> set (to_sextets (map of_char s)). (d::nat) < 64"
    by (rule to_sextets_bound) (auto simp: of_char_def)
  moreover have "length url_alphabet = 64" using good_url by (simp add: good_alphabet_def)
  ultimately show ?thesis
    by (auto simp: RawURL_Encode_def b64_encode_def b64_char_def)
qed

end
