(* ===== verification/Password.thy ===== *)
theory Password
  imports Base64 Domainerr
begin

text \<open>
  Credentials of \<^verbatim>\<open>internal/password\<close>. SHA-256 and the Argon2id key derivation are arguments
  (\<open>sha256\<close>, \<open>derive\<close>); everything else, the PHC string parser included, is a definition.
\<close>

definition argonKeyLen :: nat where "argonKeyLen = 32"

record credential =
  cr_plain :: string
  cr_salt :: string
  cr_digest :: string
  cr_hashed :: bool
  cr_dummy :: bool

definition zero_credential :: credential where
  "zero_credential = \<lparr>cr_plain = replicate 32 (CHR 0x00), cr_salt = [], cr_digest = [],
     cr_hashed = False, cr_dummy = False\<rparr>"

definition Dummy :: "bool \<Rightarrow> credential" where
  "Dummy hashed =
     (if \<not> hashed then zero_credential\<lparr>cr_dummy := True\<rparr>
      else zero_credential\<lparr>cr_hashed := True, cr_dummy := True,
             cr_salt := ''labsso-dummy-salt'', cr_digest := replicate argonKeyLen (CHR 0x00)\<rparr>)"

text \<open>\<^verbatim>\<open>strings.Cut(s, "=")\<close>\<close>

definition cut_eq :: "string \<Rightarrow> (string \<times> string) option" where
  "cut_eq s = (let k = takeWhile (\<lambda>c. c \<noteq> CHR ''='') s
     in if length k = length s then None else Some (k, drop (Suc (length k)) s))"

fun phc_params :: "string gmap \<Rightarrow> string list \<Rightarrow> go_error + string gmap" where
  "phc_params params [] = Inr params"
| "phc_params params (part # parts) = (case cut_eq part of
       None \<Rightarrow> Inl (Errorf ''malformed or duplicate PHC parameters'' [])
     | Some (k, v) \<Rightarrow>
         if gget_or [] params k \<noteq> [] then Inl (Errorf ''malformed or duplicate PHC parameters'' [])
         else phc_params (gput k v params) parts)"

definition phc_salt :: "string \<Rightarrow> string option" where
  "phc_salt part = (case RawStd_DecodeStrict part of
     Some salt \<Rightarrow> if length salt < 8 \<or> length salt > 64 then None else Some salt
   | None \<Rightarrow> None)"

definition phc_digest :: "string \<Rightarrow> string option" where
  "phc_digest part = (case RawStd_DecodeStrict part of
     Some d \<Rightarrow> if length d \<noteq> 32 then None else Some d
   | None \<Rightarrow> None)"

definition Parse :: "(string \<Rightarrow> string) \<Rightarrow> string \<Rightarrow> bool \<Rightarrow> go_error + credential" where
  "Parse sha256 raw hashed = (let s = TrimSpace raw in
     if s = [] then Inl (Errorf ''empty password credential'' [])
     else if \<not> hashed then Inr (zero_credential\<lparr>cr_plain := sha256 s\<rparr>)
     else let parts = Split s (CHR ''$'') in
       if length parts \<noteq> 6 \<or> parts ! 0 \<noteq> [] \<or> parts ! 1 \<noteq> ''argon2id'' \<or> parts ! 2 \<noteq> ''v=19''
       then Inl (Errorf ''passwordHashRef requires Argon2id PHC v=19 m=65536,t=3,p=4'' [])
       else case phc_params gempty (Split (parts ! 3) (CHR '','')) of
         Inl e \<Rightarrow> Inl e
       | Inr params \<Rightarrow>
         if glen params \<noteq> 3 \<or> gget_or [] params ''m'' \<noteq> ''65536'' \<or> gget_or [] params ''t'' \<noteq> ''3''
            \<or> gget_or [] params ''p'' \<noteq> ''4''
         then Inl (Errorf ''unsupported PHC parameters'' [])
         else case phc_salt (parts ! 4) of
           None \<Rightarrow> Inl (Errorf ''invalid PHC salt (8..64 bytes required)'' [])
         | Some salt \<Rightarrow> (case phc_digest (parts ! 5) of
             None \<Rightarrow> Inl (Errorf ''invalid PHC digest (32 bytes required)'' [])
           | Some digest \<Rightarrow>
               Inr (zero_credential\<lparr>cr_salt := salt, cr_digest := digest, cr_hashed := True\<rparr>)))"

text \<open>
  \<open>verify sha256 derive c provided\<close> is true when the code returns a nil error;
  \<open>derive provided salt\<close> stands for \<^verbatim>\<open>argon2.IDKey\<close> with the fixed cost parameters.
  \<^verbatim>\<open>subtle.ConstantTimeCompare\<close> is 1 exactly for equal byte strings.
\<close>

definition verify ::
  "(string \<Rightarrow> string) \<Rightarrow> (string \<Rightarrow> string \<Rightarrow> string) \<Rightarrow> credential \<Rightarrow> string \<Rightarrow> bool" where
  "verify sha256 derive c provided =
     ((if cr_hashed c then derive provided (cr_salt c) = cr_digest c
       else sha256 provided = cr_plain c) \<and> \<not> cr_dummy c)"

text \<open>\<open>encodePHC\<close> of \<^verbatim>\<open>loginui/phc.go\<close>: the PHC string of a password.\<close>

definition encodePHC :: "(string \<Rightarrow> string \<Rightarrow> string) \<Rightarrow> string \<Rightarrow> string \<Rightarrow> string" where
  "encodePHC derive password salt =
     ''$argon2id$v=19$m=65536,t=3,p=4$'' @ RawStd_Encode salt @ ''$''
       @ RawStd_Encode (derive password salt)"

end
