(* ===== verification/Snapshot.thy ===== *)
theory Snapshot
  imports Model Password
begin

text \<open>
  \<^verbatim>\<open>internal/snapshot\<close>: the immutable compiled snapshot, its accessors and security
  comparison, and the store with its active, previous and bootstrap pointers. A nil pointer
  is \<open>None\<close>. \<^verbatim>\<open>snapshot.FromRequest\<close> returns the pointer captured in the request's context when there is
  one, nil or not, and the active snapshot otherwise.
\<close>

record clothes =
  ct_Vendor :: string
  ct_TenantID :: string
  ct_CookieName :: string
  ct_AuthorizePath :: string
  ct_TokenPath :: string
  ct_JWKSPath :: string
  ct_UserInfoPath :: string
  ct_LogoutPath :: string
  ct_HTMLTitle :: string
  ct_HTMLHeading :: string
  ct_ConsentTitle :: string
  ct_Realm :: string
  ct_WSFedMetadataPath :: string
  ct_WSFedPassivePath :: string
  ct_SAMLMetadataPath :: string
  ct_SAMLSSOPath :: string
  ct_SAMLSSOPOSTPath :: string

definition zero_clothes :: clothes where
  "zero_clothes = \<lparr>ct_Vendor = [], ct_TenantID = [], ct_CookieName = [], ct_AuthorizePath = [],
     ct_TokenPath = [], ct_JWKSPath = [], ct_UserInfoPath = [], ct_LogoutPath = [],
     ct_HTMLTitle = [], ct_HTMLHeading = [], ct_ConsentTitle = [], ct_Realm = [],
     ct_WSFedMetadataPath = [], ct_WSFedPassivePath = [], ct_SAMLMetadataPath = [],
     ct_SAMLSSOPath = [], ct_SAMLSSOPOSTPath = []\<rparr>"

record snapshot =
  sn_passwords :: "credential gmap"
  sn_totpSeeds :: "string gmap"
  sn_Canonical :: "document option"
  sn_Revision :: string
  sn_BootstrapRevision :: string
  sn_Generation :: int
  sn_CompiledAt :: go_time
  sn_Issuer :: string
  sn_TLSCert :: string
  sn_TLSKey :: string
  sn_SigningKey :: string
  sn_SigningCert :: string
  sn_AccessToken :: string
  sn_ClientSecrets :: "string gmap"
  sn_ClientsByID :: "client gmap"
  sn_ClientsByClientID :: "client gmap"
  sn_ClientsBySAMLEntity :: "client gmap"
  sn_UsersByID :: "user gmap"
  sn_GroupsByID :: "group gmap"
  sn_Clothes :: clothes

definition Drifted :: "snapshot option \<Rightarrow> bool" where
  "Drifted s = (case s of None \<Rightarrow> False | Some n \<Rightarrow> sn_Revision n \<noteq> sn_BootstrapRevision n)"

definition SetUserSecrets :: "credential gmap \<Rightarrow> string gmap \<Rightarrow> snapshot \<Rightarrow> snapshot" where
  "SetUserSecrets creds seeds s = s\<lparr>sn_passwords := creds, sn_totpSeeds := seeds\<rparr>"

definition PasswordOf :: "snapshot option \<Rightarrow> string \<Rightarrow> credential option" where
  "PasswordOf s uid = (case s of None \<Rightarrow> None | Some n \<Rightarrow> gget (sn_passwords n) uid)"

definition TOTP :: "snapshot option \<Rightarrow> string \<Rightarrow> string option" where
  "TOTP s uid = (case s of None \<Rightarrow> None | Some n \<Rightarrow> gget (sn_totpSeeds n) uid)"

text \<open>\<^verbatim>\<open>maps.Equal\<close>: same length, and every entry of the first has an equal entry in the second.\<close>

definition maps_Equal :: "'v gmap \<Rightarrow> 'v gmap \<Rightarrow> bool" where
  "maps_Equal a b = (glen a = glen b \<and> list_all (\<lambda>k. gget b k = gget a k) (gkeys a))"

text \<open>
  The loop over the client secrets reads a missing key of the other map as the empty secret,
  as the code does.
\<close>

definition SecurityEqual :: "snapshot option \<Rightarrow> snapshot option \<Rightarrow> bool" where
  "SecurityEqual s other = (case (s, other) of
     (Some a, Some b) \<Rightarrow>
       maps_Equal (sn_passwords a) (sn_passwords b) \<and> maps_Equal (sn_totpSeeds a) (sn_totpSeeds b)
       \<and> sn_SigningKey a = sn_SigningKey b \<and> sn_AccessToken a = sn_AccessToken b
       \<and> glen (sn_ClientSecrets a) = glen (sn_ClientSecrets b)
       \<and> list_all (\<lambda>k. gget_or [] (sn_ClientSecrets a) k = gget_or [] (sn_ClientSecrets b) k)
           (gkeys (sn_ClientSecrets a))
   | (None, None) \<Rightarrow> True
   | _ \<Rightarrow> False)"

section \<open>The store\<close>

record store =
  st_active :: "snapshot option"
  st_previous :: "snapshot option"
  st_bootstrap :: "snapshot option"

definition NewStore :: store where
  "NewStore = \<lparr>st_active = None, st_previous = None, st_bootstrap = None\<rparr>"

definition Load :: "store \<Rightarrow> snapshot option" where "Load s = st_active s"
definition Previous :: "store \<Rightarrow> snapshot option" where "Previous s = st_previous s"
definition Bootstrap :: "store \<Rightarrow> snapshot option" where "Bootstrap s = st_bootstrap s"

definition SetBootstrap :: "snapshot option \<Rightarrow> store \<Rightarrow> store" where
  "SetBootstrap nxt s = s\<lparr>st_bootstrap := nxt\<rparr>"

definition Swap :: "snapshot option \<Rightarrow> store \<Rightarrow> snapshot option \<times> store" where
  "Swap nxt s = (case nxt of
     None \<Rightarrow> (None, s)
   | Some n \<Rightarrow>
       let prev = st_active s; s1 = s\<lparr>st_active := Some n\<rparr>
       in (prev, if prev \<noteq> None then s1\<lparr>st_previous := prev\<rparr> else s1))"

definition InstallBootstrap :: "snapshot option \<Rightarrow> store \<Rightarrow> snapshot option \<times> store" where
  "InstallBootstrap nxt s = (case nxt of
     None \<Rightarrow> (None, s)
   | Some n \<Rightarrow> Swap (Some n) (SetBootstrap (Some n) s))"

definition FromRequest :: "snapshot option option \<Rightarrow> store \<Rightarrow> snapshot option" where
  "FromRequest captured s = (case captured of Some n \<Rightarrow> n | None \<Rightarrow> Load s)"

text \<open>\<open>Capture\<close> fixes the snapshot of a request: an outer capture, also of a nil snapshot, is kept.\<close>

definition Capture :: "snapshot option option \<Rightarrow> store \<Rightarrow> snapshot option option" where
  "Capture captured s = Some (FromRequest captured s)"

lemmas store_defs [gosimps] = Load_def Previous_def Bootstrap_def SetBootstrap_def

lemma maps_Equal_iff: "maps_Equal a b \<longleftrightarrow> glen a = glen b \<and> (\<forall>k v. gget a k = Some v \<longrightarrow> gget b k = Some v)"
  by (auto simp: maps_Equal_def list_all_iff gkeys_set)

end
