(* ===== verification/Vendor.thy ===== *)
theory Vendor
  imports Snapshot
begin

text \<open>
  \<^verbatim>\<open>internal/vendor/clothes.go\<close>: the vendor-shaped paths, cookie names and page titles, one
  branch of \<open>Resolve\<close> per vendor, and the defaults that follow the switch.
\<close>

definition DefaultTenantID :: string where
  "DefaultTenantID = ''00000000-0000-0000-0000-000000000001''"

definition Implemented :: "string \<Rightarrow> bool" where
  "Implemented v = (v \<in> set [''generic'', ''entra'', ''okta'', ''ping'', ''adfs'', ''google'',
     ''keycloak'', ''iam-identity-center'', ''duo'', ''siteminder'', ''shibboleth''])"

definition oidc_paths ::
  "string \<Rightarrow> string \<Rightarrow> string \<Rightarrow> string \<Rightarrow> string \<Rightarrow> string \<Rightarrow> clothes \<Rightarrow> clothes" where
  "oidc_paths cookie authz token jwks userinfo logout c =
     c\<lparr>ct_CookieName := cookie, ct_AuthorizePath := authz, ct_TokenPath := token,
       ct_JWKSPath := jwks, ct_UserInfoPath := userinfo, ct_LogoutPath := logout\<rparr>"

definition html_titles :: "string \<Rightarrow> string \<Rightarrow> clothes \<Rightarrow> clothes" where
  "html_titles title consent c =
     c\<lparr>ct_HTMLTitle := title, ct_HTMLHeading := ''Sign in'', ct_ConsentTitle := consent\<rparr>"

definition vendor_paths :: "string \<Rightarrow> string \<Rightarrow> clothes \<Rightarrow> clothes" where
  "vendor_paths vendor realm base =
     (if vendor = ''entra'' then
        html_titles ''LabSSO Entra login'' ''LabSSO Entra consent''
          (oidc_paths ''labsso_entra'' ''/oauth2/v2.0/authorize'' ''/oauth2/v2.0/token''
             ''/oauth2/v2.0/jwks'' ''/oauth2/v2.0/userinfo'' ''/oauth2/v2.0/logout'' base)
      else if vendor = ''okta'' then
        html_titles ''LabSSO Okta login'' ''LabSSO Okta consent''
          (oidc_paths ''labsso_okta'' ''/oauth2/default/v1/authorize'' ''/oauth2/default/v1/token''
             ''/oauth2/default/v1/jwks'' ''/oauth2/default/v1/userinfo'' ''/oauth2/default/v1/logout'' base)
      else if vendor = ''ping'' then
        html_titles ''LabSSO Ping login'' ''LabSSO Ping consent''
          (oidc_paths ''labsso_ping'' ''/as/authorization.oauth2'' ''/as/token.oauth2''
             ''/pf/JWKS'' ''/idp/userinfo.openid'' ''/idp/startSLO.ping'' base)
      else if vendor = ''adfs'' then
        (html_titles ''LabSSO ADFS login'' ''LabSSO ADFS consent''
          (oidc_paths ''labsso_adfs'' ''/adfs/oauth2/authorize'' ''/adfs/oauth2/token''
             ''/adfs/discovery/keys'' ''/adfs/userinfo'' ''/adfs/oauth2/logout'' base))
          \<lparr>ct_WSFedMetadataPath := ''/FederationMetadata/2007-06/FederationMetadata.xml'',
           ct_WSFedPassivePath := ''/adfs/ls/''\<rparr>
      else if vendor = ''google'' then
        html_titles ''LabSSO Google login'' ''LabSSO Google consent''
          (oidc_paths ''labsso_google'' ''/o/oauth2/v2/auth'' ''/token''
             ''/oauth2/v3/certs'' ''/oauth2/v3/userinfo'' ''/logout'' base)
      else if vendor = ''keycloak'' then
        (let prefix = ''/realms/'' @ realm @ ''/protocol/openid-connect'' in
         html_titles ''LabSSO Keycloak login'' ''LabSSO Keycloak consent''
          (oidc_paths ''labsso_keycloak'' (prefix @ ''/auth'') (prefix @ ''/token'')
             (prefix @ ''/certs'') (prefix @ ''/userinfo'') (prefix @ ''/logout'') base))
      else if vendor = ''iam-identity-center'' then
        html_titles ''LabSSO IAM IC login'' ''LabSSO IAM IC consent''
          (oidc_paths ''labsso_iamic'' ''/authorize'' ''/token'' ''/jwks'' ''/userinfo'' ''/logout'' base)
      else if vendor = ''duo'' then
        (let prefix = ''/oidc/'' @ realm in
         (html_titles ''LabSSO Duo login'' ''LabSSO Duo consent''
          (oidc_paths ''labsso_duo'' (prefix @ ''/authorize'') (prefix @ ''/token'')
             (prefix @ ''/jwks'') (prefix @ ''/userinfo'') (prefix @ ''/logout'') base))
          \<lparr>ct_SAMLMetadataPath := ''/saml2/sp/'' @ realm @ ''/metadata'',
           ct_SAMLSSOPath := ''/saml2/sp/'' @ realm @ ''/sso''\<rparr>)
      else if vendor = ''siteminder'' then
        (let prefix = ''/affwebservices/CASSO/oidc/'' @ realm in
         (html_titles ''LabSSO SiteMinder login'' ''LabSSO SiteMinder consent''
          (oidc_paths ''labsso_siteminder'' (prefix @ ''/authorize'') (prefix @ ''/token'')
             (prefix @ ''/jwks'') (prefix @ ''/userinfo'') (prefix @ ''/logout'') base))
          \<lparr>ct_SAMLMetadataPath := ''/affwebservices/public/saml2meta'',
           ct_SAMLSSOPath := ''/affwebservices/public/saml2sso''\<rparr>)
      else if vendor = ''shibboleth'' then
        (html_titles ''LabSSO Shibboleth login'' ''LabSSO Shibboleth consent''
          (oidc_paths ''labsso_shibboleth'' ''/idp/profile/oidc/authorize'' ''/idp/profile/oidc/token''
             ''/idp/profile/oidc/keyset'' ''/idp/profile/oidc/userinfo'' ''/idp/profile/oidc/logout'' base))
          \<lparr>ct_SAMLMetadataPath := ''/idp/shibboleth'',
           ct_SAMLSSOPath := ''/idp/profile/SAML2/Redirect/SSO'',
           ct_SAMLSSOPOSTPath := ''/idp/profile/SAML2/POST/SSO''\<rparr>
      else
        (html_titles ''LabSSO login'' ''LabSSO consent''
          (oidc_paths ''labsso_login'' ''/oauth2/authorize'' ''/oauth2/token''
             ''/oauth2/jwks'' ''/oauth2/userinfo'' ''/oauth2/logout'' base))
          \<lparr>ct_Vendor := ''generic'', ct_WSFedMetadataPath := ''/wsfed/metadata'',
           ct_WSFedPassivePath := ''/wsfed/passive''\<rparr>)"

definition clothes_defaults :: "clothes \<Rightarrow> clothes" where
  "clothes_defaults b0 = (let
     b1 = (if ct_WSFedMetadataPath b0 = [] then b0\<lparr>ct_WSFedMetadataPath := ''/wsfed/metadata'',
             ct_WSFedPassivePath := ''/wsfed/passive''\<rparr> else b0);
     b2 = (if ct_SAMLMetadataPath b1 = [] then b1\<lparr>ct_SAMLMetadataPath := ''/saml/metadata''\<rparr> else b1);
     b3 = (if ct_SAMLSSOPath b2 = [] then b2\<lparr>ct_SAMLSSOPath := ''/saml/sso''\<rparr> else b2)
     in (if ct_SAMLSSOPOSTPath b3 = [] then b3\<lparr>ct_SAMLSSOPOSTPath := ct_SAMLSSOPath b3\<rparr> else b3))"

definition Resolve :: "string \<Rightarrow> string \<Rightarrow> string \<Rightarrow> go_error + clothes" where
  "Resolve vendor0 tenant0 realm0 = (let
     vendor = (if vendor0 = [] then ''generic'' else vendor0) in
     if \<not> Implemented vendor then Inl (Errorf ''clothes not implemented'' [])
     else let
       tenantID = (if tenant0 = [] then DefaultTenantID else tenant0);
       realm = (if realm0 = [] then ''lab'' else realm0);
       base = zero_clothes\<lparr>ct_Vendor := vendor, ct_TenantID := tenantID, ct_Realm := realm\<rparr>
     in Inr (clothes_defaults (vendor_paths vendor realm base)))"

end
