(* ===== verification/Web.thy ===== *)
theory Web
  imports Runtime Limiter Vendor "HOL-Library.List_Lexorder"
begin

text \<open>
  What the handlers see of the web: JSON values, requests, responses, query escaping, and the
  record \<open>env\<close> of the libraries that the handlers call (URL rewriting of \<^verbatim>\<open>net/url\<close>, SHA-256 and
  HMAC, and the JOSE package that signs and opens tokens).

  A request carries the values that \<^verbatim>\<open>time.Now()\<close> and \<^verbatim>\<open>randomID()\<close> return while it is served:
  \<open>rq_clk i\<close> is the clock read at the \<open>i\<close>-th call site of the handler, \<open>rq_rnd i\<close> likewise for
  identifiers. Response headers other than \<^verbatim>\<open>Location\<close> and \<^verbatim>\<open>Set-Cookie\<close> are not modelled.
\<close>

section \<open>JSON\<close>

text \<open>
  Decoded JSON. \<open>JDec\<close> is a number that is not printed as an integer, as \<^verbatim>\<open>fmt\<close> prints it. No decoder yields \<open>JNilArr\<close>: it
  is a nil slice inside an interface, which the encoder renders as null.
\<close>

datatype json = JNull | JBool bool | JNum int | JDec string | JStr string | JArr "json list" | JNilArr
  | JObj "(string \<times> json) list"

definition JStrs :: "string list \<Rightarrow> json" where "JStrs ss = JArr (map JStr ss)"

fun as_string :: "json option \<Rightarrow> string" where
  "as_string (Some (JStr s)) = s"
| "as_string _ = []"

fun join_space :: "string list \<Rightarrow> string" where
  "join_space [] = []"
| "join_space [x] = x"
| "join_space (x # xs) = x @ '' '' @ join_space xs"

text \<open>\<^verbatim>\<open>fmt.Sprint\<close> of a decoded JSON value: slices in brackets, maps with their keys sorted.\<close>

fun sprint :: "json \<Rightarrow> string" where
  "sprint JNull = ''<nil>''"
| "sprint (JBool b) = (if b then ''true'' else ''false'')"
| "sprint (JNum n) = Itoa n"
| "sprint (JDec s) = s"
| "sprint (JStr s) = s"
| "sprint JNilArr = ''[]''"
| "sprint (JArr js) = ''['' @ join_space (map sprint js) @ '']''"
| "sprint (JObj kvs) = ''map['' @ join_space (map (\<lambda>(k, s). k @ '':'' @ s)
     (sort_key fst (map (\<lambda>(k, v). (k, sprint v)) kvs))) @ '']''"

definition sprint_opt :: "json option \<Rightarrow> string" where
  "sprint_opt v = (case v of None \<Rightarrow> ''<nil>'' | Some j \<Rightarrow> sprint j)"

section \<open>Requests and responses\<close>

record request =
  rq_Method :: string
  rq_Path :: string
  rq_RemoteAddr :: string
  rq_Query :: "(string \<times> string) list"
  rq_PostForm :: "(string \<times> string) list"
  rq_FormOK :: bool
  rq_Cookies :: "(string \<times> string) list"
  rq_BasicAuth :: "(string \<times> string) option"
  rq_Authorization :: string
  rq_TLS :: bool
  rq_SameOrigin :: bool
  rq_clk :: "nat \<Rightarrow> go_time"
  rq_rnd :: "nat \<Rightarrow> string"

text \<open>\<^verbatim>\<open>url.Values.Get\<close> and \<^verbatim>\<open>Request.FormValue\<close>: the first value, body parameters before the query.\<close>

definition values_Get :: "(string \<times> string) list \<Rightarrow> string \<Rightarrow> string" where
  "values_Get q k = (case map_of q k of None \<Rightarrow> [] | Some v \<Rightarrow> v)"

definition FormValue :: "request \<Rightarrow> string \<Rightarrow> string" where
  "FormValue rq k = values_Get (rq_PostForm rq @ rq_Query rq) k"

definition Cookie :: "request \<Rightarrow> string \<Rightarrow> string option" where
  "Cookie rq name = map_of (rq_Cookies rq) name"

definition clientIP :: "request \<Rightarrow> string" where
  "clientIP rq = (case SplitHostPort (rq_RemoteAddr rq) of
     None \<Rightarrow> rq_RemoteAddr rq | Some (host, _) \<Rightarrow> host)"

record cookie =
  ck_Name :: string
  ck_Value :: string
  ck_MaxAge :: int
  ck_Secure :: bool

datatype response =
    HttpError nat string
  | Redirect string
  | Moved string
  | JsonResp nat "(string \<times> json) list"
  | Html string
  | WithCookie cookie response
  | Panic

fun status :: "response \<Rightarrow> nat" where
  "status (HttpError s _) = s"
| "status (Redirect _) = 302"
| "status (Moved _) = 301"
| "status (JsonResp s _) = s"
| "status (Html _) = 200"
| "status (WithCookie _ r) = status r"
| "status Panic = 500"

section \<open>Escaping\<close>

definition hex_digit :: "bool \<Rightarrow> nat \<Rightarrow> char" where
  "hex_digit upper d = (if upper then ''0123456789ABCDEF'' else ''0123456789abcdef'') ! d"

definition hex_encode :: "string \<Rightarrow> string" where
  "hex_encode s = concat (map (\<lambda>c. [hex_digit False (of_char c div 16), hex_digit False (of_char c mod 16)]) s)"

definition unreserved :: "char \<Rightarrow> bool" where
  "unreserved c = (is_lower c \<or> is_upper c \<or> is_digit c \<or> c \<in> set ''-_.~'')"

definition QueryEscape :: "string \<Rightarrow> string" where
  "QueryEscape s = concat (map (\<lambda>c.
     if unreserved c then [c] else if c = CHR '' '' then ''+''
     else [CHR ''%'', hex_digit True (of_char c div 16), hex_digit True (of_char c mod 16)]) s)"

definition unhex :: "char \<Rightarrow> nat option" where
  "unhex c = (let n = of_char c in
     if is_digit c then Some (n - 48)
     else if 97 \<le> n \<and> n \<le> 102 then Some (n - 87)
     else if 65 \<le> n \<and> n \<le> 70 then Some (n - 55) else None)"

fun QueryUnescape :: "string \<Rightarrow> string option" where
  "QueryUnescape [] = Some []"
| "QueryUnescape (c # s) =
     (if c = CHR ''%'' then
        (case s of a # b # s' \<Rightarrow>
            (case (unhex a, unhex b) of
               (Some x, Some y) \<Rightarrow> map_option (Cons (char_of (16 * x + y))) (QueryUnescape s')
             | _ \<Rightarrow> None)
         | _ \<Rightarrow> None)
      else map_option (Cons (if c = CHR ''+'' then CHR '' '' else c)) (QueryUnescape s))"

section \<open>Libraries\<close>

record jwtclaims =
  jc_Issuer :: string
  jc_Subject :: string
  jc_Audience :: "string list"
  jc_IssuedAt :: go_time
  jc_Expiry :: go_time

text \<open>
  \<open>ev_setQuery uri kvs\<close> is \<^verbatim>\<open>url.Parse(uri)\<close>, then \<^verbatim>\<open>q.Set(k, v)\<close> for each pair on its query, then
  the URL rendered again; \<open>None\<close> when the URI does not parse; \<open>ev_urlString uri\<close> parses and renders
  it with its query untouched. \<open>ev_signer key\<close> is the signature
  algorithm of the signer built from a PEM key, \<open>ev_sign\<close> serialises a signed token,
  \<open>ev_open key token\<close> parses a token and checks its signature, \<open>ev_validate\<close> is the claim
  validation of the JOSE package against an expected issuer and an instant.
\<close>

record env =
  ev_net :: netlib
  ev_sha256 :: "string \<Rightarrow> string"
  ev_hmac256 :: "string \<Rightarrow> string \<Rightarrow> string"
  ev_hmac1 :: "string \<Rightarrow> string \<Rightarrow> string"
  ev_argon2 :: "string \<Rightarrow> string \<Rightarrow> string"
  ev_setQuery :: "string \<Rightarrow> (string \<times> string) list \<Rightarrow> string option"
  ev_urlString :: "string \<Rightarrow> string option"
  ev_signer :: "string \<Rightarrow> string option"
  ev_sign :: "string \<Rightarrow> jwtclaims \<Rightarrow> (string \<times> json) list \<Rightarrow> string option"
  ev_open :: "string \<Rightarrow> string \<Rightarrow> (jwtclaims \<times> json gmap) option"
  ev_validate :: "jwtclaims \<Rightarrow> string \<Rightarrow> go_time \<Rightarrow> bool"

section \<open>Lemmas\<close>

lemma hex_digit_unhex: "d < 16 \<Longrightarrow> unhex (hex_digit up d) = Some d"
proof -
  assume "d < 16"
  then have "d \<in> set [0..<16]" by simp
  moreover have "\<forall>d \<in> set [0..<16]. unhex (hex_digit up d) = Some d"
    by (cases up) (simp_all add: upt_rec numeral_eq_Suc hex_digit_def unhex_def is_digit_def)
  ultimately show ?thesis by blast
qed

lemma QueryUnescape_unreserved:
  "unreserved c \<Longrightarrow> QueryUnescape (c # s) = map_option (Cons c) (QueryUnescape s)"
  by (auto simp: unreserved_def is_lower_def is_upper_def is_digit_def)

lemma QueryUnescape_Escape: "QueryUnescape (QueryEscape s) = Some s"
proof (induction s)
  case Nil
  then show ?case by (simp add: QueryEscape_def)
next
  case (Cons c s)
  have split: "QueryEscape (c # s) = (if unreserved c then [c] else if c = CHR '' '' then ''+''
      else [CHR ''%'', hex_digit True (of_char c div 16), hex_digit True (of_char c mod 16)])
      @ QueryEscape s"
    by (simp add: QueryEscape_def)
  have lt: "of_char c < (256 :: nat)" by (simp add: of_char_def)
  then have dv: "of_char c div 16 < (16 :: nat)" by (simp add: less_mult_imp_div_less)
  show ?case
  proof (cases "unreserved c")
    case True
    then show ?thesis using Cons by (simp add: split QueryUnescape_unreserved del: QueryUnescape.simps)
  next
    case False
    then show ?thesis using Cons dv by (simp add: split hex_digit_unhex)
  qed
qed

lemma QueryEscape_inj: "QueryEscape a = QueryEscape b \<longleftrightarrow> a = b"
  by (metis QueryUnescape_Escape option.inject)

lemma QueryEscape_chars: "c \<in> set (QueryEscape s) \<Longrightarrow> unreserved c \<or> c = CHR ''+'' \<or> c = CHR ''%''"
proof -
  have hx: "unreserved (hex_digit True d)" if "d < 16" for d
  proof -
    have "\<forall>d \<in> set [0..<16]. unreserved (hex_digit True d)"
      by (simp add: upt_rec numeral_eq_Suc hex_digit_def unreserved_def is_digit_def is_upper_def)
    with that show ?thesis by simp
  qed
  have dv: "of_char c div 16 < (16 :: nat)" for c :: char
    by (rule less_mult_imp_div_less) (simp add: of_char_def)
  assume "c \<in> set (QueryEscape s)"
  then show ?thesis
    using hx dv by (auto simp: QueryEscape_def split: if_splits)
qed

end
