(* ===== verification/Oidc.thy ===== *)
theory Oidc
  imports Web Base64
begin

text \<open>
  \<^verbatim>\<open>internal/oidc\<close>: PKCE (\<^verbatim>\<open>pkce.go\<close>), token minting and verification (\<^verbatim>\<open>jose.go\<close>), group claims
  with vendor overage (\<^verbatim>\<open>overage.go\<close>), logout helpers (\<^verbatim>\<open>logout.go\<close>) and the OpenID provider
  (\<^verbatim>\<open>provider.go\<close>). A handler is a function from the libraries \<open>E\<close>, the snapshot captured for the
  request and the request to a response and the new provider state. The key set endpoint and
  the construction of signers are cryptographic library calls and are not modelled.
\<close>

section \<open>Provider state\<close>

record provider =
  pv_rt :: runtime
  pv_limit :: limiter
  pv_hasWarn :: bool
  pv_warns :: "string list"

definition New :: provider where
  "New = \<lparr>pv_rt = NewRuntime, pv_limit = newLimiter 60 Minute, pv_hasWarn = False, pv_warns = []\<rparr>"

definition CookieLogin :: string where "CookieLogin = ''labsso_login''"

section \<open>PKCE\<close>

definition verifier_char :: "char \<Rightarrow> bool" where
  "verifier_char c = (is_lower c \<or> is_upper c \<or> is_digit c \<or> c \<in> set ''-._~'')"

definition validVerifier :: "string \<Rightarrow> bool" where
  "validVerifier v = (if length v < 43 \<or> length v > 128 then False else list_all verifier_char v)"

definition validChallenge :: "string \<Rightarrow> bool" where
  "validChallenge v = (case RawURL_Decode v of
     None \<Rightarrow> False | Some b \<Rightarrow> length b = 32 \<and> RawURL_Encode b = v)"

definition verifyPKCE :: "env \<Rightarrow> string \<Rightarrow> string \<Rightarrow> string \<Rightarrow> bool" where
  "verifyPKCE E challenge method verifier =
     (if method \<noteq> ''S256'' \<or> \<not> validChallenge challenge \<or> \<not> validVerifier verifier then False
      else let got = RawURL_Encode (ev_sha256 E verifier)
           in TrimRight got ''='' = TrimRight challenge ''='')"

section \<open>Snapshots, scopes and redirects\<close>

definition mfa_mode :: "snapshot \<Rightarrow> string" where
  "mfa_mode snap = (case sn_Canonical snap of None \<Rightarrow> [] | Some d \<Rightarrow> au_MFAMode (sp_Auth (dc_Spec d)))"

definition clothesOf :: "snapshot option \<Rightarrow> clothes" where
  "clothesOf s = (case s of
     None \<Rightarrow> zero_clothes
   | Some snap \<Rightarrow>
       if ct_AuthorizePath (sn_Clothes snap) \<noteq> [] then sn_Clothes snap
       else let (vendor, tid, realm) = (case sn_Canonical snap of
                  None \<Rightarrow> ([], [], [])
                | Some d \<Rightarrow> (pf_Vendor (sp_Profile (dc_Spec d)), pf_TenantID (sp_Profile (dc_Spec d)), dc_Name d))
            in (case Resolve vendor tid realm of Inl e \<Rightarrow> sn_Clothes snap | Inr c \<Rightarrow> c))"

definition CookieName :: "snapshot option \<Rightarrow> string" where
  "CookieName s = (let c = clothesOf s in if ct_CookieName c \<noteq> [] then ct_CookieName c else CookieLogin)"

definition snapOIDC :: "snapshot option \<Rightarrow> response + snapshot" where
  "snapOIDC s = (case s of
     None \<Rightarrow> Inl (HttpError 503 ''not ready'')
   | Some snap \<Rightarrow> (case sn_Canonical snap of
       Some d \<Rightarrow> if \<not> IsEnabled (pr_OIDC (sp_Protocols (dc_Spec d))) True
                then Inl (HttpError 404 ''not found'') else Inr snap
     | None \<Rightarrow> Inr snap))"

fun exactRedirect :: "string list \<Rightarrow> string \<Rightarrow> bool" where
  "exactRedirect [] got = False"
| "exactRedirect (u # us) got = (if u = got then True else exactRedirect us got)"

definition hasScope :: "string \<Rightarrow> string \<Rightarrow> bool" where
  "hasScope scope want = list_ex (\<lambda>s. s = want) (Fields scope)"

definition supportedScopes :: string where
  "supportedScopes = ''openid profile email groups offline_access''"

definition scopesAllowed :: "client \<Rightarrow> string \<Rightarrow> bool" where
  "scopesAllowed cl scope = list_all (\<lambda>s. hasScope supportedScopes s
     \<and> \<not> (length (cl_Scopes cl) > 0 \<and> \<not> exactRedirect (cl_Scopes cl) s)) (Fields scope)"

definition scopeSubset :: "string \<Rightarrow> string \<Rightarrow> bool" where
  "scopeSubset scope original = list_all (hasScope original) (Fields scope)"

definition UserUsable :: "snapshot option \<Rightarrow> string \<Rightarrow> bool" where
  "UserUsable s uid = (case s of
     None \<Rightarrow> False
   | Some snap \<Rightarrow> (case gget (sn_UsersByID snap) uid of
       None \<Rightarrow> False | Some u \<Rightarrow> BoolVal (us_Enabled u) True))"

definition PendingUsable :: "snapshot option \<Rightarrow> pending \<Rightarrow> bool" where
  "PendingUsable s p = (case s of
     None \<Rightarrow> False
   | Some snap \<Rightarrow> (case sn_Canonical snap of
       None \<Rightarrow> False
     | Some d \<Rightarrow>
       let protos = sp_Protocols (dc_Spec d);
           found = (case gget (sn_ClientsByClientID snap) (pd_ClientID p) of
                      Some c \<Rightarrow> Some c
                    | None \<Rightarrow> gget (sn_ClientsByID snap) (pd_ClientID p))
       in case found of
         None \<Rightarrow> False
       | Some cl \<Rightarrow>
         if pd_Protocol p = [] \<or> pd_Protocol p = ProtocolOIDC then
           IsEnabled (pr_OIDC protos) True \<and> exactRedirect (cl_RedirectURIs cl) (pd_RedirectURI p)
             \<and> scopesAllowed cl (pd_Scope p)
         else if pd_Protocol p = ProtocolSAML \<or> pd_Protocol p = ''wsfed'' then
           (let enabled = (if pd_Protocol p = ''wsfed'' then IsEnabled (pr_WSFed protos) False
                           else IsEnabled (pr_SAML protos) False);
                urls = (if cs_ACSURLs (cl_SAML cl) = [] then cl_RedirectURIs cl else cs_ACSURLs (cl_SAML cl));
                realm = (cs_EntityID (cl_SAML cl) = pd_SPEntityID p
                         \<or> (pd_Protocol p = ''wsfed'' \<and> cl_ClientID cl = pd_SPEntityID p))
            in enabled \<and> realm \<and> exactRedirect urls (pd_ACSURL p))
         else False))"

definition logoutRedirectOK :: "snapshot \<Rightarrow> string \<Rightarrow> bool" where
  "logoutRedirectOK snap uri =
     list_ex (\<lambda>c. exactRedirect (cl_RedirectURIs c) uri) (gvals (sn_ClientsByID snap))"

definition oauthErrorLocation :: "env \<Rightarrow> string \<Rightarrow> string \<Rightarrow> string \<Rightarrow> string \<Rightarrow> go_error + string" where
  "oauthErrorLocation E redirect st code desc =
     (if redirect = [] then Inl (Errorf ''%s'' [code])
      else case ev_setQuery E redirect ([(''error'', code)]
             @ (if desc \<noteq> [] then [(''error_description'', desc)] else [])
             @ (if st \<noteq> [] then [(''state'', st)] else [])) of
        None \<Rightarrow> Inl (Errorf ''parse'' [redirect])
      | Some loc \<Rightarrow> Inr loc)"

definition oauthErrorRedirect :: "env \<Rightarrow> string \<Rightarrow> string \<Rightarrow> string \<Rightarrow> string \<Rightarrow> response" where
  "oauthErrorRedirect E redirect st code desc =
     (case oauthErrorLocation E redirect st code desc of
        Inl e \<Rightarrow> HttpError 400 code | Inr loc \<Rightarrow> Redirect loc)"

text \<open>The location of a successful authorization: the code and, when given, the state.\<close>

definition codeLocation :: "env \<Rightarrow> string \<Rightarrow> string \<Rightarrow> string \<Rightarrow> string option" where
  "codeLocation E redirect code st =
     ev_setQuery E redirect ([(''code'', code)] @ (if st \<noteq> [] then [(''state'', st)] else []))"

section \<open>Group claims\<close>

definition groupName :: "snapshot \<Rightarrow> string \<Rightarrow> string" where
  "groupName snap gid = (case gget (sn_GroupsByID snap) gid of
     Some g \<Rightarrow> if gr_Name g \<noteq> [] then gr_Name g else gid | None \<Rightarrow> gid)"

definition groupNames :: "snapshot \<Rightarrow> user \<Rightarrow> string list" where
  "groupNames snap u = map (groupName snap) (us_GroupIDs u)"

definition overageOf :: "snapshot \<Rightarrow> group_overage" where
  "overageOf snap = (case sn_Canonical snap of
     None \<Rightarrow> \<lparr>go_EntraGraphStub = False, go_OktaFailAt = 100, go_GenericCap = 200\<rparr>
   | Some d \<Rightarrow> let ov = sp_GroupOverage (dc_Spec d) in
       ov\<lparr>go_OktaFailAt := (if go_OktaFailAt ov < 1 then 100 else go_OktaFailAt ov),
          go_GenericCap := (if go_GenericCap ov < 1 then 200 else go_GenericCap ov)\<rparr>)"

text \<open>The claims, and the warning that the generic overage emits when a warn callback is set.\<close>

definition groupClaims ::
  "snapshot \<Rightarrow> user \<Rightarrow> (go_error + (string \<times> json) list) \<times> string list" where
  "groupClaims snap u = (let
     ids = sort (us_GroupIDs u);
     names = map (groupName snap) ids;
     n = int (length ids);
     ov = overageOf snap;
     vendor = ct_Vendor (sn_Clothes snap)
   in if vendor = ''okta'' then
        (if n \<ge> go_OktaFailAt ov then (Inl (Errorf ''okta overage'' []), [])
         else (Inr [(''groups'', JStrs names)], []))
      else if vendor = ''entra'' then
        (if n > go_GenericCap ov then
           (if \<not> go_EntraGraphStub ov then (Inl (Errorf ''entra stub disabled'' []), [])
            else let endpoint = TrimRight (sn_Issuer snap) ''/'' @ ''/v1.0/users/'' @ us_ID u
                                  @ ''/getMemberGroups''
                 in (Inr [(''_claim_names'', JObj [(''groups'', JStr ''src1'')]),
                          (''_claim_sources'', JObj [(''src1'', JObj [(''endpoint'', JStr endpoint)])])], []))
         else (Inr [(''groups'', JStrs names)], []))
      else if n > go_GenericCap ov then
        (Inr [(''groups'', JStrs (take (nat (go_GenericCap ov)) names))],
         [''generic overage omitted '' @ Itoa (n - go_GenericCap ov) @ '' groups (cap ''
            @ Itoa (go_GenericCap ov) @ '')''])
      else (Inr [(''groups'', JStrs names)], []))"

section \<open>Tokens\<close>

text \<open>Claims of a later \<^verbatim>\<open>Claims\<close> call replace those of an earlier one with the same name.\<close>

definition put_all :: "(string \<times> json) list \<Rightarrow> json gmap \<Rightarrow> json gmap" where
  "put_all kvs m = foldl (\<lambda>m (k, v). gput k v m) m kvs"

definition mint ::
  "env \<Rightarrow> string \<Rightarrow> go_time \<Rightarrow> string \<Rightarrow> string \<Rightarrow> string \<Rightarrow> string \<Rightarrow> go_duration \<Rightarrow> json gmap \<Rightarrow> string option" where
  "mint E key now iss sub aud nonce ttl extra =
     ev_sign E key \<lparr>jc_Issuer = iss, jc_Subject = sub, jc_Audience = [aud], jc_IssuedAt = now,
         jc_Expiry = now + ttl\<rparr>
       (entries (put_all (entries extra) (if nonce \<noteq> [] then gput ''nonce'' (JStr nonce) gempty else gempty)))"

definition parseAndVerifyExtra ::
  "env \<Rightarrow> string \<Rightarrow> string \<Rightarrow> string \<Rightarrow> bool \<Rightarrow> go_time \<Rightarrow> (jwtclaims \<times> json gmap) option" where
  "parseAndVerifyExtra E key token iss accessOnly now = (case ev_open E key token of
     None \<Rightarrow> None
   | Some (c, extra) \<Rightarrow>
       if \<not> ev_validate E c iss now then None
       else if accessOnly \<and> as_string (gget extra ''token_use'') \<noteq> ''access'' then None
       else Some (c, extra))"

definition applyClothesClaims :: "snapshot \<Rightarrow> string \<Rightarrow> json gmap \<Rightarrow> json gmap" where
  "applyClothesClaims snap uid extra =
     (if ct_Vendor (sn_Clothes snap) \<noteq> ''entra'' then extra
      else gput ''ver'' (JStr ''2.0'') (gput ''tid'' (JStr (ct_TenantID (sn_Clothes snap)))
             (gput ''oid'' (JStr uid) extra)))"

definition entraTokenErrorCode :: "string \<Rightarrow> int" where
  "entraTokenErrorCode code =
     (if code = ''invalid_client'' then 700016
      else if code = ''invalid_grant'' then 70008
      else if code = ''invalid_request'' then 90014
      else if code = ''temporarily_unavailable'' then 90033
      else if code = ''unsupported_grant_type'' then 90014
      else if code = ''server_error'' then 50000
      else 0)"

definition writeTokenError :: "string \<Rightarrow> snapshot \<Rightarrow> nat \<Rightarrow> string \<Rightarrow> string \<Rightarrow> response" where
  "writeTokenError rid snap st code desc = JsonResp st
     ([(''error'', JStr code)]
      @ (if desc \<noteq> [] then [(''error_description'', JStr desc)] else [])
      @ (if ct_Vendor (sn_Clothes snap) = ''entra''
         then [(''error_codes'', JArr [JNum (entraTokenErrorCode code)]), (''trace_id'', JStr rid)]
         else []))"

definition clientFromRequest :: "request \<Rightarrow> snapshot \<Rightarrow> (client \<times> string) option" where
  "clientFromRequest rq snap = (let
     basic = (case rq_BasicAuth rq of
        None \<Rightarrow> Some None
      | Some (i, s) \<Rightarrow> (case (QueryUnescape i, QueryUnescape s) of
           (Some i', Some s') \<Rightarrow> Some (Some (i', s')) | _ \<Rightarrow> None))
   in case basic of
     None \<Rightarrow> None
   | Some b \<Rightarrow>
     let (cid, secret) = (case b of
            Some (i, s) \<Rightarrow> if i = [] then (FormValue rq ''client_id'', FormValue rq ''client_secret'') else (i, s)
          | None \<Rightarrow> (FormValue rq ''client_id'', FormValue rq ''client_secret''))
     in if cid = [] then None
        else case gget (sn_ClientsByClientID snap) cid of
          None \<Rightarrow> None
        | Some cl \<Rightarrow>
          if cl_Public cl then (if secret \<noteq> [] then None else Some (cl, cid))
          else let want = gget_or [] (sn_ClientSecrets snap) cid
               in if want = [] \<or> want \<noteq> secret then None else Some (cl, cid))"

end
