(* ===== verification/Provider.thy ===== *)
theory Provider
  imports Oidc
begin

text \<open>
  The handlers of \<^verbatim>\<open>internal/oidc/provider.go\<close>: discovery, authorization, the token endpoint with
  its two grants, user info, completion and denial of a login, logout, the Graph stub and
  operator minting. Clock and identifier call sites of one handler are numbered in source order.
\<close>

section \<open>Routing and discovery\<close>

definition requirePath ::
  "(clothes \<Rightarrow> string) \<Rightarrow> snapshot option \<Rightarrow> request \<Rightarrow>
     (provider \<Rightarrow> response \<times> provider) \<Rightarrow> provider \<Rightarrow> response \<times> provider" where
  "requirePath sel s rq nxt p = (case snapOIDC s of
     Inl e \<Rightarrow> (e, p)
   | Inr snap \<Rightarrow> let want = sel (clothesOf (Some snap))
       in if want = [] \<or> rq_Path rq \<noteq> want then (HttpError 404 ''not found'', p) else nxt p)"

definition signingAlgorithms :: "env \<Rightarrow> snapshot \<Rightarrow> string list" where
  "signingAlgorithms E snap = (case ev_signer E (sn_SigningKey snap) of None \<Rightarrow> [] | Some alg \<Rightarrow> [alg])"

definition writeDiscovery :: "env \<Rightarrow> snapshot \<Rightarrow> response" where
  "writeDiscovery E snap = (let iss = TrimRight (sn_Issuer snap) ''/''; c = clothesOf (Some snap) in
     JsonResp 200 [
       (''issuer'', JStr iss),
       (''authorization_endpoint'', JStr (iss @ ct_AuthorizePath c)),
       (''token_endpoint'', JStr (iss @ ct_TokenPath c)),
       (''jwks_uri'', JStr (iss @ ct_JWKSPath c)),
       (''userinfo_endpoint'', JStr (iss @ ct_UserInfoPath c)),
       (''end_session_endpoint'', JStr (iss @ ct_LogoutPath c)),
       (''response_types_supported'', JStrs [''code'']),
       (''grant_types_supported'', JStrs [''authorization_code'', ''refresh_token'']),
       (''code_challenge_methods_supported'', JStrs [''S256'']),
       (''id_token_signing_alg_values_supported'', JStrs (signingAlgorithms E snap)),
       (''scopes_supported'', JStrs [''openid'', ''profile'', ''email'', ''groups'', ''offline_access'']),
       (''subject_types_supported'', JStrs [''public''])])"

definition discovery :: "env \<Rightarrow> snapshot option \<Rightarrow> response" where
  "discovery E s = (case snapOIDC s of Inl e \<Rightarrow> e | Inr snap \<Rightarrow> writeDiscovery E snap)"

definition twoSegmentDiscovery :: "env \<Rightarrow> snapshot option \<Rightarrow> string \<Rightarrow> string \<Rightarrow> response" where
  "twoSegmentDiscovery E s a b = (case snapOIDC s of
     Inl e \<Rightarrow> e
   | Inr snap \<Rightarrow> let c = clothesOf (Some snap);
         ok = ((ct_Vendor c = ''entra'' \<and> a = ct_TenantID c \<and> b = ''v2.0'')
               \<or> (ct_Vendor c = ''duo'' \<and> a = ''oidc'' \<and> b = ct_Realm c))
       in if \<not> ok then HttpError 404 ''not found'' else writeDiscovery E snap)"

definition siteminderDiscovery :: "env \<Rightarrow> snapshot option \<Rightarrow> string \<Rightarrow> response" where
  "siteminderDiscovery E s name = (case snapOIDC s of
     Inl e \<Rightarrow> e
   | Inr snap \<Rightarrow> let c = clothesOf (Some snap)
       in if ct_Vendor c \<noteq> ''siteminder'' \<or> name \<noteq> ct_Realm c
          then HttpError 404 ''not found'' else writeDiscovery E snap)"

section \<open>Authorization\<close>

definition reject :: "string \<Rightarrow> provider \<Rightarrow> provider" where
  "reject reason p = p\<lparr>pv_rt := Reject reason (pv_rt p)\<rparr>"

definition oidc_pending :: "snapshot \<Rightarrow> request \<Rightarrow> pending" where
  "oidc_pending snap rq = (let q = rq_Query rq in zero_pending\<lparr>
     pd_Generation := sn_Generation snap, pd_Protocol := ProtocolOIDC,
     pd_ClientID := values_Get q ''client_id'', pd_RedirectURI := values_Get q ''redirect_uri'',
     pd_Scope := values_Get q ''scope'', pd_State := values_Get q ''state'',
     pd_Nonce := values_Get q ''nonce'', pd_Challenge := values_Get q ''code_challenge'',
     pd_Method := values_Get q ''code_challenge_method''\<rparr>)"

text \<open>Store a pending request and send the browser to the login or the consent page.\<close>

definition start_pending ::
  "snapshot \<Rightarrow> request \<Rightarrow> string \<Rightarrow> provider \<Rightarrow> response \<times> provider" where
  "start_pending snap rq page p = (let
     (pend, r) = PutPending (rq_clk rq 4) (rq_clk rq 5) (rq_rnd rq 1) (oidc_pending snap rq) (pv_rt p);
     p1 = p\<lparr>pv_rt := r\<rparr>
   in if pd_ID pend = [] then (HttpError 400 ''invalid_request'', p1)
      else (Redirect (TrimRight (sn_Issuer snap) ''/'' @ page @ ''?pending='' @ QueryEscape (pd_ID pend)), p1))"

definition issued_code :: "snapshot \<Rightarrow> request \<Rightarrow> loginsession \<Rightarrow> authcode" where
  "issued_code snap rq sess = (let q = rq_Query rq in \<lparr>
     ac_Generation = sn_Generation snap, ac_Code = rq_rnd rq 0,
     ac_ClientID = values_Get q ''client_id'', ac_RedirectURI = values_Get q ''redirect_uri'',
     ac_UserID = ss_UserID sess, ac_Username = ss_Username sess, ac_Scope = values_Get q ''scope'',
     ac_Nonce = values_Get q ''nonce'', ac_Challenge = values_Get q ''code_challenge'',
     ac_Expires = rq_clk rq 2 + 5 * Minute, ac_MFACompleted = ss_MFACompleted sess\<rparr>)"

text \<open>A live session of a usable user: the code directly when consent is not needed, else the consent page.\<close>

definition authorize_session ::
  "env \<Rightarrow> snapshot \<Rightarrow> request \<Rightarrow> client \<Rightarrow> loginsession \<Rightarrow> provider \<Rightarrow> response \<times> provider" where
  "authorize_session E snap rq cl sess p = (let q = rq_Query rq in
     if cl_PreConsent cl \<and> \<not> rt_forceConsent (pv_rt p) then
       (let (ok, r) = PutCode (rq_clk rq 3) (issued_code snap rq sess) (pv_rt p); p1 = p\<lparr>pv_rt := r\<rparr>
        in if \<not> ok then (HttpError 503 ''temporarily_unavailable'', p1)
           else case codeLocation E (values_Get q ''redirect_uri'') (rq_rnd rq 0) (values_Get q ''state'') of
             None \<Rightarrow> (HttpError 400 ''invalid_request'', p1)
           | Some loc \<Rightarrow> (Redirect loc, p1))
     else start_pending snap rq ''/consent'' p)"

text \<open>The part of \<^verbatim>\<open>authorize\<close> after the client and its redirect URI are known.\<close>

definition authorize_client ::
  "env \<Rightarrow> snapshot \<Rightarrow> request \<Rightarrow> client \<Rightarrow> provider \<Rightarrow> response \<times> provider" where
  "authorize_client E snap rq cl p = (let
     q = rq_Query rq; redirect = values_Get q ''redirect_uri''; st = values_Get q ''state'';
     rejected = ''oidc_authorization_rejected''
   in if \<not> scopesAllowed cl (values_Get q ''scope'')
      then (oauthErrorRedirect E redirect st ''invalid_scope'' [], reject rejected p)
      else if \<not> PendingBounded (zero_pending\<lparr>pd_State := st, pd_Nonce := values_Get q ''nonce'',
                pd_Scope := values_Get q ''scope''\<rparr>)
      then (HttpError 400 ''invalid_request'', p)
      else let (inj, r1) = TakeInject (pv_rt p); p1 = p\<lparr>pv_rt := r1\<rparr> in
      if inj \<noteq> [] then (oauthErrorRedirect E redirect st inj ''injected'', reject rejected p1)
      else let method = values_Get q ''code_challenge_method''; challenge = values_Get q ''code_challenge'' in
      if method = ''plain'' \<or> method \<noteq> ''S256'' \<or> \<not> validChallenge challenge
      then (oauthErrorRedirect E redirect st ''invalid_request''
              (if method = ''plain'' then ''PKCE plain is rejected'' else ''PKCE S256 required''),
            reject rejected p1)
      else if values_Get q ''response_type'' \<noteq> ''code''
      then (oauthErrorRedirect E redirect st ''unsupported_response_type'' ''only code'', reject rejected p1)
      else let mfa = mfa_mode snap in
      if rt_forceFail (pv_rt p1) \<or> mfa = ''force-fail''
      then (oauthErrorRedirect E redirect st ''access_denied'' ''force-fail'', reject rejected p1)
      else case Cookie rq (CookieName (Some snap)) of
        None \<Rightarrow> start_pending snap rq ''/login'' p1
      | Some sid \<Rightarrow>
        if sid = [] then start_pending snap rq ''/login'' p1
        else let (found, r2) = GetSession (rq_clk rq 1) sid (pv_rt p1); p2 = p1\<lparr>pv_rt := r2\<rparr> in
          (case found of
             None \<Rightarrow> start_pending snap rq ''/login'' p2
           | Some sess \<Rightarrow>
             if SessionUsable sess mfa \<and> UserUsable (Some snap) (ss_UserID sess)
             then authorize_session E snap rq cl sess p2
             else start_pending snap rq ''/login'' p2))"

definition authorize ::
  "env \<Rightarrow> snapshot option \<Rightarrow> request \<Rightarrow> provider \<Rightarrow> response \<times> provider" where
  "authorize E s rq p = (case snapOIDC s of
     Inl e \<Rightarrow> (e, p)
   | Inr snap \<Rightarrow> let (ok, lim) = allow (rq_clk rq 0) (clientIP rq) (pv_limit p); p1 = p\<lparr>pv_limit := lim\<rparr> in
       if \<not> ok then (HttpError 429 ''rate limited'', p1)
       else let q = rq_Query rq; clientID = values_Get q ''client_id'';
                redirect = values_Get q ''redirect_uri'' in
         if clientID = [] \<or> redirect = [] then (HttpError 400 ''invalid_request'', p1)
         else case gget (sn_ClientsByClientID snap) clientID of
           None \<Rightarrow> (HttpError 400 ''invalid_client'', p1)
         | Some cl \<Rightarrow>
           if \<not> exactRedirect (cl_RedirectURIs cl) redirect then (HttpError 400 ''invalid_request'', p1)
           else authorize_client E snap rq cl p1)"

section \<open>The token endpoint\<close>

fun err_text :: "go_error \<Rightarrow> string" where
  "err_text (Errorf f args) = f"
| "err_text (Wrapf f args e) = f"
| "err_text (DomainError c f args) = f"

text \<open>
  The claims of a user for the granted scope: added to the ID token claims \<open>extra\<close> and, for
  groups, to the access token claims \<open>acc\<close>. The last component is what the warn callback saw.
\<close>

definition user_claims ::
  "snapshot \<Rightarrow> string \<Rightarrow> string \<Rightarrow> json gmap \<Rightarrow> json gmap \<Rightarrow>
     (go_error + (json gmap \<times> json gmap)) \<times> string list" where
  "user_claims snap uid scope extra acc = (case gget (sn_UsersByID snap) uid of
     None \<Rightarrow> (Inr (extra, acc), [])
   | Some u \<Rightarrow> let
       extra1 = (if hasScope scope ''email'' \<and> us_Email u \<noteq> [] then gput ''email'' (JStr (us_Email u)) extra
                 else extra)
     in if hasScope scope ''groups'' then
          (case groupClaims snap u of
             (Inl e, w) \<Rightarrow> (Inl e, w)
           | (Inr gc, w) \<Rightarrow> (Inr (put_all gc extra1, put_all gc acc), w))
        else (Inr (extra1, acc), []))"

definition access_claims :: "snapshot \<Rightarrow> string \<Rightarrow> json gmap" where
  "access_claims snap scope = gput ''generation'' (JNum (sn_Generation snap))
     (gput ''scope'' (JStr scope) (gput ''token_use'' (JStr ''access'') gempty))"

definition name_claim :: "string \<Rightarrow> json gmap" where
  "name_claim username = (if username \<noteq> [] then gput ''preferred_username'' (JStr username) gempty else gempty)"

definition mfa_claims :: "bool \<Rightarrow> json gmap \<Rightarrow> json gmap" where
  "mfa_claims mfa m = (if mfa then gput ''acr'' (JStr ACR) (gput ''amr'' (JStrs [''pwd'', ''otp'']) m) else m)"

definition warned :: "string list \<Rightarrow> provider \<Rightarrow> provider" where
  "warned w p = (if pv_hasWarn p then p\<lparr>pv_warns := pv_warns p @ w\<rparr> else p)"

definition refresh_row ::
  "snapshot \<Rightarrow> request \<Rightarrow> string \<Rightarrow> string \<Rightarrow> string \<Rightarrow> string \<Rightarrow> bool \<Rightarrow> refresh" where
  "refresh_row snap rq clientID userID username scope mfa = \<lparr>
     rf_Generation = sn_Generation snap, rf_Token = rq_rnd rq 1, rf_ClientID = clientID,
     rf_UserID = userID, rf_Username = username, rf_Scope = scope,
     rf_Expires = rq_clk rq 4 + 24 * Hour, rf_MFACompleted = mfa\<rparr>"

text \<open>Issue the tokens once the grant has been accepted; \<open>spent\<close> is the redeemed refresh handle or empty.\<close>

definition issueTokens ::
  "env \<Rightarrow> snapshot \<Rightarrow> request \<Rightarrow> string \<Rightarrow> string \<Rightarrow> string \<Rightarrow> string \<Rightarrow> string \<Rightarrow> bool \<Rightarrow> string \<Rightarrow>
     provider \<Rightarrow> response \<times> provider" where
  "issueTokens E snap rq clientID userID username scope nonce mfa spent p = (let
     key = sn_SigningKey snap; fail = writeTokenError (rq_rnd rq 0) snap in
   case ev_signer E key of
     None \<Rightarrow> (fail 500 ''server_error'' [], p)
   | Some alg \<Rightarrow> (case user_claims snap userID scope (name_claim username) (access_claims snap scope) of
       (Inl e, w) \<Rightarrow> (fail 400 ''invalid_grant'' (err_text e), warned w p)
     | (Inr (extra, acc), w) \<Rightarrow> let p1 = warned w p in
         (case mint E key (rq_clk rq 2) (sn_Issuer snap) userID clientID nonce Hour
                 (applyClothesClaims snap userID (mfa_claims mfa extra)) of
            None \<Rightarrow> (fail 500 ''server_error'' [], p1)
          | Some idTok \<Rightarrow>
            (case mint E key (rq_clk rq 3) (sn_Issuer snap) userID clientID [] Hour (mfa_claims mfa acc) of
               None \<Rightarrow> (fail 500 ''server_error'' [], p1)
             | Some access \<Rightarrow> let
                 row = refresh_row snap rq clientID userID username scope mfa;
                 (ok, r) = (if spent \<noteq> [] then RotateRefresh (rq_clk rq 5) spent row (pv_rt p1)
                            else PutRefresh (rq_clk rq 5) row (pv_rt p1));
                 p2 = p1\<lparr>pv_rt := r\<rparr>
               in if \<not> ok then
                    (if spent \<noteq> [] then (fail 400 ''invalid_grant'' [], p2)
                     else (fail 503 ''temporarily_unavailable'' ''runtime capacity'', p2))
                  else (JsonResp 200 [(''access_token'', JStr access), (''id_token'', JStr idTok),
                          (''refresh_token'', JStr (rf_Token row)), (''token_type'', JStr ''Bearer''),
                          (''expires_in'', JNum 3600)], p2)))))"

definition writeTokens ::
  "env \<Rightarrow> snapshot \<Rightarrow> request \<Rightarrow> string \<Rightarrow> string \<Rightarrow> string \<Rightarrow> string \<Rightarrow> string \<Rightarrow> bool \<Rightarrow> string \<Rightarrow>
     provider \<Rightarrow> response \<times> provider" where
  "writeTokens E snap rq clientID userID username scope nonce mfa spent p = (case sn_Canonical snap of
     None \<Rightarrow> (Panic, p)
   | Some d \<Rightarrow> let
       revoked = (case gget (sn_ClientsByClientID snap) clientID of
          None \<Rightarrow> True
        | Some cl \<Rightarrow> \<not> UserUsable (Some snap) userID \<or> \<not> scopesAllowed cl scope);
       mode = mfa_mode snap;
       forced = (rt_forceFail (pv_rt p) \<or> mode = ''force-fail'');
       usable = GenerationUsable (sn_Generation snap) (pv_rt p)
     in if revoked \<or> \<not> SessionUsable (zero_session\<lparr>ss_MFACompleted := mfa\<rparr>) mode \<or> forced \<or> \<not> usable
        then (writeTokenError (rq_rnd rq 0) snap 400 ''invalid_grant''
                (if forced \<and> \<not> revoked then ''force-fail'' else []),
              if revoked \<and> spent \<noteq> [] \<and> usable
              then p\<lparr>pv_rt := snd (TakeRefresh spent (pv_rt p))\<rparr> else p)
        else issueTokens E snap rq clientID userID username scope nonce mfa spent p)"

definition tokenCode ::
  "env \<Rightarrow> snapshot \<Rightarrow> request \<Rightarrow> provider \<Rightarrow> response \<times> provider" where
  "tokenCode E snap rq p = (let fail = writeTokenError (rq_rnd rq 0) snap in
   case clientFromRequest rq snap of
     None \<Rightarrow> (fail 401 ''invalid_client'' [], p)
   | Some (_, clientID) \<Rightarrow> let
       redirect = FormValue rq ''redirect_uri'';
       (found, r) = TakeCode (FormValue rq ''code'') (pv_rt p); p1 = p\<lparr>pv_rt := r\<rparr>
     in case found of
       None \<Rightarrow> (fail 400 ''invalid_grant'' [], p1)
     | Some c \<Rightarrow>
       if After (rq_clk rq 1) (ac_Expires c) \<or> ac_RedirectURI c \<noteq> redirect \<or> ac_ClientID c \<noteq> clientID
          \<or> \<not> exactRedirect (cl_RedirectURIs (gget_or zero_client (sn_ClientsByClientID snap) clientID)) redirect
       then (fail 400 ''invalid_grant'' [], p1)
       else if \<not> verifyPKCE E (ac_Challenge c) ''S256'' (FormValue rq ''code_verifier'')
       then (fail 400 ''invalid_grant'' ''PKCE verifier mismatch'', p1)
       else writeTokens E snap rq (ac_ClientID c) (ac_UserID c) (ac_Username c) (ac_Scope c)
              (ac_Nonce c) (ac_MFACompleted c) [] p1)"

definition tokenRefresh ::
  "env \<Rightarrow> snapshot \<Rightarrow> request \<Rightarrow> provider \<Rightarrow> response \<times> provider" where
  "tokenRefresh E snap rq p = (let fail = writeTokenError (rq_rnd rq 0) snap in
   case clientFromRequest rq snap of
     None \<Rightarrow> (fail 401 ''invalid_client'' [], p)
   | Some (_, clientID) \<Rightarrow> let tok = FormValue rq ''refresh_token'' in
     (case GetRefresh tok (pv_rt p) of
        None \<Rightarrow> (fail 400 ''invalid_grant'' [], p)
      | Some ref \<Rightarrow>
        if After (rq_clk rq 1) (rf_Expires ref) \<or> rf_ClientID ref \<noteq> clientID
        then (fail 400 ''invalid_grant'' [], p)
        else let requested = FormValue rq ''scope'' in
          if requested \<noteq> [] \<and> \<not> scopeSubset requested (rf_Scope ref)
          then (fail 400 ''invalid_scope'' [], p)
          else writeTokens E snap rq (rf_ClientID ref) (rf_UserID ref) (rf_Username ref)
                 (if requested \<noteq> [] then requested else rf_Scope ref) [] (rf_MFACompleted ref) tok p))"

definition token ::
  "env \<Rightarrow> snapshot option \<Rightarrow> request \<Rightarrow> provider \<Rightarrow> response \<times> provider" where
  "token E s rq p = (case snapOIDC s of
     Inl e \<Rightarrow> (e, p)
   | Inr snap \<Rightarrow> let fail = writeTokenError (rq_rnd rq 0) snap;
       (ok, lim) = allow (rq_clk rq 0) (clientIP rq) (pv_limit p); p1 = p\<lparr>pv_limit := lim\<rparr> in
       if \<not> ok then (fail 429 ''temporarily_unavailable'' ''rate limited'', p1)
       else if rt_paused (pv_rt p1)
       then (fail 503 ''temporarily_unavailable'' ''token endpoint paused'', p1)
       else if \<not> rq_FormOK rq then (fail 400 ''invalid_request'' [], p1)
       else let (inj, r) = TakeInject (pv_rt p1); p2 = p1\<lparr>pv_rt := r\<rparr> in
         if inj \<noteq> [] then (fail 400 inj ''injected'', p2)
         else let grant = FormValue rq ''grant_type'' in
           if grant = ''authorization_code'' then tokenCode E snap rq p2
           else if grant = ''refresh_token'' then tokenRefresh E snap rq p2
           else (fail 400 ''unsupported_grant_type'' [], p2))"

section \<open>User info\<close>

definition accessUsable :: "snapshot \<Rightarrow> string \<Rightarrow> string list \<Rightarrow> json gmap \<Rightarrow> provider \<Rightarrow> bool" where
  "accessUsable snap userID audiences extra p =
     (if \<not> UserUsable (Some snap) userID \<or> rt_forceFail (pv_rt p) \<or> mfa_mode snap = ''force-fail'' then False
      else let generation = (case gget extra ''generation'' of Some (JNum n) \<Rightarrow> n | _ \<Rightarrow> 0) in
        if generation < 1 \<or> \<not> GenerationUsable generation (pv_rt p) then False
        else let scope = as_string (gget extra ''scope'') in
          list_ex (\<lambda>aud. case gget (sn_ClientsByClientID snap) aud of
                     None \<Rightarrow> False | Some cl \<Rightarrow> scopesAllowed cl scope) audiences)"

definition bearer :: "request \<Rightarrow> string" where
  "bearer rq = TrimPrefix (rq_Authorization rq) ''Bearer ''"

definition userinfo :: "env \<Rightarrow> snapshot option \<Rightarrow> request \<Rightarrow> provider \<Rightarrow> response" where
  "userinfo E s rq p = (case snapOIDC s of
     Inl e \<Rightarrow> e
   | Inr snap \<Rightarrow> let raw = bearer rq in
     if raw = [] then HttpError 401 ''invalid_token''
     else case ev_signer E (sn_SigningKey snap) of
       None \<Rightarrow> HttpError 500 ''server_error''
     | Some alg \<Rightarrow>
       (case parseAndVerifyExtra E (sn_SigningKey snap) raw (sn_Issuer snap) True (rq_clk rq 0) of
          None \<Rightarrow> HttpError 401 ''invalid_token''
        | Some (c, extra) \<Rightarrow>
          if \<not> accessUsable snap (jc_Subject c) (jc_Audience c) extra p then HttpError 401 ''invalid_token''
          else let
            scope = as_string (gget extra ''scope'');
            out0 = gput ''iss'' (JStr (jc_Issuer c)) (gput ''sub'' (JStr (jc_Subject c)) gempty);
            out = (case gget (sn_UsersByID snap) (jc_Subject c) of
               None \<Rightarrow> out0
             | Some u \<Rightarrow> let
                 out1 = (if us_Username u \<noteq> [] then gput ''preferred_username'' (JStr (us_Username u)) out0 else out0);
                 out2 = (if hasScope scope ''email'' \<and> us_Email u \<noteq> [] then gput ''email'' (JStr (us_Email u)) out1 else out1)
               in if hasScope scope ''groups'' then
                    (case groupClaims snap u of (Inl e, w) \<Rightarrow> out2 | (Inr gc, w) \<Rightarrow> put_all gc out2)
                  else out2)
          in JsonResp 200 (entries (applyClothesClaims snap (jc_Subject c) out))))"

definition graphMemberGroups :: "env \<Rightarrow> snapshot option \<Rightarrow> string \<Rightarrow> request \<Rightarrow> provider \<Rightarrow> response" where
  "graphMemberGroups E s oid rq p = (case snapOIDC s of
     Inl e \<Rightarrow> e
   | Inr snap \<Rightarrow>
     if ct_Vendor (sn_Clothes snap) \<noteq> ''entra''
        \<or> (case sn_Canonical snap of None \<Rightarrow> True | Some d \<Rightarrow> \<not> go_EntraGraphStub (sp_GroupOverage (dc_Spec d)))
     then HttpError 404 ''404 page not found''
     else if bearer rq = [] then HttpError 401 ''invalid_token''
     else case ev_signer E (sn_SigningKey snap) of
       None \<Rightarrow> HttpError 500 ''server_error''
     | Some alg \<Rightarrow>
       (case parseAndVerifyExtra E (sn_SigningKey snap) (bearer rq) (sn_Issuer snap) True (rq_clk rq 0) of
          None \<Rightarrow> HttpError 401 ''invalid_token''
        | Some (c, extra) \<Rightarrow>
          if jc_Subject c \<noteq> oid \<or> \<not> accessUsable snap (jc_Subject c) (jc_Audience c) extra p
             \<or> \<not> hasScope (sprint_opt (gget extra ''scope'')) ''groups''
          then HttpError 401 ''invalid_token''
          else case gget (sn_UsersByID snap) oid of
            None \<Rightarrow> HttpError 401 ''invalid_token''
          | Some u \<Rightarrow> JsonResp 200 [(''value'', JStrs (groupNames snap u))]))"

section \<open>Completing and denying a login\<close>

text \<open>The pending request is one of this protocol, live and still allowed by the snapshot.\<close>

definition oidc_pending_ok :: "snapshot option \<Rightarrow> pending \<Rightarrow> bool" where
  "oidc_pending_ok s pend = (PendingUsable s pend \<and> \<not> (pd_Protocol pend \<noteq> [] \<and> pd_Protocol pend \<noteq> ProtocolOIDC))"

definition completed_code :: "snapshot \<Rightarrow> request \<Rightarrow> pending \<Rightarrow> string \<Rightarrow> string \<Rightarrow> bool \<Rightarrow> authcode" where
  "completed_code snap rq pend userID username mfa = \<lparr>
     ac_Generation = sn_Generation snap, ac_Code = rq_rnd rq 10, ac_ClientID = pd_ClientID pend,
     ac_RedirectURI = pd_RedirectURI pend, ac_UserID = userID, ac_Username = username,
     ac_Scope = pd_Scope pend, ac_Nonce = pd_Nonce pend, ac_Challenge = pd_Challenge pend,
     ac_Expires = rq_clk rq 12 + 5 * Minute, ac_MFACompleted = mfa\<rparr>"

definition CompleteLoginSnapshot ::
  "env \<Rightarrow> snapshot option \<Rightarrow> request \<Rightarrow> string \<Rightarrow> string \<Rightarrow> string \<Rightarrow> bool \<Rightarrow> provider \<Rightarrow>
     (go_error + string) \<times> provider" where
  "CompleteLoginSnapshot E s rq pendingID userID username mfa p =
     (if rt_forceFail (pv_rt p) then (Inl (Errorf ''access_denied'' []), p)
      else case s of
        None \<Rightarrow> (Inl (Errorf ''access_denied'' []), p)
      | Some snap \<Rightarrow>
        if UserUsable (Some snap) userID \<and> sn_Canonical snap = None
        then (Inl (Errorf ''panic'' []), p)
        else if \<not> UserUsable (Some snap) userID
           \<or> \<not> SessionUsable (zero_session\<lparr>ss_MFACompleted := mfa\<rparr>) (mfa_mode snap)
           \<or> \<not> GenerationUsable (sn_Generation snap) (pv_rt p)
        then (Inl (Errorf ''access_denied'' []), p)
        else let (found, r1) = GetPending (rq_clk rq 10) pendingID (pv_rt p); p1 = p\<lparr>pv_rt := r1\<rparr> in
          (case found of
             None \<Rightarrow> (Inl (Errorf ''pending request not found'' []), p1)
           | Some pend \<Rightarrow>
             if \<not> oidc_pending_ok s pend then (Inl (Errorf ''pending request not found'' []), p1)
             else let (taken, r2) = TakePending (rq_clk rq 11) pendingID (pv_rt p1); p2 = p1\<lparr>pv_rt := r2\<rparr> in
               if taken = None then (Inl (Errorf ''pending request not found'' []), p2)
               else let c = completed_code snap rq pend userID username mfa;
                        (ok, r3) = PutCode (rq_clk rq 13) c (pv_rt p2); p3 = p2\<lparr>pv_rt := r3\<rparr> in
                 if \<not> ok then (Inl (Errorf ''runtime capacity'' []), p3)
                 else case codeLocation E (pd_RedirectURI pend) (ac_Code c) (pd_State pend) of
                   None \<Rightarrow> (Inl (Errorf ''parse'' [pd_RedirectURI pend]), p3)
                 | Some loc \<Rightarrow> (Inr loc, p3)))"

definition DenyConsentSnapshot ::
  "env \<Rightarrow> snapshot option \<Rightarrow> request \<Rightarrow> string \<Rightarrow> provider \<Rightarrow> (go_error + string) \<times> provider" where
  "DenyConsentSnapshot E s rq pendingID p = (let
     (found, r1) = GetPending (rq_clk rq 10) pendingID (pv_rt p); p1 = p\<lparr>pv_rt := r1\<rparr> in
   case found of
     None \<Rightarrow> (Inl (Errorf ''pending request not found'' []), p1)
   | Some pend \<Rightarrow>
     if \<not> oidc_pending_ok s pend then (Inl (Errorf ''pending request not found'' []), p1)
     else let (taken, r2) = TakePending (rq_clk rq 11) pendingID (pv_rt p1); p2 = p1\<lparr>pv_rt := r2\<rparr> in
       if taken = None then (Inl (Errorf ''pending request not found'' []), p2)
       else (oauthErrorLocation E (pd_RedirectURI pend) (pd_State pend) ''access_denied'' ''user denied'', p2))"

section \<open>Logout\<close>

definition logoutCSRF :: "env \<Rightarrow> string \<Rightarrow> string \<Rightarrow> string \<Rightarrow> string \<Rightarrow> string" where
  "logoutCSRF E sessionID path redirect st = hex_encode (ev_hmac256 E sessionID
     (''labsso/logout/v1'' @ [CHR 0x00] @ path @ [CHR 0x00] @ redirect @ [CHR 0x00] @ st))"

definition logoutHintMatches :: "env \<Rightarrow> snapshot \<Rightarrow> string \<Rightarrow> string \<Rightarrow> go_time \<Rightarrow> bool" where
  "logoutHintMatches E snap hint userID now =
     (if hint = [] \<or> userID = [] then False
      else case ev_signer E (sn_SigningKey snap) of
        None \<Rightarrow> False
      | Some alg \<Rightarrow> (case parseAndVerifyExtra E (sn_SigningKey snap) hint (sn_Issuer snap) False now of
          None \<Rightarrow> False
        | Some (c, extra) \<Rightarrow>
          if jc_Subject c \<noteq> userID then False
          else if as_string (gget extra ''token_use'') \<noteq> [] then False
          else list_ex (\<lambda>aud. gget (sn_ClientsByClientID snap) aud \<noteq> None) (jc_Audience c)))"

text \<open>The confirmation page: the fields of the form, with the state base64 encoded.\<close>

definition writeLogoutConfirmation :: "string \<Rightarrow> string \<Rightarrow> string \<Rightarrow> string \<Rightarrow> response" where
  "writeLogoutConfirmation path redirect st csrf =
     JsonResp 200 [(''action'', JStr path), (''post_logout_redirect_uri'', JStr redirect),
       (''logout_state'', JStr (RawURL_Encode st)), (''csrf'', JStr csrf)]"

definition loggedOutPage :: string where
  "loggedOutPage = ''<!doctype html><html><body><p>Logged out</p></body></html>''"

definition logoutLocation :: "env \<Rightarrow> string \<Rightarrow> string \<Rightarrow> string option" where
  "logoutLocation E post st =
     (if st \<noteq> [] then ev_setQuery E post [(''state'', st)] else ev_urlString E post)"

text \<open>The last part of logout, once the redirect target is known: confirm, refuse or expire.\<close>

definition logout_finish ::
  "env \<Rightarrow> snapshot \<Rightarrow> request \<Rightarrow> string \<Rightarrow> string \<Rightarrow> string option \<Rightarrow> string \<Rightarrow> string \<Rightarrow> provider \<Rightarrow>
     response \<times> provider" where
  "logout_finish E snap rq post st redirect csrf hint p = (let
     isPost = (rq_Method rq = ''POST''); isGet = (rq_Method rq = ''GET''); name = CookieName (Some snap);
     (sess, r1) = (case Cookie rq name of
        Some v \<Rightarrow> if v \<noteq> [] then (let (f, r) = GetSession (rq_clk rq 0) v (pv_rt p)
                    in (case f of Some x \<Rightarrow> x | None \<Rightarrow> zero_session, r))
                 else (zero_session, pv_rt p)
      | None \<Rightarrow> (zero_session, pv_rt p));
     p1 = p\<lparr>pv_rt := r1\<rparr>;
     want = logoutCSRF E (ss_ID sess) (rq_Path rq) post st;
     hinted = (isGet \<and> ss_ID sess \<noteq> [] \<and> logoutHintMatches E snap hint (ss_UserID sess) (rq_clk rq 1));
     page = (case redirect of Some loc \<Rightarrow> Redirect loc | None \<Rightarrow> Html loggedOutPage)
   in if \<not> isPost \<and> ss_ID sess \<noteq> [] \<and> \<not> hinted
      then (writeLogoutConfirmation (rq_Path rq) post st want, p1)
      else if isPost \<and> (ss_ID sess = [] \<or> csrf \<noteq> want) then (HttpError 403 ''forbidden'', p1)
      else if isPost \<or> hinted then
        (WithCookie \<lparr>ck_Name = name, ck_Value = [], ck_MaxAge = -1, ck_Secure = rq_TLS rq\<rparr> page,
         p1\<lparr>pv_rt := snd (ExpireSession (ss_ID sess) (pv_rt p1))\<rparr>)
      else (page, p1))"

definition logout ::
  "env \<Rightarrow> snapshot option \<Rightarrow> request \<Rightarrow> provider \<Rightarrow> response \<times> provider" where
  "logout E s rq p = (case snapOIDC s of
     Inl e \<Rightarrow> (e, p)
   | Inr snap \<Rightarrow> let isPost = (rq_Method rq = ''POST'') in
     if isPost \<and> \<not> rq_SameOrigin rq then (HttpError 403 ''forbidden'', p)
     else if \<not> rq_FormOK rq then (HttpError 400 ''invalid_request'', p)
     else let params = (if isPost then rq_PostForm rq else rq_PostForm rq @ rq_Query rq);
              post = values_Get params ''post_logout_redirect_uri'';
              st0 = (if isPost then RawURL_Decode (values_Get params ''logout_state'')
                     else Some (values_Get params ''state'')) in
       (case st0 of
          None \<Rightarrow> (HttpError 400 ''invalid_request'', p)
        | Some st \<Rightarrow>
          if length st > 4096 then (HttpError 400 ''invalid_request'', p)
          else if post \<noteq> [] \<and> \<not> logoutRedirectOK snap post then (HttpError 400 ''invalid_request'', p)
          else if post \<noteq> [] \<and> logoutLocation E post st = None
          then (HttpError 400 ''invalid_request'', p)
          else logout_finish E snap rq post st (if post = [] then None else logoutLocation E post st)
                 (values_Get params ''csrf'') (values_Get params ''id_token_hint'') p))"

section \<open>Operator minting\<close>

definition Mint ::
  "env \<Rightarrow> snapshot option \<Rightarrow> (nat \<Rightarrow> go_time) \<Rightarrow> string \<Rightarrow> string \<Rightarrow> string \<Rightarrow> string \<Rightarrow> provider \<Rightarrow>
     (go_error + (string \<times> string)) \<times> provider" where
  "Mint E s clk clientID userID username scope p = (case s of
     None \<Rightarrow> (Inl (Errorf ''oidc disabled'' []), p)
   | Some snap \<Rightarrow> (case sn_Canonical snap of
       None \<Rightarrow> (Inl (Errorf ''oidc disabled'' []), p)
     | Some d \<Rightarrow>
       if \<not> IsEnabled (pr_OIDC (sp_Protocols (dc_Spec d))) False then (Inl (Errorf ''oidc disabled'' []), p)
       else case ev_signer E (sn_SigningKey snap) of
         None \<Rightarrow> (Inl (Errorf ''signing key'' []), p)
       | Some alg \<Rightarrow> (case user_claims snap userID scope (name_claim username) (access_claims snap scope) of
           (Inl e, w) \<Rightarrow> (Inl e, warned w p)
         | (Inr (extra, acc), w) \<Rightarrow> let p1 = warned w p in
             (case mint E (sn_SigningKey snap) (clk 0) (sn_Issuer snap) userID clientID [] Hour
                     (applyClothesClaims snap userID extra) of
                None \<Rightarrow> (Inl (Errorf ''sign'' []), p1)
              | Some idTok \<Rightarrow>
                (case mint E (sn_SigningKey snap) (clk 1) (sn_Issuer snap) userID clientID [] Hour acc of
                   None \<Rightarrow> (Inl (Errorf ''sign'' []), p1)
                 | Some access \<Rightarrow> (Inr (access, idTok), p1))))))"

lemma warned_rt [simp]: "pv_rt (warned w p) = pv_rt p"
  by (simp add: warned_def)

end
