(* ===== verification/Compiler.thy ===== *)
theory Compiler
  imports Vendor Totp
begin

text \<open>
  \<^verbatim>\<open>internal/compiler\<close> and the secret checks and loading of \<^verbatim>\<open>internal/config/load.go\<close>: from a
  configuration document to an immutable snapshot. The record \<open>comp\<close> collects what the code takes
  from its surroundings: the file system, the environment, the parsers of \<^verbatim>\<open>crypto/x509\<close>,
  \<^verbatim>\<open>encoding/pem\<close> and \<^verbatim>\<open>crypto/tls\<close>, the base32 decoders, the YAML package and the certificate builder.
\<close>

section \<open>Surroundings\<close>

datatype private_key = RSAKey bool | ECKey nat bool | OtherKey string

text \<open>
  An RSA key with the result of \<^verbatim>\<open>Validate()\<close>, an elliptic-curve key with the bit size of its curve and
  whether the curve is one of P-256, P-384 and P-521, or a key of another type, by name.
\<close>

datatype yaml_rest = YamlEOF | YamlDocument | YamlError

record comp =
  cm_net :: netlib
  cm_sha256 :: "string \<Rightarrow> string"
  cm_ReadFile :: "string \<Rightarrow> string option"
  cm_Stat :: "string \<Rightarrow> bool"
  cm_keyPair :: "string \<Rightarrow> string \<Rightarrow> bool"
  cm_pem :: "string \<Rightarrow> string option"
  cm_pkcs8 :: "string \<Rightarrow> private_key option"
  cm_pkcs1 :: "string \<Rightarrow> bool option"
  cm_ec :: "string \<Rightarrow> (nat \<times> bool) option"
  cm_labCert :: "string \<Rightarrow> string \<Rightarrow> go_time \<Rightarrow> string option"
  cm_b32 :: "string \<Rightarrow> string option"
  cm_b32raw :: "string \<Rightarrow> string option"
  cm_yamlMarshal :: "document \<Rightarrow> string option"
  cm_yamlDecode :: "string \<Rightarrow> document option"
  cm_yamlRest :: "string \<Rightarrow> yaml_rest"
  cm_PublicHost :: string
  cm_HTTPSPort :: string
  cm_BaseDir :: string

text \<open>Sequencing with early return of an error.\<close>

definition bindE :: "go_error + 'a \<Rightarrow> ('a \<Rightarrow> go_error + 'b) \<Rightarrow> go_error + 'b" where
  "bindE x f = (case x of Inl e \<Rightarrow> Inl e | Inr v \<Rightarrow> f v)"

definition guardE :: "go_error option \<Rightarrow> go_error + 'b \<Rightarrow> go_error + 'b" where
  "guardE e x = (case e of Some err \<Rightarrow> Inl err | None \<Rightarrow> x)"

lemma bindE_Inr [simp]: "bindE x f = Inr v \<longleftrightarrow> (\<exists>u. x = Inr u \<and> f u = Inr v)"
  by (cases x) (simp_all add: bindE_def)

lemma guardE_Inr [simp]: "guardE e x = Inr v \<longleftrightarrow> e = None \<and> x = Inr v"
  by (cases e) (simp_all add: guardE_def)

section \<open>Issuer\<close>

definition Trim :: "string \<Rightarrow> string \<Rightarrow> string" where
  "Trim s cs = TrimRight (TrimLeft s cs) cs"

definition JoinHostPort :: "string \<Rightarrow> string \<Rightarrow> string" where
  "JoinHostPort host port = (if Contains host '':'' \<or> Contains host ''%''
     then ''['' @ host @ '']:'' @ port else host @ '':'' @ port)"

definition DeriveIssuer :: "comp \<Rightarrow> string option" where
  "DeriveIssuer K = (if cm_PublicHost K = [] then None
     else let port = cm_HTTPSPort K; host = Trim (cm_PublicHost K) ''[]'' in
       if port = [] \<or> port = ''443''
       then Some (''https://'' @ (if Contains host '':'' then ''['' @ host @ '']'' else host))
       else Some (''https://'' @ JoinHostPort host port))"

definition bad_public_host :: "comp \<Rightarrow> bool" where
  "bad_public_host K = (let raw = cm_PublicHost K; host = Trim raw ''[]'' in
     raw \<noteq> [] \<and> (\<not> ValidHost (cm_net K) host
       \<or> (ContainsAny raw ''[]'' \<and> (raw \<noteq> ''['' @ host @ '']'' \<or> \<not> net_ParseIP (cm_net K) host))))"

definition ResolveIssuer :: "comp \<Rightarrow> string \<Rightarrow> go_error + string" where
  "ResolveIssuer K yamlIssuer =
     (if bad_public_host K then Inl (Errorf ''invalid LAB_PUBLIC_HOST'' [])
      else if cm_HTTPSPort K \<noteq> [] \<and> \<not> ValidPort (cm_HTTPSPort K) then Inl (Errorf ''invalid LABSSO_HTTPS_PORT'' [])
      else case ValidateURI (cm_net K) yamlIssuer True of
        Some e \<Rightarrow> Inl (Wrapf ''issuer must be an absolute HTTPS origin: %w'' [] e)
      | None \<Rightarrow>
        if (case url_Parse (cm_net K) yamlIssuer of None \<Rightarrow> True
            | Some u \<Rightarrow> url_Path u \<noteq> [] \<or> url_RawQuery u \<noteq> [] \<or> url_ForceQuery u \<or> url_Fragment u \<noteq> [])
        then Inl (Errorf ''issuer must have no path, query, or fragment'' [])
        else case DeriveIssuer K of
          None \<Rightarrow> if yamlIssuer = []
                  then Inl (Errorf ''spec.issuer is required when LAB_PUBLIC_HOST is unset'' []) else Inr yamlIssuer
        | Some derived \<Rightarrow>
          if yamlIssuer \<noteq> derived
          then Inl (Errorf ''spec.issuer %q does not match derived issuer %q (LAB_PUBLIC_HOST / LABSSO_HTTPS_PORT)''
                 [yamlIssuer, derived])
          else Inr derived)"

section \<open>Signing keys\<close>

definition validateEC :: "bool \<Rightarrow> go_error option" where
  "validateEC known = check (\<not> known) (Errorf ''unsupported ECDSA signing curve'' [])"

definition parseSigningKey :: "comp \<Rightarrow> string \<Rightarrow> go_error option" where
  "parseSigningKey K pem = (case cm_pem K pem of
     None \<Rightarrow> Some (Errorf ''signing key is not PEM'' [])
   | Some der \<Rightarrow> (case cm_pkcs8 K der of
       Some (RSAKey valid) \<Rightarrow> check (\<not> valid) (Errorf ''rsa key'' [])
     | Some (ECKey bits known) \<Rightarrow> validateEC known
     | Some (OtherKey t) \<Rightarrow> Some (Errorf ''unsupported signing key type %T'' [t])
     | None \<Rightarrow> (case cm_pkcs1 K der of
         Some valid \<Rightarrow> check (\<not> valid) (Errorf ''rsa key'' [])
       | None \<Rightarrow> (case cm_ec K der of
           Some (bits, known) \<Rightarrow> validateEC known
         | None \<Rightarrow> Some (Errorf ''unsupported signing key'' [])))))"

definition requireRSASigningKey :: "comp \<Rightarrow> string \<Rightarrow> go_error option" where
  "requireRSASigningKey K pem = (case cm_pem K pem of
     None \<Rightarrow> Some (Errorf ''signing key is not PEM'' [])
   | Some der \<Rightarrow> (case cm_pkcs8 K der of
       Some (RSAKey _) \<Rightarrow> None
     | Some _ \<Rightarrow> Some (Errorf ''SAML/WS-Fed signing requires an RSA key'' [])
     | None \<Rightarrow> (case cm_pkcs1 K der of
         Some _ \<Rightarrow> None
       | None \<Rightarrow> Some (Errorf ''SAML/WS-Fed signing requires an RSA key'' []))))"

section \<open>Secret references\<close>

definition ref_path :: "comp \<Rightarrow> string \<Rightarrow> string" where
  "ref_path K ref = (if HasPrefix ref ''/'' \<or> cm_BaseDir K = [] then ref
     else path_Clean (cm_BaseDir K @ ''/'' @ ref))"

definition readRef :: "comp \<Rightarrow> string \<Rightarrow> string \<Rightarrow> go_error + string" where
  "readRef K ref field =
     (if ref = [] then Inl (Errorf ''%s is required'' [field])
      else case cm_ReadFile K (ref_path K ref) of
        None \<Rightarrow> Inl (Errorf ''%s %q: %w'' [field, ref])
      | Some b \<Rightarrow> if b = [] then Inl (Errorf ''%s %q is empty'' [field, ref]) else Inr b)"

fun user_refs :: "user list \<Rightarrow> go_error + string list" where
  "user_refs [] = Inr []"
| "user_refs (u # us) =
     (if Contains (us_PasswordRef u) [CHR 0x0A] \<or> Contains (us_PasswordHashRef u) [CHR 0x0A]
      then Inl (Errorf ''inline password material rejected'' [])
      else if Contains (us_TOTPSecretRef u) [CHR 0x0A]
      then Inl (Errorf ''inline totp material rejected'' [])
      else bindE (user_refs us) (\<lambda>rs. Inr (filter (\<lambda>r. r \<noteq> [])
             [us_PasswordRef u, us_PasswordHashRef u, us_TOTPSecretRef u] @ rs)))"

fun check_stat :: "comp \<Rightarrow> string list \<Rightarrow> go_error option" where
  "check_stat K [] = None"
| "check_stat K (r # rs) =
     (if r \<noteq> [] \<and> \<not> cm_Stat K (ref_path K r) then Some (Errorf ''secret ref %q: %w'' [r])
      else check_stat K rs)"

fun check_totp_refs :: "comp \<Rightarrow> user list \<Rightarrow> go_error option" where
  "check_totp_refs K [] = None"
| "check_totp_refs K (u # us) =
     (if us_TOTPSecretRef u = [] then check_totp_refs K us
      else case cm_ReadFile K (ref_path K (us_TOTPSecretRef u)) of
        None \<Rightarrow> Some (Errorf ''totpSecretRef %q: %w'' [us_TOTPSecretRef u])
      | Some b \<Rightarrow> (case ParseSecret (cm_b32 K) (cm_b32raw K) b of
          Inl e \<Rightarrow> Some (Wrapf ''totpSecretRef %q: %w'' [us_TOTPSecretRef u] e)
        | Inr _ \<Rightarrow> check_totp_refs K us))"

definition ValidateSecretRefs :: "comp \<Rightarrow> document \<Rightarrow> go_error option" where
  "ValidateSecretRefs K d = (let s = dc_Spec d; https = ls_HTTPS (sp_Listeners s) in
     case user_refs (sp_Users s) of
       Inl e \<Rightarrow> Some e
     | Inr urefs \<Rightarrow> first_err [
         check_stat K ([hl_CertRef https, hl_KeyRef https, sp_SigningKeyRef s, sp_AccessTokenRef s] @ urefs
            @ filter (\<lambda>r. r \<noteq> []) (map cl_SecretRef (sp_Clients s))),
         check_totp_refs K (sp_Users s)])"

section \<open>Compilation\<close>

text \<open>The four maps that the loop over the clients fills: by id, by effective client id, by SAML entity, secrets.\<close>

record client_maps =
  km_ByID :: "client gmap"
  km_ByClientID :: "client gmap"
  km_BySAML :: "client gmap"
  km_Secrets :: "string gmap"

fun compile_clients :: "comp \<Rightarrow> client_maps \<Rightarrow> client list \<Rightarrow> go_error + client_maps" where
  "compile_clients K m [] = Inr m"
| "compile_clients K m (c # cs) = (let
     key = client_key c;
     m1 = m\<lparr>km_ByID := gput (cl_ID c) c (km_ByID m), km_ByClientID := gput key c (km_ByClientID m)\<rparr>;
     entity = cs_EntityID (cl_SAML c)
   in if entity \<noteq> [] \<and> gget (km_BySAML m1) entity \<noteq> None
      then Inl (Errorf ''duplicate saml.entityID %q'' [entity])
      else let m2 = (if entity \<noteq> [] then m1\<lparr>km_BySAML := gput entity c (km_BySAML m1)\<rparr> else m1) in
        if cl_SecretRef c = [] then compile_clients K m2 cs
        else bindE (readRef K (cl_SecretRef c) ''clients.secretRef'') (\<lambda>raw. let sec = TrimSpace raw in
          if sec = [] then Inl (Errorf ''clients.secretRef %q is empty'' [cl_SecretRef c])
          else compile_clients K (m2\<lparr>km_Secrets := gput key sec (km_Secrets m2)\<rparr>) cs))"

record user_maps =
  um_ByID :: "user gmap"
  um_passwords :: "credential gmap"
  um_seeds :: "string gmap"

fun compile_users :: "comp \<Rightarrow> user_maps \<Rightarrow> user list \<Rightarrow> go_error + user_maps" where
  "compile_users K m [] = Inr m"
| "compile_users K m (u # us) = (let
     m1 = m\<lparr>um_ByID := gput (us_ID u) u (um_ByID m)\<rparr>;
     hashed = (us_PasswordHashRef u \<noteq> []);
     ref = (if hashed then us_PasswordHashRef u else us_PasswordRef u)
   in bindE (readRef K ref ''users.passwordRef/passwordHashRef'') (\<lambda>raw.
      case Parse (cm_sha256 K) raw hashed of
        Inl e \<Rightarrow> Inl (Wrapf ''user %q: %w'' [us_ID u] e)
      | Inr cred \<Rightarrow> let m2 = m1\<lparr>um_passwords := gput (us_ID u) cred (um_passwords m1)\<rparr> in
          if us_TOTPSecretRef u = [] then compile_users K m2 us
          else bindE (readRef K (us_TOTPSecretRef u) ''users.totpSecretRef'') (\<lambda>raw2.
            bindE (ParseSecret (cm_b32 K) (cm_b32raw K) raw2) (\<lambda>seed.
              compile_users K (m2\<lparr>um_seeds := gput (us_ID u) seed (um_seeds m2)\<rparr>) us))))"

definition hex_lower :: "string \<Rightarrow> string" where
  "hex_lower s = concat (map (\<lambda>c. [''0123456789abcdef'' ! (of_char c div 16), ''0123456789abcdef'' ! (of_char c mod 16)]) s)"

definition RevisionOf :: "comp \<Rightarrow> document \<Rightarrow> go_error + string" where
  "RevisionOf K d = (case cm_yamlMarshal K (Normalize d) of
     None \<Rightarrow> Inl (Errorf ''yaml'' [])
   | Some b \<Rightarrow> Inr (''sha256:'' @ hex_lower (cm_sha256 K b)))"

text \<open>The checks of the file contents that precede the maps, in the order of the code.\<close>

record loaded =
  ld_TLSCert :: string
  ld_TLSKey :: string
  ld_Signing :: string
  ld_Token :: string

definition load_refs :: "comp \<Rightarrow> document \<Rightarrow> go_error + loaded" where
  "load_refs K d = (let s = dc_Spec d; https = ls_HTTPS (sp_Listeners s) in
     bindE (readRef K (hl_CertRef https) ''listeners.https.certRef'') (\<lambda>cert.
     bindE (readRef K (hl_KeyRef https) ''listeners.https.keyRef'') (\<lambda>key.
     if \<not> cm_keyPair K cert key then Inl (Errorf ''listeners.https: invalid TLS certificate/key pair: %w'' [])
     else bindE (readRef K (sp_SigningKeyRef s) ''signing.keyRef'') (\<lambda>signing.
     bindE (readRef K (sp_AccessTokenRef s) ''access.tokenRef'') (\<lambda>token0. let token = TrimSpace token0 in
     if token = [] then Inl (Errorf ''access.tokenRef is empty'' [])
     else case parseSigningKey K signing of
       Some e \<Rightarrow> Inl (Wrapf ''signing.keyRef: %w'' [] e)
     | None \<Rightarrow>
       guardE (if IsEnabled (pr_SAML (sp_Protocols s)) False \<or> IsEnabled (pr_WSFed (sp_Protocols s)) False
               then requireRSASigningKey K signing else None)
         (if go_GenericCap (sp_GroupOverage s) < 1 \<or> go_OktaFailAt (sp_GroupOverage s) < 1
          then Inl (Errorf ''groupOverage genericCap and oktaFailAt must be positive'' [])
          else guardE (ValidateSecretRefs K d)
            (Inr \<lparr>ld_TLSCert = cert, ld_TLSKey = key, ld_Signing = signing, ld_Token = token\<rparr>)))))))"

definition compile ::
  "comp \<Rightarrow> go_time \<Rightarrow> int \<Rightarrow> string \<Rightarrow> document \<Rightarrow> go_error + snapshot" where
  "compile K now generation bootRev doc0 = (let doc = Normalize doc0 in
     guardE (ValidateIDs (cm_net K) doc)
     (case Resolve (pf_Vendor (sp_Profile (dc_Spec doc))) (pf_TenantID (sp_Profile (dc_Spec doc))) (dc_Name doc) of
        Inl e \<Rightarrow> Inl (Validation ''clothes not implemented'' [])
      | Inr clothes \<Rightarrow>
        bindE (ResolveIssuer K (sp_Issuer (dc_Spec doc))) (\<lambda>issuer.
        let d = doc\<lparr>dc_Spec := (dc_Spec doc)\<lparr>sp_Issuer := issuer\<rparr>\<rparr>; s = dc_Spec d in
        bindE (load_refs K d) (\<lambda>ld.
        bindE (RevisionOf K d) (\<lambda>rev.
        case cm_labCert K (ld_Signing ld) issuer now of
          None \<Rightarrow> Inl (Errorf ''lab signing cert: %w'' [])
        | Some labCert \<Rightarrow>
          bindE (compile_clients K \<lparr>km_ByID = gempty, km_ByClientID = gempty, km_BySAML = gempty, km_Secrets = gempty\<rparr>
                   (sp_Clients s)) (\<lambda>km.
          bindE (compile_users K \<lparr>um_ByID = gempty, um_passwords = gempty, um_seeds = gempty\<rparr> (sp_Users s)) (\<lambda>um.
          Inr \<lparr>sn_passwords = um_passwords um, sn_totpSeeds = um_seeds um, sn_Canonical = Some d,
             sn_Revision = rev, sn_BootstrapRevision = (if bootRev = [] then rev else bootRev),
             sn_Generation = (if generation = 0 then 1 else generation), sn_CompiledAt = now,
             sn_Issuer = issuer, sn_TLSCert = ld_TLSCert ld, sn_TLSKey = ld_TLSKey ld,
             sn_SigningKey = ld_Signing ld, sn_SigningCert = labCert, sn_AccessToken = ld_Token ld,
             sn_ClientSecrets = km_Secrets km, sn_ClientsByID = km_ByID km,
             sn_ClientsByClientID = km_ByClientID km, sn_ClientsBySAMLEntity = km_BySAML km,
             sn_UsersByID = um_ByID um, sn_GroupsByID = gmap_of (map (\<lambda>g. (gr_ID g, g)) (sp_Groups s)),
             sn_Clothes = clothes\<rparr>)))))))"

definition Compile :: "comp \<Rightarrow> go_time \<Rightarrow> int \<Rightarrow> string \<Rightarrow> document \<Rightarrow> go_error + snapshot" where
  "Compile K now generation bootRev doc = (case compile K now generation bootRev doc of
     Inl e \<Rightarrow> if CodeOf e \<noteq> [] then Inl e else Inl (Validation ''%s'' [])
   | Inr snap \<Rightarrow> Inr snap)"

section \<open>Loading a file\<close>

definition rejectInlineSecrets :: "string \<Rightarrow> go_error option" where
  "rejectInlineSecrets raw = check (Contains raw ''-----BEGIN '') (Errorf ''inline PEM rejected; use file refs'' [])"

definition LoadConfig :: "comp \<Rightarrow> string \<Rightarrow> go_error + document" where
  "LoadConfig K raw = (case cm_yamlDecode K raw of
     None \<Rightarrow> Inl (Errorf ''decode: %w'' [])
   | Some doc \<Rightarrow> (case cm_yamlRest K raw of
       YamlDocument \<Rightarrow> Inl (Errorf ''trailing YAML document rejected'' [])
     | YamlError \<Rightarrow> Inl (Errorf ''decode: %w'' [])
     | YamlEOF \<Rightarrow>
       guardE (rejectInlineSecrets raw)
         (let d = Normalize doc in
          guardE (ValidateIDs (cm_net K) d) (guardE (ValidateSecretRefs K d) (Inr d)))))"

definition LoadFile :: "comp \<Rightarrow> string \<Rightarrow> go_error + document" where
  "LoadFile K path = (case cm_ReadFile K path of
     None \<Rightarrow> Inl (Errorf ''open %s'' [path])
   | Some b \<Rightarrow> LoadConfig K b)"

end
