(* ===== verification/Markup.thy ===== *)
theory Markup
  imports Base64
begin

text \<open>
  What the federation and login handlers use of Go's text packages: \<^verbatim>\<open>html.EscapeString\<close>, the padded
  encodings of \<^verbatim>\<open>encoding/base64\<close>, \<^verbatim>\<open>time.Format(time.RFC3339)\<close> in UTC, and XML elements as trees.
  The lemmas say that escaped text brings no markup of its own into a page and that padded
  encoding is inverted by decoding.
\<close>

section \<open>HTML escaping\<close>

definition esc_char :: "char \<Rightarrow> string" where
  "esc_char c = (if c = CHR ''&'' then ''&amp;'' else if c = CHR 0x27 then ''&#39;''
     else if c = CHR ''<'' then ''&lt;'' else if c = CHR ''>'' then ''&gt;''
     else if c = CHR 0x22 then ''&#34;'' else [c])"

definition EscapeString :: "string \<Rightarrow> string" where
  "EscapeString s = concat (map esc_char s)"

text \<open>The bytes that open or close a tag or an attribute value, in order of occurrence.\<close>

definition is_markup :: "char \<Rightarrow> bool" where
  "is_markup c = (c \<in> {CHR ''<'', CHR ''>'', CHR 0x22, CHR 0x27})"

definition markup :: "string \<Rightarrow> string" where
  "markup s = filter is_markup s"

lemma markup_append [simp]: "markup (a @ b) = markup a @ markup b"
  by (simp add: markup_def)

lemma markup_esc_char: "filter is_markup (esc_char c) = []"
  by (simp add: esc_char_def is_markup_def)

lemma markup_EscapeString [simp]: "markup (EscapeString s) = []"
  by (induction s) (simp_all add: markup_def EscapeString_def markup_esc_char)

lemma markup_Nil [simp]: "markup [] = []"
  by (simp add: markup_def)

lemma EscapeString_Nil [simp]: "EscapeString [] = []"
  by (simp add: EscapeString_def)

text \<open>Reading the escaped form back, entity by entity.\<close>

fun unescape :: "string \<Rightarrow> string" where
  "unescape [] = []"
| "unescape (c # s) =
     (if HasPrefix (c # s) ''&amp;'' then CHR ''&'' # unescape (drop 4 s)
      else if HasPrefix (c # s) ''&#39;'' then CHR 0x27 # unescape (drop 4 s)
      else if HasPrefix (c # s) ''&lt;'' then CHR ''<'' # unescape (drop 3 s)
      else if HasPrefix (c # s) ''&gt;'' then CHR ''>'' # unescape (drop 3 s)
      else if HasPrefix (c # s) ''&#34;'' then CHR 0x22 # unescape (drop 4 s)
      else c # unescape s)"

lemma unescape_char: "unescape (esc_char c @ s) = c # unescape s"
  by (simp add: esc_char_def)

lemma unescape_EscapeString: "unescape (EscapeString s) = s"
proof (induction s)
  case Nil
  then show ?case by simp
next
  case (Cons c s)
  then show ?case
    by (simp add: EscapeString_def unescape_char del: unescape.simps)
qed

lemma EscapeString_inj: "EscapeString a = EscapeString b \<longleftrightarrow> a = b"
  by (metis unescape_EscapeString)

section \<open>Padded base64\<close>

definition pad_len :: "nat \<Rightarrow> nat" where
  "pad_len n = (3 - n mod 3) mod 3"

definition Std_Encode :: "string \<Rightarrow> string" where
  "Std_Encode s = b64_encode std_alphabet s @ replicate (pad_len (length s)) (CHR ''='')"

definition padded_decode :: "string \<Rightarrow> string \<Rightarrow> string option" where
  "padded_decode alpha s = (let
     t = filter (\<lambda>c. c \<noteq> CHR 0x0A \<and> c \<noteq> CHR 0x0D) s;
     k = length (takeWhile (\<lambda>c. c = CHR ''='') (rev t))
   in if length t mod 4 \<noteq> 0 \<or> k > 2 then None else b64_decode alpha False (take (length t - k) t))"

definition Std_Decode :: "string \<Rightarrow> string option" where "Std_Decode = padded_decode std_alphabet"
definition URL_Decode :: "string \<Rightarrow> string option" where "URL_Decode = padded_decode url_alphabet"

lemma length_to_sextets: "length (to_sextets bs) + pad_len (length bs) = 4 * ((length bs + 2) div 3)"
proof (induction bs rule: to_sextets.induct)
  case (4 a b c bs)
  have "(length (a # b # c # bs) + 2) div 3 = Suc ((length bs + 2) div 3)" by simp
  moreover have "pad_len (length (a # b # c # bs)) = pad_len (length bs)" by (simp add: pad_len_def)
  ultimately show ?case using 4 by simp
qed (simp_all add: pad_len_def)

lemma RawStd_set: "set (b64_encode std_alphabet s) \<subseteq> set std_alphabet"
proof -
  have "\<forall>d \<in> set (to_sextets (map of_char s)). (d::nat) < 64"
    by (rule to_sextets_bound) (auto simp: of_char_def)
  moreover have "length std_alphabet = 64" using good_std by (simp add: good_alphabet_def)
  ultimately show ?thesis by (auto simp: b64_encode_def b64_char_def)
qed

lemma Std_roundtrip: "Std_Decode (Std_Encode s) = Some s"
proof -
  let ?b = "b64_encode std_alphabet s" and ?k = "pad_len (length s)"
  have "CHR ''='' \<notin> set std_alphabet" "CHR 0x0A \<notin> set std_alphabet" "CHR 0x0D \<notin> set std_alphabet"
    by (simp_all add: std_alphabet_def)
  with RawStd_set [of s] have c: "CHR ''='' \<notin> set ?b" "CHR 0x0A \<notin> set ?b" "CHR 0x0D \<notin> set ?b" by auto
  have t: "filter (\<lambda>c. c \<noteq> CHR 0x0A \<and> c \<noteq> CHR 0x0D) (Std_Encode s) = Std_Encode s"
    unfolding filter_id_conv using c by (auto simp: Std_Encode_def)
  have "takeWhile (\<lambda>c. c = CHR ''='') (replicate k (CHR ''='') @ xs)
      = replicate k (CHR ''='') @ takeWhile (\<lambda>c. c = CHR ''='') xs" for k xs
    by (induction k) simp_all
  moreover have "takeWhile (\<lambda>c. c = CHR ''='') (rev ?b) = []"
    using c(1) hd_in_set [of "rev ?b"] by (auto simp: takeWhile_eq_Nil_iff)
  ultimately have k: "takeWhile (\<lambda>c. c = CHR ''='') (rev (Std_Encode s)) = replicate ?k (CHR ''='')"
    by (simp add: Std_Encode_def)
  have l: "length (Std_Encode s) = length ?b + ?k" by (simp add: Std_Encode_def)
  have "length (Std_Encode s) mod 4 = 0"
    using length_to_sextets [of "map of_char s :: nat list"] by (simp add: l b64_encode_def)
  moreover have "?k \<le> 2" by (simp add: pad_len_def)
  moreover have "take (length ?b) (Std_Encode s) = ?b" by (simp add: Std_Encode_def)
  ultimately show ?thesis
    by (simp add: Std_Decode_def padded_decode_def Let_def t k l b64_decode_encode good_std)
qed

section \<open>RFC 3339 in UTC\<close>

text \<open>The proleptic Gregorian calendar, counted from 1 January of year 1 as Go counts it.\<close>

definition leap :: "int \<Rightarrow> bool" where
  "leap y = (y mod 4 = 0 \<and> (y mod 100 \<noteq> 0 \<or> y mod 400 = 0))"

definition year_day :: "int \<Rightarrow> int \<times> int" where
  "year_day d = (let
     n400 = d div 146097; d1 = d mod 146097;
     n100 = min 3 (d1 div 36524); d2 = d1 - 36524 * n100;
     n4 = d2 div 1461; d3 = d2 mod 1461;
     n1 = min 3 (d3 div 365)
   in (400 * n400 + 100 * n100 + 4 * n4 + n1 + 1, d3 - 365 * n1))"

definition month_lengths :: "bool \<Rightarrow> int list" where
  "month_lengths lp = [31, if lp then 29 else 28, 31, 30, 31, 30, 31, 31, 30, 31, 30, 31]"

fun month_day :: "int list \<Rightarrow> int \<Rightarrow> int \<Rightarrow> int \<times> int" where
  "month_day [] m d = (m, d + 1)"
| "month_day (l # ls) m d = (if d < l then (m, d + 1) else month_day ls (m + 1) (d - l))"

definition pad_int :: "nat \<Rightarrow> int \<Rightarrow> string" where
  "pad_int w n = (let s = itoa_nat (nat \<bar>n\<bar>) in
     (if n < 0 then ''-'' else []) @ replicate (w - length s) (CHR ''0'') @ s)"

definition RFC3339 :: "go_time \<Rightarrow> string" where
  "RFC3339 t = (let
     secs = t div Second; (y, yd) = year_day (secs div 86400); sd = secs mod 86400;
     (m, d) = month_day (month_lengths (leap y)) 1 yd
   in pad_int 4 y @ ''-'' @ pad_int 2 m @ ''-'' @ pad_int 2 d @ ''T'' @ pad_int 2 (sd div 3600) @ '':''
      @ pad_int 2 (sd mod 3600 div 60) @ '':'' @ pad_int 2 (sd mod 60) @ ''Z'')"

text \<open>The number of days before a year, and the day of the year of a date: the calendar read backwards.\<close>

definition days_before :: "int \<Rightarrow> int" where
  "days_before y = (let p = y - 1 in 365 * p + p div 4 - p div 100 + p div 400)"

lemma min_div:
  assumes "0 \<le> x" "x < 4 * k + (1::int)" "1 < k"
  shows "0 \<le> min 3 (x div k)" "0 \<le> x - k * min 3 (x div k)" "x - k * min 3 (x div k) \<le> k"
    "min 3 (x div k) < 3 \<longrightarrow> x - k * min 3 (x div k) < k"
proof -
  have e: "x = k * (x div k) + x mod k" and m: "0 \<le> x mod k" "x mod k < k" and q: "0 \<le> x div k"
    using assms by (simp_all add: pos_imp_zdiv_nonneg_iff)
  show "0 \<le> min 3 (x div k)" using q by simp
  show "0 \<le> x - k * min 3 (x div k)"
    using e m assms mult_left_mono [of "min 3 (x div k)" "x div k" k] by linarith
  show "min 3 (x div k) < 3 \<longrightarrow> x - k * min 3 (x div k) < k"
  proof
    assume "min 3 (x div k) < 3"
    then have "min 3 (x div k) = x div k" by simp
    then have "x - k * min 3 (x div k) = x mod k" by (simp add: minus_mult_div_eq_mod)
    with m show "x - k * min 3 (x div k) < k" by simp
  qed
  show "x - k * min 3 (x div k) \<le> k"
  proof (cases "3 \<le> x div k")
    case True
    then have "min 3 (x div k) = 3" by simp
    with assms show ?thesis by linarith
  next
    case False
    then have "min 3 (x div k) = x div k" by simp
    then have "x - k * min 3 (x div k) = x mod k" by (simp add: minus_mult_div_eq_mod)
    with m show ?thesis by simp
  qed
qed

lemma year_day_correct:
  assumes "year_day d = (y, yd)"
  shows "days_before y + yd = d" "0 \<le> yd" "yd < (if leap y then 366 else 365)"
proof -
  define n400 d1 where "n400 = d div 146097" and "d1 = d mod 146097"
  define n100 where "n100 = min 3 (d1 div 36524)"
  define d2 where "d2 = d1 - 36524 * n100"
  define n4 d3 where "n4 = d2 div 1461" and "d3 = d2 mod 1461"
  define n1 where "n1 = min 3 (d3 div 365)"
  have "year_day d = (400 * n400 + 100 * n100 + 4 * n4 + n1 + 1, d3 - 365 * n1)"
    by (simp only: year_day_def Let_def n400_def d1_def n100_def d2_def n4_def d3_def n1_def)
  then have y: "y = 400 * n400 + 100 * n100 + 4 * n4 + n1 + 1" and yd: "yd = d3 - 365 * n1"
    using assms by simp_all
  have d: "d = 146097 * n400 + d1" and d1: "0 \<le> d1" "d1 < 146097"
    by (simp_all add: n400_def d1_def)
  have n100: "0 \<le> n100" "n100 \<le> 3" and d2: "0 \<le> d2" "d2 \<le> 36524" "n100 < 3 \<longrightarrow> d2 < 36524"
    using d1 min_div [of d1 36524] by (simp_all add: n100_def d2_def)
  have d2': "d2 = 1461 * n4 + d3" and d3: "0 \<le> d3" "d3 < 1461" by (simp_all add: n4_def d3_def)
  have n4: "0 \<le> n4" "n4 \<le> 24" using d2 d2' d3 by linarith+
  have n1: "0 \<le> n1" "n1 \<le> 3" and r: "0 \<le> yd" "yd \<le> 365" "n1 < 3 \<longrightarrow> yd < 365"
    using d3 min_div [of d3 365] by (simp_all add: n1_def yd)
  have q: "(y - 1) div 4 = 100 * n400 + 25 * n100 + n4" "(y - 1) div 100 = 4 * n400 + n100"
    "(y - 1) div 400 = n400"
    using n100 n4 n1 by (simp_all add: y)
  show "days_before y + yd = d"
    using d2' by (simp add: days_before_def Let_def q) (simp add: y yd d d2_def algebra_simps)
  show "0 \<le> yd" by (rule r)
  show "yd < (if leap y then 366 else 365)"
  proof (cases "yd = 365")
    case True
    then have "n1 = 3" using r(3) n1 by linarith
    with True yd have "d3 = 1460" by simp
    then have "n4 = 24 \<longrightarrow> n100 = 3" using d2 d2' n100 by linarith
    have "y = 4 * (100 * n400 + 25 * n100 + n4 + 1)" using \<open>n1 = 3\<close> y by simp
    then have "y mod 4 = 0" by simp
    moreover have "y mod 100 = 4 * (n4 + 1) mod 100"
    proof -
      have "y = 4 * (n4 + 1) + 100 * (4 * n400 + n100)" using \<open>n1 = 3\<close> y by simp
      then show ?thesis by (simp only: mod_mult_self2)
    qed
    moreover have "y mod 400 = 0" if "n4 = 24"
    proof -
      have "y = 400 * (n400 + 1)" using that \<open>n4 = 24 \<longrightarrow> n100 = 3\<close> \<open>n1 = 3\<close> y by simp
      then show ?thesis by simp
    qed
    moreover have "4 * (n4 + 1) mod 100 \<noteq> 0" if "n4 \<noteq> 24" using that n4 by simp
    ultimately have "leap y" unfolding leap_def by metis
    then show ?thesis using True by simp
  next
    case False
    then show ?thesis using r by simp
  qed
qed

section \<open>XML elements\<close>

text \<open>
  The elements of the \<^verbatim>\<open>etree\<close> package: a tag with its prefix, the attributes in order and the
  children. \<open>SetText\<close> gives an element one text child.
\<close>

datatype xml_node = XText string | XElem string "(string \<times> string) list" "xml_node list"

fun xml_tag :: "xml_node \<Rightarrow> string" where
  "xml_tag (XText s) = []"
| "xml_tag (XElem t as cs) = t"

fun xml_attr :: "string \<Rightarrow> xml_node \<Rightarrow> string option" where
  "xml_attr k (XText s) = None"
| "xml_attr k (XElem t as cs) = map_of as k"

fun children :: "string \<Rightarrow> xml_node \<Rightarrow> xml_node list" where
  "children t (XText s) = []"
| "children t (XElem u as cs) = filter (\<lambda>c. xml_tag c = t) cs"

fun xml_text :: "xml_node \<Rightarrow> string" where
  "xml_text (XText s) = s"
| "xml_text (XElem t as cs) = (case cs of [XText s] \<Rightarrow> s | _ \<Rightarrow> [])"

end
