(* ===== verification/Saml.thy ===== *)
theory Saml
  imports Provider Compiler Markup
begin

text \<open>
  \<^verbatim>\<open>internal/saml\<close>: reading of authentication requests and service-provider metadata (\<^verbatim>\<open>parse.go\<close>),
  the signed response (\<^verbatim>\<open>sign.go\<close>) and the provider (\<^verbatim>\<open>provider.go\<close>). The provider's state is the
  protocol runtime it shares with the OpenID provider. The record \<open>samllib\<close> is what the code takes
  from libraries: the tokens and the decoded structures of \<^verbatim>\<open>encoding/xml\<close>, inflation, certificates,
  and the \<^verbatim>\<open>etree\<close> and \<^verbatim>\<open>goxmldsig\<close> packages; PEM and private keys come from \<open>comp\<close>.
\<close>

section \<open>Libraries\<close>

type_synonym xml_name = "string \<times> string"

datatype xtoken = StartElement xml_name "(xml_name \<times> string) list" | EndElement | CharData string
  | Comment | OtherToken

record authn_request =
  ar_Version :: string
  ar_ForceAuthn :: bool
  ar_IsPassive :: bool
  ar_ID :: string
  ar_ACSURL :: string
  ar_Destination :: string
  ar_Issuer :: string

record acs_endpoint =
  ae_Binding :: string
  ae_Location :: string
  ae_Index :: string

record sp_metadata =
  md_Entity :: string
  md_SP :: "(string \<times> acs_endpoint list) list"

text \<open>
  A token stream is the list of tokens up to the end and whether the end is \<^verbatim>\<open>io.EOF\<close> rather than an
  error. The structure decoders return the value and the rest of the stream.
\<close>

record samllib =
  sl_tokens :: "string \<Rightarrow> xtoken list \<times> bool"
  sl_authn :: "string \<Rightarrow> (authn_request \<times> xtoken list \<times> bool) option"
  sl_metadata :: "string \<Rightarrow> (sp_metadata \<times> xtoken list \<times> bool) option"
  sl_inflate :: "string \<Rightarrow> nat \<Rightarrow> string option"
  sl_certificate :: "string \<Rightarrow> string option"
  sl_signEnveloped :: "string \<times> string \<Rightarrow> xml_node \<Rightarrow> xml_node option"
  sl_write :: "xml_node \<Rightarrow> string option"

section \<open>Reading XML\<close>

definition maxSAMLBytes :: nat where "maxSAMLBytes = 65536"

definition rejectHostileXML :: "string \<Rightarrow> go_error option" where
  "rejectHostileXML raw = (let s = ToUpper raw in
     check (Contains s ''<!DOCTYPE'' \<or> Contains s ''<!ENTITY'' \<or> Contains s (''SYSTEM '' @ [CHR 0x22]))
       (Errorf ''SAMLRequest rejected: external entities / DTD'' []))"

fun one_document :: "xtoken list \<Rightarrow> bool \<Rightarrow> go_error option" where
  "one_document [] eof = check (\<not> eof) (Errorf ''xml'' [])"
| "one_document (CharData t # ts) eof =
     (if TrimSpace t \<noteq> [] then Some (Errorf ''trailing XML data'' []) else one_document ts eof)"
| "one_document (Comment # ts) eof = one_document ts eof"
| "one_document (_ # ts) eof = Some (Errorf ''trailing XML document'' [])"

definition oneDocument :: "xtoken list \<times> bool \<Rightarrow> go_error option" where
  "oneDocument rest = one_document (fst rest) (snd rest)"

definition nsProto :: string where "nsProto = ''urn:oasis:names:tc:SAML:2.0:protocol''"
definition nsAssert :: string where "nsAssert = ''urn:oasis:names:tc:SAML:2.0:assertion''"
definition nsMetadata :: string where "nsMetadata = ''urn:oasis:names:tc:SAML:2.0:metadata''"

text \<open>
  One start element of \<^verbatim>\<open>validateStructure\<close>: \<open>stack\<close> is the stack of open elements, outermost first,
  \<open>n\<close> counts the issuers or the entity descriptors seen so far, this element included.
\<close>

definition counted :: "bool \<Rightarrow> xml_name \<Rightarrow> nat \<Rightarrow> nat" where
  "counted metadata nm n = (if snd nm = (if metadata then ''EntityDescriptor'' else ''Issuer'') then n + 1 else n)"

definition bad_element :: "bool \<Rightarrow> xml_name list \<Rightarrow> nat \<Rightarrow> xml_name \<Rightarrow> go_error option" where
  "bad_element metadata stack n nm =
     (if metadata then
        if snd nm = ''EntityDescriptor'' then
          check (stack \<noteq> [] \<or> n \<noteq> 1 \<or> fst nm \<noteq> nsMetadata) (Errorf ''ambiguous EntityDescriptor'' [])
        else if snd nm = ''SPSSODescriptor'' then
          check (length stack \<noteq> 1 \<or> snd (stack ! 0) \<noteq> ''EntityDescriptor'' \<or> fst nm \<noteq> nsMetadata)
            (Errorf ''invalid SP descriptor nesting'' [])
        else if snd nm = ''AssertionConsumerService'' then
          check (length stack \<noteq> 2 \<or> snd (stack ! 1) \<noteq> ''SPSSODescriptor'' \<or> fst nm \<noteq> nsMetadata)
            (Errorf ''invalid ACS descriptor nesting'' [])
        else None
      else if snd nm = ''Issuer'' then
        check (n \<noteq> 1 \<or> length stack \<noteq> 1 \<or> fst nm \<noteq> nsAssert) (Errorf ''invalid or duplicate request Issuer'' [])
      else None)"

fun structure_ok :: "bool \<Rightarrow> xml_name list \<Rightarrow> nat \<Rightarrow> xtoken list \<Rightarrow> bool \<Rightarrow> go_error option" where
  "structure_ok metadata stack n [] eof = check (\<not> eof) (Errorf ''invalid SAML XML: %w'' [])"
| "structure_ok metadata stack n (StartElement nm attrs # ts) eof =
     (if \<not> distinct (map fst attrs) then Some (Errorf ''duplicate XML attribute'' [])
      else case bad_element metadata stack (counted metadata nm n) nm of
        Some e \<Rightarrow> Some e
      | None \<Rightarrow> structure_ok metadata (stack @ [nm]) (counted metadata nm n) ts eof)"
| "structure_ok metadata stack n (EndElement # ts) eof = structure_ok metadata (butlast stack) n ts eof"
| "structure_ok metadata stack n (_ # ts) eof = structure_ok metadata stack n ts eof"

definition validateStructure :: "samllib \<Rightarrow> string \<Rightarrow> bool \<Rightarrow> go_error option" where
  "validateStructure L raw metadata =
     (if length raw > maxSAMLBytes then Some (Errorf ''SAML XML too large'' [])
      else let (ts, eof) = sl_tokens L raw in structure_ok metadata [] 0 ts eof)"

text \<open>The bytes of a request parameter: base64, then raw deflate under the redirect binding.\<close>

definition request_bytes :: "samllib \<Rightarrow> string \<Rightarrow> bool \<Rightarrow> go_error + string" where
  "request_bytes L raw deflated =
     (if raw = [] then Inl (Errorf ''SAMLRequest is required'' [])
      else if length raw > maxSAMLBytes * 2 then Inl (Errorf ''SAMLRequest too large'' [])
      else case (case Std_Decode raw of Some b \<Rightarrow> Some b | None \<Rightarrow> URL_Decode raw) of
        None \<Rightarrow> Inl (Errorf ''SAMLRequest is not base64'' [])
      | Some bin \<Rightarrow>
        if length bin > maxSAMLBytes then Inl (Errorf ''SAMLRequest too large'' [])
        else if \<not> deflated then Inr bin
        else case sl_inflate L bin (maxSAMLBytes + 1) of
          None \<Rightarrow> Inl (Errorf ''SAMLRequest deflate'' [])
        | Some body \<Rightarrow> if length body > maxSAMLBytes then Inl (Errorf ''SAMLRequest too large'' []) else Inr body)"

definition decodeSAMLRequest :: "samllib \<Rightarrow> string \<Rightarrow> bool \<Rightarrow> go_error + authn_request" where
  "decodeSAMLRequest L raw deflated = bindE (request_bytes L raw deflated) (\<lambda>body.
     guardE (validateStructure L body False) (guardE (rejectHostileXML body)
       (case sl_authn L body of
          None \<Rightarrow> Inl (Errorf ''SAMLRequest xml: %w'' [])
        | Some (req, rest) \<Rightarrow> guardE (oneDocument rest)
            (if ar_Version req \<noteq> ''2.0'' then Inl (Errorf ''SAMLRequest requires Version 2.0'' [])
             else let req1 = req\<lparr>ar_Issuer := TrimSpace (ar_Issuer req)\<rparr> in
               if ar_ID req1 = [] \<or> ar_Issuer req1 = []
               then Inl (Errorf ''SAMLRequest missing ID or Issuer'' []) else Inr req1))))"

definition bindingPOST :: string where "bindingPOST = ''urn:oasis:names:tc:SAML:2.0:bindings:HTTP-POST''"

fun collect_acs :: "netlib \<Rightarrow> string list \<Rightarrow> string list \<Rightarrow> acs_endpoint list \<Rightarrow> go_error + string list" where
  "collect_acs N indices acs [] = Inr acs"
| "collect_acs N indices acs (e # es) =
     (if ae_Index e = [] \<or> ae_Index e \<in> set indices
      then Inl (Errorf ''SAML metadata requires unique ACS indices'' [])
      else if ae_Binding e \<noteq> bindingPOST then collect_acs N (ae_Index e # indices) acs es
      else if ValidateURI N (ae_Location e) True \<noteq> None \<or> ae_Location e \<in> set acs
      then Inl (Errorf ''invalid or duplicate POST ACS'' [])
      else collect_acs N (ae_Index e # indices) (acs @ [ae_Location e]) es)"

definition ParseSPSSO :: "samllib \<Rightarrow> netlib \<Rightarrow> string \<Rightarrow> go_error + (string \<times> string list)" where
  "ParseSPSSO L N raw =
     guardE (validateStructure L raw True) (guardE (rejectHostileXML raw)
       (if length raw > maxSAMLBytes then Inl (Errorf ''SAML metadata too large'' [])
        else case sl_metadata L raw of
          None \<Rightarrow> Inl (Errorf ''SAML metadata must be one EntityDescriptor: %w'' [])
        | Some (md, rest) \<Rightarrow> guardE (oneDocument rest)
            (case md_SP md of
               [(proto, endpoints)] \<Rightarrow>
                 if md_Entity md = [] \<or> \<not> Contains ('' '' @ proto @ '' '') ('' '' @ nsProto @ '' '')
                 then Inl (Errorf ''SAML metadata requires exactly one SAML2 SP descriptor'' [])
                 else bindE (collect_acs N [] [] endpoints) (\<lambda>acs.
                   if acs = [] then Inl (Errorf ''no HTTPS HTTP-POST ACS'' []) else Inr (md_Entity md, acs))
             | _ \<Rightarrow> Inl (Errorf ''SAML metadata requires exactly one SAML2 SP descriptor'' []))))"

section \<open>The signed response\<close>

definition keyStore :: "samllib \<Rightarrow> comp \<Rightarrow> snapshot \<Rightarrow> go_error + (string \<times> string)" where
  "keyStore L K snap = (case cm_pem K (sn_SigningKey snap) of
     None \<Rightarrow> Inl (Errorf ''signing key is not PEM'' [])
   | Some der \<Rightarrow>
     if (case cm_pkcs8 K der of Some (RSAKey _) \<Rightarrow> False | Some _ \<Rightarrow> True | None \<Rightarrow> cm_pkcs1 K der = None)
     then Inl (Errorf ''SAML signing requires RSA key'' [])
     else case cm_pem K (sn_SigningCert snap) of
       None \<Rightarrow> Inl (Errorf ''lab signing cert missing'' [])
     | Some cb \<Rightarrow> (case sl_certificate L cb of
         None \<Rightarrow> Inl (Errorf ''certificate'' [])
       | Some cert \<Rightarrow> Inr (der, cert)))"

definition certB64 :: "comp \<Rightarrow> snapshot \<Rightarrow> string" where
  "certB64 K snap = (case cm_pem K (sn_SigningCert snap) of None \<Rightarrow> [] | Some cb \<Rightarrow> Std_Encode cb)"

definition addAttr :: "string \<Rightarrow> string \<Rightarrow> xml_node" where
  "addAttr name val = XElem ''saml:Attribute'' [(''Name'', name)] [XElem ''saml:AttributeValue'' [] [XText val]]"

definition groupNames_saml :: "snapshot \<Rightarrow> user \<Rightarrow> string list" where
  "groupNames_saml snap u = map (\<lambda>gid. case gget (sn_GroupsByID snap) gid of
     Some g \<Rightarrow> if gr_Name g \<noteq> [] then gr_Name g else gid | None \<Rightarrow> gid) (us_GroupIDs u)"

definition statusOK :: string where "statusOK = ''urn:oasis:names:tc:SAML:2.0:status:Success''"
definition statusDeny :: string where "statusDeny = ''urn:oasis:names:tc:SAML:2.0:status:Responder''"
definition nameIDFmt :: string where "nameIDFmt = ''urn:oasis:names:tc:SAML:1.1:nameid-format:unspecified''"
definition bearerMethod :: string where "bearerMethod = ''urn:oasis:names:tc:SAML:2.0:cm:bearer''"
definition passwordAC :: string where
  "passwordAC = ''urn:oasis:names:tc:SAML:2.0:ac:classes:PasswordProtectedTransport''"
definition timeSyncAC :: string where "timeSyncAC = ''urn:oasis:names:tc:SAML:2.0:ac:classes:TimeSyncToken''"

definition in_response_to :: "string \<Rightarrow> (string \<times> string) list" where
  "in_response_to rid = (if rid \<noteq> [] then [(''InResponseTo'', rid)] else [])"

definition assertion ::
  "snapshot \<Rightarrow> user \<Rightarrow> string \<Rightarrow> string \<Rightarrow> string \<Rightarrow> go_time \<Rightarrow> string \<Rightarrow> bool \<Rightarrow> xml_node" where
  "assertion snap u acs inResponseTo audience now assertID mfa = (let
     iss = TrimRight (sn_Issuer snap) ''/''; instant = RFC3339 now;
     notOnOrAfter = RFC3339 (now + 5 * Minute); notBefore = RFC3339 (now - Minute)
   in XElem ''saml:Assertion''
        [(''xmlns:saml'', nsAssert), (''ID'', assertID), (''Version'', ''2.0''), (''IssueInstant'', instant)]
        [XElem ''saml:Issuer'' [] [XText iss],
         XElem ''saml:Subject'' []
           [XElem ''saml:NameID'' [(''Format'', nameIDFmt)] [XText (us_Username u)],
            XElem ''saml:SubjectConfirmation'' [(''Method'', bearerMethod)]
              [XElem ''saml:SubjectConfirmationData''
                 ([(''NotOnOrAfter'', notOnOrAfter), (''Recipient'', acs)] @ in_response_to inResponseTo) []]],
         XElem ''saml:Conditions'' [(''NotBefore'', notBefore), (''NotOnOrAfter'', notOnOrAfter)]
           [XElem ''saml:AudienceRestriction'' [] [XElem ''saml:Audience'' [] [XText audience]]],
         XElem ''saml:AuthnStatement'' [(''AuthnInstant'', instant)]
           [XElem ''saml:AuthnContext'' []
              [XElem ''saml:AuthnContextClassRef'' [] [XText (if mfa then timeSyncAC else passwordAC)]]],
         XElem ''saml:AttributeStatement'' []
           ([addAttr ''uid'' (us_Username u)]
            @ (if us_Email u \<noteq> [] then [addAttr ''mail'' (us_Email u)] else [])
            @ map (addAttr ''groups'') (groupNames_saml snap u))])"

definition response_xml ::
  "snapshot \<Rightarrow> string \<Rightarrow> string \<Rightarrow> go_time \<Rightarrow> string \<Rightarrow> bool \<Rightarrow> xml_node list \<Rightarrow> xml_node" where
  "response_xml snap acs inResponseTo now respID success sg = XElem ''samlp:Response''
     ([(''xmlns:samlp'', nsProto), (''xmlns:saml'', nsAssert), (''ID'', respID), (''Version'', ''2.0''),
       (''IssueInstant'', RFC3339 now), (''Destination'', acs)] @ in_response_to inResponseTo)
     ([XElem ''saml:Issuer'' [] [XText (TrimRight (sn_Issuer snap) ''/'')],
       XElem ''samlp:Status'' []
         [XElem ''samlp:StatusCode'' [(''Value'', if success then statusOK else statusDeny)] []]] @ sg)"

text \<open>\<open>rnd\<close> gives the two values of \<^verbatim>\<open>randomHex()\<close>, for the response and for the assertion.\<close>

definition response_tree ::
  "samllib \<Rightarrow> comp \<Rightarrow> snapshot \<Rightarrow> user \<Rightarrow> string \<Rightarrow> string \<Rightarrow> string \<Rightarrow> go_time \<Rightarrow> string \<times> string \<Rightarrow>
     bool \<Rightarrow> bool \<Rightarrow> go_error + xml_node" where
  "response_tree L K snap u acs inResponseTo audience now rnd success mfa =
     bindE (keyStore L K snap) (\<lambda>ks. let
       respID = ''_'' @ fst rnd; assertID = ''_'' @ snd rnd;
       wrap = response_xml snap acs inResponseTo now respID success
     in if \<not> success then Inr (wrap [])
        else case sl_signEnveloped L ks (assertion snap u acs inResponseTo audience now assertID mfa) of
          None \<Rightarrow> Inl (Errorf ''sign'' []) | Some sg \<Rightarrow> Inr (wrap [sg]))"

definition buildResponse ::
  "samllib \<Rightarrow> comp \<Rightarrow> snapshot \<Rightarrow> user \<Rightarrow> string \<Rightarrow> string \<Rightarrow> string \<Rightarrow> go_time \<Rightarrow> string \<times> string \<Rightarrow>
     bool \<Rightarrow> bool \<Rightarrow> go_error + string" where
  "buildResponse L K snap u acs inResponseTo audience now rnd success mfa =
     bindE (response_tree L K snap u acs inResponseTo audience now rnd success mfa) (\<lambda>doc.
       case sl_write L doc of None \<Rightarrow> Inl (Errorf ''write'' []) | Some out \<Rightarrow> Inr (Std_Encode out))"

definition autoPostForm :: "string \<Rightarrow> string \<Rightarrow> string \<Rightarrow> string" where
  "autoPostForm acs samlResponse relay = (let
     q = [CHR 0x22]; nl = [CHR 0x0A];
     extra = (if relay \<noteq> [] then ''<input type='' @ q @ ''hidden'' @ q @ '' name='' @ q @ ''RelayState'' @ q
                @ '' value='' @ q @ EscapeString relay @ q @ ''/>'' else [])
   in ''<!doctype html><html><body onload='' @ q @ ''document.forms[0].submit()'' @ q @ ''>'' @ nl
      @ ''<form method='' @ q @ ''post'' @ q @ '' action='' @ q @ EscapeString acs @ q @ ''>'' @ nl
      @ ''<input type='' @ q @ ''hidden'' @ q @ '' name='' @ q @ ''SAMLResponse'' @ q @ '' value='' @ q
      @ EscapeString samlResponse @ q @ ''/>'' @ nl @ extra @ nl
      @ ''<button type='' @ q @ ''submit'' @ q @ ''>Continue</button>'' @ nl @ ''</form></body></html>'')"

definition AutoPost ::
  "samllib \<Rightarrow> comp \<Rightarrow> snapshot \<Rightarrow> user \<Rightarrow> string \<Rightarrow> string \<Rightarrow> string \<Rightarrow> string \<Rightarrow> go_time \<Rightarrow> string \<times> string \<Rightarrow>
     bool \<Rightarrow> bool \<Rightarrow> go_error + string" where
  "AutoPost L K snap u acs inResponseTo audience relay now rnd success mfa =
     bindE (buildResponse L K snap u acs inResponseTo audience now rnd success mfa)
       (\<lambda>b64. Inr (autoPostForm acs b64 relay))"

section \<open>The provider\<close>

text \<open>
  The text of an error as \<^verbatim>\<open>http.Error(w, err.Error(), ...)\<close> sends it; errors are kept unrendered, so
  it is the format string.
\<close>

fun error_text :: "go_error \<Rightarrow> string" where
  "error_text (Errorf f args) = f"
| "error_text (Wrapf f args e) = f"
| "error_text (DomainError c f args) = f"

definition html_or_error :: "nat \<Rightarrow> go_error + string \<Rightarrow> response" where
  "html_or_error code res = (case res of Inl e \<Rightarrow> HttpError code (error_text e) | Inr body \<Rightarrow> Html body)"

text \<open>A handler wrapped in \<^verbatim>\<open>AuditRejected(category, ...)\<close>.\<close>

definition audited :: "string \<Rightarrow> response \<times> runtime \<Rightarrow> response \<times> runtime" where
  "audited category res = (fst res, AuditRejected category (status (fst res)) (snd res))"

definition snapSAML :: "snapshot option \<Rightarrow> response + snapshot" where
  "snapSAML s = (case s of
     None \<Rightarrow> Inl (HttpError 503 ''not ready'')
   | Some snap \<Rightarrow> (case sn_Canonical snap of
       None \<Rightarrow> Inl (HttpError 404 ''not found'')
     | Some d \<Rightarrow> if \<not> IsEnabled (pr_SAML (sp_Protocols (dc_Spec d))) False
                then Inl (HttpError 404 ''not found'') else Inr snap))"

definition require_path ::
  "string \<Rightarrow> request \<Rightarrow> (runtime \<Rightarrow> response \<times> runtime) \<Rightarrow> runtime \<Rightarrow> response \<times> runtime" where
  "require_path want rq nxt r =
     (if want = [] \<or> rq_Path rq \<noteq> want then (HttpError 404 ''not found'', r) else nxt r)"

definition requireMeta ::
  "snapshot option \<Rightarrow> request \<Rightarrow> (runtime \<Rightarrow> response \<times> runtime) \<Rightarrow> runtime \<Rightarrow> response \<times> runtime" where
  "requireMeta s rq nxt r = audited ''federation_request_rejected'' (case snapSAML s of
     Inl e \<Rightarrow> (e, r)
   | Inr snap \<Rightarrow> require_path (ct_SAMLMetadataPath (sn_Clothes snap)) rq nxt r)"

definition requireSSO ::
  "string \<Rightarrow> snapshot option \<Rightarrow> request \<Rightarrow> (runtime \<Rightarrow> response \<times> runtime) \<Rightarrow> runtime \<Rightarrow> response \<times> runtime" where
  "requireSSO method s rq nxt r = audited ''federation_request_rejected'' (case snapSAML s of
     Inl e \<Rightarrow> (e, r)
   | Inr snap \<Rightarrow> require_path
       (if method = ''POST'' then ct_SAMLSSOPOSTPath (sn_Clothes snap) else ct_SAMLSSOPath (sn_Clothes snap)) rq nxt r)"

definition metadata :: "comp \<Rightarrow> snapshot option \<Rightarrow> response" where
  "metadata K s = (case snapSAML s of
     Inl e \<Rightarrow> e
   | Inr snap \<Rightarrow> let
       q = [CHR 0x22]; iss = TrimRight (sn_Issuer snap) ''/'';
       redir = iss @ ct_SAMLSSOPath (sn_Clothes snap); post = iss @ ct_SAMLSSOPOSTPath (sn_Clothes snap)
     in Html (''<?xml version='' @ q @ ''1.0'' @ q @ '' encoding='' @ q @ ''UTF-8'' @ q @ ''?>''
       @ ''<md:EntityDescriptor xmlns:md='' @ q @ nsMetadata @ q @ '' entityID='' @ q @ EscapeString iss @ q @ ''>''
       @ ''<md:IDPSSODescriptor protocolSupportEnumeration='' @ q @ nsProto @ q @ ''>''
       @ ''<md:KeyDescriptor use='' @ q @ ''signing'' @ q @ ''><ds:KeyInfo xmlns:ds='' @ q
       @ ''http://www.w3.org/2000/09/xmldsig#'' @ q @ ''><ds:X509Data><ds:X509Certificate>'' @ certB64 K snap
       @ ''</ds:X509Certificate></ds:X509Data></ds:KeyInfo></md:KeyDescriptor>''
       @ ''<md:SingleSignOnService Binding='' @ q @ ''urn:oasis:names:tc:SAML:2.0:bindings:HTTP-Redirect'' @ q
       @ '' Location='' @ q @ EscapeString redir @ q @ ''/>''
       @ ''<md:SingleSignOnService Binding='' @ q @ bindingPOST @ q
       @ '' Location='' @ q @ EscapeString post @ q @ ''/>''
       @ ''</md:IDPSSODescriptor></md:EntityDescriptor>''))"

definition acsURLs :: "client \<Rightarrow> string list" where
  "acsURLs c = (if length (cs_ACSURLs (cl_SAML c)) > 0 then cs_ACSURLs (cl_SAML c) else cl_RedirectURIs c)"

fun contains_url :: "string list \<Rightarrow> string \<Rightarrow> bool" where
  "contains_url [] got = False"
| "contains_url (u # us) got = (if u = got then True else contains_url us got)"

definition clientKey :: "client \<Rightarrow> string" where
  "clientKey c = (if cl_ClientID c \<noteq> [] then cl_ClientID c else cl_ID c)"

text \<open>The guard of a successful completion, shared with WS-Federation.\<close>

definition completion_denied :: "snapshot \<Rightarrow> string \<Rightarrow> bool \<Rightarrow> runtime \<Rightarrow> bool" where
  "completion_denied snap userID mfa r =
     (gget (sn_UsersByID snap) userID = None \<or> \<not> UserUsable (Some snap) userID
      \<or> \<not> SessionUsable (zero_session\<lparr>ss_MFACompleted := mfa\<rparr>) (mfa_mode snap)
      \<or> rt_forceFail r \<or> \<not> GenerationUsable (sn_Generation snap) r)"

definition user_or_zero :: "snapshot \<Rightarrow> string \<Rightarrow> user" where
  "user_or_zero snap userID = (case gget (sn_UsersByID snap) userID of None \<Rightarrow> zero_user | Some u \<Rightarrow> u)"

definition finishPending ::
  "samllib \<Rightarrow> comp \<Rightarrow> snapshot option \<Rightarrow> request \<Rightarrow> string \<Rightarrow> string \<Rightarrow> bool \<Rightarrow> bool \<Rightarrow> runtime \<Rightarrow>
     (go_error + string) \<times> runtime" where
  "finishPending L K s rq pendingID userID success mfa r = (let (found, r1) = GetPending (rq_clk rq 20) pendingID r in
     case found of
       None \<Rightarrow> (Inl (Errorf ''pending request not found'' []), r1)
     | Some pend \<Rightarrow>
       if \<not> PendingUsable s pend \<or> pd_Protocol pend \<noteq> ProtocolSAML
       then (Inl (Errorf ''pending request not found'' []), r1)
       else case s of
         None \<Rightarrow> (Inl (Errorf ''not ready'' []), r1)
       | Some snap \<Rightarrow>
         if success \<and> completion_denied snap userID mfa r1 then (Inl (Errorf ''access_denied'' []), r1)
         else case AutoPost L K snap (user_or_zero snap userID) (pd_ACSURL pend) (pd_RequestID pend)
                (pd_SPEntityID pend) (pd_RelayState pend) (rq_clk rq 21) (rq_rnd rq 20, rq_rnd rq 21) success mfa of
           Inl e \<Rightarrow> (Inl e, r1)
         | Inr form \<Rightarrow> let (taken, r2) = TakePending (rq_clk rq 22) pendingID r1 in
             if taken = None then (Inl (Errorf ''pending request not found'' []), r2) else (Inr form, r2))"

definition CompleteSnapshot ::
  "samllib \<Rightarrow> comp \<Rightarrow> snapshot option \<Rightarrow> request \<Rightarrow> string \<Rightarrow> string \<Rightarrow> bool \<Rightarrow> runtime \<Rightarrow>
     (go_error + string) \<times> runtime" where
  "CompleteSnapshot L K s rq pendingID userID mfa r = finishPending L K s rq pendingID userID True mfa r"

definition DenySnapshot ::
  "samllib \<Rightarrow> comp \<Rightarrow> snapshot option \<Rightarrow> request \<Rightarrow> string \<Rightarrow> runtime \<Rightarrow> (go_error + string) \<times> runtime" where
  "DenySnapshot L K s rq pendingID r = finishPending L K s rq pendingID [] False False r"

text \<open>The variants that read the active snapshot of the store themselves.\<close>

definition completeUser ::
  "samllib \<Rightarrow> comp \<Rightarrow> store \<Rightarrow> request \<Rightarrow> string \<Rightarrow> string \<Rightarrow> bool \<Rightarrow> runtime \<Rightarrow> (go_error + string) \<times> runtime" where
  "completeUser L K st rq pendingID userID mfa r =
     (if rt_forceFail r then (Inl (Errorf ''access_denied'' []), r)
      else finishPending L K (Load st) rq pendingID userID True mfa r)"

definition Complete ::
  "samllib \<Rightarrow> comp \<Rightarrow> store \<Rightarrow> request \<Rightarrow> string \<Rightarrow> string \<Rightarrow> bool \<Rightarrow> runtime \<Rightarrow> (go_error + string) \<times> runtime" where
  "Complete L K st rq pendingID userID mfa r = completeUser L K st rq pendingID userID mfa r"

definition Deny ::
  "samllib \<Rightarrow> comp \<Rightarrow> store \<Rightarrow> request \<Rightarrow> string \<Rightarrow> runtime \<Rightarrow> (go_error + string) \<times> runtime" where
  "Deny L K st rq pendingID r = finishPending L K (Load st) rq pendingID [] False False r"

text \<open>The assertion consumer URL of a request: the registered one it names, or the first registered.\<close>

definition choose_acs :: "client \<Rightarrow> authn_request \<Rightarrow> response + string" where
  "choose_acs cl req = (let allowed = acsURLs cl; acs = ar_ACSURL req in
     if acs = [] then (case allowed of [] \<Rightarrow> Inl (HttpError 400 ''no ACS'') | a # _ \<Rightarrow> Inr a)
     else if \<not> contains_url allowed acs then Inl (HttpError 400 ''invalid ACS'') else Inr acs)"

definition saml_pending :: "snapshot \<Rightarrow> request \<Rightarrow> client \<Rightarrow> string \<Rightarrow> authn_request \<Rightarrow> pending" where
  "saml_pending snap rq cl acs req = zero_pending\<lparr>
     pd_Generation := sn_Generation snap, pd_Protocol := ProtocolSAML, pd_ClientID := clientKey cl,
     pd_ACSURL := acs, pd_RequestID := ar_ID req, pd_SPEntityID := ar_Issuer req,
     pd_RelayState := FormValue rq ''RelayState'', pd_RedirectURI := acs\<rparr>"

text \<open>
  A stored federation request either completes at once, for a usable session of a pre-consented
  client, or sends the browser to the consent or the login page. Shared with WS-Federation.
\<close>

definition federation_next ::
  "snapshot \<Rightarrow> request \<Rightarrow> client \<Rightarrow> string \<Rightarrow> (loginsession \<Rightarrow> runtime \<Rightarrow> (go_error + string) \<times> runtime) \<Rightarrow>
     runtime \<Rightarrow> response \<times> runtime" where
  "federation_next snap rq cl pid complete r = (let
     goto = (\<lambda>page. Redirect (TrimRight (sn_Issuer snap) ''/'' @ page @ ''?pending='' @ QueryEscape pid));
     (sess, r1) = (case Cookie rq (CookieName (Some snap)) of
        Some v \<Rightarrow> if v \<noteq> [] then GetSession (rq_clk rq 2) v r else (None, r)
      | None \<Rightarrow> (None, r))
   in case sess of
        None \<Rightarrow> (goto ''/login'', r1)
      | Some se \<Rightarrow>
        if \<not> (SessionUsable se (mfa_mode snap) \<and> UserUsable (Some snap) (ss_UserID se)) then (goto ''/login'', r1)
        else if cl_PreConsent cl \<and> \<not> rt_forceConsent r1 then
          (let (res, r2) = complete se r1 in (html_or_error 400 res, r2))
        else (goto ''/consent'', r1))"

definition sso_client ::
  "samllib \<Rightarrow> comp \<Rightarrow> snapshot \<Rightarrow> request \<Rightarrow> authn_request \<Rightarrow> client \<Rightarrow> string \<Rightarrow> runtime \<Rightarrow> response \<times> runtime" where
  "sso_client L K snap rq req cl acs r =
     (if rt_forceFail r \<or> mfa_mode snap = ''force-fail'' then
        (html_or_error 500 (AutoPost L K snap zero_user acs (ar_ID req) (ar_Issuer req)
           (FormValue rq ''RelayState'') (rq_clk rq 3) (rq_rnd rq 1, rq_rnd rq 2) False False), r)
      else let (pend, r1) = PutPending (rq_clk rq 0) (rq_clk rq 1) (rq_rnd rq 0) (saml_pending snap rq cl acs req) r in
        if pd_ID pend = [] then (HttpError 400 ''invalid_request'', r1)
        else federation_next snap rq cl (pd_ID pend)
               (\<lambda>se. CompleteSnapshot L K (Some snap) rq (pd_ID pend) (ss_UserID se) (ss_MFACompleted se)) r1)"

definition sso :: "samllib \<Rightarrow> comp \<Rightarrow> snapshot option \<Rightarrow> request \<Rightarrow> runtime \<Rightarrow> response \<times> runtime" where
  "sso L K s rq r = (case snapSAML s of
     Inl e \<Rightarrow> (e, r)
   | Inr snap \<Rightarrow>
     if \<not> rq_FormOK rq then (HttpError 400 ''invalid_request'', r)
     else case decodeSAMLRequest L (FormValue rq ''SAMLRequest'') (rq_Method rq = ''GET'') of
       Inl e \<Rightarrow> (HttpError 400 (error_text e), r)
     | Inr req \<Rightarrow>
       if (ar_Destination req \<noteq> [] \<and> ar_Destination req \<noteq> sn_Issuer snap @ rq_Path rq)
          \<or> ar_ForceAuthn req \<or> ar_IsPassive req then (HttpError 400 ''unsupported AuthnRequest'', r)
       else if \<not> PendingBounded (zero_pending\<lparr>pd_RequestID := ar_ID req, pd_RelayState := FormValue rq ''RelayState''\<rparr>)
       then (HttpError 400 ''invalid_request'', r)
       else case gget (sn_ClientsBySAMLEntity snap) (ar_Issuer req) of
         None \<Rightarrow> (HttpError 400 ''unknown SP entityID'', r)
       | Some cl \<Rightarrow> (case choose_acs cl req of
           Inl e \<Rightarrow> (e, r) | Inr acs \<Rightarrow> sso_client L K snap rq req cl acs r))"

end
