(* ===== verification/Wsfed.thy ===== *)
theory Wsfed
  imports Saml
begin

text \<open>
  \<^verbatim>\<open>internal/wsfed/provider.go\<close>: the passive WS-Federation provider. It shares the protocol runtime,
  issues the SAML response of \<open>Saml.buildResponse\<close>, and follows a stored request with the same steps
  (\<open>federation_next\<close>) as the SAML provider.
\<close>

definition ProtocolWSFed :: string where "ProtocolWSFed = ''wsfed''"

definition snapWSFed :: "snapshot option \<Rightarrow> response + snapshot" where
  "snapWSFed s = (case s of
     None \<Rightarrow> Inl (HttpError 503 ''not ready'')
   | Some snap \<Rightarrow> (case sn_Canonical snap of
       None \<Rightarrow> Inl (HttpError 404 ''not found'')
     | Some d \<Rightarrow> if \<not> IsEnabled (pr_WSFed (sp_Protocols (dc_Spec d))) False
                then Inl (HttpError 404 ''not found'') else Inr snap))"

definition require_wsfed ::
  "(clothes \<Rightarrow> string) \<Rightarrow> snapshot option \<Rightarrow> request \<Rightarrow> (runtime \<Rightarrow> response \<times> runtime) \<Rightarrow> runtime \<Rightarrow>
     response \<times> runtime" where
  "require_wsfed sel s rq nxt r = audited ''federation_request_rejected'' (case snapWSFed s of
     Inl e \<Rightarrow> (e, r) | Inr snap \<Rightarrow> require_path (sel (sn_Clothes snap)) rq nxt r)"

definition metadata_wsfed :: "comp \<Rightarrow> snapshot option \<Rightarrow> response" where
  "metadata_wsfed K s = (case snapWSFed s of
     Inl e \<Rightarrow> e
   | Inr snap \<Rightarrow> let
       q = [CHR 0x22]; iss = TrimRight (sn_Issuer snap) ''/'';
       cert = (if length (sn_SigningCert snap) = 0 then sn_TLSCert snap else sn_SigningCert snap)
     in case cm_pem K cert of
       None \<Rightarrow> HttpError 500 ''signing certificate''
     | Some der \<Rightarrow> Html (''<?xml version='' @ q @ ''1.0'' @ q @ ''?>''
       @ ''<EntityDescriptor xmlns='' @ q @ nsMetadata @ q @ '' entityID='' @ q @ EscapeString iss @ q @ ''>''
       @ ''<RoleDescriptor protocolSupportEnumeration='' @ q @ ''http://docs.oasis-open.org/wsfed/federation/200706'' @ q
       @ '' xsi:type='' @ q @ ''fed:SecurityTokenServiceType'' @ q
       @ '' xmlns:xsi='' @ q @ ''http://www.w3.org/2001/XMLSchema-instance'' @ q
       @ '' xmlns:fed='' @ q @ ''http://docs.oasis-open.org/wsfed/federation/200706'' @ q @ ''>''
       @ ''<KeyDescriptor use='' @ q @ ''signing'' @ q @ ''><ds:KeyInfo xmlns:ds='' @ q
       @ ''http://www.w3.org/2000/09/xmldsig#'' @ q @ ''><ds:X509Data><ds:X509Certificate>'' @ Std_Encode der
       @ ''</ds:X509Certificate></ds:X509Data></ds:KeyInfo></KeyDescriptor>''
       @ ''<fed:PassiveRequestorEndpoint><EndpointReference xmlns='' @ q
       @ ''http://www.w3.org/2005/08/addressing'' @ q @ ''><Address>''
       @ EscapeString (iss @ ct_WSFedPassivePath (sn_Clothes snap))
       @ ''</Address></EndpointReference></fed:PassiveRequestorEndpoint>''
       @ ''</RoleDescriptor></EntityDescriptor>''))"

definition autoPost_wsfed :: "string \<Rightarrow> string \<Rightarrow> string \<Rightarrow> string" where
  "autoPost_wsfed wreply wresult wctx = (let
     q = [CHR 0x22]; nl = [CHR 0x0A];
     extra = (if wctx \<noteq> [] then ''<input type='' @ q @ ''hidden'' @ q @ '' name='' @ q @ ''wctx'' @ q
                @ '' value='' @ q @ EscapeString wctx @ q @ ''/>'' else [])
   in ''<!doctype html><html><body onload='' @ q @ ''document.forms[0].submit()'' @ q @ ''>'' @ nl
      @ ''<form method='' @ q @ ''post'' @ q @ '' action='' @ q @ EscapeString wreply @ q @ ''>'' @ nl
      @ ''<input type='' @ q @ ''hidden'' @ q @ '' name='' @ q @ ''wa'' @ q @ '' value='' @ q @ ''wsignin1.0'' @ q @ ''/>'' @ nl
      @ ''<input type='' @ q @ ''hidden'' @ q @ '' name='' @ q @ ''wresult'' @ q @ '' value='' @ q
      @ EscapeString wresult @ q @ ''/>'' @ nl @ extra @ nl
      @ ''<button type='' @ q @ ''submit'' @ q @ ''>Continue</button>'' @ nl @ ''</form></body></html>'')"

definition finish_wsfed ::
  "samllib \<Rightarrow> comp \<Rightarrow> snapshot option \<Rightarrow> request \<Rightarrow> string \<Rightarrow> string \<Rightarrow> bool \<Rightarrow> bool \<Rightarrow> runtime \<Rightarrow>
     (go_error + string) \<times> runtime" where
  "finish_wsfed L K s rq pendingID userID success mfa r = (let (found, r1) = GetPending (rq_clk rq 20) pendingID r in
     case found of
       None \<Rightarrow> (Inl (Errorf ''pending request not found'' []), r1)
     | Some pend \<Rightarrow>
       if \<not> PendingUsable s pend \<or> pd_Protocol pend \<noteq> ProtocolWSFed
       then (Inl (Errorf ''pending request not found'' []), r1)
       else case s of
         None \<Rightarrow> (Inl (Errorf ''not ready'' []), r1)
       | Some snap \<Rightarrow>
         if success \<and> completion_denied snap userID mfa r1 then (Inl (Errorf ''access_denied'' []), r1)
         else case buildResponse L K snap (user_or_zero snap userID) (pd_ACSURL pend) (pd_RequestID pend)
                (pd_SPEntityID pend) (rq_clk rq 21) (rq_rnd rq 20, rq_rnd rq 21) success mfa of
           Inl e \<Rightarrow> (Inl e, r1)
         | Inr b64 \<Rightarrow> let (taken, r2) = TakePending (rq_clk rq 22) pendingID r1 in
             if taken = None then (Inl (Errorf ''pending request not found'' []), r2)
             else (Inr (autoPost_wsfed (pd_ACSURL pend) b64 (pd_RelayState pend)), r2))"

definition CompleteSnapshot_wsfed ::
  "samllib \<Rightarrow> comp \<Rightarrow> snapshot option \<Rightarrow> request \<Rightarrow> string \<Rightarrow> string \<Rightarrow> bool \<Rightarrow> runtime \<Rightarrow>
     (go_error + string) \<times> runtime" where
  "CompleteSnapshot_wsfed L K s rq pendingID userID mfa r = finish_wsfed L K s rq pendingID userID True mfa r"

definition DenySnapshot_wsfed ::
  "samllib \<Rightarrow> comp \<Rightarrow> snapshot option \<Rightarrow> request \<Rightarrow> string \<Rightarrow> runtime \<Rightarrow> (go_error + string) \<times> runtime" where
  "DenySnapshot_wsfed L K s rq pendingID r = finish_wsfed L K s rq pendingID [] False False r"

definition Complete_wsfed ::
  "samllib \<Rightarrow> comp \<Rightarrow> store \<Rightarrow> request \<Rightarrow> string \<Rightarrow> string \<Rightarrow> bool \<Rightarrow> runtime \<Rightarrow> (go_error + string) \<times> runtime" where
  "Complete_wsfed L K st rq pendingID userID mfa r = finish_wsfed L K (Load st) rq pendingID userID True mfa r"

definition Deny_wsfed ::
  "samllib \<Rightarrow> comp \<Rightarrow> store \<Rightarrow> request \<Rightarrow> string \<Rightarrow> runtime \<Rightarrow> (go_error + string) \<times> runtime" where
  "Deny_wsfed L K st rq pendingID r = finish_wsfed L K (Load st) rq pendingID [] False False r"

definition realm_client :: "snapshot \<Rightarrow> string \<Rightarrow> client option" where
  "realm_client snap realm = (case gget (sn_ClientsBySAMLEntity snap) realm of
     Some c \<Rightarrow> Some c | None \<Rightarrow> gget (sn_ClientsByClientID snap) realm)"

text \<open>The reply URL: the first registered one when the request names none, and always a registered one.\<close>

definition choose_reply :: "client \<Rightarrow> string \<Rightarrow> string option" where
  "choose_reply cl reply = (let
     allowed = (if length (cs_ACSURLs (cl_SAML cl)) = 0 then cl_RedirectURIs cl else cs_ACSURLs (cl_SAML cl));
     reply1 = (if reply = [] then (case allowed of [] \<Rightarrow> [] | a # _ \<Rightarrow> a) else reply)
   in if reply1 = [] \<or> \<not> contains_url allowed reply1 then None else Some reply1)"

definition wsfed_pending :: "snapshot \<Rightarrow> request \<Rightarrow> client \<Rightarrow> string \<Rightarrow> pending" where
  "wsfed_pending snap rq cl reply = zero_pending\<lparr>
     pd_Generation := sn_Generation snap, pd_Protocol := ProtocolWSFed, pd_ClientID := clientKey cl,
     pd_ACSURL := reply, pd_SPEntityID := values_Get (rq_Query rq) ''wtrealm'',
     pd_RelayState := values_Get (rq_Query rq) ''wctx'', pd_RedirectURI := reply\<rparr>"

definition passive_wsfed :: "samllib \<Rightarrow> comp \<Rightarrow> snapshot option \<Rightarrow> request \<Rightarrow> runtime \<Rightarrow> response \<times> runtime" where
  "passive_wsfed L K s rq r = (case snapWSFed s of
     Inl e \<Rightarrow> (e, r)
   | Inr snap \<Rightarrow> let q = rq_Query rq in
     if values_Get q ''wa'' \<noteq> ''wsignin1.0'' then (HttpError 400 ''invalid_request'', r)
     else if rt_forceFail r \<or> mfa_mode snap = ''force-fail'' then (HttpError 403 ''access_denied'', r)
     else if \<not> PendingBounded (zero_pending\<lparr>pd_RelayState := values_Get q ''wctx''\<rparr>)
     then (HttpError 400 ''invalid_request'', r)
     else case realm_client snap (values_Get q ''wtrealm'') of
       None \<Rightarrow> (HttpError 400 ''unknown realm'', r)
     | Some cl \<Rightarrow> (case choose_reply cl (values_Get q ''wreply'') of
         None \<Rightarrow> (HttpError 400 ''invalid wreply'', r)
       | Some reply \<Rightarrow> let
           (pend, r1) = PutPending (rq_clk rq 0) (rq_clk rq 1) (rq_rnd rq 0) (wsfed_pending snap rq cl reply) r
         in if pd_ID pend = [] then (HttpError 400 ''invalid_request'', r1)
            else federation_next snap rq cl (pd_ID pend)
                   (\<lambda>se. CompleteSnapshot_wsfed L K (Some snap) rq (pd_ID pend) (ss_UserID se) (ss_MFACompleted se)) r1))"

end
