(* ===== verification/Loginui.thy ===== *)
theory Loginui
  imports Wsfed
begin

text \<open>
  \<^verbatim>\<open>internal/loginui/ui.go\<close>: the data-plane login and consent pages. \<open>postLogin\<close> checks the password
  and the second factor, opens a session and completes or sends to consent; \<open>postConsent\<close> completes or
  denies a pending request with the session of the cookie; \<open>finish\<close> and \<open>deny\<close> dispatch on the protocol
  of the pending request. Clock call sites are numbered within \<open>rq_clk\<close> apart from those of the
  providers (10 to 13 and 20 to 22).
\<close>

section \<open>State\<close>

text \<open>
  \<open>ui_verifies\<close> is the number of logins in flight, the length of the channel \<^verbatim>\<open>verifies\<close> of capacity 4;
  the SAML and WS-Federation providers share the runtime of the OpenID provider, so only their
  presence is part of the state.
\<close>

record ui =
  ui_oidc :: provider
  ui_hasSAML :: bool
  ui_hasWSFed :: bool
  ui_limit :: limiter
  ui_verifies :: nat

definition NewUI :: "provider \<Rightarrow> bool \<Rightarrow> bool \<Rightarrow> ui" where
  "NewUI p s w = \<lparr>ui_oidc = p, ui_hasSAML = s, ui_hasWSFed = w, ui_limit = newLimiter 10 Minute, ui_verifies = 0\<rparr>"

definition ui_rt :: "ui \<Rightarrow> runtime" where "ui_rt u = pv_rt (ui_oidc u)"

definition set_ui_rt :: "runtime \<Rightarrow> ui \<Rightarrow> ui" where
  "set_ui_rt r u = u\<lparr>ui_oidc := (ui_oidc u)\<lparr>pv_rt := r\<rparr>\<rparr>"

definition ui_reject :: "string \<Rightarrow> ui \<Rightarrow> ui" where
  "ui_reject reason u = set_ui_rt (Reject reason (ui_rt u)) u"

section \<open>The rate limiter\<close>

text \<open>The login limiter as its loops run; it is proved equal to the limiter of the token endpoint.\<close>

fun sweep_keys :: "go_time \<Rightarrow> string list \<Rightarrow> go_time list gmap \<Rightarrow> go_time list gmap" where
  "sweep_keys c [] m = m"
| "sweep_keys c (k # ks) m = sweep_keys c ks
     (let hits = gget_or [] m k in if hits = [] \<or> \<not> After (last hits) c then gdel k m else m)"

fun keep_after :: "go_time \<Rightarrow> go_time list \<Rightarrow> go_time list \<Rightarrow> go_time list" where
  "keep_after c kept [] = kept"
| "keep_after c kept (t # ts) = keep_after c (if After t c then kept @ [t] else kept) ts"

definition allow_login :: "go_time \<Rightarrow> string \<Rightarrow> limiter \<Rightarrow> bool \<times> limiter" where
  "allow_login now key l = (let
     c = now - lm_window l;
     hits = sweep_keys c (gkeys (lm_hits l)) (lm_hits l)
   in if gget hits key = None \<and> glen hits \<ge> 4096 then (False, l\<lparr>lm_hits := hits\<rparr>)
      else let kept = keep_after c [] (gget_or [] hits key) in
        if int (length kept) \<ge> lm_n l then (False, l\<lparr>lm_hits := gput key kept hits\<rparr>)
        else (True, l\<lparr>lm_hits := gput key (kept @ [now]) hits\<rparr>))"

section \<open>Pages\<close>

definition dq :: string where "dq = [CHR 0x22]"
definition nl :: string where "nl = [CHR 0x0A]"

definition familyHead :: "string \<Rightarrow> string" where
  "familyHead title = (
     ''<!doctype html><html lang='' @ dq @ ''en'' @ dq @ ''><head><meta charset='' @ dq @ ''utf-8'' @ dq
     @ ''/><title>''
     @ EscapeString title @
     ''</title>'' @ nl @ ''<meta name='' @ dq @ ''viewport'' @ dq @ '' content='' @ dq
     @ ''width=device-width, initial-scale=1'' @ dq @ ''/>'' @ nl @ ''<link rel='' @ dq @ ''stylesheet'' @ dq
     @ '' referrerpolicy='' @ dq @ ''no-referrer'' @ dq @ '' href='' @ dq
     @ ''https://fonts.googleapis.com/css2?family=IBM+Plex+Sans:wght@400;500;600&amp;family=IBM+Plex+Mono:wght@400;500&amp;display=swap''
     @ dq @ ''/>'' @ nl @ ''<style>'' @ nl @ '':root {'' @ nl @ ''  --bg: #0b0c0e;'' @ nl
     @ ''  --elev: #121317;'' @ nl @ ''  --panel: #181a1f;'' @ nl @ ''  --fg: #ecece8;'' @ nl
     @ ''  --muted: #9a9b97;'' @ nl @ ''  --subtle: #6d6e6a;'' @ nl
     @ ''  --line: color-mix(in oklab, #ecece8 12%, transparent);'' @ nl @ ''  --accent: #7c8cff;'' @ nl
     @ ''  --danger: #c45c5c;'' @ nl @ ''  --ok: #7c8cff;'' @ nl @ ''  --mono: '' @ dq @ ''IBM Plex Mono'' @ dq
     @ '', ui-monospace, monospace;'' @ nl @ ''  --sans: '' @ dq @ ''IBM Plex Sans'' @ dq
     @ '', system-ui, sans-serif;'' @ nl @ ''}'' @ nl @ ''*{box-sizing:border-box}'' @ nl
     @ ''html,body{height:100%;margin:0;background:var(--bg);color:var(--fg);font-family:var(--sans)}'' @ nl
     @ ''body{display:flex;align-items:center;justify-content:center}'' @ nl
     @ ''.card{width:380px;background:var(--panel);border:1px solid var(--line);border-radius:16px;padding:22px 22px 18px}''
     @ nl @ ''.brand{display:flex;align-items:center;gap:8px;font-weight:600}'' @ nl
     @ ''.dot{width:8px;height:8px;border-radius:50%;background:var(--accent)}'' @ nl
     @ ''.sub{color:var(--muted);font-size:13px;margin:6px 0 14px;font-family:var(--mono)}'' @ nl
     @ ''.step{color:var(--accent);font-size:13px;border-top:2px solid var(--accent);padding-top:10px;margin:0 0 16px}''
     @ nl @ ''h1{margin:0 0 16px;font-size:28px}'' @ nl
     @ ''label{display:block;font-size:11px;letter-spacing:.08em;color:var(--muted);margin:12px 0 4px}'' @ nl
     @ ''input{width:100%;background:var(--bg);color:var(--fg);border:1px solid var(--line);border-radius:8px;padding:10px;font-family:var(--mono)}''
     @ nl @ ''button{font-family:var(--sans);cursor:pointer}'' @ nl
     @ ''.continue{width:100%;margin-top:18px;background:var(--fg);color:#0b0c0e;border:0;border-radius:10px;padding:12px;font-weight:600}''
     @ nl @ ''.row{display:flex;gap:10px;margin-top:16px}'' @ nl
     @ ''.row button{flex:1;border-radius:10px;padding:12px;border:1px solid var(--line);background:var(--elev);color:var(--fg)}''
     @ nl @ ''.row button[value='' @ dq @ ''1'' @ dq
     @ '']{background:var(--fg);color:#0b0c0e;border:0;font-weight:600}'' @ nl
     @ ''.err{color:var(--danger);font-size:13px}'' @ nl
     @ ''.foot{margin-top:16px;color:var(--subtle);font-size:11px;font-family:var(--mono)}'' @ nl
     @ ''</style></head>'')"

definition non_empty :: "string \<Rightarrow> string \<Rightarrow> string" where
  "non_empty s d = (if s \<noteq> [] then s else d)"

text \<open>Title, heading, issuer, vendor and second-factor mode of the login page.\<close>

definition loginClothes :: "snapshot option \<Rightarrow> string \<times> string \<times> string \<times> string \<times> string" where
  "loginClothes s = (case s of
     None \<Rightarrow> (''LabSSO login'', ''Sign in'', [], ''generic'', ''never'')
   | Some snap \<Rightarrow> (non_empty (ct_HTMLTitle (sn_Clothes snap)) ''LabSSO login'',
       non_empty (ct_HTMLHeading (sn_Clothes snap)) ''Sign in'', sn_Issuer snap,
       non_empty (ct_Vendor (sn_Clothes snap)) ''generic'', non_empty (mfa_mode snap) ''never''))"

definition page_foot :: "bool \<Rightarrow> string \<Rightarrow> string" where
  "page_foot mfa mode =
     (if mfa \<and> mode = ''force-fail'' then ''Data-plane login. MFA mode force-fail rejects after password.''
      else if mfa then ''Data-plane login. TOTP is required because mode is '' @ EscapeString mode
        @ ''. Submit username, password, and the 6-digit code.''
      else ''Data-plane login. Not the operator SPA. Cookie is the clothes name, not labsso_session.'')"

definition loginPage :: "snapshot option \<Rightarrow> string \<Rightarrow> string \<Rightarrow> string \<Rightarrow> bool \<Rightarrow> string" where
  "loginPage s pending errMsg username mfa = (let
     (title, heading, issuer, vendor, mode) = loginClothes s;
     extra = (if mfa \<and> mode \<noteq> ''force-fail'' then
       ''<label>TOTP</label><input name='' @ dq @ ''mfa'' @ dq @ '' autocomplete='' @ dq @ ''one-time-code''
       @ dq @ '' placeholder='' @ dq @ ''6-digit code'' @ dq @ ''/>'' else []);
     msg = (if errMsg \<noteq> [] then
       ''<p class='' @ dq @ ''err'' @ dq @ ''>'' @ EscapeString errMsg @ ''</p>'' else []);
     step = (if (mfa \<and> mode \<noteq> ''force-fail'') \<or> mode = ''always'' then
       ''<p class='' @ dq @ ''step'' @ dq @ ''>TOTP '' @ [CHR 0xC2, CHR 0xB7] @ '' spec.auth.mfa.mode ''
       @ EscapeString mode @ ''</p>'' else []);
     foot = page_foot mfa mode
   in
     familyHead title @ ''<body><div class='' @ dq @ ''card'' @ dq @ ''>'' @ nl @ ''<div class='' @ dq
     @ ''brand'' @ dq @ ''><span class='' @ dq @ ''dot'' @ dq @ ''></span>LabSSO</div>'' @ nl @ ''<div class=''
     @ dq @ ''sub'' @ dq @ ''>'' @ EscapeString issuer @ '' '' @ [CHR 0xC2, CHR 0xB7] @ '' ''
     @ EscapeString vendor @ ''</div>'' @ nl @ step @ nl @ ''<h1>'' @ EscapeString heading @ ''</h1>'' @ msg
     @ nl @ ''<form method='' @ dq @ ''post'' @ dq @ '' action='' @ dq @ ''/login'' @ dq @ ''>'' @ nl
     @ ''<input type='' @ dq @ ''hidden'' @ dq @ '' name='' @ dq @ ''pending'' @ dq @ '' value='' @ dq
     @ EscapeString pending @ dq @ ''/>'' @ nl @ ''<label>Username</label><input name='' @ dq @ ''username''
     @ dq @ '' autocomplete='' @ dq @ ''username'' @ dq @ '' value='' @ dq @ EscapeString username @ dq
     @ ''/>'' @ nl @ ''<label>Password</label><input name='' @ dq @ ''password'' @ dq @ '' type='' @ dq
     @ ''password'' @ dq @ '' autocomplete='' @ dq @ ''current-password'' @ dq @ ''/>'' @ nl @ extra @ nl
     @ ''<button class='' @ dq @ ''continue'' @ dq @ '' type='' @ dq @ ''submit'' @ dq @ ''>Continue</button>''
     @ nl @ ''</form>'' @ nl @ ''<p class='' @ dq @ ''foot'' @ dq @ ''>'' @ foot @ ''</p>'' @ nl
     @ ''</div></body></html>'')"

definition consentPage :: "snapshot option \<Rightarrow> string \<Rightarrow> string" where
  "consentPage s pending = (let
     (title, issuer, vendor) = (case s of
        None \<Rightarrow> (''LabSSO consent'', [], ''generic'')
      | Some snap \<Rightarrow> (non_empty (ct_ConsentTitle (sn_Clothes snap)) ''LabSSO consent'', sn_Issuer snap,
          non_empty (ct_Vendor (sn_Clothes snap)) ''generic''))
   in
     familyHead title @ ''<body><div class='' @ dq @ ''card'' @ dq @ ''>'' @ nl @ ''<div class='' @ dq
     @ ''brand'' @ dq @ ''><span class='' @ dq @ ''dot'' @ dq @ ''></span>LabSSO</div>'' @ nl @ ''<div class=''
     @ dq @ ''sub'' @ dq @ ''>'' @ EscapeString issuer @ '' '' @ [CHR 0xC2, CHR 0xB7] @ '' ''
     @ EscapeString vendor @ ''</div>'' @ nl @ ''<h1>Consent</h1>'' @ nl @ ''<form method='' @ dq @ ''post''
     @ dq @ '' action='' @ dq @ ''/consent'' @ dq @ ''>'' @ nl @ ''<input type='' @ dq @ ''hidden'' @ dq
     @ '' name='' @ dq @ ''pending'' @ dq @ '' value='' @ dq @ EscapeString pending @ dq @ ''/>'' @ nl
     @ ''<div class='' @ dq @ ''row'' @ dq @ ''>'' @ nl @ ''<button type='' @ dq @ ''submit'' @ dq @ '' name=''
     @ dq @ ''approve'' @ dq @ '' value='' @ dq @ ''1'' @ dq @ ''>Allow</button>'' @ nl @ ''<button type=''
     @ dq @ ''submit'' @ dq @ '' name='' @ dq @ ''approve'' @ dq @ '' value='' @ dq @ ''0'' @ dq
     @ ''>Deny</button>'' @ nl @ ''</div>'' @ nl @ ''</form>'' @ nl @ ''<p class='' @ dq @ ''foot'' @ dq
     @ ''>Data-plane consent. Not the operator SPA.</p>'' @ nl @ ''</div></body></html>'')"

section \<open>Credentials\<close>

definition canonical_users :: "snapshot option \<Rightarrow> user list" where
  "canonical_users s = (case s of None \<Rightarrow> []
     | Some snap \<Rightarrow> (case sn_Canonical snap of None \<Rightarrow> [] | Some d \<Rightarrow> sp_Users (dc_Spec d)))"

definition findUser :: "snapshot option \<Rightarrow> string \<Rightarrow> user option" where
  "findUser s username = find (\<lambda>u. us_Username u = username \<and> BoolVal (us_Enabled u) True) (canonical_users s)"

text \<open>
  \<open>checkPassword\<close> returns whether the code returns a nil error, and the credentials it verified in
  order, the padding one included.
\<close>

definition checkPassword :: "env \<Rightarrow> snapshot \<Rightarrow> user \<Rightarrow> string \<Rightarrow> bool \<times> credential list" where
  "checkPassword E snap u provided = (let
     usesArgon2 = list_ex (\<lambda>c. us_PasswordHashRef c \<noteq> []) (canonical_users (Some snap));
     found = PasswordOf (Some snap) (us_ID u);
     credential = (case found of Some c \<Rightarrow> c | None \<Rightarrow> Dummy usesArgon2);
     padding = (if found \<noteq> None \<and> usesArgon2 \<and> us_PasswordHashRef u = [] then [Dummy True] else []);
     ok = verify (ev_sha256 E) (ev_argon2 E) credential provided
   in (found \<noteq> None \<and> ok, padding @ [credential]))"

definition verifyPHC :: "env \<Rightarrow> string \<Rightarrow> string \<Rightarrow> bool" where
  "verifyPHC E phc provided = (case Parse (ev_sha256 E) phc True of
     Inl e \<Rightarrow> False | Inr c \<Rightarrow> verify (ev_sha256 E) (ev_argon2 E) c provided)"

definition totpSecret :: "snapshot \<Rightarrow> user \<Rightarrow> runtime \<Rightarrow> string option" where
  "totpSecret snap u r = (case GetTOTPOverlay (us_ID u) r of
     Some secret \<Rightarrow> Some secret | None \<Rightarrow> TOTP (Some snap) (us_ID u))"

definition pendingClient :: "go_time \<Rightarrow> string \<Rightarrow> runtime \<Rightarrow> string \<times> runtime" where
  "pendingClient now pid r = (let (found, r1) = GetPending now pid r
     in (case found of None \<Rightarrow> [] | Some p \<Rightarrow> pd_ClientID p, r1))"

section \<open>Completion\<close>

definition is_protocol :: "string \<Rightarrow> pending option \<Rightarrow> bool" where
  "is_protocol proto found = (case found of None \<Rightarrow> False | Some p \<Rightarrow> pd_Protocol p = proto)"

text \<open>The pending request is looked up before each of the two federation branches, as in the code.\<close>

definition dispatch ::
  "request \<Rightarrow> string \<Rightarrow> (runtime \<Rightarrow> (go_error + string) \<times> runtime) \<Rightarrow> (runtime \<Rightarrow> (go_error + string) \<times> runtime) \<Rightarrow>
     (provider \<Rightarrow> (go_error + string) \<times> provider) \<Rightarrow> ui \<Rightarrow> response \<times> ui" where
  "dispatch rq pid wsfed saml oidc u = (let (found, r1) = GetPending (rq_clk rq 30) pid (ui_rt u) in
     if is_protocol ProtocolWSFed found \<and> ui_hasWSFed u then
       (let (res, r2) = wsfed r1 in (html_or_error 400 res, set_ui_rt r2 u))
     else let (found2, r2) = GetPending (rq_clk rq 31) pid r1 in
       if is_protocol ProtocolSAML found2 \<and> ui_hasSAML u then
         (let (res, r3) = saml r2 in (html_or_error 400 res, set_ui_rt r3 u))
       else let (res, p) = oidc (ui_oidc (set_ui_rt r2 u)) in
         ((case res of Inl e \<Rightarrow> HttpError 400 (error_text e) | Inr loc \<Rightarrow> Redirect loc), u\<lparr>ui_oidc := p\<rparr>))"

definition finish ::
  "env \<Rightarrow> samllib \<Rightarrow> comp \<Rightarrow> snapshot option \<Rightarrow> request \<Rightarrow> string \<Rightarrow> string \<Rightarrow> string \<Rightarrow> bool \<Rightarrow> ui \<Rightarrow> response \<times> ui" where
  "finish E L K s rq pid userID username mfa u = dispatch rq pid
     (CompleteSnapshot_wsfed L K s rq pid userID mfa) (CompleteSnapshot L K s rq pid userID mfa)
     (CompleteLoginSnapshot E s rq pid userID username mfa) u"

definition deny :: "env \<Rightarrow> samllib \<Rightarrow> comp \<Rightarrow> snapshot option \<Rightarrow> request \<Rightarrow> string \<Rightarrow> ui \<Rightarrow> response \<times> ui" where
  "deny E L K s rq pid u = dispatch rq pid
     (DenySnapshot_wsfed L K s rq pid) (DenySnapshot L K s rq pid) (DenyConsentSnapshot E s rq pid) u"

section \<open>Login\<close>

definition getLogin :: "snapshot option \<Rightarrow> request \<Rightarrow> response" where
  "getLogin s rq = Html (loginPage s (values_Get (rq_Query rq) ''pending'') [] [] False)"

definition session_ttl :: "snapshot \<Rightarrow> go_duration" where
  "session_ttl snap = (case sn_Canonical snap of None \<Rightarrow> Hour
     | Some d \<Rightarrow> let t = au_SessionTTL (sp_Auth (dc_Spec d)) in if t > 0 then t else Hour)"

text \<open>Once the factors are accepted: open the session, set its cookie, and complete or ask for consent.\<close>

definition open_session ::
  "env \<Rightarrow> samllib \<Rightarrow> comp \<Rightarrow> snapshot \<Rightarrow> request \<Rightarrow> string \<Rightarrow> user \<Rightarrow> bool \<Rightarrow> ui \<Rightarrow> response \<times> ui" where
  "open_session E L K snap rq pid rec mfaOK u = (let
     (sess, r1) = PutSession (rq_clk rq 34) (rq_rnd rq 34) (zero_session\<lparr>ss_Generation := sn_Generation snap,
        ss_UserID := us_ID rec, ss_Username := us_Username rec,
        ss_Expires := rq_clk rq 33 + session_ttl snap, ss_MFACompleted := mfaOK\<rparr>) (ui_rt u);
     u1 = set_ui_rt r1 u
   in if ss_ID sess = [] then (HttpError 400 ''request revoked'', u1)
      else let
        cookie = \<lparr>ck_Name = CookieName (Some snap), ck_Value = ss_ID sess, ck_MaxAge = 0, ck_Secure = rq_TLS rq\<rparr>;
        (cid, r2) = pendingClient (rq_clk rq 35) pid (ui_rt u1); u2 = set_ui_rt r2 u1;
        cl = gget_or zero_client (sn_ClientsByClientID snap) cid
      in if cl_PreConsent cl \<and> \<not> rt_forceConsent (ui_rt u2) then
           (let (resp, u3) = finish E L K (Some snap) rq pid (us_ID rec) (us_Username rec) mfaOK u2
            in (WithCookie cookie resp, u3))
         else (WithCookie cookie (Redirect (''/consent?pending='' @ pid)), u2))"

definition second_factor ::
  "env \<Rightarrow> samllib \<Rightarrow> comp \<Rightarrow> snapshot \<Rightarrow> request \<Rightarrow> string \<Rightarrow> user \<Rightarrow> ui \<Rightarrow> response \<times> ui" where
  "second_factor E L K snap rq pid rec u = (let
     username = FormValue rq ''username''; mfa = FormValue rq ''mfa'';
     page = (\<lambda>msg. Html (loginPage (Some snap) pid msg username True));
     mode = non_empty (mfa_mode snap) ''never''
   in if mode = ''force-fail'' then (page ''MFA failed'', ui_reject ''login_mfa_rejected'' u)
      else if mode = ''always'' then
        if mfa = [] then (page [], u)
        else let (ok, r1) = (case totpSecret snap rec (ui_rt u) of
             None \<Rightarrow> (False, ui_rt u)
           | Some secret \<Rightarrow> VerifyAndRecordTOTPGeneration (ev_hmac1 E) (us_ID rec) secret mfa (rq_clk rq 32)
               (sn_Generation snap) (ui_rt u)) in
          if \<not> ok then (page ''MFA failed'', ui_reject ''login_mfa_rejected'' (set_ui_rt r1 u))
          else open_session E L K snap rq pid rec True (set_ui_rt r1 u)
      else open_session E L K snap rq pid rec False u)"

definition login_attempt ::
  "env \<Rightarrow> samllib \<Rightarrow> comp \<Rightarrow> snapshot option \<Rightarrow> request \<Rightarrow> ui \<Rightarrow> response \<times> ui" where
  "login_attempt E L K s rq u = (let pid = FormValue rq ''pending''; username = FormValue rq ''username'' in
     if rt_forceFail (ui_rt u) then
       (Html (loginPage s pid ''access denied'' username False), ui_reject ''login_force_failure'' u)
     else case s of
       None \<Rightarrow> (HttpError 503 ''not ready'', u)
     | Some snap \<Rightarrow> let (found, r1) = GetPending (rq_clk rq 36) pid (ui_rt u); u1 = set_ui_rt r1 u in
       if (case found of None \<Rightarrow> True | Some pend \<Rightarrow> \<not> PendingUsable s pend)
       then (HttpError 400 ''invalid pending request'', u1)
       else let rec = findUser s username in
         (case (rec, fst (checkPassword E snap (case rec of Some x \<Rightarrow> x | None \<Rightarrow> zero_user)
                       (FormValue rq ''password''))) of
            (Some x, True) \<Rightarrow> second_factor E L K snap rq pid x u1
          | _ \<Rightarrow> (Html (loginPage s pid ''invalid credentials'' username False),
                  ui_reject ''login_credentials_rejected'' u1)))"

definition postLogin ::
  "env \<Rightarrow> samllib \<Rightarrow> comp \<Rightarrow> snapshot option \<Rightarrow> request \<Rightarrow> ui \<Rightarrow> response \<times> ui" where
  "postLogin E L K s rq u =
     (if ui_verifies u \<ge> 4 then (HttpError 429 ''busy'', u)
      else let (ok, l) = allow_login (rq_clk rq 37) (clientIP rq) (ui_limit u); u1 = u\<lparr>ui_limit := l\<rparr> in
        if \<not> ok then (HttpError 429 ''rate limited'', u1)
        else if \<not> rq_FormOK rq then (HttpError 400 ''bad form'', u1)
        else login_attempt E L K s rq u1)"

section \<open>Consent\<close>

definition getConsent :: "snapshot option \<Rightarrow> request \<Rightarrow> response" where
  "getConsent s rq = Html (consentPage s (values_Get (rq_Query rq) ''pending''))"

definition postConsent ::
  "env \<Rightarrow> samllib \<Rightarrow> comp \<Rightarrow> snapshot option \<Rightarrow> request \<Rightarrow> ui \<Rightarrow> response \<times> ui" where
  "postConsent E L K s rq u =
     (if \<not> rq_FormOK rq then (HttpError 400 ''bad form'', u)
      else let pid = FormValue rq ''pending''; again = Redirect (''/login?pending='' @ pid) in
        if FormValue rq ''approve'' \<noteq> ''1'' then deny E L K s rq pid u
        else case Cookie rq (CookieName s) of
          None \<Rightarrow> (again, u)
        | Some v \<Rightarrow> let (found, r1) = GetSession (rq_clk rq 38) v (ui_rt u); u1 = set_ui_rt r1 u in
          (case found of
             None \<Rightarrow> (again, u1)
           | Some sess \<Rightarrow>
             if \<not> SessionUsable sess (case s of None \<Rightarrow> [] | Some snap \<Rightarrow> mfa_mode snap)
                \<or> \<not> UserUsable s (ss_UserID sess) then (again, u1)
             else finish E L K s rq pid (ss_UserID sess) (ss_Username sess) (ss_MFACompleted sess) u1))"

text \<open>The mounted form endpoints: cross-origin posts are refused, and refusals are reported.\<close>

definition audited_ui :: "string \<Rightarrow> response \<times> ui \<Rightarrow> response \<times> ui" where
  "audited_ui category res =
     (fst res, set_ui_rt (AuditRejected category (status (fst res)) (ui_rt (snd res))) (snd res))"

definition same_origin :: "request \<Rightarrow> (ui \<Rightarrow> response \<times> ui) \<Rightarrow> ui \<Rightarrow> response \<times> ui" where
  "same_origin rq nxt u =
     (if \<not> rq_SameOrigin rq then (HttpError 403 ''cross-origin request detected'', u) else nxt u)"

definition post_login_endpoint ::
  "env \<Rightarrow> samllib \<Rightarrow> comp \<Rightarrow> snapshot option \<Rightarrow> request \<Rightarrow> ui \<Rightarrow> response \<times> ui" where
  "post_login_endpoint E L K s rq u =
     audited_ui ''login_request_rejected'' (same_origin rq (postLogin E L K s rq) u)"

definition post_consent_endpoint ::
  "env \<Rightarrow> samllib \<Rightarrow> comp \<Rightarrow> snapshot option \<Rightarrow> request \<Rightarrow> ui \<Rightarrow> response \<times> ui" where
  "post_consent_endpoint E L K s rq u =
     audited_ui ''consent_request_rejected'' (same_origin rq (postConsent E L K s rq) u)"

end
