(* ===== verification/Sample.thy ===== *)
theory Sample
  imports Provider
begin

text \<open>
  A concrete lab instance for the witnesses: one confidential client, one user in one group, a
  snapshot with the generic vendor, and stand-ins for the cryptographic libraries.
\<close>

definition sample_setQuery :: "string \<Rightarrow> (string \<times> string) list \<Rightarrow> string option" where
  "sample_setQuery uri kvs = Some (uri @ concat (map (\<lambda>(k, v). ''&'' @ k @ ''='' @ QueryEscape v) kvs))"

definition sample_digest :: string where "sample_digest = replicate 32 (CHR ''a'')"

definition sample_url :: url where
  "sample_url = \<lparr>url_Scheme = ''https'', url_Opaque = [], url_HasUser = False, url_Host = ''app.lab'',
     url_Path = ''/cb'', url_RawQuery = [], url_ForceQuery = False, url_Fragment = [],
     url_Hostname = ''app.lab'', url_Port = []\<rparr>"

definition sample_net :: netlib where
  "sample_net = \<lparr>url_Parse = (\<lambda>_. Some sample_url), net_ParseIP = (\<lambda>_. False), net_IsLoopback = (\<lambda>_. False)\<rparr>"

definition sample_claims :: jwtclaims where
  "sample_claims = \<lparr>jc_Issuer = ''https://lab'', jc_Subject = ''u1'', jc_Audience = [''app''],
     jc_IssuedAt = 0, jc_Expiry = Hour\<rparr>"

definition sample_extra :: "json gmap" where
  "sample_extra = gput ''token_use'' (JStr ''access'') (gput ''scope'' (JStr ''openid'')
     (gput ''generation'' (JNum 1) gempty))"

definition sample_env :: env where
  "sample_env = \<lparr>ev_net = sample_net, ev_sha256 = (\<lambda>_. sample_digest), ev_hmac256 = (\<lambda>k m. k),
     ev_hmac1 = (\<lambda>_ _. replicate 20 (CHR 0x00)), ev_argon2 = (\<lambda>p s. p), ev_setQuery = sample_setQuery,
     ev_urlString = Some, ev_signer = (\<lambda>_. Some ''RS256''), ev_sign = (\<lambda>_ _ _. Some ''jwt''),
     ev_open = (\<lambda>_ t. if t = ''jwt'' then Some (sample_claims, sample_extra) else None),
     ev_validate = (\<lambda>c iss t. jc_Issuer c = iss)\<rparr>"

definition sample_client :: client where
  "sample_client = zero_client\<lparr>cl_ID := ''c1'', cl_ClientID := ''app'', cl_RedirectURIs := [''https://app.lab/cb''],
     cl_SecretRef := ''file:s'', cl_PreConsent := True\<rparr>"

definition sample_user :: user where
  "sample_user = zero_user\<lparr>us_ID := ''u1'', us_Username := ''ann'', us_Email := ''ann@lab'',
     us_PasswordRef := ''file:p'', us_GroupIDs := [''g1'']\<rparr>"

definition sample_group :: group where "sample_group = \<lparr>gr_ID = ''g1'', gr_Name = ''staff''\<rparr>"

definition sample_doc :: document where
  "sample_doc = \<lparr>dc_APIVersion = APIVersion, dc_Kind = Kind, dc_Name = ''lab'', dc_Spec =
     \<lparr>sp_Listeners = zero_listeners, sp_Issuer = ''https://lab'', sp_Profile = zero_profile,
      sp_Protocols = zero_protocols, sp_SigningKeyRef = ''file:k'', sp_Clients = [sample_client],
      sp_Users = [sample_user], sp_Groups = [sample_group], sp_Auth = zero_auth,
      sp_GroupOverage = zero_overage, sp_UIEnabled = None, sp_AccessTokenRef = []\<rparr>\<rparr>"

definition sample_clothes :: clothes where
  "sample_clothes = clothes_defaults (vendor_paths ''generic'' ''lab''
     (zero_clothes\<lparr>ct_Vendor := ''generic'', ct_TenantID := DefaultTenantID, ct_Realm := ''lab''\<rparr>))"

definition sample_snap :: snapshot where
  "sample_snap = \<lparr>sn_passwords = gempty, sn_totpSeeds = gempty, sn_Canonical = Some sample_doc,
     sn_Revision = ''r1'', sn_BootstrapRevision = ''r1'', sn_Generation = 1, sn_CompiledAt = 0,
     sn_Issuer = ''https://lab'', sn_TLSCert = [], sn_TLSKey = [], sn_SigningKey = ''pem'', sn_SigningCert = [],
     sn_AccessToken = [], sn_ClientSecrets = gput ''app'' ''s3cret'' gempty,
     sn_ClientsByID = gput ''c1'' sample_client gempty,
     sn_ClientsByClientID = gput ''app'' sample_client gempty, sn_ClientsBySAMLEntity = gempty,
     sn_UsersByID = gput ''u1'' sample_user gempty, sn_GroupsByID = gput ''g1'' sample_group gempty,
     sn_Clothes = sample_clothes\<rparr>"

text \<open>A request with the given method, query and body; the clock stands still.\<close>

definition sample_request ::
  "string \<Rightarrow> (string \<times> string) list \<Rightarrow> (string \<times> string) list \<Rightarrow> request" where
  "sample_request method query form = \<lparr>rq_Method = method, rq_Path = ''/p'', rq_RemoteAddr = ''10.0.0.1:5'',
     rq_Query = query, rq_PostForm = form, rq_FormOK = True, rq_Cookies = [], rq_BasicAuth = None,
     rq_Authorization = [], rq_TLS = True, rq_SameOrigin = True, rq_clk = (\<lambda>_. 1000), rq_rnd = (\<lambda>_. ''rnd'')\<rparr>"

definition sample_challenge :: string where "sample_challenge = RawURL_Encode sample_digest"

definition sample_authorize :: request where
  "sample_authorize = sample_request ''GET'' [(''client_id'', ''app''), (''redirect_uri'', ''https://app.lab/cb''),
     (''response_type'', ''code''), (''code_challenge_method'', ''S256''), (''code_challenge'', sample_challenge),
     (''scope'', ''openid''), (''state'', ''xyz'')] []"

end
