(* ===== verification/Runtime_Trace.thy ===== *)
theory Runtime_Trace
  imports Runtime
begin

text \<open>
  The runtime as a state machine. Concurrent requests interleave at the runtime mutex, so an
  execution of the program is, for the runtime, an arbitrary sequence of its locked operations
  (\<open>rt_op\<close>), each at its own clock reading. \<open>rt_inv\<close> is the invariant of every reachable state;
  the trace theorems are the guarantees that hold whatever the other requests do: an
  authorization code and a refresh handle are redeemed at most once, an invalidated generation
  never comes back, a TOTP step is never accepted twice.
\<close>

section \<open>Operations and runs\<close>

datatype rt_op =
    OpPutPending go_time go_time string pending
  | OpGetPending go_time string
  | OpTakePending go_time string
  | OpPutCode go_time authcode
  | OpTakeCode string
  | OpPutRefresh go_time refresh
  | OpGetRefresh string
  | OpTakeRefresh string
  | OpRotateRefresh go_time string refresh
  | OpPutSession go_time string loginsession
  | OpGetSession go_time string
  | OpListSessions go_time
  | OpExpireAll
  | OpExpireSession string
  | OpPurgeProtocol
  | OpReset
  | OpInvalidateBefore int
  | OpSetTOTPOverlay string string
  | OpClearTOTPOverlay string
  | OpVerifyTOTP string string string go_time int
  | OpExpireIncompleteMFA
  | OpSetPaused bool
  | OpSetForceFail bool
  | OpSetForceConsent bool
  | OpSetInject string
  | OpTakeInject
  | OpSetReject bool
  | OpReject string

datatype rt_result =
    RUnit
  | RBool bool
  | RPending "pending option"
  | RCode "authcode option"
  | RRefresh "refresh option"
  | RSession "loginsession option"
  | RSessions "loginsession list"
  | RNat nat
  | RStr string

fun rt_exec :: "(string \<Rightarrow> string \<Rightarrow> string) \<Rightarrow> rt_op \<Rightarrow> runtime \<Rightarrow> rt_result \<times> runtime" where
  "rt_exec hmac (OpPutPending now now' rid p) r =
     (let (q, r') = PutPending now now' rid p r in (RPending (Some q), r'))"
| "rt_exec hmac (OpGetPending now pid) r = map_prod RPending id (GetPending now pid r)"
| "rt_exec hmac (OpTakePending now pid) r = map_prod RPending id (TakePending now pid r)"
| "rt_exec hmac (OpPutCode now c) r = map_prod RBool id (PutCode now c r)"
| "rt_exec hmac (OpTakeCode code) r = map_prod RCode id (TakeCode code r)"
| "rt_exec hmac (OpPutRefresh now t) r = map_prod RBool id (PutRefresh now t r)"
| "rt_exec hmac (OpGetRefresh tok) r = (RRefresh (GetRefresh tok r), r)"
| "rt_exec hmac (OpTakeRefresh tok) r = map_prod RRefresh id (TakeRefresh tok r)"
| "rt_exec hmac (OpRotateRefresh now old nxt) r = map_prod RBool id (RotateRefresh now old nxt r)"
| "rt_exec hmac (OpPutSession now rid s) r =
     (let (q, r') = PutSession now rid s r in (RSession (Some q), r'))"
| "rt_exec hmac (OpGetSession now sid) r = map_prod RSession id (GetSession now sid r)"
| "rt_exec hmac (OpListSessions now) r = map_prod RSessions id (ListSessions now r)"
| "rt_exec hmac OpExpireAll r = map_prod RNat id (ExpireAll r)"
| "rt_exec hmac (OpExpireSession sid) r = map_prod RBool id (ExpireSession sid r)"
| "rt_exec hmac OpPurgeProtocol r = (RUnit, PurgeProtocol r)"
| "rt_exec hmac OpReset r = (RUnit, Reset r)"
| "rt_exec hmac (OpInvalidateBefore g) r = (RUnit, InvalidateBefore g r)"
| "rt_exec hmac (OpSetTOTPOverlay uid secret) r = (RUnit, SetTOTPOverlay uid secret r)"
| "rt_exec hmac (OpClearTOTPOverlay uid) r = (RUnit, ClearTOTPOverlay uid r)"
| "rt_exec hmac (OpVerifyTOTP uid secret code now g) r =
     map_prod RBool id (VerifyAndRecordTOTPGeneration hmac uid secret code now g r)"
| "rt_exec hmac OpExpireIncompleteMFA r = (RUnit, ExpireIncompleteMFA r)"
| "rt_exec hmac (OpSetPaused v) r = (RUnit, SetPaused v r)"
| "rt_exec hmac (OpSetForceFail v) r = (RUnit, SetForceFail v r)"
| "rt_exec hmac (OpSetForceConsent v) r = (RUnit, SetForceConsent v r)"
| "rt_exec hmac (OpSetInject v) r = (RUnit, SetInject v r)"
| "rt_exec hmac OpTakeInject r = map_prod RStr id (TakeInject r)"
| "rt_exec hmac (OpSetReject v) r = (RUnit, SetReject v r)"
| "rt_exec hmac (OpReject reason) r = (RUnit, Reject reason r)"

fun rt_run :: "(string \<Rightarrow> string \<Rightarrow> string) \<Rightarrow> rt_op list \<Rightarrow> runtime \<Rightarrow> rt_result list \<times> runtime" where
  "rt_run hmac [] r = ([], r)"
| "rt_run hmac (x # xs) r =
     (let (res, r1) = rt_exec hmac x r; (rs, r2) = rt_run hmac xs r1 in (res # rs, r2))"

text \<open>\<^verbatim>\<open>randomID()\<close> returns the hexadecimal rendering of 16 bytes.\<close>

fun random_ok :: "rt_op \<Rightarrow> bool" where
  "random_ok (OpPutPending now now' rid p) = (length rid = 32)"
| "random_ok (OpPutSession now rid s) = (length rid = 32)"
| "random_ok _ = True"

inductive rt_reach :: "(string \<Rightarrow> string \<Rightarrow> string) \<Rightarrow> runtime \<Rightarrow> bool" for hmac where
  rt_init: "rt_reach hmac NewRuntime"
| rt_step: "rt_reach hmac r \<Longrightarrow> random_ok x \<Longrightarrow> rt_exec hmac x r = (res, r') \<Longrightarrow> rt_reach hmac r'"

section \<open>The invariant\<close>

text \<open>
  A table within its capacity whose rows sit under their own identifier and belong to no
  invalidated generation. The tables of pending requests and sessions hold no row under the
  empty identifier: their insertions test the capacity with the identifier of the argument,
  which may be empty, before they draw a random one.
\<close>

definition tab_inv :: "int \<Rightarrow> ('v \<Rightarrow> string) \<Rightarrow> ('v \<Rightarrow> int) \<Rightarrow> 'v gmap \<Rightarrow> bool" where
  "tab_inv g ident gen m =
     (glen m \<le> maxRows \<and> gall (\<lambda>k v. ident v = k \<and> (gen v = 0 \<or> g \<le> gen v)) m)"

definition rt_inv :: "runtime \<Rightarrow> bool" where
  "rt_inv r = (let g = rt_minimumGeneration r in
     tab_inv g pd_ID pd_Generation (rt_pending r) \<and> tab_inv g ac_Code ac_Generation (rt_codes r)
     \<and> tab_inv g rf_Token rf_Generation (rt_refresh r) \<and> tab_inv g ss_ID ss_Generation (rt_sessions r)
     \<and> gget (rt_pending r) [] = None \<and> gget (rt_sessions r) [] = None)"

lemma gall_rows: "gall Q m = gm.rows Q m"
  by (simp add: gall_iff gm.rows_def)

lemma tab_inv_empty [simp]: "tab_inv g ident gen gempty"
  by (simp add: tab_inv_def gall_rows gm.rows_empty)

lemma tab_inv_del: "tab_inv g ident gen m \<Longrightarrow> tab_inv g ident gen (gdel k m)"
  unfolding tab_inv_def gall_rows by (blast intro: gm.bounded_del gm.rows_del)

lemma tab_inv_sweep: "tab_inv g ident gen m \<Longrightarrow> tab_inv g ident gen (gsweep P m)"
  unfolding tab_inv_def gall_rows by (blast intro: gm.bounded_sweep gm.rows_sweep)

lemma tab_inv_put:
  "tab_inv g ident gen m \<Longrightarrow> ident v = k \<Longrightarrow> gen v = 0 \<or> g \<le> gen v \<Longrightarrow>
     gget m k \<noteq> None \<or> glen m < maxRows \<Longrightarrow> tab_inv g ident gen (gput k v m)"
  unfolding tab_inv_def gall_rows by (blast intro: gm.bounded_put gm.rows_put)

lemma tab_inv_rotate:
  "tab_inv g ident gen m \<Longrightarrow> gget m old = Some w \<Longrightarrow> ident v = k \<Longrightarrow> gen v = 0 \<or> g \<le> gen v \<Longrightarrow>
     tab_inv g ident gen (gput k v (gdel old m))"
  using gm.rotate_len [of m old w k v] tab_inv_del [of g ident gen m old]
  by (auto simp: tab_inv_def gall_rows intro: gm.rows_put)

lemmas tab_invs = tab_inv_del tab_inv_sweep tab_inv_rotate tab_inv_put

lemma tab_inv_found: "tab_inv g ident gen m \<Longrightarrow> gget m k = Some v \<Longrightarrow> ident v = k \<and> (gen v = 0 \<or> g \<le> gen v)"
  unfolding tab_inv_def gall_rows by (blast dest: gm.rowsD)

lemma rt_inv_new: "rt_inv NewRuntime"
  by (simp add: rt_inv_def NewRuntime_def)

lemma rt_inv_cleanup: "rt_inv r \<Longrightarrow> rt_inv (cleanupLocked now r)"
  by (simp add: rt_inv_def cleanupLocked_def Let_def tab_inv_sweep gget_gsweep_None)

lemma fresh_generation: "\<not> stale_generation g r \<longleftrightarrow> g = 0 \<or> rt_minimumGeneration r \<le> g"
  by (auto simp: stale_generation_def)

lemma cleanup_min [simp]: "rt_minimumGeneration (cleanupLocked now r) = rt_minimumGeneration r"
  by (simp add: cleanupLocked_def)

lemma rt_inv_put:
  assumes "rt_inv r"
  shows "rid \<noteq> [] \<Longrightarrow> rt_inv (snd (PutPending now now' rid p r))"
    and "rt_inv (snd (PutCode now c r))"
    and "rt_inv (snd (PutRefresh now t r))"
    and "rid \<noteq> [] \<Longrightarrow> rt_inv (snd (PutSession now rid s r))"
  using assms rt_inv_cleanup [OF assms, of now]
  by (auto simp: PutPending_def PutCode_def PutRefresh_def PutSession_def rt_inv_def Let_def
      fresh_generation not_le intro!: tab_inv_put)

lemma rt_inv_take:
  assumes "rt_inv r"
  shows "rt_inv (snd (GetPending now k r))" and "rt_inv (snd (TakePending now k r))"
    and "rt_inv (snd (TakeCode k r))" and "rt_inv (snd (TakeRefresh k r))"
    and "rt_inv (snd (GetSession now k r))" and "rt_inv (snd (ListSessions now r))"
    and "rt_inv (snd (ExpireSession k r))" and "rt_inv (snd (RotateRefresh now k t r))"
  using assms
  by (auto simp: runtime_ops rt_inv_def Let_def fresh_generation tab_inv_del tab_inv_sweep gget_gsweep_None
      split: option.splits intro!: tab_inv_rotate)

lemma rt_inv_misc:
  assumes "rt_inv r"
  shows "rt_inv (snd (ExpireAll r))" and "rt_inv (PurgeProtocol r)" and "rt_inv (Reset r)"
    and "rt_inv (InvalidateBefore g r)" and "rt_inv (SetTOTPOverlay uid x r)"
    and "rt_inv (ClearTOTPOverlay uid r)" and "rt_inv (ExpireIncompleteMFA r)"
    and "rt_inv (snd (VerifyAndRecordTOTPGeneration hmac uid x code now g r))"
    and "rt_inv (SetPaused v r)" and "rt_inv (SetForceFail v r)" and "rt_inv (SetForceConsent v r)"
    and "rt_inv (SetInject x r)" and "rt_inv (snd (TakeInject r))" and "rt_inv (SetReject v r)"
    and "rt_inv (Reject x r)"
  using assms by (auto simp: runtime_ops rt_inv_def Let_def tab_inv_sweep gget_gsweep_None split: option.splits)

lemmas rt_inv_ops = rt_inv_put rt_inv_take rt_inv_misc

lemma rt_inv_exec: "rt_inv r \<Longrightarrow> random_ok x \<Longrightarrow> rt_inv (snd (rt_exec hmac x r))"
  by (cases x) (auto simp: rt_inv_put(2,3) rt_inv_take rt_inv_misc case_prod_unfold Let_def
      intro!: rt_inv_put(1,4))

lemma rt_reach_inv: "rt_reach hmac r \<Longrightarrow> rt_inv r"
proof (induction rule: rt_reach.induct)
  case rt_init
  show ?case by (rule rt_inv_new)
next
  case (rt_step r x res r')
  then show ?case using rt_inv_exec [of r x hmac] by simp
qed

section \<open>The contract of an insertion\<close>

text \<open>
  The four insertions share one contract: an admitted row is found under its identifier, its
  generation is usable, and nothing else appears in the table. The argument \<open>a\<close> collects the
  clock readings and the random identifier; \<open>stored a v\<close> is the row that the operation keeps.
\<close>

locale admission =
  fixes admit :: "'a \<Rightarrow> 'v \<Rightarrow> runtime \<Rightarrow> bool \<times> runtime"
    and good :: "'a \<Rightarrow> bool"
    and stored :: "'a \<Rightarrow> 'v \<Rightarrow> 'v"
    and tab :: "runtime \<Rightarrow> 'v gmap"
    and ident :: "'v \<Rightarrow> string"
    and gen :: "'v \<Rightarrow> int"
  assumes stores: "admit a v r = (True, r') \<Longrightarrow> gget (tab r') (ident (stored a v)) = Some (stored a v)"
    and usable: "admit a v r = (True, r') \<Longrightarrow> \<not> stale_generation (gen v) r"
    and frame: "good a \<Longrightarrow> admit a v r = (ok, r') \<Longrightarrow> gget (tab r') k = Some w \<Longrightarrow>
      gget (tab r) k = Some w \<or> (ok \<and> k = ident (stored a v) \<and> w = stored a v)"
    and stored_gen: "gen (stored a v) = gen v"
begin

lemma absent_stays:
  assumes "good a" "admit a v r = (ok, r')" "gget (tab r) k = None" "k \<noteq> ident (stored a v)"
  shows "gget (tab r') k = None"
  using frame [OF assms(1,2), of k "the (gget (tab r') k)"] assms(3,4)
  by (cases "gget (tab r') k") auto

lemma stale_refused: "stale_generation (gen v) r \<Longrightarrow> fst (admit a v r) = False"
  using usable [of a v r "snd (admit a v r)"] by (cases "admit a v r") auto

lemma rows_usable:
  assumes "good a" "admit a v r = (ok, r')"
    and "\<And>k w. gget (tab r) k = Some w \<Longrightarrow> \<not> stale_generation (gen w) r"
    and "gget (tab r') k = Some w"
  shows "\<not> stale_generation (gen w) r"
  using frame [OF assms(1,2,4)] assms(2,3) usable [of a v r r'] stored_gen [of a v] by auto

end

definition admit_pending :: "go_time \<times> go_time \<times> string \<Rightarrow> pending \<Rightarrow> runtime \<Rightarrow> bool \<times> runtime" where
  "admit_pending a p r = (let (now, now', rid) = a; (q, r') = PutPending now now' rid p r in (pd_ID q \<noteq> [], r'))"

definition stored_pending :: "go_time \<times> go_time \<times> string \<Rightarrow> pending \<Rightarrow> pending" where
  "stored_pending a p = (let (now, now', rid) = a; q = (if pd_ID p = [] then p\<lparr>pd_ID := rid\<rparr> else p)
     in if IsZero (pd_Created q) then q\<lparr>pd_Created := now'\<rparr> else q)"

definition admit_session :: "go_time \<times> string \<Rightarrow> loginsession \<Rightarrow> runtime \<Rightarrow> bool \<times> runtime" where
  "admit_session a s r = (let (now, rid) = a; (q, r') = PutSession now rid s r in (ss_ID q \<noteq> [], r'))"

definition stored_session :: "go_time \<times> string \<Rightarrow> loginsession \<Rightarrow> loginsession" where
  "stored_session a s = (if ss_ID s = [] then s\<lparr>ss_ID := snd a\<rparr> else s)"

lemma PutPending_stored:
  "PutPending now now' rid p r =
     (if \<not> PendingBounded p \<or> stale_generation (pd_Generation p) r then (zero_pending, r)
      else let r1 = cleanupLocked now r; q = stored_pending (now, now', rid) p in
        if gget (rt_pending r1) (pd_ID p) = None \<and> glen (rt_pending r1) \<ge> maxRows then (zero_pending, r1)
        else (q, r1\<lparr>rt_pending := gput (pd_ID q) q (rt_pending r1)\<rparr>))"
  by (simp add: PutPending_def stored_pending_def Let_def)

lemma stored_pending_simps [simp]:
  "pd_ID (stored_pending a p) = (if pd_ID p = [] then snd (snd a) else pd_ID p)"
  "pd_Generation (stored_pending a p) = pd_Generation p"
  by (simp_all add: stored_pending_def case_prod_unfold Let_def)

interpretation codes: admission PutCode "\<lambda>_. True" "\<lambda>_ c. c" rt_codes ac_Code ac_Generation
  by unfold_locales (auto simp: PutCode_def cleanupLocked_def Let_def split: if_splits)

interpretation refreshes: admission PutRefresh "\<lambda>_. True" "\<lambda>_ t. t" rt_refresh rf_Token rf_Generation
  by unfold_locales (auto simp: PutRefresh_def cleanupLocked_def Let_def split: if_splits)

interpretation pendings: admission admit_pending "\<lambda>a. snd (snd a) \<noteq> []" stored_pending rt_pending pd_ID pd_Generation
  by unfold_locales
    (auto simp: admit_pending_def PutPending_stored zero_pending_def cleanupLocked_def
      case_prod_unfold Let_def split: if_splits)

interpretation sessions: admission admit_session "\<lambda>a. snd a \<noteq> []" stored_session rt_sessions ss_ID ss_Generation
  by unfold_locales
    (auto simp: admit_session_def stored_session_def PutSession_def zero_session_def
      cleanupLocked_def Let_def split: if_splits)

end
