(* ===== verification/Runtime_Props.thy ===== *)
theory Runtime_Props
  imports Runtime_Trace
begin

text \<open>
  The guarantees of the runtime over arbitrary interleavings of its operations, with their
  witnesses. The predicates \<open>puts_code\<close>, \<open>puts_refresh\<close> and \<open>resets_totp\<close> name the operations
  that may (re)create the object a theorem is about.
\<close>

fun puts_code :: "string \<Rightarrow> rt_op \<Rightarrow> bool" where
  "puts_code code (OpPutCode now c) = (ac_Code c = code)"
| "puts_code code _ = False"

fun puts_refresh :: "string \<Rightarrow> rt_op \<Rightarrow> bool" where
  "puts_refresh tok (OpPutRefresh now t) = (rf_Token t = tok)"
| "puts_refresh tok (OpRotateRefresh now old t) = (rf_Token t = tok)"
| "puts_refresh tok _ = False"

fun resets_totp :: "string \<Rightarrow> rt_op \<Rightarrow> bool" where
  "resets_totp uid (OpSetTOTPOverlay u s) = (u = uid)"
| "resets_totp uid (OpClearTOTPOverlay u) = (u = uid)"
| "resets_totp uid OpReset = True"
| "resets_totp uid _ = False"

fun lowers_floor :: "int \<Rightarrow> rt_op \<Rightarrow> bool" where
  "lowers_floor g (OpInvalidateBefore h) = (h < g)"
| "lowers_floor g _ = False"

text \<open>The steps accepted for a user along a run.\<close>

definition totp_accepts ::
  "(string \<Rightarrow> string \<Rightarrow> string) \<Rightarrow> string \<Rightarrow> rt_op \<Rightarrow> runtime \<Rightarrow> int list" where
  "totp_accepts hmac uid x r = (case x of
     OpVerifyTOTP u secret code now g \<Rightarrow>
       if u = uid \<and> fst (VerifyAndRecordTOTPGeneration hmac u secret code now g r)
       then (case Verify hmac secret code now of Some step \<Rightarrow> [step] | None \<Rightarrow> []) else []
   | _ \<Rightarrow> [])"

fun totp_steps :: "(string \<Rightarrow> string \<Rightarrow> string) \<Rightarrow> string \<Rightarrow> rt_op list \<Rightarrow> runtime \<Rightarrow> int list" where
  "totp_steps hmac uid [] r = []"
| "totp_steps hmac uid (x # xs) r =
     totp_accepts hmac uid x r @ totp_steps hmac uid xs (snd (rt_exec hmac x r))"

section \<open>One-step facts\<close>

lemma codes_absent_exec:
  assumes "gget (rt_codes r) code = None" "\<not> puts_code code x"
  shows "gget (rt_codes (snd (rt_exec hmac x r))) code = None"
proof (cases x)
  case (OpPutCode now c)
  obtain ok r' where e: "PutCode now c r = (ok, r')" by fastforce
  have "gget (rt_codes r') code = None"
    using codes.absent_stays [OF _ e assms(1)] assms(2) OpPutCode by auto
  with OpPutCode e show ?thesis by simp
qed (use assms in \<open>auto simp: runtime_ops Let_def split: option.splits prod.splits\<close>)

lemma refresh_absent_exec:
  assumes "gget (rt_refresh r) tok = None" "\<not> puts_refresh tok x"
  shows "gget (rt_refresh (snd (rt_exec hmac x r))) tok = None"
proof (cases x)
  case (OpPutRefresh now t)
  obtain ok r' where e: "PutRefresh now t r = (ok, r')" by fastforce
  have "gget (rt_refresh r') tok = None"
    using refreshes.absent_stays [OF _ e assms(1)] assms(2) OpPutRefresh by auto
  with OpPutRefresh e show ?thesis by simp
qed (use assms in \<open>auto simp: runtime_ops Let_def split: option.splits prod.splits\<close>)

lemma floor_exec:
  assumes "g \<le> rt_minimumGeneration r" "\<not> lowers_floor g x"
  shows "g \<le> rt_minimumGeneration (snd (rt_exec hmac x r))"
  using assms
  by (cases x) (auto simp: runtime_ops Let_def split: option.splits prod.splits)

lemma run_keeps:
  assumes "\<And>r x. P r \<Longrightarrow> Q x \<Longrightarrow> P (snd (rt_exec hmac x r))"
    and "P r" "\<forall>x \<in> set xs. Q x"
  shows "P (snd (rt_run hmac xs r))"
  using assms(2,3)
proof (induction xs arbitrary: r)
  case Nil
  then show ?case by simp
next
  case (Cons x xs)
  then have "P (snd (rt_run hmac xs (snd (rt_exec hmac x r))))" using assms(1) by auto
  then show ?case by (simp add: case_prod_unfold Let_def)
qed

lemma last_step_exec:
  assumes "\<not> resets_totp uid x"
  shows "gget (rt_totpLastStep (snd (rt_exec hmac x r))) uid =
     (case totp_accepts hmac uid x r of [] \<Rightarrow> gget (rt_totpLastStep r) uid | s # _ \<Rightarrow> Some s)"
  using assms
  by (cases x)
    (auto simp: runtime_ops totp_accepts_def Let_def split: option.splits prod.splits if_splits)

lemma accepts_increases:
  "totp_accepts hmac uid x r = [s] \<Longrightarrow> gget (rt_totpLastStep r) uid = Some l \<Longrightarrow> l < s"
  by (auto simp: totp_accepts_def VerifyAndRecordTOTPGeneration_def
      split: rt_op.splits option.splits if_splits)

lemma accepts_shape: "totp_accepts hmac uid x r = [] \<or> (\<exists>s. totp_accepts hmac uid x r = [s])"
  by (auto simp: totp_accepts_def split: rt_op.splits option.splits)

lemma steps_sorted:
  "\<forall>x \<in> set xs. \<not> resets_totp uid x \<Longrightarrow>
     sorted_wrt (<) (totp_steps hmac uid xs r) \<and>
     (\<forall>l. gget (rt_totpLastStep r) uid = Some l \<longrightarrow> (\<forall>s \<in> set (totp_steps hmac uid xs r). l < s))"
proof (induction xs arbitrary: r)
  case Nil
  then show ?case by simp
next
  case (Cons x xs)
  let ?r = "snd (rt_exec hmac x r)"
  have IH: "sorted_wrt (<) (totp_steps hmac uid xs ?r)"
    "\<And>l. gget (rt_totpLastStep ?r) uid = Some l \<Longrightarrow> \<forall>s \<in> set (totp_steps hmac uid xs ?r). l < s"
    using Cons by auto
  have nr: "\<not> resets_totp uid x" using Cons.prems by simp
  note step = last_step_exec [OF nr, of hmac r]
  from accepts_shape [of hmac uid x r] show ?case
  proof
    assume e: "totp_accepts hmac uid x r = []"
    then show ?thesis using IH step by simp
  next
    assume "\<exists>s. totp_accepts hmac uid x r = [s]"
    then obtain s where e: "totp_accepts hmac uid x r = [s]" ..
    then have "\<forall>t \<in> set (totp_steps hmac uid xs ?r). s < t" using IH(2) step by simp
    then show ?thesis using IH(1) e accepts_increases [OF e] by (auto intro: less_trans)
  qed
qed

lemma rt_inv_run: "rt_inv r \<Longrightarrow> \<forall>x \<in> set xs. random_ok x \<Longrightarrow> rt_inv (snd (rt_run hmac xs r))"
  by (rule run_keeps [where Q = random_ok]) (auto intro: rt_inv_exec)

section \<open>Properties\<close>

text \<open>A row for the witnesses: one authorization code, one refresh row, one session.\<close>

definition sample_code :: authcode where
  "sample_code = \<lparr>ac_Generation = 1, ac_Code = ''c1'', ac_ClientID = ''app'', ac_RedirectURI = ''https://a/cb'',
     ac_UserID = ''u1'', ac_Username = ''ann'', ac_Scope = ''openid'', ac_Nonce = [], ac_Challenge = [],
     ac_Expires = 1000, ac_MFACompleted = False\<rparr>"

definition sample_refresh :: "string \<Rightarrow> refresh" where
  "sample_refresh tok = \<lparr>rf_Generation = 1, rf_Token = tok, rf_ClientID = ''app'', rf_UserID = ''u1'',
     rf_Username = ''ann'', rf_Scope = ''openid'', rf_Expires = 1000, rf_MFACompleted = False\<rparr>"

text \<open>
  C1. In every reachable state of the runtime, whatever the interleaving of requests, each of
  the four tables has at most 4096 rows, every row sits under its own identifier, and no row
  belongs to an invalidated generation.
\<close>

theorem runtime_invariant: "rt_reach hmac r \<Longrightarrow> rt_inv r"
  by (rule rt_reach_inv)

theorem runtime_invariant_witness:
  "rt_inv (snd (PutCode 5 sample_code NewRuntime)) \<and>
   gget (rt_codes (snd (PutCode 5 sample_code NewRuntime))) ''c1'' = Some sample_code"
proof -
  let ?r = "snd (PutCode 5 sample_code NewRuntime)"
  have "rt_reach (\<lambda>_ _. []) ?r"
    by (rule rt_reach.rt_step [OF rt_reach.rt_init, of "OpPutCode 5 sample_code" _ "fst (rt_exec (\<lambda>_ _. []) (OpPutCode 5 sample_code) NewRuntime)"])
      (simp_all add: map_prod_def case_prod_unfold)
  then have "rt_inv ?r" by (rule runtime_invariant)
  then show ?thesis
    by (simp add: PutCode_def sample_code_def NewRuntime_def stale_generation_def cleanupLocked_def maxRows_def)
qed

text \<open>
  C4. Single use of authorization codes: after one request has taken a code, no sequence of
  operations of other requests makes it available again, unless an operation stores a code of
  that name; so of any number of concurrent redemptions at most one obtains the code.
\<close>

theorem code_redeemed_once:
  assumes "TakeCode code r = (Some c, r1)"
    and "\<forall>x \<in> set xs. \<not> puts_code code x"
  shows "fst (TakeCode code (snd (rt_run hmac xs r1))) = None"
proof -
  have "gget (rt_codes r1) code = None" using assms(1) by (auto simp: TakeCode_def Let_def)
  then have "gget (rt_codes (snd (rt_run hmac xs r1))) code = None"
    using run_keeps [where P = "\<lambda>r. gget (rt_codes r) code = None" and Q = "\<lambda>x. \<not> puts_code code x"]
      codes_absent_exec assms(2) by blast
  then show ?thesis by (simp add: TakeCode_def)
qed

theorem code_redeemed_once_witness:
  "fst (TakeCode ''c1'' (snd (rt_run (\<lambda>_ _. []) [OpTakeCode ''c1'', OpExpireIncompleteMFA]
     (NewRuntime\<lparr>rt_codes := gdel ''c1'' (gput ''c1'' sample_code gempty)\<rparr>)))) = None"
  using code_redeemed_once [of "''c1''" "NewRuntime\<lparr>rt_codes := gput ''c1'' sample_code gempty\<rparr>" sample_code
      "NewRuntime\<lparr>rt_codes := gdel ''c1'' (gput ''c1'' sample_code gempty)\<rparr>"
      "[OpTakeCode ''c1'', OpExpireIncompleteMFA]" "\<lambda>_ _. []"]
  by (simp add: TakeCode_def NewRuntime_def)

text \<open>
  Refresh rotation: once a handle has been rotated to another one, every later rotation of
  the old handle fails, whatever other requests do in between, so concurrent redemptions of one
  handle cannot both succeed; and the replacement is stored in the same step.
\<close>

theorem refresh_rotated_once:
  assumes "RotateRefresh now old t r = (True, r1)" and "rf_Token t \<noteq> old"
    and "\<forall>x \<in> set xs. \<not> puts_refresh old x"
  shows "gget (rt_refresh r1) (rf_Token t) = Some t
     \<and> fst (RotateRefresh now' old t' (snd (rt_run hmac xs r1))) = False
     \<and> GetRefresh old (snd (rt_run hmac xs r1)) = None"
proof -
  have none: "gget (rt_refresh r1) old = None" and new: "gget (rt_refresh r1) (rf_Token t) = Some t"
    using assms(1,2) by (auto simp: RotateRefresh_def split: option.splits if_splits)
  then have "gget (rt_refresh (snd (rt_run hmac xs r1))) old = None"
    using run_keeps [where P = "\<lambda>r. gget (rt_refresh r) old = None" and Q = "\<lambda>x. \<not> puts_refresh old x"]
      refresh_absent_exec assms(3) by blast
  with new show ?thesis by (simp add: RotateRefresh_def GetRefresh_def)
qed

theorem refresh_rotated_once_witness:
  "fst (RotateRefresh 8 ''old'' (sample_refresh ''n2'') (snd (rt_run (\<lambda>_ _. []) [OpListSessions 7]
     (NewRuntime\<lparr>rt_refresh := gput ''n1'' (sample_refresh ''n1'')
        (gdel ''old'' (gput ''old'' (sample_refresh ''old'') gempty))\<rparr>)))) = False"
  using refresh_rotated_once [of 6 "''old''" "sample_refresh ''n1''"
      "NewRuntime\<lparr>rt_refresh := gput ''old'' (sample_refresh ''old'') gempty\<rparr>"
      "NewRuntime\<lparr>rt_refresh := gput ''n1'' (sample_refresh ''n1'')
        (gdel ''old'' (gput ''old'' (sample_refresh ''old'') gempty))\<rparr>"
      "[OpListSessions 7]" 8 "sample_refresh ''n2''" "\<lambda>_ _. []"]
  by (simp add: RotateRefresh_def sample_refresh_def NewRuntime_def After_def stale_generation_def)

lemma tab_floor:
  assumes "tab_inv m ident gen tab" "g \<le> m" "gget tab k = Some v"
  shows "gen v = 0 \<or> g \<le> gen v"
  using tab_inv_found [OF assms(1,3)] assms(2) by auto

text \<open>
  C3. Revocation: after the state before generation g has been invalidated, and as long as no
  operation lowers the floor again, every row in any of the four tables carries generation 0 or
  at least g, and a delayed request of an older generation is refused by every insertion.
\<close>

theorem invalidated_never_returns:
  assumes "rt_reach hmac r" and "\<forall>x \<in> set xs. random_ok x \<and> \<not> lowers_floor g x"
    and "r' = snd (rt_run hmac (OpInvalidateBefore g # xs) r)"
  shows "(gget (rt_codes r') k = Some c \<longrightarrow> ac_Generation c = 0 \<or> g \<le> ac_Generation c)
     \<and> (gget (rt_refresh r') k = Some t \<longrightarrow> rf_Generation t = 0 \<or> g \<le> rf_Generation t)
     \<and> (gget (rt_sessions r') k = Some s \<longrightarrow> ss_Generation s = 0 \<or> g \<le> ss_Generation s)
     \<and> (gget (rt_pending r') k = Some p \<longrightarrow> pd_Generation p = 0 \<or> g \<le> pd_Generation p)
     \<and> (0 < h \<and> h < g \<longrightarrow>
          fst (PutCode now (c'\<lparr>ac_Generation := h\<rparr>) r') = False \<and> \<not> GenerationUsable h r')"
proof -
  let ?r1 = "InvalidateBefore g r"
  have run: "r' = snd (rt_run hmac xs ?r1)"
    using assms(3) by (simp add: case_prod_unfold Let_def)
  have inv: "rt_inv r'"
    unfolding run using rt_inv_misc(4) [OF rt_reach_inv [OF assms(1)]] assms(2) by (intro rt_inv_run) auto
  have flo: "g \<le> rt_minimumGeneration r'"
    unfolding run
    by (rule run_keeps [where P = "\<lambda>r. g \<le> rt_minimumGeneration r" and Q = "\<lambda>x. \<not> lowers_floor g x"])
      (use assms(2) in \<open>auto intro: floor_exec simp: InvalidateBefore_def purgeProtocolLocked_def\<close>)
  have tabs: "tab_inv (rt_minimumGeneration r') ac_Code ac_Generation (rt_codes r')"
    "tab_inv (rt_minimumGeneration r') rf_Token rf_Generation (rt_refresh r')"
    "tab_inv (rt_minimumGeneration r') ss_ID ss_Generation (rt_sessions r')"
    "tab_inv (rt_minimumGeneration r') pd_ID pd_Generation (rt_pending r')"
    using inv by (auto simp: rt_inv_def Let_def)
  have stale: "0 < h \<and> h < g \<Longrightarrow> stale_generation h r'"
    using flo by (simp add: stale_generation_def)
  have refused: "0 < h \<and> h < g \<Longrightarrow> fst (PutCode now (c'\<lparr>ac_Generation := h\<rparr>) r') = False \<and> \<not> GenerationUsable h r'"
    using stale flo codes.stale_refused [of "c'\<lparr>ac_Generation := h\<rparr>" r' now]
    by (simp add: GenerationUsable_def)
  show ?thesis
    by (intro conjI impI refused tab_floor [OF tabs(1) flo] tab_floor [OF tabs(2) flo]
        tab_floor [OF tabs(3) flo] tab_floor [OF tabs(4) flo]) (use refused in blast)+
qed

theorem invalidated_never_returns_witness:
  "fst (PutCode 9 (sample_code\<lparr>ac_Generation := 1\<rparr>)
     (snd (rt_run (\<lambda>_ _. []) [OpInvalidateBefore 2, OpReset] NewRuntime))) = False"
  using invalidated_never_returns [OF rt_reach.rt_init, of "[OpReset]" 2
      "snd (rt_run (\<lambda>_ _. []) [OpInvalidateBefore 2, OpReset] NewRuntime)" "\<lambda>_ _. []"
      "''k''" sample_code "sample_refresh ''t''" zero_session zero_pending 1 9 sample_code]
  by simp

text \<open>
  C5. TOTP replay protection: along any interleaving without a change of the user's overlay or
  a reset, the time steps accepted for the user strictly increase; no code is accepted twice.
\<close>

theorem totp_steps_increase:
  assumes "\<forall>x \<in> set xs. \<not> resets_totp uid x"
  shows "sorted_wrt (<) (totp_steps hmac uid xs r) \<and> distinct (totp_steps hmac uid xs r)"
  using steps_sorted [OF assms, of hmac r] strict_sorted_iff [of "totp_steps hmac uid xs r"] by blast

theorem totp_steps_increase_witness:
  "sorted_wrt (<) (totp_steps (\<lambda>_ _. replicate 20 (CHR 0x00)) ''u1''
     [OpVerifyTOTP ''u1'' ''s'' ''000000'' 62135596800000000000 0,
      OpVerifyTOTP ''u1'' ''s'' ''000000'' 62135596800000000000 0] NewRuntime)"
  using totp_steps_increase [of "[OpVerifyTOTP ''u1'' ''s'' ''000000'' 62135596800000000000 0,
      OpVerifyTOTP ''u1'' ''s'' ''000000'' 62135596800000000000 0]" "''u1''" "\<lambda>_ _. replicate 20 (CHR 0x00)" NewRuntime]
  by simp

end
