(* ===== verification/Provider_Props.thy ===== *)
theory Provider_Props
  imports Sample Runtime_Props
begin

text \<open>
  The guarantees of the OpenID provider: where a browser may be sent, when a code or a token is
  issued and to whom it is bound, what a failed exchange leaves behind, who may end a session.
\<close>

section \<open>Shared facts\<close>

lemma snapOIDC_Inr: "snapOIDC s = Inr snap \<Longrightarrow> s = Some snap"
  by (auto simp: snapOIDC_def split: option.splits if_splits)

lemma exactRedirect_iff [simp]: "exactRedirect us u \<longleftrightarrow> u \<in> set us"
  by (induction us) auto

lemma oauthErrorRedirect_Redirect:
  "oauthErrorRedirect E redirect st code desc = Redirect loc \<Longrightarrow> \<exists>kvs. ev_setQuery E redirect kvs = Some loc"
  by (auto simp: oauthErrorRedirect_def oauthErrorLocation_def split: if_splits option.splits)

text \<open>The locations that the authorization endpoint may send a browser to.\<close>

definition safe_location :: "env \<Rightarrow> snapshot \<Rightarrow> string \<Rightarrow> string \<Rightarrow> bool" where
  "safe_location E snap redirect loc \<longleftrightarrow>
     (\<exists>kvs. ev_setQuery E redirect kvs = Some loc)
     \<or> (\<exists>page pid. page \<in> {''/login'', ''/consent''}
          \<and> loc = TrimRight (sn_Issuer snap) ''/'' @ page @ ''?pending='' @ QueryEscape pid)"

lemma start_pending_safe:
  "fst (start_pending snap rq page p) = Redirect loc \<Longrightarrow> page \<in> {''/login'', ''/consent''} \<Longrightarrow>
     safe_location E snap redirect loc"
  by (auto simp: start_pending_def safe_location_def Let_def case_prod_unfold split: if_splits)

lemma authorize_session_safe:
  "fst (authorize_session E snap rq cl sess p) = Redirect loc \<Longrightarrow>
     safe_location E snap (values_Get (rq_Query rq) ''redirect_uri'') loc"
  by (auto simp: authorize_session_def codeLocation_def case_prod_unfold Let_def
      dest: start_pending_safe split: if_splits option.splits)
    (auto simp: safe_location_def)

lemma authorize_client_safe:
  assumes "fst (authorize_client E snap rq cl p) = Redirect loc"
  shows "safe_location E snap (values_Get (rq_Query rq) ''redirect_uri'') loc"
proof -
  have err: "safe_location E snap redirect loc" if "oauthErrorRedirect E redirect st code desc = Redirect loc"
    for redirect st code desc
    using oauthErrorRedirect_Redirect [OF that] by (simp add: safe_location_def)
  show ?thesis
    using assms
    by (auto simp: authorize_client_def case_prod_unfold Let_def
        split: if_splits option.splits intro: err start_pending_safe authorize_session_safe)
qed

text \<open>
  C22. No open redirect: when the authorization endpoint redirects, the request names a known
  client and one of its registered redirect URIs, and the location is that very URI with query
  parameters set, or the provider's own login or consent page.
\<close>

theorem authorize_no_open_redirect:
  assumes "fst (authorize E s rq p) = Redirect loc"
  shows "\<exists>snap cl. s = Some snap
    \<and> gget (sn_ClientsByClientID snap) (values_Get (rq_Query rq) ''client_id'') = Some cl
    \<and> values_Get (rq_Query rq) ''redirect_uri'' \<in> set (cl_RedirectURIs cl)
    \<and> safe_location E snap (values_Get (rq_Query rq) ''redirect_uri'') loc"
  using assms
  by (auto simp: authorize_def case_prod_unfold Let_def snapOIDC_def
      split: sum.splits if_splits option.splits intro: authorize_client_safe)

theorem authorize_no_open_redirect_witness:
  "\<exists>snap cl. Some sample_snap = Some snap
    \<and> gget (sn_ClientsByClientID snap) (values_Get (rq_Query sample_authorize) ''client_id'') = Some cl
    \<and> values_Get (rq_Query sample_authorize) ''redirect_uri'' \<in> set (cl_RedirectURIs cl)
    \<and> safe_location sample_env snap (values_Get (rq_Query sample_authorize) ''redirect_uri'')
        ''https://lab/login?pending=rnd''"
proof (rule authorize_no_open_redirect)
  show "fst (authorize sample_env (Some sample_snap) sample_authorize New) = Redirect ''https://lab/login?pending=rnd''"
    by code_simp
qed

section \<open>Issuing an authorization code\<close>

lemma start_pending_codes:
  "gget (rt_codes (pv_rt (snd (start_pending snap rq page p)))) k = Some c \<Longrightarrow>
     gget (rt_codes (pv_rt p)) k = Some c"
  by (auto simp: start_pending_def PutPending_def cleanupLocked_def Let_def split: if_splits)

lemma GetSession_codes [simp]: "rt_codes (snd (GetSession now sid r)) = rt_codes r"
  by (simp add: GetSession_def split: option.splits)

lemma GetSession_fields [simp]:
  "rt_forceFail (snd (GetSession now sid r)) = rt_forceFail r"
  "rt_forceConsent (snd (GetSession now sid r)) = rt_forceConsent r"
  "rt_minimumGeneration (snd (GetSession now sid r)) = rt_minimumGeneration r"
  by (simp_all add: GetSession_def split: option.splits)

lemma GetSession_live:
  "GetSession now sid r = (Some s, r') \<Longrightarrow> gget (rt_sessions r) sid = Some s \<and> \<not> session_expired now s"
  by (auto simp: GetSession_def split: option.splits if_splits)

lemma Reject_fields [simp]:
  "rt_codes (Reject x r) = rt_codes r" "rt_refresh (Reject x r) = rt_refresh r"
  "rt_sessions (Reject x r) = rt_sessions r" "rt_pending (Reject x r) = rt_pending r"
  by (simp_all add: Reject_def)

lemma PutCode_new:
  assumes "gget (rt_codes (snd (PutCode now c r))) k = Some d" "gget (rt_codes r) k \<noteq> Some d"
  shows "k = ac_Code c \<and> d = c \<and> fst (PutCode now c r) \<and> \<not> stale_generation (ac_Generation c) r"
proof -
  obtain ok r' where e: "PutCode now c r = (ok, r')" by fastforce
  with codes.frame [OF TrueI e, of k d] codes.usable [of now c r r'] assms show ?thesis by auto
qed

text \<open>What the authorization endpoint must have checked when it issues the code \<open>c\<close> for \<open>sess\<close>.\<close>

definition code_granted :: "snapshot \<Rightarrow> request \<Rightarrow> client \<Rightarrow> loginsession \<Rightarrow> provider \<Rightarrow> bool" where
  "code_granted snap rq cl sess p \<longleftrightarrow> (let q = rq_Query rq in
     scopesAllowed cl (values_Get q ''scope'')
     \<and> values_Get q ''response_type'' = ''code'' \<and> values_Get q ''code_challenge_method'' = ''S256''
     \<and> validChallenge (values_Get q ''code_challenge'')
     \<and> \<not> rt_forceFail (pv_rt p) \<and> mfa_mode snap \<noteq> ''force-fail''
     \<and> (\<exists>sid. Cookie rq (CookieName (Some snap)) = Some sid \<and> sid \<noteq> []
           \<and> gget (rt_sessions (pv_rt p)) sid = Some sess \<and> \<not> session_expired (rq_clk rq 1) sess)
     \<and> SessionUsable sess (mfa_mode snap) \<and> UserUsable (Some snap) (ss_UserID sess)
     \<and> cl_PreConsent cl \<and> \<not> rt_forceConsent (pv_rt p)
     \<and> \<not> stale_generation (sn_Generation snap) (pv_rt p))"

lemma authorize_session_code:
  assumes "gget (rt_codes (pv_rt (snd (authorize_session E snap rq cl sess p)))) k = Some c"
    and "gget (rt_codes (pv_rt p)) k \<noteq> Some c"
  shows "c = issued_code snap rq sess \<and> k = ac_Code c \<and> cl_PreConsent cl \<and> \<not> rt_forceConsent (pv_rt p)
    \<and> \<not> stale_generation (sn_Generation snap) (pv_rt p)"
proof (cases "cl_PreConsent cl \<and> \<not> rt_forceConsent (pv_rt p)")
  case True
  then have "gget (rt_codes (snd (PutCode (rq_clk rq 3) (issued_code snap rq sess) (pv_rt p)))) k = Some c"
    using assms(1) by (auto simp: authorize_session_def case_prod_unfold Let_def split: if_splits option.splits)
  from PutCode_new [OF this assms(2)] True show ?thesis
    by (auto simp: issued_code_def Let_def)
next
  case False
  then show ?thesis
    using assms start_pending_codes [of snap rq "''/consent''" p k c] by (auto simp: authorize_session_def Let_def)
qed

lemma authorize_client_code:
  assumes "gget (rt_codes (pv_rt (snd (authorize_client E snap rq cl p)))) k = Some c"
    and "gget (rt_codes (pv_rt p)) k \<noteq> Some c"
  shows "\<exists>sess. c = issued_code snap rq sess \<and> k = ac_Code c \<and> code_granted snap rq cl sess p"
proof -
  let ?p1 = "p\<lparr>pv_rt := snd (TakeInject (pv_rt p))\<rparr>"
  have keep: "rt_codes (snd (TakeInject (pv_rt p))) = rt_codes (pv_rt p)"
    "rt_sessions (snd (TakeInject (pv_rt p))) = rt_sessions (pv_rt p)"
    "rt_forceFail (snd (TakeInject (pv_rt p))) = rt_forceFail (pv_rt p)"
    "rt_forceConsent (snd (TakeInject (pv_rt p))) = rt_forceConsent (pv_rt p)"
    "rt_minimumGeneration (snd (TakeInject (pv_rt p))) = rt_minimumGeneration (pv_rt p)"
    by (simp_all add: TakeInject_def)
  have pend: "gget (rt_codes (pv_rt (snd (start_pending snap rq page q)))) k \<noteq> Some c"
    if "rt_codes (pv_rt q) = rt_codes (pv_rt p)" for page q
    using start_pending_codes [of snap rq page q k c] assms(2) that by auto
  obtain sid sess where sid: "Cookie rq (CookieName (Some snap)) = Some sid" "sid \<noteq> []"
    and guards: "scopesAllowed cl (values_Get (rq_Query rq) ''scope'')"
      "values_Get (rq_Query rq) ''response_type'' = ''code''"
      "values_Get (rq_Query rq) ''code_challenge_method'' = ''S256''"
      "validChallenge (values_Get (rq_Query rq) ''code_challenge'')"
      "\<not> rt_forceFail (pv_rt p)" "mfa_mode snap \<noteq> ''force-fail''"
    and found: "fst (GetSession (rq_clk rq 1) sid (pv_rt ?p1)) = Some sess"
      "SessionUsable sess (mfa_mode snap)" "UserUsable (Some snap) (ss_UserID sess)"
    and code: "gget (rt_codes (pv_rt (snd (authorize_session E snap rq cl sess
        (?p1\<lparr>pv_rt := snd (GetSession (rq_clk rq 1) sid (pv_rt ?p1))\<rparr>))))) k = Some c"
    using assms pend keep
    by (auto simp: authorize_client_def reject_def case_prod_unfold Let_def split: if_splits option.splits)
  have live: "gget (rt_sessions (pv_rt p)) sid = Some sess \<and> \<not> session_expired (rq_clk rq 1) sess"
    using GetSession_live [of "rq_clk rq 1" sid "pv_rt ?p1" sess] found(1) keep(2)
    by (cases "GetSession (rq_clk rq 1) sid (pv_rt ?p1)") auto
  have "c = issued_code snap rq sess \<and> k = ac_Code c \<and> cl_PreConsent cl \<and> \<not> rt_forceConsent (pv_rt p)
      \<and> \<not> stale_generation (sn_Generation snap) (pv_rt p)"
    using authorize_session_code [OF code] assms(2) keep by (auto simp: stale_generation_def)
  with sid guards found live show ?thesis by (auto simp: code_granted_def Let_def)
qed

text \<open>
  C23. An authorization code appears at the authorization endpoint only when every guard held:
  a known client with that redirect URI, allowed scopes, an S256 challenge, a live and usable
  session of an enabled user, pre-consent without forced consent, no forced failure, and a
  snapshot generation that has not been invalidated. The code is bound to the client, the
  redirect URI, the challenge and the user of the session.
\<close>

theorem authorize_code_guarded:
  assumes "gget (rt_codes (pv_rt (snd (authorize E s rq p)))) k = Some c"
    and "gget (rt_codes (pv_rt p)) k \<noteq> Some c"
  shows "\<exists>snap cl sess. s = Some snap
    \<and> gget (sn_ClientsByClientID snap) (ac_ClientID c) = Some cl
    \<and> ac_ClientID c = values_Get (rq_Query rq) ''client_id''
    \<and> ac_RedirectURI c = values_Get (rq_Query rq) ''redirect_uri''
    \<and> ac_RedirectURI c \<in> set (cl_RedirectURIs cl)
    \<and> ac_Challenge c = values_Get (rq_Query rq) ''code_challenge'' \<and> ac_UserID c = ss_UserID sess
    \<and> ac_Code c = k \<and> code_granted snap rq cl sess p"
proof -
  obtain snap cl where s: "s = Some snap"
    and cl: "gget (sn_ClientsByClientID snap) (values_Get (rq_Query rq) ''client_id'') = Some cl"
      "values_Get (rq_Query rq) ''redirect_uri'' \<in> set (cl_RedirectURIs cl)"
    and step: "gget (rt_codes (pv_rt (snd (authorize_client E snap rq cl
        (p\<lparr>pv_limit := snd (allow (rq_clk rq 0) (clientIP rq) (pv_limit p))\<rparr>))))) k = Some c"
    using assms
    by (auto simp: authorize_def case_prod_unfold Let_def dest: snapOIDC_Inr
        split: sum.splits if_splits option.splits)
  from authorize_client_code [OF step] assms(2) obtain sess
    where "c = issued_code snap rq sess" "k = ac_Code c"
      "code_granted snap rq cl sess (p\<lparr>pv_limit := snd (allow (rq_clk rq 0) (clientIP rq) (pv_limit p))\<rparr>)"
    by auto
  with s cl show ?thesis by (auto simp: issued_code_def code_granted_def Let_def)
qed

definition sample_session :: loginsession where
  "sample_session = \<lparr>ss_Generation = 1, ss_ID = ''s1'', ss_UserID = ''u1'', ss_Username = ''ann'',
     ss_Expires = 5000, ss_MFACompleted = False\<rparr>"

definition sample_provider :: provider where
  "sample_provider = New\<lparr>pv_rt := NewRuntime\<lparr>rt_sessions := gput ''s1'' sample_session gempty\<rparr>\<rparr>"

definition sample_signed_in :: request where
  "sample_signed_in = sample_authorize\<lparr>rq_Cookies := [(''labsso_login'', ''s1'')]\<rparr>"

theorem authorize_code_guarded_witness:
  "\<exists>c snap cl sess. gget (rt_codes (pv_rt (snd (authorize sample_env (Some sample_snap) sample_signed_in sample_provider)))) ''rnd'' = Some c
    \<and> Some sample_snap = Some snap \<and> ac_UserID c = ss_UserID sess
    \<and> code_granted snap sample_signed_in cl sess sample_provider"
proof -
  have "gget (rt_codes (pv_rt (snd (authorize sample_env (Some sample_snap) sample_signed_in sample_provider)))) ''rnd''
      = Some (issued_code sample_snap sample_signed_in sample_session)"
    by code_simp
  moreover have "gget (rt_codes (pv_rt sample_provider)) ''rnd'' \<noteq> Some (issued_code sample_snap sample_signed_in sample_session)"
    by code_simp
  ultimately show ?thesis using authorize_code_guarded by blast
qed

end
