(* ===== verification/Token_Props.thy ===== *)
theory Token_Props
  imports Provider_Props
begin

text \<open>
  The token endpoint: what a successful exchange has checked, what a failed one leaves behind,
  and that an honest client gets its tokens.
\<close>

section \<open>Proof keys\<close>

lemma TrimRight_id: "s = [] \<or> last s \<notin> set cs \<Longrightarrow> TrimRight s cs = s"
  by (cases s rule: rev_cases) (auto simp: TrimRight_def)

lemma RawURL_no_pad: "TrimRight (RawURL_Encode b) ''='' = RawURL_Encode b"
proof (rule TrimRight_id)
  have "CHR ''='' \<notin> set url_alphabet" by (simp add: url_alphabet_def)
  then show "RawURL_Encode b = [] \<or> last (RawURL_Encode b) \<notin> set ''=''"
    using RawURL_chars [of b] by (metis empty_iff insert_iff last_in_set list.set(1,2) subsetD)
qed

lemma validChallenge_iff: "validChallenge v \<longleftrightarrow> (\<exists>b. length b = 32 \<and> v = RawURL_Encode b)"
  by (auto simp: validChallenge_def split: option.splits)

lemma verifyPKCE_iff:
  "verifyPKCE E challenge method verifier \<longleftrightarrow>
     method = ''S256'' \<and> validVerifier verifier \<and> validChallenge challenge
     \<and> challenge = RawURL_Encode (ev_sha256 E verifier)"
  by (auto simp: verifyPKCE_def validChallenge_iff RawURL_no_pad)

section \<open>Client authentication\<close>

lemma clientFromRequest_known:
  "clientFromRequest rq snap = Some (cl, cid) \<Longrightarrow> cid \<noteq> [] \<and> gget (sn_ClientsByClientID snap) cid = Some cl"
  by (auto simp: clientFromRequest_def Let_def case_prod_unfold split: option.splits if_splits prod.splits)

text \<open>The identifier and secret a request presents: HTTP Basic first, the form when it gives no identifier.\<close>

definition presented :: "request \<Rightarrow> (string \<times> string) option" where
  "presented rq = (case rq_BasicAuth rq of
     None \<Rightarrow> Some (FormValue rq ''client_id'', FormValue rq ''client_secret'')
   | Some (i, s) \<Rightarrow> (case (QueryUnescape i, QueryUnescape s) of
       (Some i', Some s') \<Rightarrow>
         Some (if i' = [] then (FormValue rq ''client_id'', FormValue rq ''client_secret'') else (i', s'))
     | _ \<Rightarrow> None))"

lemma clientFromRequest_presented:
  "clientFromRequest rq snap = (case presented rq of
     None \<Rightarrow> None
   | Some (cid, secret) \<Rightarrow>
       if cid = [] then None
       else case gget (sn_ClientsByClientID snap) cid of
         None \<Rightarrow> None
       | Some cl \<Rightarrow>
           if cl_Public cl then (if secret \<noteq> [] then None else Some (cl, cid))
           else if gget_or [] (sn_ClientSecrets snap) cid = []
                \<or> gget_or [] (sn_ClientSecrets snap) cid \<noteq> secret then None else Some (cl, cid))"
  by (simp add: clientFromRequest_def presented_def Let_def split: option.split prod.split)

text \<open>
  Client authentication succeeds exactly for a registered client that presents no secret when
  it is public, and exactly its non-empty configured secret when it is confidential.
\<close>

theorem client_authentication:
  "clientFromRequest rq snap = Some (cl, cid) \<longleftrightarrow>
     (\<exists>secret. presented rq = Some (cid, secret) \<and> cid \<noteq> []
        \<and> gget (sn_ClientsByClientID snap) cid = Some cl
        \<and> (if cl_Public cl then secret = []
           else secret \<noteq> [] \<and> gget (sn_ClientSecrets snap) cid = Some secret))"
  by (auto simp: clientFromRequest_presented gget_or_def split: option.splits if_splits)

text \<open>
  Credentials sent over HTTP Basic in the form encoding of the standard are decoded exactly:
  a client that escapes its identifier and secret is authenticated as the one it names, whatever
  bytes the two contain.
\<close>

theorem basic_credentials_roundtrip:
  assumes "rq_BasicAuth rq = Some (QueryEscape cid, QueryEscape secret)" "cid \<noteq> []"
    and "gget (sn_ClientsByClientID snap) cid = Some cl" "\<not> cl_Public cl" "secret \<noteq> []"
  shows "clientFromRequest rq snap = Some (cl, cid) \<longleftrightarrow> gget (sn_ClientSecrets snap) cid = Some secret"
  using assms by (auto simp: clientFromRequest_def QueryUnescape_Escape gget_or_def Let_def split: option.splits)

theorem basic_credentials_roundtrip_witness:
  "clientFromRequest ((sample_request ''POST'' [] [])\<lparr>rq_BasicAuth := Some (QueryEscape ''app'', QueryEscape ''s3cret'')\<rparr>)
     sample_snap = Some (sample_client, ''app'')"
  using basic_credentials_roundtrip
    [of "(sample_request ''POST'' [] [])\<lparr>rq_BasicAuth := Some (QueryEscape ''app'', QueryEscape ''s3cret'')\<rparr>"
      "''app''" "''s3cret''" sample_snap sample_client]
  by (simp add: sample_snap_def sample_client_def zero_client_def)

section \<open>Issuing tokens\<close>

lemma status_token_error [simp]: "status (writeTokenError rid snap st code desc) = st"
  by (simp add: writeTokenError_def)

text \<open>How the stored grant is replaced: a rotation of a spent handle or a fresh insertion.\<close>

definition grant_step :: "request \<Rightarrow> string \<Rightarrow> refresh \<Rightarrow> runtime \<Rightarrow> bool \<times> runtime" where
  "grant_step rq spent row r = (if spent \<noteq> [] then RotateRefresh (rq_clk rq 5) spent row r
     else PutRefresh (rq_clk rq 5) row r)"

lemma issueTokens_cases:
  assumes "issueTokens E snap rq cid uid un scope nonce mfa spent p = (resp, p')"
  shows "(status resp \<noteq> 200 \<and> pv_rt p' = pv_rt p)
     \<or> (pv_rt p' = snd (grant_step rq spent (refresh_row snap rq cid uid un scope mfa) (pv_rt p))
        \<and> (fst (grant_step rq spent (refresh_row snap rq cid uid un scope mfa) (pv_rt p)) \<longleftrightarrow> status resp = 200))"
  using assms
  by (auto simp: issueTokens_def grant_step_def case_prod_unfold Let_def
      split: option.splits sum.splits if_splits prod.splits)

text \<open>The grant is still allowed by the snapshot: client, user and scope.\<close>

definition grant_allowed :: "snapshot \<Rightarrow> string \<Rightarrow> string \<Rightarrow> string \<Rightarrow> bool" where
  "grant_allowed snap cid uid scope \<longleftrightarrow> (\<exists>cl. gget (sn_ClientsByClientID snap) cid = Some cl
     \<and> UserUsable (Some snap) uid \<and> scopesAllowed cl scope)"

definition issue_allowed :: "snapshot \<Rightarrow> string \<Rightarrow> string \<Rightarrow> string \<Rightarrow> bool \<Rightarrow> runtime \<Rightarrow> bool" where
  "issue_allowed snap cid uid scope mfa r \<longleftrightarrow> grant_allowed snap cid uid scope
     \<and> SessionUsable (zero_session\<lparr>ss_MFACompleted := mfa\<rparr>) (mfa_mode snap)
     \<and> \<not> rt_forceFail r \<and> mfa_mode snap \<noteq> ''force-fail'' \<and> GenerationUsable (sn_Generation snap) r"

lemma writeTokens_unfold:
  "writeTokens E snap rq cid uid un scope nonce mfa spent p =
     (if sn_Canonical snap = None then (Panic, p)
      else if issue_allowed snap cid uid scope mfa (pv_rt p)
      then issueTokens E snap rq cid uid un scope nonce mfa spent p
      else (writeTokenError (rq_rnd rq 0) snap 400 ''invalid_grant''
              (if (rt_forceFail (pv_rt p) \<or> mfa_mode snap = ''force-fail'') \<and> grant_allowed snap cid uid scope
               then ''force-fail'' else []),
            if \<not> grant_allowed snap cid uid scope \<and> spent \<noteq> [] \<and> GenerationUsable (sn_Generation snap) (pv_rt p)
            then p\<lparr>pv_rt := snd (TakeRefresh spent (pv_rt p))\<rparr> else p))"
proof -
  have revoked: "(case gget (sn_ClientsByClientID snap) cid of None \<Rightarrow> True
      | Some cl \<Rightarrow> \<not> UserUsable (Some snap) uid \<or> \<not> scopesAllowed cl scope) \<longleftrightarrow> \<not> grant_allowed snap cid uid scope"
    by (auto simp: grant_allowed_def split: option.splits)
  have refused: "(\<not> grant_allowed snap cid uid scope \<or> \<not> SessionUsable (zero_session\<lparr>ss_MFACompleted := mfa\<rparr>) (mfa_mode snap)
      \<or> (rt_forceFail (pv_rt p) \<or> mfa_mode snap = ''force-fail'') \<or> \<not> GenerationUsable (sn_Generation snap) (pv_rt p))
      \<longleftrightarrow> \<not> issue_allowed snap cid uid scope mfa (pv_rt p)"
    by (auto simp: issue_allowed_def)
  show ?thesis
    unfolding writeTokens_def Let_def revoked refused by (simp split: option.split) blast
qed

lemma writeTokens_ok:
  assumes "writeTokens E snap rq cid uid un scope nonce mfa spent p = (resp, p')" "status resp = 200"
  shows "issue_allowed snap cid uid scope mfa (pv_rt p)
     \<and> grant_step rq spent (refresh_row snap rq cid uid un scope mfa) (pv_rt p) = (True, pv_rt p')"
proof -
  have "issue_allowed snap cid uid scope mfa (pv_rt p)
      \<and> issueTokens E snap rq cid uid un scope nonce mfa spent p = (resp, p')"
    using assms unfolding writeTokens_unfold by (simp split: if_splits) (use status_token_error in force)+
  with issueTokens_cases [of E snap rq cid uid un scope nonce mfa spent p resp p'] assms(2)
  show ?thesis by (simp add: prod_eq_iff)
qed

lemma grant_step_stored:
  assumes "grant_step rq spent row r = (True, r')"
  shows "gget (rt_refresh r') (rf_Token row) = Some row"
    and "spent \<noteq> [] \<Longrightarrow> spent \<noteq> rf_Token row \<Longrightarrow> gget (rt_refresh r') spent = None"
  using assms refreshes.stores [of "rq_clk rq 5" row r r']
  by (auto simp: grant_step_def RotateRefresh_def split: if_splits option.splits)

lemma TakeCode_gone: "gget (rt_codes (snd (TakeCode code r))) code = None"
  by (simp add: TakeCode_def Let_def)

lemma grant_step_codes:
  "gget (rt_codes r) k = None \<Longrightarrow> gget (rt_codes (snd (grant_step rq spent row r))) k = None"
  by (auto simp: grant_step_def RotateRefresh_def PutRefresh_def cleanupLocked_def gget_gsweep_None Let_def
      split: option.splits)

lemma writeTokens_codes:
  "gget (rt_codes (pv_rt p)) k = None \<Longrightarrow>
     gget (rt_codes (pv_rt (snd (writeTokens E snap rq cid uid un scope nonce mfa spent p)))) k = None"
  using issueTokens_cases [of E snap rq cid uid un scope nonce mfa spent p
      "fst (issueTokens E snap rq cid uid un scope nonce mfa spent p)"
      "snd (issueTokens E snap rq cid uid un scope nonce mfa spent p)"]
    grant_step_codes [of "pv_rt p" k rq spent "refresh_row snap rq cid uid un scope mfa"]
  by (auto simp: writeTokens_unfold TakeRefresh_def Let_def)

section \<open>The authorization code grant\<close>

lemma tokenCode_ok:
  assumes "tokenCode E snap rq p = (resp, p')" "status resp = 200"
  shows "\<exists>cl c. clientFromRequest rq snap = Some (cl, ac_ClientID c)
     \<and> gget (rt_codes (pv_rt p)) (FormValue rq ''code'') = Some c
     \<and> \<not> After (rq_clk rq 1) (ac_Expires c)
     \<and> ac_RedirectURI c = FormValue rq ''redirect_uri'' \<and> ac_RedirectURI c \<in> set (cl_RedirectURIs cl)
     \<and> validVerifier (FormValue rq ''code_verifier'')
     \<and> ac_Challenge c = RawURL_Encode (ev_sha256 E (FormValue rq ''code_verifier''))
     \<and> issue_allowed snap (ac_ClientID c) (ac_UserID c) (ac_Scope c) (ac_MFACompleted c) (pv_rt p)
     \<and> gget (rt_refresh (pv_rt p')) (rq_rnd rq 1) = Some (refresh_row snap rq (ac_ClientID c) (ac_UserID c)
          (ac_Username c) (ac_Scope c) (ac_MFACompleted c))"
proof -
  let ?p1 = "p\<lparr>pv_rt := snd (TakeCode (FormValue rq ''code'') (pv_rt p))\<rparr>"
  obtain cl cid where auth: "clientFromRequest rq snap = Some (cl, cid)"
    using assms by (auto simp: tokenCode_def Let_def split: option.splits)
  then have known: "gget (sn_ClientsByClientID snap) cid = Some cl" using clientFromRequest_known by blast
  then obtain c where c: "gget (rt_codes (pv_rt p)) (FormValue rq ''code'') = Some c"
    "\<not> After (rq_clk rq 1) (ac_Expires c)" "ac_RedirectURI c = FormValue rq ''redirect_uri''"
    "ac_ClientID c = cid" "FormValue rq ''redirect_uri'' \<in> set (cl_RedirectURIs cl)"
    "verifyPKCE E (ac_Challenge c) ''S256'' (FormValue rq ''code_verifier'')"
    and w: "writeTokens E snap rq (ac_ClientID c) (ac_UserID c) (ac_Username c) (ac_Scope c)
        (ac_Nonce c) (ac_MFACompleted c) [] ?p1 = (resp, p')"
    using assms auth
    by (auto simp: tokenCode_def TakeCode_def gget_or_def case_prod_unfold Let_def split: option.splits if_splits)
  have keep: "rt_forceFail (pv_rt ?p1) = rt_forceFail (pv_rt p)"
    "rt_minimumGeneration (pv_rt ?p1) = rt_minimumGeneration (pv_rt p)"
    by (simp_all add: TakeCode_def Let_def)
  show ?thesis
    using writeTokens_ok [OF w assms(2)] auth c keep grant_step_stored(1)
    by (fastforce simp: verifyPKCE_iff issue_allowed_def GenerationUsable_def refresh_row_def)
qed

lemma token_unfold:
  assumes "token E s rq p = (resp, p')" "status resp = 200"
  shows "\<exists>snap lim. s = Some snap \<and> \<not> rt_paused (pv_rt p) \<and> rt_inject (pv_rt p) = []
     \<and> (let p2 = p\<lparr>pv_limit := lim, pv_rt := snd (TakeInject (pv_rt p))\<rparr> in
        (FormValue rq ''grant_type'' = ''authorization_code'' \<and> tokenCode E snap rq p2 = (resp, p'))
        \<or> (FormValue rq ''grant_type'' = ''refresh_token'' \<and> tokenRefresh E snap rq p2 = (resp, p')))"
  using assms
  by (auto simp: token_def TakeInject_def case_prod_unfold Let_def snapOIDC_def
      split: sum.splits option.splits if_splits)

text \<open>
  C6. Soundness of the authorization code grant: when the token endpoint answers an
  \<^verbatim>\<open>authorization_code\<close> request with tokens, the client authenticated as the one the code was
  issued to, the code was stored and unexpired, the redirect URI is the one of the code and still
  registered, the S256 hash of the verifier is the stored challenge, the user is enabled and the
  scope still allowed, nothing forces a failure, and a refresh row bound to the same client, user
  and scope is stored.
\<close>

theorem code_grant_sound:
  assumes "token E s rq p = (resp, p')" "status resp = 200"
    and "FormValue rq ''grant_type'' = ''authorization_code''"
  shows "\<exists>snap cl c. s = Some snap \<and> clientFromRequest rq snap = Some (cl, ac_ClientID c)
     \<and> gget (rt_codes (pv_rt p)) (FormValue rq ''code'') = Some c \<and> \<not> After (rq_clk rq 1) (ac_Expires c)
     \<and> ac_RedirectURI c = FormValue rq ''redirect_uri'' \<and> ac_RedirectURI c \<in> set (cl_RedirectURIs cl)
     \<and> validVerifier (FormValue rq ''code_verifier'')
     \<and> ac_Challenge c = RawURL_Encode (ev_sha256 E (FormValue rq ''code_verifier''))
     \<and> issue_allowed snap (ac_ClientID c) (ac_UserID c) (ac_Scope c) (ac_MFACompleted c) (pv_rt p)
     \<and> gget (rt_refresh (pv_rt p')) (rq_rnd rq 1) = Some (refresh_row snap rq (ac_ClientID c) (ac_UserID c)
          (ac_Username c) (ac_Scope c) (ac_MFACompleted c))"
proof -
  obtain snap lim where s: "s = Some snap"
    and t: "tokenCode E snap rq (p\<lparr>pv_limit := lim, pv_rt := snd (TakeInject (pv_rt p))\<rparr>) = (resp, p')"
    using token_unfold [OF assms(1,2)] assms(3) by (auto simp: Let_def)
  have keep: "rt_codes (snd (TakeInject (pv_rt p))) = rt_codes (pv_rt p)"
    "issue_allowed snap cid uid scope mfa (snd (TakeInject (pv_rt p))) = issue_allowed snap cid uid scope mfa (pv_rt p)"
    for cid uid scope mfa
    by (simp_all add: TakeInject_def issue_allowed_def GenerationUsable_def)
  from tokenCode_ok [OF t assms(2)] s show ?thesis by (simp add: keep)
qed

definition sample_verifier :: string where "sample_verifier = replicate 43 (CHR ''v'')"

definition sample_exchange :: request where
  "sample_exchange = sample_request ''POST'' [] [(''grant_type'', ''authorization_code''), (''code'', ''c1''),
     (''code_verifier'', sample_verifier), (''redirect_uri'', ''https://app.lab/cb''),
     (''client_id'', ''app''), (''client_secret'', ''s3cret'')]"

definition sample_grant :: authcode where
  "sample_grant = \<lparr>ac_Generation = 1, ac_Code = ''c1'', ac_ClientID = ''app'', ac_RedirectURI = ''https://app.lab/cb'',
     ac_UserID = ''u1'', ac_Username = ''ann'', ac_Scope = ''openid'', ac_Nonce = [],
     ac_Challenge = sample_challenge, ac_Expires = 2000, ac_MFACompleted = False\<rparr>"

definition sample_with_code :: provider where
  "sample_with_code = New\<lparr>pv_rt := NewRuntime\<lparr>rt_codes := gput ''c1'' sample_grant gempty\<rparr>\<rparr>"

theorem code_grant_sound_witness:
  "\<exists>c. gget (rt_codes (pv_rt sample_with_code)) ''c1'' = Some c
     \<and> ac_Challenge c = RawURL_Encode (ev_sha256 sample_env sample_verifier)"
proof -
  let ?run = "token sample_env (Some sample_snap) sample_exchange sample_with_code"
  have "status (fst ?run) = 200" by code_simp
  moreover have "FormValue sample_exchange ''grant_type'' = ''authorization_code''"
    "FormValue sample_exchange ''code'' = ''c1''" "FormValue sample_exchange ''code_verifier'' = sample_verifier"
    by (simp_all add: sample_exchange_def sample_request_def FormValue_def values_Get_def)
  ultimately show ?thesis
    using code_grant_sound [of sample_env "Some sample_snap" sample_exchange sample_with_code "fst ?run" "snd ?run"]
    by auto
qed

text \<open>
  A code is burned by the first exchange of an authenticated client, whatever its outcome: the
  code is no longer stored when the token endpoint has answered. A client that does not authenticate
  leaves the provider unchanged.
\<close>

theorem code_burned_on_exchange:
  "(clientFromRequest rq snap \<noteq> None \<longrightarrow>
      gget (rt_codes (pv_rt (snd (tokenCode E snap rq p)))) (FormValue rq ''code'') = None)
   \<and> (clientFromRequest rq snap = None \<longrightarrow>
      status (fst (tokenCode E snap rq p)) = 401 \<and> snd (tokenCode E snap rq p) = p)"
proof (cases "clientFromRequest rq snap")
  case None
  then show ?thesis by (simp add: tokenCode_def Let_def)
next
  case (Some a)
  let ?r1 = "snd (TakeCode (FormValue rq ''code'') (pv_rt p))"
  have gone: "gget (rt_codes ?r1) (FormValue rq ''code'') = None" by (rule TakeCode_gone)
  have "gget (rt_codes (pv_rt (snd (writeTokens E snap rq cid uid un scope nonce mfa spent (p\<lparr>pv_rt := ?r1\<rparr>)))))
      (FormValue rq ''code'') = None" for cid uid un scope nonce mfa spent
    using gone by (intro writeTokens_codes) simp
  with Some gone show ?thesis
    by (auto simp: tokenCode_def case_prod_unfold Let_def split: option.splits)
qed

theorem code_burned_on_exchange_witness:
  "gget (rt_codes (pv_rt (snd (tokenCode sample_env sample_snap sample_exchange sample_with_code))))
     (FormValue sample_exchange ''code'') = None"
proof -
  have "clientFromRequest sample_exchange sample_snap \<noteq> None" by code_simp
  with code_burned_on_exchange [of sample_exchange sample_snap sample_env sample_with_code] show ?thesis by blast
qed

section \<open>The refresh grant\<close>

text \<open>The scope that a refresh request asks for: the granted one when the parameter is empty.\<close>

definition requested_scope :: "request \<Rightarrow> refresh \<Rightarrow> string" where
  "requested_scope rq ref = (if FormValue rq ''scope'' \<noteq> [] then FormValue rq ''scope'' else rf_Scope ref)"

lemma scopeSubset_refl: "scopeSubset s s"
  by (simp add: scopeSubset_def hasScope_def list_all_iff list_ex_iff)

lemma tokenRefresh_cases:
  "(status (fst (tokenRefresh E snap rq p)) \<noteq> 200 \<and> snd (tokenRefresh E snap rq p) = p)
   \<or> (\<exists>cl ref. clientFromRequest rq snap = Some (cl, rf_ClientID ref)
        \<and> gget (rt_refresh (pv_rt p)) (FormValue rq ''refresh_token'') = Some ref
        \<and> \<not> After (rq_clk rq 1) (rf_Expires ref) \<and> scopeSubset (requested_scope rq ref) (rf_Scope ref)
        \<and> tokenRefresh E snap rq p = writeTokens E snap rq (rf_ClientID ref) (rf_UserID ref) (rf_Username ref)
             (requested_scope rq ref) [] (rf_MFACompleted ref) (FormValue rq ''refresh_token'') p)"
  using scopeSubset_refl
  by (auto simp: tokenRefresh_def GetRefresh_def requested_scope_def Let_def split: option.splits if_splits)

text \<open>
  C24. Refresh token rotation: a refresh request answered with tokens comes from the authenticated
  client the handle belongs to, the handle was stored and unexpired, the scope is a subset of the
  granted one, the old handle is gone and the new one is stored with exactly the requested scope.
\<close>

theorem refresh_rotation:
  assumes "tokenRefresh E snap rq p = (resp, p')" "status resp = 200"
    and "FormValue rq ''refresh_token'' \<noteq> []" "rq_rnd rq 1 \<noteq> FormValue rq ''refresh_token''"
  shows "\<exists>cl ref. clientFromRequest rq snap = Some (cl, rf_ClientID ref)
     \<and> gget (rt_refresh (pv_rt p)) (FormValue rq ''refresh_token'') = Some ref
     \<and> \<not> After (rq_clk rq 1) (rf_Expires ref)
     \<and> set (Fields (requested_scope rq ref)) \<subseteq> set (Fields (rf_Scope ref))
     \<and> issue_allowed snap (rf_ClientID ref) (rf_UserID ref) (requested_scope rq ref) (rf_MFACompleted ref) (pv_rt p)
     \<and> gget (rt_refresh (pv_rt p')) (FormValue rq ''refresh_token'') = None
     \<and> gget (rt_refresh (pv_rt p')) (rq_rnd rq 1) = Some (refresh_row snap rq (rf_ClientID ref) (rf_UserID ref)
          (rf_Username ref) (requested_scope rq ref) (rf_MFACompleted ref))"
proof -
  obtain cl ref where r: "clientFromRequest rq snap = Some (cl, rf_ClientID ref)"
    "gget (rt_refresh (pv_rt p)) (FormValue rq ''refresh_token'') = Some ref"
    "\<not> After (rq_clk rq 1) (rf_Expires ref)" "scopeSubset (requested_scope rq ref) (rf_Scope ref)"
    and w: "writeTokens E snap rq (rf_ClientID ref) (rf_UserID ref) (rf_Username ref)
      (requested_scope rq ref) [] (rf_MFACompleted ref) (FormValue rq ''refresh_token'') p = (resp, p')"
    using tokenRefresh_cases [of E snap rq p] assms(1,2) by auto
  note ok = writeTokens_ok [OF w assms(2)]
  have "set (Fields (requested_scope rq ref)) \<subseteq> set (Fields (rf_Scope ref))"
    using r(4) by (auto simp: scopeSubset_def hasScope_def list_all_iff list_ex_iff)
  with r ok grant_step_stored [of rq "FormValue rq ''refresh_token''"] assms(3,4) show ?thesis
    by (fastforce simp: refresh_row_def)
qed

definition sample_ref :: refresh where
  "sample_ref = \<lparr>rf_Generation = 1, rf_Token = ''r1'', rf_ClientID = ''app'', rf_UserID = ''u1'', rf_Username = ''ann'',
     rf_Scope = ''openid email'', rf_Expires = 2000, rf_MFACompleted = False\<rparr>"

definition sample_with_refresh :: provider where
  "sample_with_refresh = New\<lparr>pv_rt := NewRuntime\<lparr>rt_refresh := gput ''r1'' sample_ref gempty\<rparr>\<rparr>"

definition sample_renew :: request where
  "sample_renew = sample_request ''POST'' [] [(''grant_type'', ''refresh_token''), (''refresh_token'', ''r1''),
     (''scope'', ''openid''), (''client_id'', ''app''), (''client_secret'', ''s3cret'')]"

lemma sample_renew_form:
  "FormValue sample_renew ''refresh_token'' = ''r1''" "rq_rnd sample_renew n = ''rnd''"
  by (simp_all add: sample_renew_def sample_request_def FormValue_def values_Get_def)

theorem refresh_rotation_witness:
  "gget (rt_refresh (pv_rt (snd (tokenRefresh sample_env sample_snap sample_renew sample_with_refresh)))) ''r1'' = None"
proof -
  let ?run = "tokenRefresh sample_env sample_snap sample_renew sample_with_refresh"
  have "status (fst ?run) = 200" by code_simp
  then show ?thesis
    using refresh_rotation [of sample_env sample_snap sample_renew sample_with_refresh "fst ?run" "snd ?run"]
    by (auto simp: sample_renew_form)
qed

text \<open>
  A refused refresh does not burn the grant: the stored handles are unchanged, unless the
  snapshot, being of a usable generation, no longer allows the client, the user or the scope, and
  then only the presented handle is removed.
\<close>

theorem refresh_refused_keeps_grant:
  assumes "status (fst (tokenRefresh E snap rq p)) \<noteq> 200" "gget (rt_refresh (pv_rt p)) [] = None"
  shows "rt_refresh (pv_rt (snd (tokenRefresh E snap rq p))) = rt_refresh (pv_rt p)
    \<or> (\<exists>ref. gget (rt_refresh (pv_rt p)) (FormValue rq ''refresh_token'') = Some ref
         \<and> \<not> grant_allowed snap (rf_ClientID ref) (rf_UserID ref) (requested_scope rq ref)
         \<and> GenerationUsable (sn_Generation snap) (pv_rt p)
         \<and> rt_refresh (pv_rt (snd (tokenRefresh E snap rq p)))
             = gdel (FormValue rq ''refresh_token'') (rt_refresh (pv_rt p)))"
proof (cases "snd (tokenRefresh E snap rq p) = p")
  case True
  then show ?thesis by auto
next
  case False
  let ?tok = "FormValue rq ''refresh_token''"
  obtain ref where ref: "gget (rt_refresh (pv_rt p)) ?tok = Some ref"
    and w: "tokenRefresh E snap rq p = writeTokens E snap rq (rf_ClientID ref) (rf_UserID ref) (rf_Username ref)
      (requested_scope rq ref) [] (rf_MFACompleted ref) ?tok p"
    using tokenRefresh_cases [of E snap rq p] False by auto
  have ne: "?tok \<noteq> []" using ref assms(2) by auto
  let ?iss = "issueTokens E snap rq (rf_ClientID ref) (rf_UserID ref) (rf_Username ref)
      (requested_scope rq ref) [] (rf_MFACompleted ref) ?tok p"
  let ?row = "refresh_row snap rq (rf_ClientID ref) (rf_UserID ref) (rf_Username ref) (requested_scope rq ref) (rf_MFACompleted ref)"
  have keep: "rt_refresh (pv_rt (snd ?iss)) = rt_refresh (pv_rt p)" if "status (fst ?iss) \<noteq> 200"
  proof -
    have "\<not> fst (grant_step rq ?tok ?row (pv_rt p)) \<Longrightarrow>
        rt_refresh (snd (grant_step rq ?tok ?row (pv_rt p))) = rt_refresh (pv_rt p)"
      using ne by (auto simp: grant_step_def RotateRefresh_def split: option.splits)
    with issueTokens_cases [of E snap rq "rf_ClientID ref" "rf_UserID ref" "rf_Username ref" "requested_scope rq ref"
        "[]" "rf_MFACompleted ref" ?tok p "fst ?iss" "snd ?iss"] that
    show ?thesis by auto
  qed
  show ?thesis
    using keep assms(1) ref ne unfolding w writeTokens_unfold
    by (auto simp: TakeRefresh_def Let_def split: if_splits)
qed

text \<open>The same request after the user was removed: the grant is withdrawn.\<close>

theorem refresh_refused_keeps_grant_witness:
  "rt_refresh (pv_rt (snd (tokenRefresh sample_env (sample_snap\<lparr>sn_UsersByID := gempty\<rparr>) sample_renew sample_with_refresh)))
     \<in> {rt_refresh (pv_rt sample_with_refresh), gdel ''r1'' (rt_refresh (pv_rt sample_with_refresh))}"
proof -
  have "status (fst (tokenRefresh sample_env (sample_snap\<lparr>sn_UsersByID := gempty\<rparr>) sample_renew sample_with_refresh)) \<noteq> 200"
    "gget (rt_refresh (pv_rt sample_with_refresh)) [] = None"
    by code_simp+
  from refresh_refused_keeps_grant [OF this] show ?thesis by (auto simp: sample_renew_form)
qed

section \<open>An honest client gets its tokens\<close>

lemma user_claims_ok:
  assumes "\<And>u e w. gget (sn_UsersByID snap) uid = Some u \<Longrightarrow> hasScope scope ''groups'' \<Longrightarrow> groupClaims snap u \<noteq> (Inl e, w)"
  shows "\<exists>extra' acc' w. user_claims snap uid scope extra acc = (Inr (extra', acc'), w)"
proof (cases "gget (sn_UsersByID snap) uid")
  case None
  then show ?thesis by (simp add: user_claims_def)
next
  case (Some u)
  show ?thesis
  proof (cases "hasScope scope ''groups''")
    case True
    obtain gc w where g: "groupClaims snap u = (Inr gc, w)"
      using assms [OF Some True] by (metis obj_sumE prod.collapse)
    with Some True show ?thesis by (simp add: user_claims_def Let_def)
  next
    case False
    with Some show ?thesis by (simp add: user_claims_def Let_def)
  qed
qed

lemma PutRefresh_below_capacity:
  assumes "glen (rt_refresh r) < maxRows" "\<not> stale_generation (rf_Generation row) r"
  shows "fst (PutRefresh now row r)"
proof -
  have "glen (rt_refresh (cleanupLocked now r)) < maxRows"
    using le_less_trans [OF glen_gsweep_le assms(1)] by (simp add: cleanupLocked_def)
  with assms(2) show ?thesis by (simp add: PutRefresh_def Let_def)
qed

text \<open>The exchange itself.\<close>

lemma tokenCode_live:
  assumes "clientFromRequest rq snap = Some (cl, ac_ClientID c)"
    and "gget (rt_codes (pv_rt p)) (FormValue rq ''code'') = Some c" "\<not> After (rq_clk rq 1) (ac_Expires c)"
    and "ac_RedirectURI c = FormValue rq ''redirect_uri''" "ac_RedirectURI c \<in> set (cl_RedirectURIs cl)"
    and "validVerifier (FormValue rq ''code_verifier'')" "length (ev_sha256 E (FormValue rq ''code_verifier'')) = 32"
    and "ac_Challenge c = RawURL_Encode (ev_sha256 E (FormValue rq ''code_verifier''))"
    and "sn_Canonical snap \<noteq> None"
    and allowed: "issue_allowed snap (ac_ClientID c) (ac_UserID c) (ac_Scope c) (ac_MFACompleted c) (pv_rt p)"
    and "ev_signer E (sn_SigningKey snap) \<noteq> None"
    and signs: "\<And>claims extra. ev_sign E (sn_SigningKey snap) claims extra \<noteq> None"
    and claims: "\<And>u e w. gget (sn_UsersByID snap) (ac_UserID c) = Some u \<Longrightarrow> hasScope (ac_Scope c) ''groups'' \<Longrightarrow>
      groupClaims snap u \<noteq> (Inl e, w)"
    and room: "glen (rt_refresh (pv_rt p)) < maxRows"
  shows "status (fst (tokenCode E snap rq p)) = 200"
proof -
  let ?p1 = "p\<lparr>pv_rt := snd (TakeCode (FormValue rq ''code'') (pv_rt p))\<rparr>"
  let ?w = "writeTokens E snap rq (ac_ClientID c) (ac_UserID c) (ac_Username c) (ac_Scope c)
      (ac_Nonce c) (ac_MFACompleted c) [] ?p1"
  let ?row = "refresh_row snap rq (ac_ClientID c) (ac_UserID c) (ac_Username c) (ac_Scope c) (ac_MFACompleted c)"
  have known: "gget (sn_ClientsByClientID snap) (ac_ClientID c) = Some cl"
    using assms(1) clientFromRequest_known by blast
  have "verifyPKCE E (ac_Challenge c) ''S256'' (FormValue rq ''code_verifier'')"
    using assms by (auto simp: verifyPKCE_iff validChallenge_iff)
  then have step: "tokenCode E snap rq p = ?w"
    using assms(1-5) known by (simp add: tokenCode_def TakeCode_def gget_or_def Let_def)
  have keep: "rt_forceFail (pv_rt ?p1) = rt_forceFail (pv_rt p)" "rt_refresh (pv_rt ?p1) = rt_refresh (pv_rt p)"
    "rt_minimumGeneration (pv_rt ?p1) = rt_minimumGeneration (pv_rt p)"
    by (simp_all add: TakeCode_def Let_def)
  have allowed1: "issue_allowed snap (ac_ClientID c) (ac_UserID c) (ac_Scope c) (ac_MFACompleted c) (pv_rt ?p1)"
    using allowed keep by (simp add: issue_allowed_def GenerationUsable_def)
  have stored: "fst (PutRefresh (rq_clk rq 5) ?row (pv_rt ?p1))"
    using allowed1 room keep
    by (intro PutRefresh_below_capacity)
      (auto simp: issue_allowed_def GenerationUsable_def stale_generation_def refresh_row_def)
  obtain extra acc w where uc: "user_claims snap (ac_UserID c) (ac_Scope c) (name_claim (ac_Username c))
      (access_claims snap (ac_Scope c)) = (Inr (extra, acc), w)"
    using user_claims_ok [OF claims] by blast
  have minted: "\<exists>t. mint E (sn_SigningKey snap) now iss sub aud nonce ttl extra = Some t" for now iss sub aud nonce ttl extra
    using signs by (auto simp: mint_def)
  obtain idTok access where tok:
    "mint E (sn_SigningKey snap) (rq_clk rq 2) (sn_Issuer snap) (ac_UserID c) (ac_ClientID c) (ac_Nonce c) Hour
       (applyClothesClaims snap (ac_UserID c) (mfa_claims (ac_MFACompleted c) extra)) = Some idTok"
    "mint E (sn_SigningKey snap) (rq_clk rq 3) (sn_Issuer snap) (ac_UserID c) (ac_ClientID c) [] Hour
       (mfa_claims (ac_MFACompleted c) acc) = Some access"
    using minted by blast
  have "status (fst ?w) = status (fst (issueTokens E snap rq (ac_ClientID c) (ac_UserID c) (ac_Username c)
      (ac_Scope c) (ac_Nonce c) (ac_MFACompleted c) [] ?p1))"
    using allowed1 assms(9) by (auto simp: writeTokens_unfold)
  also have "\<dots> = 200"
    using assms(11) stored uc tok by (auto simp: issueTokens_def case_prod_unfold Let_def)
  finally show ?thesis using step by simp
qed

text \<open>
  C25. An honest exchange succeeds: when the endpoint is enabled, not paused and not told to fail, the
  limiter still admits the address of the client and the form can be read, the client authenticates and presents a
  stored, unexpired code with its redirect URI and a verifier that hashes to the challenge, the grant is still
  allowed, the signing library signs, the group claims can be built and the refresh table is below
  its capacity, then the token endpoint answers 200.
\<close>

theorem code_grant_live:
  assumes "snapOIDC s = Inr snap" "fst (allow (rq_clk rq 0) (clientIP rq) (pv_limit p))" "\<not> rt_paused (pv_rt p)"
    and "rq_FormOK rq" "rt_inject (pv_rt p) = []" "FormValue rq ''grant_type'' = ''authorization_code''"
    and "clientFromRequest rq snap = Some (cl, ac_ClientID c)"
    and "gget (rt_codes (pv_rt p)) (FormValue rq ''code'') = Some c" "\<not> After (rq_clk rq 1) (ac_Expires c)"
    and "ac_RedirectURI c = FormValue rq ''redirect_uri''" "ac_RedirectURI c \<in> set (cl_RedirectURIs cl)"
    and "validVerifier (FormValue rq ''code_verifier'')" "length (ev_sha256 E (FormValue rq ''code_verifier'')) = 32"
    and "ac_Challenge c = RawURL_Encode (ev_sha256 E (FormValue rq ''code_verifier''))"
    and "sn_Canonical snap \<noteq> None"
    and "issue_allowed snap (ac_ClientID c) (ac_UserID c) (ac_Scope c) (ac_MFACompleted c) (pv_rt p)"
    and "ev_signer E (sn_SigningKey snap) \<noteq> None"
    and "\<And>claims extra. ev_sign E (sn_SigningKey snap) claims extra \<noteq> None"
    and "\<And>u e w. gget (sn_UsersByID snap) (ac_UserID c) = Some u \<Longrightarrow> hasScope (ac_Scope c) ''groups'' \<Longrightarrow>
      groupClaims snap u \<noteq> (Inl e, w)"
    and "glen (rt_refresh (pv_rt p)) < maxRows"
  shows "status (fst (token E s rq p)) = 200"
proof -
  let ?p = "p\<lparr>pv_limit := snd (allow (rq_clk rq 0) (clientIP rq) (pv_limit p))\<rparr>"
  have "(pv_rt p)\<lparr>rt_inject := []\<rparr> = pv_rt p" using assms(5) by (cases "pv_rt p") simp
  then have same: "?p\<lparr>pv_rt := (pv_rt p)\<lparr>rt_inject := []\<rparr>\<rparr> = ?p" by (cases p) simp
  have "token E s rq p = tokenCode E snap rq (?p\<lparr>pv_rt := (pv_rt p)\<lparr>rt_inject := []\<rparr>\<rparr>)"
    using assms(1-6) by (simp add: token_def TakeInject_def case_prod_unfold Let_def)
  then have "token E s rq p = tokenCode E snap rq ?p" unfolding same .
  moreover have "status (fst (tokenCode E snap rq ?p)) = 200"
    by (intro tokenCode_live [where c = c and cl = cl]) (use assms(7-20) in simp_all)
  ultimately show ?thesis by simp
qed

theorem code_grant_live_witness:
  "status (fst (token sample_env (Some sample_snap) sample_exchange sample_with_code)) = 200"
proof (rule code_grant_live [where snap = sample_snap and c = sample_grant and cl = sample_client])
  show "snapOIDC (Some sample_snap) = Inr sample_snap" by code_simp
  show "fst (allow (rq_clk sample_exchange 0) (clientIP sample_exchange) (pv_limit sample_with_code))"
    "\<not> rt_paused (pv_rt sample_with_code)" "rq_FormOK sample_exchange" "rt_inject (pv_rt sample_with_code) = []"
    "FormValue sample_exchange ''grant_type'' = ''authorization_code''"
    by code_simp+
  show "clientFromRequest sample_exchange sample_snap = Some (sample_client, ac_ClientID sample_grant)"
    "gget (rt_codes (pv_rt sample_with_code)) (FormValue sample_exchange ''code'') = Some sample_grant"
    "\<not> After (rq_clk sample_exchange 1) (ac_Expires sample_grant)"
    "ac_RedirectURI sample_grant = FormValue sample_exchange ''redirect_uri''"
    "ac_RedirectURI sample_grant \<in> set (cl_RedirectURIs sample_client)"
    "validVerifier (FormValue sample_exchange ''code_verifier'')"
    "length (ev_sha256 sample_env (FormValue sample_exchange ''code_verifier'')) = 32"
    "ac_Challenge sample_grant = RawURL_Encode (ev_sha256 sample_env (FormValue sample_exchange ''code_verifier''))"
    "ev_signer sample_env (sn_SigningKey sample_snap) \<noteq> None"
    "glen (rt_refresh (pv_rt sample_with_code)) < maxRows"
    by code_simp+
  show "sn_Canonical sample_snap \<noteq> None" by (simp add: sample_snap_def)
  show "ev_sign sample_env (sn_SigningKey sample_snap) claims extra \<noteq> None" for claims extra
    by (simp add: sample_env_def)
  have g: "gget (sn_ClientsByClientID sample_snap) (ac_ClientID sample_grant) = Some sample_client"
    "UserUsable (Some sample_snap) (ac_UserID sample_grant)" "scopesAllowed sample_client (ac_Scope sample_grant)"
    "SessionUsable (zero_session\<lparr>ss_MFACompleted := ac_MFACompleted sample_grant\<rparr>) (mfa_mode sample_snap)"
    "\<not> rt_forceFail (pv_rt sample_with_code)" "mfa_mode sample_snap \<noteq> ''force-fail''"
    "GenerationUsable (sn_Generation sample_snap) (pv_rt sample_with_code)" "\<not> hasScope (ac_Scope sample_grant) ''groups''"
    by code_simp+
  then show "issue_allowed sample_snap (ac_ClientID sample_grant) (ac_UserID sample_grant) (ac_Scope sample_grant)
      (ac_MFACompleted sample_grant) (pv_rt sample_with_code)"
    by (simp add: issue_allowed_def grant_allowed_def)
  show "groupClaims sample_snap u \<noteq> (Inl e, w)" if "hasScope (ac_Scope sample_grant) ''groups''" for u e w
    using that g(8) by simp
qed

end
