(* ===== verification/Login_Props.thy ===== *)
theory Login_Props
  imports Token_Props
begin

text \<open>
  Completing a login, protected resources and logout: a completed login turns one pending request
  into one code, an access token is honoured only while its user, generation and client are, and
  a session ends only at the request of the browser that owns it.
\<close>

section \<open>Completing a login\<close>

lemma livePending_found:
  "GetPending now k r = (Some pend, r') \<Longrightarrow> r' = r \<and> gget (rt_pending r) k = Some pend"
  by (auto simp: GetPending_def livePendingLocked_def split: option.splits if_splits)

lemma TakePending_gone: "TakePending now k r = (v, r') \<Longrightarrow> gget (rt_pending r') k = None \<or> v = None \<and> r' = r"
  by (auto simp: TakePending_def livePendingLocked_def Let_def split: option.splits if_splits)

lemma TakePending_fields [simp]:
  "rt_codes (snd (TakePending now k r)) = rt_codes r"
  "rt_minimumGeneration (snd (TakePending now k r)) = rt_minimumGeneration r"
  by (auto simp: TakePending_def livePendingLocked_def Let_def split: option.splits)

lemma PutCode_pending_None:
  "gget (rt_pending r) k = None \<Longrightarrow> gget (rt_pending (snd (PutCode now c r))) k = None"
  by (auto simp: PutCode_def cleanupLocked_def gget_gsweep_None Let_def)

lemma completed_code_gen [simp]:
  "ac_Generation (completed_code snap rq pend uid un mfa) = sn_Generation snap"
  "ac_Code (completed_code snap rq pend uid un mfa) = rq_rnd rq 10"
  by (simp_all add: completed_code_def)

text \<open>
  A completed login turns exactly one live pending request into one code: the request was
  stored, is an OpenID request that the snapshot still allows, is gone afterwards, and the stored
  code carries its client, redirect URI, scope, nonce and challenge together with the user that
  signed in; the user is enabled, the second factor satisfies the mode and nothing forces a
  failure. The browser is sent to the redirect URI of the pending request.
\<close>

theorem complete_login_sound:
  assumes "CompleteLoginSnapshot E s rq pid uid un mfa p = (Inr loc, p')"
  shows "\<exists>snap pend. s = Some snap \<and> gget (rt_pending (pv_rt p)) pid = Some pend \<and> oidc_pending_ok s pend
    \<and> UserUsable s uid \<and> SessionUsable (zero_session\<lparr>ss_MFACompleted := mfa\<rparr>) (mfa_mode snap)
    \<and> \<not> rt_forceFail (pv_rt p) \<and> GenerationUsable (sn_Generation snap) (pv_rt p)
    \<and> gget (rt_pending (pv_rt p')) pid = None
    \<and> gget (rt_codes (pv_rt p')) (rq_rnd rq 10) = Some (completed_code snap rq pend uid un mfa)
    \<and> codeLocation E (pd_RedirectURI pend) (rq_rnd rq 10) (pd_State pend) = Some loc"
proof -
  obtain snap where s: "s = Some snap" and g: "UserUsable s uid"
    "SessionUsable (zero_session\<lparr>ss_MFACompleted := mfa\<rparr>) (mfa_mode snap)"
    "\<not> rt_forceFail (pv_rt p)" "GenerationUsable (sn_Generation snap) (pv_rt p)"
    using assms by (auto simp: CompleteLoginSnapshot_def split: if_splits option.splits)
  obtain pend r1 where f: "GetPending (rq_clk rq 10) pid (pv_rt p) = (Some pend, r1)" "oidc_pending_ok s pend"
    using assms s g by (auto simp: CompleteLoginSnapshot_def case_prod_unfold Let_def prod_eq_iff split: if_splits option.splits)
  note found = livePending_found [OF f(1)]
  obtain taken r2 where t: "TakePending (rq_clk rq 11) pid (pv_rt p) = (Some taken, r2)"
    using assms s g f found
    by (auto simp: CompleteLoginSnapshot_def case_prod_unfold Let_def prod_eq_iff split: if_splits option.splits)
  let ?c = "completed_code snap rq pend uid un mfa"
  have put: "fst (PutCode (rq_clk rq 13) ?c r2)" "p' = p\<lparr>pv_rt := snd (PutCode (rq_clk rq 13) ?c r2)\<rparr>"
    "codeLocation E (pd_RedirectURI pend) (rq_rnd rq 10) (pd_State pend) = Some loc"
    using assms s g f found t
    by (auto simp: CompleteLoginSnapshot_def case_prod_unfold Let_def split: if_splits option.splits)
  have "gget (rt_codes (snd (PutCode (rq_clk rq 13) ?c r2))) (rq_rnd rq 10) = Some ?c"
    using codes.stores [of "rq_clk rq 13" ?c r2 "snd (PutCode (rq_clk rq 13) ?c r2)"] put(1)
    by (simp add: prod_eq_iff)
  moreover have "gget (rt_pending (snd (PutCode (rq_clk rq 13) ?c r2))) pid = None"
    using TakePending_gone [OF t] by (auto intro: PutCode_pending_None)
  ultimately show ?thesis using s g f found put by auto
qed

definition sample_pending :: pending where
  "sample_pending = (oidc_pending sample_snap sample_authorize)\<lparr>pd_ID := ''q1'', pd_Created := 900\<rparr>"

definition sample_waiting :: provider where
  "sample_waiting = New\<lparr>pv_rt := NewRuntime\<lparr>rt_pending := gput ''q1'' sample_pending gempty\<rparr>\<rparr>"

theorem complete_login_sound_witness:
  "gget (rt_pending (pv_rt (snd (CompleteLoginSnapshot sample_env (Some sample_snap) sample_authorize
     ''q1'' ''u1'' ''ann'' False sample_waiting)))) ''q1'' = None"
proof -
  let ?run = "CompleteLoginSnapshot sample_env (Some sample_snap) sample_authorize ''q1'' ''u1'' ''ann'' False sample_waiting"
  have "fst ?run = Inr ''https://app.lab/cb&code=rnd&state=xyz''" by code_simp
  then have "?run = (Inr ''https://app.lab/cb&code=rnd&state=xyz'', snd ?run)" by (metis prod.collapse)
  from complete_login_sound [OF this] show ?thesis by blast
qed

text \<open>
  A denied consent never produces a code: it consumes the pending request when it is one this
  provider may deny, sends the browser to the redirect URI of that request with
  \<^verbatim>\<open>access_denied\<close>, and leaves the codes, refresh handles and sessions as they were.
\<close>

theorem deny_consent_issues_nothing:
  assumes "DenyConsentSnapshot E s rq pid p = (res, p')"
  shows "rt_codes (pv_rt p') = rt_codes (pv_rt p) \<and> rt_refresh (pv_rt p') = rt_refresh (pv_rt p)
    \<and> rt_sessions (pv_rt p') = rt_sessions (pv_rt p)
    \<and> (\<forall>loc. res = Inr loc \<longrightarrow> gget (rt_pending (pv_rt p')) pid = None
         \<and> (\<exists>pend. gget (rt_pending (pv_rt p)) pid = Some pend \<and> oidc_pending_ok s pend
              \<and> oauthErrorLocation E (pd_RedirectURI pend) (pd_State pend) ''access_denied'' ''user denied'' = Inr loc))"
  using assms
  by (auto simp: DenyConsentSnapshot_def GetPending_def TakePending_def livePendingLocked_def
      case_prod_unfold Let_def split: option.splits if_splits)

theorem deny_consent_issues_nothing_witness:
  "gget (rt_pending (pv_rt (snd (DenyConsentSnapshot sample_env (Some sample_snap) sample_authorize ''q1'' sample_waiting)))) ''q1'' = None"
proof -
  let ?run = "DenyConsentSnapshot sample_env (Some sample_snap) sample_authorize ''q1'' sample_waiting"
  have "fst ?run = Inr ''https://app.lab/cb&error=access_denied&error_description=user+denied&state=xyz''" by code_simp
  moreover have "?run = (fst ?run, snd ?run)" by simp
  note deny_consent_issues_nothing [OF this]
  ultimately show ?thesis by blast
qed

section \<open>Access tokens\<close>

text \<open>
  Protected resources: user info is returned only for a token that this provider's key opens,
  that is valid for its issuer at that instant, is an access token, and whose subject is an enabled
  user, whose generation is at least 1 and not invalidated, and one of whose audiences is a known
  client that may have the token's scope; forced failures refuse it. The claims are those of the
  subject.
\<close>

theorem userinfo_guarded:
  assumes "status (userinfo E s rq p) = 200"
  shows "\<exists>snap c extra n aud cl. s = Some snap \<and> ev_open E (sn_SigningKey snap) (bearer rq) = Some (c, extra)
    \<and> ev_validate E c (sn_Issuer snap) (rq_clk rq 0)
    \<and> gget extra ''token_use'' = Some (JStr ''access'')
    \<and> UserUsable s (jc_Subject c) \<and> \<not> rt_forceFail (pv_rt p) \<and> mfa_mode snap \<noteq> ''force-fail''
    \<and> gget extra ''generation'' = Some (JNum n) \<and> 1 \<le> n \<and> rt_minimumGeneration (pv_rt p) \<le> n
    \<and> aud \<in> set (jc_Audience c) \<and> gget (sn_ClientsByClientID snap) aud = Some cl
    \<and> scopesAllowed cl (as_string (gget extra ''scope''))
    \<and> (\<exists>kvs. userinfo E s rq p = JsonResp 200 kvs)"
proof -
  obtain snap c extra where s: "s = Some snap"
    and v: "parseAndVerifyExtra E (sn_SigningKey snap) (bearer rq) (sn_Issuer snap) True (rq_clk rq 0) = Some (c, extra)"
    and u: "accessUsable snap (jc_Subject c) (jc_Audience c) extra p"
    and j: "\<exists>kvs. userinfo E s rq p = JsonResp 200 kvs"
    using assms
    by (auto simp: userinfo_def snapOIDC_def Let_def split: sum.splits option.splits if_splits)
  have o: "ev_open E (sn_SigningKey snap) (bearer rq) = Some (c, extra)"
    "ev_validate E c (sn_Issuer snap) (rq_clk rq 0)" "as_string (gget extra ''token_use'') = ''access''"
    using v by (auto simp: parseAndVerifyExtra_def split: option.splits if_splits)
  have use: "gget extra ''token_use'' = Some (JStr ''access'')"
    using o(3) by (cases "gget extra ''token_use''" rule: as_string.cases) auto
  from u obtain n where n: "gget extra ''generation'' = Some (JNum n)" "1 \<le> n" "rt_minimumGeneration (pv_rt p) \<le> n"
    and g: "UserUsable s (jc_Subject c)" "\<not> rt_forceFail (pv_rt p)" "mfa_mode snap \<noteq> ''force-fail''"
    and a: "\<exists>aud \<in> set (jc_Audience c). \<exists>cl. gget (sn_ClientsByClientID snap) aud = Some cl
        \<and> scopesAllowed cl (as_string (gget extra ''scope''))"
    by (auto simp: accessUsable_def GenerationUsable_def list_ex_iff s Let_def
        split: if_splits option.splits json.splits)
  with s o use j show ?thesis by blast
qed

definition sample_bearer :: request where
  "sample_bearer = (sample_request ''GET'' [] [])\<lparr>rq_Authorization := ''Bearer jwt''\<rparr>"

theorem userinfo_guarded_witness:
  "\<exists>c extra n. ev_open sample_env (sn_SigningKey sample_snap) (bearer sample_bearer) = Some (c, extra)
    \<and> gget extra ''generation'' = Some (JNum n) \<and> 1 \<le> n \<and> UserUsable (Some sample_snap) (jc_Subject c)"
proof -
  have "status (userinfo sample_env (Some sample_snap) sample_bearer New) = 200" by code_simp
  from userinfo_guarded [OF this] obtain snap c extra n where "Some sample_snap = Some snap"
    "ev_open sample_env (sn_SigningKey snap) (bearer sample_bearer) = Some (c, extra)"
    "gget extra ''generation'' = Some (JNum n)" "1 \<le> n" "UserUsable (Some sample_snap) (jc_Subject c)"
    by (elim exE conjE)
  then show ?thesis by auto
qed

section \<open>Logout\<close>

text \<open>The parameters that logout reads: the body for POST, body and query otherwise.\<close>

definition logout_params :: "request \<Rightarrow> (string \<times> string) list" where
  "logout_params rq = (if rq_Method rq = ''POST'' then rq_PostForm rq else rq_PostForm rq @ rq_Query rq)"

definition logout_state :: "request \<Rightarrow> string option" where
  "logout_state rq = (if rq_Method rq = ''POST'' then RawURL_Decode (values_Get (logout_params rq) ''logout_state'')
     else Some (values_Get (logout_params rq) ''state''))"

text \<open>A confirmed logout of the session \<open>s0\<close>: a same-origin POST with its CSRF value, or a GET with a matching hint.\<close>

definition logout_confirmed :: "env \<Rightarrow> snapshot \<Rightarrow> request \<Rightarrow> loginsession \<Rightarrow> bool" where
  "logout_confirmed E snap rq s0 \<longleftrightarrow>
     (rq_Method rq = ''POST'' \<and> rq_SameOrigin rq \<and> (\<exists>st. logout_state rq = Some st
        \<and> values_Get (logout_params rq) ''csrf''
          = logoutCSRF E (ss_ID s0) (rq_Path rq) (values_Get (logout_params rq) ''post_logout_redirect_uri'') st))
     \<or> (rq_Method rq = ''GET''
        \<and> logoutHintMatches E snap (values_Get (logout_params rq) ''id_token_hint'') (ss_UserID s0) (rq_clk rq 1))"

lemma ExpireSession_other: "k \<noteq> sid \<Longrightarrow> gget (rt_sessions (snd (ExpireSession sid r))) k = gget (rt_sessions r) k"
  by (simp add: ExpireSession_def purgeUserLocked_def split: option.splits)

lemma logout_unfold:
  "logout E s rq p = (case snapOIDC s of
     Inl e \<Rightarrow> (e, p)
   | Inr snap \<Rightarrow>
     let post = values_Get (logout_params rq) ''post_logout_redirect_uri'' in
     if rq_Method rq = ''POST'' \<and> \<not> rq_SameOrigin rq then (HttpError 403 ''forbidden'', p)
     else if \<not> rq_FormOK rq then (HttpError 400 ''invalid_request'', p)
     else case logout_state rq of
       None \<Rightarrow> (HttpError 400 ''invalid_request'', p)
     | Some st \<Rightarrow>
       if length st > 4096 then (HttpError 400 ''invalid_request'', p)
       else if post \<noteq> [] \<and> \<not> logoutRedirectOK snap post then (HttpError 400 ''invalid_request'', p)
       else if post \<noteq> [] \<and> logoutLocation E post st = None then (HttpError 400 ''invalid_request'', p)
       else logout_finish E snap rq post st (if post = [] then None else logoutLocation E post st)
              (values_Get (logout_params rq) ''csrf'') (values_Get (logout_params rq) ''id_token_hint'') p)"
  by (simp only: logout_def logout_params_def logout_state_def Let_def)

lemma logout_reaches_finish:
  assumes "gget (rt_sessions (pv_rt (snd (logout E s rq p)))) k \<noteq> gget (rt_sessions (pv_rt p)) k"
  shows "\<exists>snap st red. s = Some snap \<and> logout_state rq = Some st \<and> (rq_Method rq = ''POST'' \<longrightarrow> rq_SameOrigin rq)
    \<and> snd (logout E s rq p) = snd (logout_finish E snap rq (values_Get (logout_params rq) ''post_logout_redirect_uri'') st red
        (values_Get (logout_params rq) ''csrf'') (values_Get (logout_params rq) ''id_token_hint'') p)"
proof -
  obtain snap where o: "snapOIDC s = Inr snap" using assms by (cases "snapOIDC s") (simp_all add: logout_unfold)
  obtain st where st: "logout_state rq = Some st"
    using assms o by (cases "logout_state rq") (simp_all add: logout_unfold Let_def split: if_splits)
  let ?post = "values_Get (logout_params rq) ''post_logout_redirect_uri''"
  let ?fin = "logout_finish E snap rq ?post st (if ?post = [] then None else logoutLocation E ?post st)
      (values_Get (logout_params rq) ''csrf'') (values_Get (logout_params rq) ''id_token_hint'') p"
  have same: "rq_Method rq = ''POST'' \<longrightarrow> rq_SameOrigin rq"
    using assms o by (cases "rq_SameOrigin rq") (auto simp: logout_unfold Let_def)
  have "logout E s rq p = (HttpError 400 ''invalid_request'', p) \<or> logout E s rq p = ?fin"
    using same unfolding logout_unfold o st by (cases "rq_SameOrigin rq") (simp_all add: Let_def)
  then have "snd (logout E s rq p) = snd ?fin" using assms by auto
  with snapOIDC_Inr [OF o] st same show ?thesis by blast
qed

lemma GetSession_cases:
  "GetSession now sid r = (f, r') \<Longrightarrow> (f = gget (rt_sessions r) sid \<and> r' = r)
     \<or> (f = None \<and> rt_sessions r' = gdel sid (rt_sessions r) \<and> (\<exists>s. gget (rt_sessions r) sid = Some s \<and> session_expired now s))"
  by (auto simp: GetSession_def split: option.splits if_splits)

lemma logout_finish_ends:
  assumes inv: "rt_inv (pv_rt p)" and k: "gget (rt_sessions (pv_rt p)) k = Some s0"
    and gone: "gget (rt_sessions (pv_rt (snd (logout_finish E snap rq post st red csrf hint p)))) k \<noteq> Some s0"
  shows "Cookie rq (CookieName (Some snap)) = Some k \<and> (session_expired (rq_clk rq 0) s0
     \<or> (rq_Method rq = ''POST'' \<and> csrf = logoutCSRF E (ss_ID s0) (rq_Path rq) post st)
     \<or> (rq_Method rq = ''GET'' \<and> logoutHintMatches E snap hint (ss_UserID s0) (rq_clk rq 1)))"
proof -
  have own: "ss_ID v = j" if "gget (rt_sessions (pv_rt p)) j = Some v" for j v
    using inv that tab_inv_found [of _ ss_ID ss_Generation "rt_sessions (pv_rt p)" j v] by (auto simp: rt_inv_def Let_def)
  have ne: "gget (rt_sessions (pv_rt p)) [] = None" using inv by (simp add: rt_inv_def Let_def)
  then have k0: "k \<noteq> []" using k by auto
  have empty: "snd (ExpireSession [] (pv_rt p)) = pv_rt p" using ne by (simp add: ExpireSession_def)
  obtain v where v: "Cookie rq (CookieName (Some snap)) = Some v" "v \<noteq> []"
    using gone k empty
    by (cases "Cookie rq (CookieName (Some snap))")
      (auto simp: logout_finish_def zero_session_def Let_def split: if_splits)
  obtain f r' where g: "GetSession (rq_clk rq 0) v (pv_rt p) = (f, r')" by fastforce
  from GetSession_cases [OF g] show ?thesis
  proof (elim disjE conjE exE)
    assume f: "f = gget (rt_sessions (pv_rt p)) v" and r': "r' = pv_rt p"
    show ?thesis
    proof (cases f)
      case None
      then show ?thesis
        using gone k v g r' empty by (auto simp: logout_finish_def zero_session_def Let_def split: if_splits)
    next
      case (Some x)
      then have x: "ss_ID x = v" "gget (rt_sessions (pv_rt p)) v = Some x" using own f by auto
      have "k = v"
        using gone k v g r' Some x ExpireSession_other [of k v "pv_rt p"]
        by (auto simp: logout_finish_def Let_def split: if_splits)
      then show ?thesis
        using gone k v g r' Some x by (auto simp: logout_finish_def Let_def split: if_splits)
    qed
  next
    fix x
    assume f: "f = None" and r': "rt_sessions r' = gdel v (rt_sessions (pv_rt p))"
      and x: "gget (rt_sessions (pv_rt p)) v = Some x" "session_expired (rq_clk rq 0) x"
    have "rt_sessions (snd (ExpireSession [] r')) = rt_sessions r'"
      using ne r' by (simp add: ExpireSession_def)
    then have "rt_sessions (pv_rt (snd (logout_finish E snap rq post st red csrf hint p))) = gdel v (rt_sessions (pv_rt p))"
      using v g f r' by (auto simp: logout_finish_def zero_session_def Let_def)
    with gone k x v show ?thesis by (cases "k = v") auto
  qed
qed

text \<open>
  C26. No session is ended across origins: the logout endpoint removes a session from a reachable
  runtime only when the browser presents its cookie, and then because the session had expired, or
  the request is a same-origin POST with the CSRF value derived from that session, path, target
  and state, or a GET with an ID token of this provider for the user of the session.
\<close>

theorem logout_only_by_owner:
  assumes "rt_reach hmac (pv_rt p)" "gget (rt_sessions (pv_rt p)) k = Some s0"
    and "gget (rt_sessions (pv_rt (snd (logout E s rq p)))) k \<noteq> Some s0"
  shows "\<exists>snap. s = Some snap \<and> Cookie rq (CookieName s) = Some k
    \<and> (session_expired (rq_clk rq 0) s0 \<or> logout_confirmed E snap rq s0)"
proof -
  from logout_reaches_finish [of E s rq p k] assms(2,3) obtain snap st red
    where f: "s = Some snap" "logout_state rq = Some st" "rq_Method rq = ''POST'' \<longrightarrow> rq_SameOrigin rq"
      "snd (logout E s rq p) = snd (logout_finish E snap rq (values_Get (logout_params rq) ''post_logout_redirect_uri'') st red
        (values_Get (logout_params rq) ''csrf'') (values_Get (logout_params rq) ''id_token_hint'') p)"
    by auto
  have "Cookie rq (CookieName (Some snap)) = Some k \<and> (session_expired (rq_clk rq 0) s0
     \<or> (rq_Method rq = ''POST'' \<and> values_Get (logout_params rq) ''csrf'' = logoutCSRF E (ss_ID s0) (rq_Path rq)
           (values_Get (logout_params rq) ''post_logout_redirect_uri'') st)
     \<or> (rq_Method rq = ''GET'' \<and> logoutHintMatches E snap (values_Get (logout_params rq) ''id_token_hint'')
           (ss_UserID s0) (rq_clk rq 1)))"
    by (rule logout_finish_ends [OF rt_reach_inv [OF assms(1)] assms(2)]) (use assms(3) f(4) in simp)
  with f(1-3) show ?thesis unfolding logout_confirmed_def by blast
qed

definition sample_bye :: request where
  "sample_bye = (sample_request ''GET'' [(''id_token_hint'', ''hint'')] [])\<lparr>rq_Cookies := [(''labsso_login'', ''s1'')]\<rparr>"

definition hint_env :: env where
  "hint_env = sample_env\<lparr>ev_open := (\<lambda>_ t. Some (sample_claims, gempty))\<rparr>"

theorem logout_only_by_owner_witness:
  "\<exists>snap. Some sample_snap = Some snap \<and> Cookie sample_bye (CookieName (Some sample_snap)) = Some ''s1''
    \<and> (session_expired (rq_clk sample_bye 0) sample_session \<or> logout_confirmed hint_env snap sample_bye sample_session)"
proof -
  let ?x = "OpPutSession 0 (replicate 32 (CHR ''0'')) sample_session"
  have r: "snd (rt_exec (\<lambda>_ _. []) ?x NewRuntime) = pv_rt sample_provider" by code_simp
  have "rt_reach (\<lambda>_ _. []) (pv_rt sample_provider)"
    using rt_reach.rt_step [OF rt_reach.rt_init, of ?x "\<lambda>_ _. []"] r
    by (metis length_replicate prod.collapse random_ok.simps(2))
  moreover have "gget (rt_sessions (pv_rt sample_provider)) ''s1'' = Some sample_session"
    "gget (rt_sessions (pv_rt (snd (logout hint_env (Some sample_snap) sample_bye sample_provider)))) ''s1'' \<noteq> Some sample_session"
    by code_simp+
  ultimately show ?thesis by (rule logout_only_by_owner)
qed

end
