(* ===== verification/Limiter_Props.thy ===== *)
theory Limiter_Props
  imports Limiter
begin

text \<open>
  The rate limiter over an arbitrary sequence of requests with a clock that does not go back:
  \<open>limited n w l G t\<close> holds when \<open>l\<close> is reached from \<open>newLimiter n w\<close>, \<open>G key\<close> are the instants at
  which requests of \<open>key\<close> were allowed and \<open>t\<close> is the last clock reading.
\<close>

inductive limited :: "int \<Rightarrow> go_duration \<Rightarrow> limiter \<Rightarrow> (string \<Rightarrow> go_time list) \<Rightarrow> go_time \<Rightarrow> bool"
  for n w where
  lim_new: "limited n w (newLimiter n w) (\<lambda>_. []) t"
| lim_allow: "limited n w l G t \<Longrightarrow> t \<le> now \<Longrightarrow> allow now key l = (ok, l') \<Longrightarrow>
    limited n w l' (if ok then G(key := G key @ [now]) else G) now"

inductive_cases lim_allowE: "limited n w l G t"

text \<open>The instants after a cutoff, and those inside the window that ends at \<open>u\<close>.\<close>

definition since :: "go_time \<Rightarrow> go_time list \<Rightarrow> go_time list" where
  "since c ts = filter (\<lambda>x. c < x) ts"

definition in_window :: "go_duration \<Rightarrow> go_time \<Rightarrow> go_time list \<Rightarrow> go_time list" where
  "in_window w u ts = filter (\<lambda>x. u - w < x \<and> x \<le> u) ts"

lemma since_append [simp]: "since c (xs @ ys) = since c xs @ since c ys"
  by (simp add: since_def)

lemma since_since: "b \<le> c \<Longrightarrow> since c (since b xs) = since c xs"
  by (auto simp: since_def filter_filter intro!: filter_cong)

lemma since_set: "set (since c xs) \<subseteq> set xs"
  by (auto simp: since_def)

lemma sorted_since: "sorted xs \<Longrightarrow> sorted (since c xs)"
  by (simp add: since_def sorted_wrt_filter)

lemma since_stale:
  assumes "sorted xs" "stale b xs" "b \<le> c"
  shows "since c xs = []"
proof (cases xs rule: rev_cases)
  case (snoc ys y)
  with assms have "y \<le> c" "\<forall>x \<in> set ys. x \<le> y" by (auto simp: stale_def After_def sorted_append)
  with snoc show ?thesis by (force simp: since_def filter_empty_conv)
qed (simp add: since_def)

lemma gget_or_cases: "(gget m k = None \<and> gget_or z m k = z) \<or> gget m k = Some (gget_or z m k)"
  by (simp add: gget_or_def split: option.split)

text \<open>The invariant of a reachable limiter.\<close>

definition lim_inv :: "int \<Rightarrow> go_duration \<Rightarrow> limiter \<Rightarrow> (string \<Rightarrow> go_time list) \<Rightarrow> go_time \<Rightarrow> bool" where
  "lim_inv n w l G t \<longleftrightarrow> lm_n l = n \<and> lm_window l = w \<and> glen (lm_hits l) \<le> maxKeys
     \<and> (\<forall>k. \<forall>x \<in> set (G k). x \<le> t)
     \<and> (\<forall>k v. gget (lm_hits l) k = Some v \<longrightarrow> sorted v \<and> (\<forall>x \<in> set v. x \<le> t))
     \<and> (\<forall>k c. t - w \<le> c \<longrightarrow> since c (G k) = since c (gget_or [] (lm_hits l) k))
     \<and> (\<forall>k u. length (in_window w u (G k)) \<le> nat n)"

lemma lim_inv_new: "lim_inv n w (newLimiter n w) (\<lambda>_. []) t"
  by (simp add: lim_inv_def newLimiter_def in_window_def gget_or_def)

text \<open>The rows that survive the sweep of a request, and the row of its key.\<close>

lemma swept_since:
  assumes "lim_inv n w l G t" "t \<le> now" "now - w \<le> c"
  shows "since c (gget_or [] (gsweep (stale (now - w)) (lm_hits l)) k) = since c (G k)"
proof -
  have eq: "since c (G k) = since c (gget_or [] (lm_hits l) k)"
    using assms by (auto simp: lim_inv_def)
  show ?thesis
  proof (cases "gget (lm_hits l) k")
    case None
    then show ?thesis using eq by (simp add: gget_or_def gget_gsweep)
  next
    case (Some v)
    then have "sorted v" using assms(1) by (auto simp: lim_inv_def)
    with Some eq show ?thesis
      using since_stale [of v "now - w" c] assms(3)
      by (auto simp: gget_or_def gget_gsweep since_def)
  qed
qed

lemma window_new:
  assumes "\<forall>x \<in> set ts. x \<le> now" "int (length (since (now - w) ts)) < n"
    and "length (in_window w u ts) \<le> nat n"
  shows "length (in_window w u (ts @ [now])) \<le> nat n"
proof (cases "now \<le> u")
  case True
  then have "in_window w u ts = since (u - w) ts"
    using assms(1) unfolding in_window_def since_def by (intro filter_cong) auto
  also have "\<dots> = since (u - w) (since (now - w) ts)" using True by (simp add: since_since)
  finally have "length (in_window w u ts) \<le> length (since (now - w) ts)"
    unfolding since_def by (metis length_filter_le)
  with assms(2) show ?thesis by (auto simp: in_window_def)
next
  case False
  then show ?thesis using assms(3) by (simp add: in_window_def)
qed

lemma lim_inv_allow:
  assumes inv: "lim_inv n w l G t" and mono: "t \<le> now" and step: "allow now key l = (ok, l')"
  shows "lim_inv n w l' (if ok then G(key := G key @ [now]) else G) now"
proof -
  let ?hits = "gsweep (stale (now - w)) (lm_hits l)"
  let ?kept = "since (now - w) (gget_or [] ?hits key)"
  have nw: "lm_n l = n" "lm_window l = w" using inv by (auto simp: lim_inv_def)
  have kept: "?kept = since (now - w) (G key)" using swept_since [OF inv mono] by simp
  have rows: "sorted v \<and> (\<forall>x \<in> set v. x \<le> now)" if "gget ?hits k = Some v" for k v
    using inv mono that by (force simp: lim_inv_def)
  have krow: "sorted ?kept \<and> (\<forall>x \<in> set ?kept. x \<le> now)"
  proof -
    have "sorted (gget_or [] ?hits key) \<and> (\<forall>x \<in> set (gget_or [] ?hits key). x \<le> now)"
      using gget_or_cases [of ?hits key "[]"] rows [of key] by auto
    then show ?thesis using since_set by (auto simp: sorted_since)
  qed
  have Gle: "\<forall>k. \<forall>x \<in> set (G k). x \<le> now" using inv mono by (force simp: lim_inv_def)
  have small: "glen ?hits \<le> maxKeys" using inv by (auto simp: lim_inv_def intro: gm.bounded_sweep)
  have win: "\<forall>k u. length (in_window w u (G k)) \<le> nat n" using inv by (simp add: lim_inv_def)
  consider (full) "ok = False" "l' = l\<lparr>lm_hits := ?hits\<rparr>"
    | (over) "ok = False" "l' = l\<lparr>lm_hits := gput key ?kept ?hits\<rparr>" "gget ?hits key \<noteq> None \<or> glen ?hits < maxKeys"
    | (grant) "ok = True" "l' = l\<lparr>lm_hits := gput key (?kept @ [now]) ?hits\<rparr>" "int (length ?kept) < n"
        "gget ?hits key \<noteq> None \<or> glen ?hits < maxKeys"
    using step nw by (auto simp: allow_def since_def After_def Let_def split: if_splits)
  then show ?thesis
  proof cases
    case full
    then show ?thesis
      using nw rows Gle small win swept_since [OF inv mono] by (auto simp: lim_inv_def)
  next
    case over
    have "since c (G k) = since c (gget_or [] (gput key ?kept ?hits) k)" if "now - w \<le> c" for k c
      using swept_since [OF inv mono that, of k] kept since_since [OF that, of "G key"] by (auto simp: gget_or_def)
    with over show ?thesis
      using nw rows krow Gle win small gm.bounded_put [OF small over(3)]
      by (auto simp: lim_inv_def)
  next
    case grant
    let ?G = "G(key := G key @ [now])"
    have "since c (?G k) = since c (gget_or [] (gput key (?kept @ [now]) ?hits) k)" if "now - w \<le> c" for k c
      using swept_since [OF inv mono that, of k] kept since_since [OF that, of "G key"] by (auto simp: gget_or_def)
    moreover have "length (in_window w u (?G k)) \<le> nat n" for k u
      using window_new [of "G key" now w n u] Gle grant(3) kept win by auto
    moreover have "sorted (?kept @ [now])" using krow by (simp add: sorted_append)
    ultimately show ?thesis
      using grant nw rows krow Gle gm.bounded_put [OF small grant(4)]
      by (auto simp: lim_inv_def)
  qed
qed

lemma limited_inv: "limited n w l G t \<Longrightarrow> lim_inv n w l G t"
  by (induction rule: limited.induct) (rule lim_inv_new, rule lim_inv_allow)

text \<open>
  C37. The rate limit holds in every window: whatever the sequence of requests, as long as the clock
  does not go back, at most \<open>n\<close> requests of one key are allowed in any window of the configured
  length, and the table of keys never exceeds 4096 rows.
\<close>

theorem rate_limit:
  assumes "limited n w l G t"
  shows "length (in_window w u (G key)) \<le> nat n \<and> glen (lm_hits l) \<le> 4096"
  using limited_inv [OF assms] by (auto simp: lim_inv_def maxKeys_def)

theorem rate_limit_witness:
  "length (in_window 10 5 [3]) \<le> nat 1"
proof -
  have "allow 3 ''ip'' (newLimiter 1 10) = (True, (newLimiter 1 10)\<lparr>lm_hits := gput ''ip'' [3] gempty\<rparr>)"
    by (simp add: allow_def newLimiter_def gget_or_def maxKeys_def)
  from limited.lim_allow [OF limited.lim_new [of 1 10 0] _ this]
  have "limited 1 10 ((newLimiter 1 10)\<lparr>lm_hits := gput ''ip'' [3] gempty\<rparr>) ((\<lambda>_. [])(''ip'' := [3])) 3"
    by simp
  from rate_limit [OF this, of 5 "''ip''"] show ?thesis by simp
qed

text \<open>
  The limiter refuses only for a reason: a request is allowed exactly when its key is known or
  the swept table has room, and fewer than \<open>n\<close> of its recorded hits lie in the window that ends now.
\<close>

lemma rate_limit_exact:
  "fst (allow now key l) \<longleftrightarrow>
     (let hits = gsweep (stale (now - lm_window l)) (lm_hits l) in
      (gget hits key \<noteq> None \<or> glen hits < maxKeys)
      \<and> int (length (since (now - lm_window l) (gget_or [] hits key))) < lm_n l)"
  by (auto simp: allow_def since_def After_def Let_def not_le not_less)

end
