(* ===== verification/Config_Props.thy ===== *)
theory Config_Props
  imports Sample
begin

text \<open>
  The configuration side: what document validation accepts, normalisation, the routes of a
  vendor, password credentials and the comparison that decides whether a change revokes state.
\<close>

section \<open>Document validation\<close>

text \<open>A well-formed document, stated without the loops of the validator.\<close>

definition header_ok :: "netlib \<Rightarrow> document \<Rightarrow> bool" where
  "header_ok N d \<longleftrightarrow> (let s = dc_Spec d; mg = ls_Management (sp_Listeners s) in
     dc_APIVersion d = APIVersion \<and> dc_Kind d = Kind \<and> validSegment (dc_Name d)
     \<and> (pf_TenantID (sp_Profile s) = [] \<or> validSegment (pf_TenantID (sp_Profile s)))
     \<and> (hl_Address (ls_HTTPS (sp_Listeners s)) = [] \<or> ValidateListenAddress N (hl_Address (ls_HTTPS (sp_Listeners s))) False = None)
     \<and> (ml_Address mg = [] \<or> ValidateListenAddress N (ml_Address mg) True = None)
     \<and> (ml_RESTPath mg = [] \<or> ml_MCPPath mg = [] \<or> ValidateManagementPaths (ml_RESTPath mg) (ml_MCPPath mg) = None)
     \<and> 0 \<le> au_SessionTTL (sp_Auth s)
     \<and> (pf_Vendor (sp_Profile s) = [] \<or> ValidVendor (pf_Vendor (sp_Profile s)))
     \<and> (au_MFAMode (sp_Auth s) = [] \<or> ValidMFA (au_MFAMode (sp_Auth s))))"

definition user_ok :: "string set \<Rightarrow> user \<Rightarrow> bool" where
  "user_ok groups u \<longleftrightarrow> us_ID u \<noteq> [] \<and> us_Username u \<noteq> []
     \<and> (us_PasswordRef u = []) \<noteq> (us_PasswordHashRef u = []) \<and> set (us_GroupIDs u) \<subseteq> groups"

definition client_ok :: "netlib \<Rightarrow> client \<Rightarrow> bool" where
  "client_ok N c \<longleftrightarrow> cl_ID c \<noteq> [] \<and> (cl_Public c \<or> cl_SecretRef c \<noteq> [])
     \<and> (\<forall>u \<in> set (cl_RedirectURIs c). ValidateURI N u False = None)
     \<and> (\<forall>u \<in> set (cs_ACSURLs (cl_SAML c)). ValidateURI N u True = None)
     \<and> (cs_EntityID (cl_SAML c) \<noteq> [] \<and> cs_ACSURLs (cl_SAML c) = [] \<longrightarrow>
          (\<forall>u \<in> set (cl_RedirectURIs c). ValidateURI N u True = None))"

definition well_formed :: "netlib \<Rightarrow> document \<Rightarrow> bool" where
  "well_formed N d \<longleftrightarrow> (let s = dc_Spec d in header_ok N d
     \<and> distinct (map gr_ID (sp_Groups s)) \<and> [] \<notin> gr_ID ` set (sp_Groups s)
     \<and> distinct (map us_ID (sp_Users s)) \<and> distinct (map us_Username (sp_Users s))
     \<and> (\<forall>u \<in> set (sp_Users s). user_ok (gr_ID ` set (sp_Groups s)) u)
     \<and> distinct (map cl_ID (sp_Clients s)) \<and> distinct (map client_key (sp_Clients s))
     \<and> (\<forall>c \<in> set (sp_Clients s). client_ok N c))"

lemma check_groups_None:
  "check_groups i seen gs = None \<longleftrightarrow>
     distinct (map gr_ID gs) \<and> [] \<notin> gr_ID ` set gs \<and> set seen \<inter> gr_ID ` set gs = {}"
  by (induction i seen gs rule: check_groups.induct) auto

lemma check_group_refs_None: "check_group_refs i groups gids = None \<longleftrightarrow> set gids \<subseteq> set groups"
  by (induction i groups gids rule: check_group_refs.induct) auto

lemma check_group_refs_Some: "check_group_refs i groups gids = Some e \<Longrightarrow> \<not> set gids \<subseteq> set groups"
  using check_group_refs_None [of i groups gids] by simp

lemma check_users_None:
  "check_users groups i ids names us = None \<longleftrightarrow>
     distinct (map us_ID us) \<and> distinct (map us_Username us)
     \<and> set ids \<inter> us_ID ` set us = {} \<and> set names \<inter> us_Username ` set us = {}
     \<and> (\<forall>u \<in> set us. user_ok (set groups) u)"
  by (induction groups i ids names us rule: check_users.induct)
    (auto simp: user_ok_def check_group_refs_None dest: check_group_refs_Some split: option.splits)

lemma check_uris_None: "check_uris N h f args us = None \<longleftrightarrow> (\<forall>u \<in> set us. ValidateURI N u h = None)"
  by (induction N h f args us rule: check_uris.induct) (auto split: option.splits)

lemma guarded_None:
  "(if a then Some x else if b then Some y else if d then Some z else case e of Some w \<Rightarrow> Some w | None \<Rightarrow> r) = None
     \<longleftrightarrow> \<not> a \<and> \<not> b \<and> \<not> d \<and> e = None \<and> r = None"
  by (simp split: option.split)

lemma check_clients_None:
  "check_clients N i ids cids cs = None \<longleftrightarrow>
     distinct (map cl_ID cs) \<and> distinct (map client_key cs)
     \<and> set ids \<inter> cl_ID ` set cs = {} \<and> set cids \<inter> client_key ` set cs = {}
     \<and> (\<forall>c \<in> set cs. client_ok N c)"
proof (induction N i ids cids cs rule: check_clients.induct)
  case (2 N i ids cids c cs)
  define e where "e = first_err [
      check_uris N False ''client %q redirectURI: %w'' [cl_ID c] (cl_RedirectURIs c),
      (if cs_EntityID (cl_SAML c) \<noteq> [] \<and> cs_ACSURLs (cl_SAML c) = []
       then check_uris N True ''SAML fallback ACS requires HTTPS: %w'' [] (cl_RedirectURIs c) else None),
      check_uris N True ''client %q ACS URL: %w'' [cl_ID c] (cs_ACSURLs (cl_SAML c)),
      check (\<not> cl_Public c \<and> cl_SecretRef c = [])
        (Errorf ''spec.clients[%d]: confidential client requires secretRef'' [itoa_nat i])]"
  have ok: "cl_ID c \<noteq> [] \<and> e = None \<longleftrightarrow> client_ok N c"
    unfolding e_def by (auto simp: client_ok_def check_uris_None)
  have "check_clients N i ids cids (c # cs) = None \<longleftrightarrow>
      cl_ID c \<noteq> [] \<and> e = None \<and> cl_ID c \<notin> set ids \<and> client_key c \<notin> set cids
      \<and> check_clients N (Suc i) (cl_ID c # ids) (client_key c # cids) cs = None"
    unfolding check_clients.simps(2) guarded_None e_def by blast
  moreover have "cl_ID c \<noteq> [] \<Longrightarrow> cl_ID c \<notin> set ids \<Longrightarrow> client_key c \<notin> set cids \<Longrightarrow> e = None \<Longrightarrow>
      check_clients N (Suc i) (cl_ID c # ids) (client_key c # cids) cs = None \<longleftrightarrow>
        distinct (map cl_ID cs) \<and> distinct (map client_key cs)
        \<and> set (cl_ID c # ids) \<inter> cl_ID ` set cs = {} \<and> set (client_key c # cids) \<inter> client_key ` set cs = {}
        \<and> (\<forall>c \<in> set cs. client_ok N c)"
    by (rule 2 [folded e_def]; assumption)
  ultimately show ?case using ok by (auto simp del: check_clients.simps) blast+
qed simp

lemma ValidateIDs_iff: "ValidateIDs N d = None \<longleftrightarrow> well_formed N d"
  by (auto simp: ValidateIDs_def well_formed_def header_ok_def check_groups_None check_users_None
      check_clients_None not_less Let_def)

text \<open>
  Document validation accepts exactly the well-formed documents: header, listener addresses and
  management paths valid, identifiers present and unique (groups, users, user names, clients and
  effective client ids), group references resolved, exactly one password reference per user,
  redirect and ACS URIs valid, confidential clients with a secret, vendor and MFA mode known.
\<close>

theorem validate_ids_exact: "ValidateIDs N d = None \<longleftrightarrow> well_formed N d"
  by (rule ValidateIDs_iff)

section \<open>Normalisation and vendors\<close>

lemma default_str_idem [simp]: "default_str d (default_str d s) = default_str d s"
  by (simp add: default_str_def)

lemma BoolVal_Some [simp]: "BoolVal (Some b) d = b"
  by (simp add: BoolVal_def)

text \<open>
  Normalisation is idempotent, and a normalised document leaves nothing implicit: listener
  addresses, management paths, vendor, MFA mode, protocol toggles, UI switch and the overage
  limits all have a value.
\<close>

theorem normalize_idempotent:
  "Normalize (Normalize d) = Normalize d
   \<and> (let s = dc_Spec (Normalize d) in
      hl_Address (ls_HTTPS (sp_Listeners s)) \<noteq> [] \<and> ml_Address (ls_Management (sp_Listeners s)) \<noteq> []
      \<and> ml_RESTPath (ls_Management (sp_Listeners s)) \<noteq> [] \<and> ml_MCPPath (ls_Management (sp_Listeners s)) \<noteq> []
      \<and> pf_Vendor (sp_Profile s) \<noteq> [] \<and> au_MFAMode (sp_Auth s) \<noteq> []
      \<and> pr_OIDC (sp_Protocols s) \<noteq> None \<and> pr_SAML (sp_Protocols s) \<noteq> None \<and> pr_WSFed (sp_Protocols s) \<noteq> None
      \<and> sp_UIEnabled s \<noteq> None \<and> go_OktaFailAt (sp_GroupOverage s) \<noteq> 0 \<and> go_GenericCap (sp_GroupOverage s) \<noteq> 0)"
  by (simp add: Normalize_def default_str_def Let_def)

definition oidc_routes :: "clothes \<Rightarrow> string list" where
  "oidc_routes c = [ct_AuthorizePath c, ct_TokenPath c, ct_JWKSPath c, ct_UserInfoPath c, ct_LogoutPath c]"

lemma Implemented_ValidVendor: "Implemented v \<longleftrightarrow> ValidVendor v"
  by (simp add: Implemented_def ValidVendor_def vendors_def)

lemma clothes_defaults_oidc [simp]:
  "oidc_routes (clothes_defaults c) = oidc_routes c" "ct_CookieName (clothes_defaults c) = ct_CookieName c"
  "ct_Vendor (clothes_defaults c) = ct_Vendor c"
  by (simp_all add: clothes_defaults_def oidc_routes_def Let_def)

lemma vendor_paths_routes:
  assumes "ValidVendor v"
  shows "distinct (oidc_routes (vendor_paths v realm base))
     \<and> (\<forall>r \<in> set (oidc_routes (vendor_paths v realm base)). HasPrefix r ''/'')
     \<and> ct_CookieName (vendor_paths v realm base) \<noteq> []"
proof -
  have "\<forall>v \<in> set vendors. distinct (oidc_routes (vendor_paths v realm base))
     \<and> (\<forall>r \<in> set (oidc_routes (vendor_paths v realm base)). HasPrefix r ''/'')
     \<and> ct_CookieName (vendor_paths v realm base) \<noteq> []"
    by (simp add: vendors_def vendor_paths_def oidc_routes_def oidc_paths_def html_titles_def Let_def)
  with assms show ?thesis by (simp add: ValidVendor_def)
qed

text \<open>
  The routes of every accepted configuration are well separated: a document that passes
  validation resolves to clothes whose five OpenID endpoints are absolute, non-empty and pairwise
  different paths, with a non-empty cookie name and non-empty SAML and WS-Fed paths.
\<close>

theorem valid_document_resolves:
  assumes "ValidateIDs N d = None"
  shows "\<exists>c. Resolve (pf_Vendor (sp_Profile (dc_Spec d))) (pf_TenantID (sp_Profile (dc_Spec d))) (dc_Name d) = Inr c
     \<and> distinct (oidc_routes c) \<and> (\<forall>r \<in> set (oidc_routes c). HasPrefix r ''/'') \<and> ct_CookieName c \<noteq> []
     \<and> ct_SAMLMetadataPath c \<noteq> [] \<and> ct_SAMLSSOPath c \<noteq> [] \<and> ct_SAMLSSOPOSTPath c \<noteq> [] \<and> ct_WSFedMetadataPath c \<noteq> []"
proof -
  let ?v = "let v = pf_Vendor (sp_Profile (dc_Spec d)) in if v = [] then ''generic'' else v"
  have v: "ValidVendor ?v"
    using assms unfolding ValidateIDs_iff
    by (auto simp: well_formed_def header_ok_def ValidVendor_def vendors_def Let_def)
  have d: "ct_SAMLMetadataPath (clothes_defaults b) \<noteq> [] \<and> ct_SAMLSSOPath (clothes_defaults b) \<noteq> []
      \<and> ct_SAMLSSOPOSTPath (clothes_defaults b) \<noteq> [] \<and> ct_WSFedMetadataPath (clothes_defaults b) \<noteq> []" for b
    by (simp add: clothes_defaults_def Let_def)
  show ?thesis
    using v vendor_paths_routes [OF v] d by (auto simp: Resolve_def Implemented_ValidVendor Let_def)
qed

theorem valid_document_resolves_witness:
  "\<exists>c. Resolve [] [] ''lab'' = Inr c \<and> distinct (oidc_routes c)"
proof -
  have "ValidateIDs sample_net sample_doc = None" by code_simp
  from valid_document_resolves [OF this] show ?thesis
    by (auto simp: sample_doc_def zero_profile_def)
qed

end
