(* ===== verification/Compiler_Props.thy ===== *)
theory Compiler_Props
  imports Compiler Config_Props
begin

text \<open>
  What compilation guarantees: the indexes of a compiled snapshot are those of its canonical
  document, every secret is present, and the issuer is the configured one.
\<close>

section \<open>The loops over clients and users\<close>

definition client_secret :: "comp \<Rightarrow> client \<Rightarrow> string option" where
  "client_secret K c = (if cl_SecretRef c = [] then None
     else case readRef K (cl_SecretRef c) ''clients.secretRef'' of Inl _ \<Rightarrow> None | Inr b \<Rightarrow> Some (TrimSpace b))"

lemma compile_clients_step:
  assumes "compile_clients K m (c # cs) = Inr m'"
  obtains m2 where "compile_clients K m2 cs = Inr m'"
    and "km_ByID m2 = gput (cl_ID c) c (km_ByID m)"
    and "km_ByClientID m2 = gput (client_key c) c (km_ByClientID m)"
    and "cs_EntityID (cl_SAML c) = [] \<and> km_BySAML m2 = km_BySAML m
       \<or> cs_EntityID (cl_SAML c) \<noteq> [] \<and> gget (km_BySAML m) (cs_EntityID (cl_SAML c)) = None
         \<and> km_BySAML m2 = gput (cs_EntityID (cl_SAML c)) c (km_BySAML m)"
    and "cl_SecretRef c = [] \<and> km_Secrets m2 = km_Secrets m
       \<or> (\<exists>sec. client_secret K c = Some sec \<and> sec \<noteq> [] \<and> cl_SecretRef c \<noteq> []
            \<and> km_Secrets m2 = gput (client_key c) sec (km_Secrets m))"
  using assms that
  by (force simp: client_secret_def Let_def split: if_splits)

text \<open>The index of a list by a key, and how one more element extends it.\<close>

definition index_of_list :: "('a \<Rightarrow> string) \<Rightarrow> 'a list \<Rightarrow> string \<Rightarrow> 'a option" where
  "index_of_list f xs = map_of (map (\<lambda>x. (f x, x)) xs)"

lemma index_None: "k \<notin> f ` set xs \<Longrightarrow> index_of_list f xs k = None"
  by (auto simp: index_of_list_def map_of_eq_None_iff)

lemma index_Cons: "index_of_list f (x # xs) k = (if k = f x then Some x else index_of_list f xs k)"
  by (simp add: index_of_list_def)

lemma index_Some: "index_of_list f xs k = Some x \<Longrightarrow> x \<in> set xs \<and> f x = k"
  by (auto simp: index_of_list_def dest: map_of_SomeD)

lemma index_member: "distinct (map f xs) \<Longrightarrow> x \<in> set xs \<Longrightarrow> index_of_list f xs (f x) = Some x"
  by (simp add: index_of_list_def comp_def)

lemma index_iff: "distinct (map f xs) \<Longrightarrow> index_of_list f xs k = Some x \<longleftrightarrow> x \<in> set xs \<and> f x = k"
  using index_Some index_member by metis

lemma compile_clients_maps:
  assumes "compile_clients K m cs = Inr m'" "distinct (map cl_ID cs)" "distinct (map client_key cs)"
  shows "gget (km_ByID m') k = (case index_of_list cl_ID cs k of None \<Rightarrow> gget (km_ByID m) k | Some c \<Rightarrow> Some c)
    \<and> gget (km_ByClientID m') k = (case index_of_list client_key cs k of None \<Rightarrow> gget (km_ByClientID m) k | Some c \<Rightarrow> Some c)"
  using assms
proof (induction cs arbitrary: m)
  case (Cons c cs)
  from Cons.prems(1) obtain m2 where m2: "compile_clients K m2 cs = Inr m'"
    "km_ByID m2 = gput (cl_ID c) c (km_ByID m)" "km_ByClientID m2 = gput (client_key c) c (km_ByClientID m)"
    by (rule compile_clients_step)
  have "index_of_list cl_ID cs (cl_ID c) = None" "index_of_list client_key cs (client_key c) = None"
    using Cons.prems(2,3) by (auto intro!: index_None)
  then show ?case using Cons.IH [OF m2(1)] Cons.prems(2,3)
    by (auto simp: m2(2,3) index_Cons split: option.splits)
qed (simp add: index_of_list_def)

lemma compile_clients_secrets:
  assumes "compile_clients K m cs = Inr m'" "distinct (map client_key cs)"
  shows "(\<forall>c \<in> set cs. gget (km_Secrets m') (client_key c) =
            (if cl_SecretRef c = [] then gget (km_Secrets m) (client_key c) else client_secret K c)
            \<and> (cl_SecretRef c \<noteq> [] \<longrightarrow> (\<exists>sec. client_secret K c = Some sec \<and> sec \<noteq> [])))
    \<and> (\<forall>k. k \<notin> client_key ` set cs \<longrightarrow> gget (km_Secrets m') k = gget (km_Secrets m) k)"
  using assms
proof (induction cs arbitrary: m)
  case (Cons c cs)
  from Cons.prems(1) obtain m2 where m2: "compile_clients K m2 cs = Inr m'"
    "cl_SecretRef c = [] \<and> km_Secrets m2 = km_Secrets m
       \<or> (\<exists>sec. client_secret K c = Some sec \<and> sec \<noteq> [] \<and> cl_SecretRef c \<noteq> []
            \<and> km_Secrets m2 = gput (client_key c) sec (km_Secrets m))"
    by (rule compile_clients_step)
  then have ih: "(\<forall>c \<in> set cs. gget (km_Secrets m') (client_key c) =
            (if cl_SecretRef c = [] then gget (km_Secrets m2) (client_key c) else client_secret K c)
            \<and> (cl_SecretRef c \<noteq> [] \<longrightarrow> (\<exists>sec. client_secret K c = Some sec \<and> sec \<noteq> [])))
    \<and> (\<forall>k. k \<notin> client_key ` set cs \<longrightarrow> gget (km_Secrets m') k = gget (km_Secrets m2) k)"
    using Cons by simp
  have fresh: "client_key c \<notin> client_key ` set cs" using Cons.prems(2) by simp
  then have other: "client_key b \<noteq> client_key c" if "b \<in> set cs" for b using that by (metis imageI)
  from m2(2) show ?case
  proof
    assume "cl_SecretRef c = [] \<and> km_Secrets m2 = km_Secrets m"
    then show ?thesis using ih fresh by auto
  next
    assume "\<exists>sec. client_secret K c = Some sec \<and> sec \<noteq> [] \<and> cl_SecretRef c \<noteq> []
            \<and> km_Secrets m2 = gput (client_key c) sec (km_Secrets m)"
    then show ?thesis using ih fresh other by auto
  qed
qed simp

lemma compile_clients_saml:
  assumes "compile_clients K m cs = Inr m'"
  shows "distinct (map (\<lambda>c. cs_EntityID (cl_SAML c)) (filter (\<lambda>c. cs_EntityID (cl_SAML c) \<noteq> []) cs))
    \<and> (\<forall>c \<in> set cs. cs_EntityID (cl_SAML c) \<noteq> [] \<longrightarrow> gget (km_BySAML m) (cs_EntityID (cl_SAML c)) = None
         \<and> gget (km_BySAML m') (cs_EntityID (cl_SAML c)) = Some c)
    \<and> (\<forall>k c. gget (km_BySAML m') k = Some c \<longrightarrow> gget (km_BySAML m) k = Some c
         \<or> (c \<in> set cs \<and> cs_EntityID (cl_SAML c) = k \<and> k \<noteq> []))
    \<and> (\<forall>k c. gget (km_BySAML m) k = Some c \<longrightarrow> gget (km_BySAML m') k = Some c)"
  using assms
proof (induction cs arbitrary: m)
  case (Cons c cs)
  from Cons.prems(1) obtain m2 where m2: "compile_clients K m2 cs = Inr m'"
    "cs_EntityID (cl_SAML c) = [] \<and> km_BySAML m2 = km_BySAML m
       \<or> cs_EntityID (cl_SAML c) \<noteq> [] \<and> gget (km_BySAML m) (cs_EntityID (cl_SAML c)) = None
         \<and> km_BySAML m2 = gput (cs_EntityID (cl_SAML c)) c (km_BySAML m)"
    by (rule compile_clients_step)
  note ih = Cons.IH [OF m2(1)]
  from m2(2) show ?case
  proof
    assume "cs_EntityID (cl_SAML c) = [] \<and> km_BySAML m2 = km_BySAML m"
    then show ?thesis using ih by auto
  next
    assume a: "cs_EntityID (cl_SAML c) \<noteq> [] \<and> gget (km_BySAML m) (cs_EntityID (cl_SAML c)) = None
         \<and> km_BySAML m2 = gput (cs_EntityID (cl_SAML c)) c (km_BySAML m)"
    let ?e = "cs_EntityID (cl_SAML c)"
    have m: "gget (km_BySAML m2) k = (if k = ?e then Some c else gget (km_BySAML m) k)" for k using a by simp
    have ne: "cs_EntityID (cl_SAML d) \<noteq> ?e \<and> gget (km_BySAML m) (cs_EntityID (cl_SAML d)) = None"
      if "d \<in> set cs" "cs_EntityID (cl_SAML d) \<noteq> []" for d
      using ih that unfolding m by (auto split: if_splits)
    have fresh: "?e \<notin> (\<lambda>c. cs_EntityID (cl_SAML c)) ` set (filter (\<lambda>c. cs_EntityID (cl_SAML c) \<noteq> []) cs)"
    proof
      assume "?e \<in> (\<lambda>c. cs_EntityID (cl_SAML c)) ` set (filter (\<lambda>c. cs_EntityID (cl_SAML c) \<noteq> []) cs)"
      then obtain d where "d \<in> set cs" "cs_EntityID (cl_SAML d) \<noteq> []" "cs_EntityID (cl_SAML d) = ?e" by auto
      then show False using ne [of d] by simp
    qed
    have dist: "distinct (map (\<lambda>c. cs_EntityID (cl_SAML c)) (filter (\<lambda>c. cs_EntityID (cl_SAML c) \<noteq> []) (c # cs)))"
      using ih fresh a by simp
    have up: "gget (km_BySAML m') k = Some d" if "gget (km_BySAML m2) k = Some d" for k d using ih that by blast
    have "\<forall>d \<in> set (c # cs). cs_EntityID (cl_SAML d) \<noteq> [] \<longrightarrow> gget (km_BySAML m) (cs_EntityID (cl_SAML d)) = None
         \<and> gget (km_BySAML m') (cs_EntityID (cl_SAML d)) = Some d"
      using a ne up [of ?e c] m [of ?e] ih by auto
    moreover have "gget (km_BySAML m) k = Some d \<or> (d \<in> set (c # cs) \<and> cs_EntityID (cl_SAML d) = k \<and> k \<noteq> [])"
      if "gget (km_BySAML m') k = Some d" for k d
    proof -
      have "gget (km_BySAML m2) k = Some d \<or> (d \<in> set cs \<and> cs_EntityID (cl_SAML d) = k \<and> k \<noteq> [])" using ih that by blast
      then show ?thesis using m [of k] a by (auto split: if_splits)
    qed
    moreover have "gget (km_BySAML m') k = Some d" if "gget (km_BySAML m) k = Some d" for k d
      using a that by (intro up) (auto simp: m)
    ultimately show ?thesis using dist by blast
  qed
qed simp

text \<open>The credential and the second factor that the files of a user hold.\<close>

definition user_credential :: "comp \<Rightarrow> user \<Rightarrow> credential option" where
  "user_credential K u = (let hashed = (us_PasswordHashRef u \<noteq> []);
       ref = (if hashed then us_PasswordHashRef u else us_PasswordRef u) in
     case readRef K ref ''users.passwordRef/passwordHashRef'' of
       Inl _ \<Rightarrow> None
     | Inr raw \<Rightarrow> (case Parse (cm_sha256 K) raw hashed of Inl _ \<Rightarrow> None | Inr cred \<Rightarrow> Some cred))"

definition user_seed :: "comp \<Rightarrow> user \<Rightarrow> string option" where
  "user_seed K u = (if us_TOTPSecretRef u = [] then None
     else case readRef K (us_TOTPSecretRef u) ''users.totpSecretRef'' of
       Inl _ \<Rightarrow> None
     | Inr raw \<Rightarrow> (case ParseSecret (cm_b32 K) (cm_b32raw K) raw of Inl _ \<Rightarrow> None | Inr seed \<Rightarrow> Some seed))"

lemma compile_users_step:
  assumes "compile_users K m (u # us) = Inr m'"
  obtains m2 cred where "compile_users K m2 us = Inr m'"
    and "um_ByID m2 = gput (us_ID u) u (um_ByID m)"
    and "user_credential K u = Some cred" and "um_passwords m2 = gput (us_ID u) cred (um_passwords m)"
    and "us_TOTPSecretRef u = [] \<and> um_seeds m2 = um_seeds m
       \<or> (\<exists>seed. us_TOTPSecretRef u \<noteq> [] \<and> user_seed K u = Some seed \<and> um_seeds m2 = gput (us_ID u) seed (um_seeds m))"
proof -
  let ?h = "us_PasswordHashRef u \<noteq> []"
  let ?ref = "if ?h then us_PasswordHashRef u else us_PasswordRef u"
  let ?m1 = "m\<lparr>um_ByID := gput (us_ID u) u (um_ByID m)\<rparr>"
  from assms obtain raw where raw: "readRef K ?ref ''users.passwordRef/passwordHashRef'' = Inr raw"
    by (auto simp: Let_def)
  with assms obtain cred where cred: "Parse (cm_sha256 K) raw ?h = Inr cred"
    by (cases "Parse (cm_sha256 K) raw ?h") (simp_all add: Let_def bindE_def)
  let ?m2 = "?m1\<lparr>um_passwords := gput (us_ID u) cred (um_passwords ?m1)\<rparr>"
  have uc: "user_credential K u = Some cred" using raw cred by (simp add: user_credential_def Let_def)
  show thesis
  proof (cases "us_TOTPSecretRef u = []")
    case True
    then have "compile_users K ?m2 us = Inr m'" using assms raw cred by (simp add: Let_def bindE_def)
    from that [OF this _ uc] True show thesis by simp
  next
    case False
    with assms raw cred obtain raw2 seed where
      sd: "readRef K (us_TOTPSecretRef u) ''users.totpSecretRef'' = Inr raw2"
        "ParseSecret (cm_b32 K) (cm_b32raw K) raw2 = Inr seed"
        "compile_users K (?m2\<lparr>um_seeds := gput (us_ID u) seed (um_seeds ?m2)\<rparr>) us = Inr m'"
      by (simp add: Let_def bindE_def split: sum.splits)
    from that [OF sd(3) _ uc] False sd(1,2) show thesis by (simp add: user_seed_def)
  qed
qed

lemma compile_users_maps:
  assumes "compile_users K m us = Inr m'" "distinct (map us_ID us)"
  shows "gget (um_ByID m') k = (case index_of_list us_ID us k of None \<Rightarrow> gget (um_ByID m) k | Some u \<Rightarrow> Some u)
    \<and> gget (um_passwords m') k = (case index_of_list us_ID us k of None \<Rightarrow> gget (um_passwords m) k | Some u \<Rightarrow> user_credential K u)
    \<and> gget (um_seeds m') k = (case index_of_list us_ID us k of None \<Rightarrow> gget (um_seeds m) k
        | Some u \<Rightarrow> if us_TOTPSecretRef u = [] then gget (um_seeds m) k else user_seed K u)
    \<and> (\<forall>u \<in> set us. user_credential K u \<noteq> None \<and> (us_TOTPSecretRef u \<noteq> [] \<longrightarrow> user_seed K u \<noteq> None))"
  using assms
proof (induction us arbitrary: m)
  case (Cons u us)
  from Cons.prems(1) obtain m2 cred where m2: "compile_users K m2 us = Inr m'"
    "um_ByID m2 = gput (us_ID u) u (um_ByID m)" "user_credential K u = Some cred"
    "um_passwords m2 = gput (us_ID u) cred (um_passwords m)"
    "us_TOTPSecretRef u = [] \<and> um_seeds m2 = um_seeds m
       \<or> (\<exists>seed. us_TOTPSecretRef u \<noteq> [] \<and> user_seed K u = Some seed \<and> um_seeds m2 = gput (us_ID u) seed (um_seeds m))"
    by (rule compile_users_step)
  have fresh: "index_of_list us_ID us (us_ID u) = None"
    using Cons.prems(2) by (auto intro!: index_None)
  have d: "distinct (map us_ID us)" using Cons.prems(2) by simp
  have seeds: "gget (um_seeds m2) k = (if k = us_ID u \<and> us_TOTPSecretRef u \<noteq> [] then user_seed K u else gget (um_seeds m) k)"
    "us_TOTPSecretRef u \<noteq> [] \<longrightarrow> user_seed K u \<noteq> None"
    using m2(5) by auto
  show ?case
  proof (cases "k = us_ID u")
    case True
    then show ?thesis using Cons.IH [OF m2(1) d] fresh m2(2-4) seeds by (simp add: index_Cons)
  next
    case False
    then show ?thesis using Cons.IH [OF m2(1) d] m2(2-4) seeds by (simp add: index_Cons split: option.split)
  qed
qed (simp add: index_of_list_def)

section \<open>The issuer\<close>

lemma ResolveIssuer_id: "ResolveIssuer K y = Inr i \<Longrightarrow> i = y"
  by (auto simp: ResolveIssuer_def split: if_splits option.splits)

section \<open>The snapshot\<close>

text \<open>
  \<open>compiled_from K d s\<close>: the snapshot is a compilation of the canonical document \<open>d\<close>. The indexes are
  those of the lists of the document, and the secrets are those of the files that it refers to.
\<close>

definition compiled_from :: "comp \<Rightarrow> document \<Rightarrow> snapshot \<Rightarrow> bool" where
  "compiled_from K d s \<longleftrightarrow> (let p = dc_Spec d in
     sn_Canonical s = Some d \<and> well_formed (cm_net K) d \<and> sn_Issuer s = sp_Issuer p \<and> sn_AccessToken s \<noteq> []
     \<and> Resolve (pf_Vendor (sp_Profile p)) (pf_TenantID (sp_Profile p)) (dc_Name d) = Inr (sn_Clothes s)
     \<and> RevisionOf K d = Inr (sn_Revision s)
     \<and> (\<forall>k. gget (sn_ClientsByID s) k = index_of_list cl_ID (sp_Clients p) k)
     \<and> (\<forall>k. gget (sn_ClientsByClientID s) k = index_of_list client_key (sp_Clients p) k)
     \<and> (\<forall>k. gget (sn_UsersByID s) k = index_of_list us_ID (sp_Users p) k)
     \<and> (\<forall>k. gget (sn_GroupsByID s) k = index_of_list gr_ID (sp_Groups p) k)
     \<and> (\<forall>k c. gget (sn_ClientsBySAMLEntity s) k = Some c \<longleftrightarrow> c \<in> set (sp_Clients p) \<and> cs_EntityID (cl_SAML c) = k \<and> k \<noteq> [])
     \<and> (\<forall>c \<in> set (sp_Clients p). if cl_SecretRef c = [] then gget (sn_ClientSecrets s) (client_key c) = None
          else (\<exists>sec. sec \<noteq> [] \<and> client_secret K c = Some sec \<and> gget (sn_ClientSecrets s) (client_key c) = Some sec))
     \<and> (\<forall>k. k \<notin> client_key ` set (sp_Clients p) \<longrightarrow> gget (sn_ClientSecrets s) k = None)
     \<and> (\<forall>u \<in> set (sp_Users p). user_credential K u \<noteq> None \<and> gget (sn_passwords s) (us_ID u) = user_credential K u
          \<and> gget (sn_totpSeeds s) (us_ID u) = user_seed K u \<and> (us_TOTPSecretRef u \<noteq> [] \<longrightarrow> user_seed K u \<noteq> None))
     \<and> (\<forall>k. k \<notin> us_ID ` set (sp_Users p) \<longrightarrow> gget (sn_passwords s) k = None \<and> gget (sn_totpSeeds s) k = None))"

lemma load_refs_token: "load_refs K d = Inr ld \<Longrightarrow> ld_Token ld \<noteq> []"
  by (auto simp: load_refs_def Let_def split: if_splits option.splits)

lemma compile_parts:
  assumes "compile K now generation bootRev doc = Inr s"
  obtains clothes ld rev labCert km um where
    "ValidateIDs (cm_net K) (Normalize doc) = None"
    "Resolve (pf_Vendor (sp_Profile (dc_Spec (Normalize doc)))) (pf_TenantID (sp_Profile (dc_Spec (Normalize doc)))) (dc_Name (Normalize doc)) = Inr clothes"
    "load_refs K (Normalize doc) = Inr ld" "RevisionOf K (Normalize doc) = Inr rev"
    "compile_clients K \<lparr>km_ByID = gempty, km_ByClientID = gempty, km_BySAML = gempty, km_Secrets = gempty\<rparr>
        (sp_Clients (dc_Spec (Normalize doc))) = Inr km"
    "compile_users K \<lparr>um_ByID = gempty, um_passwords = gempty, um_seeds = gempty\<rparr> (sp_Users (dc_Spec (Normalize doc))) = Inr um"
    "s = \<lparr>sn_passwords = um_passwords um, sn_totpSeeds = um_seeds um, sn_Canonical = Some (Normalize doc),
       sn_Revision = rev, sn_BootstrapRevision = (if bootRev = [] then rev else bootRev),
       sn_Generation = (if generation = 0 then 1 else generation), sn_CompiledAt = now,
       sn_Issuer = sp_Issuer (dc_Spec (Normalize doc)), sn_TLSCert = ld_TLSCert ld, sn_TLSKey = ld_TLSKey ld,
       sn_SigningKey = ld_Signing ld, sn_SigningCert = labCert, sn_AccessToken = ld_Token ld,
       sn_ClientSecrets = km_Secrets km, sn_ClientsByID = km_ByID km,
       sn_ClientsByClientID = km_ByClientID km, sn_ClientsBySAMLEntity = km_BySAML km,
       sn_UsersByID = um_ByID um, sn_GroupsByID = gmap_of (map (\<lambda>g. (gr_ID g, g)) (sp_Groups (dc_Spec (Normalize doc)))),
       sn_Clothes = clothes\<rparr>"
proof -
  let ?d = "Normalize doc"
  have same: "?d\<lparr>dc_Spec := (dc_Spec ?d)\<lparr>sp_Issuer := sp_Issuer (dc_Spec ?d)\<rparr>\<rparr> = ?d" by simp
  from assms obtain clothes issuer where c:
    "ValidateIDs (cm_net K) ?d = None"
    "Resolve (pf_Vendor (sp_Profile (dc_Spec ?d))) (pf_TenantID (sp_Profile (dc_Spec ?d))) (dc_Name ?d) = Inr clothes"
    "ResolveIssuer K (sp_Issuer (dc_Spec ?d)) = Inr issuer"
    by (auto simp: compile_def Let_def split: sum.splits)
  have i: "issuer = sp_Issuer (dc_Spec ?d)" using c(3) by (rule ResolveIssuer_id)
  from assms obtain ld rev labCert km um where p:
    "load_refs K ?d = Inr ld" "RevisionOf K ?d = Inr rev"
    "cm_labCert K (ld_Signing ld) (sp_Issuer (dc_Spec ?d)) now = Some labCert"
    "compile_clients K \<lparr>km_ByID = gempty, km_ByClientID = gempty, km_BySAML = gempty, km_Secrets = gempty\<rparr> (sp_Clients (dc_Spec ?d)) = Inr km"
    "compile_users K \<lparr>um_ByID = gempty, um_passwords = gempty, um_seeds = gempty\<rparr> (sp_Users (dc_Spec ?d)) = Inr um"
    unfolding compile_def Let_def by (auto simp: c(1,2) c(3) [unfolded i] same split: option.splits)
  have "Inr s = (Inr \<lparr>sn_passwords = um_passwords um, sn_totpSeeds = um_seeds um, sn_Canonical = Some ?d,
       sn_Revision = rev, sn_BootstrapRevision = (if bootRev = [] then rev else bootRev),
       sn_Generation = (if generation = 0 then 1 else generation), sn_CompiledAt = now,
       sn_Issuer = sp_Issuer (dc_Spec ?d), sn_TLSCert = ld_TLSCert ld, sn_TLSKey = ld_TLSKey ld,
       sn_SigningKey = ld_Signing ld, sn_SigningCert = labCert, sn_AccessToken = ld_Token ld,
       sn_ClientSecrets = km_Secrets km, sn_ClientsByID = km_ByID km,
       sn_ClientsByClientID = km_ByClientID km, sn_ClientsBySAMLEntity = km_BySAML km,
       sn_UsersByID = um_ByID um, sn_GroupsByID = gmap_of (map (\<lambda>g. (gr_ID g, g)) (sp_Groups (dc_Spec ?d))),
       sn_Clothes = clothes\<rparr> :: go_error + snapshot)"
    unfolding assms [symmetric] compile_def Let_def by (simp add: c(1,2) c(3) [unfolded i] same p bindE_def guardE_def)
  then show thesis by (intro that [OF c(1,2) p(1,2,4,5)]) (rule sum.inject(2) [THEN iffD1])
qed

lemma index_of_groups:
  "distinct (map gr_ID gs) \<Longrightarrow> gget (gmap_of (map (\<lambda>g. (gr_ID g, g)) gs)) k = index_of_list gr_ID gs k"
  by (simp add: gget_gmap_of_distinct index_of_list_def comp_def)

lemma compile_sound:
  assumes "compile K now generation bootRev doc = Inr s"
  shows "compiled_from K (Normalize doc) s"
  using assms
proof (rule compile_parts)
  fix clothes ld rev labCert km um
  let ?d = "Normalize doc" and ?p = "dc_Spec (Normalize doc)"
  assume v: "ValidateIDs (cm_net K) ?d = None"
    and c: "Resolve (pf_Vendor (sp_Profile ?p)) (pf_TenantID (sp_Profile ?p)) (dc_Name ?d) = Inr clothes"
    and l: "load_refs K ?d = Inr ld" and r: "RevisionOf K ?d = Inr rev"
    and km: "compile_clients K \<lparr>km_ByID = gempty, km_ByClientID = gempty, km_BySAML = gempty, km_Secrets = gempty\<rparr> (sp_Clients ?p) = Inr km"
    and um: "compile_users K \<lparr>um_ByID = gempty, um_passwords = gempty, um_seeds = gempty\<rparr> (sp_Users ?p) = Inr um"
    and s: "s = \<lparr>sn_passwords = um_passwords um, sn_totpSeeds = um_seeds um, sn_Canonical = Some ?d,
       sn_Revision = rev, sn_BootstrapRevision = (if bootRev = [] then rev else bootRev),
       sn_Generation = (if generation = 0 then 1 else generation), sn_CompiledAt = now,
       sn_Issuer = sp_Issuer ?p, sn_TLSCert = ld_TLSCert ld, sn_TLSKey = ld_TLSKey ld,
       sn_SigningKey = ld_Signing ld, sn_SigningCert = labCert, sn_AccessToken = ld_Token ld,
       sn_ClientSecrets = km_Secrets km, sn_ClientsByID = km_ByID km,
       sn_ClientsByClientID = km_ByClientID km, sn_ClientsBySAMLEntity = km_BySAML km,
       sn_UsersByID = um_ByID um, sn_GroupsByID = gmap_of (map (\<lambda>g. (gr_ID g, g)) (sp_Groups ?p)),
       sn_Clothes = clothes\<rparr>"
  have wf: "well_formed (cm_net K) ?d" using v by (simp add: ValidateIDs_iff)
  then have dist: "distinct (map cl_ID (sp_Clients ?p))" "distinct (map client_key (sp_Clients ?p))"
    "distinct (map us_ID (sp_Users ?p))" "distinct (map gr_ID (sp_Groups ?p))"
    by (simp_all add: well_formed_def Let_def)
  note clients = compile_clients_maps [OF km dist(1,2)] compile_clients_secrets [OF km dist(2)] compile_clients_saml [OF km]
  note users = compile_users_maps [OF um dist(3)]
  have saml: "gget (km_BySAML km) k = Some x \<longleftrightarrow> x \<in> set (sp_Clients ?p) \<and> cs_EntityID (cl_SAML x) = k \<and> k \<noteq> []" for k x
    using clients(3) by auto
  have "\<forall>k. gget (km_ByID km) k = index_of_list cl_ID (sp_Clients ?p) k"
    "\<forall>k. gget (km_ByClientID km) k = index_of_list client_key (sp_Clients ?p) k"
    using clients(1) by (auto split: option.splits)
  moreover have "\<forall>c \<in> set (sp_Clients ?p). if cl_SecretRef c = [] then gget (km_Secrets km) (client_key c) = None
          else (\<exists>sec. sec \<noteq> [] \<and> client_secret K c = Some sec \<and> gget (km_Secrets km) (client_key c) = Some sec)"
    "\<forall>k. k \<notin> client_key ` set (sp_Clients ?p) \<longrightarrow> gget (km_Secrets km) k = None"
    using clients(2) by auto
  moreover have "\<forall>k. gget (um_ByID um) k = index_of_list us_ID (sp_Users ?p) k"
    using users by (auto split: option.splits)
  moreover have "\<forall>u \<in> set (sp_Users ?p). user_credential K u \<noteq> None \<and> gget (um_passwords um) (us_ID u) = user_credential K u
          \<and> gget (um_seeds um) (us_ID u) = user_seed K u \<and> (us_TOTPSecretRef u \<noteq> [] \<longrightarrow> user_seed K u \<noteq> None)"
    using users index_member [OF dist(3)] by (auto simp: user_seed_def)
  moreover have "\<forall>k. k \<notin> us_ID ` set (sp_Users ?p) \<longrightarrow> gget (um_passwords um) k = None \<and> gget (um_seeds um) k = None"
    using users by (auto simp: index_None)
  ultimately show "compiled_from K ?d s"
    unfolding compiled_from_def Let_def s
    using wf load_refs_token [OF l] c r saml index_of_groups [OF dist(4)] by simp
qed

lemma Compile_compile: "Compile K now generation bootRev doc = Inr s \<longleftrightarrow> compile K now generation bootRev doc = Inr s"
  by (auto simp: Compile_def split: sum.splits if_splits)

lemma Compile_sound: "Compile K now generation bootRev doc = Inr s \<Longrightarrow> compiled_from K (Normalize doc) s"
  by (simp add: Compile_compile compile_sound)

lemma Compile_header:
  "Compile K now generation bootRev doc = Inr s \<Longrightarrow>
     sn_Generation s = (if generation = 0 then 1 else generation) \<and> sn_CompiledAt s = now
     \<and> sn_BootstrapRevision s = (if bootRev = [] then sn_Revision s else bootRev)"
  unfolding Compile_compile by (erule compile_parts) simp

text \<open>Compilation succeeds when each of its checks does.\<close>

lemma Compile_live:
  assumes "ValidateIDs (cm_net K) (Normalize doc) = None"
    and "\<exists>c. Resolve (pf_Vendor (sp_Profile (dc_Spec (Normalize doc)))) (pf_TenantID (sp_Profile (dc_Spec (Normalize doc)))) (dc_Name (Normalize doc)) = Inr c"
    and "ResolveIssuer K (sp_Issuer (dc_Spec (Normalize doc))) = Inr (sp_Issuer (dc_Spec (Normalize doc)))"
    and "\<exists>ld. load_refs K (Normalize doc) = Inr ld" "\<exists>rev. RevisionOf K (Normalize doc) = Inr rev"
    and "\<And>key. cm_labCert K key (sp_Issuer (dc_Spec (Normalize doc))) now \<noteq> None"
    and "\<exists>km. compile_clients K \<lparr>km_ByID = gempty, km_ByClientID = gempty, km_BySAML = gempty, km_Secrets = gempty\<rparr>
        (sp_Clients (dc_Spec (Normalize doc))) = Inr km"
    and "\<exists>um. compile_users K \<lparr>um_ByID = gempty, um_passwords = gempty, um_seeds = gempty\<rparr> (sp_Users (dc_Spec (Normalize doc))) = Inr um"
  shows "\<exists>s. Compile K now generation bootRev doc = Inr s"
proof -
  let ?d = "Normalize doc"
  have same: "?d\<lparr>dc_Spec := (dc_Spec ?d)\<lparr>sp_Issuer := sp_Issuer (dc_Spec ?d)\<rparr>\<rparr> = ?d" by simp
  obtain c ld rev km um where eqs:
    "Resolve (pf_Vendor (sp_Profile (dc_Spec ?d))) (pf_TenantID (sp_Profile (dc_Spec ?d))) (dc_Name ?d) = Inr c"
    "load_refs K ?d = Inr ld" "RevisionOf K ?d = Inr rev"
    "compile_clients K \<lparr>km_ByID = gempty, km_ByClientID = gempty, km_BySAML = gempty, km_Secrets = gempty\<rparr> (sp_Clients (dc_Spec ?d)) = Inr km"
    "compile_users K \<lparr>um_ByID = gempty, um_passwords = gempty, um_seeds = gempty\<rparr> (sp_Users (dc_Spec ?d)) = Inr um"
    using assms(2,4,5,7,8) by blast
  obtain crt where "cm_labCert K (ld_Signing ld) (sp_Issuer (dc_Spec ?d)) now = Some crt" using assms(6) by blast
  with eqs assms(1,3) same show ?thesis
    unfolding Compile_compile compile_def Let_def by (simp add: bindE_def guardE_def)
qed

section \<open>A sample configuration\<close>

definition sample_files :: "string \<Rightarrow> string option" where
  "sample_files path = map_of [(''/l/tls.crt'', ''cert''), (''/l/tls.key'', ''key''), (''/l/signing.pem'', ''pem''),
     (''/l/token'', ''tok''), (''/l/app.secret'', ''s3cret ''), (''/l/ann.pw'', ''hunter2''), (''/l/boot.yaml'', ''doc'')] path"

definition sample_parse :: "string \<Rightarrow> url option" where
  "sample_parse raw = (if raw = ''https://lab'' then Some (sample_url\<lparr>url_Host := ''lab'', url_Hostname := ''lab'', url_Path := []\<rparr>)
     else Some sample_url)"

definition sample_config :: "string \<Rightarrow> document" where
  "sample_config mode = sample_doc\<lparr>dc_Spec := (dc_Spec sample_doc)\<lparr>
     sp_Listeners := \<lparr>
       ls_HTTPS = \<lparr>hl_Address = '':0'', hl_CertRef = ''tls.crt'', hl_KeyRef = ''tls.key''\<rparr>,
       ls_Management = \<lparr>ml_Address = '':0'', ml_RESTPath = ''/v1'', ml_MCPPath = ''/mcp'', ml_AllowLegacyClients = False\<rparr>\<rparr>,
     sp_Profile := \<lparr>pf_Vendor = ''generic'', pf_TenantID = []\<rparr>,
     sp_Protocols := \<lparr>pr_OIDC = Some True, pr_SAML = Some False, pr_WSFed = Some False\<rparr>,
     sp_SigningKeyRef := ''signing.pem'', sp_AccessTokenRef := ''token'',
     sp_Clients := [sample_client\<lparr>cl_SecretRef := ''app.secret''\<rparr>],
     sp_Users := [sample_user\<lparr>us_PasswordRef := ''ann.pw''\<rparr>],
     sp_Auth := zero_auth\<lparr>au_MFAMode := mode\<rparr>,
     sp_GroupOverage := \<lparr>go_EntraGraphStub = False, go_OktaFailAt = 100, go_GenericCap = 100\<rparr>,
     sp_UIEnabled := Some True\<rparr>\<rparr>"

text \<open>The rendering of a document is its MFA mode and the digest the identity, so that revisions differ with the mode.\<close>

definition sample_comp :: comp where
  "sample_comp = \<lparr>cm_net = sample_net\<lparr>url_Parse := sample_parse\<rparr>, cm_sha256 = (\<lambda>s. s), cm_ReadFile = sample_files,
     cm_Stat = (\<lambda>p. sample_files p \<noteq> None), cm_keyPair = (\<lambda>_ _. True), cm_pem = Some, cm_pkcs8 = (\<lambda>_. Some (RSAKey True)),
     cm_pkcs1 = (\<lambda>_. None), cm_ec = (\<lambda>_. None), cm_labCert = (\<lambda>_ _ _. Some ''crt''), cm_b32 = (\<lambda>_. None),
     cm_b32raw = (\<lambda>_. None), cm_yamlMarshal = (\<lambda>d. Some (au_MFAMode (sp_Auth (dc_Spec d)))),
     cm_yamlDecode = (\<lambda>_. Some (sample_config ''never'')), cm_yamlRest = (\<lambda>_. YamlEOF),
     cm_PublicHost = [], cm_HTTPSPort = [], cm_BaseDir = ''/l''\<rparr>"

definition sample_credential :: credential where
  "sample_credential = zero_credential\<lparr>cr_plain := ''hunter2''\<rparr>"

lemma sample_normal: "mode \<noteq> [] \<Longrightarrow> Normalize (sample_config mode) = sample_config mode"
  by (simp add: sample_config_def Normalize_def sample_doc_def default_str_def zero_auth_def BoolVal_def)

lemma sample_parts:
  assumes "mode = ''never'' \<or> mode = ''always''"
  shows "ValidateIDs (cm_net sample_comp) (sample_config mode) = None"
    and "\<exists>c. Resolve (pf_Vendor (sp_Profile (dc_Spec (sample_config mode)))) (pf_TenantID (sp_Profile (dc_Spec (sample_config mode))))
       (dc_Name (sample_config mode)) = Inr c"
    and "ResolveIssuer sample_comp (sp_Issuer (dc_Spec (sample_config mode))) = Inr (sp_Issuer (dc_Spec (sample_config mode)))"
    and "\<exists>ld. load_refs sample_comp (sample_config mode) = Inr ld"
    and "\<exists>rev. RevisionOf sample_comp (sample_config mode) = Inr rev"
    and "\<exists>km. compile_clients sample_comp \<lparr>km_ByID = gempty, km_ByClientID = gempty, km_BySAML = gempty, km_Secrets = gempty\<rparr>
       (sp_Clients (dc_Spec (sample_config mode))) = Inr km"
    and "\<exists>um. compile_users sample_comp \<lparr>um_ByID = gempty, um_passwords = gempty, um_seeds = gempty\<rparr>
       (sp_Users (dc_Spec (sample_config mode))) = Inr um"
proof -
  have ex: "(\<exists>x. r = Inr x) \<longleftrightarrow> isl r = False" for r :: "'e + 'x" by (cases r) auto
  show "ValidateIDs (cm_net sample_comp) (sample_config mode) = None"
    using assms by (elim disjE; hypsubst; code_simp)
  show "ResolveIssuer sample_comp (sp_Issuer (dc_Spec (sample_config mode))) = Inr (sp_Issuer (dc_Spec (sample_config mode)))"
    using assms by (elim disjE; hypsubst; code_simp)
  show "\<exists>c. Resolve (pf_Vendor (sp_Profile (dc_Spec (sample_config mode)))) (pf_TenantID (sp_Profile (dc_Spec (sample_config mode))))
     (dc_Name (sample_config mode)) = Inr c" unfolding ex using assms by (elim disjE; hypsubst; code_simp)
  show "\<exists>ld. load_refs sample_comp (sample_config mode) = Inr ld"
    unfolding ex using assms by (elim disjE; hypsubst; code_simp)
  show "\<exists>rev. RevisionOf sample_comp (sample_config mode) = Inr rev"
    by (simp add: RevisionOf_def sample_comp_def)
  show "\<exists>km. compile_clients sample_comp \<lparr>km_ByID = gempty, km_ByClientID = gempty, km_BySAML = gempty, km_Secrets = gempty\<rparr>
     (sp_Clients (dc_Spec (sample_config mode))) = Inr km" unfolding ex using assms by (elim disjE; hypsubst; code_simp)
  have r: "readRef sample_comp ''ann.pw'' f = Inr ''hunter2''" for f by code_simp
  have u: "sp_Users (dc_Spec (sample_config mode)) = [sample_user\<lparr>us_PasswordRef := ''ann.pw''\<rparr>]"
    by (simp add: sample_config_def sample_doc_def)
  have p: "Parse (cm_sha256 sample_comp) ''hunter2'' False = Inr sample_credential" by code_simp
  show "\<exists>um. compile_users sample_comp \<lparr>um_ByID = gempty, um_passwords = gempty, um_seeds = gempty\<rparr>
     (sp_Users (dc_Spec (sample_config mode))) = Inr um"
    unfolding u by (simp add: r p sample_user_def zero_user_def Let_def)
qed

lemma sample_compiles:
  assumes "mode = ''never'' \<or> mode = ''always''"
  shows "\<exists>s. Compile sample_comp now generation bootRev (sample_config mode) = Inr s"
proof -
  have n: "Normalize (sample_config mode) = sample_config mode" using assms by (intro sample_normal) auto
  show ?thesis
    using Compile_live [of sample_comp "sample_config mode"] sample_parts [OF assms]
    unfolding n by (simp add: sample_comp_def)
qed

section \<open>Properties\<close>

text \<open>
  C16. A compiled snapshot is exactly the compilation of its normalised document: the document is well
  formed, the issuer, the vendor clothes and the revision are its own, the client, user and group
  indexes list exactly its clients, users and groups, SAML entities are unique, every referenced client
  secret is present and non-empty and clients without a reference have none, every user has the
  credential of its file and exactly the users with a TOTP reference have a seed. The generation and
  the bootstrap revision are those asked for.
\<close>
theorem compiled_snapshot_sound:
  assumes "Compile K now generation bootRev doc = Inr s"
  shows "compiled_from K (Normalize doc) s
    \<and> sn_Generation s = (if generation = 0 then 1 else generation) \<and> sn_CompiledAt s = now
    \<and> sn_BootstrapRevision s = (if bootRev = [] then sn_Revision s else bootRev)"
  using Compile_sound [OF assms] Compile_header [OF assms] by simp

theorem compiled_snapshot_sound_witness:
  "\<exists>s. Compile sample_comp 1000 7 ''boot'' (sample_config ''never'') = Inr s
    \<and> compiled_from sample_comp (Normalize (sample_config ''never'')) s \<and> sn_Generation s = 7"
proof -
  obtain s where s: "Compile sample_comp 1000 7 ''boot'' (sample_config ''never'') = Inr s"
    using sample_compiles [of "''never''"] by blast
  from compiled_snapshot_sound [OF s] s show ?thesis by auto
qed

end
