(* ===== verification/Loginui_Props.thy ===== *)
theory Loginui_Props
  imports Loginui Login_Props Limiter_Props Compiler_Props
begin

text \<open>
  Properties of the login pages: the login limiter equals the token limiter, request data brings no
  markup into a page, the cost of a password check does not depend on the user name, a session is
  opened only for a user who presented every required factor, and consent completes only with a
  usable session.
\<close>

section \<open>The limiter\<close>

lemma keep_after_filter: "keep_after c kept ts = kept @ filter (\<lambda>t. After t c) ts"
  by (induction ts arbitrary: kept) auto

lemma gmap_eqI: "entries m = entries n \<Longrightarrow> m = n"
  by (simp add: entries_inject)

lemma entries_gsweep [simp]: "entries (gsweep P m) = filter (\<lambda>e. \<not> P (snd e)) (entries m)"
  by transfer simp

lemma delete_not_stale:
  "distinct (map fst xs) \<Longrightarrow> map_of xs k = Some v \<Longrightarrow> AList.delete k xs = filter (\<lambda>e. \<not> (fst e = k \<and> P (snd e))) xs"
  if "P v"
proof (induction xs)
  case Nil
  then show ?case by simp
next
  case (Cons e xs)
  have "k \<notin> fst ` set xs" if "fst e = k" using Cons.prems(1) that by auto
  then have "\<forall>x \<in> set xs. \<not> (fst x = k \<and> P (snd x))" if "fst e = k"
    using that by (metis image_eqI)
  then have "filter (\<lambda>e. \<not> (fst e = k \<and> P (snd e))) xs = xs" if "fst e = k"
    using that by (intro filter_True) blast
  moreover have "AList.delete k xs = xs" if "fst e = k"
    using \<open>fst e = k \<Longrightarrow> k \<notin> fst ` set xs\<close> that by (simp add: delete_id)
  ultimately show ?case using Cons \<open>P v\<close> by (cases e) auto
qed

text \<open>The loop over the keys removes exactly the stale rows among them.\<close>

lemma entries_sweep_keys:
  assumes "distinct ks" "set ks \<subseteq> set (gkeys m)"
  shows "entries (sweep_keys c ks m) = filter (\<lambda>e. \<not> (fst e \<in> set ks \<and> stale c (snd e))) (entries m)"
  using assms
proof (induction ks arbitrary: m)
  case Nil
  then show ?case by simp
next
  case (Cons k ks)
  from Cons.prems obtain v where v: "gget m k = Some v" by (auto simp: gkeys_set)
  define m1 where "m1 = (if stale c v then gdel k m else m)"
  have d: "distinct (map fst (entries m))" using entries [of m] by simp
  have mo: "map_of (entries m) k = Some v" using v by (simp add: gget.rep_eq)
  have e1: "entries m1 = filter (\<lambda>e. \<not> (fst e = k \<and> stale c (snd e))) (entries m)"
  proof (cases "stale c v")
    case True
    then show ?thesis using delete_not_stale [of "stale c", OF True d mo] by (simp add: m1_def)
  next
    case False
    have "\<not> (fst e = k \<and> stale c (snd e))" if "e \<in> set (entries m)" for e
      using map_of_is_SomeI [OF d, of "fst e" "snd e"] that mo False by auto
    then show ?thesis using False by (simp add: m1_def)
  qed
  have "set ks \<subseteq> set (gkeys m1)"
    using Cons.prems by (auto simp: gkeys_set m1_def subset_iff)
  moreover have "sweep_keys c (k # ks) m = sweep_keys c ks m1"
    using v by (simp add: m1_def stale_def gget_or_def Let_def)
  ultimately show ?case
    using Cons.IH [of m1] Cons.prems(1)
    by (simp add: e1 conj_commute) (rule filter_cong; auto)
qed

lemma sweep_keys_gsweep: "sweep_keys c (gkeys m) m = gsweep (stale c) m"
proof (rule gmap_eqI)
  have "distinct (gkeys m)" using entries [of m] by (simp add: gkeys.rep_eq)
  then have "entries (sweep_keys c (gkeys m) m)
      = filter (\<lambda>e. \<not> (fst e \<in> set (gkeys m) \<and> stale c (snd e))) (entries m)"
    by (rule entries_sweep_keys) simp
  also have "\<dots> = filter (\<lambda>e. \<not> stale c (snd e)) (entries m)"
    by (rule filter_cong) (auto simp: gkeys.rep_eq)
  finally show "entries (sweep_keys c (gkeys m) m) = entries (gsweep (stale c) m)" by simp
qed

text \<open>
  The login limiter and the token limiter are the same limiter: the loops of \<^verbatim>\<open>loginui/ui.go\<close>, run
  over the keys and the instants in any map, give the answer and the table of \<^verbatim>\<open>oidc/limit.go\<close>, so that
  what is proved of the one holds of the other.
\<close>

theorem login_limiter_equivalent: "allow_login now key l = allow now key l"
  unfolding allow_login_def allow_def Let_def sweep_keys_gsweep keep_after_filter maxKeys_def append_Nil
  by (rule refl)

section \<open>Pages\<close>

lemma markup_familyHead: "markup (familyHead t) = markup (familyHead [])"
  by (simp only: familyHead_def markup_append markup_EscapeString)

lemma markup_if: "markup (if b then x else y) = (if b then markup x else markup y)"
  by simp

lemma markup_page_foot [simp]: "markup (page_foot mfa mode) = []"
proof -
  have "markup ''Data-plane login. MFA mode force-fail rejects after password.'' = []"
    "markup ''Data-plane login. TOTP is required because mode is '' = []"
    "markup ''. Submit username, password, and the 6-digit code.'' = []"
    "markup ''Data-plane login. Not the operator SPA. Cookie is the clothes name, not labsso_session.'' = []"
    by (simp_all add: markup_def is_markup_def)
  then show ?thesis
    by (simp only: page_foot_def markup_if markup_append markup_EscapeString append_Nil if_cancel)
qed

text \<open>A snapshot with nothing to show: no issuer, no titles, no vendor name.\<close>

definition bare :: "snapshot option \<Rightarrow> snapshot option" where
  "bare s = map_option (\<lambda>snap. snap\<lparr>sn_Issuer := [], sn_Clothes := zero_clothes\<rparr>) s"

definition shown :: "string \<Rightarrow> string" where
  "shown msg = (if msg = [] then [] else ''!'')"

lemma loginClothes_mode: "snd (snd (snd (snd (loginClothes (bare s))))) = snd (snd (snd (snd (loginClothes s))))"
  by (cases s) (simp_all add: loginClothes_def bare_def mfa_mode_def)

lemma markup_loginPage: "markup (loginPage s pid msg user mfa) = markup (loginPage (bare s) [] (shown msg) [] mfa)"
proof -
  obtain t h i v m where c: "loginClothes s = (t, h, i, v, m)" by (metis prod_cases5)
  obtain t' h' i' v' where c': "loginClothes (bare s) = (t', h', i', v', m)"
    using loginClothes_mode [of s] c by (metis prod_cases5 snd_conv)
  have "shown msg = [] \<longleftrightarrow> msg = []" by (simp add: shown_def)
  then show ?thesis
    by (simp only: loginPage_def c c' Let_def prod.case markup_append markup_EscapeString markup_if markup_page_foot
        markup_familyHead [of t] markup_familyHead [of t'])
qed

lemma markup_consentPage: "markup (consentPage s pid) = markup (consentPage None [])"
  by (cases s) (simp_all only: consentPage_def Let_def option.case prod.case markup_append markup_EscapeString
      markup_familyHead [of "non_empty _ _"] markup_familyHead [of "''LabSSO consent''"])

text \<open>
  C30. No markup from outside: the quotes and angle brackets of the login page, the consent page and the
  two self-posting forms, in their order, are those of the page with every text blanked; whatever
  pending identifier, user name, error, issuer, title, relay state or URL is shown adds none.
\<close>

theorem pages_no_injection:
  "markup (loginPage s pid msg user mfa) = markup (loginPage (bare s) [] (shown msg) [] mfa)
   \<and> markup (consentPage s pid) = markup (consentPage None [])
   \<and> markup (autoPostForm acs doc relay) = markup (autoPostForm [] [] (shown relay))
   \<and> markup (autoPost_wsfed acs doc relay) = markup (autoPost_wsfed [] [] (shown relay))"
proof -
  have "shown relay = [] \<longleftrightarrow> relay = []" by (simp add: shown_def)
  then show ?thesis
    using markup_loginPage [of s pid msg user mfa] markup_consentPage [of s pid]
    by (simp only: autoPostForm_def autoPost_wsfed_def Let_def markup_append markup_EscapeString markup_if simp_thms)
qed

section \<open>The cost of a password check\<close>

text \<open>The number of Argon2id derivations among the verified credentials.\<close>

definition derivations :: "credential list \<Rightarrow> nat" where
  "derivations cs = length (filter cr_hashed cs)"

definition attempted :: "snapshot \<Rightarrow> string \<Rightarrow> user" where
  "attempted snap username = (case findUser (Some snap) username of Some x \<Rightarrow> x | None \<Rightarrow> zero_user)"

lemma Parse_kind: "Parse h raw hashed = Inr c \<Longrightarrow> cr_hashed c = hashed \<and> \<not> cr_dummy c"
  by (auto simp: Parse_def Let_def zero_credential_def split: if_splits sum.splits option.splits)

lemma Dummy_hashed [simp]: "cr_hashed (Dummy b) = b"
  by (simp add: Dummy_def zero_credential_def)

lemma user_credential_kind: "user_credential K u = Some c \<Longrightarrow> cr_hashed c = (us_PasswordHashRef u \<noteq> [])"
  by (auto simp: user_credential_def Let_def dest!: Parse_kind split: sum.splits)

lemma attempted_cases:
  assumes "compiled_from K d snap"
  obtains u c where "attempted snap username = u" "u \<in> set (sp_Users (dc_Spec d))"
      "PasswordOf (Some snap) (us_ID u) = Some c" "cr_hashed c = (us_PasswordHashRef u \<noteq> [])"
  | "attempted snap username = zero_user" "PasswordOf (Some snap) (us_ID zero_user) = None"
proof (cases "findUser (Some snap) username")
  case None
  have "[] \<notin> us_ID ` set (sp_Users (dc_Spec d))"
    using assms by (auto simp: compiled_from_def well_formed_def user_ok_def Let_def)
  then have "PasswordOf (Some snap) (us_ID zero_user) = None"
    using assms by (simp add: compiled_from_def PasswordOf_def zero_user_def Let_def)
  then show ?thesis using None that(2) by (simp add: attempted_def)
next
  case (Some x)
  then have m: "x \<in> set (sp_Users (dc_Spec d))"
    using assms by (auto simp: findUser_def canonical_users_def compiled_from_def find_Some_iff Let_def)
  then obtain c where c: "user_credential K x = Some c" "gget (sn_passwords snap) (us_ID x) = Some c"
    using assms unfolding compiled_from_def Let_def by (metis (no_types, lifting) not_Some_eq)
  show ?thesis
    by (rule that(1) [of x c]) (use Some m c user_credential_kind in \<open>simp_all add: attempted_def PasswordOf_def\<close>)
qed

text \<open>
  The cost of a login attempt does not tell users apart: with a compiled snapshot, a password check
  runs exactly one Argon2id derivation when some user has a hashed password and none otherwise,
  whether the name is unknown, disabled, or belongs to a user with a plain or a hashed password,
  and whatever password is sent.
\<close>

theorem login_cost_uniform:
  assumes "Compile K now generation bootRev doc = Inr snap"
  shows "derivations (snd (checkPassword E snap (attempted snap username) password))
    = (if \<exists>u \<in> set (sp_Users (dc_Spec (Normalize doc))). us_PasswordHashRef u \<noteq> [] then 1 else 0)"
proof -
  have cf: "compiled_from K (Normalize doc) snap" by (rule Compile_sound [OF assms])
  let ?us = "sp_Users (dc_Spec (Normalize doc))"
  have users: "canonical_users (Some snap) = ?us"
    using cf by (simp add: compiled_from_def canonical_users_def Let_def)
  show ?thesis
    by (rule attempted_cases [OF cf, of username])
      (auto simp: checkPassword_def derivations_def users list_ex_iff Let_def)
qed

theorem login_cost_uniform_witness:
  "\<exists>snap. Compile sample_comp 1000 7 ''boot'' (sample_config ''never'') = Inr snap
    \<and> derivations (snd (checkPassword sample_env snap (attempted snap ''nobody'') ''guess'')) = 0"
proof -
  obtain snap where s: "Compile sample_comp 1000 7 ''boot'' (sample_config ''never'') = Inr snap"
    using sample_compiles [of "''never''"] by blast
  have "\<not> (\<exists>u \<in> set (sp_Users (dc_Spec (Normalize (sample_config ''never'')))). us_PasswordHashRef u \<noteq> [])"
    by code_simp
  then show ?thesis using login_cost_uniform [OF s, of sample_env "''nobody''" "''guess''"] s by auto
qed

section \<open>Sessions\<close>

text \<open>\<open>r'\<close> has no session that \<open>r\<close> has not.\<close>

definition no_new_session :: "runtime \<Rightarrow> runtime \<Rightarrow> bool" where
  "no_new_session r r' \<longleftrightarrow> (\<forall>k x. gget (rt_sessions r') k = Some x \<longrightarrow> gget (rt_sessions r) k = Some x)"

lemma no_new_refl [simp]: "no_new_session r r"
  by (simp add: no_new_session_def)

lemma no_new_trans: "no_new_session r r1 \<Longrightarrow> no_new_session r1 r2 \<Longrightarrow> no_new_session r r2"
  by (simp add: no_new_session_def)

lemma no_new_same: "rt_sessions r' = rt_sessions r \<Longrightarrow> no_new_session r r'"
  by (simp add: no_new_session_def)

lemma sessions_kept [simp]:
  "rt_sessions (snd (GetPending now k r)) = rt_sessions r"
  "rt_sessions (snd (TakePending now k r)) = rt_sessions r"
  "rt_sessions (snd (VerifyAndRecordTOTPGeneration h uid sec code now g r)) = rt_sessions r"
  "rt_sessions (snd (pendingClient now k r)) = rt_sessions r"
  by (auto simp: GetPending_def TakePending_def livePendingLocked_def VerifyAndRecordTOTPGeneration_def pendingClient_def
      Let_def case_prod_unfold split: option.splits)

lemma no_new_ops:
  "no_new_session r (snd (GetSession now k r))" "no_new_session r (snd (PutCode now c r))"
  "no_new_session r (Reject reason r)"
  by (auto simp: no_new_session_def GetSession_def PutCode_def cleanupLocked_def Let_def split: option.splits if_splits)

lemma ui_rt_set [simp]: "ui_rt (set_ui_rt r u) = r"
  by (simp add: ui_rt_def set_ui_rt_def)

lemma ui_rt_oidc [simp]: "ui_rt (u\<lparr>ui_oidc := p\<rparr>) = pv_rt p" "ui_rt (u\<lparr>ui_limit := l\<rparr>) = ui_rt u"
  by (simp_all add: ui_rt_def)

lemma set_ui_rt_same [simp]: "set_ui_rt (ui_rt u) u = u"
  by (simp add: ui_rt_def set_ui_rt_def)

lemma finishPending_sessions [simp]: "rt_sessions (snd (finishPending L K s rq pid uid ok mfa r)) = rt_sessions r"
  unfolding finishPending_def Let_def case_prod_unfold by (simp split: option.split sum.split)

lemma finish_wsfed_sessions [simp]: "rt_sessions (snd (finish_wsfed L K s rq pid uid ok mfa r)) = rt_sessions r"
  unfolding finish_wsfed_def Let_def case_prod_unfold by (simp split: option.split sum.split)

lemma CompleteLogin_no_new: "no_new_session (pv_rt p) (pv_rt (snd (CompleteLoginSnapshot E s rq pid uid un mfa p)))"
proof -
  have put: "no_new_session r (snd (PutCode now c (snd (TakePending t k r'))))" if "rt_sessions r' = rt_sessions r" for r r' now c t k
    by (rule no_new_trans [OF no_new_same no_new_ops(2)]) (simp add: that)
  show ?thesis
    unfolding CompleteLoginSnapshot_def Let_def case_prod_unfold
    by (auto simp: put no_new_same split: option.split)
qed

lemma DenyConsent_sessions: "rt_sessions (pv_rt (snd (DenyConsentSnapshot E s rq pid p))) = rt_sessions (pv_rt p)"
  unfolding DenyConsentSnapshot_def Let_def case_prod_unfold by (simp split: option.split)

lemma dispatch_no_new:
  assumes "\<And>r. no_new_session r (snd (w r))" "\<And>r. no_new_session r (snd (m r))"
    and "\<And>p. no_new_session (pv_rt p) (pv_rt (snd (o' p)))"
  shows "no_new_session (ui_rt u) (ui_rt (snd (dispatch rq pid w m o' u)))"
proof -
  let ?r1 = "snd (GetPending (rq_clk rq 30) pid (ui_rt u))" and ?r2 = "\<lambda>r. snd (GetPending (rq_clk rq 31) pid r)"
  have g: "no_new_session (ui_rt u) ?r1" "no_new_session (ui_rt u) (?r2 ?r1)" by (simp_all add: no_new_same)
  have "no_new_session (?r2 ?r1) (pv_rt (snd (o' (ui_oidc (set_ui_rt (?r2 ?r1) u)))))"
    using assms(3) [of "ui_oidc (set_ui_rt (?r2 ?r1) u)"] by (simp add: set_ui_rt_def)
  then show ?thesis
    using no_new_trans [OF g(1) assms(1) [of ?r1]] no_new_trans [OF g(2) assms(2) [of "?r2 ?r1"]] no_new_trans [OF g(2)]
    by (simp add: dispatch_def Let_def case_prod_unfold)
qed

lemma finish_no_new: "no_new_session (ui_rt u) (ui_rt (snd (finish E L K s rq pid uid un mfa u)))"
  unfolding finish_def CompleteSnapshot_wsfed_def CompleteSnapshot_def
  by (rule dispatch_no_new) (simp_all add: no_new_same CompleteLogin_no_new)

text \<open>The session that a login opens, and what the login must have presented.\<close>

definition login_session :: "snapshot \<Rightarrow> request \<Rightarrow> user \<Rightarrow> loginsession" where
  "login_session snap rq u = \<lparr>ss_Generation = sn_Generation snap, ss_ID = rq_rnd rq 34, ss_UserID = us_ID u,
     ss_Username = us_Username u, ss_Expires = rq_clk rq 33 + session_ttl snap, ss_MFACompleted = (mfa_mode snap = ''always'')\<rparr>"

definition authenticated :: "env \<Rightarrow> snapshot \<Rightarrow> request \<Rightarrow> user \<Rightarrow> runtime \<Rightarrow> bool" where
  "authenticated E snap rq u r \<longleftrightarrow> findUser (Some snap) (FormValue rq ''username'') = Some u
     \<and> (\<exists>c. PasswordOf (Some snap) (us_ID u) = Some c
          \<and> verify (ev_sha256 E) (ev_argon2 E) c (FormValue rq ''password''))
     \<and> mfa_mode snap \<noteq> ''force-fail''
     \<and> (mfa_mode snap = ''always'' \<longrightarrow> (\<exists>secret step. totpSecret snap u r = Some secret
          \<and> Verify (ev_hmac1 E) secret (FormValue rq ''mfa'') (rq_clk rq 32) = Some step
          \<and> (\<forall>l. gget (rt_totpLastStep r) (us_ID u) = Some l \<longrightarrow> l < step)))"

lemma PutSession_new:
  "gget (rt_sessions (snd (PutSession now rid s r))) k = Some x \<Longrightarrow> gget (rt_sessions r) k = Some x \<or>
     (k = ss_ID x \<and> x = (if ss_ID s = [] then s\<lparr>ss_ID := rid\<rparr> else s) \<and> \<not> stale_generation (ss_Generation s) r)"
  by (auto simp: PutSession_def cleanupLocked_def Let_def split: if_splits)

lemma open_session_new:
  assumes "gget (rt_sessions (ui_rt (snd (open_session E L K snap rq pid rec mfaOK u)))) k = Some x"
    and "gget (rt_sessions (ui_rt u)) k \<noteq> Some x"
  shows "x = (login_session snap rq rec)\<lparr>ss_MFACompleted := mfaOK\<rparr> \<and> k = rq_rnd rq 34
    \<and> \<not> stale_generation (sn_Generation snap) (ui_rt u)"
proof -
  let ?s = "zero_session\<lparr>ss_Generation := sn_Generation snap, ss_UserID := us_ID rec, ss_Username := us_Username rec,
    ss_Expires := rq_clk rq 33 + session_ttl snap, ss_MFACompleted := mfaOK\<rparr>"
  let ?r = "snd (PutSession (rq_clk rq 34) (rq_rnd rq 34) ?s (ui_rt u))"
  have fin: "no_new_session r (ui_rt (snd (finish E L K s rq pid uid un mfa (set_ui_rt r u'))))" for r s uid un mfa u'
    using finish_no_new [of "set_ui_rt r u'" E L K s rq pid uid un mfa] by simp
  have "no_new_session ?r (ui_rt (snd (open_session E L K snap rq pid rec mfaOK u)))"
    unfolding open_session_def Let_def case_prod_unfold
    by (auto intro: no_new_same no_new_trans [OF no_new_same fin])
  with assms(1) have "gget (rt_sessions ?r) k = Some x" by (simp add: no_new_session_def)
  from PutSession_new [OF this] assms(2) show ?thesis
    by (auto simp: zero_session_def login_session_def)
qed

lemma second_factor_new:
  assumes "gget (rt_sessions (ui_rt (snd (second_factor E L K snap rq pid rec u)))) k = Some x"
    and "gget (rt_sessions (ui_rt u)) k \<noteq> Some x"
  shows "x = login_session snap rq rec \<and> k = rq_rnd rq 34 \<and> \<not> stale_generation (sn_Generation snap) (ui_rt u)
    \<and> mfa_mode snap \<noteq> ''force-fail''
    \<and> (mfa_mode snap = ''always'' \<longrightarrow> (\<exists>secret step. totpSecret snap rec (ui_rt u) = Some secret
         \<and> Verify (ev_hmac1 E) secret (FormValue rq ''mfa'') (rq_clk rq 32) = Some step
         \<and> (\<forall>l. gget (rt_totpLastStep (ui_rt u)) (us_ID rec) = Some l \<longrightarrow> l < step)))"
proof -
  define res where "res = (case totpSecret snap rec (ui_rt u) of
      None \<Rightarrow> (False, ui_rt u)
    | Some secret \<Rightarrow> VerifyAndRecordTOTPGeneration (ev_hmac1 E) (us_ID rec) secret (FormValue rq ''mfa'')
        (rq_clk rq 32) (sn_Generation snap) (ui_rt u))"
  have same: "rt_sessions (snd res) = rt_sessions (ui_rt u)" "rt_minimumGeneration (snd res) = rt_minimumGeneration (ui_rt u)"
    by (auto simp: res_def VerifyAndRecordTOTPGeneration_def split: option.split)
  have ff: "mfa_mode snap \<noteq> ''force-fail''"
    using assms by (auto simp: second_factor_def non_empty_def ui_reject_def Let_def)
  show ?thesis
  proof (cases "mfa_mode snap = ''always''")
    case False
    then have "second_factor E L K snap rq pid rec u = open_session E L K snap rq pid rec False u"
      using ff by (simp add: second_factor_def non_empty_def Let_def)
    with assms have "x = (login_session snap rq rec)\<lparr>ss_MFACompleted := False\<rparr> \<and> k = rq_rnd rq 34
        \<and> \<not> stale_generation (sn_Generation snap) (ui_rt u)" by (auto dest: open_session_new)
    with False ff show ?thesis by (simp add: login_session_def)
  next
    case True
    then have ok: "fst res" and "second_factor E L K snap rq pid rec u = open_session E L K snap rq pid rec True (set_ui_rt (snd res) u)"
      using assms same by (auto simp: second_factor_def non_empty_def ui_reject_def Let_def case_prod_unfold res_def [symmetric] split: if_splits)
    with assms same have "x = (login_session snap rq rec)\<lparr>ss_MFACompleted := True\<rparr> \<and> k = rq_rnd rq 34
        \<and> \<not> stale_generation (sn_Generation snap) (snd res)" by (auto dest: open_session_new)
    moreover have "\<exists>secret step. totpSecret snap rec (ui_rt u) = Some secret
         \<and> Verify (ev_hmac1 E) secret (FormValue rq ''mfa'') (rq_clk rq 32) = Some step
         \<and> (\<forall>l. gget (rt_totpLastStep (ui_rt u)) (us_ID rec) = Some l \<longrightarrow> l < step)"
      using ok by (auto simp: res_def VerifyAndRecordTOTPGeneration_def split: option.splits if_splits)
    ultimately show ?thesis using True ff same by (simp add: login_session_def stale_generation_def)
  qed
qed

lemma checkPassword_ok:
  "fst (checkPassword E snap u provided) \<longleftrightarrow>
     (\<exists>c. PasswordOf (Some snap) (us_ID u) = Some c \<and> verify (ev_sha256 E) (ev_argon2 E) c provided)"
  by (auto simp: checkPassword_def Let_def split: option.splits)

lemma login_attempt_new:
  assumes "gget (rt_sessions (ui_rt (snd (login_attempt E L K s rq u)))) k = Some x"
    and "gget (rt_sessions (ui_rt u)) k \<noteq> Some x"
  shows "\<exists>snap rec pend. s = Some snap \<and> authenticated E snap rq rec (ui_rt u) \<and> x = login_session snap rq rec
    \<and> k = rq_rnd rq 34 \<and> \<not> stale_generation (sn_Generation snap) (ui_rt u) \<and> \<not> rt_forceFail (ui_rt u)
    \<and> gget (rt_pending (ui_rt u)) (FormValue rq ''pending'') = Some pend \<and> PendingUsable s pend"
proof -
  let ?pid = "FormValue rq ''pending''"
  have g: "\<not> rt_forceFail (ui_rt u)" "s \<noteq> None"
    using assms by (auto simp: login_attempt_def ui_reject_def Let_def split: if_splits option.splits)
  then obtain snap where s: "s = Some snap" by auto
  obtain pend r1 where f: "GetPending (rq_clk rq 36) ?pid (ui_rt u) = (Some pend, r1)" "PendingUsable s pend"
    using assms g s by (auto simp: login_attempt_def case_prod_unfold Let_def prod_eq_iff split: if_splits option.splits)
  note found = livePending_found [OF f(1)]
  obtain rec where rec: "findUser s (FormValue rq ''username'') = Some rec"
    "fst (checkPassword E snap rec (FormValue rq ''password''))"
    using assms g s f found
    by (auto simp: login_attempt_def ui_reject_def case_prod_unfold Let_def split: if_splits option.splits bool.splits)
  have "login_attempt E L K s rq u = second_factor E L K snap rq ?pid rec u"
    using g s f found rec by (simp add: login_attempt_def Let_def)
  with second_factor_new [of E L K snap rq ?pid rec u k x] assms g s f found rec show ?thesis
    by (auto simp: authenticated_def checkPassword_ok)
qed

text \<open>
  C7. A login opens a session only for a user who presented every factor: when the login endpoint leaves a
  session that was not there, the attempt was under the rate limit, nothing forces a failure, the
  pending request is stored and still allowed, the named user is enabled, the password verifies
  against the credential of that very user, and in mode \<open>always\<close> the one-time code verifies at a step
  that was not used before. The session is the user's, of the snapshot's generation, and records
  the second factor exactly when it was required.
\<close>

theorem login_sound:
  assumes "gget (rt_sessions (ui_rt (snd (postLogin E L K s rq u)))) k = Some x"
    and "gget (rt_sessions (ui_rt u)) k \<noteq> Some x"
  shows "\<exists>snap rec pend. s = Some snap \<and> authenticated E snap rq rec (ui_rt u) \<and> x = login_session snap rq rec
    \<and> k = rq_rnd rq 34 \<and> \<not> stale_generation (sn_Generation snap) (ui_rt u) \<and> \<not> rt_forceFail (ui_rt u)
    \<and> gget (rt_pending (ui_rt u)) (FormValue rq ''pending'') = Some pend \<and> PendingUsable s pend
    \<and> ui_verifies u < 4 \<and> fst (allow_login (rq_clk rq 37) (clientIP rq) (ui_limit u)) \<and> rq_FormOK rq"
proof -
  have "ui_verifies u < 4 \<and> fst (allow_login (rq_clk rq 37) (clientIP rq) (ui_limit u)) \<and> rq_FormOK rq"
    and "snd (postLogin E L K s rq u)
      = snd (login_attempt E L K s rq (u\<lparr>ui_limit := snd (allow_login (rq_clk rq 37) (clientIP rq) (ui_limit u))\<rparr>))"
    using assms by (auto simp: postLogin_def Let_def case_prod_unfold not_le split: if_splits)
  with assms login_attempt_new [of E L K s rq "u\<lparr>ui_limit := snd (allow_login (rq_clk rq 37) (clientIP rq) (ui_limit u))\<rparr>" k x]
  show ?thesis by simp
qed

text \<open>Ann signs in at a lab without a second factor.\<close>

definition login_snap :: snapshot where
  "login_snap = sample_snap\<lparr>sn_passwords := gput ''u1'' (zero_credential\<lparr>cr_plain := sample_digest\<rparr>) gempty\<rparr>"

definition login_request :: request where
  "login_request = sample_request ''POST'' []
     [(''pending'', ''q1''), (''username'', ''ann''), (''password'', ''pw''), (''approve'', ''1'')]"

definition sample_saml :: samllib where
  "sample_saml = \<lparr>sl_tokens = (\<lambda>_. ([], True)), sl_authn = (\<lambda>_. None), sl_metadata = (\<lambda>_. None),
     sl_inflate = (\<lambda>s n. Some s), sl_certificate = Some, sl_signEnveloped = (\<lambda>_ e. Some e), sl_write = (\<lambda>_. Some ''doc'')\<rparr>"

definition sample_ui :: ui where "sample_ui = NewUI sample_waiting True True"

lemma login_opens:
  "gget (rt_sessions (ui_rt (snd (postLogin sample_env sample_saml sample_comp (Some login_snap) login_request sample_ui)))) ''rnd''
     = Some (login_session login_snap login_request sample_user)"
  by code_simp

theorem login_sound_witness:
  "\<exists>rec pend. authenticated sample_env login_snap login_request rec (ui_rt sample_ui)
    \<and> gget (rt_pending (ui_rt sample_ui)) ''q1'' = Some pend \<and> PendingUsable (Some login_snap) pend"
proof -
  have "gget (rt_sessions (ui_rt sample_ui)) ''rnd'' \<noteq> Some (login_session login_snap login_request sample_user)"
    by (simp add: sample_ui_def NewUI_def ui_rt_def sample_waiting_def New_def NewRuntime_def)
  moreover have "FormValue login_request ''pending'' = ''q1''" by code_simp
  ultimately show ?thesis using login_sound [OF login_opens] by auto
qed

section \<open>Consent\<close>

lemma CompleteLogin_new_code:
  assumes "gget (rt_codes (pv_rt (snd (CompleteLoginSnapshot E s rq pid uid un mfa p)))) k = Some c"
    and "gget (rt_codes (pv_rt p)) k \<noteq> Some c"
  shows "\<exists>snap pend. s = Some snap \<and> gget (rt_pending (pv_rt p)) pid = Some pend \<and> oidc_pending_ok s pend
    \<and> UserUsable s uid \<and> SessionUsable (zero_session\<lparr>ss_MFACompleted := mfa\<rparr>) (mfa_mode snap)
    \<and> \<not> rt_forceFail (pv_rt p) \<and> c = completed_code snap rq pend uid un mfa"
proof -
  obtain snap where s: "s = Some snap" and g: "UserUsable s uid"
    "SessionUsable (zero_session\<lparr>ss_MFACompleted := mfa\<rparr>) (mfa_mode snap)"
    "\<not> rt_forceFail (pv_rt p)" "GenerationUsable (sn_Generation snap) (pv_rt p)" "sn_Canonical snap \<noteq> None"
    using assms by (auto simp: CompleteLoginSnapshot_def split: if_splits option.splits)
  have gp: "rt_codes (snd (GetPending now pid r)) = rt_codes r" for now r
    by (simp add: GetPending_def livePendingLocked_def split: option.split)
  obtain pend r1 where f: "GetPending (rq_clk rq 10) pid (pv_rt p) = (Some pend, r1)" "oidc_pending_ok s pend"
    using assms s g gp by (auto simp: CompleteLoginSnapshot_def case_prod_unfold Let_def prod_eq_iff split: if_splits option.splits)
  note found = livePending_found [OF f(1)]
  let ?r2 = "snd (TakePending (rq_clk rq 11) pid (pv_rt p))"
  have "gget (rt_codes (snd (PutCode (rq_clk rq 13) (completed_code snap rq pend uid un mfa) ?r2))) k = Some c"
    using assms s g f found
    by (auto simp: CompleteLoginSnapshot_def case_prod_unfold Let_def split: if_splits option.splits)
  with PutCode_new [of "rq_clk rq 13" "completed_code snap rq pend uid un mfa" ?r2 k c] assms(2)
  have "c = completed_code snap rq pend uid un mfa" by auto
  with s g f found show ?thesis by auto
qed

lemma finishPending_codes [simp]: "rt_codes (snd (finishPending L K s rq pid uid ok mfa r)) = rt_codes r"
  unfolding finishPending_def Let_def case_prod_unfold
  by (simp add: GetPending_def livePendingLocked_def split: option.split sum.split)

lemma finish_wsfed_codes [simp]: "rt_codes (snd (finish_wsfed L K s rq pid uid ok mfa r)) = rt_codes r"
  unfolding finish_wsfed_def Let_def case_prod_unfold
  by (simp add: GetPending_def livePendingLocked_def split: option.split sum.split)

lemma GetPending_frame:
  "rt_codes (snd (GetPending now k r)) = rt_codes r" "rt_forceFail (snd (GetPending now k r)) = rt_forceFail r"
  "gget (rt_pending (snd (GetPending now k r))) j = Some x \<Longrightarrow> gget (rt_pending r) j = Some x"
  by (auto simp: GetPending_def livePendingLocked_def split: option.splits if_splits)

lemma finish_new_code:
  assumes "gget (rt_codes (ui_rt (snd (finish E L K s rq pid uid un mfa u)))) k = Some c"
    and "gget (rt_codes (ui_rt u)) k \<noteq> Some c"
  shows "\<exists>snap pend. s = Some snap \<and> gget (rt_pending (ui_rt u)) pid = Some pend \<and> oidc_pending_ok s pend
    \<and> UserUsable s uid \<and> SessionUsable (zero_session\<lparr>ss_MFACompleted := mfa\<rparr>) (mfa_mode snap)
    \<and> \<not> rt_forceFail (ui_rt u) \<and> c = completed_code snap rq pend uid un mfa"
proof -
  let ?r = "snd (GetPending (rq_clk rq 31) pid (snd (GetPending (rq_clk rq 30) pid (ui_rt u))))"
  let ?p = "ui_oidc (set_ui_rt ?r u)"
  have p: "pv_rt ?p = ?r" by (simp add: set_ui_rt_def)
  have "gget (rt_codes (pv_rt (snd (CompleteLoginSnapshot E s rq pid uid un mfa ?p)))) k = Some c"
    using assms by (auto simp: finish_def dispatch_def CompleteSnapshot_wsfed_def CompleteSnapshot_def Let_def case_prod_unfold
        GetPending_frame(1) split: if_splits)
  from CompleteLogin_new_code [OF this] assms(2) show ?thesis
    by (fastforce simp: p GetPending_frame(1,2) dest: GetPending_frame(3))
qed

lemma deny_codes: "rt_codes (ui_rt (snd (deny E L K s rq pid u))) = rt_codes (ui_rt u)"
proof -
  have "rt_codes (pv_rt (snd (DenyConsentSnapshot E s rq pid p))) = rt_codes (pv_rt p)" for p
    unfolding DenyConsentSnapshot_def Let_def case_prod_unfold by (simp add: GetPending_frame(1) split: option.split)
  then show ?thesis
    by (simp add: deny_def dispatch_def DenySnapshot_wsfed_def DenySnapshot_def Let_def case_prod_unfold GetPending_frame(1))
      (simp add: set_ui_rt_def GetPending_frame(1))
qed

text \<open>
  C8. Consent is given by the signed-in user only: a code that appears when the consent form is posted was
  approved, the browser presented the cookie of a live session that satisfies the second-factor mode,
  the session's user is enabled and nothing forces a failure; the code is that of the stored
  request for the session's user, and carries the session's second-factor mark.
\<close>

theorem consent_sound:
  assumes "gget (rt_codes (ui_rt (snd (postConsent E L K s rq u)))) k = Some c"
    and "gget (rt_codes (ui_rt u)) k \<noteq> Some c"
  shows "\<exists>snap pend sid sess. s = Some snap \<and> FormValue rq ''approve'' = ''1'' \<and> Cookie rq (CookieName s) = Some sid
    \<and> gget (rt_sessions (ui_rt u)) sid = Some sess \<and> \<not> session_expired (rq_clk rq 38) sess
    \<and> SessionUsable sess (mfa_mode snap) \<and> UserUsable s (ss_UserID sess) \<and> \<not> rt_forceFail (ui_rt u)
    \<and> gget (rt_pending (ui_rt u)) (FormValue rq ''pending'') = Some pend \<and> oidc_pending_ok s pend
    \<and> c = completed_code snap rq pend (ss_UserID sess) (ss_Username sess) (ss_MFACompleted sess)"
proof -
  let ?pid = "FormValue rq ''pending''"
  have a: "FormValue rq ''approve'' = ''1''" "rq_FormOK rq"
    using assms deny_codes [of E L K s rq ?pid u] by (auto simp: postConsent_def Let_def split: if_splits)
  then obtain sid where sid: "Cookie rq (CookieName s) = Some sid"
    using assms by (auto simp: postConsent_def Let_def split: option.splits)
  obtain sess r1 where g: "GetSession (rq_clk rq 38) sid (ui_rt u) = (Some sess, r1)"
    using assms a sid GetSession_codes [of "rq_clk rq 38" sid "ui_rt u"]
    by (auto simp: postConsent_def Let_def case_prod_unfold prod_eq_iff split: option.splits)
  note live = GetSession_live [OF g]
  have r1: "r1 = ui_rt u" using GetSession_cases [OF g] by simp
  have us: "SessionUsable sess (case s of None \<Rightarrow> [] | Some snap \<Rightarrow> mfa_mode snap)" "UserUsable s (ss_UserID sess)"
    and fin: "gget (rt_codes (ui_rt (snd (finish E L K s rq ?pid (ss_UserID sess) (ss_Username sess) (ss_MFACompleted sess) u)))) k = Some c"
    using assms a sid g r1 by (auto simp: postConsent_def Let_def split: if_splits)
  from finish_new_code [OF fin assms(2)] a sid live us show ?thesis by auto
qed

definition consent_ui :: ui where
  "consent_ui = (let sess = (login_session login_snap login_request sample_user)\<lparr>ss_ID := ''sid''\<rparr>
     in set_ui_rt ((ui_rt sample_ui)\<lparr>rt_sessions := gput ''sid'' sess gempty\<rparr>) sample_ui)"

definition consent_request :: request where
  "consent_request = login_request\<lparr>rq_Cookies := [(CookieName (Some login_snap), ''sid'')]\<rparr>"

lemma consent_issues:
  "gget (rt_codes (ui_rt (snd (postConsent sample_env sample_saml sample_comp (Some login_snap) consent_request consent_ui)))) ''rnd''
     = Some (completed_code login_snap consent_request sample_pending ''u1'' ''ann'' False)"
  by code_simp

theorem consent_sound_witness:
  "\<exists>sid sess. Cookie consent_request (CookieName (Some login_snap)) = Some sid
    \<and> gget (rt_sessions (ui_rt consent_ui)) sid = Some sess \<and> SessionUsable sess (mfa_mode login_snap)"
proof -
  have "gget (rt_codes (ui_rt consent_ui)) ''rnd'' \<noteq> Some (completed_code login_snap consent_request sample_pending ''u1'' ''ann'' False)"
    by (simp add: consent_ui_def sample_ui_def NewUI_def ui_rt_def set_ui_rt_def sample_waiting_def New_def NewRuntime_def Let_def)
  then show ?thesis using consent_sound [OF consent_issues] by auto
qed

end
