(* ===== verification/Saml_Props.thy ===== *)
theory Saml_Props
  imports Loginui_Props
begin

text \<open>
  Properties of the two federation protocols. Both providers finish a pending request by the same
  protocol, stated once as the locale \<open>federation\<close> and interpreted on \<open>finishPending\<close> (SAML) and
  \<open>finish_wsfed\<close> (WS-Federation): what a finished request was, that it cannot be finished twice, and
  that a refusal keeps it. The properties add what each provider signs and where its form is posted.
\<close>

section \<open>Finishing a pending request\<close>

locale federation =
  fixes proto :: string
    and fin :: "snapshot option \<Rightarrow> request \<Rightarrow> string \<Rightarrow> string \<Rightarrow> bool \<Rightarrow> bool \<Rightarrow> runtime \<Rightarrow> (go_error + string) \<times> runtime"
    and form :: "snapshot \<Rightarrow> request \<Rightarrow> pending \<Rightarrow> string \<Rightarrow> bool \<Rightarrow> bool \<Rightarrow> go_error + string"
  assumes missing: "GetPending (rq_clk rq 20) pid r = (None, r1) \<Longrightarrow> \<exists>e. fin s rq pid uid ok mfa r = (Inl e, r1)"
    and foreign: "GetPending (rq_clk rq 20) pid r = (Some pend, r1) \<Longrightarrow> \<not> PendingUsable s pend \<or> pd_Protocol pend \<noteq> proto
      \<Longrightarrow> \<exists>e. fin s rq pid uid ok mfa r = (Inl e, r1)"
    and denied: "GetPending (rq_clk rq 20) pid r = (Some pend, r1) \<Longrightarrow> ok \<and> completion_denied snap uid mfa r1
      \<Longrightarrow> \<exists>e. fin (Some snap) rq pid uid ok mfa r = (Inl e, r1)"
    and unsigned_form: "GetPending (rq_clk rq 20) pid r = (Some pend, r1) \<Longrightarrow> form snap rq pend uid ok mfa = Inl e'
      \<Longrightarrow> \<exists>e. fin (Some snap) rq pid uid ok mfa r = (Inl e, r1)"
    and taken: "GetPending (rq_clk rq 20) pid r = (Some pend, r1) \<Longrightarrow> PendingUsable (Some snap) pend
      \<Longrightarrow> pd_Protocol pend = proto \<Longrightarrow> \<not> (ok \<and> completion_denied snap uid mfa r1) \<Longrightarrow> form snap rq pend uid ok mfa = Inr body
      \<Longrightarrow> TakePending (rq_clk rq 22) pid r1 = (taken, r2)
      \<Longrightarrow> (taken = None \<longrightarrow> (\<exists>e. fin (Some snap) rq pid uid ok mfa r = (Inl e, r2)))
        \<and> (taken \<noteq> None \<longrightarrow> fin (Some snap) rq pid uid ok mfa r = (Inr body, r2))"
begin

lemma fin_cases:
  obtains (refused) e where "fin s rq pid uid ok mfa r = (Inl e, snd (GetPending (rq_clk rq 20) pid r))"
  | (finished) snap pend where "s = Some snap" "GetPending (rq_clk rq 20) pid r = (Some pend, r)"
      "gget (rt_pending r) pid = Some pend" "PendingUsable s pend" "pd_Protocol pend = proto"
      "\<not> (ok \<and> completion_denied snap uid mfa r)" "\<exists>body. form snap rq pend uid ok mfa = Inr body"
proof (cases "GetPending (rq_clk rq 20) pid r")
  case (Pair found r1)
  show ?thesis
  proof (cases found)
    case None
    then show ?thesis using missing Pair refused by (metis snd_conv)
  next
    case (Some pend)
    with Pair have g: "GetPending (rq_clk rq 20) pid r = (Some pend, r1)" by simp
    have r1: "r1 = r" "gget (rt_pending r) pid = Some pend" using livePending_found [OF g] by simp_all
    show ?thesis
    proof (cases "PendingUsable s pend \<and> pd_Protocol pend = proto")
      case False
      then show ?thesis using foreign [OF g] g refused by (metis snd_conv)
    next
      case True
      then obtain snap where s: "s = Some snap" by (cases s) (auto simp: PendingUsable_def)
      show ?thesis
      proof (cases "form snap rq pend uid ok mfa")
        case (Inl e')
        then show ?thesis using unsigned_form [OF g] g s refused by (metis snd_conv)
      next
        case (Inr body)
        show ?thesis
        proof (cases "ok \<and> completion_denied snap uid mfa r")
          case True
          then show ?thesis using denied [OF g] g r1 s refused by (metis snd_conv)
        next
          case False
          show ?thesis by (rule that(2) [OF s]) (use g r1 True s False Inr in auto)
        qed
      qed
    qed
  qed
qed

lemma completes:
  assumes "fin s rq pid uid ok mfa r = (Inr body, r')"
  shows "\<exists>snap pend. s = Some snap \<and> gget (rt_pending r) pid = Some pend \<and> PendingUsable s pend \<and> pd_Protocol pend = proto
    \<and> \<not> (ok \<and> completion_denied snap uid mfa r) \<and> form snap rq pend uid ok mfa = Inr body \<and> gget (rt_pending r') pid = None"
proof (cases rule: fin_cases [of s rq pid uid ok mfa r])
  case (refused e)
  with assms show ?thesis by simp
next
  case (finished snap pend)
  then obtain b where b: "form snap rq pend uid ok mfa = Inr b" by blast
  obtain taken r2 where t: "TakePending (rq_clk rq 22) pid r = (taken, r2)" by fastforce
  have u: "PendingUsable (Some snap) pend" using finished by simp
  note f = taken [OF finished(2) u finished(5,6) b t]
  with assms finished(1) have k: "taken \<noteq> None" by auto
  with f assms finished(1) have "body = b" "r' = r2" by auto
  moreover have "gget (rt_pending r2) pid = None" using TakePending_gone [OF t] k by blast
  ultimately show ?thesis using finished b by blast
qed

lemma not_twice:
  assumes "gget (rt_pending r) pid = None"
  shows "\<exists>e. fin s rq pid uid ok mfa r = (Inl e, r)"
proof -
  have "GetPending (rq_clk rq 20) pid r = (None, r)" using assms by (simp add: GetPending_def livePendingLocked_def)
  then show ?thesis by (rule missing)
qed

lemma finished_once:
  assumes "fin s rq pid uid ok mfa r = (Inr body, r')"
  shows "\<exists>e. fin s' rq' pid uid' ok' mfa' r' = (Inl e, r')"
  using not_twice completes [OF assms] by blast

lemma refusal_keeps:
  assumes "fin s rq pid uid ok mfa r = (Inl e, r')" "gget (rt_pending r) pid = Some pend"
    and "\<not> pending_expired (rq_clk rq 20) pend" "\<not> pending_expired (rq_clk rq 22) pend"
  shows "r' = r"
proof (cases rule: fin_cases [of s rq pid uid ok mfa r])
  case (refused e')
  then show ?thesis
    using assms by (simp add: GetPending_def livePendingLocked_def pending_expired_def)
next
  case (finished snap pend')
  then obtain b where b: "form snap rq pend' uid ok mfa = Inr b" by blast
  have t: "TakePending (rq_clk rq 22) pid r = (Some pend, r\<lparr>rt_pending := gdel pid (rt_pending r)\<rparr>)"
    using assms by (simp add: TakePending_def livePendingLocked_def pending_expired_def)
  have u: "PendingUsable (Some snap) pend'" using finished by simp
  from taken [OF finished(2) u finished(5,6) b t] assms(1) finished(1) show ?thesis by simp
qed

end

definition saml_form :: "samllib \<Rightarrow> comp \<Rightarrow> snapshot \<Rightarrow> request \<Rightarrow> pending \<Rightarrow> string \<Rightarrow> bool \<Rightarrow> bool \<Rightarrow> go_error + string" where
  "saml_form L K snap rq pend uid ok mfa = AutoPost L K snap (user_or_zero snap uid) (pd_ACSURL pend) (pd_RequestID pend)
     (pd_SPEntityID pend) (pd_RelayState pend) (rq_clk rq 21) (rq_rnd rq 20, rq_rnd rq 21) ok mfa"

definition wsfed_form :: "samllib \<Rightarrow> comp \<Rightarrow> snapshot \<Rightarrow> request \<Rightarrow> pending \<Rightarrow> string \<Rightarrow> bool \<Rightarrow> bool \<Rightarrow> go_error + string" where
  "wsfed_form L K snap rq pend uid ok mfa = bindE (buildResponse L K snap (user_or_zero snap uid) (pd_ACSURL pend)
     (pd_RequestID pend) (pd_SPEntityID pend) (rq_clk rq 21) (rq_rnd rq 20, rq_rnd rq 21) ok mfa)
     (\<lambda>b64. Inr (autoPost_wsfed (pd_ACSURL pend) b64 (pd_RelayState pend)))"

interpretation saml: federation ProtocolSAML "finishPending L K" "saml_form L K" for L K
  by unfold_locales (auto simp: finishPending_def saml_form_def Let_def split: option.splits sum.splits)

interpretation wsfed: federation ProtocolWSFed "finish_wsfed L K" "wsfed_form L K" for L K
  by unfold_locales (auto simp: finish_wsfed_def wsfed_form_def bindE_def Let_def split: option.splits sum.splits)

section \<open>What is signed\<close>

lemma buildResponse_ok:
  assumes "buildResponse L K snap u acs irt aud now rnd True mfa = Inr b64"
  shows "\<exists>ks sg out. keyStore L K snap = Inr ks
    \<and> sl_signEnveloped L ks (assertion snap u acs irt aud now (''_'' @ snd rnd) mfa) = Some sg
    \<and> sl_write L (response_xml snap acs irt now (''_'' @ fst rnd) True [sg]) = Some out \<and> b64 = Std_Encode out"
  using assms by (auto simp: buildResponse_def response_tree_def Let_def split: option.splits)

lemma buildResponse_denial:
  assumes "buildResponse L K snap u acs irt aud now rnd False mfa = Inr b64"
  shows "\<exists>out. sl_write L (response_xml snap acs irt now (''_'' @ fst rnd) False []) = Some out \<and> b64 = Std_Encode out"
  using assms by (auto simp: buildResponse_def response_tree_def Let_def split: option.splits)

lemma not_denied:
  assumes "\<not> completion_denied snap uid mfa r"
  shows "gget (sn_UsersByID snap) uid = Some (user_or_zero snap uid)" "UserUsable (Some snap) uid"
    "SessionUsable (zero_session\<lparr>ss_MFACompleted := mfa\<rparr>) (mfa_mode snap)" "\<not> rt_forceFail r"
    "GenerationUsable (sn_Generation snap) r"
  using assms by (auto simp: completion_denied_def user_or_zero_def split: option.splits)

text \<open>
  C27. A completed SAML login: the pending request was stored, is a SAML request the snapshot still allows, and
  is gone afterwards, so that no call can complete or deny it again; the user exists and is enabled,
  the second factor satisfies the mode, nothing forces a failure and the generation is current. The
  form posts to the consumer URL of that request a response that carries the assertion about this
  user for the requesting service provider, signed with the key of the snapshot.
\<close>

theorem saml_completion_sound:
  assumes "CompleteSnapshot L K s rq pid uid mfa r = (Inr form, r')"
  shows "\<exists>snap pend u ks sg out. s = Some snap \<and> gget (rt_pending r) pid = Some pend
    \<and> gget (sn_UsersByID snap) uid = Some u \<and> PendingUsable s pend \<and> pd_Protocol pend = ProtocolSAML \<and> UserUsable s uid
    \<and> SessionUsable (zero_session\<lparr>ss_MFACompleted := mfa\<rparr>) (mfa_mode snap) \<and> \<not> rt_forceFail r
    \<and> GenerationUsable (sn_Generation snap) r \<and> keyStore L K snap = Inr ks
    \<and> sl_signEnveloped L ks (assertion snap u (pd_ACSURL pend) (pd_RequestID pend) (pd_SPEntityID pend)
         (rq_clk rq 21) (''_'' @ rq_rnd rq 21) mfa) = Some sg
    \<and> sl_write L (response_xml snap (pd_ACSURL pend) (pd_RequestID pend) (rq_clk rq 21) (''_'' @ rq_rnd rq 20) True [sg]) = Some out
    \<and> form = autoPostForm (pd_ACSURL pend) (Std_Encode out) (pd_RelayState pend)
    \<and> (\<forall>s' rq' uid' ok' mfa'. \<exists>e. finishPending L K s' rq' pid uid' ok' mfa' r' = (Inl e, r'))"
proof -
  have f: "finishPending L K s rq pid uid True mfa r = (Inr form, r')"
    using assms by (simp add: CompleteSnapshot_def)
  obtain snap pend where c: "s = Some snap" "gget (rt_pending r) pid = Some pend" "PendingUsable s pend"
    "pd_Protocol pend = ProtocolSAML" "\<not> completion_denied snap uid mfa r" "saml_form L K snap rq pend uid True mfa = Inr form"
    using saml.completes [OF f] by auto
  then obtain b where b: "buildResponse L K snap (user_or_zero snap uid) (pd_ACSURL pend) (pd_RequestID pend)
      (pd_SPEntityID pend) (rq_clk rq 21) (rq_rnd rq 20, rq_rnd rq 21) True mfa = Inr b"
    "form = autoPostForm (pd_ACSURL pend) b (pd_RelayState pend)"
    by (auto simp: saml_form_def AutoPost_def)
  from buildResponse_ok [OF b(1)] not_denied [OF c(5)] saml.finished_once [OF f] c b(2) show ?thesis by auto
qed

text \<open>
  A completed WS-Federation login: as for SAML, the stored request is a WS-Federation request that the
  snapshot still allows and is gone afterwards for good, the user and the second factor pass, and the
  form posts to the registered reply URL a response signed with the key of the snapshot, with the
  assertion about this user for the realm.
\<close>

theorem wsfed_completion_sound:
  assumes "CompleteSnapshot_wsfed L K s rq pid uid mfa r = (Inr form, r')"
  shows "\<exists>snap pend u ks sg out. s = Some snap \<and> gget (rt_pending r) pid = Some pend
    \<and> gget (sn_UsersByID snap) uid = Some u \<and> PendingUsable s pend \<and> pd_Protocol pend = ProtocolWSFed \<and> UserUsable s uid
    \<and> SessionUsable (zero_session\<lparr>ss_MFACompleted := mfa\<rparr>) (mfa_mode snap) \<and> \<not> rt_forceFail r
    \<and> GenerationUsable (sn_Generation snap) r \<and> keyStore L K snap = Inr ks
    \<and> sl_signEnveloped L ks (assertion snap u (pd_ACSURL pend) (pd_RequestID pend) (pd_SPEntityID pend)
         (rq_clk rq 21) (''_'' @ rq_rnd rq 21) mfa) = Some sg
    \<and> sl_write L (response_xml snap (pd_ACSURL pend) (pd_RequestID pend) (rq_clk rq 21) (''_'' @ rq_rnd rq 20) True [sg]) = Some out
    \<and> form = autoPost_wsfed (pd_ACSURL pend) (Std_Encode out) (pd_RelayState pend)
    \<and> (\<forall>s' rq' uid' ok' mfa'. \<exists>e. finish_wsfed L K s' rq' pid uid' ok' mfa' r' = (Inl e, r'))"
proof -
  have f: "finish_wsfed L K s rq pid uid True mfa r = (Inr form, r')"
    using assms by (simp add: CompleteSnapshot_wsfed_def)
  obtain snap pend where c: "s = Some snap" "gget (rt_pending r) pid = Some pend" "PendingUsable s pend"
    "pd_Protocol pend = ProtocolWSFed" "\<not> completion_denied snap uid mfa r" "wsfed_form L K snap rq pend uid True mfa = Inr form"
    using wsfed.completes [OF f] by auto
  then obtain b where b: "buildResponse L K snap (user_or_zero snap uid) (pd_ACSURL pend) (pd_RequestID pend)
      (pd_SPEntityID pend) (rq_clk rq 21) (rq_rnd rq 20, rq_rnd rq 21) True mfa = Inr b"
    "form = autoPost_wsfed (pd_ACSURL pend) b (pd_RelayState pend)"
    by (auto simp: wsfed_form_def)
  from buildResponse_ok [OF b(1)] not_denied [OF c(5)] wsfed.finished_once [OF f] c b(2) show ?thesis by auto
qed

text \<open>A lab with both federation protocols enabled, one service provider, and a stored request of each.\<close>

definition fed_client :: client where
  "fed_client = sample_client\<lparr>cl_SAML := \<lparr>cs_EntityID = ''urn:sp'', cs_ACSURLs = [''https://app.lab/acs'']\<rparr>\<rparr>"

definition fed_snap :: snapshot where
  "fed_snap = login_snap\<lparr>
     sn_Canonical := Some (sample_doc\<lparr>dc_Spec := (dc_Spec sample_doc)\<lparr>
       sp_Protocols := \<lparr>pr_OIDC = None, pr_SAML = Some True, pr_WSFed = Some True\<rparr>, sp_Clients := [fed_client]\<rparr>\<rparr>),
     sn_ClientsByID := gput ''c1'' fed_client gempty, sn_ClientsByClientID := gput ''app'' fed_client gempty,
     sn_ClientsBySAMLEntity := gput ''urn:sp'' fed_client gempty\<rparr>"

definition fed_pending :: "string \<Rightarrow> pending" where
  "fed_pending proto = zero_pending\<lparr>pd_Generation := 1, pd_ID := ''q1'', pd_Protocol := proto, pd_ClientID := ''app'',
     pd_ACSURL := ''https://app.lab/acs'', pd_RedirectURI := ''https://app.lab/acs'', pd_RequestID := ''_r1'',
     pd_SPEntityID := ''urn:sp'', pd_RelayState := ''rs'', pd_Created := 900\<rparr>"

definition fed_rt :: "string \<Rightarrow> runtime" where
  "fed_rt proto = NewRuntime\<lparr>rt_pending := gput ''q1'' (fed_pending proto) gempty\<rparr>"

lemma saml_completes:
  "CompleteSnapshot sample_saml sample_comp (Some fed_snap) login_request ''q1'' ''u1'' False (fed_rt ProtocolSAML)
     = (Inr (autoPostForm ''https://app.lab/acs'' (Std_Encode ''doc'') ''rs''), NewRuntime)"
  by code_simp

lemma wsfed_completes:
  "CompleteSnapshot_wsfed sample_saml sample_comp (Some fed_snap) login_request ''q1'' ''u1'' False (fed_rt ProtocolWSFed)
     = (Inr (autoPost_wsfed ''https://app.lab/acs'' (Std_Encode ''doc'') ''rs''), NewRuntime)"
  by code_simp

theorem saml_completion_sound_witness:
  "\<exists>pend u. gget (rt_pending (fed_rt ProtocolSAML)) ''q1'' = Some pend \<and> gget (sn_UsersByID fed_snap) ''u1'' = Some u
    \<and> PendingUsable (Some fed_snap) pend \<and> UserUsable (Some fed_snap) ''u1''"
  using saml_completion_sound [OF saml_completes] by auto

theorem wsfed_completion_sound_witness:
  "\<exists>pend u. gget (rt_pending (fed_rt ProtocolWSFed)) ''q1'' = Some pend \<and> gget (sn_UsersByID fed_snap) ''u1'' = Some u
    \<and> PendingUsable (Some fed_snap) pend \<and> UserUsable (Some fed_snap) ''u1''"
  using wsfed_completion_sound [OF wsfed_completes] by auto

section \<open>Where the browser is sent\<close>

lemma contains_url_iff [simp]: "contains_url us u \<longleftrightarrow> u \<in> set us"
  by (induction us) auto

lemma choose_acs_registered: "choose_acs cl req = Inr acs \<Longrightarrow> acs \<in> set (acsURLs cl)"
  by (auto simp: choose_acs_def Let_def split: if_splits list.splits)

lemma choose_reply_registered: "choose_reply cl reply = Some acs \<Longrightarrow> acs \<in> set (acsURLs cl) \<and> acs \<noteq> []"
  by (auto simp: choose_reply_def acsURLs_def Let_def split: if_splits list.splits)

definition own_page :: "snapshot \<Rightarrow> string \<Rightarrow> bool" where
  "own_page snap loc \<longleftrightarrow> (\<exists>page pid. page \<in> {''/login'', ''/consent''}
     \<and> loc = TrimRight (sn_Issuer snap) ''/'' @ page @ ''?pending='' @ QueryEscape pid)"

lemma html_or_error_cases: "(\<exists>body. res = Inr body \<and> html_or_error c res = Html body) \<or> (\<exists>m. html_or_error c res = HttpError c m)"
  by (cases res) (simp_all add: html_or_error_def)

lemma federation_next_safe:
  assumes "fst (federation_next snap rq cl pid complete r) = resp" "status resp < 400"
  shows "(\<exists>loc. resp = Redirect loc \<and> own_page snap loc)
    \<or> (\<exists>se r1 body. fst (complete se r1) = Inr body \<and> resp = Html body \<and> rt_pending r1 = rt_pending r)"
proof -
  define ses where "ses = (case Cookie rq (CookieName (Some snap)) of
      Some v \<Rightarrow> if v \<noteq> [] then GetSession (rq_clk rq 2) v r else (None, r) | None \<Rightarrow> (None, r))"
  have p: "rt_pending (snd ses) = rt_pending r"
    by (auto simp: ses_def GetSession_def split: option.split)
  have goto: "own_page snap (TrimRight (sn_Issuer snap) ''/'' @ page @ ''?pending='' @ QueryEscape pid)"
    if "page \<in> {''/login'', ''/consent''}" for page using that by (auto simp: own_page_def)
  show ?thesis
  proof (cases "\<exists>se. fst ses = Some se \<and> SessionUsable se (mfa_mode snap) \<and> UserUsable (Some snap) (ss_UserID se)
      \<and> cl_PreConsent cl \<and> \<not> rt_forceConsent (snd ses)")
    case True
    then obtain se where "resp = html_or_error 400 (fst (complete se (snd ses)))"
      using assms(1) by (auto simp: federation_next_def ses_def [symmetric] Let_def case_prod_unfold)
    with html_or_error_cases [of "fst (complete se (snd ses))" 400] assms(2) p show ?thesis by auto
  next
    case False
    then show ?thesis
      using assms(1) goto [of "''/login''"] goto [of "''/consent''"]
      by (auto simp: federation_next_def ses_def [symmetric] Let_def case_prod_unfold split: option.splits if_splits)
  qed
qed

lemma stored_ACS [simp]: "pd_ACSURL (stored_pending a p) = pd_ACSURL p"
  by (simp add: stored_pending_def case_prod_unfold Let_def)

lemma PutPending_found:
  assumes "PutPending now now' rid p r = (q, r1)" "pd_ID q \<noteq> []"
  shows "gget (rt_pending r1) (pd_ID q) = Some q \<and> q = stored_pending (now, now', rid) p"
  using assms by (auto simp: PutPending_stored Let_def zero_pending_def split: if_splits)

definition posts_to :: "(string \<Rightarrow> string \<Rightarrow> string \<Rightarrow> string) \<Rightarrow> snapshot \<Rightarrow> string \<Rightarrow> response \<Rightarrow> bool" where
  "posts_to form snap acs resp \<longleftrightarrow> (\<exists>loc. resp = Redirect loc \<and> own_page snap loc) \<or> (\<exists>doc relay. resp = Html (form acs doc relay))"

text \<open>A federation login that completes at once posts to the URL of the request just stored.\<close>

lemma federation_posts:
  assumes "PutPending now now' rid p r = (q, r1)" "pd_ID q \<noteq> []" "fst (federation_next snap rq cl (pd_ID q) complete r1) = resp"
    and "status resp < 400"
    and ok: "\<And>se r2 body pend. fst (complete se r2) = Inr body \<Longrightarrow> gget (rt_pending r2) (pd_ID q) = Some pend
      \<Longrightarrow> \<exists>doc relay. body = form (pd_ACSURL pend) doc relay"
  shows "posts_to form snap (pd_ACSURL p) resp"
  using federation_next_safe [OF assms(3,4)] PutPending_found [OF assms(1,2)] ok
  by (fastforce simp: posts_to_def)

lemma saml_form_posts:
  assumes "fst (CompleteSnapshot L K s rq pid uid mfa r) = Inr body" "gget (rt_pending r) pid = Some pend"
  shows "\<exists>doc relay. body = autoPostForm (pd_ACSURL pend) doc relay"
proof -
  have "finishPending L K s rq pid uid True mfa r = (Inr body, snd (finishPending L K s rq pid uid True mfa r))"
    using assms(1) by (simp add: CompleteSnapshot_def prod_eq_iff)
  from saml.completes [OF this] assms(2) show ?thesis by (auto simp: saml_form_def AutoPost_def)
qed

lemma wsfed_form_posts:
  assumes "fst (CompleteSnapshot_wsfed L K s rq pid uid mfa r) = Inr body" "gget (rt_pending r) pid = Some pend"
  shows "\<exists>doc relay. body = autoPost_wsfed (pd_ACSURL pend) doc relay"
proof -
  have "finish_wsfed L K s rq pid uid True mfa r = (Inr body, snd (finish_wsfed L K s rq pid uid True mfa r))"
    using assms(1) by (simp add: CompleteSnapshot_wsfed_def prod_eq_iff)
  from wsfed.completes [OF this] assms(2) show ?thesis by (auto simp: wsfed_form_def)
qed

lemma sso_client_posts:
  assumes "fst (sso_client L K snap rq req cl acs r) = resp" "status resp < 400"
  shows "posts_to autoPostForm snap acs resp"
proof (cases "rt_forceFail r \<or> mfa_mode snap = ''force-fail''")
  case True
  then show ?thesis
    using assms by (auto simp: sso_client_def AutoPost_def posts_to_def html_or_error_def split: sum.splits)
next
  case False
  obtain q r1 where put: "PutPending (rq_clk rq 0) (rq_clk rq 1) (rq_rnd rq 0) (saml_pending snap rq cl acs req) r = (q, r1)"
    by fastforce
  with False assms have q: "pd_ID q \<noteq> []" and n: "fst (federation_next snap rq cl (pd_ID q)
      (\<lambda>se. CompleteSnapshot L K (Some snap) rq (pd_ID q) (ss_UserID se) (ss_MFACompleted se)) r1) = resp"
    by (auto simp: sso_client_def split: if_splits)
  have "posts_to autoPostForm snap (pd_ACSURL (saml_pending snap rq cl acs req)) resp"
    by (rule federation_posts [OF put q n assms(2)]) (rule saml_form_posts)
  then show ?thesis by (simp add: saml_pending_def)
qed

lemma snapSAML_Inr: "snapSAML s = Inr snap \<Longrightarrow> s = Some snap"
  by (auto simp: snapSAML_def split: option.splits if_splits)

lemma snapSAML_Inl: "snapSAML s = Inl e \<Longrightarrow> \<not> status e < 400"
  by (auto simp: snapSAML_def split: option.splits if_splits)

text \<open>
  C28. The SAML endpoint sends the browser nowhere else: when it answers without an error, the decoded
  request names the entity of a registered client, and the answer is a redirect to the provider's own
  login or consent page or a form posted to a consumer URL registered for that client, which is the
  one the request names when it names one.
\<close>

theorem sso_destinations:
  assumes "fst (sso L K s rq r) = resp" "status resp < 400"
  shows "\<exists>snap req cl acs. s = Some snap \<and> decodeSAMLRequest L (FormValue rq ''SAMLRequest'') (rq_Method rq = ''GET'') = Inr req
    \<and> gget (sn_ClientsBySAMLEntity snap) (ar_Issuer req) = Some cl \<and> acs \<in> set (acsURLs cl)
    \<and> (ar_ACSURL req \<noteq> [] \<longrightarrow> acs = ar_ACSURL req) \<and> posts_to autoPostForm snap acs resp"
proof -
  obtain snap where s: "snapSAML s = Inr snap" "s = Some snap"
    using assms snapSAML_Inl [of s] snapSAML_Inr [of s] by (cases "snapSAML s") (auto simp: sso_def)
  obtain req cl acs where d: "decodeSAMLRequest L (FormValue rq ''SAMLRequest'') (rq_Method rq = ''GET'') = Inr req"
    "gget (sn_ClientsBySAMLEntity snap) (ar_Issuer req) = Some cl" "choose_acs cl req = Inr acs"
    "fst (sso_client L K snap rq req cl acs r) = resp"
    using assms s(1) by (auto simp: sso_def split: if_splits sum.splits option.splits)
      (auto simp: choose_acs_def Let_def split: if_splits list.splits)
  have "ar_ACSURL req \<noteq> [] \<longrightarrow> acs = ar_ACSURL req"
    using d(3) by (auto simp: choose_acs_def Let_def split: if_splits)
  with s d choose_acs_registered [OF d(3)] sso_client_posts [OF d(4) assms(2)] show ?thesis by auto
qed

definition sample_authn :: authn_request where
  "sample_authn = \<lparr>ar_Version = ''2.0'', ar_ForceAuthn = False, ar_IsPassive = False, ar_ID = ''_r1'', ar_ACSURL = [],
     ar_Destination = [], ar_Issuer = ''urn:sp''\<rparr>"

definition authn_lib :: samllib where
  "authn_lib = sample_saml\<lparr>sl_authn := (\<lambda>_. Some (sample_authn, [], True))\<rparr>"

definition sso_request :: request where
  "sso_request = sample_request ''POST'' [] [(''SAMLRequest'', ''eA=='')]"

lemma sample_decodes: "decodeSAMLRequest authn_lib (FormValue sso_request ''SAMLRequest'') (rq_Method sso_request = ''GET'') = Inr sample_authn"
proof -
  have "FormValue sso_request ''SAMLRequest'' = ''eA==''" "rq_Method sso_request \<noteq> ''GET''" "Std_Decode ''eA=='' = Some ''x''"
    "rejectHostileXML ''x'' = None" "TrimSpace ''urn:sp'' = ''urn:sp''"
    by code_simp+
  then show ?thesis
    by (simp add: decodeSAMLRequest_def request_bytes_def maxSAMLBytes_def validateStructure_def authn_lib_def sample_saml_def
        oneDocument_def sample_authn_def bindE_def guardE_def check_def Let_def)
qed

lemma sample_put:
  "PutPending (rq_clk sso_request 0) (rq_clk sso_request 1) (rq_rnd sso_request 0)
     (saml_pending fed_snap sso_request fed_client ''https://app.lab/acs'' sample_authn) NewRuntime
   = (let q = (fed_pending ProtocolSAML)\<lparr>pd_ID := ''rnd'', pd_RelayState := [], pd_Created := 1000\<rparr>
      in (q, NewRuntime\<lparr>rt_pending := gput ''rnd'' q gempty\<rparr>))"
proof -
  have p: "saml_pending fed_snap sso_request fed_client ''https://app.lab/acs'' sample_authn
      = (fed_pending ProtocolSAML)\<lparr>pd_ID := [], pd_RelayState := [], pd_Created := 0\<rparr>"
    by code_simp
  have b: "PendingBounded ((fed_pending ProtocolSAML)\<lparr>pd_ID := [], pd_RelayState := [], pd_Created := 0\<rparr>)"
    by (simp add: PendingBounded_def pending_fields_def fed_pending_def zero_pending_def ProtocolSAML_def)
  show ?thesis
    unfolding p using b
    by (simp add: PutPending_def stale_generation_def NewRuntime_def fed_pending_def zero_pending_def IsZero_def
        cleanupLocked_def maxRows_def sso_request_def sample_request_def Let_def)
qed

lemma sso_redirects:
  "fst (sso authn_lib sample_comp (Some fed_snap) sso_request NewRuntime) = Redirect ''https://lab/login?pending=rnd''"
proof -
  have f: "snapSAML (Some fed_snap) = Inr fed_snap" "rq_FormOK sso_request"
    "gget (sn_ClientsBySAMLEntity fed_snap) (ar_Issuer sample_authn) = Some fed_client"
    "choose_acs fed_client sample_authn = Inr ''https://app.lab/acs''"
    "ar_Destination sample_authn = []" "\<not> ar_ForceAuthn sample_authn" "\<not> ar_IsPassive sample_authn"
    "mfa_mode fed_snap = []" "Cookie sso_request (CookieName (Some fed_snap)) = None"
    "TrimRight (sn_Issuer fed_snap) ''/'' = ''https://lab''" "QueryEscape ''rnd'' = ''rnd''"
    by code_simp+
  have b: "PendingBounded (zero_pending\<lparr>pd_RequestID := ar_ID sample_authn, pd_RelayState := FormValue sso_request ''RelayState''\<rparr>)"
    by (simp add: PendingBounded_def pending_fields_def zero_pending_def sample_authn_def FormValue_def values_Get_def
        sso_request_def sample_request_def)
  have "\<not> rt_forceFail NewRuntime" by (simp add: NewRuntime_def)
  then have "fst (sso_client authn_lib sample_comp fed_snap sso_request sample_authn fed_client ''https://app.lab/acs'' NewRuntime)
      = Redirect ''https://lab/login?pending=rnd''"
    using sample_put f by (simp add: sso_client_def federation_next_def Let_def)
  with f b show ?thesis by (simp add: sso_def sample_decodes)
qed

theorem sso_destinations_witness:
  "\<exists>(req :: authn_request) cl acs. gget (sn_ClientsBySAMLEntity fed_snap) (ar_Issuer req) = Some cl \<and> acs \<in> set (acsURLs cl)
    \<and> posts_to autoPostForm fed_snap acs (Redirect ''https://lab/login?pending=rnd'')"
proof -
  have "status (Redirect ''https://lab/login?pending=rnd'') < 400" by simp
  from sso_destinations [OF sso_redirects this] show ?thesis by (simp only: option.inject) blast
qed

section \<open>Stored requests can be completed\<close>

lemma finishPending_old: "gget (rt_pending (snd (finishPending L K s rq pid uid ok mfa r))) k = Some p \<Longrightarrow> gget (rt_pending r) k = Some p"
  unfolding finishPending_def Let_def case_prod_unfold
  by (auto simp: GetPending_def TakePending_def livePendingLocked_def Let_def split: option.splits sum.splits if_splits)

lemma finish_wsfed_old: "gget (rt_pending (snd (finish_wsfed L K s rq pid uid ok mfa r))) k = Some p \<Longrightarrow> gget (rt_pending r) k = Some p"
  unfolding finish_wsfed_def Let_def case_prod_unfold
  by (auto simp: GetPending_def TakePending_def livePendingLocked_def Let_def split: option.splits sum.splits if_splits)

lemma federation_next_old:
  assumes "\<And>se r k p. gget (rt_pending (snd (complete se r))) k = Some p \<Longrightarrow> gget (rt_pending r) k = Some p"
    and "gget (rt_pending (snd (federation_next snap rq cl pid complete r))) k = Some p"
  shows "gget (rt_pending r) k = Some p"
proof -
  have g: "rt_pending (snd (GetSession now sid r)) = rt_pending r" for now sid
    by (simp add: GetSession_def split: option.split)
  show ?thesis
    using assms(2) unfolding federation_next_def Let_def case_prod_unfold
    by (auto simp: g split: option.splits if_splits dest!: assms(1))
qed

lemma PutPending_new:
  assumes "gget (rt_pending (snd (PutPending now now' rid p r))) k = Some q" "gget (rt_pending r) k \<noteq> Some q"
  shows "q = stored_pending (now, now', rid) p"
  using assms by (auto simp: PutPending_stored cleanupLocked_def Let_def split: if_splits)

lemma stored_fields:
  "pd_ClientID (stored_pending a p) = pd_ClientID p" "pd_Protocol (stored_pending a p) = pd_Protocol p"
  "pd_RedirectURI (stored_pending a p) = pd_RedirectURI p" "pd_Scope (stored_pending a p) = pd_Scope p"
  "pd_SPEntityID (stored_pending a p) = pd_SPEntityID p"
  by (simp_all add: stored_pending_def case_prod_unfold Let_def)

lemma stored_usable: "PendingUsable s (stored_pending a p) = PendingUsable s p"
  by (simp only: PendingUsable_def stored_fields stored_ACS)

text \<open>A client of a compiled snapshot is found under its key.\<close>

lemma compiled_client:
  assumes "compiled_from K d snap" "cl \<in> set (sp_Clients (dc_Spec d))"
  shows "gget (sn_ClientsByClientID snap) (clientKey cl) = Some cl"
proof -
  have "distinct (map client_key (sp_Clients (dc_Spec d)))"
    using assms(1) by (simp add: compiled_from_def well_formed_def Let_def)
  moreover have "clientKey cl = client_key cl" by (simp add: clientKey_def client_key_def)
  ultimately show ?thesis
    using assms index_member [of client_key "sp_Clients (dc_Spec d)" cl] by (simp add: compiled_from_def Let_def)
qed

lemma exactRedirect_acs: "exactRedirect us a \<longleftrightarrow> a \<in> set us"
  by (induction us) auto

lemma federation_usable:
  assumes "compiled_from K d snap" "cl \<in> set (sp_Clients (dc_Spec d))" "acs \<in> set (acsURLs cl)"
    and "pd_ClientID p = clientKey cl" "pd_ACSURL p = acs"
    and "(pd_Protocol p = ProtocolSAML \<and> IsEnabled (pr_SAML (sp_Protocols (dc_Spec d))) False \<and> cs_EntityID (cl_SAML cl) = pd_SPEntityID p)
      \<or> (pd_Protocol p = ProtocolWSFed \<and> IsEnabled (pr_WSFed (sp_Protocols (dc_Spec d))) False
          \<and> (cs_EntityID (cl_SAML cl) = pd_SPEntityID p \<or> cl_ClientID cl = pd_SPEntityID p))"
  shows "PendingUsable (Some snap) p"
  using assms compiled_client [OF assms(1,2)]
  by (auto simp: PendingUsable_def compiled_from_def ProtocolSAML_def ProtocolWSFed_def ProtocolOIDC_def exactRedirect_acs
      acsURLs_def Let_def split: if_splits)

lemma sso_stores:
  assumes cf: "compiled_from K d snap" and new: "gget (rt_pending (snd (sso L K' (Some snap) rq r))) k = Some p"
    "gget (rt_pending r) k \<noteq> Some p"
  shows "PendingUsable (Some snap) p"
proof -
  have en: "IsEnabled (pr_SAML (sp_Protocols (dc_Spec d))) False" and ss: "snapSAML (Some snap) = Inr snap"
    using cf new by (auto simp: sso_def snapSAML_def compiled_from_def Let_def split: option.splits if_splits)
  obtain req cl acs where d: "gget (sn_ClientsBySAMLEntity snap) (ar_Issuer req) = Some cl" "choose_acs cl req = Inr acs"
    and c: "gget (rt_pending (snd (sso_client L K' snap rq req cl acs r))) k = Some p"
    using new ss by (auto simp: sso_def split: if_splits sum.splits option.splits)
  let ?put = "PutPending (rq_clk rq 0) (rq_clk rq 1) (rq_rnd rq 0) (saml_pending snap rq cl acs req) r"
  have "gget (rt_pending (snd ?put)) k = Some p"
    using c new(2) by (auto simp: sso_client_def CompleteSnapshot_def case_prod_unfold Let_def split: if_splits
        dest!: federation_next_old [rotated] finishPending_old)
  from PutPending_new [OF this new(2)] have p: "p = stored_pending (rq_clk rq 0, rq_clk rq 1, rq_rnd rq 0) (saml_pending snap rq cl acs req)" .
  have "cl \<in> set (sp_Clients (dc_Spec d)) \<and> cs_EntityID (cl_SAML cl) = ar_Issuer req"
    using cf d(1) by (auto simp: compiled_from_def Let_def)
  then show ?thesis
    unfolding p stored_usable using federation_usable [OF cf] choose_acs_registered [OF d(2)] en
    by (auto simp: saml_pending_def)
qed

lemma snapWSFed_Inr: "snapWSFed s = Inr snap \<Longrightarrow> s = Some snap"
  by (auto simp: snapWSFed_def split: option.splits if_splits)

lemma wsfed_stores:
  assumes cf: "compiled_from K d snap" and named: "\<forall>c \<in> set (sp_Clients (dc_Spec d)). cl_ClientID c \<noteq> []"
    and new: "gget (rt_pending (snd (passive_wsfed L K' (Some snap) rq r))) k = Some p" "gget (rt_pending r) k \<noteq> Some p"
  shows "PendingUsable (Some snap) p"
proof -
  let ?realm = "values_Get (rq_Query rq) ''wtrealm''"
  have en: "IsEnabled (pr_WSFed (sp_Protocols (dc_Spec d))) False" and ss: "snapWSFed (Some snap) = Inr snap"
    using cf new by (auto simp: passive_wsfed_def snapWSFed_def compiled_from_def Let_def split: option.splits if_splits)
  obtain cl reply where d: "realm_client snap ?realm = Some cl" "choose_reply cl (values_Get (rq_Query rq) ''wreply'') = Some reply"
    and c: "gget (rt_pending (snd (let (pend, r1) = PutPending (rq_clk rq 0) (rq_clk rq 1) (rq_rnd rq 0) (wsfed_pending snap rq cl reply) r
       in if pd_ID pend = [] then (HttpError 400 ''invalid_request'', r1)
          else federation_next snap rq cl (pd_ID pend)
            (\<lambda>se. CompleteSnapshot_wsfed L K' (Some snap) rq (pd_ID pend) (ss_UserID se) (ss_MFACompleted se)) r1))) k = Some p"
    using new ss by (auto simp: passive_wsfed_def Let_def split: if_splits option.splits)
  let ?put = "PutPending (rq_clk rq 0) (rq_clk rq 1) (rq_rnd rq 0) (wsfed_pending snap rq cl reply) r"
  have "gget (rt_pending (snd ?put)) k = Some p"
    using c by (auto simp: CompleteSnapshot_wsfed_def case_prod_unfold Let_def split: if_splits
        dest!: federation_next_old [rotated] finish_wsfed_old)
  from PutPending_new [OF this new(2)]
  have p: "p = stored_pending (rq_clk rq 0, rq_clk rq 1, rq_rnd rq 0) (wsfed_pending snap rq cl reply)" .
  have "cl \<in> set (sp_Clients (dc_Spec d)) \<and> (cs_EntityID (cl_SAML cl) = ?realm \<or> client_key cl = ?realm)"
    using cf d(1) by (auto simp: compiled_from_def realm_client_def Let_def dest: index_Some split: option.splits)
  then have "cl \<in> set (sp_Clients (dc_Spec d))" "cs_EntityID (cl_SAML cl) = ?realm \<or> cl_ClientID cl = ?realm"
    using named by (auto simp: client_key_def split: if_splits)
  then show ?thesis
    unfolding p stored_usable using federation_usable [OF cf] choose_reply_registered [OF d(2)] en
    by (auto simp: wsfed_pending_def)
qed

text \<open>
  A federation request that is stored can be completed: with a compiled snapshot, every pending request
  that the SAML or the WS-Federation endpoint adds passes the check that login, consent and completion
  repeat. For WS-Federation every client must have a \<open>clientId\<close> of its own.
\<close>

theorem federation_request_usable:
  assumes "Compile K now generation bootRev doc = Inr snap"
    and "gget (rt_pending r') k = Some p" "gget (rt_pending r) k \<noteq> Some p"
    and "r' = snd (sso L K' (Some snap) rq r)
      \<or> r' = snd (passive_wsfed L K' (Some snap) rq r) \<and> (\<forall>c \<in> set (sp_Clients (dc_Spec (Normalize doc))). cl_ClientID c \<noteq> [])"
  shows "PendingUsable (Some snap) p"
  using assms(2-4) sso_stores [OF Compile_sound [OF assms(1)]] wsfed_stores [OF Compile_sound [OF assms(1)]] by blast

definition fed_config :: document where
  "fed_config = (sample_config ''never'')\<lparr>dc_Spec := (dc_Spec (sample_config ''never''))\<lparr>
     sp_Protocols := \<lparr>pr_OIDC = Some True, pr_SAML = Some True, pr_WSFed = Some True\<rparr>,
     sp_Clients := [fed_client\<lparr>cl_SecretRef := ''app.secret''\<rparr>]\<rparr>\<rparr>"

lemma fed_normal: "Normalize fed_config = fed_config"
  by (simp add: fed_config_def sample_config_def Normalize_def sample_doc_def default_str_def zero_auth_def BoolVal_def)

lemma fed_compiles: "\<exists>s. Compile sample_comp 1000 7 ''boot'' fed_config = Inr s"
proof -
  have ex: "(\<exists>x. r = Inr x) \<longleftrightarrow> isl r = False" for r :: "'e + 'x" by (cases r) auto
  have u: "dc_Name fed_config = dc_Name (sample_config ''never'')"
    "sp_Profile (dc_Spec fed_config) = sp_Profile (dc_Spec (sample_config ''never''))"
    "sp_Issuer (dc_Spec fed_config) = sp_Issuer (dc_Spec (sample_config ''never''))"
    "sp_Users (dc_Spec fed_config) = sp_Users (dc_Spec (sample_config ''never''))"
    by (simp_all add: fed_config_def)
  have "ValidateIDs (cm_net sample_comp) fed_config = None" by code_simp
  moreover have "\<exists>ld. load_refs sample_comp fed_config = Inr ld" unfolding ex by code_simp
  moreover have "\<exists>rev. RevisionOf sample_comp fed_config = Inr rev" by (simp add: RevisionOf_def sample_comp_def)
  moreover have "\<exists>km. compile_clients sample_comp \<lparr>km_ByID = gempty, km_ByClientID = gempty, km_BySAML = gempty, km_Secrets = gempty\<rparr>
     (sp_Clients (dc_Spec fed_config)) = Inr km" unfolding ex by code_simp
  ultimately show ?thesis
    using Compile_live [of sample_comp fed_config 1000 7 "''boot''"] sample_parts(2,3,7) [of "''never''"]
    unfolding fed_normal u by (simp add: sample_comp_def)
qed

theorem federation_request_usable_witness:
  "\<exists>snap p. Compile sample_comp 1000 7 ''boot'' fed_config = Inr snap
    \<and> gget (rt_pending (snd (sso authn_lib sample_comp (Some snap) sso_request NewRuntime))) ''rnd'' = Some p
    \<and> PendingUsable (Some snap) p"
proof -
  obtain snap where c: "Compile sample_comp 1000 7 ''boot'' fed_config = Inr snap" using fed_compiles by blast
  have cf: "compiled_from sample_comp fed_config snap" using Compile_sound [OF c] by (simp add: fed_normal)
  let ?cl = "fed_client\<lparr>cl_SecretRef := ''app.secret''\<rparr>" and ?acs = "''https://app.lab/acs''"
  have can: "sn_Canonical snap = Some fed_config" using cf by (simp add: compiled_from_def Let_def)
  then have ss: "snapSAML (Some snap) = Inr snap" and m: "mfa_mode snap = ''never''"
    by (simp_all add: snapSAML_def mfa_mode_def fed_config_def sample_config_def IsEnabled_def BoolVal_def zero_auth_def)
  have "?cl \<in> set (sp_Clients (dc_Spec fed_config))" "cs_EntityID (cl_SAML ?cl) = ''urn:sp''"
    by (simp_all add: fed_config_def fed_client_def)
  then have e: "gget (sn_ClientsBySAMLEntity snap) (ar_Issuer sample_authn) = Some ?cl"
    using cf by (simp add: compiled_from_def sample_authn_def Let_def)
  have a: "choose_acs ?cl sample_authn = Inr ?acs"
    by (simp add: choose_acs_def acsURLs_def fed_client_def sample_authn_def)
  have f: "rq_FormOK sso_request" "ar_Destination sample_authn = []" "\<not> ar_ForceAuthn sample_authn" "\<not> ar_IsPassive sample_authn"
    "Cookie sso_request n = None" "\<not> rt_forceFail NewRuntime" for n
    by (simp_all add: sso_request_def sample_request_def sample_authn_def Cookie_def NewRuntime_def)
  have b: "PendingBounded (zero_pending\<lparr>pd_RequestID := ar_ID sample_authn, pd_RelayState := FormValue sso_request ''RelayState''\<rparr>)"
    "PendingBounded (saml_pending snap sso_request ?cl ?acs sample_authn)"
    by (simp_all add: PendingBounded_def pending_fields_def zero_pending_def sample_authn_def FormValue_def values_Get_def
        sso_request_def sample_request_def saml_pending_def clientKey_def fed_client_def sample_client_def zero_client_def ProtocolSAML_def)
  define q where "q = stored_pending (1000, 1000, ''rnd'') (saml_pending snap sso_request ?cl ?acs sample_authn)"
  have i: "pd_ID q = ''rnd''" by (simp add: q_def saml_pending_def zero_pending_def)
  have g: "sn_Generation snap = 7" using Compile_header [OF c] by simp
  have put: "PutPending (rq_clk sso_request 0) (rq_clk sso_request 1) (rq_rnd sso_request 0)
      (saml_pending snap sso_request ?cl ?acs sample_authn) NewRuntime = (q, NewRuntime\<lparr>rt_pending := gput ''rnd'' q gempty\<rparr>)"
  proof -
    have "rq_clk sso_request = (\<lambda>_. 1000)" "rq_rnd sso_request = (\<lambda>_. ''rnd'')"
      by (simp_all add: sso_request_def sample_request_def)
    moreover have "pd_Generation (saml_pending snap sso_request ?cl ?acs sample_authn) = 7" using g by (simp add: saml_pending_def)
    ultimately show ?thesis
      using b(2) i by (simp add: PutPending_stored q_def [symmetric] cleanupLocked_def maxRows_def NewRuntime_def stale_generation_def Let_def)
  qed
  have n: "rt_pending (snd (sso authn_lib sample_comp (Some snap) sso_request NewRuntime)) = gput ''rnd'' q gempty"
    using put i by (simp add: sso_def ss f sample_decodes b(1) e a sso_client_def m federation_next_def Let_def)
  have "gget (rt_pending NewRuntime) ''rnd'' \<noteq> Some q" by (simp add: NewRuntime_def)
  with federation_request_usable [OF c, of "snd (sso authn_lib sample_comp (Some snap) sso_request NewRuntime)" "''rnd''" q NewRuntime] n c
  show ?thesis by auto
qed

text \<open>
  Without one the request is stored but refused: a client that has only an \<open>id\<close> is found under that \<open>id\<close> as its
  realm, and the login form then calls the request invalid.
\<close>

lemma wsfed_id_realm_refused:
  assumes "compiled_from K d snap" "cl \<in> set (sp_Clients (dc_Spec d))" "cl_ClientID cl = []"
    and "values_Get (rq_Query rq) ''wtrealm'' = cl_ID cl" "cs_EntityID (cl_SAML cl) \<noteq> cl_ID cl" "cl_ID cl \<noteq> []"
  shows "\<not> PendingUsable (Some snap) (wsfed_pending snap rq cl reply)"
    and "gget (sn_ClientsBySAMLEntity snap) (cl_ID cl) = None \<Longrightarrow> realm_client snap (cl_ID cl) = Some cl"
  using compiled_client [OF assms(1,2)] assms(3-)
  by (auto simp: PendingUsable_def wsfed_pending_def ProtocolSAML_def ProtocolWSFed_def ProtocolOIDC_def realm_client_def
      clientKey_def Let_def split: option.splits)

end
