(* ===== verification/Xml_Props.thy ===== *)
theory Xml_Props
  imports Saml
begin

text \<open>
  What the XML checks of \<^verbatim>\<open>saml/parse.go\<close> accept. \<open>validateStructure\<close> walks the tokens with a stack; its
  contract is stated over the list of all start elements with their ancestors, so that it can be read
  without the walk. \<open>ParseSPSSO\<close> returns consumer URLs that are distinct and acceptable as redirects.
\<close>

section \<open>Structure\<close>

text \<open>Every start element of a token stream, with its open ancestors, outermost first.\<close>

fun starts :: "xml_name list \<Rightarrow> xtoken list \<Rightarrow> (xml_name list \<times> xml_name \<times> (xml_name \<times> string) list) list" where
  "starts stack [] = []"
| "starts stack (StartElement nm attrs # ts) = (stack, nm, attrs) # starts (stack @ [nm]) ts"
| "starts stack (EndElement # ts) = starts (butlast stack) ts"
| "starts stack (_ # ts) = starts stack ts"

text \<open>Where a protocol element may stand, and in which namespace.\<close>

definition well_placed :: "bool \<Rightarrow> xml_name list \<Rightarrow> xml_name \<Rightarrow> bool" where
  "well_placed md stack nm \<longleftrightarrow>
     (if md then
        (snd nm = ''EntityDescriptor'' \<longrightarrow> fst nm = nsMetadata \<and> stack = [])
        \<and> (snd nm = ''SPSSODescriptor'' \<longrightarrow> fst nm = nsMetadata \<and> map snd stack = [''EntityDescriptor''])
        \<and> (snd nm = ''AssertionConsumerService'' \<longrightarrow> fst nm = nsMetadata \<and> length stack = 2 \<and> snd (last stack) = ''SPSSODescriptor'')
      else snd nm = ''Issuer'' \<longrightarrow> fst nm = nsAssert \<and> length stack = 1)"

definition unique_name :: "bool \<Rightarrow> string" where
  "unique_name md = (if md then ''EntityDescriptor'' else ''Issuer'')"

definition named :: "string \<Rightarrow> (xml_name list \<times> xml_name \<times> (xml_name \<times> string) list) list \<Rightarrow> nat" where
  "named n es = length (filter (\<lambda>(_, nm, _). snd nm = n) es)"

lemma named_simps [simp]:
  "named n [] = 0" "named n ((st, nm, attrs) # es) = (if snd nm = n then Suc (named n es) else named n es)"
  by (simp_all add: named_def)

lemma bad_element_None:
  "bad_element m stack n nm = None \<longleftrightarrow> well_placed m stack nm \<and> (snd nm = unique_name m \<longrightarrow> n = 1)"
proof -
  have two: "length stack = 2 \<Longrightarrow> stack ! 1 = last stack"
    by (cases stack rule: rev_cases) (auto simp: nth_append)
  have one: "map snd stack = [e] \<longleftrightarrow> length stack = 1 \<and> snd (stack ! 0) = e" for e
    by (cases stack) auto
  show ?thesis
    using two by (auto simp: bad_element_def well_placed_def unique_name_def one)
qed

lemma structure_ok_None:
  "structure_ok m stack n ts eof = None \<longleftrightarrow> eof
     \<and> list_all (\<lambda>(st, nm, attrs). distinct (map fst attrs) \<and> well_placed m st nm) (starts stack ts)
     \<and> (named (unique_name m) (starts stack ts) = 0 \<or> n + named (unique_name m) (starts stack ts) = 1)"
proof (induction m stack n ts eof rule: structure_ok.induct)
  case (2 m stack n nm attrs ts eof)
  have c: "counted m nm n = (if snd nm = unique_name m then n + 1 else n)"
    by (simp add: counted_def unique_name_def)
  show ?case
  proof (cases "distinct (map fst attrs) \<and> bad_element m stack (counted m nm n) nm = None")
    case True
    then have "structure_ok m stack n (StartElement nm attrs # ts) eof = structure_ok m (stack @ [nm]) (counted m nm n) ts eof"
      by simp
    moreover have "structure_ok m (stack @ [nm]) (counted m nm n) ts eof = None \<longleftrightarrow> eof
        \<and> list_all (\<lambda>(st, nm, attrs). distinct (map fst attrs) \<and> well_placed m st nm) (starts (stack @ [nm]) ts)
        \<and> (named (unique_name m) (starts (stack @ [nm]) ts) = 0
            \<or> counted m nm n + named (unique_name m) (starts (stack @ [nm]) ts) = 1)"
      using 2 True by simp
    moreover have "well_placed m stack nm" "snd nm = unique_name m \<longrightarrow> n = 0"
      using True by (auto simp: bad_element_None c)
    ultimately show ?thesis using True by (simp add: c)
  next
    case False
    then show ?thesis by (auto simp: bad_element_None c split: option.splits)
  qed
qed auto

text \<open>
  The structure check accepts exactly the well-structured documents: within the size limit, tokenised
  to the end, no element with a repeated attribute, every issuer of a request a child of the root in
  the assertion namespace and every descriptor of a metadata document in its place and namespace,
  and at most one issuer, or one entity descriptor, in the whole document.
\<close>

theorem structure_check_exact:
  "validateStructure L raw m = None \<longleftrightarrow> length raw \<le> maxSAMLBytes \<and> snd (sl_tokens L raw)
     \<and> list_all (\<lambda>(st, nm, attrs). distinct (map fst attrs) \<and> well_placed m st nm) (starts [] (fst (sl_tokens L raw)))
     \<and> named (unique_name m) (starts [] (fst (sl_tokens L raw))) \<le> 1"
  by (auto simp: validateStructure_def structure_ok_None case_prod_unfold Let_def not_less)

section \<open>Metadata\<close>

lemma collect_acs_distinct:
  "collect_acs N idx acs es = Inr out \<Longrightarrow> distinct acs \<Longrightarrow> distinct out"
  by (induction N idx acs es rule: collect_acs.induct) (auto split: if_splits)

lemma collect_acs_valid:
  "collect_acs N idx acs es = Inr out \<Longrightarrow> a \<in> set out \<Longrightarrow> a \<in> set acs \<or> ValidateURI N a True = None
     \<and> (\<exists>e \<in> set es. ae_Location e = a \<and> ae_Binding e = bindingPOST)"
proof (induction N idx acs es rule: collect_acs.induct)
  case (2 N idx acs e es)
  show ?case
  proof (cases "ae_Binding e = bindingPOST")
    case True
    with 2 show ?thesis by (fastforce split: if_splits)
  next
    case False
    with 2 show ?thesis by (fastforce split: if_splits)
  qed
qed simp

lemma ParseSPSSO_acs:
  assumes "ParseSPSSO L N raw = Inr (entity, acs)"
  shows "entity \<noteq> []" "acs \<noteq> []" "distinct acs" "\<forall>a \<in> set acs. ValidateURI N a True = None"
    "validateStructure L raw True = None" "rejectHostileXML raw = None"
proof -
  obtain md :: sp_metadata and proto es where m: "md_SP md = [(proto, es)]" "md_Entity md = entity" "entity \<noteq> []"
    "collect_acs N [] [] es = Inr acs" "acs \<noteq> []"
    using assms by (auto simp: ParseSPSSO_def split: if_splits option.splits list.splits prod.splits)
  then show "entity \<noteq> []" "acs \<noteq> []" "distinct acs" "\<forall>a \<in> set acs. ValidateURI N a True = None"
    using collect_acs_distinct [OF m(4)] collect_acs_valid [OF m(4)] by auto
  show "validateStructure L raw True = None" "rejectHostileXML raw = None"
    using assms by (simp_all add: ParseSPSSO_def)
qed

end
