(* ===== verification/Access.thy ===== *)
theory Access
  imports Model
begin

text \<open>
  Who may do what, and the record of it: the capability catalogue (\<^verbatim>\<open>internal/capabilities\<close>), the
  actors and their authentication (\<^verbatim>\<open>internal/auth\<close>) and the audit ring (\<^verbatim>\<open>internal/audit\<close>).
\<close>

section \<open>Capabilities\<close>

definition ScopeRead :: string where "ScopeRead = ''sso.read''"
definition ScopeWrite :: string where "ScopeWrite = ''sso.write''"
definition ScopeAdmin :: string where "ScopeAdmin = ''sso.admin''"
definition ScopeSessions :: string where "ScopeSessions = ''sso.sessions''"
definition ScopeTunables :: string where "ScopeTunables = ''sso.tunables''"
definition ScopeAuditRead :: string where "ScopeAuditRead = ''sso.audit.read''"

record capability =
  cp_ID :: string
  cp_Title :: string
  cp_Version :: string
  cp_Description :: string
  cp_RequiredScopes :: "string list"
  cp_Mutating :: bool
  cp_Idempotent :: bool
  cp_RESTOnly :: bool
  cp_Method :: string
  cp_Path :: string
  cp_Tool :: string
  cp_Resource :: string

definition Disposition :: "capability \<Rightarrow> string" where
  "Disposition c = (if cp_RESTOnly c then ''REST_ONLY_PROTOCOL'' else ''PARITY_REQUIRED'')"

definition restOnly :: "string \<Rightarrow> string \<Rightarrow> string \<Rightarrow> string \<Rightarrow> string list \<Rightarrow> bool \<Rightarrow> capability" where
  "restOnly cid title method path scopes idempotent =
     \<lparr>cp_ID = cid, cp_Title = title, cp_Version = ''v1'', cp_Description = title, cp_RequiredScopes = scopes,
      cp_Mutating = False, cp_Idempotent = idempotent, cp_RESTOnly = True, cp_Method = method,
      cp_Path = path, cp_Tool = [], cp_Resource = []\<rparr>"

definition parity ::
  "string \<Rightarrow> string \<Rightarrow> string \<Rightarrow> string \<Rightarrow> string \<Rightarrow> string \<Rightarrow> string list \<Rightarrow> bool \<Rightarrow> bool \<Rightarrow> capability" where
  "parity cid title method path tool resource scopes mutating idempotent =
     \<lparr>cp_ID = cid, cp_Title = title, cp_Version = ''v1'', cp_Description = title, cp_RequiredScopes = scopes,
      cp_Mutating = mutating, cp_Idempotent = idempotent, cp_RESTOnly = False, cp_Method = method,
      cp_Path = path, cp_Tool = tool, cp_Resource = resource\<rparr>"

definition catalog :: "capability list" where
  "catalog = [
     restOnly ''sso.health.live'' ''Health live'' ''GET'' ''/v1/health/live'' [] True,
     restOnly ''sso.health.ready'' ''Health ready'' ''GET'' ''/v1/health/ready'' [] True,
     parity ''sso.version.get'' ''Version'' ''GET'' ''/v1/version'' ''sso_version_get'' [] [ScopeRead] False True,
     parity ''sso.capabilities.get'' ''Capabilities'' ''GET'' ''/v1/capabilities'' ''sso_capabilities_get'' ''labsso://capabilities'' [ScopeRead] False True,
     parity ''sso.status.get'' ''Status'' ''GET'' ''/v1/status'' ''sso_status_get'' ''labsso://status'' [ScopeRead] False True,
     parity ''sso.schema.config.get'' ''Config schema'' ''GET'' ''/v1/schema/config'' ''sso_schema_get'' ''labsso://schema/config'' [ScopeRead] False True,
     parity ''sso.state.get'' ''Get state'' ''GET'' ''/v1/state'' ''sso_state_get'' ''labsso://state'' [ScopeRead] False True,
     parity ''sso.state.validate'' ''Validate state'' ''POST'' ''/v1/state:validate'' ''sso_state_validate'' [] [ScopeWrite] False True,
     parity ''sso.change.plan'' ''Plan changes'' ''POST'' ''/v1/changes:plan'' ''sso_change_plan'' [] [ScopeWrite] False True,
     parity ''sso.change.apply'' ''Apply changes'' ''POST'' ''/v1/changes:apply'' ''sso_change_apply'' [] [ScopeWrite] True True,
     parity ''sso.state.export'' ''Export state'' ''GET'' ''/v1/state:export'' ''sso_state_export'' [] [ScopeRead] False True,
     parity ''sso.state.reset'' ''Reset state'' ''POST'' ''/v1/state:reset'' ''sso_state_reset'' [] [ScopeAdmin] True False,
     parity ''sso.clients.list'' ''List clients'' ''GET'' ''/v1/clients'' ''sso_clients_list'' [] [ScopeRead] False True,
     parity ''sso.client.get'' ''Get client'' ''GET'' ''/v1/clients/{id}'' ''sso_client_get'' ''labsso://clients/{id}'' [ScopeRead] False True,
     parity ''sso.users.list'' ''List users'' ''GET'' ''/v1/users'' ''sso_users_list'' [] [ScopeRead] False True,
     parity ''sso.user.get'' ''Get user'' ''GET'' ''/v1/users/{id}'' ''sso_user_get'' ''labsso://users/{id}'' [ScopeRead] False True,
     parity ''sso.auth.mfa.set'' ''Set MFA mode'' ''POST'' ''/v1/auth/mfa'' ''sso_auth_mfa_set'' [] [ScopeWrite] True True,
     parity ''sso.user.totp.enroll'' ''Enroll TOTP overlay'' ''POST'' ''/v1/users/{id}/totp:enroll'' ''sso_user_totp_enroll'' [] [ScopeWrite] True False,
     parity ''sso.user.totp.clear'' ''Clear TOTP overlay'' ''POST'' ''/v1/users/{id}/totp:clear'' ''sso_user_totp_clear'' [] [ScopeWrite] True True,
     parity ''sso.groups.list'' ''List groups'' ''GET'' ''/v1/groups'' ''sso_groups_list'' [] [ScopeRead] False True,
     parity ''sso.group.get'' ''Get group'' ''GET'' ''/v1/groups/{id}'' ''sso_group_get'' ''labsso://groups/{id}'' [ScopeRead] False True,
     parity ''sso.sessions.list'' ''List sessions'' ''GET'' ''/v1/sessions'' ''sso_sessions_list'' [] [ScopeSessions] False True,
     parity ''sso.session.expire'' ''Expire session'' ''POST'' ''/v1/sessions/{id}:expire'' ''sso_session_expire'' [] [ScopeSessions] True True,
     parity ''sso.tunable.token.pause'' ''Pause token'' ''POST'' ''/v1/tunables/token:pause'' ''sso_tunable_token_pause'' [] [ScopeTunables] True True,
     parity ''sso.tunable.token.resume'' ''Resume token'' ''POST'' ''/v1/tunables/token:resume'' ''sso_tunable_token_resume'' [] [ScopeTunables] True True,
     parity ''sso.tunable.auth.force_fail'' ''Force auth fail'' ''POST'' ''/v1/tunables/auth:force-fail'' ''sso_tunable_auth_force_fail'' [] [ScopeTunables] True True,
     parity ''sso.tunable.error.inject'' ''Inject error'' ''POST'' ''/v1/tunables/error:inject'' ''sso_tunable_error_inject'' [] [ScopeTunables] True True,
     parity ''sso.tunable.vendor.swap'' ''Swap vendor clothes'' ''POST'' ''/v1/tunables/vendor:swap'' ''sso_tunable_vendor_swap'' [] [ScopeTunables] True True,
     parity ''sso.tunable.overage.set'' ''Set group overage'' ''POST'' ''/v1/tunables/overage:set'' ''sso_tunable_overage_set'' [] [ScopeTunables] True True,
     parity ''sso.tunable.consent.force'' ''Force consent'' ''POST'' ''/v1/tunables/consent:force'' ''sso_tunable_consent_force'' [] [ScopeTunables] True True,
     parity ''sso.tunable.token.mint'' ''Mint token'' ''POST'' ''/v1/tunables/token:mint'' ''sso_tunable_token_mint'' [] [ScopeTunables] True True,
     restOnly ''sso.session.create'' ''Create operator session'' ''POST'' ''/v1/session'' [] False,
     restOnly ''sso.session.get'' ''Get operator session'' ''GET'' ''/v1/session'' [] True,
     restOnly ''sso.session.delete'' ''Delete operator session'' ''DELETE'' ''/v1/session'' [] True,
     parity ''sso.audit.list'' ''List audit'' ''GET'' ''/v1/audit'' ''sso_audit_query'' ''labsso://audit/recent'' [ScopeAuditRead] False True,
     parity ''sso.audit.get'' ''Get audit event'' ''GET'' ''/v1/audit/{eventId}'' ''sso_audit_get'' [] [ScopeAuditRead] False True,
     parity ''sso.sessions.expire_all'' ''Expire all sessions'' ''POST'' ''/v1/sessions:expire-all'' ''sso_sessions_expire_all'' [] [ScopeSessions] True True,
     parity ''sso.import.plan'' ''Import plan'' ''POST'' ''/v1/import:plan'' ''sso_import_plan'' [] [ScopeWrite] False True,
     parity ''sso.import.apply'' ''Import apply'' ''POST'' ''/v1/import:apply'' ''sso_import_apply'' [] [ScopeWrite] True True,
     parity ''sso.tunable.redirect.rewrite'' ''Rewrite redirect URIs'' ''POST'' ''/v1/tunables/client/redirect:rewrite'' ''sso_tunable_redirect_rewrite'' [] [ScopeTunables] True True]"

definition ByID :: "string \<Rightarrow> capability option" where
  "ByID cid = find (\<lambda>c. cp_ID c = cid) catalog"

section \<open>Actors\<close>

record actor =
  an_Transport :: string
  an_ID :: string
  an_Class :: string
  an_Scopes :: "string list"

definition zero_actor :: actor where
  "zero_actor = \<lparr>an_Transport = [], an_ID = [], an_Class = [], an_Scopes = []\<rparr>"

definition AdminActor :: actor where
  "AdminActor = \<lparr>an_Transport = [], an_ID = ''admin'', an_Class = ''loopback'', an_Scopes = [ScopeAdmin]\<rparr>"

definition HasScope :: "actor \<Rightarrow> string \<Rightarrow> bool" where
  "HasScope a scope = (if scope = [] then True
     else list_ex (\<lambda>s. s = ScopeAdmin \<or> s = scope) (an_Scopes a))"

definition Authorize :: "actor \<Rightarrow> capability \<Rightarrow> go_error option" where
  "Authorize a c = (if cp_RequiredScopes c = [] then None
     else if list_ex (HasScope a) (cp_RequiredScopes c) then None
     else Some (Forbidden ''missing scope for %s'' [cp_ID c]))"

definition IsLoopback :: "netlib \<Rightarrow> string \<Rightarrow> bool" where
  "IsLoopback N remote = (let host = (case SplitHostPort remote of None \<Rightarrow> remote | Some (h, _) \<Rightarrow> h)
     in net_ParseIP N host \<and> net_IsLoopback N host)"

definition LoopbackHostAllowed :: "netlib \<Rightarrow> string \<Rightarrow> string \<Rightarrow> bool" where
  "LoopbackHostAllowed N remote host0 =
     (if \<not> IsLoopback N remote then True
      else let host = (case SplitHostPort host0 of Some (h, _) \<Rightarrow> h | None \<Rightarrow> host0)
           in ToLower host \<in> set [[], ''localhost'', ''127.0.0.1'', ''::1'', ''[::1]'', ''example.com''])"

definition ParseBearer :: "string \<Rightarrow> string" where
  "ParseBearer header = (if length header < 7 \<or> \<not> EqualFold (take 7 header) ''Bearer '' then []
     else TrimSpace (drop 7 header))"

definition Authenticate :: "netlib \<Rightarrow> string \<Rightarrow> string \<Rightarrow> string \<Rightarrow> go_error + actor" where
  "Authenticate N remote authz token = (let raw = ParseBearer authz in
     if raw \<noteq> [] then
       (if token = [] \<or> raw \<noteq> token then Inl (Unauthorized ''invalid bearer token'' [])
        else Inr \<lparr>an_Transport = [], an_ID = ''bearer'', an_Class = ''bearer'', an_Scopes = [ScopeAdmin]\<rparr>)
     else if IsLoopback N remote then Inr AdminActor
     else Inl (Unauthorized ''bearer token required'' []))"

section \<open>The audit ring\<close>

record event =
  el_ID :: string
  el_Time :: go_time
  el_ActorID :: string
  el_Transport :: string
  el_ActorClass :: string
  el_Capability :: string
  el_Reason :: string
  el_Revision :: string
  el_Previous :: string
  el_Result :: string
  el_ErrorCode :: string

definition zero_event :: event where
  "zero_event = \<lparr>el_ID = [], el_Time = 0, el_ActorID = [], el_Transport = [], el_ActorClass = [],
     el_Capability = [], el_Reason = [], el_Revision = [], el_Previous = [], el_Result = [], el_ErrorCode = []\<rparr>"

definition ResultOK :: string where "ResultOK = ''ok''"
definition ResultDenied :: string where "ResultDenied = ''denied''"
definition ResultError :: string where "ResultError = ''error''"

record ring =
  rg_cap :: nat
  rg_seq :: nat
  rg_buf :: "event list"

definition NewRing :: "int \<Rightarrow> ring" where
  "NewRing n = \<lparr>rg_cap = nat (if n \<le> 0 then 256 else n), rg_seq = 0, rg_buf = []\<rparr>"

text \<open>
  The time stamp layout \<^verbatim>\<open>20060102T150405\<close> of a UTC instant: the day number since 1 January of
  year 1 is turned into a civil date of the Gregorian calendar with years that start in March.
\<close>

definition civil :: "int \<Rightarrow> int \<times> int \<times> int" where
  "civil days = (let
     z = days + 306; era = z div 146097; doe = z mod 146097;
     yoe = (doe - doe div 1460 + doe div 36524 - doe div 146096) div 365;
     doy = doe - (365 * yoe + yoe div 4 - yoe div 100);
     mp = (5 * doy + 2) div 153;
     d = doy - (153 * mp + 2) div 5 + 1;
     m = (if mp < 10 then mp + 3 else mp - 9);
     y = yoe + era * 400 + (if m \<le> 2 then 1 else 0)
   in (y, m, d))"

definition pad :: "nat \<Rightarrow> int \<Rightarrow> string" where
  "pad n k = (let s = Itoa k in replicate (n - length s) (CHR ''0'') @ s)"

definition stamp :: "go_time \<Rightarrow> string" where
  "stamp now = (let secs = now div Second; (y, m, d) = civil (secs div 86400); t = secs mod 86400 in
     pad 4 y @ pad 2 m @ pad 2 d @ ''T'' @ pad 2 (t div 3600) @ pad 2 (t mod 3600 div 60) @ pad 2 (t mod 60))"

definition Emit :: "go_time \<Rightarrow> go_time \<Rightarrow> event \<Rightarrow> ring \<Rightarrow> string \<times> ring" where
  "Emit now now' e r = (let
     seq = Suc (rg_seq r);
     e1 = (if el_ID e = [] then e\<lparr>el_ID := ''evt-'' @ stamp now @ ''-'' @ itoa_nat seq\<rparr> else e);
     e2 = (if IsZero (el_Time e1) then e1\<lparr>el_Time := now'\<rparr> else e1);
     buf = rg_buf r @ [e2]
   in (el_ID e2, r\<lparr>rg_seq := seq, rg_buf := (if length buf > rg_cap r then drop (length buf - rg_cap r) buf else buf)\<rparr>))"

definition Recent :: "ring \<Rightarrow> event list" where "Recent r = rg_buf r"

definition Len :: "ring \<Rightarrow> nat" where "Len r = length (rg_buf r)"

definition GetEvent :: "string \<Rightarrow> ring \<Rightarrow> event option" where
  "GetEvent eid r = (if eid = [] then None else find (\<lambda>e. el_ID e = eid) (rev (rg_buf r)))"

definition EmitDenied :: "go_time \<Rightarrow> go_time \<Rightarrow> actor \<Rightarrow> string \<Rightarrow> go_error \<Rightarrow> ring \<Rightarrow> ring" where
  "EmitDenied now now' a capID err r = snd (Emit now now' (zero_event\<lparr>el_ActorID := an_ID a, el_Transport := an_Transport a,
     el_ActorClass := an_Class a, el_Capability := capID, el_Result := ResultDenied, el_ErrorCode := CodeOf err\<rparr>) r)"

definition EmitOK ::
  "go_time \<Rightarrow> go_time \<Rightarrow> actor \<Rightarrow> string \<Rightarrow> string \<Rightarrow> string \<Rightarrow> string \<Rightarrow> ring \<Rightarrow> string \<times> ring" where
  "EmitOK now now' a capID reason revision previous r = Emit now now' (zero_event\<lparr>el_ActorID := an_ID a,
     el_Transport := an_Transport a, el_ActorClass := an_Class a, el_Capability := capID, el_Reason := reason,
     el_Revision := revision, el_Previous := previous, el_Result := ResultOK\<rparr>) r"

section \<open>The ring as a window on the log\<close>

text \<open>The last \<open>n\<close> elements of a list, and the event as the ring completes it.\<close>

definition last_n :: "nat \<Rightarrow> 'a list \<Rightarrow> 'a list" where
  "last_n n xs = drop (length xs - n) xs"

definition completed :: "go_time \<Rightarrow> go_time \<Rightarrow> nat \<Rightarrow> event \<Rightarrow> event" where
  "completed now now' seq e = (let
     e1 = (if el_ID e = [] then e\<lparr>el_ID := ''evt-'' @ stamp now @ ''-'' @ itoa_nat seq\<rparr> else e)
   in if IsZero (el_Time e1) then e1\<lparr>el_Time := now'\<rparr> else e1)"

lemma last_n_snoc: "last_n n (last_n n xs @ [x]) = last_n n (xs @ [x])"
proof (cases n)
  case (Suc k)
  have "length xs - (length xs - Suc k + k) + (length xs - Suc k) = length xs - k" by arith
  then show ?thesis by (simp add: last_n_def Suc)
qed (simp add: last_n_def)

lemma last_n_length: "length (last_n n xs) = min n (length xs)"
  by (simp add: last_n_def)

lemma Emit_completed:
  "Emit now now' e r = (el_ID (completed now now' (Suc (rg_seq r)) e),
     r\<lparr>rg_seq := Suc (rg_seq r), rg_buf := last_n (rg_cap r) (rg_buf r @ [completed now now' (Suc (rg_seq r)) e])\<rparr>)"
  by (auto simp: Emit_def completed_def last_n_def Let_def)

text \<open>A run of emissions, and the unbounded log of the same run.\<close>

fun emit_all :: "(go_time \<times> go_time \<times> event) list \<Rightarrow> ring \<Rightarrow> ring" where
  "emit_all [] r = r"
| "emit_all ((now, now', e) # es) r = emit_all es (snd (Emit now now' e r))"

fun full_log :: "nat \<Rightarrow> (go_time \<times> go_time \<times> event) list \<Rightarrow> event list" where
  "full_log seq [] = []"
| "full_log seq ((now, now', e) # es) = completed now now' (Suc seq) e # full_log (Suc seq) es"

lemma emit_all_buf:
  "rg_buf r = last_n (rg_cap r) log \<Longrightarrow>
     rg_buf (emit_all es r) = last_n (rg_cap r) (log @ full_log (rg_seq r) es) \<and> rg_cap (emit_all es r) = rg_cap r"
proof (induction es arbitrary: r log)
  case Nil
  then show ?case by simp
next
  case (Cons x es)
  obtain now now' e where x: "x = (now, now', e)" by (cases x)
  let ?c = "completed now now' (Suc (rg_seq r)) e"
  let ?r = "r\<lparr>rg_seq := Suc (rg_seq r), rg_buf := last_n (rg_cap r) (rg_buf r @ [?c])\<rparr>"
  have "rg_buf ?r = last_n (rg_cap ?r) (log @ [?c])" using Cons.prems by (simp add: last_n_snoc)
  from Cons.IH [OF this] show ?case by (simp add: x Emit_completed)
qed

lemma itoa_nat_no_dash: "CHR ''-'' \<notin> set (itoa_nat n)"
proof (induction n rule: itoa_nat.induct)
  case (1 n)
  have d: "CHR ''-'' \<noteq> digit_char k" if "k < 10" for k
  proof
    assume "CHR ''-'' = digit_char k"
    then have "(of_char (char_of (48 + k :: nat) :: char) :: nat) = of_char (CHR ''-'')" by (simp only: digit_char_def)
    moreover have "(of_char (CHR ''-'') :: nat) = 45" by simp
    ultimately show False using that by simp
  qed
  then show ?case using 1 d [of n] d [of "n mod 10"] by (subst itoa_nat.simps) auto
qed

lemma event_id_seq:
  "el_ID e = [] \<Longrightarrow> takeWhile (\<lambda>c. c \<noteq> CHR ''-'') (rev (el_ID (completed now now' seq e))) = rev (itoa_nat seq)"
  using itoa_nat_no_dash [of seq] by (simp add: completed_def Let_def takeWhile_append takeWhile_eq_all_conv)

lemma full_log_seq:
  assumes "\<forall>(now, now', e) \<in> set es. el_ID e = []"
  shows "map (\<lambda>e. takeWhile (\<lambda>c. c \<noteq> CHR ''-'') (rev (el_ID e))) (full_log seq es)
     = map (\<lambda>k. rev (itoa_nat k)) [Suc seq..<Suc seq + length es]"
  using assms
proof (induction es arbitrary: seq)
  case (Cons x es)
  obtain now now' e where x: "x = (now, now', e)" by (cases x)
  with Cons show ?case by (simp add: event_id_seq upt_conv_Cons del: upt_Suc)
qed simp

lemma full_log_ids: "\<forall>(now, now', e) \<in> set es. el_ID e = [] \<Longrightarrow> distinct (map el_ID (full_log seq es))"
proof -
  assume "\<forall>(now, now', e) \<in> set es. el_ID e = []"
  from full_log_seq [OF this, of seq]
  have "distinct (map (\<lambda>e. takeWhile (\<lambda>c. c \<noteq> CHR ''-'') (rev (el_ID e))) (full_log seq es))"
    by (simp add: distinct_map inj_on_def itoa_nat_inj del: upt_Suc)
  then show ?thesis by (auto simp: distinct_map inj_on_def)
qed

section \<open>Properties\<close>

text \<open>
  The audit ring is a window on the log: after any sequence of emissions it holds exactly the
  last \<open>cap\<close> events of the unbounded log in order, and events that get their identifier from the
  ring never share one, so the log is never reordered, duplicated or rewritten.
\<close>

theorem audit_ring_refines_log:
  "Recent (emit_all es (NewRing n)) = last_n (nat (if n \<le> 0 then 256 else n)) (full_log 0 es)
   \<and> Len (emit_all es (NewRing n)) \<le> nat (if n \<le> 0 then 256 else n)
   \<and> ((\<forall>(now, now', e) \<in> set es. el_ID e = []) \<longrightarrow> distinct (map el_ID (full_log 0 es)))"
  using emit_all_buf [of "NewRing n" "[]" es] full_log_ids [of es 0]
  by (auto simp: NewRing_def Recent_def Len_def last_n_def)

theorem audit_ring_refines_log_witness:
  "distinct (map el_ID (full_log 0 [(1, 1, zero_event), (2, 2, zero_event)]))"
  using audit_ring_refines_log [of "[(1, 1, zero_event), (2, 2, zero_event)]" 5] by (simp add: zero_event_def)

text \<open>An emitted event can be read back by the identifier that the emission returned.\<close>

lemma emitted_event_found:
  assumes "Emit now now' e r = (eid, r')" "0 < rg_cap r"
  shows "GetEvent eid r' = Some (completed now now' (Suc (rg_seq r)) e)"
proof -
  let ?c = "completed now now' (Suc (rg_seq r)) e"
  have ne: "el_ID ?c \<noteq> []" by (auto simp: completed_def Let_def)
  have "last_n (rg_cap r) (rg_buf r @ [?c]) = last_n (rg_cap r - 1) (rg_buf r) @ [?c]"
    using assms(2) by (cases "rg_cap r") (simp_all add: last_n_def)
  with assms ne show ?thesis by (auto simp: Emit_completed GetEvent_def)
qed

lemma completed_fields [simp]:
  "el_Capability (completed now now' seq e) = el_Capability e" "el_Result (completed now now' seq e) = el_Result e"
  "el_ActorID (completed now now' seq e) = el_ActorID e" "el_Revision (completed now now' seq e) = el_Revision e"
  "el_Previous (completed now now' seq e) = el_Previous e" "el_Reason (completed now now' seq e) = el_Reason e"
  by (simp_all add: completed_def Let_def)

text \<open>
  The capability catalogue is sound: identifiers are unique, no two capabilities share a REST
  binding or an MCP tool, every mutating capability requires a scope, and the only capabilities that
  require none are the health probes and the operator session endpoints.
\<close>

theorem catalog_sound:
  "distinct (map cp_ID catalog) \<and> distinct (map (\<lambda>c. (cp_Method c, cp_Path c)) catalog)
   \<and> distinct (map cp_Tool (filter (\<lambda>c. \<not> cp_RESTOnly c) catalog))
   \<and> filter (\<lambda>c. cp_Mutating c \<and> cp_RequiredScopes c = []) catalog = []
   \<and> map cp_ID (filter (\<lambda>c. cp_RequiredScopes c = []) catalog)
       = [''sso.health.live'', ''sso.health.ready'', ''sso.session.create'', ''sso.session.get'', ''sso.session.delete'']"
  by code_simp

text \<open>
  Authentication of management requests: a bearer token is accepted only when it equals the
  non-empty configured token, a request without one only from a loopback address, and a wrong token
  is refused even from loopback.
\<close>

theorem authenticate_exact:
  "(\<exists>a. Authenticate N remote authz token = Inr a) \<longleftrightarrow>
     (if ParseBearer authz \<noteq> [] then token \<noteq> [] \<and> ParseBearer authz = token else IsLoopback N remote)"
  by (auto simp: Authenticate_def Let_def)

end
