(* ===== verification/Idemp.thy ===== *)
theory Idemp
  imports Access Web
begin

text \<open>
  The types of \<^verbatim>\<open>internal/app/types.go\<close> and the idempotency cache of \<^verbatim>\<open>internal/app/idemp.go\<close>: a
  bounded map from scoped keys to the result of the request that first used the key, with the
  order of use that decides which entry is evicted.
\<close>

section \<open>Changes, plans and results\<close>

text \<open>An operation carries its value as the raw JSON text of the request.\<close>

record operation =
  op_Op :: string
  op_Kind :: string
  op_ID :: string
  op_Value :: string

record change_in =
  ci_ExpectedRevision :: string
  ci_IdempotencyKey :: string
  ci_Reason :: string
  ci_Operations :: "operation list"
  ci_fingerprint :: string

record diff_entry =
  df_Path :: string
  df_Op :: string
  df_Before :: string
  df_After :: string

record impact =
  im_ClientsChanged :: bool
  im_UsersChanged :: bool
  im_GroupsChanged :: bool
  im_IssuerChanged :: bool
  im_VendorChanged :: bool
  im_OverageChanged :: bool

definition no_impact :: impact where
  "no_impact = \<lparr>im_ClientsChanged = False, im_UsersChanged = False, im_GroupsChanged = False,
     im_IssuerChanged = False, im_VendorChanged = False, im_OverageChanged = False\<rparr>"

record plan =
  pl_PreviousRevision :: string
  pl_CandidateRevision :: string
  pl_Drifted :: bool
  pl_Diff :: "diff_entry list"
  pl_Impact :: impact
  pl_Operations :: "operation list"

record apply_result =
  ar_Plan :: plan
  ar_Applied :: bool
  ar_Generation :: int
  ar_AuditEventID :: string

section \<open>The cache\<close>

record idempEntry =
  ie_key :: string
  ie_fp :: string
  ie_plan :: "plan option"
  ie_res :: "apply_result option"

record idempCache =
  ic_cap :: nat
  ic_order :: "string list"
  ic_m :: "idempEntry gmap"

definition newIdemp :: "nat \<Rightarrow> idempCache" where
  "newIdemp n = \<lparr>ic_cap = n, ic_order = [], ic_m = gempty\<rparr>"

definition lookup :: "string \<Rightarrow> string \<Rightarrow> idempCache \<Rightarrow> (go_error + idempEntry option) \<times> idempCache" where
  "lookup key fp c =
     (if key = [] then (Inr None, c)
      else case gget (ic_m c) key of
        None \<Rightarrow> (Inr None, c)
      | Some e \<Rightarrow>
        if ie_fp e \<noteq> fp
        then (Inl (Conflict ''idempotency key reused with a different request'' []), c)
        else (Inr (Some e), if key \<in> set (ic_order c)
               then c\<lparr>ic_order := remove1 key (ic_order c) @ [key]\<rparr> else c))"

definition store_entry ::
  "string \<Rightarrow> string \<Rightarrow> plan option \<Rightarrow> apply_result option \<Rightarrow> idempCache \<Rightarrow> idempCache" where
  "store_entry key fp p res c =
     (if key = [] then c
      else let
        c1 = (if gget (ic_m c) key = None then
                (let order = ic_order c @ [key] in
                 if length order > ic_cap c
                 then c\<lparr>ic_order := tl order, ic_m := gdel (hd order) (ic_m c)\<rparr>
                 else c\<lparr>ic_order := order\<rparr>)
              else c)
      in c1\<lparr>ic_m := gput key \<lparr>ie_key = key, ie_fp = fp, ie_plan = p, ie_res = res\<rparr> (ic_m c1)\<rparr>)"

definition clear :: "idempCache \<Rightarrow> idempCache" where
  "clear c = c\<lparr>ic_order := [], ic_m := gempty\<rparr>"

section \<open>Scoped keys\<close>

text \<open>
  \<^verbatim>\<open>json.Marshal\<close> of a slice of strings. Control characters, quotes, backslashes and the three
  characters that Go escapes for HTML are escaped, as are U+2028 and U+2029; a byte that does not
  start a valid UTF-8 sequence becomes U+FFFD; other sequences stand for themselves.
  \<open>utf8_len\<close> is the length of the valid sequence at the head, 0 when there is none.
\<close>

definition byte_in :: "nat \<Rightarrow> nat \<Rightarrow> string \<Rightarrow> nat \<Rightarrow> bool" where
  "byte_in lo hi s i = (i < length s \<and> lo \<le> of_char (s ! i) \<and> of_char (s ! i) \<le> hi)"

fun utf8_len :: "string \<Rightarrow> nat" where
  "utf8_len [] = 0"
| "utf8_len (c # t) = (let b = (of_char c :: nat) in
     if b < 128 then 1
     else if 194 \<le> b \<and> b \<le> 223 then (if byte_in 128 191 t 0 then 2 else 0)
     else if 224 \<le> b \<and> b \<le> 239 then
       (if byte_in (if b = 224 then 160 else 128) (if b = 237 then 159 else 191) t 0 \<and> byte_in 128 191 t 1 then 3 else 0)
     else if 240 \<le> b \<and> b \<le> 244 then
       (if byte_in (if b = 240 then 144 else 128) (if b = 244 then 143 else 191) t 0 \<and> byte_in 128 191 t 1
           \<and> byte_in 128 191 t 2 then 4 else 0)
     else 0)"

function valid_utf8 :: "string \<Rightarrow> bool" where
  "valid_utf8 [] = True"
| "valid_utf8 (c # t) = (0 < utf8_len (c # t) \<and> valid_utf8 (drop (utf8_len (c # t) - 1) t))"
  by pat_completeness auto
termination by (relation "measure length") simp_all

definition json_esc :: "char \<Rightarrow> string" where
  "json_esc c =
     (if c = CHR 0x22 then [CHR 0x5C, CHR 0x22]
      else if c = CHR 0x5C then [CHR 0x5C, CHR 0x5C]
      else if c = CHR 0x0A then [CHR 0x5C, CHR ''n'']
      else if c = CHR 0x0D then [CHR 0x5C, CHR ''r'']
      else if c = CHR 0x09 then [CHR 0x5C, CHR ''t'']
      else if c = CHR 0x08 then [CHR 0x5C, CHR ''b'']
      else if c = CHR 0x0C then [CHR 0x5C, CHR ''f'']
      else if (of_char c :: nat) < 32 \<or> c \<in> {CHR ''<'', CHR ''>'', CHR ''&''}
      then CHR 0x5C # ''u00'' @ [hex_digit False (of_char c div 16), hex_digit False (of_char c mod 16)]
      else [c])"

function json_escape :: "string \<Rightarrow> string" where
  "json_escape [] = []"
| "json_escape (c # t) = (let n = utf8_len (c # t) in
     if (of_char c :: nat) < 128 then json_esc c @ json_escape t
     else if n = 0 then CHR 0x5C # ''ufffd'' @ json_escape t
     else if take n (c # t) = [CHR 0xE2, CHR 0x80, CHR 0xA8] then CHR 0x5C # ''u2028'' @ json_escape (drop (n - 1) t)
     else if take n (c # t) = [CHR 0xE2, CHR 0x80, CHR 0xA9] then CHR 0x5C # ''u2029'' @ json_escape (drop (n - 1) t)
     else take n (c # t) @ json_escape (drop (n - 1) t))"
  by pat_completeness auto
termination by (relation "measure length") (simp_all del: utf8_len.simps)

definition json_quote :: "string \<Rightarrow> string" where
  "json_quote s = CHR 0x22 # json_escape s @ [CHR 0x22]"

fun json_strings :: "string list \<Rightarrow> string" where
  "json_strings [] = []"
| "json_strings [s] = json_quote s"
| "json_strings (s # ss) = json_quote s @ '','' @ json_strings ss"

definition scopedKey :: "actor \<Rightarrow> string \<Rightarrow> string \<Rightarrow> string" where
  "scopedKey a capID key = (if key = [] then []
     else ''['' @ json_strings [an_Class a, an_ID a, capID, key] @ '']'')"

text \<open>The reader of an escaped string up to its closing quote, used to show that quoting is injective.\<close>

fun json_unquote :: "string \<Rightarrow> (string \<times> string) option" where
  "json_unquote [] = None"
| "json_unquote (c # s) =
     (if c = CHR 0x22 then Some ([], s)
      else if c = CHR 0x5C then
        (case s of
           [] \<Rightarrow> None
         | k # t \<Rightarrow>
           if k = CHR ''u'' then
             (case t of z1 # z2 # a # b # t' \<Rightarrow>
                if z1 = CHR ''2'' then map_option (map_prod (append [CHR 0xE2, CHR 0x80,
                     if b = CHR ''8'' then CHR 0xA8 else CHR 0xA9]) id) (json_unquote t')
                else (case (unhex a, unhex b) of
                   (Some x, Some y) \<Rightarrow> map_option (map_prod (Cons (char_of (16 * x + y))) id) (json_unquote t')
                 | _ \<Rightarrow> None)
              | _ \<Rightarrow> None)
           else map_option (map_prod (Cons
                  (if k = CHR ''n'' then CHR 0x0A else if k = CHR ''r'' then CHR 0x0D
                   else if k = CHR ''t'' then CHR 0x09 else if k = CHR ''b'' then CHR 0x08
                   else if k = CHR ''f'' then CHR 0x0C else k)) id) (json_unquote t))
      else map_option (map_prod (Cons c) id) (json_unquote s))"

lemma json_unquote_esc:
  "json_unquote (json_esc c @ t) = map_option (map_prod (Cons c) id) (json_unquote t)"
proof -
  have lt: "of_char c < (256 :: nat)" by (simp add: of_char_def)
  then have dv: "of_char c div 16 < (16 :: nat)" by (simp add: less_mult_imp_div_less)
  show ?thesis
    using dv by (auto simp: json_esc_def hex_digit_unhex)
qed

lemma json_unquote_raw:
  "list_all (\<lambda>c. 128 \<le> (of_char c :: nat)) u \<Longrightarrow>
     json_unquote (u @ t) = map_option (map_prod (append u) id) (json_unquote t)"
proof (induction u)
  case Nil
  then show ?case by (simp add: map_prod.identity option.map_ident prod.map_ident)
next
  case (Cons c u)
  then have "c \<noteq> CHR 0x22" "c \<noteq> CHR 0x5C" by auto
  with Cons show ?case by (simp add: option.map_comp comp_def map_prod_compose [symmetric] map_prod_def split_beta)
qed

lemma utf8_tail_bytes:
  "128 \<le> (of_char c :: nat) \<Longrightarrow> Suc i < utf8_len (c # t) \<Longrightarrow> i < length t \<and> 128 \<le> (of_char (t ! i) :: nat)"
proof -
  assume a: "128 \<le> (of_char c :: nat)" "Suc i < utf8_len (c # t)"
  then have "i = 0 \<or> i = 1 \<or> i = 2" by (auto simp: Let_def split: if_splits)
  with a show ?thesis by (elim disjE) (simp_all add: byte_in_def Let_def split: if_splits)
qed

lemma utf8_len_high:
  "128 \<le> (of_char c :: nat) \<Longrightarrow>
     list_all (\<lambda>c. 128 \<le> (of_char c :: nat)) (take (utf8_len (c # t)) (c # t))"
  using utf8_tail_bytes [of c _ t]
  by (auto simp: list_all_length nth_Cons split: nat.splits simp del: utf8_len.simps)

lemma json_unquote_escape:
  "valid_utf8 s \<Longrightarrow> json_unquote (json_escape s @ CHR 0x22 # t) = Some (s, t)"
proof (induction s rule: json_escape.induct)
  case (2 c s)
  let ?n = "utf8_len (c # s)"
  have n: "0 < ?n" and v: "valid_utf8 (drop (?n - 1) s)" using 2(6) by (simp_all del: utf8_len.simps)
  show ?case
  proof (cases "(of_char c :: nat) < 128")
    case True
    then have "?n = 1" by simp
    then show ?thesis using 2(1) [OF refl True] v True
      by (simp add: json_unquote_esc del: json_unquote.simps(2) utf8_len.simps)
  next
    case False
    have split: "take ?n (c # s) @ drop (?n - 1) s = c # s"
      using n by (cases ?n) (simp_all del: utf8_len.simps)
    let ?l = "[CHR 0xE2, CHR 0x80, CHR 0xA8]" and ?p = "[CHR 0xE2, CHR 0x80, CHR 0xA9]"
    show ?thesis
    proof (cases "take ?n (c # s) = ?l \<or> take ?n (c # s) = ?p")
      case True
      then have "json_unquote (json_escape (drop (?n - 1) s) @ CHR 0x22 # t) = Some (drop (?n - 1) s, t)"
        using 2(3,4) [OF refl False] n v by blast
      then show ?thesis using True False n split
        by (auto simp del: utf8_len.simps)
    next
      case neither: False
      then have "json_unquote (json_escape (drop (?n - 1) s) @ CHR 0x22 # t) = Some (drop (?n - 1) s, t)"
        using 2(5) [OF refl False] n v by blast
      then show ?thesis using neither False n split json_unquote_raw [OF utf8_len_high]
        by (simp add: Let_def del: utf8_len.simps json_unquote.simps)
    qed
  qed
qed simp

lemma json_quote_inj:
  assumes "valid_utf8 a" "valid_utf8 b" "json_quote a @ s = json_quote b @ t"
  shows "a = b \<and> s = t"
proof -
  have "json_escape a @ CHR 0x22 # s = json_escape b @ CHR 0x22 # t"
    using assms(3) by (simp add: json_quote_def)
  then have "json_unquote (json_escape a @ CHR 0x22 # s) = json_unquote (json_escape b @ CHR 0x22 # t)"
    by (rule arg_cong)
  then show ?thesis unfolding json_unquote_escape [OF assms(1)] json_unquote_escape [OF assms(2)] by simp
qed

text \<open>
  Idempotency keys are private: the scoped keys of two requests are equal only when the actor
  class, the actor, the capability and the key are all the same, so no request can replay or block
  the result of another actor or of another operation. The parts are valid UTF-8; the encoder replaces
  any other byte by U+FFFD.
\<close>
theorem scoped_key_injective:
  assumes "scopedKey a capID key = scopedKey a' capID' key'" "key \<noteq> []"
    and "list_all valid_utf8 [an_Class a, an_ID a, capID, key]" "list_all valid_utf8 [an_Class a', an_ID a', capID', key']"
  shows "an_Class a = an_Class a' \<and> an_ID a = an_ID a' \<and> capID = capID' \<and> key = key'"
proof -
  have "key' \<noteq> []" using assms(1,2) by (auto simp: scopedKey_def)
  with assms(1,2) have "json_quote (an_Class a) @ '','' @ json_quote (an_ID a) @ '','' @ json_quote capID @ '','' @ json_quote key @ []
      = json_quote (an_Class a') @ '','' @ json_quote (an_ID a') @ '','' @ json_quote capID' @ '','' @ json_quote key' @ []"
    by (simp add: scopedKey_def)
  with assms(3,4) show ?thesis
    using json_quote_inj [of key key' "[]" "[]"] by (auto dest!: json_quote_inj [rotated 2])
qed

theorem scoped_key_injective_witness:
  "scopedKey AdminActor ''sso.change.apply'' ''k'' \<noteq> scopedKey (AdminActor\<lparr>an_ID := ''bearer''\<rparr>) ''sso.change.apply'' ''k''"
proof
  assume eq: "scopedKey AdminActor ''sso.change.apply'' ''k'' = scopedKey (AdminActor\<lparr>an_ID := ''bearer''\<rparr>) ''sso.change.apply'' ''k''"
  have "list_all valid_utf8 [an_Class AdminActor, an_ID AdminActor, ''sso.change.apply'', ''k'']"
    "list_all valid_utf8 [an_Class (AdminActor\<lparr>an_ID := ''bearer''\<rparr>), an_ID (AdminActor\<lparr>an_ID := ''bearer''\<rparr>), ''sso.change.apply'', ''k'']"
    by code_simp+
  with scoped_key_injective [OF eq] show False by (simp add: AdminActor_def)
qed

section \<open>The invariant of the cache\<close>

definition idemp_inv :: "idempCache \<Rightarrow> bool" where
  "idemp_inv c \<longleftrightarrow> 0 < ic_cap c \<and> distinct (ic_order c) \<and> length (ic_order c) \<le> ic_cap c
     \<and> set (ic_order c) = dom (gget (ic_m c))
     \<and> (\<forall>k e. gget (ic_m c) k = Some e \<longrightarrow> ie_key e = k)"

lemma idemp_inv_new: "0 < n \<Longrightarrow> idemp_inv (newIdemp n)"
  by (auto simp: idemp_inv_def newIdemp_def)

lemma idemp_inv_clear: "idemp_inv c \<Longrightarrow> idemp_inv (clear c)"
  by (auto simp: idemp_inv_def clear_def)

lemma idemp_inv_lookup: "idemp_inv c \<Longrightarrow> idemp_inv (snd (lookup key fp c))"
  by (auto simp: idemp_inv_def lookup_def length_remove1 split: option.splits)

lemma idemp_inv_store: "idemp_inv c \<Longrightarrow> idemp_inv (store_entry key fp p res c)"
proof -
  assume inv: "idemp_inv c"
  show ?thesis
  proof (cases "key = [] \<or> gget (ic_m c) key \<noteq> None")
    case True
    then show ?thesis using inv by (auto simp: idemp_inv_def store_entry_def Let_def)
  next
    case False
    then have new: "key \<notin> set (ic_order c)" using inv by (auto simp: idemp_inv_def)
    show ?thesis
    proof (cases "length (ic_order c) < ic_cap c")
      case True
      then show ?thesis using inv False new by (auto simp: idemp_inv_def store_entry_def Let_def)
    next
      case full: False
      then obtain o1 os where o: "ic_order c = o1 # os"
        using inv by (cases "ic_order c") (auto simp: idemp_inv_def)
      have dom: "dom (gget (ic_m c)) = insert o1 (set os)" "o1 \<notin> set os"
        using inv o by (auto simp: idemp_inv_def)
      then have "dom ((gget (ic_m c))(o1 := None)) = set os" by auto
      then show ?thesis
        using inv False new full o dom by (auto simp: idemp_inv_def store_entry_def Let_def)
    qed
  qed
qed

text \<open>A run of the cache: any sequence of lookups, stores and clears.\<close>

datatype cache_op = CLookup string string | CStore string string "plan option" "apply_result option" | CClear

fun cache_run :: "cache_op list \<Rightarrow> idempCache \<Rightarrow> idempCache" where
  "cache_run [] c = c"
| "cache_run (CLookup k fp # xs) c = cache_run xs (snd (lookup k fp c))"
| "cache_run (CStore k fp p res # xs) c = cache_run xs (store_entry k fp p res c)"
| "cache_run (CClear # xs) c = cache_run xs (clear c)"

lemma cache_run_inv: "idemp_inv c \<Longrightarrow> idemp_inv (cache_run xs c)"
  by (induction xs c rule: cache_run.induct) (auto intro: idemp_inv_lookup idemp_inv_store idemp_inv_clear)

text \<open>
  The idempotency cache stays bounded and consistent whatever the requests: the keys in the
  eviction order are distinct and are exactly the keys of the map, and there are never more than the
  capacity.
\<close>

theorem idemp_cache_invariant:
  assumes "0 < n"
  shows "(let c = cache_run xs (newIdemp n) in
     distinct (ic_order c) \<and> set (ic_order c) = dom (gget (ic_m c)) \<and> glen (ic_m c) \<le> ic_cap c)"
proof -
  have inv: "idemp_inv (cache_run xs (newIdemp n))" using assms by (intro cache_run_inv idemp_inv_new)
  then show ?thesis by (auto simp: idemp_inv_def glen_dom Let_def distinct_card simp flip: distinct_card)
qed

theorem idemp_cache_invariant_witness:
  "distinct (ic_order (cache_run [CStore ''a'' ''f'' None None, CLookup ''a'' ''f''] (newIdemp 1)))"
  using idemp_cache_invariant [of 1 "[CStore ''a'' ''f'' None None, CLookup ''a'' ''f'']"] by (simp add: Let_def)

text \<open>
  Replay is exact: after a result is stored under a key, the same request finds exactly that
  result, the same key with a different request is refused as a conflict, and no other entry is
  touched except, when the cache is full and the key is new, the least recently used one.
\<close>

theorem idemp_replay_exact:
  assumes "idemp_inv c" "key \<noteq> []"
  shows "fst (lookup key fp (store_entry key fp p res c))
      = Inr (Some \<lparr>ie_key = key, ie_fp = fp, ie_plan = p, ie_res = res\<rparr>)
    \<and> (fp' \<noteq> fp \<longrightarrow> fst (lookup key fp' (store_entry key fp p res c))
      = Inl (Conflict ''idempotency key reused with a different request'' []))
    \<and> (k \<noteq> key \<longrightarrow> gget (ic_m (store_entry key fp p res c)) k = gget (ic_m c) k
      \<or> (k = hd (ic_order c) \<and> length (ic_order c) = ic_cap c \<and> gget (ic_m c) key = None))"
proof -
  have "ic_order c \<noteq> []" if "length (ic_order c) = ic_cap c" using assms(1) that by (auto simp: idemp_inv_def)
  moreover have "\<not> length (ic_order c) > ic_cap c" using assms(1) by (auto simp: idemp_inv_def)
  ultimately show ?thesis using assms(2) by (auto simp: lookup_def store_entry_def Let_def)
qed

theorem idemp_replay_exact_witness:
  "fst (lookup ''k'' ''f'' (store_entry ''k'' ''f'' None None (newIdemp 2)))
     = Inr (Some \<lparr>ie_key = ''k'', ie_fp = ''f'', ie_plan = None, ie_res = None\<rparr>)"
  using idemp_replay_exact [of "newIdemp 2" "''k''" "''f''" None None] idemp_inv_new [of 2] by simp

end
