(* ===== verification/Importrw.thy ===== *)
theory Importrw
  imports Xml_Props Idemp
begin

text \<open>
  \<^verbatim>\<open>internal/importrw/rewrite.go\<close>: turning a vendor's application document into a client. A decoded JSON
  object is an association list in one iteration order of the Go map; \<open>unmarshal\<close> is \<^verbatim>\<open>json.Unmarshal\<close>
  into \<^verbatim>\<open>map[string]any\<close>, \<open>L\<close> and \<open>N\<close> are the XML and URL libraries. A nil \<^verbatim>\<open>any\<close> is \<open>None\<close>.
\<close>

type_synonym fields = "(string \<times> json) list"

definition KindEntraManifest :: string where "KindEntraManifest = ''entra-manifest''"
definition KindOktaApp :: string where "KindOktaApp = ''okta-app''"
definition KindSAMLMetadata :: string where "KindSAMLMetadata = ''saml-metadata''"
definition KindOIDCClient :: string where "KindOIDCClient = ''oidc-client''"

record import_result =
  ir_Client :: client
  ir_Unmapped :: fields
  ir_Warnings :: "string list"
  ir_Kind :: string

definition ValidKind :: "string \<Rightarrow> bool" where
  "ValidKind k = (k = KindEntraManifest \<or> k = KindOktaApp \<or> k = KindSAMLMetadata \<or> k = KindOIDCClient)"

section \<open>Secrets\<close>

definition has_pem :: "string \<Rightarrow> bool" where
  "has_pem s = Contains (ToUpper s) ''-----BEGIN ''"

fun pemString :: "json \<Rightarrow> bool" where
  "pemString (JStr s) = has_pem s"
| "pemString _ = False"

definition secret_names :: "string list" where
  "secret_names = [''client_secret'', ''clientsecret'', ''password'', ''private_key'', ''privatekey'', ''pem'', ''jwks'',
     ''passwordcredentials'', ''keycredentials'', ''secrettext'', ''token'', ''access_token'', ''accesstoken'',
     ''refresh_token'', ''refreshtoken'', ''id_token'', ''idtoken'', ''authorization'', ''apikey'', ''api_key'']"

definition secretKey :: "string \<Rightarrow> bool" where
  "secretKey k = (ToLower k \<in> set secret_names)"

definition dropped :: "string \<Rightarrow> string" where
  "dropped path = ''dropped secret-like field '' @ path @ ''; use file refs''"

fun scrubValue :: "string \<Rightarrow> json \<Rightarrow> json option \<times> string list"
and scrub_fields :: "string \<Rightarrow> fields \<Rightarrow> fields \<times> string list"
and scrub_items :: "string \<Rightarrow> json list \<Rightarrow> json list \<times> string list" where
  "scrubValue path (JObj kvs) = (let (out, w) = scrub_fields path kvs in (Some (JObj out), w))"
| "scrubValue path (JArr js) = (let (out, w) = scrub_items path js in (Some (if out = [] then JNilArr else JArr out), w))"
| "scrubValue path JNilArr = (Some JNilArr, [])"
| "scrubValue path JNull = (None, [])"
| "scrubValue path (JBool b) = (Some (JBool b), [])"
| "scrubValue path (JNum n) = (Some (JNum n), [])"
| "scrubValue path (JDec s) = (Some (JDec s), [])"
| "scrubValue path (JStr s) = (if has_pem s then (None, [dropped path]) else (Some (JStr s), []))"
| "scrub_fields path [] = ([], [])"
| "scrub_fields path ((k, child) # kvs) = (let
     p = (if path \<noteq> [] then path @ ''.'' @ k else k); (out, w) = scrub_fields path kvs
   in if secretKey k \<or> pemString child then (out, dropped p # w)
      else let (kept, extra) = scrubValue p child in
        (case kept of None \<Rightarrow> out | Some v \<Rightarrow> (k, v) # out, extra @ w))"
| "scrub_items path [] = ([], [])"
| "scrub_items path (child # js) = (let p = path @ ''[]''; (out, w) = scrub_items path js in
     if pemString child then (out, dropped p # w)
     else let (kept, extra) = scrubValue p child in
       (case kept of None \<Rightarrow> out | Some v \<Rightarrow> v # out, extra @ w))"

definition scrubSecrets :: "fields \<Rightarrow> string list \<Rightarrow> fields \<times> string list" where
  "scrubSecrets unmapped warn = (let (out, extra) = scrub_fields [] unmapped in (out, warn @ extra))"

definition finish_import :: "import_result \<Rightarrow> go_error + import_result" where
  "finish_import res = (let cl = ir_Client res;
     blob = cl_ClientID cl @ cl_ID cl @ concat (cl_RedirectURIs cl) @ cs_EntityID (cl_SAML cl) @ concat (cs_ACSURLs (cl_SAML cl))
   in if has_pem blob then Inl (Errorf ''inline PEM rejected; use file refs'' [])
      else let (unmapped, warn) = scrubSecrets (ir_Unmapped res) (ir_Warnings res)
        in Inr (res\<lparr>ir_Unmapped := unmapped, ir_Warnings := sort warn\<rparr>))"

section \<open>Reading fields\<close>

text \<open>A string field that is present and not empty.\<close>

definition str_field :: "fields \<Rightarrow> string \<Rightarrow> string option" where
  "str_field m k = (case map_of m k of Some (JStr s) \<Rightarrow> if s \<noteq> [] then Some s else None | _ \<Rightarrow> None)"

definition del_field :: "string \<Rightarrow> fields \<Rightarrow> fields" where
  "del_field k m = filter (\<lambda>(j, _). j \<noteq> k) m"

definition stringSlice :: "json option \<Rightarrow> string list" where
  "stringSlice v = (case v of
     Some (JArr js) \<Rightarrow> List.map_filter (\<lambda>x. case x of JStr s \<Rightarrow> Some s | _ \<Rightarrow> None) js
   | _ \<Rightarrow> [])"

fun redirectList :: "fields \<Rightarrow> string list \<Rightarrow> string list" where
  "redirectList m [] = []"
| "redirectList m (k # ks) = (case map_of m k of
     None \<Rightarrow> redirectList m ks
   | Some v \<Rightarrow>
     let sl = stringSlice (Some v);
         urls = (case v of JArr js \<Rightarrow> List.map_filter (\<lambda>x. case x of JObj obj \<Rightarrow> str_field obj ''url'' | _ \<Rightarrow> None) js | _ \<Rightarrow> [])
     in if length sl > 0 then sl else if length urls > 0 then urls else redirectList m ks)"

definition implicitOn :: "fields \<Rightarrow> bool" where
  "implicitOn m = list_ex (\<lambda>k. map_of m k = Some (JBool True)) [''oauth2AllowIdTokenImplicitFlow'', ''oauth2AllowImplicitFlow'']"

fun onlyHTTPS :: "netlib \<Rightarrow> string list \<Rightarrow> string list \<times> string list" where
  "onlyHTTPS N [] = ([], [])"
| "onlyHTTPS N (u # us) = (let (out, warn) = onlyHTTPS N us in
     if ValidateURI N u True = None then (u # out, warn) else (out, ''dropped invalid or non-HTTPS redirect'' # warn))"

text \<open>One replacement per rune: a byte below 128, a well-formed UTF-8 sequence, or a stray byte.\<close>

function sanitize_runes :: "string \<Rightarrow> string" where
  "sanitize_runes [] = []"
| "sanitize_runes (c # s) = (if is_lower c \<or> is_digit c then c else CHR ''-'') # sanitize_runes (drop (utf8_len (c # s) - 1) s)"
  by pat_completeness auto
termination by (relation "measure length") simp_all

definition sanitize :: "string \<Rightarrow> string" where
  "sanitize s = (let out = take 40 (TrimRight (TrimLeft (sanitize_runes (ToLower s)) ''-'') ''-'')
     in if out = [] then ''client'' else out)"

section \<open>The four formats\<close>

definition import_client :: "client \<Rightarrow> fields \<Rightarrow> string list \<Rightarrow> string \<Rightarrow> go_error + import_result" where
  "import_client cl unmapped warn kind =
     (if cl_ClientID cl = [] \<or> length (cl_RedirectURIs cl) = 0
      then Inl (Errorf ''import produced no clientId/redirectURIs'' [])
      else Inr \<lparr>ir_Client = cl, ir_Unmapped = unmapped, ir_Warnings = warn, ir_Kind = kind\<rparr>)"

definition rewriteEntra :: "netlib \<Rightarrow> (string \<Rightarrow> fields option) \<Rightarrow> string \<Rightarrow> go_error + import_result" where
  "rewriteEntra N unmarshal raw = (case unmarshal raw of
     None \<Rightarrow> Inl (Errorf ''entra-manifest JSON: %w'' [])
   | Some m \<Rightarrow> let
       (cid, un1) = (case str_field m ''appId'' of
          Some v \<Rightarrow> (v, del_field ''id'' (del_field ''appId'' m))
        | None \<Rightarrow> (case str_field m ''id'' of Some v \<Rightarrow> (v, del_field ''id'' m) | None \<Rightarrow> ([], m)));
       un2 = del_field ''replyUrls'' (del_field ''redirectUris'' (del_field ''replyUrlsWithType'' un1));
       (https, warn0) = onlyHTTPS N (redirectList m [''replyUrlsWithType'', ''redirectUris'', ''replyUrls'']);
       warn = warn0 @ (if implicitOn m then [''implicit flow is not enabled; LabSSO stays authorization-code''] else []);
       grouped = (case map_of m ''groupMembershipClaims'' of
          None \<Rightarrow> False | Some gm \<Rightarrow> gm \<noteq> JNull \<and> sprint gm \<noteq> ''None'');
       cl = zero_client\<lparr>cl_Public := True, cl_ClientID := cid, cl_ID := ''imported-'' @ sanitize cid,
         cl_RedirectURIs := https, cl_Scopes := (if grouped then [''openid'', ''groups''] else [])\<rparr>
     in import_client cl (if grouped then del_field ''groupMembershipClaims'' un2 else un2) warn KindEntraManifest)"

definition okta_uris :: "fields \<Rightarrow> string list" where
  "okta_uris m = (let uris = stringSlice (map_of m ''redirect_uris'') in
     if length uris \<noteq> 0 then uris
     else case map_of m ''settings'' of
       Some (JObj settings) \<Rightarrow> (case map_of settings ''oauthClient'' of
          Some (JObj oc) \<Rightarrow> stringSlice (map_of oc ''redirect_uris'') | _ \<Rightarrow> uris)
     | _ \<Rightarrow> uris)"

definition client_id_field :: "fields \<Rightarrow> string \<times> fields" where
  "client_id_field m = (case str_field m ''client_id'' of Some v \<Rightarrow> (v, del_field ''client_id'' m) | None \<Rightarrow> ([], m))"

definition rewriteOkta :: "netlib \<Rightarrow> (string \<Rightarrow> fields option) \<Rightarrow> string \<Rightarrow> go_error + import_result" where
  "rewriteOkta N unmarshal raw = (case unmarshal raw of
     None \<Rightarrow> Inl (Errorf ''okta-app JSON: %w'' [])
   | Some m \<Rightarrow> let
       (cid, un1) = client_id_field m;
       un2 = del_field ''redirect_uris'' un1;
       un3 = (case str_field m ''label'' of Some v \<Rightarrow> AList.update ''label'' (JStr v) un2 | None \<Rightarrow> un2);
       (https, warn0) = onlyHTTPS N (okta_uris m);
       warn = warn0 @ (case str_field m ''signOnMode'' of
          Some sign \<Rightarrow> if EqualFold sign ''SAML_2_0'' then [''sign-on mode SAML is not silently enabling saml.enabled''] else []
        | None \<Rightarrow> [])
     in import_client (zero_client\<lparr>cl_Public := True, cl_ClientID := cid, cl_RedirectURIs := https,
          cl_ID := ''imported-'' @ sanitize cid\<rparr>) un3 warn KindOktaApp)"

definition rewriteOIDC :: "netlib \<Rightarrow> (string \<Rightarrow> fields option) \<Rightarrow> string \<Rightarrow> go_error + import_result" where
  "rewriteOIDC N unmarshal raw = (case unmarshal raw of
     None \<Rightarrow> Inl (Errorf ''oidc-client JSON: %w'' [])
   | Some m \<Rightarrow> let
       (cid, un1) = client_id_field m;
       (https, warn0) = onlyHTTPS N (stringSlice (map_of m ''redirect_uris''));
       un2 = del_field ''token_endpoint_auth_method'' (del_field ''redirect_uris'' un1);
       method = (case map_of m ''token_endpoint_auth_method'' of Some (JStr s) \<Rightarrow> s | _ \<Rightarrow> []);
       public = (method = [] \<or> method = ''none'');
       warn = warn0 @ (if public then [] else [''confidential client requires secretRef before apply''])
     in import_client (zero_client\<lparr>cl_Public := public, cl_ClientID := cid, cl_RedirectURIs := https,
          cl_ID := ''imported-'' @ sanitize cid\<rparr>) un2 warn KindOIDCClient)"

definition rewriteSAML :: "samllib \<Rightarrow> netlib \<Rightarrow> string \<Rightarrow> go_error + import_result" where
  "rewriteSAML L N raw = bindE (ParseSPSSO L N raw) (\<lambda>(entity, acs).
     if entity = [] then Inl (Errorf ''import produced no SAML entityID'' [])
     else let (https, warn) = onlyHTTPS N acs in
       if length https = 0 then Inl (Errorf ''import produced no ACS / redirectURIs'' [])
       else Inr \<lparr>ir_Client = zero_client\<lparr>cl_ID := ''imported-'' @ sanitize entity, cl_ClientID := entity, cl_Public := True,
           cl_RedirectURIs := https, cl_SAML := \<lparr>cs_EntityID = entity, cs_ACSURLs = https\<rparr>\<rparr>,
         ir_Unmapped = [], ir_Warnings = warn, ir_Kind = KindSAMLMetadata\<rparr>)"

definition Rewrite :: "samllib \<Rightarrow> netlib \<Rightarrow> (string \<Rightarrow> fields option) \<Rightarrow> string \<Rightarrow> string \<Rightarrow> go_error + import_result" where
  "Rewrite L N unmarshal kind raw =
     (if \<not> ValidKind kind then Inl (Errorf ''unknown import kind %q'' [kind])
      else bindE (if kind = KindEntraManifest then rewriteEntra N unmarshal raw
                  else if kind = KindOktaApp then rewriteOkta N unmarshal raw
                  else if kind = KindSAMLMetadata then rewriteSAML L N raw
                  else rewriteOIDC N unmarshal raw) finish_import)"

end
