(* ===== verification/App.thy ===== *)
theory App
  imports Provider Idemp Compiler
begin

text \<open>
  \<^verbatim>\<open>internal/app\<close>: the management application. Every mutating operation runs under the application
  mutex, so each is one transition of the state \<open>app\<close>: it authorises the actor against the
  capability catalogue, works on the candidate snapshot, swaps it in, purges protocol state when
  needed, records an audit event and remembers the result under the idempotency key.

  The record \<open>system\<close> holds the libraries: \<open>codec\<close> is \<^verbatim>\<open>encoding/json\<close> on the types of the model, the
  fingerprints are SHA-256 over a canonical JSON text. \<open>clk i\<close> is the clock at the \<open>i\<close>-th call site.
\<close>

section \<open>Libraries and state\<close>

record codec =
  cd_client :: "string \<Rightarrow> client option"
  cd_user :: "string \<Rightarrow> user option"
  cd_group :: "string \<Rightarrow> group option"
  cd_profile :: "string \<Rightarrow> profile option"
  cd_protocols :: "string \<Rightarrow> protocols option"
  cd_auth :: "string \<Rightarrow> auth option"
  cd_overage :: "string \<Rightarrow> group_overage option"
  cd_listeners :: "string \<Rightarrow> listeners option"
  cd_access :: "string \<Rightarrow> string option"
  cd_ui :: "string \<Rightarrow> bool option option"
  cd_management :: "string \<Rightarrow> mgmtlistener option"
  cd_issuer :: "string \<Rightarrow> string option"
  cd_string :: "string \<Rightarrow> string option"
  ce_spec :: "spec \<Rightarrow> string"
  ce_clients :: "client list \<Rightarrow> string"
  ce_users :: "user list \<Rightarrow> string"
  ce_groups :: "group list \<Rightarrow> string"
  ce_auth :: "auth \<Rightarrow> string"
  ce_protocols :: "protocols \<Rightarrow> string"
  ce_access :: "string \<Rightarrow> string"
  ce_signing :: "string \<Rightarrow> string"
  ce_profile :: "profile \<Rightarrow> string"
  ce_overage :: "group_overage \<Rightarrow> string"
  ce_client :: "client \<Rightarrow> string"

record reset_in =
  ri_ExpectedRevision :: string
  ri_IdempotencyKey :: string
  ri_DryRun :: bool
  ri_Reason :: string

record mfa_in =
  mi_Mode :: string
  mi_ExpectedRevision :: string
  mi_IdempotencyKey :: string
  mi_Reason :: string

record vendor_in =
  vi_Vendor :: string
  vi_TenantID :: "string option"
  vi_ExpectedRevision :: string
  vi_IdempotencyKey :: string
  vi_Reason :: string

record overage_in =
  oi_EntraGraphStub :: "bool option"
  oi_OktaFailAt :: "int option"
  oi_GenericCap :: "int option"
  oi_ExpectedRevision :: string
  oi_IdempotencyKey :: string
  oi_Reason :: string

record redirect_in =
  di_ClientID :: string
  di_RedirectURIs :: "string list"
  di_ExpectedRevision :: string
  di_IdempotencyKey :: string
  di_Reason :: string

record system =
  sy_env :: env
  sy_comp :: comp
  sy_codec :: codec
  sy_fp_change :: "change_in \<Rightarrow> go_error + string"
  sy_fp_reset :: "reset_in \<Rightarrow> go_error + string"
  sy_fp_mfa :: "mfa_in \<Rightarrow> go_error + string"
  sy_fp_vendor :: "vendor_in \<Rightarrow> go_error + string"
  sy_fp_overage :: "overage_in \<Rightarrow> go_error + string"
  sy_fp_redirect :: "redirect_in \<Rightarrow> go_error + string"

record operator_session =
  os_ID :: string
  os_CSRF :: string
  os_Actor :: actor
  os_Expires :: go_time

record app =
  ap_store :: store
  ap_bootstrapPath :: string
  ap_idemp :: idempCache
  ap_audit :: ring
  ap_requireHTTPS :: bool
  ap_httpsBound :: bool
  ap_oidc :: provider
  ap_opsess :: "operator_session gmap"

definition NewApp :: "store \<Rightarrow> string \<Rightarrow> app" where
  "NewApp st path = \<lparr>ap_store = st, ap_bootstrapPath = path, ap_idemp = newIdemp 256, ap_audit = NewRing 256,
     ap_requireHTTPS = False, ap_httpsBound = False,
     ap_oidc = Oidc.New\<lparr>pv_rt := SetReject True NewRuntime, pv_hasWarn := True\<rparr>, ap_opsess = gempty\<rparr>"

text \<open>The protocol runtime of the application, read and updated.\<close>

definition app_rt :: "app \<Rightarrow> runtime" where "app_rt a = pv_rt (ap_oidc a)"

definition set_rt :: "runtime \<Rightarrow> app \<Rightarrow> app" where
  "set_rt r a = a\<lparr>ap_oidc := (ap_oidc a)\<lparr>pv_rt := r\<rparr>\<rparr>"

section \<open>Authorisation and audit\<close>

definition authorize_cap :: "(nat \<Rightarrow> go_time) \<Rightarrow> actor \<Rightarrow> string \<Rightarrow> app \<Rightarrow> go_error option \<times> app" where
  "authorize_cap clk actor cid a = (case ByID cid of
     None \<Rightarrow> (Some (NotFound ''capability %s'' [cid]), a)
   | Some c \<Rightarrow> (case Authorize actor c of
       Some e \<Rightarrow> (Some e, a\<lparr>ap_audit := EmitDenied (clk 0) (clk 1) actor cid e (ap_audit a)\<rparr>)
     | None \<Rightarrow> (None, a)))"

text \<open>Run an operation behind its capability check.\<close>

definition with_cap ::
  "(nat \<Rightarrow> go_time) \<Rightarrow> actor \<Rightarrow> string \<Rightarrow> app \<Rightarrow> (app \<Rightarrow> (go_error + 'r) \<times> app) \<Rightarrow> (go_error + 'r) \<times> app" where
  "with_cap clk actor cid a body = (case authorize_cap clk actor cid a of
     (Some e, a1) \<Rightarrow> (Inl e, a1) | (None, a1) \<Rightarrow> body a1)"

definition emit_ok ::
  "(nat \<Rightarrow> go_time) \<Rightarrow> actor \<Rightarrow> string \<Rightarrow> string \<Rightarrow> string \<Rightarrow> string \<Rightarrow> app \<Rightarrow> string \<times> app" where
  "emit_ok clk actor capID reason revision previous a =
     (let (eid, r) = EmitOK (clk 2) (clk 3) actor capID reason revision previous (ap_audit a)
      in (eid, a\<lparr>ap_audit := r\<rparr>))"

definition emit_error :: "(nat \<Rightarrow> go_time) \<Rightarrow> actor \<Rightarrow> string \<Rightarrow> string \<Rightarrow> app \<Rightarrow> app" where
  "emit_error clk actor capID code a = a\<lparr>ap_audit := snd (Emit (clk 2) (clk 3) (zero_event\<lparr>
     el_ActorID := an_ID actor, el_ActorClass := an_Class actor, el_Transport := an_Transport actor,
     el_Capability := capID, el_Result := ResultError, el_ErrorCode := code\<rparr>) (ap_audit a))\<rparr>"

definition auditReason :: "string \<Rightarrow> string list \<Rightarrow> string" where
  "auditReason fallback reasons = (case reasons of r # _ \<Rightarrow> if r \<noteq> [] then r else fallback | [] \<Rightarrow> fallback)"

section \<open>Operations on the document\<close>

definition decodeValue :: "(string \<Rightarrow> 'a option) \<Rightarrow> string \<Rightarrow> go_error + 'a" where
  "decodeValue dec raw = (if TrimSpace raw = [] then Inl (Errorf ''value is required'' [])
     else case dec raw of None \<Rightarrow> Inl (Errorf ''decode'' []) | Some v \<Rightarrow> Inr v)"

fun index_by :: "('a \<Rightarrow> string) \<Rightarrow> string \<Rightarrow> 'a list \<Rightarrow> nat option" where
  "index_by idOf i [] = None"
| "index_by idOf i (x # xs) = (if idOf x = i then Some 0 else map_option Suc (index_by idOf i xs))"

definition mutateList ::
  "(string \<Rightarrow> 'a option) \<Rightarrow> ('a \<Rightarrow> string) \<Rightarrow> string \<Rightarrow> operation \<Rightarrow> 'a list \<Rightarrow> go_error + 'a list" where
  "mutateList dec idOf kind oper xs = (let i = op_ID oper; idx = index_by idOf i xs;
     decoded = (case decodeValue dec (op_Value oper) of
        Inl e \<Rightarrow> Inl (Validation ''%s value: %s'' [kind])
      | Inr v \<Rightarrow> if idOf v \<noteq> i then Inl (Validation ''%s value.id must match target.id'' [kind]) else Inr v)
   in if i = [] then Inl (Validation ''%s target.id is required'' [kind])
      else if op_Op oper = ''remove'' then
        (case idx of None \<Rightarrow> Inl (NotFound ''%s %s not found'' [kind, i])
         | Some n \<Rightarrow> Inr (take n xs @ drop (Suc n) xs))
      else if op_Op oper = ''add'' then
        (if idx \<noteq> None then Inl (Conflict ''%s %s already exists'' [kind, i])
         else bindE decoded (\<lambda>v. Inr (xs @ [v])))
      else if op_Op oper = ''update'' then
        (case idx of None \<Rightarrow> Inl (NotFound ''%s %s not found'' [kind, i])
         | Some n \<Rightarrow> bindE decoded (\<lambda>v. Inr (xs[n := v])))
      else Inr xs)"

definition mutateSingleton :: "(string \<Rightarrow> 'a option) \<Rightarrow> 'a \<Rightarrow> operation \<Rightarrow> go_error + 'a" where
  "mutateSingleton dec zero oper = (if op_Op oper = ''remove'' then Inr zero
     else case decodeValue dec (op_Value oper) of
       Inl e \<Rightarrow> Inl (Validation ''value: %s'' []) | Inr v \<Rightarrow> Inr v)"

definition mutateIssuer :: "codec \<Rightarrow> operation \<Rightarrow> go_error + string" where
  "mutateIssuer C oper = (if op_Op oper = ''remove'' then Inr []
     else case decodeValue (cd_issuer C) (op_Value oper) of
       Inr v \<Rightarrow> if v = [] then Inl (Validation ''issuer is required'' []) else Inr v
     | Inl _ \<Rightarrow> (case decodeValue (cd_string C) (op_Value oper) of
         Inl _ \<Rightarrow> Inl (Validation ''issuer value must be a string or {issuer}'' []) | Inr s \<Rightarrow> Inr s))"

definition on_spec :: "document \<Rightarrow> (spec \<Rightarrow> go_error + spec) \<Rightarrow> go_error + document" where
  "on_spec d f = bindE (f (dc_Spec d)) (\<lambda>s. Inr (d\<lparr>dc_Spec := s\<rparr>))"

definition applyTarget :: "codec \<Rightarrow> operation \<Rightarrow> target_kind \<Rightarrow> spec \<Rightarrow> go_error + spec" where
  "applyTarget C oper k s = (case k of
     TargetClient \<Rightarrow> bindE (mutateList (cd_client C) cl_ID ''client'' oper (sp_Clients s)) (\<lambda>v. Inr (s\<lparr>sp_Clients := v\<rparr>))
   | TargetUser \<Rightarrow> bindE (mutateList (cd_user C) us_ID ''user'' oper (sp_Users s)) (\<lambda>v. Inr (s\<lparr>sp_Users := v\<rparr>))
   | TargetGroup \<Rightarrow> bindE (mutateList (cd_group C) gr_ID ''group'' oper (sp_Groups s)) (\<lambda>v. Inr (s\<lparr>sp_Groups := v\<rparr>))
   | TargetProfile \<Rightarrow> bindE (mutateSingleton (cd_profile C) zero_profile oper) (\<lambda>v. Inr (s\<lparr>sp_Profile := v\<rparr>))
   | TargetProtocols \<Rightarrow> bindE (mutateSingleton (cd_protocols C) zero_protocols oper) (\<lambda>v. Inr (s\<lparr>sp_Protocols := v\<rparr>))
   | TargetAuth \<Rightarrow> bindE (mutateSingleton (cd_auth C) zero_auth oper) (\<lambda>v. Inr (s\<lparr>sp_Auth := v\<rparr>))
   | TargetGroupOverage \<Rightarrow> bindE (mutateSingleton (cd_overage C) zero_overage oper) (\<lambda>v. Inr (s\<lparr>sp_GroupOverage := v\<rparr>))
   | TargetListeners \<Rightarrow> bindE (mutateSingleton (cd_listeners C) zero_listeners oper) (\<lambda>v. Inr (s\<lparr>sp_Listeners := v\<rparr>))
   | TargetAccess \<Rightarrow> bindE (mutateSingleton (cd_access C) [] oper) (\<lambda>v. Inr (s\<lparr>sp_AccessTokenRef := v\<rparr>))
   | TargetUI \<Rightarrow> bindE (mutateSingleton (cd_ui C) None oper) (\<lambda>v. Inr (s\<lparr>sp_UIEnabled := v\<rparr>))
   | TargetManagement \<Rightarrow> bindE (mutateSingleton (cd_management C) zero_mgmt oper)
       (\<lambda>v. Inr (s\<lparr>sp_Listeners := (sp_Listeners s)\<lparr>ls_Management := v\<rparr>\<rparr>))
   | TargetIssuer \<Rightarrow> bindE (mutateIssuer C oper) (\<lambda>v. Inr (s\<lparr>sp_Issuer := v\<rparr>)))"

definition applyOne :: "codec \<Rightarrow> operation \<Rightarrow> document \<Rightarrow> go_error + document" where
  "applyOne C oper d =
     (if op_Op oper \<noteq> ''add'' \<and> op_Op oper \<noteq> ''update'' \<and> op_Op oper \<noteq> ''remove''
      then Inl (Validation ''op must be add, update, or remove'' [])
      else if \<not> ValidTarget (op_Kind oper) then Inl (Validation ''unknown target kind %q'' [op_Kind oper])
      else case map_of AllTargetKinds (op_Kind oper) of
        None \<Rightarrow> Inl (Validation ''unsupported target'' [])
      | Some k \<Rightarrow> on_spec d (applyTarget C oper k))"

fun applyOperations :: "codec \<Rightarrow> nat \<Rightarrow> operation list \<Rightarrow> document \<Rightarrow> go_error + document" where
  "applyOperations C i [] d = Inr d"
| "applyOperations C i (x # xs) d = (case applyOne C x d of
     Inl e \<Rightarrow> Inl (Wrapf ''operations[%d]: %w'' [itoa_nat i] e)
   | Inr d' \<Rightarrow> applyOperations C (Suc i) xs d')"

section \<open>Plans\<close>

definition redact :: "string \<Rightarrow> string" where
  "redact s = (if length s > 4096 then take 4096 s @ [CHR 0xE2, CHR 0x80, CHR 0xA6] else s)"

definition vendorChanged :: "snapshot option \<Rightarrow> snapshot option \<Rightarrow> bool" where
  "vendorChanged prev nxt = (case (prev, nxt) of
     (Some p, Some n) \<Rightarrow> (case (sn_Canonical p, sn_Canonical n) of
        (Some b, Some d) \<Rightarrow> pf_Vendor (sp_Profile (dc_Spec b)) \<noteq> pf_Vendor (sp_Profile (dc_Spec d))
      | _ \<Rightarrow> False)
   | _ \<Rightarrow> False)"

definition securityChanged :: "codec \<Rightarrow> snapshot option \<Rightarrow> snapshot option \<Rightarrow> bool" where
  "securityChanged C prev nxt = (case (prev, nxt) of
     (Some p, Some n) \<Rightarrow> (case (sn_Canonical p, sn_Canonical n) of
        (Some bd, Some nd) \<Rightarrow> let b = dc_Spec bd; s = dc_Spec nd in
          \<not> SecurityEqual prev nxt \<or> vendorChanged prev nxt \<or> sp_Issuer b \<noteq> sp_Issuer s
          \<or> ce_users C (sp_Users b) \<noteq> ce_users C (sp_Users s)
          \<or> ce_clients C (sp_Clients b) \<noteq> ce_clients C (sp_Clients s)
          \<or> ce_auth C (sp_Auth b) \<noteq> ce_auth C (sp_Auth s)
          \<or> ce_protocols C (sp_Protocols b) \<noteq> ce_protocols C (sp_Protocols s)
          \<or> ce_access C (sp_AccessTokenRef b) \<noteq> ce_access C (sp_AccessTokenRef s)
          \<or> ce_signing C (sp_SigningKeyRef b) \<noteq> ce_signing C (sp_SigningKeyRef s)
      | _ \<Rightarrow> False)
   | _ \<Rightarrow> False)"

definition plan_impact :: "codec \<Rightarrow> spec \<Rightarrow> spec \<Rightarrow> impact" where
  "plan_impact C b s = \<lparr>
     im_ClientsChanged = (ce_clients C (sp_Clients b) \<noteq> ce_clients C (sp_Clients s)),
     im_UsersChanged = (ce_users C (sp_Users b) \<noteq> ce_users C (sp_Users s)),
     im_GroupsChanged = (ce_groups C (sp_Groups b) \<noteq> ce_groups C (sp_Groups s)),
     im_IssuerChanged = (sp_Issuer b \<noteq> sp_Issuer s),
     im_VendorChanged = (pf_Vendor (sp_Profile b) \<noteq> pf_Vendor (sp_Profile s)),
     im_OverageChanged = (sp_GroupOverage b \<noteq> sp_GroupOverage s)\<rparr>"

definition canonical_of :: "snapshot option \<Rightarrow> document option" where
  "canonical_of s = (case s of None \<Rightarrow> None | Some n \<Rightarrow> sn_Canonical n)"

definition planFrom :: "codec \<Rightarrow> snapshot option \<Rightarrow> snapshot option \<Rightarrow> operation list \<Rightarrow> plan" where
  "planFrom C prev nxt ops = (let
     text = (\<lambda>d. case d of None \<Rightarrow> [] | Some x \<Rightarrow> ce_spec C (dc_Spec x));
     bef = text (canonical_of prev); aft = text (canonical_of nxt)
   in \<lparr>pl_PreviousRevision = (case prev of None \<Rightarrow> [] | Some p \<Rightarrow> sn_Revision p),
       pl_CandidateRevision = (case nxt of None \<Rightarrow> [] | Some n \<Rightarrow> sn_Revision n),
       pl_Drifted = Drifted nxt,
       pl_Diff = (if bef \<noteq> aft then [\<lparr>df_Path = ''spec'', df_Op = ''update'', df_Before = redact bef, df_After = redact aft\<rparr>]
                  else []),
       pl_Impact = (case (canonical_of prev, canonical_of nxt) of
          (Some b, Some s) \<Rightarrow> plan_impact C (dc_Spec b) (dc_Spec s) | _ \<Rightarrow> no_impact),
       pl_Operations = ops\<rparr>)"

definition validateLiveListeners :: "bool \<Rightarrow> snapshot option \<Rightarrow> snapshot option \<Rightarrow> go_error option" where
  "validateLiveListeners requireHTTPS prev nxt =
     (if \<not> requireHTTPS then None
      else case (canonical_of prev, canonical_of nxt) of
        (Some b, Some d) \<Rightarrow> let x = sp_Listeners (dc_Spec b); y = sp_Listeners (dc_Spec d) in
          check (hl_Address (ls_HTTPS x) \<noteq> hl_Address (ls_HTTPS y)
              \<or> ml_Address (ls_Management x) \<noteq> ml_Address (ls_Management y)
              \<or> ml_RESTPath (ls_Management x) \<noteq> ml_RESTPath (ls_Management y)
              \<or> ml_MCPPath (ls_Management x) \<noteq> ml_MCPPath (ls_Management y)
              \<or> ml_AllowLegacyClients (ls_Management x) \<noteq> ml_AllowLegacyClients (ls_Management y))
            (Validation ''listener addresses, management paths and MCP legacy policy require restart; active snapshot unchanged'' [])
      | _ \<Rightarrow> None)"

definition buildCandidate ::
  "system \<Rightarrow> (nat \<Rightarrow> go_time) \<Rightarrow> change_in \<Rightarrow> bool \<Rightarrow> app \<Rightarrow> go_error + snapshot" where
  "buildCandidate Y clk inp requireRev a = (let prev = Load (ap_store a) in
     case prev of
       None \<Rightarrow> Inl (Validation ''no active snapshot'' [])
     | Some p \<Rightarrow> (case sn_Canonical p of
         None \<Rightarrow> Inl (Validation ''no active snapshot'' [])
       | Some doc \<Rightarrow>
         if requireRev \<and> ci_ExpectedRevision inp = [] then Inl (Validation ''expectedRevision is required'' [])
         else if requireRev \<and> ci_ExpectedRevision inp \<noteq> sn_Revision p
         then Inl (RevisionConflict (sn_Revision p) (ci_ExpectedRevision inp))
         else bindE (applyOperations (sy_codec Y) 0 (ci_Operations inp) doc) (\<lambda>base.
           bindE (Compile (sy_comp Y) (clk 4) (sn_Generation p + 1) (sn_BootstrapRevision p) base) (\<lambda>nxt.
             guardE (validateLiveListeners (ap_requireHTTPS a) prev (Some nxt)) (Inr nxt)))))"

section \<open>Applying a change\<close>

text \<open>The effect of a new snapshot on the second factor: sessions without it and stale overlays are dropped.\<close>

definition totp_ref_map :: "snapshot option \<Rightarrow> string gmap" where
  "totp_ref_map s = (case canonical_of s of None \<Rightarrow> gempty
     | Some d \<Rightarrow> gmap_of (map (\<lambda>u. (us_ID u, us_TOTPSecretRef u)) (sp_Users (dc_Spec d))))"

definition mode_of :: "snapshot option \<Rightarrow> string" where
  "mode_of s = (case canonical_of s of None \<Rightarrow> [] | Some d \<Rightarrow> au_MFAMode (sp_Auth (dc_Spec d)))"

definition overlay_stale :: "snapshot option \<Rightarrow> snapshot option \<Rightarrow> string \<Rightarrow> bool" where
  "overlay_stale prev cand uid =
     (gget (totp_ref_map cand) uid = None
      \<or> gget (totp_ref_map cand) uid \<noteq> gget (totp_ref_map prev) uid
      \<or> (case TOTP prev uid of None \<Rightarrow> [] | Some b \<Rightarrow> b) \<noteq> (case TOTP cand uid of None \<Rightarrow> [] | Some b \<Rightarrow> b))"

definition syncTOTPOverlay :: "snapshot option \<Rightarrow> snapshot option \<Rightarrow> runtime \<Rightarrow> runtime" where
  "syncTOTPOverlay prev cand r = (let
     r1 = (if mode_of cand = ''always'' \<and> mode_of prev \<noteq> ''always'' then ExpireIncompleteMFA r else r)
   in foldl (\<lambda>r uid. if overlay_stale prev cand uid then ClearTOTPOverlay uid r else r) r1
        (gkeys (totp_ref_map prev)))"

definition fingerprintChange :: "system \<Rightarrow> change_in \<Rightarrow> go_error + string" where
  "fingerprintChange Y inp = (if ci_fingerprint inp \<noteq> [] then Inr (ci_fingerprint inp) else sy_fp_change Y inp)"

text \<open>Install the candidate: purge what it invalidates, swap it in, audit it and remember the result.\<close>

definition install_candidate ::
  "system \<Rightarrow> (nat \<Rightarrow> go_time) \<Rightarrow> actor \<Rightarrow> string \<Rightarrow> change_in \<Rightarrow> string \<Rightarrow> snapshot \<Rightarrow> app \<Rightarrow> apply_result \<times> app" where
  "install_candidate Y clk actor capID inp fp cand a = (let
     prev = Load (ap_store a);
     p = planFrom (sy_codec Y) prev (Some cand) (ci_Operations inp);
     r1 = (if securityChanged (sy_codec Y) prev (Some cand) then InvalidateBefore (sn_Generation cand) (app_rt a) else app_rt a);
     r2 = syncTOTPOverlay prev (Some cand) r1;
     a1 = (set_rt r2 a)\<lparr>ap_store := snd (Swap (Some cand) (ap_store a))\<rparr>;
     (eid, a2) = emit_ok clk actor capID (ci_Reason inp) (sn_Revision cand)
        (case prev of None \<Rightarrow> [] | Some q \<Rightarrow> sn_Revision q) a1;
     res = \<lparr>ar_Plan = p, ar_Applied = True, ar_Generation = sn_Generation cand, ar_AuditEventID = eid\<rparr>
   in (res, a2\<lparr>ap_idemp := store_entry (scopedKey actor capID (ci_IdempotencyKey inp)) fp (Some p) (Some res) (ap_idemp a2)\<rparr>))"

definition apply_core ::
  "system \<Rightarrow> (nat \<Rightarrow> go_time) \<Rightarrow> actor \<Rightarrow> string \<Rightarrow> change_in \<Rightarrow> app \<Rightarrow> (go_error + apply_result) \<times> app" where
  "apply_core Y clk actor capID inp a =
     (if TrimSpace (ci_Reason inp) = [] then (Inl (Validation ''reason is required'' []), a)
      else case fingerprintChange Y inp of
        Inl e \<Rightarrow> (Inl e, a)
      | Inr fp \<Rightarrow> let (hit, c1) = lookup (scopedKey actor capID (ci_IdempotencyKey inp)) fp (ap_idemp a);
            a1 = a\<lparr>ap_idemp := c1\<rparr> in
          (case hit of
             Inl e \<Rightarrow> (Inl e, a1)
           | Inr h \<Rightarrow> (case Option.bind h ie_res of
               Some res \<Rightarrow> (Inr res, a1)
             | None \<Rightarrow> (case buildCandidate Y clk inp True a1 of
                 Inl e \<Rightarrow> (Inl e, a1)
               | Inr cand \<Rightarrow> (let (res, a2) = install_candidate Y clk actor capID inp fp cand a1 in (Inr res, a2))))))"

definition applyLocked ::
  "system \<Rightarrow> (nat \<Rightarrow> go_time) \<Rightarrow> actor \<Rightarrow> string \<Rightarrow> change_in \<Rightarrow> app \<Rightarrow> (go_error + apply_result) \<times> app" where
  "applyLocked Y clk actor capID inp a = (let (res, a1) = apply_core Y clk actor capID inp a in
     case res of Inl e \<Rightarrow> (Inl e, emit_error clk actor capID (CodeOf e) a1) | Inr x \<Rightarrow> (Inr x, a1))"

definition Apply ::
  "system \<Rightarrow> (nat \<Rightarrow> go_time) \<Rightarrow> actor \<Rightarrow> change_in \<Rightarrow> app \<Rightarrow> (go_error + apply_result) \<times> app" where
  "Apply Y clk actor inp a = with_cap clk actor ''sso.change.apply'' a
     (applyLocked Y clk actor ''sso.change.apply'' inp)"

section \<open>Planning and validating\<close>

definition planLocked ::
  "system \<Rightarrow> (nat \<Rightarrow> go_time) \<Rightarrow> change_in \<Rightarrow> app \<Rightarrow> (go_error + plan) \<times> app" where
  "planLocked Y clk inp a = (case fingerprintChange Y inp of
     Inl e \<Rightarrow> (Inl e, a)
   | Inr fp \<Rightarrow> let (hit, c1) = lookup (ci_IdempotencyKey inp) fp (ap_idemp a); a1 = a\<lparr>ap_idemp := c1\<rparr> in
       (case hit of
          Inl e \<Rightarrow> (Inl e, a1)
        | Inr h \<Rightarrow> (case Option.bind h ie_plan of
            Some p \<Rightarrow>
              let live = (case Load (ap_store a1) of None \<Rightarrow> [] | Some s \<Rightarrow> sn_Revision s) in
              if Load (ap_store a1) = None \<or> ci_ExpectedRevision inp \<noteq> live
              then (Inl (RevisionConflict live (ci_ExpectedRevision inp)), a1) else (Inr p, a1)
          | None \<Rightarrow> (case buildCandidate Y clk inp True a1 of
              Inl e \<Rightarrow> (Inl e, a1)
            | Inr cand \<Rightarrow>
              let p = planFrom (sy_codec Y) (Load (ap_store a1)) (Some cand) (ci_Operations inp) in
              (Inr p, a1\<lparr>ap_idemp := store_entry (ci_IdempotencyKey inp) fp (Some p) None (ap_idemp a1)\<rparr>)))))"

definition PlanChange ::
  "system \<Rightarrow> (nat \<Rightarrow> go_time) \<Rightarrow> actor \<Rightarrow> change_in \<Rightarrow> app \<Rightarrow> (go_error + plan) \<times> app" where
  "PlanChange Y clk actor inp a = with_cap clk actor ''sso.change.plan'' a
     (planLocked Y clk (inp\<lparr>ci_IdempotencyKey := scopedKey actor ''sso.change.plan'' (ci_IdempotencyKey inp)\<rparr>))"

definition Validate ::
  "system \<Rightarrow> (nat \<Rightarrow> go_time) \<Rightarrow> actor \<Rightarrow> document option \<Rightarrow> operation list \<Rightarrow> app \<Rightarrow> (go_error + plan) \<times> app" where
  "Validate Y clk actor doc ops a = with_cap clk actor ''sso.state.validate'' a (\<lambda>a. let
     prev = Load (ap_store a);
     base = (case doc of Some d \<Rightarrow> Some d | None \<Rightarrow> canonical_of prev)
   in case base of
        None \<Rightarrow> (Inl (Validation ''no document to validate'' []), a)
      | Some d \<Rightarrow> (bindE (applyOperations (sy_codec Y) 0 ops d) (\<lambda>b.
          bindE (Compile (sy_comp Y) (clk 4) (case prev of None \<Rightarrow> 1 | Some p \<Rightarrow> sn_Generation p)
                   (case prev of None \<Rightarrow> [] | Some p \<Rightarrow> sn_BootstrapRevision p) b) (\<lambda>nxt.
            Inr (planFrom (sy_codec Y) prev (Some nxt) ops))), a))"

section \<open>Reset\<close>

definition replayTyped ::
  "actor \<Rightarrow> string \<Rightarrow> string \<Rightarrow> go_error + string \<Rightarrow> app \<Rightarrow> (go_error + apply_result option \<times> string) \<times> app" where
  "replayTyped actor capID key fpr a = (case fpr of
     Inl e \<Rightarrow> (Inl e, a)
   | Inr fp \<Rightarrow> let (hit, c1) = lookup (scopedKey actor capID key) fp (ap_idemp a); a1 = a\<lparr>ap_idemp := c1\<rparr> in
       (case hit of Inl e \<Rightarrow> (Inl e, a1) | Inr h \<Rightarrow> (Inr (Option.bind h ie_res, fp), a1)))"

definition loadBootstrap :: "system \<Rightarrow> (nat \<Rightarrow> go_time) \<Rightarrow> int \<Rightarrow> app \<Rightarrow> go_error + snapshot" where
  "loadBootstrap Y clk gen a = (let K = sy_comp Y in
     if ap_bootstrapPath a \<noteq> [] then
       (if \<not> cm_Stat K (ap_bootstrapPath a)
        then Inl (Validation ''bootstrap file unavailable; active snapshot unchanged'' [])
        else case LoadFile K (ap_bootstrapPath a) of
          Inl e \<Rightarrow> Inl (Validation ''invalid bootstrap configuration: %s'' [])
        | Inr doc \<Rightarrow> Compile K (clk 4) gen [] doc)
     else case Bootstrap (ap_store a) of
       None \<Rightarrow> Inl (Validation ''no bootstrap snapshot'' [])
     | Some boot \<Rightarrow> (case sn_Canonical boot of
         None \<Rightarrow> Inl (Validation ''no bootstrap snapshot'' [])
       | Some doc \<Rightarrow> Compile K (clk 4) gen (sn_Revision boot) doc))"

definition reset_install ::
  "system \<Rightarrow> (nat \<Rightarrow> go_time) \<Rightarrow> actor \<Rightarrow> reset_in \<Rightarrow> string \<Rightarrow> snapshot \<Rightarrow> plan \<Rightarrow> app \<Rightarrow> apply_result \<times> app" where
  "reset_install Y clk actor inp fp nxt p a = (let
     prev = Load (ap_store a);
     a1 = set_rt (Reset (InvalidateBefore (sn_Generation nxt) (app_rt a))) a;
     a2 = a1\<lparr>ap_store := SetBootstrap (Some nxt) (snd (Swap (Some nxt) (ap_store a1)))\<rparr>;
     (eid, a3) = emit_ok clk actor ''sso.state.reset'' (ri_Reason inp) (sn_Revision nxt)
        (case prev of None \<Rightarrow> [] | Some q \<Rightarrow> sn_Revision q) a2;
     res = \<lparr>ar_Plan = p, ar_Applied = True, ar_Generation = sn_Generation nxt, ar_AuditEventID = eid\<rparr>
   in (res, a3\<lparr>ap_idemp := store_entry (scopedKey actor ''sso.state.reset'' (ri_IdempotencyKey inp)) fp (Some p) (Some res) (ap_idemp a3)\<rparr>))"

definition reset_core ::
  "system \<Rightarrow> (nat \<Rightarrow> go_time) \<Rightarrow> actor \<Rightarrow> reset_in \<Rightarrow> app \<Rightarrow> (go_error + apply_result) \<times> app" where
  "reset_core Y clk actor inp a =
     (if TrimSpace (ri_Reason inp) = [] then (Inl (Validation ''reason is required'' []), a)
      else case replayTyped actor ''sso.state.reset'' (ri_IdempotencyKey inp) (sy_fp_reset Y inp) a of
        (Inl e, a1) \<Rightarrow> (Inl e, a1)
      | (Inr (Some res, fp), a1) \<Rightarrow> (Inr res, a1)
      | (Inr (None, fp), a1) \<Rightarrow>
        let prev = Load (ap_store a1); want = (case prev of None \<Rightarrow> [] | Some p \<Rightarrow> sn_Revision p);
            gen = (case prev of None \<Rightarrow> 1 | Some p \<Rightarrow> sn_Generation p + 1) in
        if ri_ExpectedRevision inp = [] then (Inl (Validation ''expectedRevision is required'' []), a1)
        else if prev = None \<or> ri_ExpectedRevision inp \<noteq> want
        then (Inl (RevisionConflict want (ri_ExpectedRevision inp)), a1)
        else case loadBootstrap Y clk gen a1 of
          Inl e \<Rightarrow> (Inl e, a1)
        | Inr nxt \<Rightarrow> (case validateLiveListeners (ap_requireHTTPS a1) prev (Some nxt) of
            Some e \<Rightarrow> (Inl e, a1)
          | None \<Rightarrow> let p = planFrom (sy_codec Y) prev (Some nxt) [] in
              if ri_DryRun inp
              then (Inr \<lparr>ar_Plan = p, ar_Applied = False, ar_Generation = gen, ar_AuditEventID = []\<rparr>, a1)
              else (let (res, a2) = reset_install Y clk actor inp fp nxt p a1 in (Inr res, a2))))"

definition ResetState ::
  "system \<Rightarrow> (nat \<Rightarrow> go_time) \<Rightarrow> actor \<Rightarrow> reset_in \<Rightarrow> app \<Rightarrow> (go_error + apply_result) \<times> app" where
  "ResetState Y clk actor inp a = (let (res, a1) = with_cap clk actor ''sso.state.reset'' a (reset_core Y clk actor inp)
     in case res of
       Inl e \<Rightarrow> (Inl e, if CodeOf e \<noteq> CodeForbidden then emit_error clk actor ''sso.state.reset'' (CodeOf e) a1 else a1)
     | Inr x \<Rightarrow> (Inr x, a1))"

definition InstallBootstrapFile :: "system \<Rightarrow> (nat \<Rightarrow> go_time) \<Rightarrow> app \<Rightarrow> (go_error + snapshot) \<times> app" where
  "InstallBootstrapFile Y clk a = (case LoadFile (sy_comp Y) (ap_bootstrapPath a) of
     Inl e \<Rightarrow> (Inl e, a)
   | Inr doc \<Rightarrow> (case Compile (sy_comp Y) (clk 4) 1 [] doc of
       Inl e \<Rightarrow> (Inl e, a)
     | Inr snap \<Rightarrow> (Inr snap, a\<lparr>ap_store := snd (InstallBootstrap (Some snap) (ap_store a))\<rparr>)))"

section \<open>The warnings of the provider\<close>

text \<open>
  The callback that \<^verbatim>\<open>app.New\<close> gives to the provider writes its warnings to the audit ring, stamped by the
  clock of the ring; the provider keeps the calls as a list, and those of a call are emitted after it.
\<close>

definition warning_event :: "string \<Rightarrow> event" where
  "warning_event msg = zero_event\<lparr>el_Capability := ''sso.oidc.overage'', el_Reason := msg, el_Result := ResultOK\<rparr>"

definition stamped :: "(nat \<Rightarrow> go_time) \<Rightarrow> event list \<Rightarrow> (go_time \<times> go_time \<times> event) list" where
  "stamped clk es = map (\<lambda>(i, e). (clk (2 * i), clk (2 * i + 1), e)) (enumerate 0 es)"

end
