(* ===== verification/Secret_Props.thy ===== *)
theory Secret_Props
  imports Sample
begin

text \<open>
  Credentials, one-time passwords, group claims and the comparison of snapshots.
\<close>

section \<open>Password hashes\<close>

lemma RawStd_chars: "set (RawStd_Encode s) \<subseteq> set std_alphabet"
proof -
  have "\<forall>d \<in> set (to_sextets (map of_char s)). (d::nat) < 64"
    by (rule to_sextets_bound) (auto simp: of_char_def)
  moreover have "length std_alphabet = 64" using good_std by (simp add: good_alphabet_def)
  ultimately show ?thesis by (auto simp: RawStd_Encode_def b64_encode_def b64_char_def)
qed

lemma TrimSpace_id:
  assumes "s \<noteq> []" "\<not> is_space (hd s)" "\<not> is_space (last s)"
  shows "TrimSpace s = s"
proof -
  have "dropWhile is_space s = s" using assms(1,2) by (cases s) auto
  moreover have "dropWhile is_space (rev s) = rev s"
    using assms(1,3) by (cases s rule: rev_cases) auto
  ultimately show ?thesis by (simp add: TrimSpace_def)
qed

lemma RawStd_ne: "s \<noteq> [] \<Longrightarrow> RawStd_Encode s \<noteq> []"
proof
  assume "RawStd_Encode s = []"
  then have "RawStd_DecodeStrict [] = Some s" using RawStd_roundtrip [of s] by simp
  moreover assume "s \<noteq> []"
  ultimately show False by (simp add: RawStd_DecodeStrict_def b64_decode_def)
qed

lemma phc_params_fixed:
  "phc_params gempty (Split ''m=65536,t=3,p=4'' (CHR '',''))
     = Inr (gput ''p'' ''4'' (gput ''t'' ''3'' (gput ''m'' ''65536'' gempty)))"
  by (simp add: Split_def cut_eq_def gget_or_def)

lemma encodePHC_parts:
  assumes "length (derive pw salt) = 32"
  shows "TrimSpace (encodePHC derive pw salt) = encodePHC derive pw salt
     \<and> Split (encodePHC derive pw salt) (CHR ''$'') = [[], ''argon2id'', ''v=19'', ''m=65536,t=3,p=4'', RawStd_Encode salt,
     RawStd_Encode (derive pw salt)]"
proof -
  define s where "s = encodePHC derive pw salt"
  have no: "CHR ''$'' \<notin> set (RawStd_Encode x)" "\<not> is_space c" if "c \<in> set (RawStd_Encode x)" for x c
    using RawStd_chars [of x] that by (auto simp: std_alphabet_def is_space_def)
  have dollar: "CHR ''$'' \<notin> set (RawStd_Encode x)" for x
    using RawStd_chars [of x] by (auto simp: std_alphabet_def)
  have ne: "RawStd_Encode (derive pw salt) \<noteq> []" using assms by (intro RawStd_ne) auto
  have "last s = last (RawStd_Encode (derive pw salt))" using ne by (simp add: s_def encodePHC_def)
  then have "\<not> is_space (last s)" using no(2) [of "last s" "derive pw salt"] last_in_set [OF ne] by simp
  then have trim: "TrimSpace s = s" by (intro TrimSpace_id) (simp_all add: s_def encodePHC_def is_space_def)
  have shape: "s = [] @ CHR ''$'' # (''argon2id'' @ CHR ''$'' # (''v=19'' @ CHR ''$'' # (''m=65536,t=3,p=4'' @ CHR ''$'' #
      (RawStd_Encode salt @ CHR ''$'' # RawStd_Encode (derive pw salt)))))"
    by (simp add: s_def encodePHC_def)
  have "Split s (CHR ''$'') = [[], ''argon2id'', ''v=19'', ''m=65536,t=3,p=4'', RawStd_Encode salt,
     RawStd_Encode (derive pw salt)]"
    unfolding shape by (subst Split_append, simp)+ (simp add: Split_append Split_none dollar)
  with trim show ?thesis unfolding s_def by blast
qed

text \<open>
  C39. Password hashes round-trip: the PHC string produced for a password, with a salt of 8 to 64
  bytes and a key derivation that yields 32 bytes, parses to a credential that accepts exactly the
  passwords with the same derived key, the original one among them.
\<close>

theorem phc_roundtrip:
  assumes "8 \<le> length salt" "length salt \<le> 64" "length (derive pw salt) = 32"
  shows "\<exists>c. Parse sha256 (encodePHC derive pw salt) True = Inr c
     \<and> (\<forall>q. verify sha256 derive c q \<longleftrightarrow> derive q salt = derive pw salt)"
proof -
  note parts = encodePHC_parts [of derive pw salt, OF assms(3)]
  have "phc_salt (RawStd_Encode salt) = Some salt" using assms by (simp add: phc_salt_def)
  moreover have "phc_digest (RawStd_Encode (derive pw salt)) = Some (derive pw salt)"
    using assms by (simp add: phc_digest_def)
  moreover have "encodePHC derive pw salt \<noteq> []" by (simp add: encodePHC_def)
  ultimately have "Parse sha256 (encodePHC derive pw salt) True
      = Inr (zero_credential\<lparr>cr_salt := salt, cr_digest := derive pw salt, cr_hashed := True\<rparr>)"
    using parts by (simp add: Parse_def phc_params_fixed gget_or_def Let_def)
  then show ?thesis by (simp add: verify_def zero_credential_def)
qed

theorem phc_roundtrip_witness:
  "\<exists>c. Parse (\<lambda>s. s) (encodePHC (\<lambda>p s. take 32 (p @ replicate 32 (CHR ''x''))) ''pw'' ''saltsalt'') True = Inr c
     \<and> verify (\<lambda>s. s) (\<lambda>p s. take 32 (p @ replicate 32 (CHR ''x''))) c ''pw''"
proof -
  have "length (take 32 (''pw'' @ replicate 32 (CHR ''x''))) = 32" by simp
  with phc_roundtrip [of "''saltsalt''" "\<lambda>p s. take 32 (p @ replicate 32 (CHR ''x''))" "''pw''" "\<lambda>s. s"]
  show ?thesis by auto
qed

text \<open>
  The padding credential used for unknown users never verifies, whatever the password and the
  hash functions, and no parsed credential is a padding credential.
\<close>

theorem dummy_never_verifies:
  "\<not> verify sha256 derive (Dummy hashed) pw
   \<and> (\<forall>c. Parse sha256 raw hashed = Inr c \<longrightarrow> \<not> cr_dummy c \<and> cr_hashed c = hashed)"
  by (auto simp: verify_def Dummy_def Parse_def zero_credential_def Let_def
      split: if_splits sum.splits option.splits)

theorem dummy_never_verifies_witness:
  "\<not> cr_dummy (zero_credential\<lparr>cr_plain := ''pw''\<rparr>)"
  using dummy_never_verifies [of "\<lambda>s. s" "\<lambda>p s. p" False "[]" "''pw''"]
  by (simp add: Parse_def TrimSpace_def is_space_def)

section \<open>One-time passwords\<close>

text \<open>
  A one-time password is accepted only for the current 30-second step or one of its neighbours,
  its code is the six-digit code of that step, and the code of the current step is accepted for a
  step of the window.
\<close>

theorem totp_window:
  "(Verify hmac secret code now = Some step \<longrightarrow>
      hotp hmac secret step = TrimSpace code \<and> length (TrimSpace code) = 6
      \<and> \<bar>step - go_div (Unix now) Period\<bar> \<le> 1)
   \<and> Verify hmac secret (Code hmac secret now) now \<noteq> None"
proof
  show "Verify hmac secret code now = Some step \<longrightarrow> hotp hmac secret step = TrimSpace code
      \<and> length (TrimSpace code) = 6 \<and> \<bar>step - go_div (Unix now) Period\<bar> \<le> 1"
    using Verify_Some [of hmac secret code now step] hotp_length [of hmac secret step] by auto
  show "Verify hmac secret (Code hmac secret now) now \<noteq> None"
    by (simp add: Verify_def Code_def hotp_no_space Let_def hotp_length Digits_def)
qed

theorem totp_window_witness:
  "\<exists>step. Verify (\<lambda>k m. k) (replicate 20 (CHR ''k'')) (Code (\<lambda>k m. k) (replicate 20 (CHR ''k'')) Hour) Hour = Some step
     \<and> \<bar>step - go_div (Unix Hour) Period\<bar> \<le> 1"
  using totp_window [of "\<lambda>k m. k" "replicate 20 (CHR ''k'')" "Code (\<lambda>k m. k) (replicate 20 (CHR ''k'')) Hour" Hour]
  by blast

section \<open>Group claims\<close>

lemma overage_pos: "1 \<le> go_GenericCap (overageOf snap)" "1 \<le> go_OktaFailAt (overageOf snap)"
  by (auto simp: overageOf_def Let_def split: option.splits)

lemma JStrs_inj [simp]: "JStrs a = JStrs b \<longleftrightarrow> a = b"
  by (auto simp: JStrs_def inj_map_eq_map inj_def)

text \<open>All group names in claim order, the longest list a vendor accepts, and the text of the warning.\<close>

definition claim_names :: "snapshot \<Rightarrow> user \<Rightarrow> string list" where
  "claim_names snap u = map (groupName snap) (sort (us_GroupIDs u))"

definition group_limit :: "snapshot \<Rightarrow> int" where
  "group_limit snap = (if ct_Vendor (sn_Clothes snap) = ''okta'' then go_OktaFailAt (overageOf snap) - 1
     else go_GenericCap (overageOf snap))"

definition overage_warning :: "int \<Rightarrow> int \<Rightarrow> string" where
  "overage_warning k c = ''generic overage omitted '' @ Itoa k @ '' groups (cap '' @ Itoa c @ '')''"

definition member_groups_pointer :: "snapshot \<Rightarrow> user \<Rightarrow> json" where
  "member_groups_pointer snap u = JObj [(''src1'', JObj [(''endpoint'',
     JStr (TrimRight (sn_Issuer snap) ''/'' @ ''/v1.0/users/'' @ us_ID u @ ''/getMemberGroups''))])]"

lemma groupClaims_cases:
  assumes "groupClaims snap u = (Inr kvs, w)"
  shows "(kvs = [(''groups'', JStrs (claim_names snap u))] \<and> w = [] \<and> int (length (claim_names snap u)) \<le> group_limit snap)
   \<or> (kvs = [(''groups'', JStrs (take (nat (group_limit snap)) (claim_names snap u)))]
        \<and> w = [overage_warning (int (length (claim_names snap u)) - group_limit snap) (group_limit snap)]
        \<and> 1 \<le> group_limit snap \<and> group_limit snap < int (length (claim_names snap u)))
   \<or> (ct_Vendor (sn_Clothes snap) = ''entra'' \<and> go_EntraGraphStub (overageOf snap)
        \<and> group_limit snap < int (length (claim_names snap u)) \<and> w = []
        \<and> kvs = [(''_claim_names'', JObj [(''groups'', JStr ''src1'')]), (''_claim_sources'', member_groups_pointer snap u)])"
  using assms overage_pos(1) [of snap]
  unfolding groupClaims_def claim_names_def group_limit_def overage_warning_def member_groups_pointer_def Let_def
  by (auto split: if_splits)

text \<open>
  Group overage: when group claims are issued, the listed names are an initial part of the
  user's groups in the order of their ids, never more than the vendor's limit, and the warning says
  exactly how many were left out, if any. The list is missing only for Entra above the cap with the
  Graph stub, where the endpoint of this very user is given instead.
\<close>

theorem group_overage:
  assumes "groupClaims snap u = (Inr kvs, w)"
  shows "(\<exists>ns rest. kvs = [(''groups'', JStrs ns)] \<and> ns @ rest = claim_names snap u
        \<and> int (length ns) \<le> group_limit snap
        \<and> w = (if rest = [] then [] else [overage_warning (int (length rest)) (int (length ns))]))
    \<or> (ct_Vendor (sn_Clothes snap) = ''entra'' \<and> go_EntraGraphStub (overageOf snap)
        \<and> group_limit snap < int (length (us_GroupIDs u)) \<and> w = [] \<and> map_of kvs ''groups'' = None
        \<and> map_of kvs ''_claim_sources'' = Some (member_groups_pointer snap u))"
  using groupClaims_cases [OF assms]
proof (elim disjE conjE)
  assume "kvs = [(''groups'', JStrs (claim_names snap u))]" "w = []" "int (length (claim_names snap u)) \<le> group_limit snap"
  then show ?thesis by (intro disjI1 exI [of _ "claim_names snap u"] exI [of _ "[]"]) simp
next
  let ?ns = "take (nat (group_limit snap)) (claim_names snap u)"
  let ?rest = "drop (nat (group_limit snap)) (claim_names snap u)"
  assume k: "kvs = [(''groups'', JStrs ?ns)]" and pos: "1 \<le> group_limit snap"
    and w: "w = [overage_warning (int (length (claim_names snap u)) - group_limit snap) (group_limit snap)]"
    and lt: "group_limit snap < int (length (claim_names snap u))"
  have "int (length ?ns) = group_limit snap" "int (length ?rest) = int (length (claim_names snap u)) - group_limit snap"
    "?rest \<noteq> []"
    using pos lt by auto
  with k w show ?thesis by (intro disjI1 exI [of _ ?ns] exI [of _ ?rest]) (simp only: append_take_drop_id refl if_False order_refl simp_thms)
qed (simp add: claim_names_def)

theorem group_overage_witness:
  "\<exists>ns rest. ns @ rest = claim_names sample_snap sample_user \<and> int (length ns) \<le> group_limit sample_snap"
proof -
  have "groupClaims sample_snap sample_user = (Inr [(''groups'', JStrs [''staff''])], [])" by code_simp
  moreover have "ct_Vendor (sn_Clothes sample_snap) \<noteq> ''entra''" by code_simp
  ultimately show ?thesis using group_overage [of sample_snap sample_user] by blast
qed

section \<open>Comparing snapshots\<close>

lemma maps_same:
  assumes "glen a = glen b" "\<And>k v. gget a k = Some v \<Longrightarrow> gget b k = Some v"
  shows "gget a = gget b"
proof
  fix k
  have "dom (gget a) \<subseteq> dom (gget b)" using assms(2) by auto
  then have "dom (gget a) = dom (gget b)"
    using assms(1) by (intro card_subset_eq) (auto simp: glen_dom)
  then show "gget a k = gget b k" using assms(2) by (metis domD domIff)
qed

lemma maps_Equal_exact: "maps_Equal a b \<longleftrightarrow> gget a = gget b"
proof
  assume "maps_Equal a b"
  then show "gget a = gget b" using maps_same [of a b] by (auto simp: maps_Equal_iff)
next
  assume "gget a = gget b"
  then show "maps_Equal a b" by (simp add: maps_Equal_iff glen_dom)
qed

text \<open>The security-relevant content of a snapshot, as functions on user and client ids.\<close>

definition security_view ::
  "snapshot \<Rightarrow> (string \<Rightarrow> credential option) \<times> (string \<Rightarrow> string option) \<times> string \<times> string \<times> (string \<Rightarrow> string option)" where
  "security_view s = (gget (sn_passwords s), gget (sn_totpSeeds s), sn_SigningKey s, sn_AccessToken s, gget (sn_ClientSecrets s))"

text \<open>
  The comparison that decides whether a configuration change revokes protocol state is exact: for
  snapshots without empty client secrets, two snapshots compare equal exactly when passwords, TOTP
  seeds, signing key, management token and client secrets agree, so a change of any credential is
  noticed and nothing else is.
\<close>

theorem security_equal_exact:
  assumes "\<forall>k. gget (sn_ClientSecrets a) k \<noteq> Some []" "\<forall>k. gget (sn_ClientSecrets b) k \<noteq> Some []"
  shows "SecurityEqual (Some a) (Some b) \<longleftrightarrow> security_view a = security_view b"
proof -
  let ?A = "sn_ClientSecrets a" and ?B = "sn_ClientSecrets b"
  have "glen ?A = glen ?B \<and> list_all (\<lambda>k. gget_or [] ?A k = gget_or [] ?B k) (gkeys ?A) \<longleftrightarrow> gget ?A = gget ?B"
  proof
    assume e: "glen ?A = glen ?B \<and> list_all (\<lambda>k. gget_or [] ?A k = gget_or [] ?B k) (gkeys ?A)"
    have "gget ?B k = Some v" if v: "gget ?A k = Some v" for k v
    proof -
      have "k \<in> set (gkeys ?A)" using v by (auto simp: gkeys_set)
      then have "gget_or [] ?A k = gget_or [] ?B k" using e by (simp add: list_all_iff)
      then have "gget_or [] ?B k = v" using v by (simp add: gget_or_def)
      moreover have "v \<noteq> []" using assms(1) v by auto
      ultimately show ?thesis by (auto simp: gget_or_def split: option.splits)
    qed
    with e show "gget ?A = gget ?B" by (intro maps_same) auto
  next
    assume "gget ?A = gget ?B"
    then show "glen ?A = glen ?B \<and> list_all (\<lambda>k. gget_or [] ?A k = gget_or [] ?B k) (gkeys ?A)"
      by (simp add: gget_or_def list_all_iff glen_dom)
  qed
  then show ?thesis by (auto simp: SecurityEqual_def security_view_def maps_Equal_exact)
qed

theorem security_equal_exact_witness:
  "\<not> SecurityEqual (Some sample_snap) (Some (sample_snap\<lparr>sn_ClientSecrets := gput ''app'' ''other'' gempty\<rparr>))"
proof -
  have "security_view sample_snap \<noteq> security_view (sample_snap\<lparr>sn_ClientSecrets := gput ''app'' ''other'' gempty\<rparr>)"
    by (simp add: security_view_def sample_snap_def fun_eq_iff)
  moreover have "\<forall>k. gget (sn_ClientSecrets sample_snap) k \<noteq> Some []"
    "\<forall>k. gget (sn_ClientSecrets (sample_snap\<lparr>sn_ClientSecrets := gput ''app'' ''other'' gempty\<rparr>)) k \<noteq> Some []"
    by (simp_all add: sample_snap_def)
  ultimately show ?thesis using security_equal_exact by blast
qed

end
