(* ===== verification/Page.thy ===== *)
theory Page
  imports Secret_Props "HOL-Library.List_Lexorder"
begin

text \<open>
  \<^verbatim>\<open>internal/app/page.go\<close>: cursor pagination of the management lists. A cursor names the list by kind and
  digest and carries the offset of the next page. \<open>marshal\<close> is \<^verbatim>\<open>json.Marshal\<close> of the items and \<open>sha256\<close>
  the digest. \<^verbatim>\<open>sort.Slice\<close> by identifier is \<open>sort_key\<close>: identifiers of one list are distinct.
\<close>

section \<open>Model\<close>

text \<open>\<^verbatim>\<open>strconv.Atoi\<close>: an optional sign and decimal digits, within 64 bits.\<close>

definition Atoi :: "string \<Rightarrow> int option" where
  "Atoi s = (let
     neg = (s \<noteq> [] \<and> hd s = CHR ''-'');
     ds = (if s \<noteq> [] \<and> (hd s = CHR ''-'' \<or> hd s = CHR ''+'') then tl s else s);
     v = (if neg then - int (atoi_digits ds) else int (atoi_digits ds))
   in if ds = [] \<or> \<not> list_all is_digit ds \<or> v < - (2 ^ 63) \<or> v \<ge> 2 ^ 63 then None else Some v)"

record list_in =
  li_Cursor :: string
  li_Limit :: int

record 'a page_out =
  pg_Items :: "'a list"
  pg_NextCursor :: string

definition page_scope :: "('a list \<Rightarrow> string) \<Rightarrow> (string \<Rightarrow> string) \<Rightarrow> string \<Rightarrow> 'a list \<Rightarrow> string" where
  "page_scope marshal sha256 kind items = kind @ '':'' @ hex_encode (sha256 (marshal items))"

definition page_offset :: "string \<Rightarrow> string \<Rightarrow> nat \<Rightarrow> go_error + nat" where
  "page_offset scope cursor n =
     (if cursor = [] then Inr 0
      else case RawURL_Decode cursor of
        None \<Rightarrow> Inl (Validation ''invalid cursor'' [])
      | Some b \<Rightarrow> let parts = Split b (CHR ''|'') in
          if length parts \<noteq> 2 \<or> parts ! 0 \<noteq> scope then Inl (Validation ''invalid or stale cursor'' [])
          else case Atoi (parts ! 1) of
            None \<Rightarrow> Inl (Validation ''invalid cursor'' [])
          | Some k \<Rightarrow> if k < 0 \<or> k \<ge> int n then Inl (Validation ''invalid cursor'' []) else Inr (nat k))"

definition page ::
  "('a list \<Rightarrow> string) \<Rightarrow> (string \<Rightarrow> string) \<Rightarrow> 'a list \<Rightarrow> list_in \<Rightarrow> string \<Rightarrow> ('a \<Rightarrow> string) \<Rightarrow> go_error + 'a page_out" where
  "page marshal sha256 items0 inp kind idOf =
     (if li_Limit inp < 0 \<or> li_Limit inp > 1000 then Inl (Validation ''limit must be between 1 and 1000'' [])
      else let
        limit = (if li_Limit inp = 0 then 100 else nat (li_Limit inp));
        items = sort_key idOf items0;
        scope = page_scope marshal sha256 kind items
      in case page_offset scope (li_Cursor inp) (length items) of
           Inl e \<Rightarrow> Inl e
         | Inr offset \<Rightarrow> let end = min (offset + limit) (length items) in
             Inr \<lparr>pg_Items = take (end - offset) (drop offset items),
                  pg_NextCursor = (if end < length items
                    then RawURL_Encode (scope @ ''|'' @ itoa_nat end) else [])\<rparr>)"

section \<open>Walking through the pages\<close>

text \<open>A client that follows the cursors with at most \<open>fuel\<close> requests; \<open>None\<close> when one fails or there are too many.\<close>

fun walk ::
  "nat \<Rightarrow> ('a list \<Rightarrow> string) \<Rightarrow> (string \<Rightarrow> string) \<Rightarrow> 'a list \<Rightarrow> list_in \<Rightarrow> string \<Rightarrow> ('a \<Rightarrow> string) \<Rightarrow> 'a list option" where
  "walk 0 marshal sha256 items inp kind idOf = None"
| "walk (Suc fuel) marshal sha256 items inp kind idOf = (case page marshal sha256 items inp kind idOf of
     Inl e \<Rightarrow> None
   | Inr p \<Rightarrow> if pg_NextCursor p = [] then Some (pg_Items p)
              else map_option (append (pg_Items p))
                     (walk fuel marshal sha256 items (inp\<lparr>li_Cursor := pg_NextCursor p\<rparr>) kind idOf))"

section \<open>Lemmas\<close>

lemma digit_char_val: "d < 10 \<Longrightarrow> (of_char (digit_char d) :: nat) - 48 = d"
  by (simp add: digit_char_def)

lemma atoi_itoa: "atoi_digits (itoa_nat n) = n"
proof (induction n rule: itoa_nat.induct)
  case (1 n)
  show ?case
  proof (cases "n < 10")
    case True
    then show ?thesis by (subst itoa_nat.simps) (simp add: atoi_digits_def digit_char_val)
  next
    case False
    then have i: "itoa_nat n = itoa_nat (n div 10) @ [digit_char (n mod 10)]" by (simp add: itoa_nat.simps)
    have "atoi_digits (itoa_nat n) = 10 * atoi_digits (itoa_nat (n div 10)) + n mod 10"
      unfolding i by (simp add: atoi_digits_def digit_char_val)
    then show ?thesis using 1 [OF False] by simp
  qed
qed

lemma Atoi_itoa: "n < 2 ^ 63 \<Longrightarrow> Atoi (itoa_nat n) = Some (int n)"
proof -
  assume n: "n < 2 ^ 63"
  have dig: "list_all is_digit (itoa_nat n)" by (rule itoa_nat_digits)
  then have "is_digit (hd (itoa_nat n))" by (cases "itoa_nat n") auto
  then have "hd (itoa_nat n) \<noteq> CHR ''-''" "hd (itoa_nat n) \<noteq> CHR ''+''" by (auto simp: is_digit_def)
  moreover have "int n < 2 ^ 63" using n by simp
  ultimately show ?thesis using dig by (simp add: Atoi_def atoi_itoa Let_def)
qed

lemma itoa_nat_no_bar: "CHR ''|'' \<notin> set (itoa_nat n)"
  using itoa_nat_digits [of n] by (auto simp: list_all_iff is_digit_def)

lemma hex_encode_no_bar: "CHR ''|'' \<notin> set (hex_encode s)"
proof -
  have "\<forall>d \<in> set [0..<16]. hex_digit False d \<noteq> CHR ''|''"
    by (simp add: upt_rec numeral_eq_Suc hex_digit_def)
  then have h: "hex_digit False d \<noteq> CHR ''|''" if "d < 16" for d using that by simp
  have "(of_char c :: nat) div 16 < 16" for c :: char
  proof -
    have "of_char c < (256 :: nat)" by (simp add: of_char_def)
    then show ?thesis by (simp add: less_mult_imp_div_less)
  qed
  then show ?thesis using h by (auto simp: hex_encode_def dest: sym)
qed

lemma RawURL_Encode_Nil: "RawURL_Encode s = [] \<longleftrightarrow> s = []"
  using RawURL_Encode_inj [of s "[]"] by (simp add: RawURL_Encode_def b64_encode_def)

lemma page_offset_cursor:
  assumes "CHR ''|'' \<notin> set kind" "k < n" "n < 2 ^ 63"
  shows "page_offset (page_scope marshal sha256 kind items)
     (RawURL_Encode (page_scope marshal sha256 kind items @ ''|'' @ itoa_nat k)) n = Inr k"
proof -
  let ?s = "page_scope marshal sha256 kind items"
  have "CHR ''|'' \<notin> set ?s" using assms(1) hex_encode_no_bar by (auto simp: page_scope_def)
  then have "Split (?s @ CHR ''|'' # itoa_nat k) (CHR ''|'') = [?s, itoa_nat k]"
    by (simp add: Split_append Split_none itoa_nat_no_bar)
  then show ?thesis using assms(2,3) Atoi_itoa [of k]
    by (simp add: page_offset_def RawURL_Encode_Nil)
qed

definition page_limit :: "list_in \<Rightarrow> nat" where
  "page_limit inp = (if li_Limit inp = 0 then 100 else nat (li_Limit inp))"

text \<open>One step of the walk from an offset that the cursor denotes.\<close>

lemma page_at:
  assumes "0 \<le> li_Limit inp" "li_Limit inp \<le> 1000"
    and "page_offset (page_scope marshal sha256 kind (sort_key idOf items)) (li_Cursor inp) (length items) = Inr k"
  shows "page marshal sha256 items inp kind idOf = Inr
    \<lparr>pg_Items = take (page_limit inp) (drop k (sort_key idOf items)),
     pg_NextCursor = (if k + page_limit inp < length items
       then RawURL_Encode (page_scope marshal sha256 kind (sort_key idOf items) @ ''|'' @ itoa_nat (k + page_limit inp)) else [])\<rparr>"
proof -
  have "take (length items - k) (drop k (sort_key idOf items)) = take (page_limit inp) (drop k (sort_key idOf items))"
    if "length items \<le> k + page_limit inp" using that by simp
  then show ?thesis using assms by (auto simp: page_def Let_def page_limit_def min_def)
qed

lemma walk_from:
  assumes "0 \<le> li_Limit inp" "li_Limit inp \<le> 1000" "CHR ''|'' \<notin> set kind" "length items < 2 ^ 63"
    and "page_offset (page_scope marshal sha256 kind (sort_key idOf items)) (li_Cursor inp) (length items) = Inr k"
    and "length items - k < fuel"
  shows "walk fuel marshal sha256 items inp kind idOf = Some (drop k (sort_key idOf items))"
  using assms
proof (induction fuel arbitrary: inp k)
  case (Suc fuel)
  let ?xs = "sort_key idOf items" and ?l = "page_limit inp"
  let ?s = "page_scope marshal sha256 kind ?xs"
  have l: "0 < ?l" using Suc.prems(1) by (simp add: page_limit_def)
  show ?case
  proof (cases "k + ?l < length items")
    case False
    then show ?thesis using page_at [OF Suc.prems(1,2,5)] by simp
  next
    case True
    let ?inp = "inp\<lparr>li_Cursor := RawURL_Encode (?s @ ''|'' @ itoa_nat (k + ?l))\<rparr>"
    have "walk fuel marshal sha256 items ?inp kind idOf = Some (drop (k + ?l) ?xs)"
      using page_offset_cursor [OF Suc.prems(3) True Suc.prems(4)] Suc.prems l True
      by (intro Suc.IH) auto
    moreover have "take ?l (drop k ?xs) @ drop (k + ?l) ?xs = drop k ?xs"
      using append_take_drop_id [of ?l "drop k ?xs"] by (simp add: add.commute)
    ultimately show ?thesis using page_at [OF Suc.prems(1,2,5)] True by (simp add: RawURL_Encode_Nil)
  qed
qed simp

section \<open>Properties\<close>

text \<open>
  C38. Paging is complete and exact: a client that starts without a cursor and follows the cursors it is
  given reaches the end after at most one request per item and one more, and the pages together are
  exactly the items of the list sorted by identifier, each once.
\<close>
theorem pages_cover_the_list:
  assumes "0 \<le> li_Limit inp" "li_Limit inp \<le> 1000" "li_Cursor inp = []"
    and "CHR ''|'' \<notin> set kind" "length items < 2 ^ 63"
  shows "walk (Suc (length items)) marshal sha256 items inp kind idOf = Some (sort_key idOf items)"
  using walk_from [of inp kind items marshal sha256 idOf 0 "Suc (length items)"] assms
  by (simp add: page_offset_def)

theorem pages_cover_the_list_witness:
  "walk 4 concat (\<lambda>s. s) [''b'', ''c'', ''a''] \<lparr>li_Cursor = [], li_Limit = 2\<rparr> ''k'' (\<lambda>x. x) = Some [''a'', ''b'', ''c'']"
proof -
  have "sort_key (\<lambda>x. x) [''b'', ''c'', ''a''] = [''a'', ''b'', ''c'']" by code_simp
  moreover have "Suc (length [''b'', ''c'', ''a'']) = 4" by simp
  ultimately show ?thesis
    using pages_cover_the_list [of "\<lparr>li_Cursor = [], li_Limit = 2\<rparr>" "''k''" "[''b'', ''c'', ''a'']" concat "\<lambda>s. s" "\<lambda>x. x"]
    by (simp only: list_in.simps) simp
qed

end
