(* ===== verification/Manage.thy ===== *)
theory Manage
  imports App Page
begin

text \<open>
  The remaining operations of \<^verbatim>\<open>internal/app\<close>: typed changes (second factor, vendor, overage, redirect
  URIs), TOTP enrolment, operator sessions, tunables, token minting, queries and paged lists.
  Each is behind its capability; the ones that change the configuration go through \<open>applyLocked\<close>.
\<close>

section \<open>Typed changes\<close>

text \<open>Answer from the idempotency cache when the request was seen, otherwise go on with the fingerprint.\<close>

definition with_replay ::
  "actor \<Rightarrow> string \<Rightarrow> string \<Rightarrow> go_error + string \<Rightarrow> app \<Rightarrow>
     (string \<Rightarrow> app \<Rightarrow> (go_error + apply_result) \<times> app) \<Rightarrow> (go_error + apply_result) \<times> app" where
  "with_replay actor capID key fpr a body = (case replayTyped actor capID key fpr a of
     (Inl e, a1) \<Rightarrow> (Inl e, a1)
   | (Inr (Some res, fp), a1) \<Rightarrow> (Inr res, a1)
   | (Inr (None, fp), a1) \<Rightarrow> body fp a1)"

definition update_op :: "string \<Rightarrow> string \<Rightarrow> string \<Rightarrow> operation" where
  "update_op kind i val = \<lparr>op_Op = ''update'', op_Kind = kind, op_ID = i, op_Value = val\<rparr>"

definition SetMFA ::
  "system \<Rightarrow> (nat \<Rightarrow> go_time) \<Rightarrow> actor \<Rightarrow> mfa_in \<Rightarrow> app \<Rightarrow> (go_error + apply_result) \<times> app" where
  "SetMFA Y clk actor inp a = with_cap clk actor ''sso.auth.mfa.set'' a (\<lambda>a.
     if \<not> ValidMFA (mi_Mode inp) then (Inl (Validation ''mfa.mode must be never, always, or force-fail'' []), a)
     else with_replay actor ''sso.auth.mfa.set'' (mi_IdempotencyKey inp) (sy_fp_mfa Y inp) a (\<lambda>fp a.
       case canonical_of (Load (ap_store a)) of
         None \<Rightarrow> (Inl (Validation ''no active snapshot'' []), a)
       | Some d \<Rightarrow> applyLocked Y clk actor ''sso.auth.mfa.set''
           \<lparr>ci_ExpectedRevision = mi_ExpectedRevision inp, ci_IdempotencyKey = mi_IdempotencyKey inp,
            ci_Reason = mi_Reason inp, ci_Operations = [update_op ''auth'' []
              (ce_auth (sy_codec Y) ((sp_Auth (dc_Spec d))\<lparr>au_MFAMode := mi_Mode inp\<rparr>))],
            ci_fingerprint = fp\<rparr> a))"

definition swapped_profile :: "vendor_in \<Rightarrow> profile \<Rightarrow> profile" where
  "swapped_profile inp p = (let p1 = p\<lparr>pf_Vendor := vi_Vendor inp\<rparr> in
     case vi_TenantID inp of None \<Rightarrow> p1 | Some t \<Rightarrow> p1\<lparr>pf_TenantID := t\<rparr>)"

definition SwapVendor ::
  "system \<Rightarrow> (nat \<Rightarrow> go_time) \<Rightarrow> actor \<Rightarrow> vendor_in \<Rightarrow> app \<Rightarrow> (go_error + apply_result) \<times> app" where
  "SwapVendor Y clk actor inp a = with_cap clk actor ''sso.tunable.vendor.swap'' a (\<lambda>a.
     if vi_Vendor inp = [] then (Inl (Validation ''vendor is required'' []), a)
     else if \<not> ValidVendor (vi_Vendor inp) then (Inl (Validation ''spec.profile.vendor is not a known vendor'' []), a)
     else with_replay actor ''sso.tunable.vendor.swap'' (vi_IdempotencyKey inp) (sy_fp_vendor Y inp) a (\<lambda>fp a.
       case canonical_of (Load (ap_store a)) of
         None \<Rightarrow> (Inl (Validation ''no active snapshot'' []), a)
       | Some d \<Rightarrow> applyLocked Y clk actor ''sso.tunable.vendor.swap''
           \<lparr>ci_ExpectedRevision = vi_ExpectedRevision inp, ci_IdempotencyKey = vi_IdempotencyKey inp,
            ci_Reason = vi_Reason inp, ci_Operations = [update_op ''profile'' []
              (ce_profile (sy_codec Y) (swapped_profile inp (sp_Profile (dc_Spec d))))],
            ci_fingerprint = fp\<rparr> a))"

definition set_opt :: "'v option \<Rightarrow> ('v \<Rightarrow> 'r \<Rightarrow> 'r) \<Rightarrow> 'r \<Rightarrow> 'r" where
  "set_opt p f r = (case p of None \<Rightarrow> r | Some v \<Rightarrow> f v r)"

definition changed_overage :: "overage_in \<Rightarrow> group_overage \<Rightarrow> group_overage" where
  "changed_overage inp ov =
     set_opt (oi_GenericCap inp) (\<lambda>v r. r\<lparr>go_GenericCap := v\<rparr>)
       (set_opt (oi_OktaFailAt inp) (\<lambda>v r. r\<lparr>go_OktaFailAt := v\<rparr>)
         (set_opt (oi_EntraGraphStub inp) (\<lambda>v r. r\<lparr>go_EntraGraphStub := v\<rparr>) ov))"

definition SetOverage ::
  "system \<Rightarrow> (nat \<Rightarrow> go_time) \<Rightarrow> actor \<Rightarrow> overage_in \<Rightarrow> app \<Rightarrow> (go_error + apply_result) \<times> app" where
  "SetOverage Y clk actor inp a = with_cap clk actor ''sso.tunable.overage.set'' a (\<lambda>a.
     with_replay actor ''sso.tunable.overage.set'' (oi_IdempotencyKey inp) (sy_fp_overage Y inp) a (\<lambda>fp a.
       case canonical_of (Load (ap_store a)) of
         None \<Rightarrow> (Inl (Validation ''no active snapshot'' []), a)
       | Some d \<Rightarrow> applyLocked Y clk actor ''sso.tunable.overage.set''
           \<lparr>ci_ExpectedRevision = oi_ExpectedRevision inp, ci_IdempotencyKey = oi_IdempotencyKey inp,
            ci_Reason = oi_Reason inp, ci_Operations = [update_op ''groupOverage'' []
              (ce_overage (sy_codec Y) (changed_overage inp (sp_GroupOverage (dc_Spec d))))],
            ci_fingerprint = fp\<rparr> a))"

definition redirect_client :: "snapshot \<Rightarrow> string \<Rightarrow> client option" where
  "redirect_client s cid = (case gget (sn_ClientsByClientID s) cid of
     Some c \<Rightarrow> Some c | None \<Rightarrow> gget (sn_ClientsByID s) cid)"

definition RewriteRedirect ::
  "system \<Rightarrow> (nat \<Rightarrow> go_time) \<Rightarrow> actor \<Rightarrow> redirect_in \<Rightarrow> app \<Rightarrow> (go_error + apply_result) \<times> app" where
  "RewriteRedirect Y clk actor inp a = with_cap clk actor ''sso.tunable.redirect.rewrite'' a (\<lambda>a.
     if di_ClientID inp = [] then (Inl (Validation ''clientId is required'' []), a)
     else with_replay actor ''sso.tunable.redirect.rewrite'' (di_IdempotencyKey inp) (sy_fp_redirect Y inp) a (\<lambda>fp a.
       case Load (ap_store a) of
         None \<Rightarrow> (Inl (Validation ''no active snapshot'' []), a)
       | Some prev \<Rightarrow>
         if sn_Canonical prev = None then (Inl (Validation ''no active snapshot'' []), a)
         else case redirect_client prev (di_ClientID inp) of
           None \<Rightarrow> (Inl (NotFound ''client %s'' [di_ClientID inp]), a)
         | Some cl \<Rightarrow> applyLocked Y clk actor ''sso.tunable.redirect.rewrite''
             \<lparr>ci_ExpectedRevision = di_ExpectedRevision inp, ci_IdempotencyKey = di_IdempotencyKey inp,
              ci_Reason = di_Reason inp, ci_Operations = [update_op ''client'' (cl_ID cl)
                (ce_client (sy_codec Y) (cl\<lparr>cl_RedirectURIs := di_RedirectURIs inp\<rparr>))],
              ci_fingerprint = fp\<rparr> a))"

section \<open>TOTP enrolment\<close>

text \<open>RFC 4648 base32 without padding: groups of five bits, most significant first, the last filled with zeros.\<close>

definition byte_bits :: "char \<Rightarrow> bool list" where
  "byte_bits c = map (\<lambda>i. odd ((of_char c :: nat) div 2 ^ i)) [7, 6, 5, 4, 3, 2, 1, 0]"

definition bits_nat :: "bool list \<Rightarrow> nat" where
  "bits_nat bs = foldl (\<lambda>n b. 2 * n + (if b then 1 else 0)) 0 bs"

function b32_chunks :: "bool list \<Rightarrow> string" where
  "b32_chunks bs = (if bs = [] then [] else
     ''ABCDEFGHIJKLMNOPQRSTUVWXYZ234567'' ! bits_nat (take 5 bs @ replicate (5 - length bs) False) # b32_chunks (drop 5 bs))"
  by pat_completeness auto
termination by (relation "measure length") auto

declare b32_chunks.simps [simp del]

definition EncodeSecret :: "string \<Rightarrow> string" where
  "EncodeSecret secret = b32_chunks (concat (map byte_bits secret))"

definition path_segment_char :: "char \<Rightarrow> bool" where
  "path_segment_char c = (unreserved c \<or> c \<in> set ''$&+=:@'')"

definition PathEscape :: "string \<Rightarrow> string" where
  "PathEscape s = concat (map (\<lambda>c. if path_segment_char c then [c]
     else [CHR ''%'', hex_digit True (of_char c div 16), hex_digit True (of_char c mod 16)]) s)"

definition Issuer :: string where "Issuer = ''LabSSO''"

text \<open>\<^verbatim>\<open>url.Values.Encode\<close> writes the parameters in the order of their names.\<close>

definition OTPAuth :: "string \<Rightarrow> string \<Rightarrow> string" where
  "OTPAuth username secretB32 = ''otpauth://totp/'' @ Issuer @ '':'' @ PathEscape username @ ''?algorithm=SHA1&digits=6&issuer=''
     @ QueryEscape Issuer @ ''&period=30&secret='' @ QueryEscape secretB32"

record enroll_out =
  eo_UserID :: string
  eo_Username :: string
  eo_Secret :: string
  eo_OTPAuth :: string
  eo_Source :: string

text \<open>\<open>rnd\<close> is the result of \<^verbatim>\<open>rand.Read\<close> on twenty bytes.\<close>

definition Generate :: "string option \<Rightarrow> go_error + string" where
  "Generate rnd = (case rnd of None \<Rightarrow> Inl (Errorf ''rand'' []) | Some b \<Rightarrow> Inr b)"

definition described :: "string \<Rightarrow> string \<Rightarrow> string" where
  "described what reason = (if reason \<noteq> [] then what @ '': '' @ reason else what)"

definition EnrollTOTP ::
  "(nat \<Rightarrow> go_time) \<Rightarrow> string option \<Rightarrow> actor \<Rightarrow> string \<Rightarrow> string \<Rightarrow> app \<Rightarrow> (go_error + enroll_out) \<times> app" where
  "EnrollTOTP clk rnd actor uid reason a = with_cap clk actor ''sso.user.totp.enroll'' a (\<lambda>a.
     case Load (ap_store a) of
       None \<Rightarrow> (Inl (Validation ''no active snapshot'' []), a)
     | Some snap \<Rightarrow> (case gget (sn_UsersByID snap) uid of
         None \<Rightarrow> (Inl (NotFound ''user %s'' [uid]), a)
       | Some u \<Rightarrow> (case Generate rnd of
           Inl e \<Rightarrow> (Inl e, a)
         | Inr secret \<Rightarrow> let
             a1 = set_rt (SetTOTPOverlay uid secret (app_rt a)) a;
             b32 = EncodeSecret secret;
             a2 = snd (emit_ok clk actor ''sso.user.totp.enroll'' (described (''enroll '' @ uid) reason) [] [] a1)
           in (Inr \<lparr>eo_UserID = us_ID u, eo_Username = us_Username u, eo_Secret = b32,
                    eo_OTPAuth = OTPAuth (us_Username u) b32, eo_Source = ''overlay''\<rparr>, a2))))"

definition ClearTOTP ::
  "(nat \<Rightarrow> go_time) \<Rightarrow> actor \<Rightarrow> string \<Rightarrow> string \<Rightarrow> app \<Rightarrow> (go_error + unit) \<times> app" where
  "ClearTOTP clk actor uid reason a = with_cap clk actor ''sso.user.totp.clear'' a (\<lambda>a.
     case Load (ap_store a) of
       None \<Rightarrow> (Inl (Validation ''no active snapshot'' []), a)
     | Some snap \<Rightarrow>
       if gget (sn_UsersByID snap) uid = None then (Inl (NotFound ''user %s'' [uid]), a)
       else (Inr (), snd (emit_ok clk actor ''sso.user.totp.clear'' (described (''clear '' @ uid) reason) [] []
              (set_rt (ClearTOTPOverlay uid (app_rt a)) a))))"

section \<open>Operator sessions\<close>

definition opStore_Put :: "operator_session \<Rightarrow> operator_session gmap \<Rightarrow> operator_session gmap" where
  "opStore_Put s m = gput (os_ID s) s m"

definition opStore_Get ::
  "go_time \<Rightarrow> string \<Rightarrow> operator_session gmap \<Rightarrow> operator_session option \<times> operator_session gmap" where
  "opStore_Get now sid m = (case gget m sid of
     None \<Rightarrow> (None, m)
   | Some s \<Rightarrow> if \<not> IsZero (os_Expires s) \<and> After now (os_Expires s) then (None, gdel sid m) else (Some s, m))"

definition opStore_Delete :: "string \<Rightarrow> operator_session gmap \<Rightarrow> operator_session gmap" where
  "opStore_Delete sid m = gdel sid m"

text \<open>\<open>r1\<close> and \<open>r2\<close> are the two results of \<^verbatim>\<open>rand.Read\<close> on sixteen bytes that \<^verbatim>\<open>randomHex\<close> encodes.\<close>

definition CreateOperatorSession ::
  "(nat \<Rightarrow> go_time) \<Rightarrow> string \<Rightarrow> string \<Rightarrow> actor \<Rightarrow> app \<Rightarrow> (go_error + operator_session) \<times> app" where
  "CreateOperatorSession clk r1 r2 actor a = with_cap clk actor ''sso.session.create'' a (\<lambda>a. let
     s = \<lparr>os_ID = hex_encode r1, os_CSRF = hex_encode r2,
          os_Actor = \<lparr>an_Transport = [], an_ID = an_ID actor, an_Class = ''cookie'', an_Scopes = an_Scopes actor\<rparr>,
          os_Expires = clk 5 + 8 * Hour\<rparr>;
     a1 = a\<lparr>ap_opsess := opStore_Put s (ap_opsess a)\<rparr>
   in (Inr s, snd (emit_ok clk actor ''sso.session.create'' ''operator session'' [] [] a1)))"

definition GetOperatorSession ::
  "(nat \<Rightarrow> go_time) \<Rightarrow> actor \<Rightarrow> app \<Rightarrow> (go_error + string \<times> string) \<times> app" where
  "GetOperatorSession clk actor a = with_cap clk actor ''sso.session.get'' a (\<lambda>a. (Inr (an_ID actor, an_Class actor), a))"

definition DeleteOperatorSession ::
  "(nat \<Rightarrow> go_time) \<Rightarrow> actor \<Rightarrow> string \<Rightarrow> app \<Rightarrow> (go_error + unit) \<times> app" where
  "DeleteOperatorSession clk actor sid a = with_cap clk actor ''sso.session.delete'' a (\<lambda>a.
     (Inr (), snd (emit_ok clk actor ''sso.session.delete'' ''operator logout'' [] []
        (a\<lparr>ap_opsess := opStore_Delete sid (ap_opsess a)\<rparr>))))"

definition LookupOperatorSession :: "(nat \<Rightarrow> go_time) \<Rightarrow> string \<Rightarrow> app \<Rightarrow> operator_session option \<times> app" where
  "LookupOperatorSession clk sid a = (let (s, m) = opStore_Get (clk 5) sid (ap_opsess a) in (s, a\<lparr>ap_opsess := m\<rparr>))"

section \<open>Sessions and tunables\<close>

definition ExpireAllSessions ::
  "(nat \<Rightarrow> go_time) \<Rightarrow> actor \<Rightarrow> string list \<Rightarrow> app \<Rightarrow> (go_error + nat) \<times> app" where
  "ExpireAllSessions clk actor reasons a = with_cap clk actor ''sso.sessions.expire_all'' a (\<lambda>a.
     let (n, r) = ExpireAll (app_rt a) in
     (Inr n, snd (emit_ok clk actor ''sso.sessions.expire_all'' (auditReason ''expire all'' reasons) [] [] (set_rt r a))))"

definition ListSessions_app :: "(nat \<Rightarrow> go_time) \<Rightarrow> actor \<Rightarrow> app \<Rightarrow> (go_error + loginsession list) \<times> app" where
  "ListSessions_app clk actor a = with_cap clk actor ''sso.sessions.list'' a (\<lambda>a.
     let (ss, r) = ListSessions (clk 5) (app_rt a) in (Inr ss, set_rt r a))"

definition ExpireSession_app ::
  "(nat \<Rightarrow> go_time) \<Rightarrow> actor \<Rightarrow> string \<Rightarrow> string list \<Rightarrow> app \<Rightarrow> (go_error + unit) \<times> app" where
  "ExpireSession_app clk actor sid reasons a = with_cap clk actor ''sso.session.expire'' a (\<lambda>a.
     case ExpireSession sid (app_rt a) of
       (False, r) \<Rightarrow> (Inl (NotFound ''session %s'' [sid]), set_rt r a)
     | (True, r) \<Rightarrow> (Inr (), snd (emit_ok clk actor ''sso.session.expire'' (auditReason ''expire session'' reasons) [] [] (set_rt r a))))"

text \<open>A tunable sets one flag of the runtime and records it.\<close>

definition tune ::
  "(nat \<Rightarrow> go_time) \<Rightarrow> actor \<Rightarrow> string \<Rightarrow> (runtime \<Rightarrow> runtime) \<Rightarrow> string \<Rightarrow> string list \<Rightarrow> app \<Rightarrow> (go_error + unit) \<times> app" where
  "tune clk actor capID f fallback reasons a = with_cap clk actor capID a (\<lambda>a.
     (Inr (), snd (emit_ok clk actor capID (auditReason fallback reasons) [] [] (set_rt (f (app_rt a)) a))))"

definition PauseToken :: "(nat \<Rightarrow> go_time) \<Rightarrow> actor \<Rightarrow> string list \<Rightarrow> app \<Rightarrow> (go_error + unit) \<times> app" where
  "PauseToken clk actor = tune clk actor ''sso.tunable.token.pause'' (SetPaused True) ''pause token''"

definition ResumeToken :: "(nat \<Rightarrow> go_time) \<Rightarrow> actor \<Rightarrow> string list \<Rightarrow> app \<Rightarrow> (go_error + unit) \<times> app" where
  "ResumeToken clk actor = tune clk actor ''sso.tunable.token.resume'' (SetPaused False) ''resume token''"

definition ForceFail :: "(nat \<Rightarrow> go_time) \<Rightarrow> actor \<Rightarrow> bool \<Rightarrow> string list \<Rightarrow> app \<Rightarrow> (go_error + unit) \<times> app" where
  "ForceFail clk actor on = tune clk actor ''sso.tunable.auth.force_fail'' (SetForceFail on) ''force-fail''"

definition InjectError :: "(nat \<Rightarrow> go_time) \<Rightarrow> actor \<Rightarrow> string \<Rightarrow> string list \<Rightarrow> app \<Rightarrow> (go_error + unit) \<times> app" where
  "InjectError clk actor code = tune clk actor ''sso.tunable.error.inject'' (SetInject code) code"

definition ForceConsent :: "(nat \<Rightarrow> go_time) \<Rightarrow> actor \<Rightarrow> bool \<Rightarrow> string list \<Rightarrow> app \<Rightarrow> (go_error + unit) \<times> app" where
  "ForceConsent clk actor on = tune clk actor ''sso.tunable.consent.force'' (SetForceConsent on) ''force-consent''"

record mint_in =
  mt_UserID :: string
  mt_ClientID :: string
  mt_Scope :: string

record mint_out =
  mo_AccessToken :: string
  mo_IDToken :: string
  mo_TokenType :: string
  mo_ExpiresIn :: nat

text \<open>The warnings of a call are those that the provider has recorded since.\<close>

definition with_provider :: "(nat \<Rightarrow> go_time) \<Rightarrow> provider \<Rightarrow> app \<Rightarrow> app" where
  "with_provider clk p a = a\<lparr>ap_oidc := p, ap_audit := emit_all (stamped clk
     (map warning_event (drop (length (pv_warns (ap_oidc a))) (pv_warns p)))) (ap_audit a)\<rparr>"

definition mint_username :: "snapshot option \<Rightarrow> mint_in \<Rightarrow> go_error + string" where
  "mint_username s inp = (case s of
     None \<Rightarrow> Inr []
   | Some snap \<Rightarrow> (case gget (sn_UsersByID snap) (mt_UserID inp) of
       None \<Rightarrow> Inl (NotFound ''user %s'' [mt_UserID inp])
     | Some u \<Rightarrow> if gget (sn_ClientsByClientID snap) (mt_ClientID inp) = None
                 then Inl (NotFound ''client %s'' [mt_ClientID inp]) else Inr (us_Username u)))"

definition MintToken ::
  "env \<Rightarrow> (nat \<Rightarrow> go_time) \<Rightarrow> (nat \<Rightarrow> go_time) \<Rightarrow> actor \<Rightarrow> mint_in \<Rightarrow> app \<Rightarrow> (go_error + mint_out) \<times> app" where
  "MintToken E clk mclk actor inp a = with_cap clk actor ''sso.tunable.token.mint'' a (\<lambda>a.
     if mt_UserID inp = [] \<or> mt_ClientID inp = []
     then (Inl (Validation ''userId and clientId are required'' []), a)
     else let scope = (if mt_Scope inp = [] then ''openid'' else mt_Scope inp) in
       case mint_username (Load (ap_store a)) inp of
         Inl e \<Rightarrow> (Inl e, a)
       | Inr username \<Rightarrow> (case Mint E (Load (ap_store a)) mclk (mt_ClientID inp) (mt_UserID inp) username scope (ap_oidc a) of
           (Inl e, p) \<Rightarrow> (Inl (Validation ''%s'' [err_text e]), with_provider (\<lambda>i. mclk (i + 2)) p a)
         | (Inr (access, idTok), p) \<Rightarrow>
           (Inr \<lparr>mo_AccessToken = access, mo_IDToken = idTok, mo_TokenType = ''Bearer'', mo_ExpiresIn = 3600\<rparr>,
            snd (emit_ok clk actor ''sso.tunable.token.mint'' ''mint token'' [] [] (with_provider (\<lambda>i. mclk (i + 2)) p a)))))"

section \<open>Queries\<close>

definition HealthReady :: "app \<Rightarrow> (string \<times> string) \<times> bool" where
  "HealthReady a = (if Load (ap_store a) = None then ((''not_ready'', ''no snapshot''), False)
     else if ap_requireHTTPS a \<and> \<not> ap_httpsBound a then ((''not_ready'', ''https unbound''), False)
     else ((''ready'', []), True))"

record status_view =
  sv_BootstrapRevision :: string
  sv_RuntimeRevision :: string
  sv_Generation :: int
  sv_Drifted :: bool
  sv_Issuer :: string

definition Status :: "app \<Rightarrow> status_view" where
  "Status a = (case Load (ap_store a) of
     None \<Rightarrow> \<lparr>sv_BootstrapRevision = [], sv_RuntimeRevision = [], sv_Generation = 0, sv_Drifted = False, sv_Issuer = []\<rparr>
   | Some s \<Rightarrow> \<lparr>sv_BootstrapRevision = sn_BootstrapRevision s, sv_RuntimeRevision = sn_Revision s,
       sv_Generation = sn_Generation s, sv_Drifted = Drifted (Some s), sv_Issuer = sn_Issuer s\<rparr>)"

definition GetStatus :: "(nat \<Rightarrow> go_time) \<Rightarrow> actor \<Rightarrow> app \<Rightarrow> (go_error + status_view) \<times> app" where
  "GetStatus clk actor a = with_cap clk actor ''sso.status.get'' a (\<lambda>a. (Inr (Status a), a))"

definition Capabilities :: "(nat \<Rightarrow> go_time) \<Rightarrow> actor \<Rightarrow> app \<Rightarrow> (go_error + capability list) \<times> app" where
  "Capabilities clk actor a = with_cap clk actor ''sso.capabilities.get'' a (\<lambda>a. (Inr catalog, a))"

record state_view =
  tv_BootstrapRevision :: string
  tv_RuntimeRevision :: string
  tv_Generation :: int
  tv_Drifted :: bool
  tv_Canonical :: document

definition GetState :: "(nat \<Rightarrow> go_time) \<Rightarrow> actor \<Rightarrow> app \<Rightarrow> (go_error + state_view) \<times> app" where
  "GetState clk actor a = with_cap clk actor ''sso.state.get'' a (\<lambda>a. case Load (ap_store a) of
     None \<Rightarrow> (Inl (Validation ''no active snapshot'' []), a)
   | Some s \<Rightarrow> (case sn_Canonical s of
       None \<Rightarrow> (Inl (Validation ''no active snapshot'' []), a)
     | Some d \<Rightarrow> (Inr \<lparr>tv_BootstrapRevision = sn_BootstrapRevision s, tv_RuntimeRevision = sn_Revision s,
         tv_Generation = sn_Generation s, tv_Drifted = Drifted (Some s), tv_Canonical = d\<rparr>, a)))"

text \<open>A list of the canonical document, and one element of an index of the snapshot.\<close>

definition list_of ::
  "(nat \<Rightarrow> go_time) \<Rightarrow> actor \<Rightarrow> string \<Rightarrow> (app \<Rightarrow> spec \<Rightarrow> 'a list) \<Rightarrow> app \<Rightarrow> (go_error + 'a list) \<times> app" where
  "list_of clk actor capID f a = with_cap clk actor capID a (\<lambda>a. case canonical_of (Load (ap_store a)) of
     None \<Rightarrow> (Inl (Validation ''no active snapshot'' []), a)
   | Some d \<Rightarrow> (Inr (f a (dc_Spec d)), a))"

definition get_of ::
  "(nat \<Rightarrow> go_time) \<Rightarrow> actor \<Rightarrow> string \<Rightarrow> string \<Rightarrow> (snapshot \<Rightarrow> 'v gmap) \<Rightarrow> (app \<Rightarrow> 'v \<Rightarrow> 'a) \<Rightarrow> string \<Rightarrow> app \<Rightarrow> (go_error + 'a) \<times> app" where
  "get_of clk actor capID kind tab f i a = with_cap clk actor capID a (\<lambda>a. case Load (ap_store a) of
     None \<Rightarrow> (Inl (Validation ''no active snapshot'' []), a)
   | Some s \<Rightarrow> (case gget (tab s) i of
       None \<Rightarrow> (Inl (NotFound (kind @ '' %s'') [i]), a)
     | Some v \<Rightarrow> (Inr (f a v), a)))"

record user_view =
  uv_User :: user
  uv_Configured :: bool
  uv_Source :: string

definition userView :: "app \<Rightarrow> user \<Rightarrow> user_view" where
  "userView a u = (if HasTOTPOverlay (us_ID u) (app_rt a)
     then \<lparr>uv_User = u, uv_Configured = True, uv_Source = ''overlay''\<rparr>
     else if us_TOTPSecretRef u \<noteq> [] then \<lparr>uv_User = u, uv_Configured = True, uv_Source = ''file''\<rparr>
     else \<lparr>uv_User = u, uv_Configured = False, uv_Source = []\<rparr>)"

definition ListClients :: "(nat \<Rightarrow> go_time) \<Rightarrow> actor \<Rightarrow> app \<Rightarrow> (go_error + client list) \<times> app" where
  "ListClients clk actor = list_of clk actor ''sso.clients.list'' (\<lambda>a. sp_Clients)"

definition GetClient :: "(nat \<Rightarrow> go_time) \<Rightarrow> actor \<Rightarrow> string \<Rightarrow> app \<Rightarrow> (go_error + client) \<times> app" where
  "GetClient clk actor = get_of clk actor ''sso.client.get'' ''client'' sn_ClientsByID (\<lambda>a c. c)"

definition ListUsers :: "(nat \<Rightarrow> go_time) \<Rightarrow> actor \<Rightarrow> app \<Rightarrow> (go_error + user_view list) \<times> app" where
  "ListUsers clk actor = list_of clk actor ''sso.users.list'' (\<lambda>a s. map (userView a) (sp_Users s))"

definition GetUser :: "(nat \<Rightarrow> go_time) \<Rightarrow> actor \<Rightarrow> string \<Rightarrow> app \<Rightarrow> (go_error + user_view) \<times> app" where
  "GetUser clk actor = get_of clk actor ''sso.user.get'' ''user'' sn_UsersByID userView"

definition ListGroups :: "(nat \<Rightarrow> go_time) \<Rightarrow> actor \<Rightarrow> app \<Rightarrow> (go_error + group list) \<times> app" where
  "ListGroups clk actor = list_of clk actor ''sso.groups.list'' (\<lambda>a. sp_Groups)"

definition GetGroup :: "(nat \<Rightarrow> go_time) \<Rightarrow> actor \<Rightarrow> string \<Rightarrow> app \<Rightarrow> (go_error + group) \<times> app" where
  "GetGroup clk actor = get_of clk actor ''sso.group.get'' ''group'' sn_GroupsByID (\<lambda>a g. g)"

definition ListAudit :: "(nat \<Rightarrow> go_time) \<Rightarrow> actor \<Rightarrow> app \<Rightarrow> (go_error + event list) \<times> app" where
  "ListAudit clk actor a = with_cap clk actor ''sso.audit.list'' a (\<lambda>a. (Inr (Recent (ap_audit a)), a))"

definition GetAudit :: "(nat \<Rightarrow> go_time) \<Rightarrow> actor \<Rightarrow> string \<Rightarrow> app \<Rightarrow> (go_error + event) \<times> app" where
  "GetAudit clk actor i a = with_cap clk actor ''sso.audit.get'' a (\<lambda>a. case GetEvent i (ap_audit a) of
     None \<Rightarrow> (Inl (NotFound ''audit %s'' [i]), a) | Some e \<Rightarrow> (Inr e, a))"

definition UIEnabled :: "app \<Rightarrow> bool" where
  "UIEnabled a = (case canonical_of (Load (ap_store a)) of None \<Rightarrow> True
     | Some d \<Rightarrow> IsEnabled (sp_UIEnabled (dc_Spec d)) True)"

section \<open>Paged lists\<close>

definition paged ::
  "('a list \<Rightarrow> string) \<Rightarrow> (string \<Rightarrow> string) \<Rightarrow> string \<Rightarrow> ('a \<Rightarrow> string) \<Rightarrow> list_in \<Rightarrow> (go_error + 'a list) \<times> app \<Rightarrow> (go_error + 'a page_out) \<times> app" where
  "paged marshal sha kind idOf inp r = (case r of
     (Inl e, a) \<Rightarrow> (Inl e, a) | (Inr items, a) \<Rightarrow> (page marshal sha items inp kind idOf, a))"

definition PageClients :: "(client list \<Rightarrow> string) \<Rightarrow> (string \<Rightarrow> string) \<Rightarrow> (nat \<Rightarrow> go_time) \<Rightarrow> actor \<Rightarrow> list_in \<Rightarrow> app \<Rightarrow> (go_error + client page_out) \<times> app" where
  "PageClients marshal sha clk actor inp a = paged marshal sha ''clients'' cl_ID inp (ListClients clk actor a)"

definition PageUsers :: "(user_view list \<Rightarrow> string) \<Rightarrow> (string \<Rightarrow> string) \<Rightarrow> (nat \<Rightarrow> go_time) \<Rightarrow> actor \<Rightarrow> list_in \<Rightarrow> app \<Rightarrow> (go_error + user_view page_out) \<times> app" where
  "PageUsers marshal sha clk actor inp a = paged marshal sha ''users'' (\<lambda>v. us_ID (uv_User v)) inp (ListUsers clk actor a)"

definition PageGroups :: "(group list \<Rightarrow> string) \<Rightarrow> (string \<Rightarrow> string) \<Rightarrow> (nat \<Rightarrow> go_time) \<Rightarrow> actor \<Rightarrow> list_in \<Rightarrow> app \<Rightarrow> (go_error + group page_out) \<times> app" where
  "PageGroups marshal sha clk actor inp a = paged marshal sha ''groups'' gr_ID inp (ListGroups clk actor a)"

definition PageSessions :: "(loginsession list \<Rightarrow> string) \<Rightarrow> (string \<Rightarrow> string) \<Rightarrow> (nat \<Rightarrow> go_time) \<Rightarrow> actor \<Rightarrow> list_in \<Rightarrow> app \<Rightarrow> (go_error + loginsession page_out) \<times> app" where
  "PageSessions marshal sha clk actor inp a = paged marshal sha ''sessions'' ss_ID inp (ListSessions_app clk actor a)"

definition PageAudit :: "(event list \<Rightarrow> string) \<Rightarrow> (string \<Rightarrow> string) \<Rightarrow> (nat \<Rightarrow> go_time) \<Rightarrow> actor \<Rightarrow> list_in \<Rightarrow> app \<Rightarrow> (go_error + event page_out) \<times> app" where
  "PageAudit marshal sha clk actor inp a = paged marshal sha ''audit'' el_ID inp (ListAudit clk actor a)"

end
