(* ===== verification/Import.thy ===== *)
theory Import
  imports Manage Importrw
begin

text \<open>
  \<^verbatim>\<open>internal/app/import.go\<close>: planning and applying the import of a vendor document, and the audit record
  of a rejected management request. \<open>importlib\<close> holds the JSON decoder of vendor documents, the SAML
  libraries and the fingerprint of an import request.
\<close>

record import_in =
  ii_Kind :: string
  ii_Document :: string
  ii_ExpectedRevision :: string
  ii_IdempotencyKey :: string
  ii_Reason :: string

record import_out =
  io_Plan :: "plan option"
  io_Client :: client
  io_Unmapped :: fields
  io_Blockers :: "string list"
  io_Warnings :: "string list"
  io_Applied :: bool

record importlib =
  il_saml :: samllib
  il_unmarshal :: "string \<Rightarrow> fields option"
  il_fingerprint :: "import_in \<Rightarrow> go_error + string"

definition recordRejected :: "(nat \<Rightarrow> go_time) \<Rightarrow> actor \<Rightarrow> string \<Rightarrow> go_error \<Rightarrow> app \<Rightarrow> app" where
  "recordRejected clk actor capID e a = emit_error clk actor capID (if CodeOf e = [] then CodeInternal else CodeOf e) a"

definition RejectInput :: "(nat \<Rightarrow> go_time) \<Rightarrow> actor \<Rightarrow> go_error \<Rightarrow> app \<Rightarrow> app" where
  "RejectInput clk actor e a = recordRejected clk actor ''sso.management.input.rejected'' e a"

text \<open>The deferred record of an error that no other audit event reports.\<close>

definition rejecting ::
  "(nat \<Rightarrow> go_time) \<Rightarrow> actor \<Rightarrow> string \<Rightarrow> (go_error + 'r) \<times> app \<Rightarrow> (go_error + 'r) \<times> app" where
  "rejecting clk actor capID res = (case fst res of
     Inl e \<Rightarrow> if CodeOf e \<noteq> CodeForbidden then (Inl e, recordRejected clk actor capID e (snd res)) else res
   | Inr _ \<Rightarrow> res)"

definition importOps :: "codec \<Rightarrow> client \<Rightarrow> operation list" where
  "importOps C c = [\<lparr>op_Op = ''add'', op_Kind = ''client'', op_ID = cl_ID c, op_Value = ce_client C c\<rparr>]"

definition rewrite_in :: "system \<Rightarrow> importlib \<Rightarrow> import_in \<Rightarrow> go_error + import_result" where
  "rewrite_in Y I inp = (case Rewrite (il_saml I) (cm_net (sy_comp Y)) (il_unmarshal I) (ii_Kind inp) (ii_Document inp) of
     Inl e \<Rightarrow> Inl (Validation ''%s'' [error_text e]) | Inr res \<Rightarrow> Inr res)"

definition import_view :: "import_result \<Rightarrow> plan option \<Rightarrow> string list \<Rightarrow> bool \<Rightarrow> import_out" where
  "import_view res p blockers applied = \<lparr>io_Plan = p, io_Client = ir_Client res,
     io_Unmapped = [(''unmapped'', JObj (ir_Unmapped res))], io_Blockers = blockers, io_Warnings = ir_Warnings res,
     io_Applied = applied\<rparr>"

definition ImportPlan ::
  "system \<Rightarrow> importlib \<Rightarrow> (nat \<Rightarrow> go_time) \<Rightarrow> actor \<Rightarrow> import_in \<Rightarrow> app \<Rightarrow> (go_error + import_out) \<times> app" where
  "ImportPlan Y I clk actor inp a = rejecting clk actor ''sso.import.plan'' (with_cap clk actor ''sso.import.plan'' a (\<lambda>a.
     case rewrite_in Y I inp of
       Inl e \<Rightarrow> (Inl e, a)
     | Inr res \<Rightarrow> (case Load (ap_store a) of
         None \<Rightarrow> (Inl (Validation ''no active snapshot'' []), a)
       | Some snap \<Rightarrow> (case planLocked Y clk \<lparr>ci_ExpectedRevision = sn_Revision snap, ci_IdempotencyKey = [], ci_Reason = [],
             ci_Operations = importOps (sy_codec Y) (ir_Client res), ci_fingerprint = []\<rparr> a of
           (Inl e, a1) \<Rightarrow>
             if CodeOf e \<noteq> CodeValidation then (Inl e, a1)
             else (Inr (import_view res None [error_text e] False), a1)
         | (Inr p, a1) \<Rightarrow> (Inr (import_view res (Some p) [] False), a1)))))"

text \<open>
  An import that is replayed is rewritten again for its answer; once the change is being applied, its
  failure is recorded by \<open>applyLocked\<close> itself.
\<close>

definition ImportApply ::
  "system \<Rightarrow> importlib \<Rightarrow> (nat \<Rightarrow> go_time) \<Rightarrow> actor \<Rightarrow> import_in \<Rightarrow> app \<Rightarrow> (go_error + import_out) \<times> app" where
  "ImportApply Y I clk actor inp a = (let capID = ''sso.import.apply''; rej = rejecting clk actor capID in
     case authorize_cap clk actor capID a of
       (Some e, a1) \<Rightarrow> rej (Inl e, a1)
     | (None, a1) \<Rightarrow>
       (case replayTyped actor capID (ii_IdempotencyKey inp) (il_fingerprint I inp) a1 of
          (Inl e, a2) \<Rightarrow> rej (Inl e, a2)
        | (Inr (Some replay, fp), a2) \<Rightarrow>
            rej (case rewrite_in Y I inp of
              Inl e \<Rightarrow> (Inl e, a2)
            | Inr res \<Rightarrow> (Inr (import_view res (Some (ar_Plan replay)) [] (ar_Applied replay)), a2))
        | (Inr (None, fp), a2) \<Rightarrow>
            (case rewrite_in Y I inp of
               Inl e \<Rightarrow> rej (Inl e, a2)
             | Inr res \<Rightarrow>
               (case applyLocked Y clk actor capID \<lparr>ci_ExpectedRevision = ii_ExpectedRevision inp,
                   ci_IdempotencyKey = ii_IdempotencyKey inp, ci_Reason = ii_Reason inp,
                   ci_Operations = importOps (sy_codec Y) (ir_Client res), ci_fingerprint = fp\<rparr> a2 of
                  (Inl e, a3) \<Rightarrow> (Inl e, a3)
                | (Inr applied, a3) \<Rightarrow> (Inr (import_view res (Some (ar_Plan applied)) [] (ar_Applied applied)), a3)))))"

section \<open>Export and the remaining queries\<close>

record export_view =
  ev_Format :: string
  ev_Data :: string
  ev_Revision :: string

definition CanonicalYAML :: "comp \<Rightarrow> document \<Rightarrow> go_error + string" where
  "CanonicalYAML K doc = (case cm_yamlMarshal K (Normalize doc) of None \<Rightarrow> Inl (Errorf ''yaml'' []) | Some b \<Rightarrow> Inr b)"

text \<open>\<open>json\<close> renders a document with \<^verbatim>\<open>json.MarshalIndent\<close>.\<close>

definition Export ::
  "system \<Rightarrow> (document \<Rightarrow> go_error + string) \<Rightarrow> (nat \<Rightarrow> go_time) \<Rightarrow> actor \<Rightarrow> string \<Rightarrow> app \<Rightarrow> (go_error + export_view) \<times> app" where
  "Export Y json clk actor format0 a = with_cap clk actor ''sso.state.export'' a (\<lambda>a. (case Load (ap_store a) of
     None \<Rightarrow> Inl (Validation ''no active snapshot'' [])
   | Some snap \<Rightarrow> (case sn_Canonical snap of
       None \<Rightarrow> Inl (Validation ''no active snapshot'' [])
     | Some d \<Rightarrow> let format = (if format0 \<noteq> [] then format0 else ''yaml'') in
         if format \<noteq> ''yaml'' \<and> format \<noteq> ''json'' then Inl (Validation ''format must be yaml or json'' [])
         else bindE (if format = ''json'' then json d else CanonicalYAML (sy_comp Y) d) (\<lambda>b.
           if Contains b ''-----BEGIN '' then Inl (Validation ''export leaked inline PEM'' [])
           else Inr \<lparr>ev_Format = format, ev_Data = b, ev_Revision = sn_Revision snap\<rparr>)), a))"

definition Canonicalize :: "system \<Rightarrow> document \<Rightarrow> go_error + string" where
  "Canonicalize Y doc0 = (let doc = Normalize doc0 in
     guardE (ValidateIDs (cm_net (sy_comp Y)) doc) (CanonicalYAML (sy_comp Y) doc))"

definition HealthLive :: "(string \<times> string) list" where "HealthLive = [(''status'', ''ok'')]"

definition SetRequireHTTPS :: "bool \<Rightarrow> app \<Rightarrow> app" where "SetRequireHTTPS v a = a\<lparr>ap_requireHTTPS := v\<rparr>"
definition SetHTTPSBound :: "bool \<Rightarrow> app \<Rightarrow> app" where "SetHTTPSBound v a = a\<lparr>ap_httpsBound := v\<rparr>"

text \<open>The build information and the generated schema are values of other packages.\<close>

definition Version :: "'i \<Rightarrow> (nat \<Rightarrow> go_time) \<Rightarrow> actor \<Rightarrow> app \<Rightarrow> (go_error + 'i) \<times> app" where
  "Version info clk actor a = with_cap clk actor ''sso.version.get'' a (\<lambda>a. (Inr info, a))"

definition SchemaConfig :: "json \<Rightarrow> (nat \<Rightarrow> go_time) \<Rightarrow> actor \<Rightarrow> app \<Rightarrow> (go_error + json) \<times> app" where
  "SchemaConfig schema clk actor a = with_cap clk actor ''sso.schema.config.get'' a (\<lambda>a. (Inr schema, a))"

end
