(* ===== verification/App_Trace.thy ===== *)
theory App_Trace
  imports Import Runtime_Trace Compiler_Props
begin

text \<open>
  The management application as a state machine. Every operation is one step (the application
  mutex), and the steps of the protocol handlers on the shared runtime come in between in any order.

  The locale \<open>app_laws\<close> is the interface between an operation and what is claimed of it: \<open>P\<close> holds
  before, \<open>Q err\<close> after, where \<open>err\<close> says whether the operation failed. Its laws speak of the few ways
  in which the code changes the state; inside it every operation is shown to lead from \<open>P\<close> to \<open>Q\<close>. It is
  interpreted for the invariant of the application, for the history of the snapshots and for the
  atomicity of failures.
\<close>

section \<open>Operations and steps\<close>

datatype app_op =
    MApply actor change_in | MPlan actor change_in | MValidate actor "document option" "operation list"
  | MReset actor reset_in | MSetMFA actor mfa_in | MSwapVendor actor vendor_in | MSetOverage actor overage_in
  | MRewriteRedirect actor redirect_in | MEnrollTOTP "string option" actor string string
  | MClearTOTP actor string string | MCreateSession string string actor | MGetSession actor
  | MDeleteSession actor string | MLookupSession string | MExpireAll actor "string list" | MListSessions actor
  | MExpireSession actor string "string list" | MPauseToken actor "string list" | MResumeToken actor "string list"
  | MForceFail actor bool "string list" | MInjectError actor string "string list"
  | MForceConsent actor bool "string list" | MMintToken "nat \<Rightarrow> go_time" actor mint_in | MGetStatus actor
  | MCapabilities actor | MGetState actor | MListClients actor | MGetClient actor string | MListUsers actor
  | MGetUser actor string | MListGroups actor | MGetGroup actor string | MListAudit actor | MGetAudit actor string
  | MImportPlan importlib actor import_in | MImportApply importlib actor import_in
  | MExport "document \<Rightarrow> go_error + string" actor string | MVersion string actor | MSchemaConfig json actor

text \<open>Whether an operation failed, and the state it leaves.\<close>

definition outcome :: "(go_error + 'r) \<times> app \<Rightarrow> bool \<times> app" where
  "outcome = map_prod isl id"

fun app_exec :: "system \<Rightarrow> (nat \<Rightarrow> go_time) \<Rightarrow> app_op \<Rightarrow> app \<Rightarrow> bool \<times> app" where
  "app_exec Y clk (MApply actor inp) a = outcome (Apply Y clk actor inp a)"
| "app_exec Y clk (MPlan actor inp) a = outcome (PlanChange Y clk actor inp a)"
| "app_exec Y clk (MValidate actor doc ops) a = outcome (Validate Y clk actor doc ops a)"
| "app_exec Y clk (MReset actor inp) a = outcome (ResetState Y clk actor inp a)"
| "app_exec Y clk (MSetMFA actor inp) a = outcome (SetMFA Y clk actor inp a)"
| "app_exec Y clk (MSwapVendor actor inp) a = outcome (SwapVendor Y clk actor inp a)"
| "app_exec Y clk (MSetOverage actor inp) a = outcome (SetOverage Y clk actor inp a)"
| "app_exec Y clk (MRewriteRedirect actor inp) a = outcome (RewriteRedirect Y clk actor inp a)"
| "app_exec Y clk (MEnrollTOTP rnd actor uid reason) a = outcome (EnrollTOTP clk rnd actor uid reason a)"
| "app_exec Y clk (MClearTOTP actor uid reason) a = outcome (ClearTOTP clk actor uid reason a)"
| "app_exec Y clk (MCreateSession r1 r2 actor) a = outcome (CreateOperatorSession clk r1 r2 actor a)"
| "app_exec Y clk (MGetSession actor) a = outcome (GetOperatorSession clk actor a)"
| "app_exec Y clk (MDeleteSession actor sid) a = outcome (DeleteOperatorSession clk actor sid a)"
| "app_exec Y clk (MLookupSession sid) a = (False, snd (LookupOperatorSession clk sid a))"
| "app_exec Y clk (MExpireAll actor reasons) a = outcome (ExpireAllSessions clk actor reasons a)"
| "app_exec Y clk (MListSessions actor) a = outcome (ListSessions_app clk actor a)"
| "app_exec Y clk (MExpireSession actor sid reasons) a = outcome (ExpireSession_app clk actor sid reasons a)"
| "app_exec Y clk (MPauseToken actor reasons) a = outcome (PauseToken clk actor reasons a)"
| "app_exec Y clk (MResumeToken actor reasons) a = outcome (ResumeToken clk actor reasons a)"
| "app_exec Y clk (MForceFail actor on reasons) a = outcome (ForceFail clk actor on reasons a)"
| "app_exec Y clk (MInjectError actor code reasons) a = outcome (InjectError clk actor code reasons a)"
| "app_exec Y clk (MForceConsent actor on reasons) a = outcome (ForceConsent clk actor on reasons a)"
| "app_exec Y clk (MMintToken mclk actor inp) a = outcome (MintToken (sy_env Y) clk mclk actor inp a)"
| "app_exec Y clk (MGetStatus actor) a = outcome (GetStatus clk actor a)"
| "app_exec Y clk (MCapabilities actor) a = outcome (Capabilities clk actor a)"
| "app_exec Y clk (MGetState actor) a = outcome (GetState clk actor a)"
| "app_exec Y clk (MListClients actor) a = outcome (ListClients clk actor a)"
| "app_exec Y clk (MGetClient actor i) a = outcome (GetClient clk actor i a)"
| "app_exec Y clk (MListUsers actor) a = outcome (ListUsers clk actor a)"
| "app_exec Y clk (MGetUser actor i) a = outcome (GetUser clk actor i a)"
| "app_exec Y clk (MListGroups actor) a = outcome (ListGroups clk actor a)"
| "app_exec Y clk (MGetGroup actor i) a = outcome (GetGroup clk actor i a)"
| "app_exec Y clk (MListAudit actor) a = outcome (ListAudit clk actor a)"
| "app_exec Y clk (MGetAudit actor i) a = outcome (GetAudit clk actor i a)"
| "app_exec Y clk (MImportPlan lib actor inp) a = outcome (ImportPlan Y lib clk actor inp a)"
| "app_exec Y clk (MImportApply lib actor inp) a = outcome (ImportApply Y lib clk actor inp a)"
| "app_exec Y clk (MExport render actor format) a = outcome (Export Y render clk actor format a)"
| "app_exec Y clk (MVersion info actor) a = outcome (Version info clk actor a)"
| "app_exec Y clk (MSchemaConfig schema actor) a = outcome (SchemaConfig schema clk actor a)"

text \<open>The changes of the runtime that the operations other than apply and reset make.\<close>

inductive manage_rt :: "(runtime \<Rightarrow> runtime) \<Rightarrow> bool" where
  "manage_rt (SetTOTPOverlay uid secret)"
| "manage_rt (ClearTOTPOverlay uid)"
| "manage_rt (\<lambda>r. snd (ExpireAll r))"
| "manage_rt (\<lambda>r. snd (ListSessions now r))"
| "manage_rt (\<lambda>r. snd (ExpireSession sid r))"
| "manage_rt (SetPaused v)"
| "manage_rt (SetForceFail v)"
| "manage_rt (SetForceConsent v)"
| "manage_rt (SetInject code)"

section \<open>From before to after\<close>

lemma Mint_rt: "pv_rt (snd (Mint E s clk clientID userID username scope p)) = pv_rt p"
  unfolding Mint_def Let_def by (simp split: option.split prod.split sum.split)

locale app_laws =
  fixes P :: "app \<Rightarrow> bool" and Q :: "bool \<Rightarrow> app \<Rightarrow> bool"
  assumes P_Q: "P a \<Longrightarrow> Q err a"
    and P_emit: "P a \<Longrightarrow> P (a\<lparr>ap_audit := snd (Emit now now' e (ap_audit a))\<rparr>)"
    and Q_emit: "Q False a \<Longrightarrow> Q False (a\<lparr>ap_audit := snd (Emit now now' e (ap_audit a))\<rparr>)"
    and P_lookup: "P a \<Longrightarrow> P (a\<lparr>ap_idemp := snd (lookup k fp (ap_idemp a))\<rparr>)"
    and P_store: "P a \<Longrightarrow> Q False (a\<lparr>ap_idemp := store_entry k fp p res (ap_idemp a)\<rparr>)"
    and P_warn: "P a \<Longrightarrow> pv_rt prov = app_rt a \<Longrightarrow> P (a\<lparr>ap_oidc := prov\<rparr>)"
    and P_runtime: "P a \<Longrightarrow> manage_rt f \<Longrightarrow> Q False (set_rt (f (app_rt a)) a)"
    and P_put: "P a \<Longrightarrow> Q False (a\<lparr>ap_opsess := opStore_Put s (ap_opsess a)\<rparr>)"
    and P_del: "P a \<Longrightarrow> Q False (a\<lparr>ap_opsess := opStore_Delete sid (ap_opsess a)\<rparr>)"
    and P_install: "P a \<Longrightarrow> buildCandidate Y clk inp True a = Inr cand \<Longrightarrow>
       Q False (snd (install_candidate Y clk actor capID inp fp cand a))"
    and P_reset: "P a \<Longrightarrow> Load (ap_store a) = Some snap \<Longrightarrow> loadBootstrap Y clk (sn_Generation snap + 1) a = Inr nxt \<Longrightarrow>
       validateLiveListeners (ap_requireHTTPS a) (Some snap) (Some nxt) = None \<Longrightarrow>
       Q False (snd (reset_install Y clk actor inpr fp nxt pl a))"
begin

definition holds :: "(go_error + 'r) \<times> app \<Rightarrow> bool" where
  "holds res \<longleftrightarrow> Q (isl (fst res)) (snd res)"

lemma holds_P: "P a \<Longrightarrow> holds (r, a)"
  by (simp add: holds_def P_Q)

lemma holds_Inr: "Q False a \<Longrightarrow> holds (Inr r, a)"
  by (simp add: holds_def)

lemma with_cap_holds:
  assumes "P a" "\<And>a. P a \<Longrightarrow> holds (body a)"
  shows "holds (with_cap clk actor cid a body)"
proof -
  have "P (snd (authorize_cap clk actor cid a))"
    using assms(1) P_emit
    by (auto simp: authorize_cap_def EmitDenied_def split: option.splits)
  then show ?thesis
    using assms(2) holds_P by (auto simp: with_cap_def split: prod.splits option.splits)
qed

lemma emit_ok_Q: "Q False a \<Longrightarrow> Q False (snd (emit_ok clk actor capID reason revision previous a))"
  using Q_emit by (auto simp: emit_ok_def EmitOK_def Let_def split: prod.splits) (metis snd_conv)

lemma emit_error_P: "P a \<Longrightarrow> P (emit_error clk actor capID code a)"
  by (simp add: emit_error_def P_emit)

lemma lookup_P: "P a \<Longrightarrow> lookup k fp (ap_idemp a) = (hit, c) \<Longrightarrow> P (a\<lparr>ap_idemp := c\<rparr>)"
  using P_lookup [of a k fp] by simp

lemma apply_core_holds:
  assumes "P a"
  shows "fst (apply_core Y clk actor capID inp a) = Inl e \<Longrightarrow> P (snd (apply_core Y clk actor capID inp a))"
    and "fst (apply_core Y clk actor capID inp a) = Inr r \<Longrightarrow> Q False (snd (apply_core Y clk actor capID inp a))"
  using assms lookup_P P_Q P_install
  by (auto simp: apply_core_def Let_def split: if_splits sum.splits option.splits prod.splits) (metis snd_conv)+

lemma applyLocked_holds: "P a \<Longrightarrow> holds (applyLocked Y clk actor capID inp a)"
  using apply_core_holds [of a Y clk actor capID inp] emit_error_P
  by (auto simp: applyLocked_def holds_def P_Q split: prod.splits sum.splits)

lemma replay_P:
  "P a \<Longrightarrow> P (snd (replayTyped actor capID key fpr a))"
  using lookup_P by (auto simp: replayTyped_def Let_def split: sum.splits prod.splits)

lemma with_replay_holds:
  assumes "P a" "\<And>fp a. P a \<Longrightarrow> holds (body fp a)"
  shows "holds (with_replay actor capID key fpr a body)"
  using assms(2) holds_P replay_P [OF assms(1), of actor capID key fpr]
  by (auto simp: with_replay_def split: sum.splits prod.splits option.splits)

lemma runtime_ok_holds:
  "P a \<Longrightarrow> manage_rt f \<Longrightarrow>
     holds (Inr r, snd (emit_ok clk actor capID reason revision previous (set_rt (f (app_rt a)) a)))"
  by (intro holds_Inr emit_ok_Q P_runtime)

lemma tune_holds: "P a \<Longrightarrow> manage_rt f \<Longrightarrow> holds (tune clk actor capID f fallback reasons a)"
  unfolding tune_def by (intro with_cap_holds runtime_ok_holds)

lemma list_of_holds: "P a \<Longrightarrow> holds (list_of clk actor capID f a)"
  unfolding list_of_def by (rule with_cap_holds) (auto simp: holds_P split: option.splits)

lemma get_of_holds: "P a \<Longrightarrow> holds (get_of clk actor capID kind tab f i a)"
  unfolding get_of_def by (rule with_cap_holds) (auto simp: holds_P split: option.splits)

lemma Apply_holds: "P a \<Longrightarrow> holds (Apply Y clk actor inp a)"
  unfolding Apply_def by (intro with_cap_holds applyLocked_holds)

lemma planLocked_holds: "P a \<Longrightarrow> holds (planLocked Y clk inp a)"
proof -
  assume a: "P a"
  show ?thesis
  proof (cases "fingerprintChange Y inp")
    case (Inl e)
    then show ?thesis using a by (simp add: planLocked_def holds_P)
  next
    case (Inr fp)
    obtain hit c where l: "lookup (ci_IdempotencyKey inp) fp (ap_idemp a) = (hit, c)" by fastforce
    have "P (a\<lparr>ap_idemp := c\<rparr>)" using lookup_P [OF a l] .
    then show ?thesis using Inr l P_store [of "a\<lparr>ap_idemp := c\<rparr>"]
      by (auto simp: planLocked_def Let_def holds_P holds_Inr split: sum.splits option.splits)
  qed
qed

lemma PlanChange_holds: "P a \<Longrightarrow> holds (PlanChange Y clk actor inp a)"
  unfolding PlanChange_def by (intro with_cap_holds planLocked_holds)

lemma Validate_holds: "P a \<Longrightarrow> holds (Validate Y clk actor doc ops a)"
  unfolding Validate_def by (rule with_cap_holds) (auto simp: holds_P Let_def split: option.splits)

lemma reset_core_holds:
  assumes "P a"
  shows "fst (reset_core Y clk actor inp a) = Inl e \<Longrightarrow> P (snd (reset_core Y clk actor inp a))"
    and "fst (reset_core Y clk actor inp a) = Inr r \<Longrightarrow> Q False (snd (reset_core Y clk actor inp a))"
proof -
  obtain r1 a1 where rp: "replayTyped actor ''sso.state.reset'' (ri_IdempotencyKey inp) (sy_fp_reset Y inp) a = (r1, a1)"
    by fastforce
  have a1: "P a1" using replay_P [OF assms, of actor "''sso.state.reset''" "ri_IdempotencyKey inp" "sy_fp_reset Y inp"] rp by simp
  have ins: "Q False (snd (reset_install Y clk actor inp fp nxt p a1))"
    if "Load (ap_store a1) = Some s" "loadBootstrap Y clk (sn_Generation s + 1) a1 = Inr nxt"
      "validateLiveListeners (ap_requireHTTPS a1) (Some s) (Some nxt) = None" for s nxt fp p
    using P_reset [OF a1 that] .
  show "fst (reset_core Y clk actor inp a) = Inl e \<Longrightarrow> P (snd (reset_core Y clk actor inp a))"
    using rp a1 assms
    by (auto simp: reset_core_def Let_def split: if_splits sum.splits option.splits prod.splits)
  show "fst (reset_core Y clk actor inp a) = Inr r \<Longrightarrow> Q False (snd (reset_core Y clk actor inp a))"
    using rp a1 P_Q ins
    by (auto simp: reset_core_def Let_def split: if_splits sum.splits option.splits prod.splits) (metis snd_conv)+
qed

lemma authorize_P: "P a \<Longrightarrow> P (snd (authorize_cap clk actor cid a))"
  using P_emit by (auto simp: authorize_cap_def EmitDenied_def split: option.splits)

lemma ResetState_holds: "P a \<Longrightarrow> holds (ResetState Y clk actor inp a)"
proof -
  assume a: "P a"
  obtain e a1 where au: "authorize_cap clk actor ''sso.state.reset'' a = (e, a1)" by fastforce
  then have a1: "P a1" using authorize_P [OF a, of clk actor "''sso.state.reset''"] by simp
  show ?thesis
    using au a1 reset_core_holds [OF a1, of Y clk actor inp] emit_error_P P_Q
    by (auto simp: ResetState_def with_cap_def holds_def split: option.splits sum.splits prod.splits)
qed

lemma SetMFA_holds: "P a \<Longrightarrow> holds (SetMFA Y clk actor inp a)"
  unfolding SetMFA_def
  by (rule with_cap_holds) (auto intro!: with_replay_holds applyLocked_holds simp: holds_P split: option.splits)

lemma SwapVendor_holds: "P a \<Longrightarrow> holds (SwapVendor Y clk actor inp a)"
  unfolding SwapVendor_def
  by (rule with_cap_holds) (auto intro!: with_replay_holds applyLocked_holds simp: holds_P split: option.splits)

lemma SetOverage_holds: "P a \<Longrightarrow> holds (SetOverage Y clk actor inp a)"
  unfolding SetOverage_def
  by (rule with_cap_holds) (auto intro!: with_replay_holds applyLocked_holds simp: holds_P split: option.splits)

lemma RewriteRedirect_holds: "P a \<Longrightarrow> holds (RewriteRedirect Y clk actor inp a)"
  unfolding RewriteRedirect_def
  by (rule with_cap_holds) (auto intro!: with_replay_holds applyLocked_holds simp: holds_P split: option.splits)

lemma EnrollTOTP_holds: "P a \<Longrightarrow> holds (EnrollTOTP clk rnd actor uid reason a)"
  unfolding EnrollTOTP_def
  by (rule with_cap_holds)
    (auto intro!: runtime_ok_holds manage_rt.intros simp: holds_P Let_def split: option.splits sum.splits)

lemma ClearTOTP_holds: "P a \<Longrightarrow> holds (ClearTOTP clk actor uid reason a)"
  unfolding ClearTOTP_def
  by (rule with_cap_holds) (auto intro!: runtime_ok_holds manage_rt.intros simp: holds_P split: option.splits)

lemma CreateOperatorSession_holds: "P a \<Longrightarrow> holds (CreateOperatorSession clk r1 r2 actor a)"
  unfolding CreateOperatorSession_def Let_def by (intro with_cap_holds holds_Inr emit_ok_Q P_put)

lemma DeleteOperatorSession_holds: "P a \<Longrightarrow> holds (DeleteOperatorSession clk actor sid a)"
  unfolding DeleteOperatorSession_def by (intro with_cap_holds holds_Inr emit_ok_Q P_del)

lemma LookupOperatorSession_Q: "P a \<Longrightarrow> Q False (snd (LookupOperatorSession clk sid a))"
  using P_Q P_del [of a sid]
  by (auto simp: LookupOperatorSession_def opStore_Get_def opStore_Delete_def split: option.splits)

lemma ExpireAllSessions_holds: "P a \<Longrightarrow> holds (ExpireAllSessions clk actor reasons a)"
  unfolding ExpireAllSessions_def
  by (rule with_cap_holds)
    (use runtime_ok_holds [OF _ manage_rt.intros(3)] in \<open>auto simp: ExpireAll_def\<close>)

lemma ListSessions_app_holds: "P a \<Longrightarrow> holds (ListSessions_app clk actor a)"
  unfolding ListSessions_app_def
  by (rule with_cap_holds)
    (use P_runtime [OF _ manage_rt.intros(4)] in \<open>auto simp: ListSessions_def Let_def intro: holds_Inr\<close>)

lemma ExpireSession_app_holds: "P a \<Longrightarrow> holds (ExpireSession_app clk actor sid reasons a)"
proof -
  have body: "holds (case ExpireSession sid (app_rt a) of
       (False, r) \<Rightarrow> (Inl (NotFound ''session %s'' [sid]), set_rt r a)
     | (True, r) \<Rightarrow> (Inr (), snd (emit_ok clk actor ''sso.session.expire'' (auditReason ''expire session'' reasons) [] [] (set_rt r a))))"
    if "P a" for a
  proof (cases "ExpireSession sid (app_rt a)")
    case (Pair ok r)
    show ?thesis
    proof (cases ok)
      case True
      then show ?thesis
        using runtime_ok_holds [OF that manage_rt.intros(5) [of sid], of "()" clk actor "''sso.session.expire''"] Pair by simp
    next
      case False
      then have "r = app_rt a" using Pair by (auto simp: ExpireSession_def split: option.splits)
      then have "set_rt r a = a" by (simp add: set_rt_def app_rt_def)
      with False Pair that show ?thesis by (simp add: holds_P)
    qed
  qed
  show "P a \<Longrightarrow> ?thesis" unfolding ExpireSession_app_def by (rule with_cap_holds [OF _ body])
qed

lemma emit_all_P: "P a \<Longrightarrow> P (a\<lparr>ap_audit := emit_all es (ap_audit a)\<rparr>)"
proof (induction es arbitrary: a)
  case (Cons x es)
  obtain now now' e where x: "x = (now, now', e)" by (cases x)
  show ?case using Cons.IH [OF P_emit [OF Cons.prems, of now now' e]] by (simp add: x)
qed simp

lemma with_provider_P:
  assumes "P a" "pv_rt p = app_rt a"
  shows "P (with_provider clk p a)"
  unfolding with_provider_def using emit_all_P [OF P_warn [OF assms]] by simp

lemma MintToken_holds: "P a \<Longrightarrow> holds (MintToken E clk mclk actor inp a)"
proof -
  have body: "holds (case Mint E s mclk c u n scope (ap_oidc a) of
           (Inl e, p) \<Rightarrow> (Inl (Validation ''%s'' [err_text e]), with_provider (\<lambda>i. mclk (i + 2)) p a)
         | (Inr (access, idTok), p) \<Rightarrow>
           (Inr \<lparr>mo_AccessToken = access, mo_IDToken = idTok, mo_TokenType = ''Bearer'', mo_ExpiresIn = 3600\<rparr>,
            snd (emit_ok clk actor ''sso.tunable.token.mint'' ''mint token'' [] [] (with_provider (\<lambda>i. mclk (i + 2)) p a))))"
    if "P a" for a s c u n scope
  proof -
    have "P (with_provider clk' (snd (Mint E s mclk c u n scope (ap_oidc a))) a)" for clk'
      using with_provider_P [OF that] Mint_rt by (simp add: app_rt_def)
    then show ?thesis using emit_ok_Q P_Q
      by (auto simp: holds_P intro!: holds_Inr split: prod.splits sum.splits)
  qed
  show "P a \<Longrightarrow> ?thesis"
    unfolding MintToken_def Let_def
    by (rule with_cap_holds) (auto simp: holds_P intro!: body split: sum.split)
qed

lemma planLocked_P: "P a \<Longrightarrow> planLocked Y clk inp a = (Inl e, a1) \<Longrightarrow> P a1"
  using lookup_P [of a "ci_IdempotencyKey inp"]
  by (auto simp: planLocked_def Let_def split: sum.splits option.splits prod.splits if_splits)

lemma recordRejected_P: "P a \<Longrightarrow> P (recordRejected clk actor capID e a)"
  by (simp add: recordRejected_def emit_error_P)

text \<open>A failure is recorded after it happened, so \<open>P\<close> has to hold in the state it left.\<close>

definition holds' :: "(go_error + 'r) \<times> app \<Rightarrow> bool" where
  "holds' res \<longleftrightarrow> (if isl (fst res) then P (snd res) else Q False (snd res))"

lemma holds'_P: "P a \<Longrightarrow> holds' (r, a)"
  by (simp add: holds'_def P_Q)

lemma rejecting_holds: "holds' res \<Longrightarrow> holds (rejecting clk actor capID res)"
  using recordRejected_P P_Q
  by (cases res) (auto simp: holds'_def holds_def rejecting_def split: sum.split)

lemma with_cap_holds':
  assumes "P a" "\<And>a. P a \<Longrightarrow> holds' (body a)"
  shows "holds' (with_cap clk actor cid a body)"
  using assms(2) authorize_P [OF assms(1), of clk actor cid]
  by (auto simp: with_cap_def holds'_P split: prod.splits option.splits)

lemma ImportPlan_holds: "P a \<Longrightarrow> holds (ImportPlan Y I clk actor inp a)"
proof -
  have plan: "holds' (case planLocked Y clk ch a of
           (Inl e, a1) \<Rightarrow> if CodeOf e \<noteq> CodeValidation then (Inl e, a1) else (Inr (f e), a1)
         | (Inr p, a1) \<Rightarrow> (Inr (g p), a1))" if "P a" for ch a f g
    using planLocked_P [OF that, of Y clk ch] planLocked_holds [OF that, of Y clk ch]
    by (auto simp: holds'_def holds_def P_Q split: prod.splits sum.splits)
  show "P a \<Longrightarrow> ?thesis" unfolding ImportPlan_def
    by (intro rejecting_holds with_cap_holds') (auto simp: holds'_P intro!: plan split: sum.split option.split)
qed

lemma ImportApply_holds: "P a \<Longrightarrow> holds (ImportApply Y I clk actor inp a)"
proof -
  assume a: "P a"
  obtain e a1 where au: "authorize_cap clk actor ''sso.import.apply'' a = (e, a1)" by fastforce
  then have a1: "P a1" using authorize_P [OF a, of clk actor "''sso.import.apply''"] by simp
  obtain r a2 where rp: "replayTyped actor ''sso.import.apply'' (ii_IdempotencyKey inp) (il_fingerprint I inp) a1 = (r, a2)"
    by fastforce
  have a2: "P a2"
    using replay_P [OF a1, of actor "''sso.import.apply''" "ii_IdempotencyKey inp" "il_fingerprint I inp"] rp by simp
  have app: "holds (case applyLocked Y clk actor ''sso.import.apply'' ch a2 of
       (Inl e, a3) \<Rightarrow> (Inl e, a3) | (Inr x, a3) \<Rightarrow> (Inr (f x), a3))" for ch f
    using applyLocked_holds [OF a2, of Y clk actor "''sso.import.apply''" ch]
    by (auto simp: holds_def split: prod.split sum.split)
  show ?thesis
    using a1 a2 app
    by (auto simp: ImportApply_def Let_def au rp intro!: rejecting_holds holds'_P split: option.split sum.split)
qed

lemmas query_holds = list_of_holds get_of_holds

lemma read_holds: "P a \<Longrightarrow> holds (with_cap clk actor cid a (\<lambda>a. (f a, a)))"
  by (rule with_cap_holds; simp add: holds_P)

lemma GetState_holds: "P a \<Longrightarrow> holds (GetState clk actor a)"
  unfolding GetState_def by (rule with_cap_holds) (auto simp: holds_P split: option.splits)

lemma GetAudit_holds: "P a \<Longrightarrow> holds (GetAudit clk actor i a)"
  unfolding GetAudit_def by (rule with_cap_holds) (auto simp: holds_P split: option.splits)

lemma outcome_Q: "holds res \<Longrightarrow> Q (fst (outcome res)) (snd (outcome res))"
  by (simp add: outcome_def holds_def)

text \<open>Every operation of the application leads from \<open>P\<close> to \<open>Q\<close>.\<close>

theorem app_exec_Q: "P a \<Longrightarrow> Q (fst (app_exec Y clk x a)) (snd (app_exec Y clk x a))"
  by (cases x)
    (simp_all add: LookupOperatorSession_Q outcome_Q Apply_holds PlanChange_holds Validate_holds ResetState_holds SetMFA_holds
      SwapVendor_holds SetOverage_holds RewriteRedirect_holds EnrollTOTP_holds ClearTOTP_holds
      CreateOperatorSession_holds DeleteOperatorSession_holds ExpireAllSessions_holds ListSessions_app_holds
      ExpireSession_app_holds MintToken_holds GetState_holds GetAudit_holds query_holds read_holds tune_holds manage_rt.intros
      GetOperatorSession_def PauseToken_def ResumeToken_def ForceFail_def InjectError_def ForceConsent_def
      GetStatus_def Capabilities_def ListClients_def GetClient_def ListUsers_def GetUser_def ListGroups_def
      GetGroup_def ListAudit_def ImportPlan_holds ImportApply_holds Export_def Version_def SchemaConfig_def)

end

end
