(* ===== verification/App_Props.thy ===== *)
theory App_Props
  imports App_Trace
begin

text \<open>
  What the management application guarantees: the invariant of every reachable state, the history of
  the active snapshot, atomic failures, authorisation, and the effect of a change and of a reset.
\<close>

section \<open>Parts of the installation of a snapshot\<close>

lemma app_rt_set [simp]: "app_rt (set_rt r a) = r"
  by (simp add: app_rt_def set_rt_def)

lemma set_rt_fields [simp]:
  "ap_store (set_rt r a) = ap_store a" "ap_idemp (set_rt r a) = ap_idemp a" "ap_audit (set_rt r a) = ap_audit a"
  "ap_opsess (set_rt r a) = ap_opsess a" "ap_bootstrapPath (set_rt r a) = ap_bootstrapPath a"
  "ap_requireHTTPS (set_rt r a) = ap_requireHTTPS a"
  by (simp_all add: set_rt_def)

lemma app_rt_fields [simp]:
  "app_rt (a\<lparr>ap_store := st\<rparr>) = app_rt a" "app_rt (a\<lparr>ap_idemp := c\<rparr>) = app_rt a"
  "app_rt (a\<lparr>ap_audit := r\<rparr>) = app_rt a" "app_rt (a\<lparr>ap_opsess := m\<rparr>) = app_rt a"
  "app_rt (a\<lparr>ap_oidc := p\<rparr>) = pv_rt p"
  by (simp_all add: app_rt_def)

lemma emit_ok_fields [simp]:
  "ap_store (snd (emit_ok clk actor capID reason revision previous a)) = ap_store a"
  "ap_idemp (snd (emit_ok clk actor capID reason revision previous a)) = ap_idemp a"
  "ap_opsess (snd (emit_ok clk actor capID reason revision previous a)) = ap_opsess a"
  "app_rt (snd (emit_ok clk actor capID reason revision previous a)) = app_rt a"
  "ap_audit (snd (emit_ok clk actor capID reason revision previous a))
     = snd (EmitOK (clk 2) (clk 3) actor capID reason revision previous (ap_audit a))"
  "fst (emit_ok clk actor capID reason revision previous a)
     = fst (EmitOK (clk 2) (clk 3) actor capID reason revision previous (ap_audit a))"
  by (simp_all add: emit_ok_def case_prod_unfold Let_def app_rt_def)

text \<open>The runtime after a candidate has replaced the active snapshot.\<close>

definition installed_rt :: "codec \<Rightarrow> snapshot option \<Rightarrow> snapshot \<Rightarrow> runtime \<Rightarrow> runtime" where
  "installed_rt C prev cand r = syncTOTPOverlay prev (Some cand)
     (if securityChanged C prev (Some cand) then InvalidateBefore (sn_Generation cand) r else r)"

lemma install_fields:
  fixes Y clk actor capID inp fp cand a
  defines "a' \<equiv> snd (install_candidate Y clk actor capID inp fp cand a)"
  shows "ap_store a' = snd (Swap (Some cand) (ap_store a))" "ap_opsess a' = ap_opsess a"
    "app_rt a' = installed_rt (sy_codec Y) (Load (ap_store a)) cand (app_rt a)"
    "\<exists>e. ap_audit a' = snd (Emit (clk 2) (clk 3) e (ap_audit a))"
    "\<exists>p res. ap_idemp a' = store_entry (scopedKey actor capID (ci_IdempotencyKey inp)) fp p res (ap_idemp a)"
  by (auto simp: a'_def install_candidate_def Let_def case_prod_unfold installed_rt_def EmitOK_def intro: exI)

lemma reset_fields:
  fixes Y clk actor inp fp nxt p a
  defines "a' \<equiv> snd (reset_install Y clk actor inp fp nxt p a)"
  shows "ap_store a' = SetBootstrap (Some nxt) (snd (Swap (Some nxt) (ap_store a)))" "ap_opsess a' = ap_opsess a"
    "app_rt a' = Reset (InvalidateBefore (sn_Generation nxt) (app_rt a))"
    "\<exists>e. ap_audit a' = snd (Emit (clk 2) (clk 3) e (ap_audit a))"
    "\<exists>q res. ap_idemp a' = store_entry (scopedKey actor ''sso.state.reset'' (ri_IdempotencyKey inp)) fp q res (ap_idemp a)"
  by (auto simp: a'_def reset_install_def Let_def case_prod_unfold EmitOK_def intro: exI)

lemma Swap_active [simp]: "st_active (snd (Swap (Some n) st)) = Some n"
  and Swap_previous: "st_active st = Some s \<Longrightarrow> st_previous (snd (Swap (Some n) st)) = Some s"
  and Swap_bootstrap [simp]: "st_bootstrap (snd (Swap (Some n) st)) = st_bootstrap st"
  by (simp_all add: Swap_def Let_def)

lemma buildCandidate_compiled:
  assumes "buildCandidate Y clk inp True a = Inr cand"
  obtains p doc base where "Load (ap_store a) = Some p" "sn_Canonical p = Some doc"
    "ci_ExpectedRevision inp = sn_Revision p" "sn_Revision p \<noteq> []"
    "applyOperations (sy_codec Y) 0 (ci_Operations inp) doc = Inr base"
    "Compile (sy_comp Y) (clk 4) (sn_Generation p + 1) (sn_BootstrapRevision p) base = Inr cand"
    "validateLiveListeners (ap_requireHTTPS a) (Some p) (Some cand) = None"
  using assms by (auto simp: buildCandidate_def Let_def split: option.splits if_splits)

lemma loadBootstrap_compiled:
  "loadBootstrap Y clk gen a = Inr nxt \<Longrightarrow> \<exists>boot doc. Compile (sy_comp Y) (clk 4) gen boot doc = Inr nxt"
  by (auto simp: loadBootstrap_def Let_def split: option.splits if_splits sum.splits)

section \<open>Runtime of the second factor\<close>

lemma fold_stable: "(\<And>r k. R r \<Longrightarrow> R (f r k)) \<Longrightarrow> R r \<Longrightarrow> R (foldl f r ks)"
  by (induction ks arbitrary: r) auto

lemma sync_inv: "rt_inv r \<Longrightarrow> rt_inv (syncTOTPOverlay prev cand r)"
  unfolding syncTOTPOverlay_def Let_def by (rule fold_stable) (auto simp: rt_inv_misc)

lemma sync_min: "rt_minimumGeneration (syncTOTPOverlay prev cand r) = rt_minimumGeneration r"
  unfolding syncTOTPOverlay_def Let_def
  by (rule fold_stable [where R = "\<lambda>r'. rt_minimumGeneration r' = rt_minimumGeneration r"])
    (auto simp: ClearTOTPOverlay_def ExpireIncompleteMFA_def)

lemma installed_inv: "rt_inv r \<Longrightarrow> rt_inv (installed_rt C prev cand r)"
  by (auto simp: installed_rt_def intro!: sync_inv rt_inv_misc)

lemma installed_min:
  "rt_minimumGeneration (installed_rt C prev cand r) =
     (if securityChanged C prev (Some cand) then sn_Generation cand else rt_minimumGeneration r)"
  by (simp add: installed_rt_def sync_min InvalidateBefore_def purgeProtocolLocked_def)

lemma manage_rt_inv: "manage_rt f \<Longrightarrow> rt_inv r \<Longrightarrow> rt_inv (f r) \<and> rt_minimumGeneration (f r) = rt_minimumGeneration r"
  by (induction rule: manage_rt.induct)
    (auto simp: rt_inv_misc rt_inv_take, auto simp: runtime_ops Let_def split: option.splits)

section \<open>The invariant\<close>

text \<open>
  There is an active snapshot, compiled from a well-formed document, with a positive generation that
  the runtime has not invalidated; the runtime, the idempotency cache, the audit ring and the operator
  sessions satisfy their own invariants; there is a bootstrap snapshot.
\<close>

definition ring_ok :: "ring \<Rightarrow> bool" where
  "ring_ok r \<longleftrightarrow> rg_cap r = 256 \<and> Len r \<le> 256"

definition app_inv :: "app \<Rightarrow> bool" where
  "app_inv a \<longleftrightarrow> (\<exists>s K d. Load (ap_store a) = Some s \<and> compiled_from K d s \<and> 1 \<le> sn_Generation s
       \<and> rt_minimumGeneration (app_rt a) \<le> sn_Generation s)
     \<and> Bootstrap (ap_store a) \<noteq> None \<and> rt_inv (app_rt a) \<and> idemp_inv (ap_idemp a)
     \<and> ring_ok (ap_audit a)
     \<and> gall (\<lambda>k s. os_ID s = k) (ap_opsess a)"

lemma ring_ok_Emit [simp]: "ring_ok r \<Longrightarrow> ring_ok (snd (Emit now now' e r))"
  by (simp add: ring_ok_def Emit_completed Len_def last_n_length)

lemma Load_Swap: "Load (snd (Swap (Some n) st)) = Some n"
  by (simp add: Load_def)

lemma app_inv_install:
  assumes "app_inv a" "buildCandidate Y clk inp True a = Inr cand"
  shows "app_inv (snd (install_candidate Y clk actor capID inp fp cand a))"
proof -
  obtain s where s: "Load (ap_store a) = Some s" "1 \<le> sn_Generation s" "rt_minimumGeneration (app_rt a) \<le> sn_Generation s"
    using assms(1) by (auto simp: app_inv_def)
  obtain base where c: "Compile (sy_comp Y) (clk 4) (sn_Generation s + 1) (sn_BootstrapRevision s) base = Inr cand"
    using assms(2) s(1) by (auto elim: buildCandidate_compiled)
  have gen: "sn_Generation cand = sn_Generation s + 1" using Compile_header [OF c] s(2) by auto
  have "compiled_from (sy_comp Y) (Normalize base) cand" using Compile_sound [OF c] .
  moreover note install_fields [of Y clk actor capID inp fp cand a]
  ultimately show ?thesis
    using assms(1) s gen idemp_inv_store installed_inv
    by (auto simp: app_inv_def Load_Swap installed_min Bootstrap_def)
qed

lemma app_inv_reset:
  assumes "app_inv a" "Load (ap_store a) = Some s" "loadBootstrap Y clk (sn_Generation s + 1) a = Inr nxt"
  shows "app_inv (snd (reset_install Y clk actor inp fp nxt p a))"
proof -
  have s: "1 \<le> sn_Generation s" "rt_minimumGeneration (app_rt a) \<le> sn_Generation s"
    using assms(1,2) by (auto simp: app_inv_def)
  obtain boot doc where c: "Compile (sy_comp Y) (clk 4) (sn_Generation s + 1) boot doc = Inr nxt"
    using loadBootstrap_compiled [OF assms(3)] by blast
  have gen: "sn_Generation nxt = sn_Generation s + 1" using Compile_header [OF c] s(1) by auto
  have "compiled_from (sy_comp Y) (Normalize doc) nxt" using Compile_sound [OF c] .
  moreover have "rt_minimumGeneration (Reset (InvalidateBefore g r)) = g" for g r
    by (simp add: Reset_def InvalidateBefore_def purgeProtocolLocked_def)
  moreover note reset_fields [of Y clk actor inp fp nxt p a]
  ultimately show ?thesis
    using assms(1) s gen idemp_inv_store
    by (auto simp: app_inv_def Load_Swap SetBootstrap_def Load_def Bootstrap_def rt_inv_misc)
qed

lemma app_inv_basic:
  assumes "app_inv a"
  shows "app_inv (a\<lparr>ap_audit := snd (Emit now now' e (ap_audit a))\<rparr>)"
    and "app_inv (a\<lparr>ap_idemp := snd (lookup k fp (ap_idemp a))\<rparr>)"
    and "app_inv (a\<lparr>ap_idemp := store_entry k fp p res (ap_idemp a)\<rparr>)"
    and "pv_rt prov = app_rt a \<Longrightarrow> app_inv (a\<lparr>ap_oidc := prov\<rparr>)"
    and "manage_rt f \<Longrightarrow> app_inv (set_rt (f (app_rt a)) a)"
    and "app_inv (a\<lparr>ap_opsess := opStore_Put s (ap_opsess a)\<rparr>)"
    and "app_inv (a\<lparr>ap_opsess := opStore_Delete sid (ap_opsess a)\<rparr>)"
  using assms manage_rt_inv [of f "app_rt a"]
  by (auto simp: app_inv_def idemp_inv_lookup idemp_inv_store opStore_Put_def opStore_Delete_def gall_iff)

interpretation inv: app_laws app_inv "\<lambda>_. app_inv"
  by unfold_locales (auto intro: app_inv_basic app_inv_install app_inv_reset)

section \<open>Reachable states\<close>

text \<open>What the protocol handlers do to the runtime; the other operations are those of the application.\<close>

fun protocol_op :: "rt_op \<Rightarrow> bool" where
  "protocol_op (OpPutPending now now' rid p) = (length rid = 32)"
| "protocol_op (OpGetPending now pid) = True"
| "protocol_op (OpTakePending now pid) = True"
| "protocol_op (OpPutCode now c) = True"
| "protocol_op (OpTakeCode code) = True"
| "protocol_op (OpPutRefresh now t) = True"
| "protocol_op (OpGetRefresh tok) = True"
| "protocol_op (OpTakeRefresh tok) = True"
| "protocol_op (OpRotateRefresh now old nxt) = True"
| "protocol_op (OpPutSession now rid s) = (length rid = 32)"
| "protocol_op (OpGetSession now sid) = True"
| "protocol_op (OpExpireSession sid) = True"
| "protocol_op (OpVerifyTOTP uid secret code now g) = True"
| "protocol_op OpTakeInject = True"
| "protocol_op (OpReject reason) = True"
| "protocol_op _ = False"

inductive app_reach :: "(string \<Rightarrow> string \<Rightarrow> string) \<Rightarrow> app \<Rightarrow> bool" for hmac where
  start: "InstallBootstrapFile Y clk (NewApp NewStore path) = (Inr s, a) \<Longrightarrow> app_reach hmac a"
| manage: "app_reach hmac a \<Longrightarrow> app_exec Y clk x a = (err, a') \<Longrightarrow> app_reach hmac a'"
| protocol: "app_reach hmac a \<Longrightarrow> protocol_op x \<Longrightarrow> rt_exec hmac x (app_rt a) = (res, r) \<Longrightarrow> app_reach hmac (set_rt r a)"
| warn: "app_reach hmac a \<Longrightarrow> pv_rt p = app_rt a \<Longrightarrow> app_reach hmac (a\<lparr>ap_oidc := p\<rparr>)"
| https: "app_reach hmac a \<Longrightarrow> app_reach hmac (a\<lparr>ap_requireHTTPS := v, ap_httpsBound := w\<rparr>)"

inductive_cases app_reachE: "app_reach hmac a"

lemma protocol_op_min:
  "protocol_op x \<Longrightarrow> rt_minimumGeneration (snd (rt_exec hmac x r)) = rt_minimumGeneration r"
  by (cases x) (auto simp: runtime_ops Let_def split: option.splits)

lemma protocol_op_random: "protocol_op x \<Longrightarrow> random_ok x"
  by (cases x) auto

lemma app_inv_start:
  assumes "InstallBootstrapFile Y clk (NewApp NewStore path) = (Inr s, a)"
  shows "app_inv a"
proof -
  obtain doc where c: "Compile (sy_comp Y) (clk 4) 1 [] doc = Inr s"
    and a: "a = (NewApp NewStore path)\<lparr>ap_store := snd (InstallBootstrap (Some s) NewStore)\<rparr>"
    using assms by (auto simp: InstallBootstrapFile_def NewApp_def split: sum.splits)
  have "rt_inv (SetReject True NewRuntime)" by (simp add: rt_inv_misc rt_inv_new)
  moreover have "rt_minimumGeneration (SetReject True NewRuntime) = 0" by (simp add: SetReject_def NewRuntime_def)
  ultimately show ?thesis
    using Compile_header [OF c] Compile_sound [OF c] idemp_inv_new [of 256]
    by (auto simp: a app_inv_def NewApp_def app_rt_def InstallBootstrap_def Load_Swap Bootstrap_def SetBootstrap_def
        ring_ok_def NewRing_def Len_def gall_iff)
qed

lemma app_reach_inv: "app_reach hmac a \<Longrightarrow> app_inv a"
proof (induction rule: app_reach.induct)
  case (manage a Y clk x err a')
  then show ?case using inv.app_exec_Q [of a Y clk x] by simp
next
  case (protocol a x res r)
  then have "r = snd (rt_exec hmac x (app_rt a))" by simp
  then show ?case using protocol rt_inv_exec [of "app_rt a" x hmac] protocol_op_min [of x hmac "app_rt a"] protocol_op_random [of x]
    by (auto simp: app_inv_def)
next
  case (warn a p)
  then show ?case by (auto intro: app_inv_basic)
next
  case (https a v w)
  then show ?case by (simp add: app_inv_def app_rt_def)
qed (rule app_inv_start)

section \<open>The history of the active snapshot\<close>

text \<open>The active snapshot is replaced by one of the next generation and becomes the previous one.\<close>

definition advanced :: "store \<Rightarrow> store \<Rightarrow> bool" where
  "advanced st st' \<longleftrightarrow> (\<exists>s s'. Load st = Some s \<and> Load st' = Some s' \<and> Previous st' = Some s
     \<and> sn_Generation s' = sn_Generation s + 1)"

definition at_store :: "store \<Rightarrow> app \<Rightarrow> bool" where
  "at_store st a \<longleftrightarrow> ap_store a = st \<and> (\<forall>s. Load st = Some s \<longrightarrow> 1 \<le> sn_Generation s)"

definition kept_or_advanced :: "store \<Rightarrow> bool \<Rightarrow> app \<Rightarrow> bool" where
  "kept_or_advanced st err a \<longleftrightarrow> ap_store a = st \<or> (\<not> err \<and> advanced st (ap_store a))"

lemma advanced_install:
  assumes "at_store st a" "buildCandidate Y clk inp True a = Inr cand"
  shows "advanced st (ap_store (snd (install_candidate Y clk actor capID inp fp cand a)))"
proof -
  obtain p base where p: "Load (ap_store a) = Some p"
    "Compile (sy_comp Y) (clk 4) (sn_Generation p + 1) (sn_BootstrapRevision p) base = Inr cand"
    using assms(2) by (auto elim: buildCandidate_compiled)
  have "1 \<le> sn_Generation p" using assms(1) p(1) by (simp add: at_store_def)
  then have "sn_Generation cand = sn_Generation p + 1" using Compile_header [OF p(2)] by auto
  then show ?thesis using assms(1) p(1)
    by (auto simp: advanced_def at_store_def install_fields Load_def Previous_def Swap_previous)
qed

lemma advanced_reset:
  assumes "at_store st a" "Load (ap_store a) = Some s" "loadBootstrap Y clk (sn_Generation s + 1) a = Inr nxt"
  shows "advanced st (ap_store (snd (reset_install Y clk actor inp fp nxt p a)))"
proof -
  obtain boot doc where c: "Compile (sy_comp Y) (clk 4) (sn_Generation s + 1) boot doc = Inr nxt"
    using loadBootstrap_compiled [OF assms(3)] by blast
  have "1 \<le> sn_Generation s" using assms(1,2) by (auto simp: at_store_def)
  then have "sn_Generation nxt = sn_Generation s + 1" using Compile_header [OF c] by auto
  then show ?thesis using assms(1,2)
    by (auto simp: advanced_def at_store_def reset_fields Load_def Previous_def Swap_previous SetBootstrap_def)
qed

interpretation history: app_laws "at_store st" "kept_or_advanced st" for st
  by unfold_locales (auto simp: kept_or_advanced_def at_store_def advanced_install advanced_reset
      intro: advanced_install [unfolded at_store_def] advanced_reset [unfolded at_store_def])

section \<open>Failures are atomic\<close>

text \<open>All that an operation may change, less the audit ring, the recency order of the cache and the warnings.\<close>

definition frame_of :: "app \<Rightarrow> store \<times> runtime \<times> idempEntry gmap \<times> operator_session gmap \<times> string \<times> bool \<times> bool" where
  "frame_of a = (ap_store a, app_rt a, ic_m (ap_idemp a), ap_opsess a, ap_bootstrapPath a, ap_requireHTTPS a, ap_httpsBound a)"

lemma lookup_map [simp]: "ic_m (snd (lookup k fp c)) = ic_m c"
  by (auto simp: lookup_def split: option.splits)

lemma set_rt_httpsBound [simp]: "ap_httpsBound (set_rt r a) = ap_httpsBound a"
  by (simp add: set_rt_def)

interpretation failure: app_laws "\<lambda>a. frame_of a = f" "\<lambda>err a. err \<longrightarrow> frame_of a = f" for f
  by unfold_locales (auto simp: frame_of_def)

section \<open>A sample application\<close>

definition sample_codec :: codec where
  "sample_codec = \<lparr>cd_client = (\<lambda>_. None), cd_user = (\<lambda>_. None), cd_group = (\<lambda>_. None), cd_profile = (\<lambda>_. None),
     cd_protocols = (\<lambda>_. None), cd_auth = (\<lambda>s. Some (zero_auth\<lparr>au_MFAMode := s\<rparr>)), cd_overage = (\<lambda>_. None),
     cd_listeners = (\<lambda>_. None), cd_access = (\<lambda>_. None), cd_ui = (\<lambda>_. None), cd_management = (\<lambda>_. None),
     cd_issuer = (\<lambda>_. None), cd_string = (\<lambda>_. None), ce_spec = (\<lambda>s. au_MFAMode (sp_Auth s)), ce_clients = (\<lambda>_. []), ce_users = (\<lambda>_. []),
     ce_groups = (\<lambda>_. []), ce_auth = au_MFAMode, ce_protocols = (\<lambda>_. []), ce_access = (\<lambda>s. s), ce_signing = (\<lambda>s. s),
     ce_profile = (\<lambda>_. []), ce_overage = (\<lambda>_. []), ce_client = (\<lambda>_. [])\<rparr>"

definition sample_system :: system where
  "sample_system = \<lparr>sy_env = sample_env, sy_comp = sample_comp, sy_codec = sample_codec,
     sy_fp_change = (\<lambda>inp. Inr (ci_Reason inp)), sy_fp_reset = (\<lambda>inp. Inr (ri_Reason inp)), sy_fp_mfa = (\<lambda>inp. Inr (mi_Mode inp)),
     sy_fp_vendor = (\<lambda>inp. Inr (vi_Vendor inp)), sy_fp_overage = (\<lambda>inp. Inr (oi_Reason inp)),
     sy_fp_redirect = (\<lambda>inp. Inr (di_Reason inp))\<rparr>"

definition sample_start :: "(go_error + snapshot) \<times> app" where
  "sample_start = InstallBootstrapFile sample_system (\<lambda>_. 1000) (NewApp NewStore ''/l/boot.yaml'')"

definition sample_app :: app where "sample_app = snd sample_start"

lemma sample_load: "LoadFile sample_comp ''/l/boot.yaml'' = Inr (sample_config ''never'')"
  by code_simp

lemma sample_start_app:
  "\<exists>s. sample_start = (Inr s, sample_app) \<and> Compile sample_comp 1000 1 [] (sample_config ''never'') = Inr s
     \<and> Load (ap_store sample_app) = Some s"
proof -
  obtain s where "Compile sample_comp 1000 1 [] (sample_config ''never'') = Inr s"
    using sample_compiles [of "''never''"] by blast
  then show ?thesis
    by (simp add: sample_start_def sample_app_def InstallBootstrapFile_def sample_system_def NewApp_def sample_load
        InstallBootstrap_def Load_Swap)
qed

lemma sample_reach: "app_reach hmac sample_app"
  using sample_start_app by (auto simp: sample_start_def intro: app_reach.start)

section \<open>Properties of all operations\<close>

text \<open>
  C2. Every reachable state of the application satisfies the invariant, whatever management operations
  and protocol requests have run in whatever order: there is an active snapshot that was compiled from
  a well-formed document, its generation is positive and not below the floor of the runtime (so that the
  requests it serves are never refused as stale), there is a bootstrap snapshot, and the runtime tables,
  the idempotency cache, the audit ring and the operator sessions satisfy their invariants.
\<close>
theorem app_invariant:
  assumes "app_reach hmac a"
  shows "app_inv a"
  using assms by (rule app_reach_inv)

theorem app_invariant_witness: "app_inv (snd (app_exec sample_system (\<lambda>_. 2000) (MPauseToken AdminActor []) sample_app))"
  by (rule app_invariant [OF app_reach.manage [OF sample_reach, of sample_system "\<lambda>_. 2000" "MPauseToken AdminActor []"
      "fst (app_exec sample_system (\<lambda>_. 2000) (MPauseToken AdminActor []) sample_app)"]]) simp

text \<open>A run of management operations, each with its own surroundings and clock.\<close>

fun manage_run :: "(system \<times> (nat \<Rightarrow> go_time) \<times> app_op) list \<Rightarrow> app \<Rightarrow> app" where
  "manage_run [] a = a"
| "manage_run ((Y, clk, x) # xs) a = manage_run xs (snd (app_exec Y clk x a))"

lemma step_history:
  assumes "app_inv a"
  shows "app_inv (snd (app_exec Y clk x a))"
    and "ap_store (snd (app_exec Y clk x a)) = ap_store a \<or> advanced (ap_store a) (ap_store (snd (app_exec Y clk x a)))"
proof -
  show "app_inv (snd (app_exec Y clk x a))" using inv.app_exec_Q [OF assms] .
  have "at_store (ap_store a) a" using assms by (auto simp: at_store_def app_inv_def)
  from history.app_exec_Q [OF this, of Y clk x]
  show "ap_store (snd (app_exec Y clk x a)) = ap_store a \<or> advanced (ap_store a) (ap_store (snd (app_exec Y clk x a)))"
    by (auto simp: kept_or_advanced_def)
qed

definition generation_of :: "app \<Rightarrow> int" where
  "generation_of a = (case Load (ap_store a) of None \<Rightarrow> 0 | Some s \<Rightarrow> sn_Generation s)"

lemma advanced_generation:
  "app_inv a \<Longrightarrow> advanced (ap_store a) (ap_store b) \<Longrightarrow> generation_of b = generation_of a + 1"
  by (auto simp: advanced_def generation_of_def)

lemma run_history:
  "app_inv a \<Longrightarrow> generation_of a \<le> generation_of (manage_run xs a)
     \<and> (generation_of (manage_run xs a) = generation_of a \<longrightarrow> ap_store (manage_run xs a) = ap_store a)"
proof (induction xs arbitrary: a)
  case (Cons x xs)
  obtain Y clk y where x: "x = (Y, clk, y)" by (cases x)
  let ?b = "snd (app_exec Y clk y a)"
  note b = step_history [OF Cons.prems, of Y clk y]
  from b(2) have "generation_of ?b = generation_of a \<and> ap_store ?b = ap_store a \<or> generation_of ?b = generation_of a + 1"
    using advanced_generation [OF Cons.prems] by (auto simp: generation_of_def)
  with Cons.IH [OF b(1)] show ?case by (auto simp: x)
qed simp

text \<open>
  C17. The generation identifies the active snapshot: one management operation either leaves the store as
  it is or replaces the active snapshot by one whose generation is one more, keeping the old one as the
  previous snapshot; along any run of operations from a reachable state the generation never decreases,
  and when it is the same at the end as at the start then nothing in the store has changed.
\<close>
theorem generation_identifies_snapshot:
  assumes "app_reach hmac a"
  shows "(ap_store (snd (app_exec Y clk x a)) = ap_store a \<or> advanced (ap_store a) (ap_store (snd (app_exec Y clk x a))))
    \<and> generation_of a \<le> generation_of (manage_run xs a)
    \<and> (generation_of (manage_run xs a) = generation_of a \<longrightarrow> ap_store (manage_run xs a) = ap_store a)"
  using app_reach_inv [OF assms] step_history(2) run_history by blast

theorem generation_identifies_snapshot_witness:
  "1 \<le> generation_of (manage_run [(sample_system, \<lambda>_. 2000, MPauseToken AdminActor [])] sample_app)"
proof -
  obtain s where "Compile sample_comp 1000 1 [] (sample_config ''never'') = Inr s" "Load (ap_store sample_app) = Some s"
    using sample_start_app by blast
  then have "generation_of sample_app = 1" using Compile_header by (fastforce simp: generation_of_def)
  with generation_identifies_snapshot [OF sample_reach, of sample_system "\<lambda>_. 2000" "MPauseToken AdminActor []"
      "[(sample_system, \<lambda>_. 2000, MPauseToken AdminActor [])]"]
  show ?thesis by simp
qed

section \<open>Authorisation\<close>

text \<open>The actor and the capability of an operation; looking up an operator session needs none.\<close>

fun op_cap :: "app_op \<Rightarrow> (actor \<times> string) option" where
  "op_cap (MApply actor _) = Some (actor, ''sso.change.apply'')"
| "op_cap (MPlan actor _) = Some (actor, ''sso.change.plan'')"
| "op_cap (MValidate actor _ _) = Some (actor, ''sso.state.validate'')"
| "op_cap (MReset actor _) = Some (actor, ''sso.state.reset'')"
| "op_cap (MSetMFA actor _) = Some (actor, ''sso.auth.mfa.set'')"
| "op_cap (MSwapVendor actor _) = Some (actor, ''sso.tunable.vendor.swap'')"
| "op_cap (MSetOverage actor _) = Some (actor, ''sso.tunable.overage.set'')"
| "op_cap (MRewriteRedirect actor _) = Some (actor, ''sso.tunable.redirect.rewrite'')"
| "op_cap (MEnrollTOTP _ actor _ _) = Some (actor, ''sso.user.totp.enroll'')"
| "op_cap (MClearTOTP actor _ _) = Some (actor, ''sso.user.totp.clear'')"
| "op_cap (MCreateSession _ _ actor) = Some (actor, ''sso.session.create'')"
| "op_cap (MGetSession actor) = Some (actor, ''sso.session.get'')"
| "op_cap (MDeleteSession actor _) = Some (actor, ''sso.session.delete'')"
| "op_cap (MLookupSession _) = None"
| "op_cap (MExpireAll actor _) = Some (actor, ''sso.sessions.expire_all'')"
| "op_cap (MListSessions actor) = Some (actor, ''sso.sessions.list'')"
| "op_cap (MExpireSession actor _ _) = Some (actor, ''sso.session.expire'')"
| "op_cap (MPauseToken actor _) = Some (actor, ''sso.tunable.token.pause'')"
| "op_cap (MResumeToken actor _) = Some (actor, ''sso.tunable.token.resume'')"
| "op_cap (MForceFail actor _ _) = Some (actor, ''sso.tunable.auth.force_fail'')"
| "op_cap (MInjectError actor _ _) = Some (actor, ''sso.tunable.error.inject'')"
| "op_cap (MForceConsent actor _ _) = Some (actor, ''sso.tunable.consent.force'')"
| "op_cap (MMintToken _ actor _) = Some (actor, ''sso.tunable.token.mint'')"
| "op_cap (MGetStatus actor) = Some (actor, ''sso.status.get'')"
| "op_cap (MCapabilities actor) = Some (actor, ''sso.capabilities.get'')"
| "op_cap (MGetState actor) = Some (actor, ''sso.state.get'')"
| "op_cap (MListClients actor) = Some (actor, ''sso.clients.list'')"
| "op_cap (MGetClient actor _) = Some (actor, ''sso.client.get'')"
| "op_cap (MListUsers actor) = Some (actor, ''sso.users.list'')"
| "op_cap (MGetUser actor _) = Some (actor, ''sso.user.get'')"
| "op_cap (MListGroups actor) = Some (actor, ''sso.groups.list'')"
| "op_cap (MGetGroup actor _) = Some (actor, ''sso.group.get'')"
| "op_cap (MListAudit actor) = Some (actor, ''sso.audit.list'')"
| "op_cap (MGetAudit actor _) = Some (actor, ''sso.audit.get'')"
| "op_cap (MImportPlan _ actor _) = Some (actor, ''sso.import.plan'')"
| "op_cap (MImportApply _ actor _) = Some (actor, ''sso.import.apply'')"
| "op_cap (MExport _ actor _) = Some (actor, ''sso.state.export'')"
| "op_cap (MVersion _ actor) = Some (actor, ''sso.version.get'')"
| "op_cap (MSchemaConfig _ actor) = Some (actor, ''sso.schema.config.get'')"

lemma with_cap_denied:
  "ByID cid = Some c \<Longrightarrow> Authorize actor c = Some e \<Longrightarrow>
     with_cap clk actor cid a body = (Inl e, a\<lparr>ap_audit := EmitDenied (clk 0) (clk 1) actor cid e (ap_audit a)\<rparr>)"
  by (simp add: with_cap_def authorize_cap_def)

lemma Authorize_forbidden: "Authorize actor c = Some e \<Longrightarrow> CodeOf e = CodeForbidden"
  by (auto simp: Authorize_def Forbidden_def split: if_splits)

text \<open>The identifiers of the catalogue, as values.\<close>

lemma catalog_ids: "map cp_ID catalog =
  [''sso.health.live'', ''sso.health.ready'', ''sso.version.get'', ''sso.capabilities.get'', ''sso.status.get'',
   ''sso.schema.config.get'', ''sso.state.get'', ''sso.state.validate'', ''sso.change.plan'', ''sso.change.apply'',
   ''sso.state.export'', ''sso.state.reset'', ''sso.clients.list'', ''sso.client.get'', ''sso.users.list'', ''sso.user.get'',
   ''sso.auth.mfa.set'', ''sso.user.totp.enroll'', ''sso.user.totp.clear'', ''sso.groups.list'', ''sso.group.get'',
   ''sso.sessions.list'', ''sso.session.expire'', ''sso.tunable.token.pause'', ''sso.tunable.token.resume'',
   ''sso.tunable.auth.force_fail'', ''sso.tunable.error.inject'', ''sso.tunable.vendor.swap'', ''sso.tunable.overage.set'',
   ''sso.tunable.consent.force'', ''sso.tunable.token.mint'', ''sso.session.create'', ''sso.session.get'',
   ''sso.session.delete'', ''sso.audit.list'', ''sso.audit.get'', ''sso.sessions.expire_all'', ''sso.import.plan'',
   ''sso.import.apply'', ''sso.tunable.redirect.rewrite'']"
  by code_simp

lemma ByID_catalogued: "cid \<in> set (map cp_ID catalog) \<Longrightarrow> \<exists>c. ByID cid = Some c"
  by (cases "ByID cid") (auto simp: ByID_def find_None_iff)

lemma denied_step:
  assumes "op_cap x = Some (actor, cid)" "ByID cid = Some c" "Authorize actor c = Some e"
  shows "app_exec Y clk x a = (True, a\<lparr>ap_audit := EmitDenied (clk 0) (clk 1) actor cid e (ap_audit a)\<rparr>)"
  using assms Authorize_forbidden [OF assms(3)]
  by (cases x)
    (simp_all add: outcome_def with_cap_denied Apply_def PlanChange_def Validate_def ResetState_def SetMFA_def SwapVendor_def
      SetOverage_def RewriteRedirect_def EnrollTOTP_def ClearTOTP_def CreateOperatorSession_def GetOperatorSession_def
      DeleteOperatorSession_def ExpireAllSessions_def ListSessions_app_def ExpireSession_app_def PauseToken_def
      ResumeToken_def ForceFail_def InjectError_def ForceConsent_def tune_def MintToken_def GetStatus_def
      Capabilities_def GetState_def ListClients_def GetClient_def ListUsers_def GetUser_def ListGroups_def
      GetGroup_def ListAudit_def GetAudit_def list_of_def get_of_def ImportPlan_def ImportApply_def rejecting_def
      authorize_cap_def Export_def Version_def SchemaConfig_def)

text \<open>
  C19. No operation without its scope: every operation is guarded by a capability of the catalogue, and
  when the actor lacks the scopes of that capability the operation fails as forbidden and its only effect
  is one audit event with the result denied.
\<close>
theorem unauthorised_denied:
  assumes "op_cap x = Some (actor, cid)"
  shows "(\<exists>c. ByID cid = Some c)
    \<and> (ByID cid = Some c \<and> Authorize actor c = Some e \<longrightarrow>
        app_exec Y clk x a = (True, a\<lparr>ap_audit := EmitDenied (clk 0) (clk 1) actor cid e (ap_audit a)\<rparr>)
        \<and> CodeOf e = CodeForbidden)"
proof -
  have "cid \<in> set (map cp_ID catalog)" unfolding catalog_ids using assms by (cases x) auto
  then have "\<exists>c. ByID cid = Some c" by (rule ByID_catalogued)
  then show ?thesis using denied_step [OF assms] Authorize_forbidden by blast
qed

theorem unauthorised_denied_witness:
  "fst (app_exec sample_system (\<lambda>_. 2000) (MReset zero_actor \<lparr>ri_ExpectedRevision = ''r'', ri_IdempotencyKey = [], ri_DryRun = False, ri_Reason = ''x''\<rparr>) sample_app) = True"
proof -
  let ?x = "MReset zero_actor \<lparr>ri_ExpectedRevision = ''r'', ri_IdempotencyKey = [], ri_DryRun = False, ri_Reason = ''x''\<rparr>"
  have c: "case ByID ''sso.state.reset'' of None \<Rightarrow> False | Some c \<Rightarrow> Authorize zero_actor c \<noteq> None" by code_simp
  obtain cap e where "ByID ''sso.state.reset'' = Some cap" "Authorize zero_actor cap = Some e"
    using c by (auto split: option.splits)
  then show ?thesis using unauthorised_denied [of ?x zero_actor "''sso.state.reset''" cap e] by simp
qed

text \<open>
  C18. Failures are atomic: a management operation that fails, for whatever reason, leaves the store, the
  protocol runtime, the operator sessions, the remembered results and the listener flags exactly as they
  were; only the audit log (and the recency order of the cache and the overage warnings) can differ.
\<close>
theorem failed_operation_atomic:
  assumes "app_exec Y clk x a = (True, a')"
  shows "frame_of a' = frame_of a"
  using failure.app_exec_Q [of a "frame_of a" Y clk x] assms by simp

theorem failed_operation_atomic_witness:
  "frame_of (snd (app_exec sample_system (\<lambda>_. 2000) (MPauseToken zero_actor []) sample_app)) = frame_of sample_app"
proof -
  have c: "case ByID ''sso.tunable.token.pause'' of None \<Rightarrow> False | Some c \<Rightarrow> Authorize zero_actor c \<noteq> None" by code_simp
  obtain cap e where "ByID ''sso.tunable.token.pause'' = Some cap" "Authorize zero_actor cap = Some e"
    using c by (auto split: option.splits)
  then have eq: "app_exec sample_system (\<lambda>_. 2000) (MPauseToken zero_actor []) sample_app
      = (True, sample_app\<lparr>ap_audit := EmitDenied 2000 2000 zero_actor ''sso.tunable.token.pause'' e (ap_audit sample_app)\<rparr>)"
    by (intro denied_step) simp_all
  show ?thesis unfolding eq snd_conv by (rule failed_operation_atomic [OF eq])
qed

end
