(* ===== verification/Change_Props.thy ===== *)
theory Change_Props
  imports App_Props Secret_Props
begin

text \<open>
  The effect of the operations that replace the active snapshot: applying a change, replaying it,
  what a security change revokes, reset, and the typed change of the second factor.
\<close>

section \<open>Success of an application\<close>

text \<open>The request was answered from the idempotency cache: nothing but its recency order changed.\<close>

definition replayed :: "string \<Rightarrow> string \<Rightarrow> apply_result \<Rightarrow> app \<Rightarrow> app \<Rightarrow> bool" where
  "replayed key fp res a a' \<longleftrightarrow> (\<exists>e. key \<noteq> [] \<and> gget (ic_m (ap_idemp a)) key = Some e \<and> ie_fp e = fp \<and> ie_res e = Some res)
     \<and> frame_of a' = frame_of a \<and> ap_audit a' = ap_audit a"

text \<open>The candidate was installed.\<close>

definition installed :: "system \<Rightarrow> (nat \<Rightarrow> go_time) \<Rightarrow> actor \<Rightarrow> string \<Rightarrow> change_in \<Rightarrow> apply_result \<Rightarrow> app \<Rightarrow> app \<Rightarrow> bool" where
  "installed Y clk actor capID inp res a a' \<longleftrightarrow> (\<exists>s doc base cand.
     Load (ap_store a) = Some s \<and> sn_Canonical s = Some doc \<and> ci_ExpectedRevision inp = sn_Revision s
     \<and> applyOperations (sy_codec Y) 0 (ci_Operations inp) doc = Inr base
     \<and> Compile (sy_comp Y) (clk 4) (sn_Generation s + 1) (sn_BootstrapRevision s) base = Inr cand
     \<and> Load (ap_store a') = Some cand \<and> Previous (ap_store a') = Some s \<and> Bootstrap (ap_store a') = Bootstrap (ap_store a)
     \<and> app_rt a' = installed_rt (sy_codec Y) (Some s) cand (app_rt a) \<and> ap_opsess a' = ap_opsess a
     \<and> ar_Applied res \<and> ar_Generation res = sn_Generation cand
     \<and> ar_Plan res = planFrom (sy_codec Y) (Some s) (Some cand) (ci_Operations inp)
     \<and> (0 < rg_cap (ap_audit a) \<longrightarrow> (\<exists>ev. GetEvent (ar_AuditEventID res) (ap_audit a') = Some ev
          \<and> el_Result ev = ResultOK \<and> el_Capability ev = capID \<and> el_ActorID ev = an_ID actor
          \<and> el_Revision ev = sn_Revision cand \<and> el_Previous ev = sn_Revision s)))"

lemma lookup_hit:
  "lookup key fp c = (Inr h, c') \<Longrightarrow> Option.bind h ie_res = Some res \<Longrightarrow>
     \<exists>e. key \<noteq> [] \<and> gget (ic_m c) key = Some e \<and> ie_fp e = fp \<and> ie_res e = Some res"
  by (cases h) (auto simp: lookup_def split: if_splits option.splits)

lemma frame_lookup: "lookup key fp (ap_idemp a) = (h, c) \<Longrightarrow> frame_of (a\<lparr>ap_idemp := c\<rparr>) = frame_of a"
  using lookup_map [of key fp "ap_idemp a"] by (simp add: frame_of_def)

lemma install_result:
  assumes "buildCandidate Y clk inp True a = Inr cand"
    and "install_candidate Y clk actor capID inp fp cand a = (res, a')"
  shows "installed Y clk actor capID inp res a a'
    \<and> (ci_IdempotencyKey inp \<noteq> [] \<longrightarrow> gget (ic_m (ap_idemp a')) (scopedKey actor capID (ci_IdempotencyKey inp)) =
         Some \<lparr>ie_key = scopedKey actor capID (ci_IdempotencyKey inp), ie_fp = fp, ie_plan = Some (ar_Plan res), ie_res = Some res\<rparr>)"
proof -
  obtain s doc base where b: "Load (ap_store a) = Some s" "sn_Canonical s = Some doc" "ci_ExpectedRevision inp = sn_Revision s"
    "applyOperations (sy_codec Y) 0 (ci_Operations inp) doc = Inr base"
    "Compile (sy_comp Y) (clk 4) (sn_Generation s + 1) (sn_BootstrapRevision s) base = Inr cand"
    using assms(1) by (rule buildCandidate_compiled)
  have a': "a' = snd (install_candidate Y clk actor capID inp fp cand a)"
    and res: "res = fst (install_candidate Y clk actor capID inp fp cand a)" by (simp_all add: assms(2))
  note f = install_fields [of Y clk actor capID inp fp cand a, folded a']
  have r: "ar_Applied res" "ar_Generation res = sn_Generation cand"
    "ar_Plan res = planFrom (sy_codec Y) (Some s) (Some cand) (ci_Operations inp)"
    using b(1) by (simp_all add: res install_candidate_def Let_def case_prod_unfold)
  have ev: "\<exists>ev. GetEvent (ar_AuditEventID res) (ap_audit a') = Some ev
          \<and> el_Result ev = ResultOK \<and> el_Capability ev = capID \<and> el_ActorID ev = an_ID actor
          \<and> el_Revision ev = sn_Revision cand \<and> el_Previous ev = sn_Revision s" if "0 < rg_cap (ap_audit a)"
    using emitted_event_found [OF prod.collapse [symmetric] that] b(1)
    by (simp add: a' res install_candidate_def Let_def case_prod_unfold EmitOK_def)
  have key: "scopedKey actor capID k \<noteq> []" if "k \<noteq> []" for k using that by (simp add: scopedKey_def)
  have "ci_IdempotencyKey inp \<noteq> [] \<longrightarrow> gget (ic_m (ap_idemp a')) (scopedKey actor capID (ci_IdempotencyKey inp)) =
      Some \<lparr>ie_key = scopedKey actor capID (ci_IdempotencyKey inp), ie_fp = fp, ie_plan = Some (ar_Plan res), ie_res = Some res\<rparr>"
    using key by (simp add: a' res install_candidate_def Let_def case_prod_unfold store_entry_def)
  moreover have "installed Y clk actor capID inp res a a'"
    unfolding installed_def using b f r ev
    by (auto simp: Load_Swap Previous_def Bootstrap_def Load_def Swap_previous)
  ultimately show ?thesis by blast
qed

lemma apply_core_cases:
  assumes "apply_core Y clk actor capID inp a = (Inr res, a')"
  obtains fp where "TrimSpace (ci_Reason inp) \<noteq> []" "fingerprintChange Y inp = Inr fp"
    and "replayed (scopedKey actor capID (ci_IdempotencyKey inp)) fp res a a'
      \<or> (installed Y clk actor capID inp res a a'
         \<and> (ci_IdempotencyKey inp \<noteq> [] \<longrightarrow> gget (ic_m (ap_idemp a')) (scopedKey actor capID (ci_IdempotencyKey inp)) =
             Some \<lparr>ie_key = scopedKey actor capID (ci_IdempotencyKey inp), ie_fp = fp, ie_plan = Some (ar_Plan res), ie_res = Some res\<rparr>))"
proof -
  let ?k = "scopedKey actor capID (ci_IdempotencyKey inp)"
  have reason: "TrimSpace (ci_Reason inp) \<noteq> []" using assms by (auto simp: apply_core_def split: if_splits)
  with assms obtain fp where fp: "fingerprintChange Y inp = Inr fp" by (auto simp: apply_core_def split: sum.splits)
  obtain hit c where l: "lookup ?k fp (ap_idemp a) = (hit, c)" by fastforce
  with assms reason fp obtain h where h: "hit = Inr h" by (cases hit) (simp_all add: apply_core_def)
  let ?a1 = "a\<lparr>ap_idemp := c\<rparr>"
  show thesis
  proof (cases "Option.bind h ie_res")
    case (Some r)
    then have "r = res" "a' = ?a1" using assms reason fp l h by (simp_all add: apply_core_def)
    then have "replayed ?k fp res a a'"
      using lookup_hit [of ?k fp "ap_idemp a" h c res] Some l h frame_lookup [OF l] by (auto simp: replayed_def)
    then show thesis using that reason fp by blast
  next
    case None
    then obtain cand where bc: "buildCandidate Y clk inp True ?a1 = Inr cand"
      using assms reason fp l h by (cases "buildCandidate Y clk inp True ?a1") (simp_all add: apply_core_def)
    then have "install_candidate Y clk actor capID inp fp cand ?a1 = (res, a')"
      using assms reason fp l h None by (simp add: apply_core_def case_prod_unfold Let_def) (metis prod.collapse)
    note ir = install_result [OF bc this]
    have "installed Y clk actor capID inp res a a'" using ir by (simp add: installed_def)
    with ir show thesis using that reason fp by blast
  qed
qed

lemma applyLocked_Inr: "applyLocked Y clk actor capID inp a = (Inr res, a') \<longleftrightarrow> apply_core Y clk actor capID inp a = (Inr res, a')"
  by (cases "apply_core Y clk actor capID inp a") (auto simp: applyLocked_def split: sum.splits)

lemma with_cap_Inr:
  "with_cap clk actor cid a body = (Inr r, a') \<longleftrightarrow> (\<exists>c. ByID cid = Some c \<and> Authorize actor c = None) \<and> body a = (Inr r, a')"
  by (auto simp: with_cap_def authorize_cap_def split: option.splits)

lemma with_cap_allowed:
  "ByID cid = Some c \<Longrightarrow> Authorize actor c = None \<Longrightarrow> with_cap clk actor cid a body = body a"
  by (simp add: with_cap_def authorize_cap_def)

section \<open>A sample change\<close>

definition sample_change :: change_in where
  "sample_change = \<lparr>ci_ExpectedRevision = ''sha256:6e65766572'', ci_IdempotencyKey = ''k1'', ci_Reason = ''enforce mfa'',
     ci_Operations = [update_op ''auth'' [] ''always''], ci_fingerprint = []\<rparr>"

lemma sample_operations:
  "applyOperations sample_codec 0 (ci_Operations sample_change) (sample_config ''never'') = Inr (sample_config ''always'')"
  by code_simp

lemma sample_active:
  "\<exists>s. Load (ap_store sample_app) = Some s \<and> sn_Canonical s = Some (sample_config ''never'') \<and> sn_Generation s = 1
     \<and> sn_Revision s = ''sha256:6e65766572''"
proof -
  obtain s where s: "Compile sample_comp 1000 1 [] (sample_config ''never'') = Inr s" "Load (ap_store sample_app) = Some s"
    using sample_start_app by blast
  have n: "Normalize (sample_config ''never'') = sample_config ''never''" by (simp add: sample_normal)
  have rev: "RevisionOf sample_comp (sample_config ''never'') = Inr ''sha256:6e65766572''" by code_simp
  show ?thesis using s Compile_sound [OF s(1)] Compile_header [OF s(1)] rev
    unfolding n by (auto simp: compiled_from_def Let_def)
qed

lemma sample_admin: "\<exists>c. ByID cid = Some c \<and> Authorize AdminActor c = None" if "ByID cid \<noteq> None"
  using that by (auto simp: Authorize_def AdminActor_def HasScope_def list_ex_iff ScopeAdmin_def)

lemma sample_candidate:
  assumes "ci_ExpectedRevision inp = ''sha256:6e65766572''" "ci_Operations inp = [update_op ''auth'' [] ''always'']"
  shows "\<exists>cand. buildCandidate sample_system (\<lambda>_. 2000) inp True (sample_app\<lparr>ap_idemp := c\<rparr>) = Inr cand"
proof -
  obtain s where s: "Load (ap_store sample_app) = Some s" "sn_Canonical s = Some (sample_config ''never'')" "sn_Generation s = 1"
    "sn_Revision s = ''sha256:6e65766572''" using sample_active by blast
  obtain cand where c: "Compile sample_comp 2000 2 (sn_BootstrapRevision s) (sample_config ''always'') = Inr cand"
    using sample_compiles [of "''always''" 2000 2 "sn_BootstrapRevision s"] by auto
  have "ap_requireHTTPS sample_app = False"
    using sample_start_app by (auto simp: sample_app_def sample_start_def InstallBootstrapFile_def NewApp_def split: sum.splits)
  moreover have "applyOperations sample_codec 0 [update_op ''auth'' [] ''always''] (sample_config ''never'') = Inr (sample_config ''always'')"
    using sample_operations by (simp add: sample_change_def)
  ultimately show ?thesis using s c
    by (simp add: buildCandidate_def Let_def assms sample_system_def bindE_def guardE_def validateLiveListeners_def)
qed

lemma sample_applies: "\<exists>res a'. Apply sample_system (\<lambda>_. 2000) AdminActor sample_change sample_app = (Inr res, a')"
proof -
  have "ByID ''sso.change.apply'' \<noteq> None" by code_simp
  then obtain cap where cap: "ByID ''sso.change.apply'' = Some cap" "Authorize AdminActor cap = None" using sample_admin by blast
  have idem: "ap_idemp sample_app = newIdemp 256"
    using sample_start_app by (auto simp: sample_app_def sample_start_def InstallBootstrapFile_def NewApp_def split: sum.splits)
  have lk: "lookup k fp (newIdemp 256) = (Inr None, newIdemp 256)" for k fp by (simp add: lookup_def newIdemp_def)
  obtain cand where "buildCandidate sample_system (\<lambda>_. 2000) sample_change True (sample_app\<lparr>ap_idemp := newIdemp 256\<rparr>) = Inr cand"
    using sample_candidate [of sample_change] by (auto simp: sample_change_def)
  moreover have "TrimSpace ''enforce mfa'' \<noteq> []" by code_simp
  ultimately show ?thesis
    unfolding Apply_def with_cap_allowed [OF cap]
    by (simp add: applyLocked_Inr apply_core_def fingerprintChange_def idem lk case_prod_unfold Let_def
        sample_change_def [THEN arg_cong [where f = ci_fingerprint]] sample_change_def [THEN arg_cong [where f = ci_Reason]]
        sample_system_def [THEN arg_cong [where f = sy_fp_change]])
qed

lemma sample_applied:
  "\<exists>res a'. Apply sample_system (\<lambda>_. 2000) AdminActor sample_change sample_app = (Inr res, a')
     \<and> installed sample_system (\<lambda>_. 2000) AdminActor ''sso.change.apply'' sample_change res sample_app a'"
proof -
  obtain res a' where ap: "Apply sample_system (\<lambda>_. 2000) AdminActor sample_change sample_app = (Inr res, a')"
    using sample_applies by blast
  have "ap_idemp sample_app = newIdemp 256"
    using sample_start_app by (auto simp: sample_app_def sample_start_def InstallBootstrapFile_def NewApp_def split: sum.splits)
  then have no: "\<not> replayed k fp res sample_app a'" for k fp by (simp add: replayed_def newIdemp_def)
  have "apply_core sample_system (\<lambda>_. 2000) AdminActor ''sso.change.apply'' sample_change sample_app = (Inr res, a')"
    using ap by (simp add: Apply_def with_cap_Inr applyLocked_Inr)
  then have "installed sample_system (\<lambda>_. 2000) AdminActor ''sso.change.apply'' sample_change res sample_app a'"
    by (rule apply_core_cases) (use no in blast)
  with ap show ?thesis by blast
qed

section \<open>Properties\<close>

text \<open>
  C9. Applying a change: it succeeds only for an authorised actor with a reason, and then either the
  request was answered from the idempotency cache and nothing else changed, or the expected revision was
  that of the active snapshot and the operations were applied to its canonical document, the result was
  compiled as the next generation and is now active with the old snapshot as the previous one, the runtime
  was purged as the change requires, and an audit event with the old and the new revision can be read back
  under the returned identifier.
\<close>
theorem apply_effect:
  assumes "Apply Y clk actor inp a = (Inr res, a')"
  shows "(\<exists>c. ByID ''sso.change.apply'' = Some c \<and> Authorize actor c = None) \<and> TrimSpace (ci_Reason inp) \<noteq> []
    \<and> (\<exists>fp. fingerprintChange Y inp = Inr fp \<and>
          (replayed (scopedKey actor ''sso.change.apply'' (ci_IdempotencyKey inp)) fp res a a'
           \<or> installed Y clk actor ''sso.change.apply'' inp res a a'))"
proof -
  have core: "apply_core Y clk actor ''sso.change.apply'' inp a = (Inr res, a')"
    and auth: "\<exists>c. ByID ''sso.change.apply'' = Some c \<and> Authorize actor c = None"
    using assms by (simp_all add: Apply_def with_cap_Inr applyLocked_Inr)
  from core show ?thesis by (rule apply_core_cases) (use auth in blast)
qed

theorem apply_effect_witness:
  "\<exists>res a'. Apply sample_system (\<lambda>_. 2000) AdminActor sample_change sample_app = (Inr res, a')
     \<and> installed sample_system (\<lambda>_. 2000) AdminActor ''sso.change.apply'' sample_change res sample_app a'"
proof -
  obtain res a' where ap: "Apply sample_system (\<lambda>_. 2000) AdminActor sample_change sample_app = (Inr res, a')"
    using sample_applies by blast
  have "ap_idemp sample_app = newIdemp 256"
    using sample_start_app by (auto simp: sample_app_def sample_start_def InstallBootstrapFile_def NewApp_def split: sum.splits)
  then have "\<not> replayed k fp res sample_app a'" for k fp by (simp add: replayed_def newIdemp_def)
  with apply_effect [OF ap] ap show ?thesis by blast
qed

lemma replay_again:
  assumes "gget (ic_m (ap_idemp a)) (scopedKey actor capID (ci_IdempotencyKey inp)) = Some e" "ie_fp e = fp" "ie_res e = Some res"
    and "TrimSpace (ci_Reason inp) \<noteq> []" "fingerprintChange Y inp = Inr fp" "ci_IdempotencyKey inp \<noteq> []"
  shows "\<exists>a'. apply_core Y clk actor capID inp a = (Inr res, a') \<and> frame_of a' = frame_of a \<and> ap_audit a' = ap_audit a"
proof -
  let ?k = "scopedKey actor capID (ci_IdempotencyKey inp)"
  have "?k \<noteq> []" using assms(6) by (simp add: scopedKey_def)
  then obtain c where l: "lookup ?k fp (ap_idemp a) = (Inr (Some e), c)"
    using assms(1,2) by (simp add: lookup_def)
  then show ?thesis using assms frame_lookup [OF l] by (simp add: apply_core_def)
qed

text \<open>
  Replay of an applied change: when a change with an idempotency key has succeeded, sending the same
  request again returns the same result and changes neither the store nor the runtime nor the sessions nor
  the audit log, even though the expected revision of the request is by then out of date.
\<close>
theorem apply_replay:
  assumes "Apply Y clk actor inp a = (Inr res, a')" "ci_IdempotencyKey inp \<noteq> []"
    and "fingerprintChange Y' inp = fingerprintChange Y inp"
  shows "\<exists>a''. Apply Y' clk' actor inp a' = (Inr res, a'') \<and> frame_of a'' = frame_of a' \<and> ap_audit a'' = ap_audit a'"
proof -
  let ?cap = "''sso.change.apply''"
  have core: "apply_core Y clk actor ?cap inp a = (Inr res, a')"
    using assms(1) by (simp add: Apply_def with_cap_Inr applyLocked_Inr)
  obtain cp where cp: "ByID ?cap = Some cp" "Authorize actor cp = None"
    using assms(1) by (auto simp: Apply_def with_cap_Inr)
  from core obtain fp where fp: "TrimSpace (ci_Reason inp) \<noteq> []" "fingerprintChange Y inp = Inr fp"
    and e: "\<exists>e. gget (ic_m (ap_idemp a')) (scopedKey actor ?cap (ci_IdempotencyKey inp)) = Some e \<and> ie_fp e = fp \<and> ie_res e = Some res"
    by (rule apply_core_cases) (auto simp: replayed_def frame_of_def assms(2))
  then show ?thesis
    unfolding Apply_def with_cap_allowed [OF cp] applyLocked_Inr
    using replay_again [of a' actor ?cap inp _ fp res Y' clk'] assms(2,3) by auto
qed

theorem apply_replay_witness:
  "\<exists>res a' a''. Apply sample_system (\<lambda>_. 2000) AdminActor sample_change sample_app = (Inr res, a')
     \<and> Apply sample_system (\<lambda>_. 3000) AdminActor sample_change a' = (Inr res, a'') \<and> frame_of a'' = frame_of a'"
proof -
  obtain res a' where ap: "Apply sample_system (\<lambda>_. 2000) AdminActor sample_change sample_app = (Inr res, a')"
    using sample_applies by blast
  have "ci_IdempotencyKey sample_change \<noteq> []" by (simp add: sample_change_def)
  from apply_replay [OF ap this refl, of "\<lambda>_. 3000"] ap show ?thesis by blast
qed

section \<open>Revocation\<close>

lemma SecurityEqual_refl: "SecurityEqual (Some s) (Some s)"
  by (auto simp: SecurityEqual_def maps_Equal_def list_all_iff)

lemma securityChanged_refl: "\<not> securityChanged C (Some s) (Some s)"
  by (auto simp: securityChanged_def vendorChanged_def Let_def SecurityEqual_refl split: option.splits)

text \<open>No pending request, code, refresh handle or session is left.\<close>

definition protocol_empty :: "runtime \<Rightarrow> bool" where
  "protocol_empty r \<longleftrightarrow> (\<forall>k. gget (rt_pending r) k = None \<and> gget (rt_codes r) k = None \<and> gget (rt_refresh r) k = None
     \<and> gget (rt_sessions r) k = None)"

lemma protocol_empty_invalidate: "protocol_empty (InvalidateBefore g r)"
  by (simp add: protocol_empty_def InvalidateBefore_def purgeProtocolLocked_def)

lemma protocol_empty_sync: "protocol_empty r \<Longrightarrow> protocol_empty (syncTOTPOverlay prev cand r)"
  unfolding syncTOTPOverlay_def Let_def
  by (rule fold_stable) (auto simp: protocol_empty_def ClearTOTPOverlay_def ExpireIncompleteMFA_def)

text \<open>
  What the sessions and grants of the protocols depend on: the secrets of the snapshot, as functions of the user and
  client ids, and of its document the vendor, the issuer, and the encodings of the users, the clients, the
  authentication settings, the protocols and the references of the management token and the signing key.
\<close>

definition security_settings ::
  "codec \<Rightarrow> spec \<Rightarrow> string \<times> string \<times> string \<times> string \<times> string \<times> string \<times> string \<times> string" where
  "security_settings C p = (pf_Vendor (sp_Profile p), sp_Issuer p, ce_users C (sp_Users p), ce_clients C (sp_Clients p),
     ce_auth C (sp_Auth p), ce_protocols C (sp_Protocols p), ce_access C (sp_AccessTokenRef p), ce_signing C (sp_SigningKeyRef p))"

definition same_security :: "codec \<Rightarrow> snapshot \<Rightarrow> document \<Rightarrow> snapshot \<Rightarrow> document \<Rightarrow> bool" where
  "same_security C s b cand d \<longleftrightarrow> security_view s = security_view cand
     \<and> security_settings C (dc_Spec b) = security_settings C (dc_Spec d)"

lemma compiled_secrets:
  assumes "compiled_from K d s"
  shows "\<forall>k. gget (sn_ClientSecrets s) k \<noteq> Some []"
proof (intro allI notI)
  fix k
  assume k: "gget (sn_ClientSecrets s) k = Some []"
  have other: "k \<in> client_key ` set (sp_Clients (dc_Spec d))"
    using assms k unfolding compiled_from_def Let_def by (metis option.distinct(1))
  then obtain c where c: "c \<in> set (sp_Clients (dc_Spec d))" "k = client_key c" by blast
  have "if cl_SecretRef c = [] then gget (sn_ClientSecrets s) (client_key c) = None
      else (\<exists>sec. sec \<noteq> [] \<and> client_secret K c = Some sec \<and> gget (sn_ClientSecrets s) (client_key c) = Some sec)"
    using assms c(1) unfolding compiled_from_def Let_def by blast
  with k c(2) show False by (auto split: if_splits)
qed

lemma securityChanged_exact:
  assumes "sn_Canonical s = Some b" "sn_Canonical cand = Some d"
    and "\<forall>k. gget (sn_ClientSecrets s) k \<noteq> Some []" "\<forall>k. gget (sn_ClientSecrets cand) k \<noteq> Some []"
  shows "securityChanged C (Some s) (Some cand) \<longleftrightarrow> \<not> same_security C s b cand d"
proof -
  have "SecurityEqual (Some s) (Some cand) \<longleftrightarrow> security_view s = security_view cand"
    by (rule security_equal_exact [OF assms(3,4)])
  then show ?thesis using assms(1,2)
    by (auto simp: securityChanged_def vendorChanged_def same_security_def security_settings_def Let_def)
qed

text \<open>What the second factor alone revokes: grants and sessions without it, when it becomes mandatory.\<close>

definition protocol_tables :: "runtime \<Rightarrow> pending gmap \<times> authcode gmap \<times> refresh gmap \<times> loginsession gmap" where
  "protocol_tables r = (rt_pending r, rt_codes r, rt_refresh r, rt_sessions r)"

definition becomes_mandatory :: "document \<Rightarrow> document \<Rightarrow> bool" where
  "becomes_mandatory b d \<longleftrightarrow> au_MFAMode (sp_Auth (dc_Spec d)) = ''always'' \<and> au_MFAMode (sp_Auth (dc_Spec b)) \<noteq> ''always''"

lemma sync_kept:
  assumes "sn_Canonical s = Some b" "sn_Canonical cand = Some d" "\<not> becomes_mandatory b d"
  shows "protocol_tables (syncTOTPOverlay (Some s) (Some cand) r) = protocol_tables r"
proof -
  have "\<not> (mode_of (Some cand) = ''always'' \<and> mode_of (Some s) \<noteq> ''always'')"
    using assms by (simp add: becomes_mandatory_def mode_of_def canonical_of_def)
  then show ?thesis unfolding syncTOTPOverlay_def Let_def
    by (intro fold_stable [where R = "\<lambda>r'. protocol_tables r' = protocol_tables r"])
      (auto simp: protocol_tables_def ClearTOTPOverlay_def)
qed

lemma applied_runtime:
  assumes "Apply Y clk actor inp a = (Inr res, a')" "app_inv a" "Load (ap_store a) = Some s" "Load (ap_store a') = Some cand"
  shows "((cand = s \<and> app_rt a' = app_rt a) \<or> app_rt a' = installed_rt (sy_codec Y) (Some s) cand (app_rt a))
    \<and> (\<forall>k. gget (sn_ClientSecrets s) k \<noteq> Some []) \<and> (\<forall>k. gget (sn_ClientSecrets cand) k \<noteq> Some [])"
proof -
  have "apply_core Y clk actor ''sso.change.apply'' inp a = (Inr res, a')"
    using assms(1) by (simp add: Apply_def with_cap_Inr applyLocked_Inr)
  then consider fp where "replayed (scopedKey actor ''sso.change.apply'' (ci_IdempotencyKey inp)) fp res a a'"
    | "installed Y clk actor ''sso.change.apply'' inp res a a'" by (blast elim: apply_core_cases)
  moreover obtain K e where "compiled_from K e s" using assms(2,3) by (auto simp: app_inv_def)
  then have old: "\<forall>k. gget (sn_ClientSecrets s) k \<noteq> Some []" by (rule compiled_secrets)
  ultimately show ?thesis
  proof cases
    case 1
    then have "cand = s" "app_rt a' = app_rt a" using assms(3,4) by (auto simp: replayed_def frame_of_def)
    then show ?thesis using old by simp
  next
    case 2
    then obtain base where "Compile (sy_comp Y) (clk 4) (sn_Generation s + 1) (sn_BootstrapRevision s) base = Inr cand"
      and rt: "app_rt a' = installed_rt (sy_codec Y) (Some s) cand (app_rt a)"
      using assms(3,4) by (auto simp: installed_def)
    from compiled_secrets [OF Compile_sound [OF this(1)]] rt old show ?thesis by simp
  qed
qed

definition revoked :: "int \<Rightarrow> runtime \<Rightarrow> bool" where
  "revoked g r \<longleftrightarrow> protocol_empty r \<and> rt_minimumGeneration r = g"

lemma installed_revoked:
  "securityChanged C prev (Some cand) \<Longrightarrow> revoked (sn_Generation cand) (installed_rt C prev cand r)"
  by (simp add: revoked_def installed_min) (simp add: installed_rt_def protocol_empty_sync protocol_empty_invalidate)

text \<open>
  C20. A security change revokes, and nothing else does: when a change has been applied and the new snapshot differs
  from the old one in a password, a TOTP seed, a client secret, the signing key, the management token, the vendor, the
  issuer, the users, the clients, the authentication settings, the protocols or a reference of one of the two keys,
  then no pending request, code, refresh handle or session is left, the floor of the runtime is the new generation,
  and an authorization code, a refresh handle or a session that a request still running on an older snapshot tries to
  store is refused. When it differs in none of these, the floor stays, and every pending request, code, refresh
  handle and session is kept, unless the mode of the second factor has become mandatory.
\<close>
theorem security_change_revokes:
  assumes "Apply Y clk actor inp a = (Inr res, a')" "app_inv a"
    and "Load (ap_store a) = Some s" "sn_Canonical s = Some b" "Load (ap_store a') = Some cand" "sn_Canonical cand = Some d"
  shows "(\<not> same_security (sy_codec Y) s b cand d \<longrightarrow>
      protocol_empty (app_rt a') \<and> rt_minimumGeneration (app_rt a') = sn_Generation cand
      \<and> (0 < g \<and> g < sn_Generation cand \<longrightarrow>
          fst (PutCode now (code\<lparr>ac_Generation := g\<rparr>) (app_rt a')) = False
          \<and> fst (PutRefresh now (handle\<lparr>rf_Generation := g\<rparr>) (app_rt a')) = False
          \<and> fst (PutSession now rid (sess\<lparr>ss_Generation := g\<rparr>) (app_rt a')) = zero_session))
    \<and> (same_security (sy_codec Y) s b cand d \<longrightarrow>
      rt_minimumGeneration (app_rt a') = rt_minimumGeneration (app_rt a)
      \<and> (becomes_mandatory b d \<or> protocol_tables (app_rt a') = protocol_tables (app_rt a)))"
proof -
  let ?C = "sy_codec Y"
  note rt = applied_runtime [OF assms(1-3,5)]
  then have exact: "securityChanged ?C (Some s) (Some cand) \<longleftrightarrow> \<not> same_security ?C s b cand d"
    using securityChanged_exact [OF assms(4,6)] by blast
  have "revoked (sn_Generation cand) (app_rt a')" if "\<not> same_security ?C s b cand d"
    using rt that exact securityChanged_refl installed_revoked by metis
  moreover have "app_rt a' = app_rt a \<or> app_rt a' = syncTOTPOverlay (Some s) (Some cand) (app_rt a)"
    if "same_security ?C s b cand d" using rt that exact by (auto simp: installed_rt_def)
  moreover have "becomes_mandatory b d \<or> protocol_tables (syncTOTPOverlay (Some s) (Some cand) (app_rt a)) = protocol_tables (app_rt a)"
    using sync_kept [OF assms(4,6)] by blast
  ultimately show ?thesis using sync_min
    by (auto simp: revoked_def stale_generation_def PutCode_def PutRefresh_def PutSession_def)
qed

theorem security_change_revokes_witness:
  "\<exists>res a' cand. Apply sample_system (\<lambda>_. 2000) AdminActor sample_change sample_app = (Inr res, a')
     \<and> Load (ap_store a') = Some cand \<and> sn_Generation cand = 2 \<and> protocol_empty (app_rt a')"
proof -
  obtain res a' where ap: "Apply sample_system (\<lambda>_. 2000) AdminActor sample_change sample_app = (Inr res, a')"
    and "installed sample_system (\<lambda>_. 2000) AdminActor ''sso.change.apply'' sample_change res sample_app a'"
    using sample_applied by blast
  then obtain s doc base cand where i: "Load (ap_store sample_app) = Some s" "sn_Canonical s = Some doc"
      "applyOperations sample_codec 0 (ci_Operations sample_change) doc = Inr base"
      "Compile sample_comp 2000 (sn_Generation s + 1) (sn_BootstrapRevision s) base = Inr cand"
      "Load (ap_store a') = Some cand"
    by (auto simp: installed_def sample_system_def)
  have s: "doc = sample_config ''never''" "sn_Generation s = 1" using sample_active i(1,2) by auto
  then have b: "base = sample_config ''always''" using i(3) sample_operations by simp
  have "sn_Canonical cand = Some (sample_config ''always'')" "sn_Generation cand = 2"
    using Compile_sound [OF i(4)] Compile_header [OF i(4)] s(2) sample_normal [of "''always''"] b
    by (auto simp: compiled_from_def Let_def)
  moreover have "ce_auth sample_codec (sp_Auth (dc_Spec (sample_config ''never''))) \<noteq> ce_auth sample_codec (sp_Auth (dc_Spec (sample_config ''always'')))"
    by code_simp
  ultimately have "\<not> same_security (sy_codec sample_system) s (sample_config ''never'') cand (sample_config ''always'')"
    by (simp add: same_security_def security_settings_def sample_system_def)
  with security_change_revokes [OF ap app_reach_inv [OF sample_reach] i(1) _ i(5), of "sample_config ''never''" "sample_config ''always''"]
  show ?thesis using ap i(2,5) s(1) \<open>sn_Canonical cand = Some (sample_config ''always'')\<close> \<open>sn_Generation cand = 2\<close> by blast
qed

section \<open>Reset\<close>

text \<open>A runtime as it was when the process started, but for the floor of generations and the callback.\<close>

definition pristine :: "runtime \<Rightarrow> bool" where
  "pristine r \<longleftrightarrow> protocol_empty r \<and> (\<forall>u. GetTOTPOverlay u r = None \<and> gget (rt_totpLastStep r) u = None)
     \<and> \<not> rt_paused r \<and> \<not> rt_forceFail r \<and> \<not> rt_forceConsent r \<and> rt_inject r = []"

lemma pristine_reset: "pristine (Reset (InvalidateBefore g r))"
  by (simp add: pristine_def protocol_empty_def Reset_def InvalidateBefore_def purgeProtocolLocked_def GetTOTPOverlay_def)

lemma replayTyped_frame:
  "replayTyped actor capID key fpr a = (r, a1) \<Longrightarrow> frame_of a1 = frame_of a \<and> ap_audit a1 = ap_audit a"
  using frame_lookup by (auto simp: replayTyped_def case_prod_unfold Let_def split: sum.splits) (metis frame_lookup prod.collapse)+

lemma replayTyped_hit:
  "replayTyped actor capID key fpr a = (Inr (Some res, fp), a1) \<Longrightarrow>
     fpr = Inr fp \<and> replayed (scopedKey actor capID key) fp res a a1"
  using lookup_hit frame_lookup
  by (auto simp: replayTyped_def replayed_def case_prod_unfold Let_def split: sum.splits) (metis frame_lookup lookup_hit prod.collapse)+

lemma ResetState_Inr:
  "ResetState Y clk actor inp a = (Inr res, a') \<longleftrightarrow>
     with_cap clk actor ''sso.state.reset'' a (reset_core Y clk actor inp) = (Inr res, a')"
  by (cases "with_cap clk actor ''sso.state.reset'' a (reset_core Y clk actor inp)")
    (auto simp: ResetState_def split: sum.splits)

lemma reset_core_cases:
  assumes "reset_core Y clk actor inp a = (Inr res, a')"
  obtains (replay) fp where "replayed (scopedKey actor ''sso.state.reset'' (ri_IdempotencyKey inp)) fp res a a'"
  | (dry) "ri_DryRun inp" "\<not> ar_Applied res" "frame_of a' = frame_of a"
  | (reset) s nxt fp p a1 where "\<not> ri_DryRun inp" "Load (ap_store a) = Some s" "ri_ExpectedRevision inp = sn_Revision s"
      "frame_of a1 = frame_of a" "ap_audit a1 = ap_audit a"
      "loadBootstrap Y clk (sn_Generation s + 1) a1 = Inr nxt" "reset_install Y clk actor inp fp nxt p a1 = (res, a')"
proof -
  obtain r a1 where rp: "replayTyped actor ''sso.state.reset'' (ri_IdempotencyKey inp) (sy_fp_reset Y inp) a = (r, a1)" by fastforce
  note fr = replayTyped_frame [OF rp]
  from assms rp obtain hit fp where r: "r = Inr (hit, fp)" by (cases r) (auto simp: reset_core_def split: if_splits)
  show thesis
  proof (cases hit)
    case (Some x)
    then have "x = res" "a' = a1" using assms rp r by (auto simp: reset_core_def split: if_splits)
    then show thesis using replay replayTyped_hit rp r Some by blast
  next
    case None
    from assms rp r None obtain s where s: "Load (ap_store a1) = Some s" "ri_ExpectedRevision inp = sn_Revision s"
      by (auto simp: reset_core_def Let_def split: if_splits option.splits)
    then obtain nxt where n: "loadBootstrap Y clk (sn_Generation s + 1) a1 = Inr nxt"
      using assms rp r None by (cases "loadBootstrap Y clk (sn_Generation s + 1) a1") (auto simp: reset_core_def Let_def split: if_splits)
    show thesis
    proof (cases "ri_DryRun inp")
      case True
      then show thesis using assms rp r None s n fr
        by (intro dry) (auto simp: reset_core_def Let_def split: if_splits option.splits)
    next
      case False
      have "reset_install Y clk actor inp fp nxt (planFrom (sy_codec Y) (Some s) (Some nxt) []) a1 = (res, a')"
        using assms rp r None s n False
        by (auto simp: reset_core_def Let_def case_prod_unfold split: if_splits option.splits)
      moreover have "Load (ap_store a) = Some s" using fr s(1) by (auto simp: frame_of_def)
      ultimately show thesis using reset [OF False _ s(2) _ _ n] fr by blast
    qed
  qed
qed

text \<open>
  C21. Reset: a reset that succeeds was answered from the cache, or was a dry run and changed nothing, or
  it restored the bootstrap configuration: the document of the bootstrap file (or of the bootstrap
  snapshot when there is no file) is compiled as the next generation and is both the active and the
  bootstrap snapshot, and the runtime is as at the start: no pending request, code, handle, session,
  TOTP overlay or replay record, and every tunable off.
\<close>
theorem reset_effect:
  assumes "ResetState Y clk actor inp a = (Inr res, a')"
  shows "(\<exists>fp. replayed (scopedKey actor ''sso.state.reset'' (ri_IdempotencyKey inp)) fp res a a')
    \<or> (ri_DryRun inp \<and> \<not> ar_Applied res \<and> frame_of a' = frame_of a)
    \<or> (\<exists>s nxt boot doc. \<not> ri_DryRun inp \<and> ar_Applied res \<and> Load (ap_store a) = Some s \<and> ri_ExpectedRevision inp = sn_Revision s
        \<and> Compile (sy_comp Y) (clk 4) (sn_Generation s + 1) boot doc = Inr nxt
        \<and> (if ap_bootstrapPath a \<noteq> [] then boot = [] \<and> LoadFile (sy_comp Y) (ap_bootstrapPath a) = Inr doc
           else (\<exists>b. Bootstrap (ap_store a) = Some b \<and> sn_Canonical b = Some doc \<and> boot = sn_Revision b))
        \<and> Load (ap_store a') = Some nxt \<and> Bootstrap (ap_store a') = Some nxt \<and> Previous (ap_store a') = Some s
        \<and> pristine (app_rt a') \<and> rt_minimumGeneration (app_rt a') = sn_Generation nxt)"
proof -
  have "reset_core Y clk actor inp a = (Inr res, a')"
    using assms by (simp add: ResetState_Inr with_cap_Inr)
  then show ?thesis
  proof (cases rule: reset_core_cases)
    case (reset s nxt fp p a1)
    have fr: "ap_store a1 = ap_store a" "ap_bootstrapPath a1 = ap_bootstrapPath a" "app_rt a1 = app_rt a"
      using reset(4) by (simp_all add: frame_of_def)
    have a': "a' = snd (reset_install Y clk actor inp fp nxt p a1)" and res: "res = fst (reset_install Y clk actor inp fp nxt p a1)"
      by (simp_all add: reset(7))
    obtain boot doc where c: "Compile (sy_comp Y) (clk 4) (sn_Generation s + 1) boot doc = Inr nxt"
      "if ap_bootstrapPath a \<noteq> [] then boot = [] \<and> LoadFile (sy_comp Y) (ap_bootstrapPath a) = Inr doc
           else (\<exists>b. Bootstrap (ap_store a) = Some b \<and> sn_Canonical b = Some doc \<and> boot = sn_Revision b)"
      using reset(6) fr by (auto simp: loadBootstrap_def Let_def split: if_splits option.splits sum.splits)
    have "ar_Applied res" by (simp add: res reset_install_def Let_def case_prod_unfold)
    moreover have "rt_minimumGeneration (app_rt a') = sn_Generation nxt" "pristine (app_rt a')"
      by (simp_all add: a' reset_fields pristine_reset, simp add: Reset_def InvalidateBefore_def purgeProtocolLocked_def)
    moreover have "Load (ap_store a') = Some nxt" "Bootstrap (ap_store a') = Some nxt" "Previous (ap_store a') = Some s"
      using reset(2) fr by (simp_all add: a' reset_fields Load_def Bootstrap_def Previous_def SetBootstrap_def Swap_previous)
    ultimately show ?thesis using reset(1,2,3) c by blast
  qed blast+
qed

definition sample_reset :: reset_in where
  "sample_reset = \<lparr>ri_ExpectedRevision = ''sha256:6e65766572'', ri_IdempotencyKey = [], ri_DryRun = False, ri_Reason = ''clean''\<rparr>"

lemma sample_fields: "ap_bootstrapPath sample_app = ''/l/boot.yaml''" "ap_requireHTTPS sample_app = False"
  using sample_start_app
  by (auto simp: sample_app_def sample_start_def InstallBootstrapFile_def NewApp_def split: sum.splits)

lemma sample_resets: "\<exists>res a'. ResetState sample_system (\<lambda>_. 2000) AdminActor sample_reset sample_app = (Inr res, a') \<and> ar_Applied res"
proof -
  have "ByID ''sso.state.reset'' \<noteq> None" by code_simp
  then obtain cap where cap: "ByID ''sso.state.reset'' = Some cap" "Authorize AdminActor cap = None" using sample_admin by blast
  obtain s where s: "Load (ap_store sample_app) = Some s" "sn_Generation s = 1" "sn_Revision s = ''sha256:6e65766572''"
    using sample_active by blast
  obtain nxt where c: "Compile sample_comp 2000 2 [] (sample_config ''never'') = Inr nxt"
    using sample_compiles [of "''never''"] by blast
  have lk: "lookup [] fp m = (Inr None, m)" for fp m by (simp add: lookup_def)
  have st: "cm_Stat sample_comp ''/l/boot.yaml''" by code_simp
  have lb: "loadBootstrap sample_system (\<lambda>_. 2000) 2 sample_app = Inr nxt"
    using st c sample_load by (simp add: loadBootstrap_def Let_def sample_fields sample_system_def)
  have ts: "TrimSpace ''clean'' \<noteq> []" by code_simp
  have "\<exists>res a'. reset_core sample_system (\<lambda>_. 2000) AdminActor sample_reset sample_app = (Inr res, a') \<and> ar_Applied res"
    using s lb ts sample_fields(2)
    by (simp add: reset_core_def sample_reset_def replayTyped_def scopedKey_def lk sample_system_def [THEN arg_cong [where f = sy_fp_reset]]
        validateLiveListeners_def Let_def case_prod_unfold reset_install_def)
  then show ?thesis by (simp add: ResetState_Inr with_cap_allowed [OF cap])
qed

theorem reset_effect_witness:
  "\<exists>res a'. ResetState sample_system (\<lambda>_. 2000) AdminActor sample_reset sample_app = (Inr res, a') \<and> pristine (app_rt a')"
proof -
  obtain res a' where r: "ResetState sample_system (\<lambda>_. 2000) AdminActor sample_reset sample_app = (Inr res, a')" "ar_Applied res"
    using sample_resets by blast
  have "\<not> replayed (scopedKey AdminActor ''sso.state.reset'' (ri_IdempotencyKey sample_reset)) fp res sample_app a'" for fp
    by (simp add: replayed_def sample_reset_def scopedKey_def)
  with reset_effect [OF r(1)] r show ?thesis by blast
qed

section \<open>The second factor\<close>

text \<open>
  Setting the MFA mode: when the operation succeeds (without a remembered result) and JSON reads the
  encoded authentication settings back, the active document is the normalised old one with exactly the
  MFA mode changed to the one asked for, and the generation is one more.
\<close>
theorem set_mfa_effect:
  assumes "SetMFA Y clk actor inp a = (Inr res, a')" "mi_IdempotencyKey inp = []"
    and "Load (ap_store a) = Some s" "sn_Canonical s = Some doc" "1 \<le> sn_Generation s"
    and json: "\<And>cfg. cfg = (sp_Auth (dc_Spec doc))\<lparr>au_MFAMode := mi_Mode inp\<rparr> \<Longrightarrow>
       TrimSpace (ce_auth (sy_codec Y) cfg) \<noteq> [] \<and> cd_auth (sy_codec Y) (ce_auth (sy_codec Y) cfg) = Some cfg"
  shows "\<exists>cand. Load (ap_store a') = Some cand \<and> sn_Generation cand = sn_Generation s + 1
    \<and> sn_Canonical cand = Some (Normalize (doc\<lparr>dc_Spec := (dc_Spec doc)\<lparr>sp_Auth := (sp_Auth (dc_Spec doc))\<lparr>au_MFAMode := mi_Mode inp\<rparr>\<rparr>\<rparr>))
    \<and> mfa_mode cand = mi_Mode inp \<and> ValidMFA (mi_Mode inp)"
proof -
  let ?cfg = "(sp_Auth (dc_Spec doc))\<lparr>au_MFAMode := mi_Mode inp\<rparr>"
  have valid: "ValidMFA (mi_Mode inp)" using assms(1) by (auto simp: SetMFA_def with_cap_Inr split: if_splits)
  have lk: "lookup [] fp m = (Inr None, m)" for fp m by (simp add: lookup_def)
  have upd: "a\<lparr>ap_idemp := ap_idemp a\<rparr> = a" by simp
  have can: "canonical_of (Some s) = Some doc" using assms(4) by (simp add: canonical_of_def)
  obtain fp where fp: "sy_fp_mfa Y inp = Inr fp"
    using assms(1) valid by (cases "sy_fp_mfa Y inp") (auto simp: SetMFA_def with_cap_Inr with_replay_def replayTyped_def)
  let ?chg = "\<lparr>ci_ExpectedRevision = mi_ExpectedRevision inp, ci_IdempotencyKey = [],
            ci_Reason = mi_Reason inp, ci_Operations = [update_op ''auth'' [] (ce_auth (sy_codec Y) ?cfg)], ci_fingerprint = fp\<rparr>"
  have "apply_core Y clk actor ''sso.auth.mfa.set'' ?chg a = (Inr res, a')"
    using assms(1,2,3) valid fp can
    by (simp add: SetMFA_def with_cap_Inr with_replay_def replayTyped_def scopedKey_def lk upd applyLocked_Inr)
  then have "installed Y clk actor ''sso.auth.mfa.set'' ?chg res a a'"
    by (rule apply_core_cases) (auto simp: replayed_def scopedKey_def)
  then obtain base cand where i: "applyOperations (sy_codec Y) 0 [update_op ''auth'' [] (ce_auth (sy_codec Y) ?cfg)] doc = Inr base"
    "Compile (sy_comp Y) (clk 4) (sn_Generation s + 1) (sn_BootstrapRevision s) base = Inr cand" "Load (ap_store a') = Some cand"
    using assms(3,4) by (auto simp: installed_def)
  have base: "base = doc\<lparr>dc_Spec := (dc_Spec doc)\<lparr>sp_Auth := ?cfg\<rparr>\<rparr>"
    using i(1) json [OF refl]
    by (simp add: applyOne_def update_op_def ValidTarget_def AllTargetKinds_def on_spec_def applyTarget_def mutateSingleton_def
        decodeValue_def bindE_def)
  have "sn_Generation cand = sn_Generation s + 1" "sn_Canonical cand = Some (Normalize base)"
    using Compile_header [OF i(2)] Compile_sound [OF i(2)] assms(5) by (auto simp: compiled_from_def Let_def)
  moreover have "au_MFAMode (sp_Auth (dc_Spec (Normalize base))) = mi_Mode inp"
    using valid by (auto simp: base Normalize_def Let_def default_str_def ValidMFA_def)
  ultimately show ?thesis using i(3) valid base by (auto simp: mfa_mode_def)
qed

definition sample_mfa :: mfa_in where
  "sample_mfa = \<lparr>mi_Mode = ''always'', mi_ExpectedRevision = ''sha256:6e65766572'', mi_IdempotencyKey = [], mi_Reason = ''enforce mfa''\<rparr>"

lemma sample_sets_mfa: "\<exists>res a'. SetMFA sample_system (\<lambda>_. 2000) AdminActor sample_mfa sample_app = (Inr res, a')"
proof -
  have "ByID ''sso.auth.mfa.set'' \<noteq> None" by code_simp
  then obtain cap where cap: "ByID ''sso.auth.mfa.set'' = Some cap" "Authorize AdminActor cap = None" using sample_admin by blast
  obtain s where s: "Load (ap_store sample_app) = Some s" "canonical_of (Some s) = Some (sample_config ''never'')"
    using sample_active by (auto simp: canonical_of_def)
  have au: "ce_auth sample_codec ((sp_Auth (dc_Spec (sample_config ''never'')))\<lparr>au_MFAMode := ''always''\<rparr>) = ''always''" by code_simp
  let ?chg = "\<lparr>ci_ExpectedRevision = ''sha256:6e65766572'', ci_IdempotencyKey = [], ci_Reason = ''enforce mfa'',
      ci_Operations = [update_op ''auth'' [] ''always''], ci_fingerprint = ''always''\<rparr>"
  have lk: "lookup [] fp m = (Inr None, m)" for fp m by (simp add: lookup_def)
  have upd: "sample_app\<lparr>ap_idemp := ap_idemp sample_app\<rparr> = sample_app" by simp
  obtain cand where bc: "buildCandidate sample_system (\<lambda>_. 2000) ?chg True sample_app = Inr cand"
    using sample_candidate [of ?chg "ap_idemp sample_app"] by auto
  have ts: "TrimSpace ''enforce mfa'' \<noteq> []" by code_simp
  have core: "\<exists>res a'. apply_core sample_system (\<lambda>_. 2000) AdminActor ''sso.auth.mfa.set'' ?chg sample_app = (Inr res, a')"
    using bc ts by (simp add: apply_core_def fingerprintChange_def scopedKey_def lk case_prod_unfold Let_def)
  show ?thesis
    unfolding SetMFA_def with_cap_allowed [OF cap]
    using core s au
    by (simp add: with_replay_def replayTyped_def scopedKey_def sample_mfa_def ValidMFA_def lk applyLocked_Inr
        sample_system_def [THEN arg_cong [where f = sy_fp_mfa]] sample_system_def [THEN arg_cong [where f = sy_codec]])
qed

theorem set_mfa_effect_witness:
  "\<exists>res a' cand. SetMFA sample_system (\<lambda>_. 2000) AdminActor sample_mfa sample_app = (Inr res, a')
     \<and> Load (ap_store a') = Some cand \<and> mfa_mode cand = ''always''"
proof -
  obtain res a' where r: "SetMFA sample_system (\<lambda>_. 2000) AdminActor sample_mfa sample_app = (Inr res, a')"
    using sample_sets_mfa by blast
  obtain s where s: "Load (ap_store sample_app) = Some s" "sn_Canonical s = Some (sample_config ''never'')" "sn_Generation s = 1"
    using sample_active by blast
  have k: "mi_IdempotencyKey sample_mfa = []" "mi_Mode sample_mfa = ''always''" by (simp_all add: sample_mfa_def)
  have json: "TrimSpace (ce_auth sample_codec ((sp_Auth (dc_Spec (sample_config ''never'')))\<lparr>au_MFAMode := ''always''\<rparr>)) \<noteq> []
     \<and> cd_auth sample_codec (ce_auth sample_codec ((sp_Auth (dc_Spec (sample_config ''never'')))\<lparr>au_MFAMode := ''always''\<rparr>))
       = Some ((sp_Auth (dc_Spec (sample_config ''never'')))\<lparr>au_MFAMode := ''always''\<rparr>)" by code_simp
  have "\<exists>cand. Load (ap_store a') = Some cand \<and> sn_Generation cand = sn_Generation s + 1
    \<and> sn_Canonical cand = Some (Normalize ((sample_config ''never'')\<lparr>dc_Spec := (dc_Spec (sample_config ''never''))\<lparr>sp_Auth :=
        (sp_Auth (dc_Spec (sample_config ''never'')))\<lparr>au_MFAMode := mi_Mode sample_mfa\<rparr>\<rparr>\<rparr>))
    \<and> mfa_mode cand = mi_Mode sample_mfa \<and> ValidMFA (mi_Mode sample_mfa)"
    by (rule set_mfa_effect [OF r k(1) s(1,2)])
      (use s(3) json k(2) in \<open>simp_all add: sample_system_def [THEN arg_cong [where f = sy_codec]]\<close>)
  then show ?thesis using r k(2) by auto
qed

end
