(* ===== verification/Control.thy ===== *)
theory Control
  imports Import
begin

text \<open>
  What the two front ends of the management application (\<^verbatim>\<open>control/rest\<close> and \<^verbatim>\<open>control/mcp\<close>) share: the inputs
  they decode from JSON, the values they answer with, and their surroundings.
\<close>

section \<open>Inputs\<close>

text \<open>
  The fields of all the request structs of the front ends. A struct is given by the JSON names of its
  fields; a decoder leaves the other fields of the record at their zero values.
\<close>

record inputs =
  jf_Reason :: string
  jf_ExpectedRevision :: string
  jf_IdempotencyKey :: string
  jf_DryRun :: bool
  jf_Mode :: string
  jf_On :: bool
  jf_Code :: string
  jf_Vendor :: string
  jf_TenantID :: "string option"
  jf_EntraGraphStub :: "bool option"
  jf_OktaFailAt :: "int option"
  jf_GenericCap :: "int option"
  jf_UserID :: string
  jf_ClientID :: string
  jf_Scope :: string
  jf_RedirectURIs :: "string list"
  jf_Kind :: string
  jf_Text :: string
  jf_Document :: "document option"
  jf_Operations :: "operation list"
  jf_ID :: string
  jf_Format :: string
  jf_Cursor :: string
  jf_Limit :: int

definition zero_inputs :: inputs where
  "zero_inputs = \<lparr>jf_Reason = [], jf_ExpectedRevision = [], jf_IdempotencyKey = [], jf_DryRun = False, jf_Mode = [],
     jf_On = False, jf_Code = [], jf_Vendor = [], jf_TenantID = None, jf_EntraGraphStub = None, jf_OktaFailAt = None,
     jf_GenericCap = None, jf_UserID = [], jf_ClientID = [], jf_Scope = [], jf_RedirectURIs = [], jf_Kind = [], jf_Text = [],
     jf_Document = None, jf_Operations = [], jf_ID = [], jf_Format = [], jf_Cursor = [], jf_Limit = 0\<rparr>"

section \<open>Answers\<close>

record session_out =
  sx_ActorID :: string
  sx_ActorClass :: string
  sx_CSRF :: string
  sx_Expires :: go_time

text \<open>
  The values that the front ends render as JSON. Of \<open>VCapabilities\<close> the REST server writes an object whose only field
  \<^verbatim>\<open>capabilities\<close> holds the list, and the MCP server the list itself; the other values look the same in both.
\<close>

datatype reply =
    VLive "(string \<times> string) list" | VReady "string \<times> string" | VInfo string | VCapabilities "capability list"
  | VStatus status_view | VSchema json | VState state_view | VExport export_view | VPlan plan | VApply apply_result
  | VClients "client page_out" | VClient client | VUsers "user_view page_out" | VUser user_view
  | VGroups "group page_out" | VGroup group | VSessions "loginsession page_out" | VEvents "event page_out" | VEvent event
  | VEnroll enroll_out | VMint mint_out | VImport import_out | VSession session_out
  | VOk | VPaused bool | VOn bool | VCode string | VExpired nat

text \<open>A result of the application with its value as a rendered one.\<close>

definition reply_of :: "('r \<Rightarrow> reply) \<Rightarrow> (go_error + 'r) \<times> app \<Rightarrow> (go_error + reply) \<times> app" where
  "reply_of f res = (case res of (Inl e, a) \<Rightarrow> (Inl e, a) | (Inr x, a) \<Rightarrow> (Inr (f x), a))"

section \<open>Surroundings\<close>

text \<open>
  \<open>fe_decode names b\<close> is \<^verbatim>\<open>Decoder.Decode\<close> with \<^verbatim>\<open>DisallowUnknownFields\<close> into the struct with the fields \<open>names\<close>: the text of
  its error, or the fields and the input that it has not read. \<open>fe_unmarshal names b inp\<close> is \<^verbatim>\<open>json.Unmarshal\<close> into such a
  struct that holds \<open>inp\<close>, and \<open>fe_compact\<close> is \<^verbatim>\<open>json.Marshal\<close> of a raw message. \<open>fe_marshal_\<close> are \<^verbatim>\<open>json.Marshal\<close> of the paged lists,
  \<open>fe_json\<close> is \<^verbatim>\<open>json.MarshalIndent\<close> of a document, \<open>fe_info\<close> the build information and \<open>fe_configSchema\<close> the
  generated schema.
\<close>

record frontend =
  fe_system :: system
  fe_import :: importlib
  fe_decode :: "string list \<Rightarrow> string \<Rightarrow> string + inputs \<times> string"
  fe_unmarshal :: "string list \<Rightarrow> string \<Rightarrow> inputs \<Rightarrow> string + inputs"
  fe_compact :: "string \<Rightarrow> string option"
  fe_json :: "document \<Rightarrow> go_error + string"
  fe_sha256 :: "string \<Rightarrow> string"
  fe_marshal_clients :: "client list \<Rightarrow> string"
  fe_marshal_users :: "user_view list \<Rightarrow> string"
  fe_marshal_groups :: "group list \<Rightarrow> string"
  fe_marshal_sessions :: "loginsession list \<Rightarrow> string"
  fe_marshal_audit :: "event list \<Rightarrow> string"
  fe_info :: string
  fe_configSchema :: json

definition fe_net :: "frontend \<Rightarrow> netlib" where
  "fe_net F = cm_net (sy_comp (fe_system F))"

text \<open>The access token of the active snapshot.\<close>

definition token_of :: "app \<Rightarrow> string" where
  "token_of a = (case Load (ap_store a) of None \<Rightarrow> [] | Some snap \<Rightarrow> sn_AccessToken snap)"

text \<open>A request without an actor is recorded as denied before it is refused.\<close>

definition deny_anonymous :: "(nat \<Rightarrow> go_time) \<Rightarrow> go_error \<Rightarrow> app \<Rightarrow> app" where
  "deny_anonymous clk e a = a\<lparr>ap_audit := EmitDenied (clk 0) (clk 1) (zero_actor\<lparr>an_Class := ''anonymous''\<rparr>)
     ''sso.management.authenticate'' e (ap_audit a)\<rparr>"

end
