(* ===== verification/Router.thy ===== *)
theory Router
  imports Prelude
begin

text \<open>
  The part of \<^verbatim>\<open>http.ServeMux\<close> that the servers use: patterns with a method, how a path matches them, and a
  decidable condition under which the order of a table of patterns does not matter.
\<close>

section \<open>Routing\<close>

text \<open>
  The patterns of \<^verbatim>\<open>http.ServeMux\<close> that the servers use: literal segments, wildcards that take one segment that
  is not empty, a trailing slash that takes any rest, and \<open>{$}\<close> for the end of the path. A pattern for GET
  also serves HEAD. The first entry of a table that matches is taken; where no two entries overlap the order is
  irrelevant. Paths are taken to be clean, as the router redirects others to their clean form.
\<close>

datatype segment = Lit string | Wild string | Rest

fun parse_segments :: "string list \<Rightarrow> segment list" where
  "parse_segments [] = []"
| "parse_segments [s] = (if s = [] then [Rest] else if s = ''{$}'' then [Lit []]
     else if hd s = CHR ''{'' then [Wild (butlast (tl s))] else [Lit s])"
| "parse_segments (s # ss) = (if s \<noteq> [] \<and> hd s = CHR ''{'' then Wild (butlast (tl s)) else Lit s) # parse_segments ss"

definition parse_pattern :: "string \<Rightarrow> segment list" where
  "parse_pattern p = parse_segments (tl (Split p (CHR ''/'')))"

fun match_segments :: "segment list \<Rightarrow> string list \<Rightarrow> (string \<times> string) list option" where
  "match_segments [] [] = Some []"
| "match_segments [Rest] (s # ss) = Some []"
| "match_segments (Lit l # ps) (s # ss) = (if l = s then match_segments ps ss else None)"
| "match_segments (Wild n # ps) (s # ss) = (if s \<noteq> [] then map_option (\<lambda>bs. (n, s) # bs) (match_segments ps ss) else None)"
| "match_segments _ _ = None"

definition method_matches :: "string \<Rightarrow> string \<Rightarrow> bool" where
  "method_matches m got = (got = m \<or> (m = ''GET'' \<and> got = ''HEAD''))"

text \<open>A table of routes: method, pattern, and what they stand for.\<close>

type_synonym 'e table = "(string \<times> string \<times> 'e) list"

definition row_match :: "string \<Rightarrow> string list \<Rightarrow> string \<times> string \<times> 'e \<Rightarrow> (string \<times> string) list option" where
  "row_match meth segs row = (case row of (m, pat, _) \<Rightarrow>
     if method_matches m meth then match_segments (parse_pattern pat) segs else None)"

fun lookup_row :: "string \<Rightarrow> string list \<Rightarrow> 'e table \<Rightarrow> ('e \<times> (string \<times> string) list) option" where
  "lookup_row meth segs [] = None"
| "lookup_row meth segs (row # rows) =
     (case row_match meth segs row of Some bs \<Rightarrow> Some (snd (snd row), bs) | None \<Rightarrow> lookup_row meth segs rows)"

text \<open>
  What the router itself answers when no pattern matches a path exactly: it redirects to the path with a slash if that is
  the root of a subtree under the method of the request, and tells a path that it knows under other methods only
  from one that it does not know.
\<close>

definition redirect_to_slash :: "string \<Rightarrow> string list \<Rightarrow> 'e table \<Rightarrow> bool" where
  "redirect_to_slash meth segs tab = (segs \<noteq> [] \<and> last segs \<noteq> [] \<and> list_ex (\<lambda>(m, pat, _).
     method_matches m meth \<and> last (parse_pattern pat) = Rest \<and> match_segments (butlast (parse_pattern pat)) segs \<noteq> None) tab)"

definition known_path :: "string list \<Rightarrow> 'e table \<Rightarrow> bool" where
  "known_path segs tab = list_ex (\<lambda>(m, pat, _). match_segments (parse_pattern pat) segs \<noteq> None) tab"

definition unrouted_status :: "string \<Rightarrow> string list \<Rightarrow> 'e table \<Rightarrow> nat" where
  "unrouted_status meth segs tab =
     (if redirect_to_slash meth segs tab then 301 else if known_path segs tab then 405 else 404)"

section \<open>Lemmas\<close>

lemma lookup_row_Some:
  "lookup_row meth segs rows = Some (e, bs) \<Longrightarrow> \<exists>m pat. (m, pat, e) \<in> set rows \<and> row_match meth segs (m, pat, e) = Some bs"
proof (induction rows)
  case (Cons x rows)
  obtain m pat e' where x: "x = (m, pat, e')" by (cases x)
  show ?case
  proof (cases "row_match meth segs x")
    case None
    then show ?thesis using Cons by auto
  next
    case (Some cs)
    then have "e' = e \<and> cs = bs" using Cons.prems by (simp add: x)
    then show ?thesis using Some x by auto
  qed
qed simp

text \<open>Two patterns that no path matches both.\<close>

fun overlap :: "segment list \<Rightarrow> segment list \<Rightarrow> bool" where
  "overlap [] [] = True"
| "overlap (Lit l # ps) (Lit k # qs) = (l = k \<and> overlap ps qs)"
| "overlap (Lit l # ps) (Wild n # qs) = overlap ps qs"
| "overlap (Wild n # ps) (Lit l # qs) = overlap ps qs"
| "overlap (Wild n # ps) (Wild k # qs) = overlap ps qs"
| "overlap (Rest # ps) (q # qs) = True"
| "overlap (q # qs) (Rest # ps) = True"
| "overlap _ _ = False"

lemma match_Nil: "match_segments ps [] \<noteq> None \<Longrightarrow> ps = []"
  by (cases ps; cases "hd ps"; cases "tl ps") auto

lemma match_Cons:
  assumes "match_segments ps (s # ss) \<noteq> None"
  obtains "ps = [Rest]" | qs where "ps = Lit s # qs" "match_segments qs ss \<noteq> None"
    | n qs where "ps = Wild n # qs" "match_segments qs ss \<noteq> None"
proof (cases ps)
  case (Cons q qs)
  then show ?thesis using assms that by (cases q; cases qs) (auto split: if_splits)
qed (use assms in simp)

lemma overlap_sound:
  "match_segments ps ss \<noteq> None \<Longrightarrow> match_segments qs ss \<noteq> None \<Longrightarrow> overlap ps qs"
proof (induction ss arbitrary: ps qs)
  case Nil
  then show ?case using match_Nil [of ps] match_Nil [of qs] by simp
next
  case (Cons s ss)
  from Cons.prems(1) show ?case
    by (cases rule: match_Cons) (use Cons.prems(2) in \<open>cases rule: match_Cons; simp add: Cons.IH\<close>)+
qed

fun separate :: "(string \<times> segment list) list \<Rightarrow> bool" where
  "separate [] = True"
| "separate ((m, ps) # es) = (list_all (\<lambda>(k, qs). \<not> (m = k \<and> overlap ps qs)) es \<and> separate es)"

definition parsed :: "'e table \<Rightarrow> (string \<times> segment list) list" where
  "parsed es = map (\<lambda>(m, pat, e). (m, parse_pattern pat)) es"

lemma row_match_parts:
  "row_match meth segs (m, pat, e) \<noteq> None \<Longrightarrow> method_matches m meth \<and> match_segments (parse_pattern pat) segs \<noteq> None"
  by (simp add: row_match_def split: if_splits)

lemma method_once: "method_matches m g \<Longrightarrow> method_matches k g \<Longrightarrow> m \<noteq> ''HEAD'' \<Longrightarrow> k \<noteq> ''HEAD'' \<Longrightarrow> m = k"
  unfolding method_matches_def by argo

lemma separate_once:
  assumes "separate (parsed es)" "x \<in> set es" "y \<in> set es" "row_match meth segs x \<noteq> None" "row_match meth segs y \<noteq> None"
    and "\<forall>z \<in> set es. fst z \<noteq> ''HEAD''"
  shows "x = y"
  using assms
proof (induction es)
  case (Cons z es)
  obtain m pat e where z: "z = (m, pat, e)" by (cases z)
  have clash: False if y': "y' \<in> set es" "row_match meth segs z \<noteq> None" "row_match meth segs y' \<noteq> None" for y'
  proof -
    obtain k pat' e' where y'_def: "y' = (k, pat', e')" by (cases y')
    have "m = k" "overlap (parse_pattern pat) (parse_pattern pat')"
      using row_match_parts [of meth segs m pat e] row_match_parts [of meth segs k pat' e'] y' z y'_def Cons.prems(6)
        method_once [of m "meth" k] overlap_sound by fastforce+
    moreover have "(k, parse_pattern pat') \<in> set (parsed es)" using y'(1) y'_def by (force simp: parsed_def)
    ultimately show False using Cons.prems(1) by (auto simp: z parsed_def list_all_iff)
  qed
  have "separate (parsed es)" using Cons.prems(1) by (simp add: z parsed_def)
  then show ?case using Cons clash by (metis list.set_intros(2) set_ConsD)
qed simp

text \<open>In a table without overlaps the row that matches is the one that is found.\<close>

lemma lookup_row_unique:
  assumes "separate (parsed rows)" "\<forall>z \<in> set rows. fst z \<noteq> ''HEAD''" "(m, pat, e) \<in> set rows"
    and "row_match meth segs (m, pat, e) = Some bs"
  shows "lookup_row meth segs rows = Some (e, bs)"
proof -
  have "lookup_row meth segs rows \<noteq> None" using assms(3,4)
    by (induction rows) (auto split: option.splits)
  then obtain e' bs' where f: "lookup_row meth segs rows = Some (e', bs')" by auto
  then obtain m' pat' where r: "(m', pat', e') \<in> set rows" "row_match meth segs (m', pat', e') = Some bs'"
    using lookup_row_Some [OF f] by blast
  have "(m', pat', e') = (m, pat, e)" using separate_once [OF assms(1) r(1) assms(3), of meth segs] r(2) assms(2,4) by simp
  then show ?thesis using f r(2) assms(4) by simp
qed

end
