(* ===== verification/Rest.thy ===== *)
theory Rest
  imports Control Router
begin

text \<open>
  \<^verbatim>\<open>internal/control/rest/server.go\<close>: the REST front end of the management application. A request passes the
  cross-origin and host checks, is routed by method and path, authenticated, decoded, handed to one
  operation of the application, and answered with JSON.
\<close>

section \<open>Requests and responses\<close>

definition MaxBodyBytes :: nat where "MaxBodyBytes = 1048576"
definition headerIdempotency :: string where "headerIdempotency = ''Idempotency-Key''"
definition headerIfMatch :: string where "headerIfMatch = ''If-Match''"
definition headerExpected :: string where "headerExpected = ''X-LabSSO-Expected-Revision''"
definition CookieSession :: string where "CookieSession = ''labsso_session''"
definition HeaderCSRF :: string where "HeaderCSRF = ''X-LabSSO-CSRF''"

text \<open>The body as it can be read: absent, complete, or broken off by a transport error.\<close>

datatype body = NilBody | Body string | BrokenBody

text \<open>
  \<open>rr_Segments\<close> are the segments of the escaped path, each unescaped, as the router sees them; \<open>rr_Path\<close> is the
  unescaped path. \<open>rr_SameOrigin\<close> is the verdict of \<^verbatim>\<open>http.CrossOriginProtection\<close>. \<open>rr_clk i\<close> is the clock of
  the \<open>i\<close>-th call into the application (0 session lookup, 1 denial, 2 rejected input, 3 the operation, 4 minting,
  5 second session lookup), \<open>rr_rnd\<close> and \<open>rr_entropy\<close> the random bytes that the operation reads.
\<close>

record rest_request =
  rr_Method :: string
  rr_Path :: string
  rr_Segments :: "string list"
  rr_PathValues :: "(string \<times> string) list"
  rr_Query :: "(string \<times> string) list"
  rr_Header :: "(string \<times> string) list"
  rr_Cookies :: "(string \<times> string) list"
  rr_Body :: body
  rr_RemoteAddr :: string
  rr_Host :: string
  rr_TLS :: bool
  rr_SameOrigin :: bool
  rr_clk :: "nat \<Rightarrow> nat \<Rightarrow> go_time"
  rr_rnd :: "nat \<Rightarrow> string"
  rr_entropy :: "string option"

definition header :: "rest_request \<Rightarrow> string \<Rightarrow> string" where
  "header rq name = values_Get (rr_Header rq) name"

definition PathValue :: "rest_request \<Rightarrow> string \<Rightarrow> string" where
  "PathValue rq name = values_Get (rr_PathValues rq) name"

text \<open>
  A problem answer keeps its status, its code and the error whose text is the detail. \<open>RUnrouted\<close> is the answer
  of the router itself to a request that no pattern matches, with its status; \<open>RIndex\<close> and \<open>RScript\<close> are the operator page and its
  script, whose texts are constants.
\<close>

datatype rest_response =
    RJson nat reply | RProblem nat string go_error | RData string string | RText nat string
  | RIndex | RScript string | RUnrouted nat | RCookie cookie "go_time option" rest_response

fun rest_status :: "rest_response \<Rightarrow> nat" where
  "rest_status (RJson s _) = s"
| "rest_status (RProblem s _ _) = s"
| "rest_status (RData _ _) = 200"
| "rest_status (RText s _) = s"
| "rest_status RIndex = 200"
| "rest_status (RScript _) = 200"
| "rest_status (RUnrouted s) = s"
| "rest_status (RCookie _ _ r) = rest_status r"

definition error_status :: "string \<Rightarrow> nat" where
  "error_status code =
     (if code = CodeRevisionConflict \<or> code = CodeConflict then 409
      else if code = CodeValidation then 400
      else if code = CodeNotFound then 404
      else if code = CodeUnauthorized then 401
      else if code = CodeForbidden then 403
      else 500)"

definition writeError :: "go_error \<Rightarrow> rest_response" where
  "writeError e = RProblem (error_status (CodeOf e)) (if CodeOf e \<noteq> [] then CodeOf e else ''internal'') e"

definition answer :: "('r \<Rightarrow> reply) \<Rightarrow> (go_error + 'r) \<times> app \<Rightarrow> rest_response \<times> app" where
  "answer f res = (case res of (Inl e, a) \<Rightarrow> (writeError e, a) | (Inr x, a) \<Rightarrow> (RJson 200 (f x), a))"

section \<open>Decoding\<close>

definition json_space :: "char \<Rightarrow> bool" where
  "json_space c = (c \<in> {CHR '' '', CHR 0x09, CHR 0x0A, CHR 0x0D})"

definition read_body :: "body \<Rightarrow> string option" where
  "read_body b = (case b of Body s \<Rightarrow> if length s > MaxBodyBytes then None else Some s | _ \<Rightarrow> None)"

definition decode_body :: "frontend \<Rightarrow> string list \<Rightarrow> body \<Rightarrow> go_error + inputs" where
  "decode_body F names b = (if b = NilBody then Inl (Validation ''JSON object body is required'' [])
     else case read_body b of
       None \<Rightarrow> Inl (Validation ''request body exceeds 1 MiB'' [])
     | Some s \<Rightarrow>
       if TrimSpace s = [] \<or> hd (TrimSpace s) \<noteq> CHR ''{'' then Inl (Validation ''JSON object body is required'' [])
       else case fe_decode F names s of
         Inl msg \<Rightarrow> Inl (Validation ''invalid JSON: %s'' [msg])
       | Inr (inp, rest) \<Rightarrow> if list_all json_space rest then Inr inp
           else Inl (Validation ''request must contain one JSON object'' []))"

text \<open>A body that is refused is recorded before the error is returned.\<close>

definition decodeJSON ::
  "frontend \<Rightarrow> string list \<Rightarrow> rest_request \<Rightarrow> actor \<Rightarrow> app \<Rightarrow> (go_error + inputs) \<times> app" where
  "decodeJSON F names rq actor a = (case decode_body F names (rr_Body rq) of
     Inl e \<Rightarrow> (Inl e, RejectInput (rr_clk rq 2) actor e a) | Inr inp \<Rightarrow> (Inr inp, a))"

definition decodeOptionalJSON ::
  "frontend \<Rightarrow> string list \<Rightarrow> rest_request \<Rightarrow> actor \<Rightarrow> app \<Rightarrow> (go_error + inputs) \<times> app" where
  "decodeOptionalJSON F names rq actor a = (if rr_Body rq = NilBody then (Inr zero_inputs, a)
     else case read_body (rr_Body rq) of
       None \<Rightarrow> (Inl (Validation ''request body exceeds 1 MiB'' []), a)
     | Some s \<Rightarrow> if TrimSpace s = [] then (Inr zero_inputs, a)
         else decodeJSON F names (rq\<lparr>rr_Body := Body s\<rparr>) actor a)"

definition with_input ::
  "(go_error + inputs) \<times> app \<Rightarrow> (inputs \<Rightarrow> app \<Rightarrow> rest_response \<times> app) \<Rightarrow> rest_response \<times> app" where
  "with_input res k = (case res of (Inl e, a) \<Rightarrow> (writeError e, a) | (Inr inp, a) \<Rightarrow> k inp a)"

text \<open>Revision and idempotency key, from the body or else from the headers.\<close>

definition expected_of :: "rest_request \<Rightarrow> inputs \<Rightarrow> string" where
  "expected_of rq inp = (let
     e1 = jf_ExpectedRevision inp;
     e2 = (if e1 = [] then Trim (header rq headerIfMatch) [CHR 0x22] else e1)
   in if e2 = [] then header rq headerExpected else e2)"

definition key_of :: "rest_request \<Rightarrow> inputs \<Rightarrow> string" where
  "key_of rq inp = (if jf_IdempotencyKey inp = [] then header rq headerIdempotency else jf_IdempotencyKey inp)"

definition listInput :: "rest_request \<Rightarrow> go_error + list_in" where
  "listInput rq = (let cursor = values_Get (rr_Query rq) ''cursor''; raw = values_Get (rr_Query rq) ''limit'' in
     if raw = [] then Inr \<lparr>li_Cursor = cursor, li_Limit = 0\<rparr>
     else case Atoi raw of
       None \<Rightarrow> Inl (Validation ''limit must be between 1 and 1000'' [])
     | Some n \<Rightarrow> if n < 1 \<or> n > 1000 then Inl (Validation ''limit must be between 1 and 1000'' [])
         else Inr \<lparr>li_Cursor = cursor, li_Limit = n\<rparr>)"

definition with_list ::
  "rest_request \<Rightarrow> app \<Rightarrow> (list_in \<Rightarrow> rest_response \<times> app) \<Rightarrow> rest_response \<times> app" where
  "with_list rq a k = (case listInput rq of Inl e \<Rightarrow> (writeError e, a) | Inr inp \<Rightarrow> k inp)"

section \<open>Handlers\<close>

type_synonym handler = "frontend \<Rightarrow> rest_request \<Rightarrow> actor \<Rightarrow> app \<Rightarrow> rest_response \<times> app"

definition live :: "app \<Rightarrow> rest_response \<times> app" where
  "live a = (RJson 200 (VLive HealthLive), a)"

definition ready :: "app \<Rightarrow> rest_response \<times> app" where
  "ready a = (let (view, ok) = HealthReady a in (RJson (if ok then 200 else 503) (VReady view), a))"

definition version :: handler where
  "version F rq actor a = answer VInfo (Version (fe_info F) (rr_clk rq 3) actor a)"

definition capabilities :: handler where
  "capabilities F rq actor a = answer VCapabilities (Capabilities (rr_clk rq 3) actor a)"

definition status_rest :: handler where
  "status_rest F rq actor a = answer VStatus (GetStatus (rr_clk rq 3) actor a)"

definition schema :: handler where
  "schema F rq actor a = answer VSchema (SchemaConfig (fe_configSchema F) (rr_clk rq 3) actor a)"

definition state_rest :: handler where
  "state_rest F rq actor a = answer VState (GetState (rr_clk rq 3) actor a)"

definition export_rest :: handler where
  "export_rest F rq actor a =
     (case Export (fe_system F) (fe_json F) (rr_clk rq 3) actor (values_Get (rr_Query rq) ''format'') a of
        (Inl e, a1) \<Rightarrow> (writeError e, a1)
      | (Inr out, a1) \<Rightarrow>
          (RData (if ev_Format out = ''json'' then ''application/json'' else ''application/yaml'') (ev_Data out), a1))"

definition validate :: handler where
  "validate F rq actor a = with_input (decodeJSON F [''document'', ''operations'', ''expectedRevision'', ''reason'', ''idempotencyKey''] rq actor a)
     (\<lambda>inp a. answer VPlan (Validate (fe_system F) (rr_clk rq 3) actor (jf_Document inp) (jf_Operations inp) a))"

definition decodeChange :: "frontend \<Rightarrow> rest_request \<Rightarrow> actor \<Rightarrow> app \<Rightarrow> (go_error + inputs) \<times> app" where
  "decodeChange F rq actor a = decodeJSON F [''expectedRevision'', ''idempotencyKey'', ''reason'', ''operations''] rq actor a"

definition change_of :: "rest_request \<Rightarrow> inputs \<Rightarrow> change_in" where
  "change_of rq inp = \<lparr>ci_ExpectedRevision = expected_of rq inp, ci_IdempotencyKey = key_of rq inp, ci_Reason = jf_Reason inp,
     ci_Operations = jf_Operations inp, ci_fingerprint = []\<rparr>"

definition plan_rest :: handler where
  "plan_rest F rq actor a = with_input (decodeChange F rq actor a)
     (\<lambda>inp a. answer VPlan (PlanChange (fe_system F) (rr_clk rq 3) actor (change_of rq inp) a))"

definition apply_rest :: handler where
  "apply_rest F rq actor a = with_input (decodeChange F rq actor a)
     (\<lambda>inp a. answer VApply (Apply (fe_system F) (rr_clk rq 3) actor (change_of rq inp) a))"

definition reset_rest :: handler where
  "reset_rest F rq actor a = with_input (decodeJSON F [''reason'', ''expectedRevision'', ''idempotencyKey'', ''dryRun''] rq actor a)
     (\<lambda>inp a. answer VApply (ResetState (fe_system F) (rr_clk rq 3) actor
        \<lparr>ri_ExpectedRevision = expected_of rq inp, ri_IdempotencyKey = key_of rq inp, ri_DryRun = jf_DryRun inp,
         ri_Reason = jf_Reason inp\<rparr> a))"

definition clients_rest :: handler where
  "clients_rest F rq actor a = with_list rq a (\<lambda>inp.
     answer VClients (PageClients (fe_marshal_clients F) (fe_sha256 F) (rr_clk rq 3) actor inp a))"

definition clientGet :: handler where
  "clientGet F rq actor a = answer VClient (GetClient (rr_clk rq 3) actor (PathValue rq ''id'') a)"

definition users_rest :: handler where
  "users_rest F rq actor a = with_list rq a (\<lambda>inp.
     answer VUsers (PageUsers (fe_marshal_users F) (fe_sha256 F) (rr_clk rq 3) actor inp a))"

definition userGet :: handler where
  "userGet F rq actor a = answer VUser (GetUser (rr_clk rq 3) actor (PathValue rq ''id'') a)"

definition setMFA :: handler where
  "setMFA F rq actor a = with_input (decodeJSON F [''mode'', ''expectedRevision'', ''idempotencyKey'', ''reason''] rq actor a)
     (\<lambda>inp a. answer VApply (SetMFA (fe_system F) (rr_clk rq 3) actor
        \<lparr>mi_Mode = jf_Mode inp, mi_ExpectedRevision = expected_of rq inp, mi_IdempotencyKey = key_of rq inp,
         mi_Reason = jf_Reason inp\<rparr> a))"

definition totpEnroll :: handler where
  "totpEnroll F rq actor a = with_input (decodeJSON F [''reason''] rq actor a)
     (\<lambda>inp a. answer VEnroll (EnrollTOTP (rr_clk rq 3) (rr_entropy rq) actor (PathValue rq ''id'') (jf_Reason inp) a))"

definition totpClear :: handler where
  "totpClear F rq actor a = with_input (decodeJSON F [''reason''] rq actor a)
     (\<lambda>inp a. answer (\<lambda>_. VOk) (ClearTOTP (rr_clk rq 3) actor (PathValue rq ''id'') (jf_Reason inp) a))"

definition groups_rest :: handler where
  "groups_rest F rq actor a = with_list rq a (\<lambda>inp.
     answer VGroups (PageGroups (fe_marshal_groups F) (fe_sha256 F) (rr_clk rq 3) actor inp a))"

definition groupGet :: handler where
  "groupGet F rq actor a = answer VGroup (GetGroup (rr_clk rq 3) actor (PathValue rq ''id'') a)"

definition sessions_rest :: handler where
  "sessions_rest F rq actor a = with_list rq a (\<lambda>inp.
     answer VSessions (PageSessions (fe_marshal_sessions F) (fe_sha256 F) (rr_clk rq 3) actor inp a))"

definition TrimSuffix :: "string \<Rightarrow> string \<Rightarrow> string" where
  "TrimSuffix s p = (if HasSuffix s p then take (length s - length p) s else s)"

definition session_id :: "string \<Rightarrow> string \<Rightarrow> go_error + string" where
  "session_id restPath path =
     (if \<not> HasSuffix path '':expire'' then Inl (Validation ''use POST /v1/sessions/{id}:expire'' [])
      else let sid = TrimSuffix (TrimPrefix path (restPath @ ''/sessions/'')) '':expire'' in
        if sid = [] \<or> sid = path then Inl (Validation ''session id required'' []) else Inr sid)"

definition sessionExpire :: "string \<Rightarrow> handler" where
  "sessionExpire restPath F rq actor a = with_input (decodeOptionalJSON F [''reason''] rq actor a)
     (\<lambda>inp a. case session_id restPath (rr_Path rq) of
        Inl e \<Rightarrow> (writeError e, a)
      | Inr sid \<Rightarrow> answer (\<lambda>_. VOk) (ExpireSession_app (rr_clk rq 3) actor sid [jf_Reason inp] a))"

definition pauseToken :: handler where
  "pauseToken F rq actor a = with_input (decodeOptionalJSON F [''reason''] rq actor a)
     (\<lambda>inp a. answer (\<lambda>_. VPaused True) (PauseToken (rr_clk rq 3) actor [jf_Reason inp] a))"

definition resumeToken :: handler where
  "resumeToken F rq actor a = with_input (decodeOptionalJSON F [''reason''] rq actor a)
     (\<lambda>inp a. answer (\<lambda>_. VPaused False) (ResumeToken (rr_clk rq 3) actor [jf_Reason inp] a))"

definition forceFail :: handler where
  "forceFail F rq actor a = with_input (decodeJSON F [''reason'', ''on''] rq actor a)
     (\<lambda>inp a. answer (\<lambda>_. VOn (jf_On inp)) (ForceFail (rr_clk rq 3) actor (jf_On inp) [jf_Reason inp] a))"

definition swapVendor :: handler where
  "swapVendor F rq actor a = with_input (decodeJSON F [''vendor'', ''tenantId'', ''expectedRevision'', ''idempotencyKey'', ''reason''] rq actor a)
     (\<lambda>inp a. answer VApply (SwapVendor (fe_system F) (rr_clk rq 3) actor
        \<lparr>vi_Vendor = jf_Vendor inp, vi_TenantID = jf_TenantID inp, vi_ExpectedRevision = expected_of rq inp,
         vi_IdempotencyKey = key_of rq inp, vi_Reason = jf_Reason inp\<rparr> a))"

definition setOverage :: handler where
  "setOverage F rq actor a = with_input (decodeJSON F [''entraGraphStub'', ''oktaFailAt'', ''genericCap'', ''expectedRevision'', ''idempotencyKey'', ''reason''] rq actor a)
     (\<lambda>inp a. answer VApply (SetOverage (fe_system F) (rr_clk rq 3) actor
        \<lparr>oi_EntraGraphStub = jf_EntraGraphStub inp, oi_OktaFailAt = jf_OktaFailAt inp, oi_GenericCap = jf_GenericCap inp,
         oi_ExpectedRevision = expected_of rq inp, oi_IdempotencyKey = key_of rq inp, oi_Reason = jf_Reason inp\<rparr> a))"

definition forceConsent :: handler where
  "forceConsent F rq actor a = with_input (decodeJSON F [''reason'', ''on''] rq actor a)
     (\<lambda>inp a. answer (\<lambda>_. VOn (jf_On inp)) (ForceConsent (rr_clk rq 3) actor (jf_On inp) [jf_Reason inp] a))"

definition mintToken :: handler where
  "mintToken F rq actor a = with_input (decodeJSON F [''userId'', ''clientId'', ''scope''] rq actor a)
     (\<lambda>inp a. answer VMint (MintToken (sy_env (fe_system F)) (rr_clk rq 3) (rr_clk rq 4) actor
        \<lparr>mt_UserID = jf_UserID inp, mt_ClientID = jf_ClientID inp, mt_Scope = jf_Scope inp\<rparr> a))"

definition injectError :: handler where
  "injectError F rq actor a = with_input (decodeJSON F [''reason'', ''code''] rq actor a)
     (\<lambda>inp a. answer (\<lambda>_. VCode (jf_Code inp)) (InjectError (rr_clk rq 3) actor (jf_Code inp) [jf_Reason inp] a))"

definition session_cookie :: "rest_request \<Rightarrow> string \<Rightarrow> int \<Rightarrow> cookie" where
  "session_cookie rq v age = \<lparr>ck_Name = CookieSession, ck_Value = v, ck_MaxAge = age, ck_Secure = rr_TLS rq\<rparr>"

definition clearSessionCookie :: "rest_request \<Rightarrow> rest_response \<Rightarrow> rest_response" where
  "clearSessionCookie rq r = RCookie (session_cookie rq [] (- 1)) None r"

definition sessionCreate :: handler where
  "sessionCreate F rq actor a = with_input (decodeOptionalJSON F [] rq actor a)
     (\<lambda>inp a. case CreateOperatorSession (rr_clk rq 3) (rr_rnd rq 0) (rr_rnd rq 1) actor a of
        (Inl e, a1) \<Rightarrow> (writeError e, a1)
      | (Inr sess, a1) \<Rightarrow> (RCookie (session_cookie rq (os_ID sess) 0) (Some (os_Expires sess))
          (RJson 200 (VSession \<lparr>sx_ActorID = an_ID (os_Actor sess), sx_ActorClass = an_Class (os_Actor sess),
             sx_CSRF = os_CSRF sess, sx_Expires = os_Expires sess\<rparr>)), a1))"

text \<open>The session is looked up for its token and expiry before the capability is checked.\<close>

definition sessionGet :: handler where
  "sessionGet F rq actor a = (let
     (found, a1) = (case map_of (rr_Cookies rq) CookieSession of
        None \<Rightarrow> (None, a) | Some v \<Rightarrow> LookupOperatorSession (rr_clk rq 5) v a);
     out = \<lparr>sx_ActorID = an_ID actor, sx_ActorClass = an_Class actor,
       sx_CSRF = (case found of None \<Rightarrow> [] | Some sess \<Rightarrow> os_CSRF sess),
       sx_Expires = (case found of None \<Rightarrow> 0 | Some sess \<Rightarrow> os_Expires sess)\<rparr>
   in answer (\<lambda>_. VSession out) (GetOperatorSession (rr_clk rq 3) actor a1))"

definition sessionDelete :: handler where
  "sessionDelete F rq actor a = with_input (decodeOptionalJSON F [] rq actor a)
     (\<lambda>inp a. case DeleteOperatorSession (rr_clk rq 3) actor (values_Get (rr_Cookies rq) CookieSession) a of
        (Inl e, a1) \<Rightarrow> (writeError e, a1)
      | (Inr _, a1) \<Rightarrow> (clearSessionCookie rq (RJson 200 VOk), a1))"

definition auditList :: handler where
  "auditList F rq actor a = with_list rq a (\<lambda>inp.
     answer VEvents (PageAudit (fe_marshal_audit F) (fe_sha256 F) (rr_clk rq 3) actor inp a))"

definition auditGet :: handler where
  "auditGet F rq actor a = answer VEvent (GetAudit (rr_clk rq 3) actor (PathValue rq ''eventId'') a)"

definition decodeImport :: "frontend \<Rightarrow> rest_request \<Rightarrow> actor \<Rightarrow> app \<Rightarrow> (go_error + inputs) \<times> app" where
  "decodeImport F rq actor a =
     decodeJSON F [''kind'', ''document'', ''expectedRevision'', ''idempotencyKey'', ''reason''] rq actor a"

definition import_of :: "rest_request \<Rightarrow> inputs \<Rightarrow> import_in" where
  "import_of rq inp = \<lparr>ii_Kind = jf_Kind inp, ii_Document = jf_Text inp, ii_ExpectedRevision = expected_of rq inp,
     ii_IdempotencyKey = key_of rq inp, ii_Reason = jf_Reason inp\<rparr>"

definition importPlan :: handler where
  "importPlan F rq actor a = with_input (decodeImport F rq actor a)
     (\<lambda>inp a. answer VImport (ImportPlan (fe_system F) (fe_import F) (rr_clk rq 3) actor (import_of rq inp) a))"

definition importApply :: handler where
  "importApply F rq actor a = with_input (decodeImport F rq actor a)
     (\<lambda>inp a. answer VImport (ImportApply (fe_system F) (fe_import F) (rr_clk rq 3) actor (import_of rq inp) a))"

definition rewriteRedirect :: handler where
  "rewriteRedirect F rq actor a = with_input (decodeJSON F [''clientId'', ''redirectURIs'', ''expectedRevision'', ''idempotencyKey'', ''reason''] rq actor a)
     (\<lambda>inp a. answer VApply (RewriteRedirect (fe_system F) (rr_clk rq 3) actor
        \<lparr>di_ClientID = jf_ClientID inp, di_RedirectURIs = jf_RedirectURIs inp, di_ExpectedRevision = expected_of rq inp,
         di_IdempotencyKey = key_of rq inp, di_Reason = jf_Reason inp\<rparr> a))"

definition expireAll :: handler where
  "expireAll F rq actor a = with_input (decodeOptionalJSON F [''reason''] rq actor a)
     (\<lambda>inp a. answer VExpired (ExpireAllSessions (rr_clk rq 3) actor [jf_Reason inp] a))"

text \<open>\<^verbatim>\<open>web.Handler\<close>: the operator page, unless the configuration turns it off.\<close>

definition web_index :: "app \<Rightarrow> rest_response \<times> app" where
  "web_index a = (if UIEnabled a then RIndex else RText 404 ''404 page not found'', a)"

section \<open>Authentication\<close>

text \<open>
  A bearer token decides alone. Otherwise a live session cookie does, with its CSRF token for every
  method that is not safe; a dead cookie is cleared and the request counts as one without a cookie.
\<close>

definition authenticate ::
  "frontend \<Rightarrow> rest_request \<Rightarrow> app \<Rightarrow> (go_error + actor) \<times> bool \<times> app" where
  "authenticate F rq a = (let
     authz = header rq ''Authorization'';
     direct = Authenticate (fe_net F) (rr_RemoteAddr rq) authz (token_of a)
   in if ParseBearer authz \<noteq> [] then (direct, False, a)
      else case map_of (rr_Cookies rq) CookieSession of
        None \<Rightarrow> (direct, False, a)
      | Some v \<Rightarrow>
        if v = [] then (direct, False, a)
        else let (found, a1) = LookupOperatorSession (rr_clk rq 0) v a in
          (case found of
             None \<Rightarrow> (direct, True, a1)
           | Some sess \<Rightarrow>
             if rr_Method rq \<noteq> ''GET'' \<and> rr_Method rq \<noteq> ''HEAD'' \<and> header rq HeaderCSRF \<noteq> os_CSRF sess
             then (Inl (Forbidden ''csrf'' []), False, a1)
             else (Inr (os_Actor sess), False, a1)))"

definition authed :: "handler \<Rightarrow> frontend \<Rightarrow> rest_request \<Rightarrow> app \<Rightarrow> rest_response \<times> app" where
  "authed fn F rq a = (let
     (who, clear, a1) = authenticate F rq a;
     (resp, a2) = (case who of
        Inl e \<Rightarrow> (writeError e, deny_anonymous (rr_clk rq 1) e a1)
      | Inr actor \<Rightarrow> fn F rq (actor\<lparr>an_Transport := ''rest''\<rparr>) a1)
   in (if clear then clearSessionCookie rq resp else resp, a2))"

section \<open>Routing\<close>

datatype endpoint =
    ELive | EReady | EVersion | ECapabilities | EStatus | ESchema | EState | EValidate | EExport | EReset |
  EPlan | EApply | EClients | EClient | EUsers | EUser | EMFA | EEnroll | EClear | EGroups | EGroup |
  ESessions | ESessionExpire | EPause | EResume | EForceFail | EInject | EVendor | EOverage | EForceConsent |
  EMint | ESessionCreate | ESessionGet | ESessionDelete | EAudit | EEvent | EExpireAll | EImportPlan |
  EImportApply | ERedirect | EIndex | EScript

definition routes :: "string \<Rightarrow> endpoint table" where
  "routes p = [
     (''GET'', p @ ''/health/live'', ELive),
     (''GET'', p @ ''/health/ready'', EReady),
     (''GET'', p @ ''/version'', EVersion),
     (''GET'', p @ ''/capabilities'', ECapabilities),
     (''GET'', p @ ''/status'', EStatus),
     (''GET'', p @ ''/schema/config'', ESchema),
     (''GET'', p @ ''/state'', EState),
     (''POST'', p @ ''/state:validate'', EValidate),
     (''GET'', p @ ''/state:export'', EExport),
     (''POST'', p @ ''/state:reset'', EReset),
     (''POST'', p @ ''/changes:plan'', EPlan),
     (''POST'', p @ ''/changes:apply'', EApply),
     (''GET'', p @ ''/clients'', EClients),
     (''GET'', p @ ''/clients/{id}'', EClient),
     (''GET'', p @ ''/users'', EUsers),
     (''GET'', p @ ''/users/{id}'', EUser),
     (''POST'', p @ ''/auth/mfa'', EMFA),
     (''POST'', p @ ''/users/{id}/totp:enroll'', EEnroll),
     (''POST'', p @ ''/users/{id}/totp:clear'', EClear),
     (''GET'', p @ ''/groups'', EGroups),
     (''GET'', p @ ''/groups/{id}'', EGroup),
     (''GET'', p @ ''/sessions'', ESessions),
     (''POST'', p @ ''/sessions/'', ESessionExpire),
     (''POST'', p @ ''/tunables/token:pause'', EPause),
     (''POST'', p @ ''/tunables/token:resume'', EResume),
     (''POST'', p @ ''/tunables/auth:force-fail'', EForceFail),
     (''POST'', p @ ''/tunables/error:inject'', EInject),
     (''POST'', p @ ''/tunables/vendor:swap'', EVendor),
     (''POST'', p @ ''/tunables/overage:set'', EOverage),
     (''POST'', p @ ''/tunables/consent:force'', EForceConsent),
     (''POST'', p @ ''/tunables/token:mint'', EMint),
     (''POST'', p @ ''/session'', ESessionCreate),
     (''GET'', p @ ''/session'', ESessionGet),
     (''DELETE'', p @ ''/session'', ESessionDelete),
     (''GET'', p @ ''/audit'', EAudit),
     (''GET'', p @ ''/audit/{eventId}'', EEvent),
     (''POST'', p @ ''/sessions:expire-all'', EExpireAll),
     (''POST'', p @ ''/import:plan'', EImportPlan),
     (''POST'', p @ ''/import:apply'', EImportApply),
     (''POST'', p @ ''/tunables/client/redirect:rewrite'', ERedirect),
     (''GET'', ''/{$}'', EIndex),
     (''GET'', ''/app.js'', EScript)]"

definition route_match :: "rest_request \<Rightarrow> string \<times> string \<times> endpoint \<Rightarrow> (string \<times> string) list option" where
  "route_match rq = row_match (rr_Method rq) (rr_Segments rq)"

definition find_route :: "rest_request \<Rightarrow> endpoint table \<Rightarrow> (endpoint \<times> (string \<times> string) list) option" where
  "find_route rq = lookup_row (rr_Method rq) (rr_Segments rq)"

fun serve_endpoint :: "string \<Rightarrow> endpoint \<Rightarrow> frontend \<Rightarrow> rest_request \<Rightarrow> app \<Rightarrow> rest_response \<times> app" where
  "serve_endpoint p ELive F rq a = live a"
| "serve_endpoint p EReady F rq a = ready a"
| "serve_endpoint p EVersion F rq a = authed version F rq a"
| "serve_endpoint p ECapabilities F rq a = authed capabilities F rq a"
| "serve_endpoint p EStatus F rq a = authed status_rest F rq a"
| "serve_endpoint p ESchema F rq a = authed schema F rq a"
| "serve_endpoint p EState F rq a = authed state_rest F rq a"
| "serve_endpoint p EValidate F rq a = authed validate F rq a"
| "serve_endpoint p EExport F rq a = authed export_rest F rq a"
| "serve_endpoint p EReset F rq a = authed reset_rest F rq a"
| "serve_endpoint p EPlan F rq a = authed plan_rest F rq a"
| "serve_endpoint p EApply F rq a = authed apply_rest F rq a"
| "serve_endpoint p EClients F rq a = authed clients_rest F rq a"
| "serve_endpoint p EClient F rq a = authed clientGet F rq a"
| "serve_endpoint p EUsers F rq a = authed users_rest F rq a"
| "serve_endpoint p EUser F rq a = authed userGet F rq a"
| "serve_endpoint p EMFA F rq a = authed setMFA F rq a"
| "serve_endpoint p EEnroll F rq a = authed totpEnroll F rq a"
| "serve_endpoint p EClear F rq a = authed totpClear F rq a"
| "serve_endpoint p EGroups F rq a = authed groups_rest F rq a"
| "serve_endpoint p EGroup F rq a = authed groupGet F rq a"
| "serve_endpoint p ESessions F rq a = authed sessions_rest F rq a"
| "serve_endpoint p ESessionExpire F rq a = authed (sessionExpire p) F rq a"
| "serve_endpoint p EPause F rq a = authed pauseToken F rq a"
| "serve_endpoint p EResume F rq a = authed resumeToken F rq a"
| "serve_endpoint p EForceFail F rq a = authed forceFail F rq a"
| "serve_endpoint p EInject F rq a = authed injectError F rq a"
| "serve_endpoint p EVendor F rq a = authed swapVendor F rq a"
| "serve_endpoint p EOverage F rq a = authed setOverage F rq a"
| "serve_endpoint p EForceConsent F rq a = authed forceConsent F rq a"
| "serve_endpoint p EMint F rq a = authed mintToken F rq a"
| "serve_endpoint p ESessionCreate F rq a = authed sessionCreate F rq a"
| "serve_endpoint p ESessionGet F rq a = authed sessionGet F rq a"
| "serve_endpoint p ESessionDelete F rq a = authed sessionDelete F rq a"
| "serve_endpoint p EAudit F rq a = authed auditList F rq a"
| "serve_endpoint p EEvent F rq a = authed auditGet F rq a"
| "serve_endpoint p EExpireAll F rq a = authed expireAll F rq a"
| "serve_endpoint p EImportPlan F rq a = authed importPlan F rq a"
| "serve_endpoint p EImportApply F rq a = authed importApply F rq a"
| "serve_endpoint p ERedirect F rq a = authed rewriteRedirect F rq a"
| "serve_endpoint p EIndex F rq a = web_index a"
| "serve_endpoint p EScript F rq a = (RScript p, a)"

definition NewRest :: "string \<Rightarrow> string" where
  "NewRest restPath = TrimRight (if restPath = [] then ''/v1'' else restPath) ''/''"

text \<open>\<open>p\<close> is the path under which the server was made.\<close>

definition rest_serve :: "string \<Rightarrow> frontend \<Rightarrow> rest_request \<Rightarrow> app \<Rightarrow> rest_response \<times> app" where
  "rest_serve p F rq a =
     (if \<not> rr_SameOrigin rq then (RText 403 ''cross-origin request detected'', a)
      else if \<not> LoopbackHostAllowed (fe_net F) (rr_RemoteAddr rq) (rr_Host rq) then (RText 403 ''forbidden host'', a)
      else case find_route rq (routes p) of
        None \<Rightarrow> (RUnrouted (unrouted_status (rr_Method rq) (rr_Segments rq) (routes p)), a)
      | Some (e, bs) \<Rightarrow> serve_endpoint p e F (rq\<lparr>rr_PathValues := bs\<rparr>) a)"

end
