(* ===== verification/Mcp.thy ===== *)
theory Mcp
  imports Control
begin

text \<open>
  \<^verbatim>\<open>internal/control/mcp\<close>: the front end of the management application for the Model Context Protocol. The
  third-party SDK parses the JSON-RPC request, checks the arguments of a tool against its schema and hands them to
  the registered function; its verdict on a request is part of the request here.
\<close>

section \<open>Requests and results\<close>

definition ProtocolVersion :: string where "ProtocolVersion = ''2026-07-28''"
definition DefaultPath :: string where "DefaultPath = ''/mcp''"
definition headerProtocol :: string where "headerProtocol = ''Mcp-Protocol-Version''"

text \<open>
  A call as the SDK delivers it: a tool with the raw arguments and the inputs it decoded from them, \<open>None\<close> when
  the arguments do not fit the schema of the tool; the URI of a resource that the SDK found registered, itself
  or by its template; or anything else.
\<close>

datatype mcp_call = CallTool string string "inputs option" | ReadResource string | OtherCall

record mcp_request =
  mq_Header :: "(string \<times> string) list"
  mq_RemoteAddr :: string
  mq_Host :: string
  mq_Version :: string
  mq_Call :: mcp_call
  mq_clk :: "nat \<Rightarrow> nat \<Rightarrow> go_time"
  mq_entropy :: "string option"

text \<open>
  \<open>MError\<close> is a tool result with its structured code, \<open>MInvalid\<close> the unstructured one for arguments that were
  refused, \<open>MHttp\<close> an error of the HTTP layer and \<open>MRpc\<close> one of the JSON-RPC layer. \<open>MSdk\<close> is left to the SDK.
\<close>

datatype mcp_result =
    MText nat string | MHttp nat go_error | MRpc string go_error | MOk reply | MError string go_error | MInvalid
  | MResource string reply | MSdk

section \<open>Tools\<close>

datatype tool =
    TVersionGet | TCapabilitiesGet | TStatusGet | TSchemaGet | TStateGet | TStateValidate | TChangePlan |
  TChangeApply | TStateExport | TStateReset | TClientsList | TClientGet | TUsersList | TUserGet | TMfaSet |
  TTotpEnroll | TTotpClear | TGroupsList | TGroupGet | TSessionsList | TSessionExpire | TTokenPause |
  TTokenResume | TForceFail | TErrorInject | TVendorSwap | TOverageSet | TConsentForce | TTokenMint |
  TAuditQuery | TAuditGet | TImportPlan | TImportApply | TRedirectRewrite | TExpireAll

text \<open>Name, whether the tool mutates, whether it is idempotent, and the tool.\<close>

definition tools :: "(string \<times> bool \<times> bool \<times> tool) list" where
  "tools = [
     (''sso_version_get'', False, True, TVersionGet),
     (''sso_capabilities_get'', False, True, TCapabilitiesGet),
     (''sso_status_get'', False, True, TStatusGet),
     (''sso_schema_get'', False, True, TSchemaGet),
     (''sso_state_get'', False, True, TStateGet),
     (''sso_state_validate'', False, True, TStateValidate),
     (''sso_change_plan'', False, True, TChangePlan),
     (''sso_change_apply'', True, True, TChangeApply),
     (''sso_state_export'', False, True, TStateExport),
     (''sso_state_reset'', True, False, TStateReset),
     (''sso_clients_list'', False, True, TClientsList),
     (''sso_client_get'', False, True, TClientGet),
     (''sso_users_list'', False, True, TUsersList),
     (''sso_user_get'', False, True, TUserGet),
     (''sso_auth_mfa_set'', True, True, TMfaSet),
     (''sso_user_totp_enroll'', True, False, TTotpEnroll),
     (''sso_user_totp_clear'', True, True, TTotpClear),
     (''sso_groups_list'', False, True, TGroupsList),
     (''sso_group_get'', False, True, TGroupGet),
     (''sso_sessions_list'', False, True, TSessionsList),
     (''sso_session_expire'', True, True, TSessionExpire),
     (''sso_tunable_token_pause'', True, True, TTokenPause),
     (''sso_tunable_token_resume'', True, True, TTokenResume),
     (''sso_tunable_auth_force_fail'', True, True, TForceFail),
     (''sso_tunable_error_inject'', True, True, TErrorInject),
     (''sso_tunable_vendor_swap'', True, True, TVendorSwap),
     (''sso_tunable_overage_set'', True, True, TOverageSet),
     (''sso_tunable_consent_force'', True, True, TConsentForce),
     (''sso_tunable_token_mint'', True, True, TTokenMint),
     (''sso_audit_query'', False, True, TAuditQuery),
     (''sso_audit_get'', False, True, TAuditGet),
     (''sso_import_plan'', False, True, TImportPlan),
     (''sso_import_apply'', True, True, TImportApply),
     (''sso_tunable_redirect_rewrite'', True, True, TRedirectRewrite),
     (''sso_sessions_expire_all'', True, True, TExpireAll)]"

text \<open>The JSON names of the fields of the input struct of a tool.\<close>

fun tool_fields :: "tool \<Rightarrow> string list" where
  "tool_fields TVersionGet = []"
| "tool_fields TCapabilitiesGet = []"
| "tool_fields TStatusGet = []"
| "tool_fields TSchemaGet = []"
| "tool_fields TStateGet = []"
| "tool_fields TStateValidate = [''document'', ''expectedRevision'', ''reason'', ''idempotencyKey'', ''operations'']"
| "tool_fields TChangePlan = [''expectedRevision'', ''idempotencyKey'', ''reason'', ''operations'']"
| "tool_fields TChangeApply = [''expectedRevision'', ''idempotencyKey'', ''reason'', ''operations'']"
| "tool_fields TStateExport = [''format'']"
| "tool_fields TStateReset = [''expectedRevision'', ''idempotencyKey'', ''dryRun'', ''reason'']"
| "tool_fields TClientsList = [''cursor'', ''limit'']"
| "tool_fields TClientGet = [''id'']"
| "tool_fields TUsersList = [''cursor'', ''limit'']"
| "tool_fields TUserGet = [''id'']"
| "tool_fields TMfaSet = [''mode'', ''expectedRevision'', ''idempotencyKey'', ''reason'']"
| "tool_fields TTotpEnroll = [''id'', ''reason'']"
| "tool_fields TTotpClear = [''id'', ''reason'']"
| "tool_fields TGroupsList = [''cursor'', ''limit'']"
| "tool_fields TGroupGet = [''id'']"
| "tool_fields TSessionsList = [''cursor'', ''limit'']"
| "tool_fields TSessionExpire = [''id'', ''reason'']"
| "tool_fields TTokenPause = [''reason'']"
| "tool_fields TTokenResume = [''reason'']"
| "tool_fields TForceFail = [''reason'', ''on'']"
| "tool_fields TErrorInject = [''reason'', ''code'']"
| "tool_fields TVendorSwap = [''vendor'', ''tenantId'', ''expectedRevision'', ''idempotencyKey'', ''reason'']"
| "tool_fields TOverageSet = [''entraGraphStub'', ''oktaFailAt'', ''genericCap'', ''expectedRevision'', ''idempotencyKey'', ''reason'']"
| "tool_fields TConsentForce = [''reason'', ''on'']"
| "tool_fields TTokenMint = [''userId'', ''clientId'', ''scope'']"
| "tool_fields TAuditQuery = [''cursor'', ''limit'']"
| "tool_fields TAuditGet = [''id'']"
| "tool_fields TImportPlan = [''kind'', ''document'', ''reason'']"
| "tool_fields TImportApply = [''kind'', ''document'', ''expectedRevision'', ''idempotencyKey'', ''reason'']"
| "tool_fields TRedirectRewrite = [''clientId'', ''redirectURIs'', ''expectedRevision'', ''idempotencyKey'', ''reason'']"
| "tool_fields TExpireAll = [''reason'']"

definition compact_op :: "frontend \<Rightarrow> operation \<Rightarrow> go_error + operation" where
  "compact_op F op = (if op_Value op = [] then Inr op
     else case fe_compact F (op_Value op) of None \<Rightarrow> Inl (Errorf ''json'' []) | Some v \<Rightarrow> Inr (op\<lparr>op_Value := v\<rparr>))"

fun compact_ops :: "frontend \<Rightarrow> operation list \<Rightarrow> go_error + operation list" where
  "compact_ops F [] = Inr []"
| "compact_ops F (op # ops) = bindE (compact_op F op) (\<lambda>x. bindE (compact_ops F ops) (\<lambda>xs. Inr (x # xs)))"

definition toApp :: "frontend \<Rightarrow> inputs \<Rightarrow> go_error + change_in" where
  "toApp F inp = bindE (compact_ops F (jf_Operations inp)) (\<lambda>ops.
     Inr \<lparr>ci_ExpectedRevision = jf_ExpectedRevision inp, ci_IdempotencyKey = jf_IdempotencyKey inp, ci_Reason = jf_Reason inp,
       ci_Operations = ops, ci_fingerprint = []\<rparr>)"

definition with_change ::
  "go_error + change_in \<Rightarrow> app \<Rightarrow> (change_in \<Rightarrow> (go_error + reply) \<times> app) \<Rightarrow> (go_error + reply) \<times> app" where
  "with_change c a k = (case c of Inl e \<Rightarrow> (Inl e, a) | Inr cin \<Rightarrow> k cin)"

definition list_of_inputs :: "inputs \<Rightarrow> list_in" where
  "list_of_inputs inp = \<lparr>li_Cursor = jf_Cursor inp, li_Limit = jf_Limit inp\<rparr>"

text \<open>\<open>clk\<close> is the clock of the operation, \<open>mclk\<close> that of minting, and \<open>rnd\<close> the random bytes of an enrolment.\<close>

fun tool_call ::
  "frontend \<Rightarrow> (nat \<Rightarrow> go_time) \<Rightarrow> (nat \<Rightarrow> go_time) \<Rightarrow> string option \<Rightarrow> tool \<Rightarrow> actor \<Rightarrow> inputs \<Rightarrow> app \<Rightarrow> (go_error + reply) \<times> app" where
  "tool_call F clk mclk rnd TVersionGet actor inp a = reply_of VInfo (Version (fe_info F) clk actor a)"
| "tool_call F clk mclk rnd TCapabilitiesGet actor inp a = reply_of VCapabilities (Capabilities clk actor a)"
| "tool_call F clk mclk rnd TStatusGet actor inp a = reply_of VStatus (GetStatus clk actor a)"
| "tool_call F clk mclk rnd TSchemaGet actor inp a = reply_of VSchema (SchemaConfig (fe_configSchema F) clk actor a)"
| "tool_call F clk mclk rnd TStateGet actor inp a = reply_of VState (GetState clk actor a)"
| "tool_call F clk mclk rnd TStateValidate actor inp a = with_change (toApp F (zero_inputs\<lparr>jf_Operations := jf_Operations inp\<rparr>)) a (\<lambda>cin.
     reply_of VPlan (Validate (fe_system F) clk actor (jf_Document inp) (ci_Operations cin) a))"
| "tool_call F clk mclk rnd TChangePlan actor inp a = with_change (toApp F inp) a (\<lambda>cin.
     reply_of VPlan (PlanChange (fe_system F) clk actor cin a))"
| "tool_call F clk mclk rnd TChangeApply actor inp a = with_change (toApp F inp) a (\<lambda>cin.
     reply_of VApply (Apply (fe_system F) clk actor cin a))"
| "tool_call F clk mclk rnd TStateExport actor inp a = reply_of VExport (Export (fe_system F) (fe_json F) clk actor (jf_Format inp) a)"
| "tool_call F clk mclk rnd TStateReset actor inp a = reply_of VApply (ResetState (fe_system F) clk actor
     \<lparr>ri_ExpectedRevision = jf_ExpectedRevision inp, ri_IdempotencyKey = jf_IdempotencyKey inp, ri_DryRun = jf_DryRun inp,
      ri_Reason = jf_Reason inp\<rparr> a)"
| "tool_call F clk mclk rnd TClientsList actor inp a =
     reply_of VClients (PageClients (fe_marshal_clients F) (fe_sha256 F) clk actor (list_of_inputs inp) a)"
| "tool_call F clk mclk rnd TClientGet actor inp a = reply_of VClient (GetClient clk actor (jf_ID inp) a)"
| "tool_call F clk mclk rnd TUsersList actor inp a =
     reply_of VUsers (PageUsers (fe_marshal_users F) (fe_sha256 F) clk actor (list_of_inputs inp) a)"
| "tool_call F clk mclk rnd TUserGet actor inp a = reply_of VUser (GetUser clk actor (jf_ID inp) a)"
| "tool_call F clk mclk rnd TMfaSet actor inp a = reply_of VApply (SetMFA (fe_system F) clk actor
     \<lparr>mi_Mode = jf_Mode inp, mi_ExpectedRevision = jf_ExpectedRevision inp, mi_IdempotencyKey = jf_IdempotencyKey inp,
      mi_Reason = jf_Reason inp\<rparr> a)"
| "tool_call F clk mclk rnd TTotpEnroll actor inp a = reply_of VEnroll (EnrollTOTP clk rnd actor (jf_ID inp) (jf_Reason inp) a)"
| "tool_call F clk mclk rnd TTotpClear actor inp a = reply_of (\<lambda>_. VOk) (ClearTOTP clk actor (jf_ID inp) (jf_Reason inp) a)"
| "tool_call F clk mclk rnd TGroupsList actor inp a =
     reply_of VGroups (PageGroups (fe_marshal_groups F) (fe_sha256 F) clk actor (list_of_inputs inp) a)"
| "tool_call F clk mclk rnd TGroupGet actor inp a = reply_of VGroup (GetGroup clk actor (jf_ID inp) a)"
| "tool_call F clk mclk rnd TSessionsList actor inp a =
     reply_of VSessions (PageSessions (fe_marshal_sessions F) (fe_sha256 F) clk actor (list_of_inputs inp) a)"
| "tool_call F clk mclk rnd TSessionExpire actor inp a =
     reply_of (\<lambda>_. VOk) (ExpireSession_app clk actor (jf_ID inp) [jf_Reason inp] a)"
| "tool_call F clk mclk rnd TTokenPause actor inp a = reply_of (\<lambda>_. VPaused True) (PauseToken clk actor [jf_Reason inp] a)"
| "tool_call F clk mclk rnd TTokenResume actor inp a = reply_of (\<lambda>_. VPaused False) (ResumeToken clk actor [jf_Reason inp] a)"
| "tool_call F clk mclk rnd TForceFail actor inp a =
     reply_of (\<lambda>_. VOn (jf_On inp)) (ForceFail clk actor (jf_On inp) [jf_Reason inp] a)"
| "tool_call F clk mclk rnd TErrorInject actor inp a =
     reply_of (\<lambda>_. VCode (jf_Code inp)) (InjectError clk actor (jf_Code inp) [jf_Reason inp] a)"
| "tool_call F clk mclk rnd TVendorSwap actor inp a = reply_of VApply (SwapVendor (fe_system F) clk actor
     \<lparr>vi_Vendor = jf_Vendor inp, vi_TenantID = jf_TenantID inp, vi_ExpectedRevision = jf_ExpectedRevision inp,
      vi_IdempotencyKey = jf_IdempotencyKey inp, vi_Reason = jf_Reason inp\<rparr> a)"
| "tool_call F clk mclk rnd TOverageSet actor inp a = reply_of VApply (SetOverage (fe_system F) clk actor
     \<lparr>oi_EntraGraphStub = jf_EntraGraphStub inp, oi_OktaFailAt = jf_OktaFailAt inp, oi_GenericCap = jf_GenericCap inp,
      oi_ExpectedRevision = jf_ExpectedRevision inp, oi_IdempotencyKey = jf_IdempotencyKey inp, oi_Reason = jf_Reason inp\<rparr> a)"
| "tool_call F clk mclk rnd TConsentForce actor inp a =
     reply_of (\<lambda>_. VOn (jf_On inp)) (ForceConsent clk actor (jf_On inp) [jf_Reason inp] a)"
| "tool_call F clk mclk rnd TTokenMint actor inp a = reply_of VMint (MintToken (sy_env (fe_system F)) clk mclk actor
     \<lparr>mt_UserID = jf_UserID inp, mt_ClientID = jf_ClientID inp, mt_Scope = jf_Scope inp\<rparr> a)"
| "tool_call F clk mclk rnd TAuditQuery actor inp a =
     reply_of VEvents (PageAudit (fe_marshal_audit F) (fe_sha256 F) clk actor (list_of_inputs inp) a)"
| "tool_call F clk mclk rnd TAuditGet actor inp a = reply_of VEvent (GetAudit clk actor (jf_ID inp) a)"
| "tool_call F clk mclk rnd TImportPlan actor inp a = reply_of VImport (ImportPlan (fe_system F) (fe_import F) clk actor
     \<lparr>ii_Kind = jf_Kind inp, ii_Document = jf_Text inp, ii_ExpectedRevision = [], ii_IdempotencyKey = [], ii_Reason = jf_Reason inp\<rparr> a)"
| "tool_call F clk mclk rnd TImportApply actor inp a = reply_of VImport (ImportApply (fe_system F) (fe_import F) clk actor
     \<lparr>ii_Kind = jf_Kind inp, ii_Document = jf_Text inp, ii_ExpectedRevision = jf_ExpectedRevision inp,
      ii_IdempotencyKey = jf_IdempotencyKey inp, ii_Reason = jf_Reason inp\<rparr> a)"
| "tool_call F clk mclk rnd TRedirectRewrite actor inp a = reply_of VApply (RewriteRedirect (fe_system F) clk actor
     \<lparr>di_ClientID = jf_ClientID inp, di_RedirectURIs = jf_RedirectURIs inp, di_ExpectedRevision = jf_ExpectedRevision inp,
      di_IdempotencyKey = jf_IdempotencyKey inp, di_Reason = jf_Reason inp\<rparr> a)"
| "tool_call F clk mclk rnd TExpireAll actor inp a = reply_of VExpired (ExpireAllSessions clk actor [jf_Reason inp] a)"

definition tool_result :: "(go_error + reply) \<times> app \<Rightarrow> mcp_result \<times> app" where
  "tool_result res = (case res of
     (Inl e, a) \<Rightarrow> (MError (if CodeOf e = [] then CodeInternal else CodeOf e) e, a) | (Inr v, a) \<Rightarrow> (MOk v, a))"

text \<open>
  The function that \<^verbatim>\<open>add\<close> registers: the arguments are decoded once more into the inputs that the SDK has
  made of them.
\<close>

definition run_tool ::
  "frontend \<Rightarrow> mcp_request \<Rightarrow> tool \<Rightarrow> string \<Rightarrow> inputs \<Rightarrow> actor \<Rightarrow> app \<Rightarrow> mcp_result \<times> app" where
  "run_tool F rq t args inp0 actor a =
     (case (if args = [] then Inr inp0 else fe_unmarshal F (tool_fields t) args inp0) of
        Inl _ \<Rightarrow> (MInvalid, a)
      | Inr inp \<Rightarrow> tool_result (tool_call F (mq_clk rq 3) (mq_clk rq 4) (mq_entropy rq) t actor inp a))"

definition find_tool :: "string \<Rightarrow> tool option" where
  "find_tool name = map_of (map (\<lambda>(n, m, i, t). (n, t)) tools) name"

section \<open>Resources\<close>

definition resources :: "string list" where
  "resources = [''labsso://state'', ''labsso://capabilities'', ''labsso://status'', ''labsso://schema/config'',
     ''labsso://audit/recent'', ''labsso://clients/{id}'', ''labsso://users/{id}'', ''labsso://groups/{id}'']"

definition resourceError :: "go_error \<Rightarrow> mcp_result" where
  "resourceError e = MRpc (if CodeOf e = [] then ''internal'' else CodeOf e) e"

definition resource_result :: "string \<Rightarrow> (go_error + reply) \<times> app \<Rightarrow> mcp_result \<times> app" where
  "resource_result uri res = (case res of (Inl e, a) \<Rightarrow> (resourceError e, a) | (Inr v, a) \<Rightarrow> (MResource uri v, a))"

definition readResource :: "frontend \<Rightarrow> mcp_request \<Rightarrow> string \<Rightarrow> actor \<Rightarrow> app \<Rightarrow> mcp_result \<times> app" where
  "readResource F rq uri actor a = (let clk = mq_clk rq 3; out = resource_result uri in
     if uri = ''labsso://state'' then out (reply_of VState (GetState clk actor a))
     else if uri = ''labsso://capabilities'' then out (reply_of VCapabilities (Capabilities clk actor a))
     else if uri = ''labsso://status'' then out (reply_of VStatus (GetStatus clk actor a))
     else if uri = ''labsso://schema/config'' then out (reply_of VSchema (SchemaConfig (fe_configSchema F) clk actor a))
     else if uri = ''labsso://audit/recent'' then
       out (reply_of VEvents (PageAudit (fe_marshal_audit F) (fe_sha256 F) clk actor \<lparr>li_Cursor = [], li_Limit = 0\<rparr> a))
     else if HasPrefix uri ''labsso://clients/'' then
       out (reply_of VClient (GetClient clk actor (TrimPrefix uri ''labsso://clients/'') a))
     else if HasPrefix uri ''labsso://users/'' then
       out (reply_of VUser (GetUser clk actor (TrimPrefix uri ''labsso://users/'') a))
     else if HasPrefix uri ''labsso://groups/'' then
       out (reply_of VGroup (GetGroup clk actor (TrimPrefix uri ''labsso://groups/'') a))
     else (resourceError (NotFound ''resource %s'' [uri]), a))"

section \<open>The server\<close>

definition validateProtocolVersion :: "mcp_request \<Rightarrow> go_error option" where
  "validateProtocolVersion rq = (let ver = TrimSpace (values_Get (mq_Header rq) headerProtocol) in
     if ver = [] then Some (Protocol ''Mcp-Protocol-Version is required; only %s is supported'' [ProtocolVersion])
     else if ver \<noteq> ProtocolVersion
     then Some (Protocol ''unsupported MCP protocol version %s; only %s is supported'' [ver, ProtocolVersion])
     else None)"

definition dispatch_call :: "frontend \<Rightarrow> mcp_request \<Rightarrow> actor \<Rightarrow> app \<Rightarrow> mcp_result \<times> app" where
  "dispatch_call F rq actor a = (case mq_Call rq of
     CallTool name args verdict \<Rightarrow> (case find_tool name of
       None \<Rightarrow> (MSdk, a)
     | Some t \<Rightarrow> (case verdict of None \<Rightarrow> (MInvalid, a) | Some inp \<Rightarrow> run_tool F rq t args inp actor a))
   | ReadResource uri \<Rightarrow> readResource F rq uri actor a
   | OtherCall \<Rightarrow> (MSdk, a))"

definition pinProtocol :: "bool \<Rightarrow> frontend \<Rightarrow> mcp_request \<Rightarrow> actor \<Rightarrow> app \<Rightarrow> mcp_result \<times> app" where
  "pinProtocol legacy F rq actor a =
     (if \<not> legacy \<and> mq_Version rq \<noteq> [] \<and> mq_Version rq \<noteq> ProtocolVersion
      then (MRpc CodeProtocol (Protocol ''unsupported MCP protocol version %s'' [mq_Version rq]), a)
      else let (res, a1) = dispatch_call F rq actor a in
        (res, if res = MInvalid then RejectInput (mq_clk rq 2) actor (Validation ''MCP arguments rejected'' []) a1 else a1))"

definition authenticate_mcp :: "frontend \<Rightarrow> mcp_request \<Rightarrow> app \<Rightarrow> go_error + actor" where
  "authenticate_mcp F rq a =
     Authenticate (fe_net F) (mq_RemoteAddr rq) (values_Get (mq_Header rq) ''Authorization'') (token_of a)"

definition mcp_serve :: "bool \<Rightarrow> frontend \<Rightarrow> mcp_request \<Rightarrow> app \<Rightarrow> mcp_result \<times> app" where
  "mcp_serve legacy F rq a =
     (if \<not> LoopbackHostAllowed (fe_net F) (mq_RemoteAddr rq) (mq_Host rq) then (MText 403 ''forbidden host'', a)
      else case (if legacy then None else validateProtocolVersion rq) of
        Some e \<Rightarrow> (MHttp 400 e, a)
      | None \<Rightarrow> (case authenticate_mcp F rq a of
          Inl e \<Rightarrow> (MHttp 401 e, deny_anonymous (mq_clk rq 1) e a)
        | Inr actor \<Rightarrow> pinProtocol legacy F rq (actor\<lparr>an_Transport := ''mcp''\<rparr>) a))"

end
