(* ===== verification/Dataplane.thy ===== *)
theory Dataplane
  imports Loginui App Router
begin

text \<open>
  The data plane as one handler: the routes of \<^verbatim>\<open>oidc/provider.go\<close>, \<^verbatim>\<open>saml/provider.go\<close>, \<^verbatim>\<open>wsfed/provider.go\<close> and
  \<^verbatim>\<open>loginui/ui.go\<close>, and their composition in \<^verbatim>\<open>app.New\<close>. A request works on the snapshot that was active when
  it arrived, and its refusals and warnings reach the audit ring.
\<close>

section \<open>Surroundings\<close>

text \<open>\<open>dl_jwk\<close> is the public key of a signing key as JSON, and whether it is one.\<close>

record datalib =
  dl_env :: env
  dl_saml :: samllib
  dl_comp :: comp
  dl_jwk :: "string \<Rightarrow> json \<times> bool"

definition jwks :: "datalib \<Rightarrow> snapshot option \<Rightarrow> response" where
  "jwks D s = (case snapOIDC s of
     Inl e \<Rightarrow> e
   | Inr snap \<Rightarrow> (case ev_signer (dl_env D) (sn_SigningKey snap) of
       None \<Rightarrow> HttpError 500 ''signing key''
     | Some alg \<Rightarrow> (let (key, public) = dl_jwk D (sn_SigningKey snap) in
         if \<not> public then HttpError 500 ''jwks leaked private key'' else JsonResp 200 [(''keys'', JArr [key])])))"

section \<open>OpenID\<close>

datatype oidc_target =
    PDiscovery | PTwoSegment | PSiteminder | PAuthorize | PToken | PJWKS | PUserInfo | PLogout | PGraph

definition rows :: "string \<Rightarrow> 'e \<Rightarrow> string list \<Rightarrow> 'e table" where
  "rows m e paths = map (\<lambda>p. (m, p, e)) paths"

definition logout_paths :: "string list" where
  "logout_paths = [''/oauth2/logout'', ''/oauth2/v2.0/logout'', ''/oauth2/default/v1/logout'',
     ''/idp/startSLO.ping'', ''/adfs/oauth2/logout'', ''/logout'', ''/realms/{realm}/protocol/openid-connect/logout'',
     ''/oidc/{name}/logout'', ''/affwebservices/CASSO/oidc/{name}/logout'', ''/idp/profile/oidc/logout'']"

definition oidc_patterns :: "oidc_target table" where
  "oidc_patterns = [(''GET'', ''/.well-known/openid-configuration'', PDiscovery),
       (''GET'', ''/{a}/{b}/.well-known/openid-configuration'', PTwoSegment),
       (''GET'', ''/affwebservices/CASSO/oidc/{name}/.well-known/openid-configuration'', PSiteminder)]
     @ rows ''GET'' PAuthorize [''/oauth2/authorize'', ''/oauth2/v2.0/authorize'', ''/oauth2/default/v1/authorize'',
       ''/as/authorization.oauth2'', ''/adfs/oauth2/authorize'', ''/o/oauth2/v2/auth'',
       ''/realms/{realm}/protocol/openid-connect/auth'', ''/authorize'', ''/oidc/{name}/authorize'',
       ''/affwebservices/CASSO/oidc/{name}/authorize'', ''/idp/profile/oidc/authorize'']
     @ rows ''POST'' PToken [''/oauth2/token'', ''/oauth2/v2.0/token'', ''/oauth2/default/v1/token'',
       ''/as/token.oauth2'', ''/adfs/oauth2/token'', ''/token'', ''/realms/{realm}/protocol/openid-connect/token'',
       ''/oidc/{name}/token'', ''/affwebservices/CASSO/oidc/{name}/token'', ''/idp/profile/oidc/token'']
     @ rows ''GET'' PJWKS [''/oauth2/jwks'', ''/oauth2/v2.0/jwks'', ''/oauth2/default/v1/jwks'',
       ''/pf/JWKS'', ''/adfs/discovery/keys'', ''/oauth2/v3/certs'', ''/realms/{realm}/protocol/openid-connect/certs'', ''/jwks'',
       ''/oidc/{name}/jwks'', ''/affwebservices/CASSO/oidc/{name}/jwks'', ''/idp/profile/oidc/keyset'']
     @ rows ''GET'' PUserInfo [''/oauth2/userinfo'', ''/oauth2/v2.0/userinfo'', ''/oauth2/default/v1/userinfo'',
       ''/idp/userinfo.openid'', ''/adfs/userinfo'', ''/oauth2/v3/userinfo'',
       ''/realms/{realm}/protocol/openid-connect/userinfo'', ''/userinfo'', ''/oidc/{name}/userinfo'',
       ''/affwebservices/CASSO/oidc/{name}/userinfo'', ''/idp/profile/oidc/userinfo'']
     @ rows ''GET'' PLogout logout_paths @ rows ''POST'' PLogout logout_paths
     @ [(''POST'', ''/v1.0/users/{oid}/getMemberGroups'', PGraph)]"

fun oidc_page ::
  "datalib \<Rightarrow> snapshot option \<Rightarrow> (string \<times> string) list \<Rightarrow> request \<Rightarrow> oidc_target \<Rightarrow> provider \<Rightarrow> response \<times> provider" where
  "oidc_page D s bs rq PDiscovery p = (discovery (dl_env D) s, p)"
| "oidc_page D s bs rq PTwoSegment p = (twoSegmentDiscovery (dl_env D) s (values_Get bs ''a'') (values_Get bs ''b''), p)"
| "oidc_page D s bs rq PSiteminder p = (siteminderDiscovery (dl_env D) s (values_Get bs ''name''), p)"
| "oidc_page D s bs rq PAuthorize p = requirePath ct_AuthorizePath s rq (authorize (dl_env D) s rq) p"
| "oidc_page D s bs rq PToken p = requirePath ct_TokenPath s rq (token (dl_env D) s rq) p"
| "oidc_page D s bs rq PJWKS p = requirePath ct_JWKSPath s rq (\<lambda>p. (jwks D s, p)) p"
| "oidc_page D s bs rq PUserInfo p = requirePath ct_UserInfoPath s rq (\<lambda>p. (userinfo (dl_env D) s rq p, p)) p"
| "oidc_page D s bs rq PLogout p = requirePath ct_LogoutPath s rq (logout (dl_env D) s rq) p"
| "oidc_page D s bs rq PGraph p = (graphMemberGroups (dl_env D) s (values_Get bs ''oid'') rq p, p)"

text \<open>The answer of the router of the provider, which has no subtrees, to a path that no pattern matches.\<close>

definition unmatched :: "string list \<Rightarrow> 'e table \<Rightarrow> response" where
  "unmatched segs tab =
     (if known_path segs tab then HttpError 405 ''Method Not Allowed'' else HttpError 404 ''404 page not found'')"

definition oidc_handler ::
  "datalib \<Rightarrow> snapshot option \<Rightarrow> string list \<Rightarrow> request \<Rightarrow> provider \<Rightarrow> response \<times> provider" where
  "oidc_handler D s segs rq p = (let
     (resp, p1) = (case lookup_row (rq_Method rq) segs oidc_patterns of
        None \<Rightarrow> (unmatched segs oidc_patterns, p) | Some (pg, bs) \<Rightarrow> oidc_page D s bs rq pg p)
   in (resp, p1\<lparr>pv_rt := AuditRejected ''oidc_request_rejected'' (status resp) (pv_rt p1)\<rparr>))"

section \<open>Federation and login forms\<close>

datatype fed_target =
    FSAMLMeta | FSSO string | FWSMeta | FWSPassive | FLogin | FLoginPost | FConsent | FConsentPost

definition saml_patterns :: "fed_target table" where
  "saml_patterns =
     rows ''GET'' FSAMLMeta [''/saml/metadata'', ''/saml2/sp/{name}/metadata'', ''/affwebservices/public/saml2meta'',
       ''/idp/shibboleth'']
     @ rows ''GET'' (FSSO ''GET'') [''/saml/sso'', ''/saml2/sp/{name}/sso'', ''/affwebservices/public/saml2sso'',
       ''/idp/profile/SAML2/Redirect/SSO'']
     @ rows ''POST'' (FSSO ''POST'') [''/saml/sso'', ''/saml2/sp/{name}/sso'', ''/affwebservices/public/saml2sso'',
       ''/idp/profile/SAML2/POST/SSO'']"

definition wsfed_patterns :: "fed_target table" where
  "wsfed_patterns = [(''GET'', ''/wsfed/metadata'', FWSMeta),
     (''GET'', ''/FederationMetadata/2007-06/FederationMetadata.xml'', FWSMeta),
     (''GET'', ''/wsfed/passive'', FWSPassive), (''GET'', ''/adfs/ls/'', FWSPassive)]"

definition login_patterns :: "fed_target table" where
  "login_patterns = [(''GET'', ''/login'', FLogin), (''POST'', ''/login'', FLoginPost),
     (''GET'', ''/consent'', FConsent), (''POST'', ''/consent'', FConsentPost)]"

definition on_runtime :: "(runtime \<Rightarrow> response \<times> runtime) \<Rightarrow> ui \<Rightarrow> response \<times> ui" where
  "on_runtime f u = (let (resp, r) = f (ui_rt u) in (resp, set_ui_rt r u))"

fun fed_page :: "datalib \<Rightarrow> snapshot option \<Rightarrow> request \<Rightarrow> fed_target \<Rightarrow> ui \<Rightarrow> response \<times> ui" where
  "fed_page D s rq FSAMLMeta u = on_runtime (requireMeta s rq (\<lambda>r. (metadata (dl_comp D) s, r))) u"
| "fed_page D s rq (FSSO m) u = on_runtime (requireSSO m s rq (sso (dl_saml D) (dl_comp D) s rq)) u"
| "fed_page D s rq FWSMeta u = on_runtime (require_wsfed ct_WSFedMetadataPath s rq (\<lambda>r. (metadata_wsfed (dl_comp D) s, r))) u"
| "fed_page D s rq FWSPassive u =
     on_runtime (require_wsfed ct_WSFedPassivePath s rq (passive_wsfed (dl_saml D) (dl_comp D) s rq)) u"
| "fed_page D s rq FLogin u = (getLogin s rq, u)"
| "fed_page D s rq FLoginPost u = post_login_endpoint (dl_env D) (dl_saml D) (dl_comp D) s rq u"
| "fed_page D s rq FConsent u = (getConsent s rq, u)"
| "fed_page D s rq FConsentPost u = post_consent_endpoint (dl_env D) (dl_saml D) (dl_comp D) s rq u"

section \<open>The handler of the application\<close>

text \<open>
  The OpenID provider takes every request that the other routes leave, unless the path lacks only the slash of one of
  their subtrees; then the client is sent to that path, with its query.
\<close>

definition https_handler ::
  "datalib \<Rightarrow> snapshot option \<Rightarrow> string list \<Rightarrow> request \<Rightarrow> ui \<Rightarrow> response \<times> ui" where
  "https_handler D s segs rq u = (let tab = saml_patterns @ wsfed_patterns @ login_patterns in
   case lookup_row (rq_Method rq) segs tab of
     Some (pg, _) \<Rightarrow> fed_page D s rq pg u
   | None \<Rightarrow> if redirect_to_slash (rq_Method rq) segs tab then (Moved (rq_Path rq @ ''/''), u) else (let (resp, p) = oidc_handler D s segs rq (ui_oidc u) in (resp, u\<lparr>ui_oidc := p\<rparr>)))"

text \<open>The running process: the application, and what the login form keeps for itself.\<close>

record lab =
  lb_app :: app
  lb_limit :: limiter
  lb_verifies :: nat

definition ui_of :: "lab \<Rightarrow> ui" where
  "ui_of b = \<lparr>ui_oidc = ap_oidc (lb_app b), ui_hasSAML = True, ui_hasWSFed = True, ui_limit = lb_limit b,
     ui_verifies = lb_verifies b\<rparr>"

definition NewLab :: "app \<Rightarrow> lab" where
  "NewLab a = (let u = NewUI (ap_oidc a) True True in \<lparr>lb_app = a, lb_limit = ui_limit u, lb_verifies = ui_verifies u\<rparr>)"

text \<open>
  The callbacks that \<^verbatim>\<open>app.New\<close> installs write to the audit ring; the runtime keeps the calls as a list, and
  those of the request are emitted after it.
\<close>

definition rejection_event :: "string \<Rightarrow> event" where
  "rejection_event category = zero_event\<lparr>el_Capability := ''sso.auth.rejected'', el_Transport := ''data-plane'',
     el_Reason := category, el_Result := ResultDenied\<rparr>"

definition new_events :: "provider \<Rightarrow> provider \<Rightarrow> event list" where
  "new_events p p' = map warning_event (drop (length (pv_warns p)) (pv_warns p'))
     @ map rejection_event (drop (length (rt_rejects (pv_rt p))) (rt_rejects (pv_rt p')))"

definition serve_data ::
  "datalib \<Rightarrow> (nat \<Rightarrow> go_time) \<Rightarrow> string list \<Rightarrow> request \<Rightarrow> lab \<Rightarrow> response \<times> lab" where
  "serve_data D clk segs rq b = (let a = lb_app b;
     (resp, u) = https_handler D (Load (ap_store a)) segs rq (ui_of b)
   in (resp, b\<lparr>lb_app := a\<lparr>ap_oidc := ui_oidc u, 
          ap_audit := emit_all (stamped clk (new_events (ap_oidc a) (ui_oidc u))) (ap_audit a)\<rparr>,
        lb_limit := ui_limit u, lb_verifies := ui_verifies u\<rparr>))"

end
