(* ===== verification/Serve.thy ===== *)
theory Serve
  imports Rest Mcp Dataplane
begin

text \<open>
  \<^verbatim>\<open>src/cmd/labsso\<close>: the command line, and \<^verbatim>\<open>labsso serve\<close>, which installs the bootstrap configuration, opens the two
  listeners, mounts the data plane on one and both front ends of the management application on the other, serves
  until it is interrupted or a server fails, and releases what it holds.
\<close>

section \<open>Surroundings\<close>

text \<open>What \<^verbatim>\<open>net.Listen\<close> can fail with, as far as the code looks at it.\<close>

datatype listen_error = EACCES | EPERM | ListenError string

text \<open>
  \<open>ho_listen i\<close> is the \<open>i\<close>-th call of \<^verbatim>\<open>listen\<close> (0 HTTPS, 1 management), \<open>ho_writePid\<close> whether the file can be written,
  \<open>ho_Getwd\<close> the working directory, \<open>ho_json\<close> the JSON encoder, \<open>ho_get\<close> the status that a URL answers with, and
  \<open>ho_info\<close> version and commit of the build.
\<close>

record host =
  ho_front :: frontend
  ho_data :: datalib
  ho_listen :: "nat \<Rightarrow> string \<Rightarrow> listen_error option"
  ho_writePid :: "string \<Rightarrow> bool"
  ho_Getwd :: "string option"
  ho_json :: "document \<Rightarrow> string option"
  ho_get :: "string \<Rightarrow> nat option"
  ho_info :: "string \<times> string"

text \<open>The process: its state, its open listeners with their addresses, and what it has printed (unrendered).\<close>

datatype listener = HTTPSListener | MgmtListener

record process =
  pr_lab :: lab
  pr_open :: "(listener \<times> string) list"
  pr_out :: "(string \<times> string list) list"

definition on_app :: "(app \<Rightarrow> app) \<Rightarrow> process \<Rightarrow> process" where
  "on_app f q = q\<lparr>pr_lab := (pr_lab q)\<lparr>lb_app := f (lb_app (pr_lab q))\<rparr>\<rparr>"

definition proc_app :: "process \<Rightarrow> app" where "proc_app q = lb_app (pr_lab q)"

text \<open>A listener is open from the successful call of \<^verbatim>\<open>listen\<close> until it is closed.\<close>

definition opened :: "listener \<Rightarrow> string \<Rightarrow> process \<Rightarrow> process" where
  "opened l addr q = q\<lparr>pr_open := pr_open q @ [(l, addr)]\<rparr>"

definition closed :: "listener \<Rightarrow> process \<Rightarrow> process" where
  "closed l q = q\<lparr>pr_open := filter (\<lambda>x. fst x \<noteq> l) (pr_open q)\<rparr>"

section \<open>Checks before serving\<close>

record serve_runtime =
  sr_HTTPSAddr :: string
  sr_MgmtAddr :: string
  sr_Shutdown :: int

definition validateRuntime :: "netlib \<Rightarrow> serve_runtime \<Rightarrow> go_error option" where
  "validateRuntime N rt = (case ValidateListenAddress N (sr_HTTPSAddr rt) False of
     Some e \<Rightarrow> Some (Wrapf ''HTTPS address: %w'' [] e)
   | None \<Rightarrow> (case (if sr_MgmtAddr rt \<noteq> ''off'' then ValidateListenAddress N (sr_MgmtAddr rt) True else None) of
       Some e \<Rightarrow> Some (Wrapf ''management address: %w'' [] e)
     | None \<Rightarrow> check (sr_Shutdown rt \<le> 0) (Errorf ''shutdown timeout must be positive'' [])))"

definition dest443Help :: string where
  "dest443Help = ''Host dest-443 occupancy (if this is a publish/listen failure, not container EACCES/EPERM) is fixed by:'' @ [CHR 0x0A]
     @ ''  1. stop/disable the occupant (nginx, caddy, apache, another compose stack), or'' @ [CHR 0x0A]
     @ ''  2. extra IP for LAB_PUBLIC_HOST, or'' @ [CHR 0x0A]
     @ ''  3. escape LABSSO_HTTPS_PORT (SUTs that cannot set dest port cannot follow).''"

definition isPerm :: "listen_error \<Rightarrow> bool" where
  "isPerm e = (e = EACCES \<or> e = EPERM)"

definition listen_text :: "listen_error \<Rightarrow> go_error" where
  "listen_text e = (case e of EACCES \<Rightarrow> Errorf ''permission denied'' [] | EPERM \<Rightarrow> Errorf ''operation not permitted'' []
     | ListenError s \<Rightarrow> Errorf ''%s'' [s])"

definition wrapListenErr :: "string \<Rightarrow> listen_error option \<Rightarrow> go_error option" where
  "wrapListenErr addr err = (case err of
     None \<Rightarrow> None
   | Some e \<Rightarrow> if isPerm e then Some (Wrapf ''HTTPS bind %s: %w'' [addr] (listen_text e))
       else Some (Wrapf (''HTTPS bind %s: %w'' @ [CHR 0x0A, CHR 0x0A] @ ''%s'') [addr, dest443Help] (listen_text e)))"

section \<open>Management requests\<close>

text \<open>How the management listener is mounted: \<^verbatim>\<open>rest.New\<close>, the path of the MCP server, and its policy.\<close>

record mounted =
  mn_rest :: string
  mn_mcp :: string
  mn_legacy :: bool

definition mount :: "document \<Rightarrow> mounted" where
  "mount d = (let m = ls_Management (sp_Listeners (dc_Spec d)) in
     \<lparr>mn_rest = NewRest (ml_RESTPath m), mn_mcp = (if ml_MCPPath m = [] then ''/mcp'' else ml_MCPPath m),
      mn_legacy = ml_AllowLegacyClients m\<rparr>)"

text \<open>One HTTP request, as each of the two front ends reads it.\<close>

record mgmt_request =
  mg_rest :: rest_request
  mg_mcp :: mcp_request

datatype mgmt_response = GText nat string | GRest rest_response | GMcp mcp_result

text \<open>
  The router of the listener: the path of the MCP server is served by it, under every method, and everything else
  by the REST server; both stand behind the cross-origin check.
\<close>

definition to_mcp :: "mounted \<Rightarrow> mgmt_request \<Rightarrow> bool" where
  "to_mcp m rq \<longleftrightarrow> match_segments (parse_pattern (mn_mcp m)) (rr_Segments (mg_rest rq)) \<noteq> None"

definition mgmt_serve :: "mounted \<Rightarrow> frontend \<Rightarrow> mgmt_request \<Rightarrow> app \<Rightarrow> mgmt_response \<times> app" where
  "mgmt_serve m F rq a =
     (if \<not> rr_SameOrigin (mg_rest rq) then (GText 403 ''cross-origin request detected'', a)
      else if to_mcp m rq then (let (r, a1) = mcp_serve (mn_legacy m) F (mg_mcp rq) a in (GMcp r, a1))
      else (let (r, a1) = rest_serve (mn_rest m) F (mg_rest rq) a in (GRest r, a1)))"

section \<open>Serving\<close>

text \<open>What arrives at the process while it serves; without a management listener nothing arrives there.\<close>

datatype arrival = Managed mgmt_request | Public "string list" request "nat \<Rightarrow> go_time"

fun arrive :: "host \<Rightarrow> mounted option \<Rightarrow> arrival \<Rightarrow> process \<Rightarrow> process" where
  "arrive H m (Managed rq) q =
     (case m of None \<Rightarrow> q | Some mn \<Rightarrow> on_app (\<lambda>a. snd (mgmt_serve mn (ho_front H) rq a)) q)"
| "arrive H m (Public segs rq clk) q = q\<lparr>pr_lab := snd (serve_data (ho_data H) clk segs rq (pr_lab q))\<rparr>"

text \<open>The certificate that a TLS handshake is answered with is that of the active snapshot.\<close>

definition GetCertificate :: "comp \<Rightarrow> process \<Rightarrow> go_error + string \<times> string" where
  "GetCertificate K q = (case Load (ap_store (proc_app q)) of
     None \<Rightarrow> Inl (Errorf ''no active TLS snapshot'' [])
   | Some snap \<Rightarrow> if cm_keyPair K (sn_TLSCert snap) (sn_TLSKey snap) then Inr (sn_TLSCert snap, sn_TLSKey snap)
       else Inl (Errorf ''tls'' []))"

text \<open>
  The deferred functions of \<^verbatim>\<open>runServe\<close>, each registered once what it releases is held: the one that closes the
  HTTPS listener, the one that closes the management listener, and the one that shuts the servers down. That
  shutting a server down closes its listener, too, is not relied on.
\<close>

definition close_https :: "process \<Rightarrow> process" where
  "close_https q = on_app (SetHTTPSBound False) (closed HTTPSListener q)"

definition shut_down :: "process \<Rightarrow> process" where
  "shut_down q = on_app (SetHTTPSBound False) q"

text \<open>They run in the reverse order, those that were registered.\<close>

definition release :: "mounted option \<Rightarrow> process \<Rightarrow> process" where
  "release m q = close_https ((if m = None then id else closed MgmtListener) (shut_down q))"

text \<open>\<^verbatim>\<open>mcp.New\<close> returns an error value, which no path of it sets; the server keeps the policy for old clients.\<close>

definition NewMcp :: "bool \<Rightarrow> go_error + bool" where
  "NewMcp allowLegacy = Inr allowLegacy"

text \<open>
  The first part of \<^verbatim>\<open>runServe\<close>, up to the point where the servers run. \<open>Panicked\<close> is the nil dereference of a
  snapshot without a document; the deferred functions run in this case, too.
\<close>

datatype started = Started "mounted option" | Refused go_error | Panicked

definition announce :: "serve_runtime \<Rightarrow> snapshot \<Rightarrow> process \<Rightarrow> process" where
  "announce rt snap q = (on_app (SetHTTPSBound True \<circ> SetRequireHTTPS True) q)\<lparr>
     pr_out := pr_out q @ [(''labsso serve https=%s management=%s issuer=%s'', [sr_HTTPSAddr rt, sr_MgmtAddr rt, sn_Issuer snap])]\<rparr>"

definition serve_start :: "host \<Rightarrow> serve_runtime \<Rightarrow> process \<Rightarrow> started \<times> process" where
  "serve_start H rt q0 = (let K = sy_comp (fe_system (ho_front H)) in
     case Load (ap_store (proc_app q0)) of
       None \<Rightarrow> (Refused (Errorf ''no snapshot'' []), q0)
     | Some snap \<Rightarrow> let q = on_app (SetHTTPSBound False \<circ> SetRequireHTTPS True) q0 in
       (case validateRuntime (cm_net K) rt of
          Some e \<Rightarrow> (Refused e, q)
        | None \<Rightarrow>
          if \<not> cm_keyPair K (sn_TLSCert snap) (sn_TLSKey snap) then (Refused (Errorf ''tls key pair: %w'' []), q)
          else (case wrapListenErr (sr_HTTPSAddr rt) (ho_listen H 0 (sr_HTTPSAddr rt)) of
            Some e \<Rightarrow> (Refused e, q)
          | None \<Rightarrow> let q1 = opened HTTPSListener (sr_HTTPSAddr rt) q in
            if sr_MgmtAddr rt = ''off'' then (Started None, announce rt snap q1)
            else (case sn_Canonical snap of
              None \<Rightarrow> (Panicked, close_https q1)
            | Some d \<Rightarrow> (case NewMcp (ml_AllowLegacyClients (ls_Management (sp_Listeners (dc_Spec d)))) of
                Inl e \<Rightarrow> (Refused e, close_https (closed HTTPSListener q1))
              | Inr _ \<Rightarrow> (case ho_listen H 1 (sr_MgmtAddr rt) of
                  Some e \<Rightarrow> (Refused (Wrapf ''management listen %s: %w'' [sr_MgmtAddr rt] (listen_text e)),
                    close_https (closed HTTPSListener q1))
                | None \<Rightarrow> (Started (Some (mount d)), announce rt snap (opened MgmtListener (sr_MgmtAddr rt) q1))))))))"

text \<open>
  How serving ends: the context is done, or one of the servers returns. The requests that were served until then are
  given as a list, in the order in which they took effect.
\<close>

datatype ending = Interrupted | ServerReturned "go_error option"

definition ErrServerClosed :: go_error where "ErrServerClosed = Errorf ''http: Server closed'' []"
definition Canceled :: go_error where "Canceled = Errorf ''context canceled'' []"

fun errors_Is :: "go_error \<Rightarrow> go_error \<Rightarrow> bool" where
  "errors_Is (Wrapf f args e) target = (Wrapf f args e = target \<or> errors_Is e target)"
| "errors_Is e target = (e = target)"

definition ended :: "ending \<Rightarrow> go_error option" where
  "ended en = (case en of Interrupted \<Rightarrow> None | ServerReturned None \<Rightarrow> None
     | ServerReturned (Some e) \<Rightarrow> if errors_Is e ErrServerClosed then None else Some e)"

datatype run_result = Returned "go_error option" | Crashed

definition runServe :: "host \<Rightarrow> serve_runtime \<Rightarrow> arrival list \<Rightarrow> ending \<Rightarrow> process \<Rightarrow> run_result \<times> process" where
  "runServe H rt xs en q = (case serve_start H rt q of
     (Refused e, q1) \<Rightarrow> (Returned (Some e), q1)
   | (Panicked, q1) \<Rightarrow> (Crashed, q1)
   | (Started m, q1) \<Rightarrow> (Returned (ended en), release m (fold (arrive H m) xs q1)))"

section \<open>The command line\<close>

text \<open>
  The flags of the commands after parsing; \<open>None\<close> stands for arguments that the flag package refuses. A command
  ends with an exit code, the error it printed (unrendered), and what it wrote to the standard output.
\<close>

record serve_flags =
  sf_Config :: string
  sf_BaseDir :: string
  sf_HTTPSListen :: string
  sf_MgmtListen :: string
  sf_Shutdown :: int
  sf_PidFile :: string

record exit =
  ex_Code :: nat
  ex_Err :: "go_error option"
  ex_Out :: "(string \<times> string list) list"

definition fails :: "nat \<Rightarrow> go_error \<Rightarrow> exit" where
  "fails code e = \<lparr>ex_Code = code, ex_Err = Some e, ex_Out = []\<rparr>"

definition done_with :: "(string \<times> string list) list \<Rightarrow> exit" where
  "done_with out = \<lparr>ex_Code = 0, ex_Err = None, ex_Out = out\<rparr>"

definition bad_flags :: exit where
  "bad_flags = \<lparr>ex_Code = 2, ex_Err = None, ex_Out = []\<rparr>"

definition mustCwd :: "host \<Rightarrow> string" where
  "mustCwd H = (case ho_Getwd H of None \<Rightarrow> [] | Some d \<Rightarrow> d)"

text \<open>The application and its front end work relative to the base directory.\<close>

definition in_dir :: "string \<Rightarrow> host \<Rightarrow> host" where
  "in_dir base H = H\<lparr>ho_front := (ho_front H)\<lparr>fe_system := (fe_system (ho_front H))\<lparr>sy_comp :=
     (sy_comp (fe_system (ho_front H)))\<lparr>cm_BaseDir := base\<rparr>\<rparr>\<rparr>,
     ho_data := (ho_data H)\<lparr>dl_comp := (dl_comp (ho_data H))\<lparr>cm_BaseDir := base\<rparr>\<rparr>\<rparr>"

definition NewProcess :: "string \<Rightarrow> process" where
  "NewProcess path = \<lparr>pr_lab = NewLab (NewApp NewStore path), pr_open = [], pr_out = []\<rparr>"

definition override :: "string \<Rightarrow> string \<Rightarrow> string" where
  "override flag v = (if flag \<noteq> [] then flag else v)"

text \<open>The addresses of the snapshot, unless flags give others.\<close>

definition serve_addresses :: "serve_flags \<Rightarrow> document \<Rightarrow> serve_runtime" where
  "serve_addresses f d = (let ls = sp_Listeners (dc_Spec d) in
     \<lparr>sr_HTTPSAddr = override (sf_HTTPSListen f) (hl_Address (ls_HTTPS ls)),
      sr_MgmtAddr = override (sf_MgmtListen f) (ml_Address (ls_Management ls)), sr_Shutdown = sf_Shutdown f\<rparr>)"

definition serveCmd ::
  "host \<Rightarrow> (nat \<Rightarrow> go_time) \<Rightarrow> serve_flags option \<Rightarrow> arrival list \<Rightarrow> ending \<Rightarrow> exit \<times> process" where
  "serveCmd H0 clk flags xs en = (case flags of
     None \<Rightarrow> (bad_flags, NewProcess [])
   | Some f \<Rightarrow>
     if sf_Config f = [] then (fails 2 (Errorf ''labsso serve: --config is required'' []), NewProcess [])
     else if sf_HTTPSListen f = ''off''
     then (fails 2 (Errorf ''labsso serve: HTTPS dest-443 is required; --https-listen=off is not allowed'' []), NewProcess [])
     else let H = in_dir (if sf_BaseDir f = [] then mustCwd H0 else sf_BaseDir f) H0;
              Y = fe_system (ho_front H); q0 = NewProcess (sf_Config f) in
       (case InstallBootstrapFile Y clk (proc_app q0) of
          (Inl e, a) \<Rightarrow> (fails 1 (Wrapf ''labsso serve: bootstrap: %v'' [] e), on_app (\<lambda>_. a) q0)
        | (Inr boot, a) \<Rightarrow> let q = on_app (\<lambda>_. a) q0 in
          (case canonical_of (Load (ap_store a)) of
             None \<Rightarrow> (fails 2 (Errorf ''panic'' []), q)
           | Some d \<Rightarrow> let rt = serve_addresses f d in
             (case validateRuntime (cm_net (sy_comp Y)) rt of
                Some e \<Rightarrow> (fails 2 (Wrapf ''labsso serve: %v'' [] e), q)
              | None \<Rightarrow>
                if sf_PidFile f \<noteq> [] \<and> \<not> ho_writePid H (sf_PidFile f)
                then (fails 1 (Errorf ''labsso serve: pid-file: %v'' []), q)
                else (case runServe H rt xs en q of
                  (Crashed, q1) \<Rightarrow> (fails 2 (Errorf ''panic'' []), q1)
                | (Returned (Some e), q1) \<Rightarrow>
                    (if errors_Is e Canceled then done_with (pr_out q1)
                     else \<lparr>ex_Code = 1, ex_Err = Some (Wrapf ''labsso serve: %v'' [] e), ex_Out = pr_out q1\<rparr>, q1)
                | (Returned None, q1) \<Rightarrow> (done_with (pr_out q1), q1))))))"

text \<open>The other commands. The options of the file and of its compilation have the base directory of the flag.\<close>

definition command_comp :: "host \<Rightarrow> string \<Rightarrow> comp" where
  "command_comp H base = sy_comp (fe_system (ho_front (in_dir base H)))"

definition validateCmd :: "host \<Rightarrow> go_time \<Rightarrow> (string \<times> string) option \<Rightarrow> exit" where
  "validateCmd H now flags = (case flags of
     None \<Rightarrow> bad_flags
   | Some (path, base) \<Rightarrow>
     if path = [] then fails 2 (Errorf ''labsso validate: --config is required'' [])
     else let K = command_comp H base; fail = (\<lambda>e. fails 1 (Wrapf ''labsso validate: %v'' [] e)) in
       (case LoadFile K path of
          Inl e \<Rightarrow> fail e
        | Inr doc \<Rightarrow> (case Compile K now 0 [] doc of
            Inl e \<Rightarrow> fail e
          | Inr _ \<Rightarrow> (case RevisionOf K doc of
              Inl e \<Rightarrow> fail e
            | Inr r \<Rightarrow> done_with [(''ok revision=%s'', [r])]))))"

record canonicalize_flags =
  cf_Config :: string
  cf_Format :: string
  cf_BaseDir :: string

definition canonicalizeCmd :: "host \<Rightarrow> canonicalize_flags option \<Rightarrow> exit" where
  "canonicalizeCmd H flags = (case flags of
     None \<Rightarrow> bad_flags
   | Some f \<Rightarrow>
     if cf_Config f = [] then fails 2 (Errorf ''labsso canonicalize: --config is required'' [])
     else let Y = fe_system (ho_front (in_dir (cf_BaseDir f) H)); fail = (\<lambda>e. fails 1 (Wrapf ''labsso canonicalize: %v'' [] e)) in
       (case LoadFile (sy_comp Y) (cf_Config f) of
          Inl e \<Rightarrow> fail e
        | Inr doc \<Rightarrow>
          if cf_Format f \<in> {''yaml'', ''yml'', []} then
            (case Canonicalize Y doc of Inl e \<Rightarrow> fail e | Inr b \<Rightarrow> done_with [(''%s'', [b])])
          else if cf_Format f = ''json'' then
            (case ho_json H (Normalize doc) of None \<Rightarrow> fail (Errorf ''json'' []) | Some b \<Rightarrow> done_with [(''%s'', [b])])
          else fails 2 (Errorf ''labsso canonicalize: --format must be yaml or json'' [])))"

definition versionCmd :: "host \<Rightarrow> exit" where
  "versionCmd H = done_with [(''labsso %s commit=%s'', [fst (ho_info H), snd (ho_info H)])]"

definition healthcheckCmd :: "host \<Rightarrow> string option \<Rightarrow> exit" where
  "healthcheckCmd H flags = (case flags of
     None \<Rightarrow> bad_flags
   | Some url \<Rightarrow> (case ho_get H url of
       None \<Rightarrow> fails 1 (Errorf ''labsso healthcheck: %v'' [])
     | Some code \<Rightarrow> if code \<noteq> 200 then fails 1 (Errorf ''labsso healthcheck: status %d'' [itoa_nat code])
         else done_with [(''ok'', [])]))"

text \<open>The flag sets of the commands, as functions of the arguments.\<close>

record flagsets =
  fl_validate :: "string list \<Rightarrow> (string \<times> string) option"
  fl_canonicalize :: "string list \<Rightarrow> canonicalize_flags option"
  fl_serve :: "string list \<Rightarrow> serve_flags option"
  fl_healthcheck :: "string list \<Rightarrow> string option"

definition run_command ::
  "host \<Rightarrow> flagsets \<Rightarrow> (nat \<Rightarrow> go_time) \<Rightarrow> string list \<Rightarrow> arrival list \<Rightarrow> ending \<Rightarrow> exit" where
  "run_command H P clk args xs en = (case args of
     [] \<Rightarrow> fails 2 (Errorf ''usage: labsso <validate|canonicalize|serve|healthcheck|version> [flags]'' [])
   | cmd # rest \<Rightarrow>
     if cmd = ''validate'' then validateCmd H (clk 4) (fl_validate P rest)
     else if cmd = ''canonicalize'' then canonicalizeCmd H (fl_canonicalize P rest)
     else if cmd = ''serve'' then fst (serveCmd H clk (fl_serve P rest) xs en)
     else if cmd = ''healthcheck'' then healthcheckCmd H (fl_healthcheck P rest)
     else if cmd = ''version'' then versionCmd H
     else fails 2 (Errorf ''labsso: unknown command %q'' [cmd]))"

end
