(* ===== verification/Control_Props.thy ===== *)
theory Control_Props
  imports Control App_Props
begin

text \<open>
  What a front end of the management application may do with a request, and what follows for every front
  end that keeps to it. The locale \<open>control_plane\<close> is that contract; the REST and the MCP server and the
  management listener that joins them interpret it.
\<close>

section \<open>What a handler does\<close>

definition listing :: "app_op \<Rightarrow> bool" where
  "listing x = (case x of MListClients _ \<Rightarrow> True | MListUsers _ \<Rightarrow> True | MListGroups _ \<Rightarrow> True
     | MListSessions _ \<Rightarrow> True | MListAudit _ \<Rightarrow> True | _ \<Rightarrow> False)"

text \<open>
  \<open>handled T cid actor a failed a'\<close>: from \<open>a\<close> an answer is given, an error when \<open>failed\<close>, and \<open>a'\<close> left. A request is refused before it
  reaches the application (refused input is recorded), or one operation behind the capability \<open>cid\<close> runs for
  \<open>actor\<close>; its failure is answered with an error, and only the list operations can succeed and still be
  answered with one (for a bad cursor). A lookup of the operator session may come first. \<open>T\<close> holds the times that the
  request reads from the clock.
\<close>

inductive handled :: "go_time set \<Rightarrow> string \<Rightarrow> actor \<Rightarrow> app \<Rightarrow> bool \<Rightarrow> app \<Rightarrow> bool" for T cid actor where
  refused: "handled T cid actor a True a"
| rejected: "handled T cid actor a True (RejectInput clk actor e a)"
| performed: "app_exec Y clk x a = (err, a') \<Longrightarrow> op_cap x = Some (actor, cid) \<Longrightarrow> err \<longrightarrow> failed \<Longrightarrow>
    \<not> err \<longrightarrow> listing x \<or> \<not> failed \<Longrightarrow> range clk \<subseteq> T \<Longrightarrow> handled T cid actor a failed a'"
| looked_up: "handled T cid actor (snd (LookupOperatorSession clk sid a)) failed a' \<Longrightarrow> range clk \<subseteq> T \<Longrightarrow>
    handled T cid actor a failed a'"

abbreviation handles :: "go_time set \<Rightarrow> string \<Rightarrow> actor \<Rightarrow> app \<Rightarrow> ('r \<Rightarrow> bool) \<Rightarrow> 'r \<times> app \<Rightarrow> bool" where
  "handles T cid actor a failed r \<equiv> handled T cid actor a (failed (fst r)) (snd r)"

lemma outcome_simps [simp]: "fst (outcome r) = isl (fst r)" "snd (outcome r) = snd r"
  by (simp_all add: outcome_def)

lemma reply_of_parts [simp]: "isl (fst (reply_of f r)) = isl (fst r)" "snd (reply_of f r) = snd r"
  by (cases r; cases "fst r"; simp add: reply_of_def)+

lemma exec_handles:
  assumes "app_exec Y clk x a = outcome r" "op_cap x = Some (actor, cid)" "range clk \<subseteq> T"
  shows "handles T cid actor a isl r"
  by (rule handled.performed [of Y clk x a "isl (fst r)"]) (use assms in \<open>auto simp: prod_eq_iff\<close>)

lemma paged_parts: "snd (paged m s k i inp r) = snd r" "isl (fst r) \<Longrightarrow> isl (fst (paged m s k i inp r))"
  by (cases r; cases "fst r"; simp add: paged_def)+

lemma paged_handles:
  assumes "app_exec Y clk x a = outcome r" "op_cap x = Some (actor, cid)" "listing x" "range clk \<subseteq> T"
  shows "handles T cid actor a isl (paged m s k i inp r)"
  by (rule handled.performed [of Y clk x a "isl (fst r)"])
    (use assms paged_parts(1) [of m s k i inp r] paged_parts(2) [of r m s k i inp] in \<open>auto simp: prod_eq_iff\<close>)

section \<open>Read-only capabilities\<close>

text \<open>
  All but the audit ring, the replay cache and the overage warnings is kept, except that listing the
  sessions drops the expired ones.
\<close>

definition kept :: "go_time set \<Rightarrow> app \<Rightarrow> app \<Rightarrow> bool" where
  "kept T a a' \<longleftrightarrow> ap_store a' = ap_store a \<and> ap_opsess a' = ap_opsess a \<and> ap_bootstrapPath a' = ap_bootstrapPath a
     \<and> ap_requireHTTPS a' = ap_requireHTTPS a \<and> ap_httpsBound a' = ap_httpsBound a
     \<and> (app_rt a' = app_rt a \<or> (\<exists>now \<in> T. app_rt a' = snd (ListSessions now (app_rt a))))"

lemma kept_refl [simp]: "kept T a a"
  by (simp add: kept_def)

lemma kept_more [simp]:
  "kept T a (b\<lparr>ap_audit := r\<rparr>) = kept T a b" "kept T a (b\<lparr>ap_idemp := c\<rparr>) = kept T a b"
  "kept T (a\<lparr>ap_audit := r\<rparr>) b = kept T a b" "kept T (a\<lparr>ap_idemp := c\<rparr>) b = kept T a b"
  by (simp_all add: kept_def)

lemma kept_emit_error [simp]: "kept T a (emit_error clk actor capID code b) = kept T a b"
  by (simp add: emit_error_def)

lemma kept_with_cap:
  assumes "\<And>a. kept T a (snd (body a))"
  shows "kept T a (snd (with_cap clk actor cid a body))"
  using assms by (auto simp: with_cap_def authorize_cap_def split: option.split)

lemma kept_planLocked: "kept T a (snd (planLocked Y clk inp a))"
  by (auto simp: planLocked_def Let_def split: sum.split option.split prod.split if_splits)

lemma kept_rejecting: "kept T a (snd r) \<Longrightarrow> kept T a (snd (rejecting clk actor capID r))"
  by (auto simp: rejecting_def recordRejected_def split: sum.split)

lemma kept_import_plan: "kept T a (snd (case planLocked Y clk ch a of
     (Inl e, a1) \<Rightarrow> if CodeOf e \<noteq> CodeValidation then (Inl e, a1) else (Inr (f e), a1)
   | (Inr p, a1) \<Rightarrow> (Inr (g p), a1)))"
  using kept_planLocked [of T a Y clk ch] by (auto split: prod.splits sum.splits)

lemma kept_ImportPlan: "kept T a (snd (ImportPlan Y I clk actor inp a))"
  unfolding ImportPlan_def
  by (intro kept_rejecting kept_with_cap) (auto simp: kept_import_plan split: sum.split option.split)

lemma kept_ListSessions_app: "range clk \<subseteq> T \<Longrightarrow> kept T a (snd (ListSessions_app clk actor a))"
  unfolding ListSessions_app_def
  by (rule kept_with_cap) (auto simp: kept_def case_prod_unfold Let_def image_subset_iff)

lemmas kept_queries = list_of_def get_of_def GetStatus_def Capabilities_def GetState_def GetAudit_def ListAudit_def
  Export_def Version_def SchemaConfig_def Validate_def Let_def ListClients_def ListUsers_def ListGroups_def
  GetClient_def GetUser_def GetGroup_def PlanChange_def GetOperatorSession_def

definition read_only :: "capability \<Rightarrow> bool" where
  "read_only c = (\<not> cp_Mutating c \<and> (\<not> cp_RESTOnly c \<or> cp_Method c = ''GET''))"

definition read_only_ids :: "string list" where
  "read_only_ids = map cp_ID (filter read_only catalog)"

lemma read_only_values: "read_only_ids =
  [''sso.health.live'', ''sso.health.ready'', ''sso.version.get'', ''sso.capabilities.get'', ''sso.status.get'',
   ''sso.schema.config.get'', ''sso.state.get'', ''sso.state.validate'', ''sso.change.plan'', ''sso.state.export'',
   ''sso.clients.list'', ''sso.client.get'', ''sso.users.list'', ''sso.user.get'', ''sso.groups.list'', ''sso.group.get'',
   ''sso.sessions.list'', ''sso.session.get'', ''sso.audit.list'', ''sso.audit.get'', ''sso.import.plan'']"
  by code_simp

lemma read_only_kept:
  assumes "op_cap x = Some (actor, cid)" "cid \<in> set read_only_ids" "range clk \<subseteq> T"
  shows "kept T a (snd (app_exec Y clk x a))"
proof -
  have ids: "list_all (\<lambda>cid. cid \<notin> set read_only_ids) [''sso.change.apply'', ''sso.state.reset'', ''sso.auth.mfa.set'',
     ''sso.tunable.vendor.swap'', ''sso.tunable.overage.set'', ''sso.tunable.redirect.rewrite'', ''sso.user.totp.enroll'',
     ''sso.user.totp.clear'', ''sso.session.create'', ''sso.session.delete'', ''sso.sessions.expire_all'', ''sso.session.expire'',
     ''sso.tunable.token.pause'', ''sso.tunable.token.resume'', ''sso.tunable.auth.force_fail'', ''sso.tunable.error.inject'',
     ''sso.tunable.consent.force'', ''sso.tunable.token.mint'', ''sso.import.apply'']" by (simp add: read_only_values)
  note ids = ids [unfolded list.pred_inject]
  show ?thesis
    using assms
    by (cases x)
      (auto simp: ids kept_ImportPlan kept_planLocked kept_ListSessions_app kept_queries intro!: kept_with_cap split: option.split)
qed

text \<open>An operator session that has expired at one of some times.\<close>

definition expired :: "go_time set \<Rightarrow> operator_session \<Rightarrow> bool" where
  "expired T s \<longleftrightarrow> \<not> IsZero (os_Expires s) \<and> (\<exists>now \<in> T. After now (os_Expires s))"

text \<open>A lookup, and with it authentication, drops at most one operator session, and that one has expired.\<close>

definition dropped :: "go_time set \<Rightarrow> app \<Rightarrow> app \<Rightarrow> bool" where
  "dropped T a a1 \<longleftrightarrow> a1 = a
     \<or> (\<exists>v s. gget (ap_opsess a) v = Some s \<and> expired T s \<and> a1 = a\<lparr>ap_opsess := gdel v (ap_opsess a)\<rparr>)"

lemma dropped_refl [simp]: "dropped T a a"
  by (simp add: dropped_def)

lemma dropped_inv: "dropped T a a1 \<Longrightarrow> app_inv a \<Longrightarrow> app_inv a1"
  using app_inv_basic(7) by (auto simp: dropped_def opStore_Delete_def)

lemma lookup_drops: "range clk \<subseteq> T \<Longrightarrow> dropped T a (snd (LookupOperatorSession clk sid a))"
  by (auto simp: LookupOperatorSession_def opStore_Get_def dropped_def expired_def image_subset_iff split: option.splits)

lemma inv_RejectInput: "app_inv a \<Longrightarrow> app_inv (RejectInput clk actor e a)"
  by (simp add: RejectInput_def recordRejected_def emit_error_def app_inv_basic)

lemma RejectInput_fields [simp]:
  "ap_store (RejectInput clk actor e a) = ap_store a" "app_rt (RejectInput clk actor e a) = app_rt a"
  "ap_idemp (RejectInput clk actor e a) = ap_idemp a" "ap_opsess (RejectInput clk actor e a) = ap_opsess a"
  by (simp_all add: RejectInput_def recordRejected_def emit_error_def)

lemma deny_anonymous_fields [simp]:
  "ap_store (deny_anonymous clk e a) = ap_store a" "app_rt (deny_anonymous clk e a) = app_rt a"
  "ap_idemp (deny_anonymous clk e a) = ap_idemp a" "ap_opsess (deny_anonymous clk e a) = ap_opsess a"
  by (simp_all add: deny_anonymous_def)

lemma lookup_fields [simp]:
  "ap_store (snd (LookupOperatorSession clk sid a)) = ap_store a" "app_rt (snd (LookupOperatorSession clk sid a)) = app_rt a"
  "ap_idemp (snd (LookupOperatorSession clk sid a)) = ap_idemp a"
  by (simp_all add: LookupOperatorSession_def case_prod_unfold Let_def)

lemma inv_lookup: "app_inv a \<Longrightarrow> app_inv (snd (LookupOperatorSession clk sid a))"
  using dropped_inv [OF lookup_drops [OF subset_refl]] .

text \<open>The operator sessions of one state are among those of another.\<close>

definition sessions_within :: "app \<Rightarrow> app \<Rightarrow> bool" where
  "sessions_within a' a \<longleftrightarrow> (\<forall>k s. gget (ap_opsess a') k = Some s \<longrightarrow> gget (ap_opsess a) k = Some s)"

lemma sessions_within_simps [simp]:
  "sessions_within a a" "sessions_within (deny_anonymous clk e b) a = sessions_within b a"
  "sessions_within (RejectInput clk actor e b) a = sessions_within b a"
  "sessions_within (a\<lparr>ap_opsess := gdel k (ap_opsess a)\<rparr>) a"
  by (auto simp: sessions_within_def)

lemma sessions_within_trans: "sessions_within c b \<Longrightarrow> sessions_within b a \<Longrightarrow> sessions_within c a"
  by (simp add: sessions_within_def)

text \<open>The operator sessions that are gone have expired.\<close>

definition live_kept :: "go_time set \<Rightarrow> app \<Rightarrow> app \<Rightarrow> bool" where
  "live_kept T a a' \<longleftrightarrow>
     (\<forall>k s. gget (ap_opsess a) k = Some s \<longrightarrow> gget (ap_opsess a') k = Some s \<or> expired T s)"

lemma live_kept_same: "ap_opsess a' = ap_opsess a \<Longrightarrow> live_kept T a a'"
  by (simp add: live_kept_def)

lemma live_kept_simps [simp]: "live_kept T a a" "live_kept T a (deny_anonymous clk e b) = live_kept T a b"
  by (simp_all add: live_kept_def)

lemma dropped_fields:
  "dropped T a a1 \<Longrightarrow> ap_store a1 = ap_store a \<and> app_rt a1 = app_rt a \<and> ap_idemp a1 = ap_idemp a
     \<and> sessions_within a1 a \<and> live_kept T a a1"
  by (auto simp: dropped_def live_kept_def)

text \<open>A failed operation, and a list operation, leave the remembered results alone.\<close>

lemma listing_idemp: "listing x \<Longrightarrow> ic_m (ap_idemp (snd (app_exec Y clk x a))) = ic_m (ap_idemp a)"
  by (cases x) (auto simp: listing_def ListClients_def ListUsers_def ListGroups_def ListSessions_app_def ListAudit_def list_of_def
      with_cap_def authorize_cap_def case_prod_unfold Let_def split: option.splits)

lemma listing_read_only: "listing x \<Longrightarrow> op_cap x = Some (actor, cid) \<Longrightarrow> cid \<in> set read_only_ids"
proof -
  have "list_all (\<lambda>cid. cid \<in> set read_only_ids) [''sso.clients.list'', ''sso.users.list'', ''sso.groups.list'', ''sso.sessions.list'', ''sso.audit.list'']"
    by code_simp
  then show "listing x \<Longrightarrow> op_cap x = Some (actor, cid) \<Longrightarrow> cid \<in> set read_only_ids"
    by (cases x) (auto simp: listing_def)
qed


section \<open>Consequences\<close>

lemma handled_inv:
  "handled T cid actor a failed a' \<Longrightarrow> app_inv a \<Longrightarrow> app_inv a' \<and> generation_of a \<le> generation_of a'"
proof (induction rule: handled.induct)
  case (performed Y clk x a err a' failed)
  then have "a' = manage_run [(Y, clk, x)] a" by simp
  then show ?case using run_history [OF performed.prems, of "[(Y, clk, x)]"] step_history(1) [OF performed.prems, of Y clk x]
      performed.hyps(1) by simp
next
  case (looked_up clk sid a failed a')
  then show ?case using inv_lookup [of a clk sid] by (simp add: generation_of_def)
qed (simp_all add: inv_RejectInput generation_of_def)

text \<open>
  \<open>quiet T a a'\<close>: nothing was changed, other than records of the audit ring, remembered results, operator sessions
  that had expired at a time of \<open>T\<close>, and login sessions that a listing at a time of \<open>T\<close> has dropped as expired. \<open>changed\<close>:
  something that needs credentials was.
\<close>

definition quiet :: "go_time set \<Rightarrow> app \<Rightarrow> app \<Rightarrow> bool" where
  "quiet T a a' \<longleftrightarrow> ap_store a' = ap_store a \<and> sessions_within a' a \<and> live_kept T a a'
     \<and> (app_rt a' = app_rt a \<or> (\<exists>now \<in> T. app_rt a' = snd (ListSessions now (app_rt a))))"

definition changed :: "go_time set \<Rightarrow> app \<Rightarrow> app \<Rightarrow> bool" where
  "changed T a a' \<longleftrightarrow> ap_store a' \<noteq> ap_store a \<or> app_rt a' \<noteq> app_rt a \<or> ap_idemp a' \<noteq> ap_idemp a
     \<or> \<not> sessions_within a' a \<or> \<not> live_kept T a a'"

lemma quiet_refl [simp]: "quiet T a a"
  by (simp add: quiet_def live_kept_same)

lemma kept_quiet: "kept T a a' \<Longrightarrow> quiet T a a'"
  by (auto simp: kept_def quiet_def sessions_within_def live_kept_same)

lemma quiet_after:
  assumes "dropped T a b" "quiet T b a'"
  shows "quiet T a a'"
proof -
  have "live_kept T a a'"
    using assms dropped_fields [OF assms(1)] unfolding quiet_def live_kept_def by blast
  then show ?thesis
    using assms(2) dropped_fields [OF assms(1)] sessions_within_trans [of a' b a] by (auto simp: quiet_def)
qed

lemma quiet_reject: "quiet T a (RejectInput clk actor e a)"
  by (simp add: quiet_def live_kept_same)

lemma handled_read_only: "handled T cid actor a failed a' \<Longrightarrow> cid \<in> set read_only_ids \<Longrightarrow> quiet T a a'"
proof (induction rule: handled.induct)
  case (performed Y clk x a err a' failed)
  then show ?case using read_only_kept [of x actor cid clk T a Y] kept_quiet by simp
next
  case (looked_up clk sid a failed a')
  then show ?case using quiet_after [OF lookup_drops] by blast
qed (auto intro: quiet_reject)

lemma handled_error:
  "handled T cid actor a failed a' \<Longrightarrow> failed \<Longrightarrow> quiet T a a' \<and> ic_m (ap_idemp a') = ic_m (ap_idemp a)"
proof (induction rule: handled.induct)
  case (performed Y clk x a err a' failed)
  show ?case
  proof (cases err)
    case True
    then have "frame_of a' = frame_of a" using failure.app_exec_Q [of a "frame_of a" Y clk x] performed.hyps(1) by simp
    then show ?thesis by (simp add: frame_of_def quiet_def sessions_within_def live_kept_same)
  next
    case False
    then have l: "listing x" using performed.hyps(4) performed.prems by auto
    then show ?thesis
      using read_only_kept [OF performed.hyps(2) listing_read_only [OF l performed.hyps(2)] performed.hyps(5), of a Y] performed.hyps(1)
        listing_idemp [OF l, of Y clk a] kept_quiet by auto
  qed
next
  case (looked_up clk sid a failed a')
  then show ?case using quiet_after [OF lookup_drops] lookup_fields(3) [of clk sid a] by metis
qed (auto intro: quiet_reject)

section \<open>The contract of a front end\<close>

text \<open>
  A front end leaves the application alone, or it refuses the request for want of credentials and
  records that, or it handles the request for an admitted actor behind the capability that the request asks for.
  Authentication may drop an expired operator session before. \<open>times rq\<close> are the times that the request reads.
\<close>

locale control_plane =
  fixes serve :: "'rq \<Rightarrow> app \<Rightarrow> 'resp \<times> app"
    and failed :: "'resp \<Rightarrow> bool"
    and admits :: "'rq \<Rightarrow> app \<Rightarrow> actor \<Rightarrow> bool"
    and asks :: "'rq \<Rightarrow> string option"
    and times :: "'rq \<Rightarrow> go_time set"
  assumes step: "serve rq a = (resp, a') \<Longrightarrow> a' = a \<or> (\<exists>a1. dropped (times rq) a a1
      \<and> ((failed resp \<and> (\<exists>clk e. a' = deny_anonymous clk e a1))
         \<or> (\<exists>actor cid. admits rq a actor \<and> asks rq = Some cid \<and> handled (times rq) cid actor a1 (failed resp) a')))"
begin

lemma step_cases:
  assumes "serve rq a = (resp, a')"
  obtains "a' = a" | a1 clk e where "dropped (times rq) a a1" "failed resp" "a' = deny_anonymous clk e a1"
    | a1 actor cid where "dropped (times rq) a a1" "admits rq a actor" "asks rq = Some cid"
        "handled (times rq) cid actor a1 (failed resp) a'"
  using step [OF assms] by blast

lemma keeps_inv:
  assumes "serve rq a = (resp, a')" "app_inv a"
  shows "app_inv a' \<and> generation_of a \<le> generation_of a'"
  using assms(1)
proof (cases rule: step_cases)
  case (2 a1 clk e)
  then show ?thesis using dropped_inv [OF 2(1) assms(2)] dropped_fields [OF 2(1)]
    by (simp add: deny_anonymous_def EmitDenied_def app_inv_basic generation_of_def)
next
  case (3 a1 actor cid)
  then show ?thesis using dropped_inv [OF 3(1) assms(2)] dropped_fields [OF 3(1)] handled_inv [OF 3(4)]
    by (simp add: generation_of_def)
qed (simp add: assms(2))

lemma run_inv:
  "app_inv a \<Longrightarrow> app_inv (fold (\<lambda>rq a. snd (serve rq a)) rqs a)
     \<and> generation_of a \<le> generation_of (fold (\<lambda>rq a. snd (serve rq a)) rqs a)"
proof (induction rqs arbitrary: a)
  case (Cons rq rqs)
  then have "app_inv (snd (serve rq a)) \<and> generation_of a \<le> generation_of (snd (serve rq a))"
    using keeps_inv [of rq a "fst (serve rq a)" "snd (serve rq a)"] by simp
  then show ?case using Cons.IH [of "snd (serve rq a)"] by (auto intro: order_trans)
qed simp

lemma changes_admitted:
  assumes "serve rq a = (resp, a')" "changed (times rq) a a'"
  shows "\<exists>actor. admits rq a actor"
  using assms(1)
proof (cases rule: step_cases)
  case 1
  then show ?thesis using assms(2) by (simp add: changed_def)
next
  case (2 a1 clk e)
  then show ?thesis using assms(2) dropped_fields [OF 2(1)] by (simp add: changed_def)
qed blast

lemma read_only_quiet:
  assumes "serve rq a = (resp, a')" "\<And>cid. asks rq = Some cid \<Longrightarrow> cid \<in> set read_only_ids"
  shows "quiet (times rq) a a'"
  using assms(1)
proof (cases rule: step_cases)
  case (2 a1 clk e)
  have "quiet (times rq) a1 a'" using 2(3) by (simp add: quiet_def live_kept_same)
  then show ?thesis using quiet_after [OF 2(1)] dropped_fields [OF 2(1)] 2(3) by simp
next
  case (3 a1 actor cid)
  then show ?thesis using quiet_after [OF 3(1)] handled_read_only [OF 3(4) assms(2)] by blast
qed simp

lemma errors_atomic:
  assumes "serve rq a = (resp, a')" "failed resp"
  shows "quiet (times rq) a a' \<and> ic_m (ap_idemp a') = ic_m (ap_idemp a)"
  using assms(1)
proof (cases rule: step_cases)
  case (2 a1 clk e)
  have "quiet (times rq) a1 a'" using 2(3) by (simp add: quiet_def live_kept_same)
  then show ?thesis using quiet_after [OF 2(1)] dropped_fields [OF 2(1)] 2(3) by simp
next
  case (3 a1 actor cid)
  then show ?thesis using quiet_after [OF 3(1)] dropped_fields [OF 3(1)] handled_error [OF 3(4) assms(2)] by simp
qed simp

end

end
