(* ===== verification/Rest_Props.thy ===== *)
theory Rest_Props
  imports Rest Control_Props
begin

text \<open>
  The REST front end refines the application: a request is refused, or it is one operation of the
  application behind the capability of its endpoint, on behalf of the actor that was authenticated.
\<close>

section \<open>What a handler does\<close>

text \<open>The times that a request reads from the clock, at all its call sites.\<close>

definition rest_times :: "rest_request \<Rightarrow> go_time set" where
  "rest_times rq = (\<Union>i. range (rr_clk rq i))"

lemma rest_times_simps [simp]:
  "range (rr_clk rq i) \<subseteq> rest_times rq" "rest_times (rq\<lparr>rr_PathValues := bs\<rparr>) = rest_times rq"
  by (auto simp: rest_times_def)

definition rest_failed :: "rest_response \<Rightarrow> bool" where
  "rest_failed resp \<longleftrightarrow> 400 \<le> rest_status resp"

lemma error_status_400: "400 \<le> error_status c"
  by (simp add: error_status_def)

lemma writeError_400 [simp]: "400 \<le> rest_status (writeError e)"
  by (simp add: writeError_def error_status_400)

lemma rest_failed_simps [simp]:
  "rest_failed (writeError e)" "\<not> rest_failed (RJson 200 v)" "\<not> rest_failed (RData t d)" "rest_failed (RCookie c x r) = rest_failed r"
  by (simp_all add: rest_failed_def)

lemma answer_parts [simp]: "rest_failed (fst (answer f r)) = isl (fst r)" "snd (answer f r) = snd r"
  by (cases r; cases "fst r"; simp add: answer_def)+

lemma answer_handles: "handles T cid actor a isl r \<Longrightarrow> handles T cid actor a rest_failed (answer f r)"
  by simp

lemma decodeJSON_cases:
  "(\<exists>e. decodeJSON F names rq actor a = (Inl e, RejectInput (rr_clk rq 2) actor e a))
   \<or> (\<exists>inp. decodeJSON F names rq actor a = (Inr inp, a))"
  by (auto simp: decodeJSON_def split: sum.split)

lemma decodeOptional_cases:
  "(\<exists>e. decodeOptionalJSON F names rq actor a = (Inl e, a))
   \<or> (\<exists>e. decodeOptionalJSON F names rq actor a = (Inl e, RejectInput (rr_clk rq 2) actor e a))
   \<or> (\<exists>inp. decodeOptionalJSON F names rq actor a = (Inr inp, a))"
  using decodeJSON_cases [of F names "rq\<lparr>rr_Body := Body (the (read_body (rr_Body rq)))\<rparr>" actor a]
  by (auto simp: decodeOptionalJSON_def split: option.split)

lemma refused_handled [intro]:
  "handled T cid actor a (rest_failed (writeError e)) a"
  "handled T cid actor a (rest_failed (writeError e)) (RejectInput clk actor e' a)"
  by (simp_all add: handled.refused handled.rejected)

lemma decode_handles:
  assumes "\<And>inp. handles T cid actor a rest_failed (k inp a)"
  shows "handles T cid actor a rest_failed (with_input (decodeJSON F names rq actor a) k)"
    and "handles T cid actor a rest_failed (with_input (decodeOptionalJSON F names rq actor a) k)"
  using decodeJSON_cases [of F names rq actor a] decodeOptional_cases [of F names rq actor a] assms
    refused_handled [of T cid actor a]
  by (auto simp del: rest_failed_simps simp: with_input_def)

lemma with_list_handles:
  assumes "\<And>inp. handles T cid actor a rest_failed (k inp)"
  shows "handles T cid actor a rest_failed (with_list rq a k)"
  using assms by (auto simp del: rest_failed_simps simp: with_list_def split: sum.split)

text \<open>Handlers that answer with more than one rendered value.\<close>

lemma case_handles:
  assumes "handles T cid actor a isl r" and "\<And>v a'. \<not> rest_failed (fst (g v a')) \<and> snd (g v a') = a'"
  shows "handles T cid actor a rest_failed (case r of (Inl e, a1) \<Rightarrow> (writeError e, a1) | (Inr v, a1) \<Rightarrow> g v a1)"
  using assms by (auto split: prod.split sum.split)

lemma query_handlers:
  "handles (rest_times rq) ''sso.version.get'' actor a rest_failed (version F rq actor a)"
  "handles (rest_times rq) ''sso.capabilities.get'' actor a rest_failed (capabilities F rq actor a)"
  "handles (rest_times rq) ''sso.status.get'' actor a rest_failed (status_rest F rq actor a)"
  "handles (rest_times rq) ''sso.schema.config.get'' actor a rest_failed (schema F rq actor a)"
  "handles (rest_times rq) ''sso.state.get'' actor a rest_failed (state_rest F rq actor a)"
  "handles (rest_times rq) ''sso.state.export'' actor a rest_failed (export_rest F rq actor a)"
  "handles (rest_times rq) ''sso.client.get'' actor a rest_failed (clientGet F rq actor a)"
  "handles (rest_times rq) ''sso.user.get'' actor a rest_failed (userGet F rq actor a)"
  "handles (rest_times rq) ''sso.group.get'' actor a rest_failed (groupGet F rq actor a)"
  "handles (rest_times rq) ''sso.audit.get'' actor a rest_failed (auditGet F rq actor a)"
  unfolding version_def capabilities_def status_rest_def schema_def state_rest_def export_rest_def clientGet_def
    userGet_def groupGet_def auditGet_def
  by (rule answer_handles case_handles, rule exec_handles; (rule app_exec.simps)?; simp)+

lemma list_handlers:
  "handles (rest_times rq) ''sso.clients.list'' actor a rest_failed (clients_rest F rq actor a)"
  "handles (rest_times rq) ''sso.users.list'' actor a rest_failed (users_rest F rq actor a)"
  "handles (rest_times rq) ''sso.groups.list'' actor a rest_failed (groups_rest F rq actor a)"
  "handles (rest_times rq) ''sso.sessions.list'' actor a rest_failed (sessions_rest F rq actor a)"
  "handles (rest_times rq) ''sso.audit.list'' actor a rest_failed (auditList F rq actor a)"
  unfolding clients_rest_def users_rest_def groups_rest_def sessions_rest_def auditList_def
    PageClients_def PageUsers_def PageGroups_def PageSessions_def PageAudit_def
  by (rule with_list_handles, rule answer_handles, rule paged_handles; (rule app_exec.simps)?; simp add: listing_def)+

lemma change_handlers:
  "handles (rest_times rq) ''sso.state.validate'' actor a rest_failed (validate F rq actor a)"
  "handles (rest_times rq) ''sso.change.plan'' actor a rest_failed (plan_rest F rq actor a)"
  "handles (rest_times rq) ''sso.change.apply'' actor a rest_failed (apply_rest F rq actor a)"
  "handles (rest_times rq) ''sso.state.reset'' actor a rest_failed (reset_rest F rq actor a)"
  "handles (rest_times rq) ''sso.auth.mfa.set'' actor a rest_failed (setMFA F rq actor a)"
  "handles (rest_times rq) ''sso.tunable.vendor.swap'' actor a rest_failed (swapVendor F rq actor a)"
  "handles (rest_times rq) ''sso.tunable.overage.set'' actor a rest_failed (setOverage F rq actor a)"
  "handles (rest_times rq) ''sso.tunable.redirect.rewrite'' actor a rest_failed (rewriteRedirect F rq actor a)"
  "handles (rest_times rq) ''sso.import.plan'' actor a rest_failed (importPlan F rq actor a)"
  "handles (rest_times rq) ''sso.import.apply'' actor a rest_failed (importApply F rq actor a)"
  unfolding validate_def plan_rest_def apply_rest_def reset_rest_def setMFA_def swapVendor_def setOverage_def
    rewriteRedirect_def importPlan_def importApply_def decodeChange_def decodeImport_def
  by (rule decode_handles, rule answer_handles, rule exec_handles; (rule app_exec.simps)?; simp)+

lemma runtime_handlers:
  "handles (rest_times rq) ''sso.user.totp.enroll'' actor a rest_failed (totpEnroll F rq actor a)"
  "handles (rest_times rq) ''sso.user.totp.clear'' actor a rest_failed (totpClear F rq actor a)"
  "handles (rest_times rq) ''sso.tunable.token.pause'' actor a rest_failed (pauseToken F rq actor a)"
  "handles (rest_times rq) ''sso.tunable.token.resume'' actor a rest_failed (resumeToken F rq actor a)"
  "handles (rest_times rq) ''sso.tunable.auth.force_fail'' actor a rest_failed (forceFail F rq actor a)"
  "handles (rest_times rq) ''sso.tunable.error.inject'' actor a rest_failed (injectError F rq actor a)"
  "handles (rest_times rq) ''sso.tunable.consent.force'' actor a rest_failed (forceConsent F rq actor a)"
  "handles (rest_times rq) ''sso.tunable.token.mint'' actor a rest_failed (mintToken F rq actor a)"
  "handles (rest_times rq) ''sso.sessions.expire_all'' actor a rest_failed (expireAll F rq actor a)"
  unfolding totpEnroll_def totpClear_def pauseToken_def resumeToken_def forceFail_def injectError_def forceConsent_def
    mintToken_def expireAll_def
  by (rule decode_handles, rule answer_handles, rule exec_handles; (rule app_exec.simps)?; simp)+

lemma session_handlers:
  "handles (rest_times rq) ''sso.session.expire'' actor a rest_failed (sessionExpire p F rq actor a)"
  "handles (rest_times rq) ''sso.session.create'' actor a rest_failed (sessionCreate F rq actor a)"
  "handles (rest_times rq) ''sso.session.delete'' actor a rest_failed (sessionDelete F rq actor a)"
  "handles (rest_times rq) ''sso.session.get'' actor a rest_failed (sessionGet F rq actor a)"
proof -
  show "handles (rest_times rq) ''sso.session.expire'' actor a rest_failed (sessionExpire p F rq actor a)"
    unfolding sessionExpire_def
    by (rule decode_handles, cases "session_id p (rr_Path rq)")
      (auto intro!: answer_handles exec_handles [OF app_exec.simps(17)] simp: rest_times_def simp del: answer_parts rest_failed_simps)
  show "handles (rest_times rq) ''sso.session.create'' actor a rest_failed (sessionCreate F rq actor a)"
    unfolding sessionCreate_def by (rule decode_handles, rule case_handles, rule exec_handles; (rule app_exec.simps)?; simp)
  show "handles (rest_times rq) ''sso.session.delete'' actor a rest_failed (sessionDelete F rq actor a)"
    unfolding sessionDelete_def by (rule decode_handles, rule case_handles, rule exec_handles; (rule app_exec.simps)?; simp add: clearSessionCookie_def)
  have get: "handles (rest_times rq) ''sso.session.get'' actor b rest_failed (answer f (GetOperatorSession (rr_clk rq 3) actor b))"
    for b f by (rule answer_handles, rule exec_handles; (rule app_exec.simps)?; simp)
  have found: "handles (rest_times rq) ''sso.session.get'' actor a rest_failed
      (answer f (GetOperatorSession (rr_clk rq 3) actor (snd (LookupOperatorSession (rr_clk rq 5) v a))))" for f v
    by (rule handled.looked_up [OF get rest_times_simps(1)])
  show "handles (rest_times rq) ''sso.session.get'' actor a rest_failed (sessionGet F rq actor a)"
    unfolding sessionGet_def Let_def
    by (auto simp del: answer_parts simp: case_prod_unfold intro: get found split: option.split)
qed

section \<open>Authentication\<close>

lemma Authenticate_Inl: "Authenticate N remote authz tok = Inl e \<Longrightarrow> CodeOf e = CodeUnauthorized"
  by (auto simp: Authenticate_def Unauthorized_def Let_def split: if_splits)

lemma lookup_session:
  "LookupOperatorSession clk sid a = (Some sess, a1) \<Longrightarrow>
     a1 = a \<and> gget (ap_opsess a) sid = Some sess \<and> \<not> (\<not> IsZero (os_Expires sess) \<and> After (clk 5) (os_Expires sess))"
  by (auto simp: LookupOperatorSession_def opStore_Get_def split: option.splits if_splits)

text \<open>The credentials that authentication accepts.\<close>

definition live_session :: "rest_request \<Rightarrow> app \<Rightarrow> operator_session \<Rightarrow> bool" where
  "live_session rq a sess \<longleftrightarrow> (\<exists>v. map_of (rr_Cookies rq) CookieSession = Some v \<and> v \<noteq> [] \<and> gget (ap_opsess a) v = Some sess
     \<and> (IsZero (os_Expires sess) \<or> \<not> After (rr_clk rq 0 5) (os_Expires sess)))"

definition credentials :: "frontend \<Rightarrow> rest_request \<Rightarrow> app \<Rightarrow> actor \<Rightarrow> bool" where
  "credentials F rq a actor \<longleftrightarrow> (let bearer = ParseBearer (header rq ''Authorization'') in
     if bearer \<noteq> [] then bearer = token_of a \<and> an_Class actor = ''bearer''
     else (\<exists>sess. live_session rq a sess \<and> actor = os_Actor sess
            \<and> (rr_Method rq \<in> {''GET'', ''HEAD''} \<or> header rq HeaderCSRF = os_CSRF sess))
        \<or> ((\<nexists>sess. live_session rq a sess) \<and> IsLoopback (fe_net F) (rr_RemoteAddr rq) \<and> actor = AdminActor))"

lemma lookup_none:
  "LookupOperatorSession clk sid a = (None, a1) \<Longrightarrow>
     \<not> (gget (ap_opsess a) sid = Some sess \<and> (IsZero (os_Expires sess) \<or> \<not> After (clk 5) (os_Expires sess)))"
  by (auto simp: LookupOperatorSession_def opStore_Get_def split: option.splits if_splits)

lemma authenticate_Inr:
  assumes "authenticate F rq a = (Inr actor, gone, a1)"
  shows "credentials F rq a actor"
proof (cases "ParseBearer (header rq ''Authorization'') = []")
  case False
  then show ?thesis using assms
    by (auto simp: authenticate_def credentials_def Authenticate_def Let_def split: if_splits)
next
  case True
  let ?N = "fe_net F"
  have direct: "Authenticate ?N (rr_RemoteAddr rq) (header rq ''Authorization'') (token_of a) = Inr actor \<Longrightarrow>
      IsLoopback ?N (rr_RemoteAddr rq) \<and> actor = AdminActor"
    using True by (auto simp: Authenticate_def split: if_splits)
  consider "map_of (rr_Cookies rq) CookieSession = None \<or> map_of (rr_Cookies rq) CookieSession = Some []"
    | v where "map_of (rr_Cookies rq) CookieSession = Some v" "v \<noteq> []" by (cases "map_of (rr_Cookies rq) CookieSession") auto
  then show ?thesis
  proof cases
    case 1
    then have "\<nexists>sess. live_session rq a sess" by (auto simp: live_session_def)
    moreover have "Authenticate ?N (rr_RemoteAddr rq) (header rq ''Authorization'') (token_of a) = Inr actor"
      using 1 assms True by (auto simp: authenticate_def Let_def)
    ultimately show ?thesis using True direct by (simp add: credentials_def)
  next
    case v: 2
    obtain found b where l: "LookupOperatorSession (rr_clk rq 0) v a = (found, b)" by fastforce
    show ?thesis
    proof (cases found)
      case None
      with l v have "\<nexists>sess. live_session rq a sess" using lookup_none [of "rr_clk rq 0" v a b] by (auto simp: live_session_def)
      moreover have "Authenticate ?N (rr_RemoteAddr rq) (header rq ''Authorization'') (token_of a) = Inr actor"
        using None l v assms True by (auto simp: authenticate_def Let_def)
      ultimately show ?thesis using True direct by (simp add: credentials_def)
    next
      case (Some sess)
      then have "live_session rq a sess" using lookup_session [of "rr_clk rq 0" v a sess b] l v by (auto simp: live_session_def)
      moreover have "actor = os_Actor sess \<and> (rr_Method rq \<in> {''GET'', ''HEAD''} \<or> header rq HeaderCSRF = os_CSRF sess)"
        using Some l v assms True by (auto simp: authenticate_def Let_def split: if_splits)
      ultimately show ?thesis using True by (auto simp: credentials_def)
    qed
  qed
qed

lemma authenticate_dropped:
  assumes "authenticate F rq a = (who, gone, a1)"
  shows "dropped (rest_times rq) a a1"
  using assms lookup_drops [of "rr_clk rq 0" "rest_times rq" a "the (map_of (rr_Cookies rq) CookieSession)"]
  by (auto simp: authenticate_def Let_def case_prod_unfold split: if_splits option.splits)

lemma authenticate_Inl:
  "authenticate F rq a = (Inl e, gone, a1) \<Longrightarrow> CodeOf e = CodeUnauthorized \<or> CodeOf e = CodeForbidden"
  using Authenticate_Inl
  by (fastforce simp: authenticate_def Forbidden_def Let_def case_prod_unfold split: if_splits option.splits)

section \<open>Routing\<close>

text \<open>The capability of the catalogue that an endpoint stands for, and the one that guards it.\<close>

fun endpoint_id :: "endpoint \<Rightarrow> string" where
  "endpoint_id ELive = ''sso.health.live''"
| "endpoint_id EReady = ''sso.health.ready''"
| "endpoint_id EVersion = ''sso.version.get''"
| "endpoint_id ECapabilities = ''sso.capabilities.get''"
| "endpoint_id EStatus = ''sso.status.get''"
| "endpoint_id ESchema = ''sso.schema.config.get''"
| "endpoint_id EState = ''sso.state.get''"
| "endpoint_id EValidate = ''sso.state.validate''"
| "endpoint_id EExport = ''sso.state.export''"
| "endpoint_id EReset = ''sso.state.reset''"
| "endpoint_id EPlan = ''sso.change.plan''"
| "endpoint_id EApply = ''sso.change.apply''"
| "endpoint_id EClients = ''sso.clients.list''"
| "endpoint_id EClient = ''sso.client.get''"
| "endpoint_id EUsers = ''sso.users.list''"
| "endpoint_id EUser = ''sso.user.get''"
| "endpoint_id EMFA = ''sso.auth.mfa.set''"
| "endpoint_id EEnroll = ''sso.user.totp.enroll''"
| "endpoint_id EClear = ''sso.user.totp.clear''"
| "endpoint_id EGroups = ''sso.groups.list''"
| "endpoint_id EGroup = ''sso.group.get''"
| "endpoint_id ESessions = ''sso.sessions.list''"
| "endpoint_id ESessionExpire = ''sso.session.expire''"
| "endpoint_id EPause = ''sso.tunable.token.pause''"
| "endpoint_id EResume = ''sso.tunable.token.resume''"
| "endpoint_id EForceFail = ''sso.tunable.auth.force_fail''"
| "endpoint_id EInject = ''sso.tunable.error.inject''"
| "endpoint_id EVendor = ''sso.tunable.vendor.swap''"
| "endpoint_id EOverage = ''sso.tunable.overage.set''"
| "endpoint_id EForceConsent = ''sso.tunable.consent.force''"
| "endpoint_id EMint = ''sso.tunable.token.mint''"
| "endpoint_id ESessionCreate = ''sso.session.create''"
| "endpoint_id ESessionGet = ''sso.session.get''"
| "endpoint_id ESessionDelete = ''sso.session.delete''"
| "endpoint_id EAudit = ''sso.audit.list''"
| "endpoint_id EEvent = ''sso.audit.get''"
| "endpoint_id EExpireAll = ''sso.sessions.expire_all''"
| "endpoint_id EImportPlan = ''sso.import.plan''"
| "endpoint_id EImportApply = ''sso.import.apply''"
| "endpoint_id ERedirect = ''sso.tunable.redirect.rewrite''"
| "endpoint_id EIndex = []"
| "endpoint_id EScript = []"

definition endpoint_cap :: "endpoint \<Rightarrow> string option" where
  "endpoint_cap e = (if e \<in> {ELive, EReady, EIndex, EScript} then None else Some (endpoint_id e))"

lemma endpoint_open: "endpoint_cap e = None \<Longrightarrow> snd (serve_endpoint p e F rq a) = a"
  by (auto simp: endpoint_cap_def live_def ready_def web_index_def case_prod_unfold Let_def split: if_splits)

lemmas handlers = query_handlers list_handlers change_handlers runtime_handlers session_handlers

lemma endpoint_authed:
  assumes "endpoint_cap e = Some cid"
  shows "\<exists>h. serve_endpoint p e F rq a = authed h F rq a
    \<and> (\<forall>actor a. handles (rest_times rq) cid actor a rest_failed (h F rq actor a))"
proof -
  have eq: "\<exists>g. authed h F rq a = authed g F rq a \<and> (\<forall>actor a. handles (rest_times rq) i actor a rest_failed (g F rq actor a))"
    if "\<And>actor a. handles (rest_times rq) i actor a rest_failed (h F rq actor a)" for h i
    using that by blast
  have h: "e \<notin> {ELive, EReady, EIndex, EScript} \<Longrightarrow> \<exists>h. serve_endpoint p e F rq a = authed h F rq a
    \<and> (\<forall>actor a. handles (rest_times rq) (endpoint_id e) actor a rest_failed (h F rq actor a))"
    by (induction e; (simp only: endpoint_id.simps serve_endpoint.simps, rule eq, rule handlers)?; erule notE, simp)
  have out: "e \<notin> {ELive, EReady, EIndex, EScript}" and cid: "cid = endpoint_id e"
    using assms by (auto simp: endpoint_cap_def split: if_splits)
  show ?thesis unfolding cid by (rule h [OF out])
qed

lemma find_route_Some:
  "find_route rq es = Some (e, bs) \<Longrightarrow> \<exists>m pat. (m, pat, e) \<in> set es \<and> route_match rq (m, pat, e) = Some bs"
  by (simp add: find_route_def route_match_def lookup_row_Some)

lemma route_match_parts:
  "route_match rq (m, pat, e) \<noteq> None \<Longrightarrow> method_matches m (rr_Method rq) \<and> match_segments (parse_pattern pat) (rr_Segments rq) \<noteq> None"
  unfolding route_match_def by (rule row_match_parts)

lemma v1_separate: "separate (parsed (routes ''/v1''))"
  by code_simp

definition catalogue_path :: "string \<Rightarrow> string" where
  "catalogue_path pat = (if pat = ''/v1/sessions/'' then ''/v1/sessions/{id}:expire'' else pat)"

definition binding :: "string \<times> string \<times> endpoint \<Rightarrow> string \<times> string \<times> string" where
  "binding r = (case r of (m, pat, e) \<Rightarrow> (endpoint_id e, m, catalogue_path pat))"

definition bound_routes :: "(string \<times> string \<times> endpoint) list" where
  "bound_routes = filter (\<lambda>(m, pat, e). endpoint_id e \<noteq> []) (routes ''/v1'')"

lemma v1_bindings:
  "list_all (\<lambda>r. binding r \<in> set (map (\<lambda>c. (cp_ID c, cp_Method c, cp_Path c)) catalog)) bound_routes"
  "list_all (\<lambda>c. (cp_ID c, cp_Method c, cp_Path c) \<in> set (map binding bound_routes)) catalog"
  "list_all (\<lambda>z. fst z \<noteq> ''HEAD'') (routes ''/v1'')"
  by code_simp+

text \<open>
  C40. The routes of the front end are exactly the bindings of the catalogue: under the default path every
  capability has one route with its method and path (expiring a session takes the rest of the path),
  every other route is the operator page or its script, and no request matches two routes.
\<close>

theorem rest_routes_catalogue:
  "set (map (\<lambda>c. (cp_ID c, cp_Method c, cp_Path c)) catalog) = binding ` set bound_routes
   \<and> (x \<in> set (routes ''/v1'') \<and> y \<in> set (routes ''/v1'') \<and> route_match rq x \<noteq> None \<and> route_match rq y \<noteq> None \<longrightarrow> x = y)"
  using v1_bindings separate_once [OF v1_separate, of x y "rr_Method rq" "rr_Segments rq"]
  unfolding list_all_iff route_match_def by (fastforce simp only: set_map)

lemma authed_unfold:
  assumes "authed h F rq a = (resp, a')" "authenticate F rq a = (who, gone, a1)"
  shows "(\<exists>e. who = Inl e \<and> a' = deny_anonymous (rr_clk rq 1) e a1 \<and> rest_status resp = rest_status (writeError e))
    \<or> (\<exists>actor. who = Inr actor \<and> a' = snd (h F rq (actor\<lparr>an_Transport := ''rest''\<rparr>) a1)
        \<and> rest_failed resp = rest_failed (fst (h F rq (actor\<lparr>an_Transport := ''rest''\<rparr>) a1)))"
  using assms by (auto simp: authed_def case_prod_unfold Let_def clearSessionCookie_def split: sum.splits if_splits)

text \<open>The capability that a request asks for, by its route.\<close>

definition rest_asks :: "string \<Rightarrow> rest_request \<Rightarrow> string option" where
  "rest_asks p rq = (case find_route rq (routes p) of None \<Rightarrow> None | Some (e, bs) \<Rightarrow> endpoint_cap e)"

definition rest_door :: "frontend \<Rightarrow> rest_request \<Rightarrow> bool" where
  "rest_door F rq \<longleftrightarrow> rr_SameOrigin rq \<and> LoopbackHostAllowed (fe_net F) (rr_RemoteAddr rq) (rr_Host rq)"

lemma authenticate_path [simp]: "authenticate F (rq\<lparr>rr_PathValues := bs\<rparr>) a = authenticate F rq a"
proof -
  let ?q = "rq\<lparr>rr_PathValues := bs\<rparr>"
  have "rr_Header ?q = rr_Header rq" "rr_Cookies ?q = rr_Cookies rq" "rr_Method ?q = rr_Method rq"
    "rr_RemoteAddr ?q = rr_RemoteAddr rq" "rr_clk ?q = rr_clk rq" by simp_all
  then show ?thesis unfolding authenticate_def header_def by (simp only:)
qed

lemma rest_open: "\<not> rest_door F rq \<or> rest_asks p rq = None \<Longrightarrow> snd (rest_serve p F rq a) = a"
  by (auto simp: rest_serve_def rest_door_def rest_asks_def endpoint_open split: option.splits)

lemma rest_authed:
  assumes "rest_serve p F rq a = (resp, a')" "rest_door F rq" "rest_asks p rq = Some cid"
  obtains h bs where "authed h F (rq\<lparr>rr_PathValues := bs\<rparr>) a = (resp, a')"
    "\<And>actor a. handles (rest_times rq) cid actor a rest_failed (h F (rq\<lparr>rr_PathValues := bs\<rparr>) actor a)"
proof -
  obtain e bs where r: "find_route rq (routes p) = Some (e, bs)" and c: "endpoint_cap e = Some cid"
    using assms(3) by (auto simp: rest_asks_def split: option.splits)
  have "serve_endpoint p e F (rq\<lparr>rr_PathValues := bs\<rparr>) a = (resp, a')"
    using assms(1,2) r by (simp add: rest_serve_def rest_door_def)
  then show ?thesis using endpoint_authed [OF c, of p F "rq\<lparr>rr_PathValues := bs\<rparr>" a, unfolded rest_times_simps] that by metis
qed

lemma unauthenticated_status: "authenticate F rq a = (Inl e, gone, a1) \<Longrightarrow> rest_status (writeError e) \<in> {401, 403}"
  using authenticate_Inl [of F rq a e gone a1]
  by (auto simp: writeError_def error_status_def CodeUnauthorized_def CodeForbidden_def CodeRevisionConflict_def
      CodeConflict_def CodeValidation_def CodeNotFound_def)

lemma rest_step:
  assumes "rest_serve p F rq a = (resp, a')"
  obtains "a' = a"
    | cid who gone a1 where "rest_door F rq" "rest_asks p rq = Some cid" "authenticate F rq a = (who, gone, a1)"
      "case who of Inl e \<Rightarrow> a' = deny_anonymous (rr_clk rq 1) e a1 \<and> rest_status resp \<in> {401, 403}
       | Inr actor \<Rightarrow> handled (rest_times rq) cid (actor\<lparr>an_Transport := ''rest''\<rparr>) a1 (rest_failed resp) a'"
proof (cases "rest_door F rq \<and> rest_asks p rq \<noteq> None")
  case False
  then show ?thesis using rest_open [of F rq p a] assms that(1) by auto
next
  case True
  then obtain cid where d: "rest_door F rq" "rest_asks p rq = Some cid" by auto
  obtain h bs where h: "authed h F (rq\<lparr>rr_PathValues := bs\<rparr>) a = (resp, a')"
    "\<And>actor a. handles (rest_times rq) cid actor a rest_failed (h F (rq\<lparr>rr_PathValues := bs\<rparr>) actor a)"
    using rest_authed [OF assms d] by blast
  obtain who gone a1 where w: "authenticate F rq a = (who, gone, a1)" by (metis prod_cases3)
  show ?thesis
  proof (rule that(2) [OF d w], cases who)
    case (Inl e)
    then show "case who of Inl e \<Rightarrow> a' = deny_anonymous (rr_clk rq 1) e a1 \<and> rest_status resp \<in> {401, 403}
       | Inr actor \<Rightarrow> handled (rest_times rq) cid (actor\<lparr>an_Transport := ''rest''\<rparr>) a1 (rest_failed resp) a'"
      using authed_unfold [OF h(1), of who gone a1] w unauthenticated_status [of F rq a e gone a1] by simp
  next
    case (Inr actor)
    then show "case who of Inl e \<Rightarrow> a' = deny_anonymous (rr_clk rq 1) e a1 \<and> rest_status resp \<in> {401, 403}
       | Inr actor \<Rightarrow> handled (rest_times rq) cid (actor\<lparr>an_Transport := ''rest''\<rparr>) a1 (rest_failed resp) a'"
      using authed_unfold [OF h(1), of who gone a1] w h(2) [of "actor\<lparr>an_Transport := ''rest''\<rparr>" a1] by simp
  qed
qed

section \<open>The contract\<close>

definition rest_admits :: "frontend \<Rightarrow> rest_request \<Rightarrow> app \<Rightarrow> actor \<Rightarrow> bool" where
  "rest_admits F rq a actor \<longleftrightarrow> rest_door F rq \<and> (\<exists>who. credentials F rq a who \<and> actor = who\<lparr>an_Transport := ''rest''\<rparr>)"

lemma rest_control_plane: "control_plane (rest_serve p F) rest_failed (rest_admits F) (rest_asks p) rest_times"
proof
  fix rq a resp a'
  assume "rest_serve p F rq a = (resp, a')"
  then show "a' = a \<or> (\<exists>a1. dropped (rest_times rq) a a1 \<and> ((rest_failed resp \<and> (\<exists>clk e. a' = deny_anonymous clk e a1))
      \<or> (\<exists>actor cid. rest_admits F rq a actor \<and> rest_asks p rq = Some cid \<and> handled (rest_times rq) cid actor a1 (rest_failed resp) a')))"
  proof (cases rule: rest_step)
    case (2 cid who gone a1)
    note d = authenticate_dropped [OF 2(3)]
    show ?thesis
    proof (cases who)
      case (Inl e)
      with 2(4) have "rest_failed resp \<and> a' = deny_anonymous (rr_clk rq 1) e a1" by (auto simp: rest_failed_def)
      with d show ?thesis by blast
    next
      case (Inr actor)
      with 2 have "rest_admits F rq a (actor\<lparr>an_Transport := ''rest''\<rparr>)" using authenticate_Inr [of F rq a actor gone a1]
        by (auto simp: rest_admits_def)
      with d 2(2,4) Inr show ?thesis by auto
    qed
  qed simp
qed

interpretation rest: control_plane "rest_serve p F" rest_failed "rest_admits F" "rest_asks p" rest_times for p F
  by (rule rest_control_plane)

section \<open>Properties\<close>

text \<open>
  C10. The front end refines the application: a request leaves the application as it was, or it matched a
  route behind a capability. Then it was refused for want of credentials, which is recorded and answered with
  401 or 403, or it was handled for the authenticated actor, that is refused before it reached the
  application or performed as one operation behind the capability of its route.
\<close>

theorem rest_refines_application:
  assumes "rest_serve p F rq a = (resp, a')"
  shows "a' = a \<or> (\<exists>m pat e bs cid who gone a1. (m, pat, e) \<in> set (routes p) \<and> route_match rq (m, pat, e) = Some bs
      \<and> endpoint_cap e = Some cid \<and> authenticate F rq a = (who, gone, a1)
      \<and> (case who of
           Inl err \<Rightarrow> a' = deny_anonymous (rr_clk rq 1) err a1 \<and> rest_status resp \<in> {401, 403}
         | Inr actor \<Rightarrow> handled (rest_times rq) cid (actor\<lparr>an_Transport := ''rest''\<rparr>) a1 (rest_failed resp) a'))"
  using assms
proof (cases rule: rest_step)
  case (2 cid who gone a1)
  obtain m pat e bs where "(m, pat, e) \<in> set (routes p)" "route_match rq (m, pat, e) = Some bs" "endpoint_cap e = Some cid"
    using 2(2) find_route_Some by (fastforce simp: rest_asks_def split: option.splits)
  with 2(3,4) show ?thesis by auto
qed simp

section \<open>A sample front end\<close>

definition rest_frontend :: frontend where
  "rest_frontend = \<lparr>fe_system = sample_system\<lparr>sy_comp := sample_comp\<lparr>cm_net := sample_net\<lparr>net_ParseIP := \<lambda>_. True, net_IsLoopback := \<lambda>_. True\<rparr>\<rparr>\<rparr>,
     fe_import = \<lparr>il_saml = \<lparr>sl_tokens = (\<lambda>_. ([], True)), sl_authn = (\<lambda>_. None), sl_metadata = (\<lambda>_. None), sl_inflate = (\<lambda>s n. Some s),
        sl_certificate = Some, sl_signEnveloped = (\<lambda>_ e. Some e), sl_write = (\<lambda>_. Some [])\<rparr>,
       il_unmarshal = (\<lambda>_. None), il_fingerprint = (\<lambda>i. Inr (ii_Document i))\<rparr>,
     fe_decode = (\<lambda>names b. Inr (zero_inputs, [])), fe_unmarshal = (\<lambda>names b inp. Inr inp), fe_compact = Some, fe_json = (\<lambda>_. Inr []), fe_sha256 = id, fe_marshal_clients = (\<lambda>_. []),
     fe_marshal_users = (\<lambda>_. []), fe_marshal_groups = (\<lambda>_. []), fe_marshal_sessions = (\<lambda>_. []), fe_marshal_audit = (\<lambda>_. []),
     fe_info = ''v1'', fe_configSchema = JNull\<rparr>"

definition rest_pause :: rest_request where
  "rest_pause = \<lparr>rr_Method = ''POST'', rr_Path = ''/v1/tunables/token:pause'', rr_Segments = [''v1'', ''tunables'', ''token:pause''],
     rr_PathValues = [], rr_Query = [], rr_Header = [], rr_Cookies = [], rr_Body = NilBody, rr_RemoteAddr = ''127.0.0.1:5'',
     rr_Host = ''localhost'', rr_TLS = False, rr_SameOrigin = True, rr_clk = (\<lambda>_ _. 2000), rr_rnd = (\<lambda>_. []), rr_entropy = None\<rparr>"

lemma rest_pause_routed: "find_route rest_pause (routes ''/v1'') = Some (EPause, [])"
  by code_simp

lemma rest_loopback: "LoopbackHostAllowed (fe_net rest_frontend) (rr_RemoteAddr rest_pause) (rr_Host rest_pause)"
  "authenticate rest_frontend rest_pause a = (Inr AdminActor, False, a)"
proof -
  have "LoopbackHostAllowed (fe_net rest_frontend) (rr_RemoteAddr rest_pause) (rr_Host rest_pause)"
    and l: "IsLoopback (fe_net rest_frontend) (rr_RemoteAddr rest_pause)" and b: "ParseBearer (header rest_pause ''Authorization'') = []"
    by code_simp+
  then show "LoopbackHostAllowed (fe_net rest_frontend) (rr_RemoteAddr rest_pause) (rr_Host rest_pause)"
    "authenticate rest_frontend rest_pause a = (Inr AdminActor, False, a)"
    by (simp_all add: authenticate_def Authenticate_def rest_pause_def)
qed

lemma rest_admin: "case ByID ''sso.tunable.token.pause'' of None \<Rightarrow> False | Some c \<Rightarrow> Authorize (AdminActor\<lparr>an_Transport := ''rest''\<rparr>) c = None"
  by code_simp

definition rest_paused :: "app \<Rightarrow> app" where
  "rest_paused a = snd (rest_serve ''/v1'' rest_frontend rest_pause a)"

lemma rest_pauses:
  "rest_serve ''/v1'' rest_frontend rest_pause a = (RJson 200 (VPaused True), rest_paused a)"
  "app_rt (rest_paused a) = SetPaused True (app_rt a)"
proof -
  have cap: "authorize_cap clk (AdminActor\<lparr>an_Transport := ''rest''\<rparr>) ''sso.tunable.token.pause'' a = (None, a)" for clk
    using rest_admin by (auto simp: authorize_cap_def split: option.splits)
  have body: "rr_Body rest_pause = NilBody" "rr_SameOrigin rest_pause" "rr_clk rest_pause = (\<lambda>_ _. 2000)" by (simp_all add: rest_pause_def)
  have "rest_serve ''/v1'' rest_frontend rest_pause a = authed pauseToken rest_frontend (rest_pause\<lparr>rr_PathValues := []\<rparr>) a"
    using rest_loopback(1) by (simp add: rest_serve_def rest_pause_routed body)
  also have "\<dots> = (RJson 200 (VPaused True), snd (emit_ok (\<lambda>_. 2000) (AdminActor\<lparr>an_Transport := ''rest''\<rparr>) ''sso.tunable.token.pause''
       (auditReason ''pause token'' [[]]) [] [] (set_rt (SetPaused True (app_rt a)) a)))"
    by (simp add: authed_def rest_loopback(2) pauseToken_def decodeOptionalJSON_def body with_input_def answer_def PauseToken_def
        tune_def with_cap_def cap zero_inputs_def)
  finally show "rest_serve ''/v1'' rest_frontend rest_pause a = (RJson 200 (VPaused True), rest_paused a)"
    "app_rt (rest_paused a) = SetPaused True (app_rt a)"
    by (simp_all add: rest_paused_def)
qed

theorem rest_refines_application_witness:
  "rest_paused sample_app = sample_app \<or> (\<exists>m pat e bs cid who gone a1. (m, pat, e) \<in> set (routes ''/v1'') \<and> route_match rest_pause (m, pat, e) = Some bs
      \<and> endpoint_cap e = Some cid \<and> authenticate rest_frontend rest_pause sample_app = (who, gone, a1)
      \<and> (case who of
           Inl err \<Rightarrow> rest_paused sample_app = deny_anonymous (rr_clk rest_pause 1) err a1 \<and> rest_status (RJson 200 (VPaused True)) \<in> {401, 403}
         | Inr actor \<Rightarrow> handled (rest_times rest_pause) cid (actor\<lparr>an_Transport := ''rest''\<rparr>) a1 (rest_failed (RJson 200 (VPaused True))) (rest_paused sample_app)))"
  by (rule rest_refines_application [OF rest_pauses(1)])

theorem rest_routes_catalogue_witness:
  "set (map (\<lambda>c. (cp_ID c, cp_Method c, cp_Path c)) catalog) = binding ` set bound_routes
   \<and> {x \<in> set (routes ''/v1''). route_match rest_pause x \<noteq> None} = {(''POST'', ''/v1/tunables/token:pause'', EPause)}"
proof -
  have "(''POST'', ''/v1/tunables/token:pause'', EPause) \<in> set (routes ''/v1'')" by (simp add: routes_def)
  moreover have "route_match rest_pause (''POST'', ''/v1/tunables/token:pause'', EPause) \<noteq> None" by code_simp
  ultimately show ?thesis
    using rest_routes_catalogue [of _ "(''POST'', ''/v1/tunables/token:pause'', EPause)" rest_pause] by blast
qed

section \<open>What a request can do\<close>

text \<open>
  Every request keeps the invariant of the application and never lowers the generation of the active
  snapshot, whatever the request holds and however it is answered.
\<close>

theorem rest_invariant:
  assumes "rest_serve p F rq a = (resp, a')" "app_inv a"
  shows "app_inv a' \<and> generation_of a \<le> generation_of a'"
  using assms by (rule rest.keeps_inv)

theorem rest_invariant_witness: "app_inv (rest_paused sample_app)"
  using rest_invariant [OF rest_pauses(1)] app_reach_inv [OF sample_reach] by blast

text \<open>A capability behind a GET route is read-only.\<close>

lemma read_only_members:
  "list_all (\<lambda>e. case endpoint_cap e of None \<Rightarrow> True | Some cid \<Rightarrow> cid \<in> set read_only_ids)
     [ELive, EReady, EVersion, ECapabilities, EStatus, ESchema, EState, EExport, EClients, EClient, EUsers, EUser, EGroups,
      EGroup, ESessions, ESessionGet, EAudit, EEvent, EIndex, EScript]"
  unfolding read_only_values by code_simp

lemma get_endpoints:
  assumes "(m, pat, e) \<in> set (routes p)" "m = ''GET''"
  shows "e \<in> set [ELive, EReady, EVersion, ECapabilities, EStatus, ESchema, EState, EExport, EClients, EClient, EUsers, EUser,
    EGroups, EGroup, ESessions, ESessionGet, EAudit, EEvent, EIndex, EScript]"
  using assms by (auto simp: routes_def)

lemma get_read_only: "(m, pat, e) \<in> set (routes p) \<Longrightarrow> method_matches m g \<Longrightarrow> g \<in> {''GET'', ''HEAD''} \<Longrightarrow>
   endpoint_cap e = Some cid \<Longrightarrow> cid \<in> set read_only_ids"
proof -
  assume *: "(m, pat, e) \<in> set (routes p)" "method_matches m g" "g \<in> {''GET'', ''HEAD''}" "endpoint_cap e = Some cid"
  have "m \<noteq> ''HEAD''" using *(1) by (auto simp: routes_def)
  then have "m = ''GET''" using *(2,3) by (auto simp: method_matches_def)
  from get_endpoints [OF *(1) this] read_only_members *(4) show ?thesis unfolding list_all_iff by fastforce
qed

lemma rest_get_read_only:
  assumes "rr_Method rq \<in> {''GET'', ''HEAD''}" "rest_asks p rq = Some cid"
  shows "cid \<in> set read_only_ids"
proof -
  obtain m pat e bs where "(m, pat, e) \<in> set (routes p)" "route_match rq (m, pat, e) = Some bs" "endpoint_cap e = Some cid"
    using assms(2) find_route_Some by (fastforce simp: rest_asks_def split: option.splits)
  then show ?thesis using get_read_only [of m pat e p "rr_Method rq" cid] route_match_parts [of rq m pat e] assms(1) by simp
qed

text \<open>
  C11. Nobody changes the application without credentials. When a request changes the store, the protocol
  runtime or the remembered results, adds an operator session, or removes one that had not expired at any
  time the request read from the clock, then it is not a cross-origin request, its host is allowed, and it presents the access token of the active snapshot, or a live operator
  session (with the CSRF token of that session unless its method is GET or HEAD), or, without either, comes
  from a loopback address. A GET or HEAD request changes neither the store nor the operator sessions, other
  than dropping ones that had expired at a time it read from the clock, and of the runtime it drops at most
  the login sessions that a listing at such a time drops.
\<close>

theorem rest_authentication:
  assumes "rest_serve p F rq a = (resp, a')"
  shows "(changed (rest_times rq) a a' \<longrightarrow>
      rr_SameOrigin rq \<and> LoopbackHostAllowed (fe_net F) (rr_RemoteAddr rq) (rr_Host rq) \<and> (\<exists>actor. credentials F rq a actor))
    \<and> (rr_Method rq \<in> {''GET'', ''HEAD''} \<longrightarrow> quiet (rest_times rq) a a')"
proof
  show "changed (rest_times rq) a a' \<longrightarrow>
      rr_SameOrigin rq \<and> LoopbackHostAllowed (fe_net F) (rr_RemoteAddr rq) (rr_Host rq) \<and> (\<exists>actor. credentials F rq a actor)"
    using rest.changes_admitted [OF assms] by (auto simp: rest_admits_def rest_door_def)
  show "rr_Method rq \<in> {''GET'', ''HEAD''} \<longrightarrow> quiet (rest_times rq) a a'"
    using rest.read_only_quiet [OF assms] rest_get_read_only by blast
qed

theorem rest_authentication_witness: "\<exists>actor. credentials rest_frontend rest_pause sample_app actor"
proof -
  have "\<not> rt_paused (app_rt sample_app)"
    by (simp add: sample_app_def sample_start_def InstallBootstrapFile_def NewApp_def app_rt_def NewRuntime_def SetReject_def
        Oidc.New_def split: sum.split)
  moreover have "rt_paused (app_rt (rest_paused sample_app))" by (simp add: rest_pauses(2) SetPaused_def)
  ultimately have "app_rt (rest_paused sample_app) \<noteq> app_rt sample_app" by metis
  then have "changed (rest_times rest_pause) sample_app (rest_paused sample_app)" by (simp add: changed_def)
  then show ?thesis using rest_authentication [OF rest_pauses(1), of sample_app] by blast
qed

text \<open>
  An error has no effect: when the answer has a status of 400 or more, whether the request was refused at
  the door, not authenticated, not decoded or failed in the application, then the store and the remembered
  results are as they were, no operator session was added, and the runtime is unchanged up to expired login
  sessions that a listing has dropped.
\<close>

theorem rest_errors_atomic:
  assumes "rest_serve p F rq a = (resp, a')" "400 \<le> rest_status resp"
  shows "quiet (rest_times rq) a a' \<and> ic_m (ap_idemp a') = ic_m (ap_idemp a)"
  using rest.errors_atomic [OF assms(1)] assms(2) by (simp add: rest_failed_def)

theorem rest_errors_atomic_witness:
  "quiet (rest_times (rest_pause\<lparr>rr_SameOrigin := False\<rparr>)) sample_app (snd (rest_serve ''/v1'' rest_frontend (rest_pause\<lparr>rr_SameOrigin := False\<rparr>) sample_app))"
  using rest_errors_atomic [of "''/v1''" rest_frontend "rest_pause\<lparr>rr_SameOrigin := False\<rparr>" sample_app "RText 403 ''cross-origin request detected''" sample_app]
  by (simp add: rest_serve_def)

end
