(* ===== verification/Mcp_Props.thy ===== *)
theory Mcp_Props
  imports Mcp Rest_Props
begin

text \<open>
  The MCP front end offers exactly the tools of the catalogue, keeps to the contract of a front end, and does
  with the same inputs what the REST front end does.
\<close>

section \<open>Tools and resources\<close>

text \<open>The capability behind a tool and behind a resource.\<close>

fun tool_id :: "tool \<Rightarrow> string" where
  "tool_id TVersionGet = ''sso.version.get''"
| "tool_id TCapabilitiesGet = ''sso.capabilities.get''"
| "tool_id TStatusGet = ''sso.status.get''"
| "tool_id TSchemaGet = ''sso.schema.config.get''"
| "tool_id TStateGet = ''sso.state.get''"
| "tool_id TStateValidate = ''sso.state.validate''"
| "tool_id TChangePlan = ''sso.change.plan''"
| "tool_id TChangeApply = ''sso.change.apply''"
| "tool_id TStateExport = ''sso.state.export''"
| "tool_id TStateReset = ''sso.state.reset''"
| "tool_id TClientsList = ''sso.clients.list''"
| "tool_id TClientGet = ''sso.client.get''"
| "tool_id TUsersList = ''sso.users.list''"
| "tool_id TUserGet = ''sso.user.get''"
| "tool_id TMfaSet = ''sso.auth.mfa.set''"
| "tool_id TTotpEnroll = ''sso.user.totp.enroll''"
| "tool_id TTotpClear = ''sso.user.totp.clear''"
| "tool_id TGroupsList = ''sso.groups.list''"
| "tool_id TGroupGet = ''sso.group.get''"
| "tool_id TSessionsList = ''sso.sessions.list''"
| "tool_id TSessionExpire = ''sso.session.expire''"
| "tool_id TTokenPause = ''sso.tunable.token.pause''"
| "tool_id TTokenResume = ''sso.tunable.token.resume''"
| "tool_id TForceFail = ''sso.tunable.auth.force_fail''"
| "tool_id TErrorInject = ''sso.tunable.error.inject''"
| "tool_id TVendorSwap = ''sso.tunable.vendor.swap''"
| "tool_id TOverageSet = ''sso.tunable.overage.set''"
| "tool_id TConsentForce = ''sso.tunable.consent.force''"
| "tool_id TTokenMint = ''sso.tunable.token.mint''"
| "tool_id TAuditQuery = ''sso.audit.list''"
| "tool_id TAuditGet = ''sso.audit.get''"
| "tool_id TImportPlan = ''sso.import.plan''"
| "tool_id TImportApply = ''sso.import.apply''"
| "tool_id TRedirectRewrite = ''sso.tunable.redirect.rewrite''"
| "tool_id TExpireAll = ''sso.sessions.expire_all''"

definition resource_id :: "string \<Rightarrow> string option" where
  "resource_id uri =
     (if uri = ''labsso://state'' then Some ''sso.state.get''
      else if uri = ''labsso://capabilities'' then Some ''sso.capabilities.get''
      else if uri = ''labsso://status'' then Some ''sso.status.get''
      else if uri = ''labsso://schema/config'' then Some ''sso.schema.config.get''
      else if uri = ''labsso://audit/recent'' then Some ''sso.audit.list''
      else if HasPrefix uri ''labsso://clients/'' then Some ''sso.client.get''
      else if HasPrefix uri ''labsso://users/'' then Some ''sso.user.get''
      else if HasPrefix uri ''labsso://groups/'' then Some ''sso.group.get''
      else None)"

definition catalogue_tools :: "capability list" where
  "catalogue_tools = filter (\<lambda>c. \<not> cp_RESTOnly c) catalog"

definition tool_row :: "string \<times> bool \<times> bool \<times> tool \<Rightarrow> string \<times> string \<times> bool \<times> bool" where
  "tool_row r = (case r of (n, m, i, t) \<Rightarrow> (tool_id t, n, m, i))"

definition cap_row :: "capability \<Rightarrow> string \<times> string \<times> bool \<times> bool" where
  "cap_row c = (cp_ID c, cp_Tool c, cp_Mutating c, cp_Idempotent c)"

lemma tool_bindings:
  "list_all (\<lambda>r. tool_row r \<in> set (map cap_row catalogue_tools)) tools"
  "list_all (\<lambda>c. cap_row c \<in> set (map tool_row tools)) catalogue_tools"
  "distinct (map fst tools)"
  by code_simp+

definition catalogue_resources :: "(string \<times> string option) list" where
  "catalogue_resources = map (\<lambda>c. (cp_Resource c, Some (cp_ID c))) (filter (\<lambda>c. cp_Resource c \<noteq> []) catalog)"

lemma resource_bindings:
  "list_all (\<lambda>u. (u, resource_id u) \<in> set catalogue_resources) resources"
  "list_all (\<lambda>r. r \<in> set (map (\<lambda>u. (u, resource_id u)) resources)) catalogue_resources"
  by code_simp+

section \<open>The contract\<close>

lemma reply_handles: "handles T cid actor a isl r \<Longrightarrow> handles T cid actor a isl (reply_of f r)"
  by simp

lemma change_handles:
  assumes "\<And>cin. handles T cid actor a isl (k cin)"
  shows "handles T cid actor a isl (with_change c a k)"
  using assms by (auto simp: with_change_def handled.refused split: sum.split)

lemma tool_handles:
  assumes "range clk \<subseteq> T"
  shows "handles T (tool_id t) actor a isl (tool_call F clk mclk rnd t actor inp a)"
  by (induction t; simp only: tool_id.simps tool_call.simps PageClients_def PageUsers_def PageGroups_def PageSessions_def PageAudit_def;
      (rule change_handles)?; rule reply_handles;
      (rule exec_handles, rule app_exec.simps, simp, rule assms
        | rule paged_handles, rule app_exec.simps, simp, simp add: listing_def, rule assms))

definition mcp_failed :: "mcp_result \<Rightarrow> bool" where
  "mcp_failed res = (case res of MOk _ \<Rightarrow> False | MResource _ _ \<Rightarrow> False | MSdk \<Rightarrow> False | _ \<Rightarrow> True)"

lemma mcp_failed_simps [simp]:
  "mcp_failed (MText s t)" "mcp_failed (MHttp s e)" "mcp_failed (MRpc c e)" "mcp_failed (MError c e)" "mcp_failed MInvalid"
  "\<not> mcp_failed (MOk v)" "\<not> mcp_failed (MResource u v)" "mcp_failed (resourceError e)"
  by (simp_all add: mcp_failed_def resourceError_def)

lemma tool_result_parts [simp]:
  "mcp_failed (fst (tool_result r)) = isl (fst r)" "snd (tool_result r) = snd r" "fst (tool_result r) \<noteq> MInvalid"
  by (cases r; cases "fst r"; simp add: tool_result_def)+

lemma resource_result_parts [simp]:
  "mcp_failed (fst (resource_result u r)) = isl (fst r)" "snd (resource_result u r) = snd r" "fst (resource_result u r) \<noteq> MInvalid"
  by (cases r; cases "fst r"; simp add: resource_result_def resourceError_def)+

lemma query_handles:
  assumes "range clk \<subseteq> T"
  shows "handles T ''sso.state.get'' actor a isl (GetState clk actor a)" "handles T ''sso.capabilities.get'' actor a isl (Capabilities clk actor a)"
  "handles T ''sso.status.get'' actor a isl (GetStatus clk actor a)" "handles T ''sso.schema.config.get'' actor a isl (SchemaConfig S clk actor a)"
  "handles T ''sso.client.get'' actor a isl (GetClient clk actor i a)" "handles T ''sso.user.get'' actor a isl (GetUser clk actor i a)"
  "handles T ''sso.group.get'' actor a isl (GetGroup clk actor i a)"
  by (rule exec_handles, rule app_exec.simps, simp, rule assms)+

lemma audit_handles: "range clk \<subseteq> T \<Longrightarrow> handles T ''sso.audit.list'' actor a isl (PageAudit m h clk actor l a)"
  unfolding PageAudit_def by (rule paged_handles, rule app_exec.simps, simp, simp add: listing_def)

text \<open>The times at which the operation of a request reads the clock.\<close>

definition mcp_times :: "mcp_request \<Rightarrow> go_time set" where
  "mcp_times rq = range (mq_clk rq 3)"

lemma resource_handles:
  "case resource_id uri of None \<Rightarrow> snd (readResource F rq uri actor a) = a
   | Some cid \<Rightarrow> handles (mcp_times rq) cid actor a mcp_failed (readResource F rq uri actor a)"
  "fst (readResource F rq uri actor a) \<noteq> MInvalid"
  by (simp_all add: resource_id_def readResource_def Let_def query_handles audit_handles mcp_times_def) (simp add: resourceError_def)

definition mcp_asks :: "mcp_request \<Rightarrow> string option" where
  "mcp_asks rq = (case mq_Call rq of CallTool name _ _ \<Rightarrow> map_option tool_id (find_tool name)
     | ReadResource uri \<Rightarrow> resource_id uri | OtherCall \<Rightarrow> None)"

lemma dispatch_step:
  assumes "dispatch_call F rq actor a = (res, a')"
  shows "a' = a \<or> (res \<noteq> MInvalid \<and> (\<exists>cid. mcp_asks rq = Some cid \<and> handled (mcp_times rq) cid actor a (mcp_failed res) a'))"
    and "res = MInvalid \<Longrightarrow> a' = a \<and> mcp_asks rq \<noteq> None"
proof -
  have "(a' = a \<or> (res \<noteq> MInvalid \<and> (\<exists>cid. mcp_asks rq = Some cid \<and> handled (mcp_times rq) cid actor a (mcp_failed res) a')))
    \<and> (res = MInvalid \<longrightarrow> a' = a \<and> mcp_asks rq \<noteq> None)"
  proof (cases "mq_Call rq")
    case (CallTool name args verdict)
    show ?thesis
    proof (cases "find_tool name")
      case None
      then show ?thesis using assms CallTool by (auto simp: dispatch_call_def)
    next
      case (Some t)
      then have asks: "mcp_asks rq = Some (tool_id t)" using CallTool by (simp add: mcp_asks_def)
      show ?thesis
      proof (cases "\<exists>inp. dispatch_call F rq actor a = tool_result (tool_call F (mq_clk rq 3) (mq_clk rq 4) (mq_entropy rq) t actor inp a)")
        case True
        then obtain inp where r: "tool_result (tool_call F (mq_clk rq 3) (mq_clk rq 4) (mq_entropy rq) t actor inp a) = (res, a')"
          using assms by metis
        note p = tool_result_parts [of "tool_call F (mq_clk rq 3) (mq_clk rq 4) (mq_entropy rq) t actor inp a"]
        show ?thesis using tool_handles [of "mq_clk rq 3" "mcp_times rq" t actor a F "mq_clk rq 4" "mq_entropy rq" inp] p asks
          unfolding r fst_conv snd_conv by (auto simp: mcp_times_def)
      next
        case False
        then have "dispatch_call F rq actor a = (MInvalid, a)"
          using CallTool Some by (auto simp: dispatch_call_def run_tool_def split: option.splits sum.splits)
        then show ?thesis using assms asks by simp
      qed
    qed
  next
    case (ReadResource uri)
    then have "readResource F rq uri actor a = (res, a')" "mcp_asks rq = resource_id uri"
      using assms by (simp_all add: dispatch_call_def mcp_asks_def)
    then show ?thesis using resource_handles [where uri = uri and F = F and rq = rq and actor = actor and a = a]
      by (auto split: option.splits)
  next
    case OtherCall
    then show ?thesis using assms by (auto simp: dispatch_call_def)
  qed
  then show "a' = a \<or> (res \<noteq> MInvalid \<and> (\<exists>cid. mcp_asks rq = Some cid \<and> handled (mcp_times rq) cid actor a (mcp_failed res) a'))"
    "res = MInvalid \<Longrightarrow> a' = a \<and> mcp_asks rq \<noteq> None" by blast+
qed

text \<open>The protocol is pinned unless old clients are allowed.\<close>

definition pinned :: "bool \<Rightarrow> mcp_request \<Rightarrow> bool" where
  "pinned legacy rq \<longleftrightarrow> legacy \<or> (TrimSpace (values_Get (mq_Header rq) headerProtocol) = ProtocolVersion
     \<and> mq_Version rq \<in> {[], ProtocolVersion})"

definition mcp_credentials :: "frontend \<Rightarrow> mcp_request \<Rightarrow> app \<Rightarrow> actor \<Rightarrow> bool" where
  "mcp_credentials F rq a actor \<longleftrightarrow> (let bearer = ParseBearer (values_Get (mq_Header rq) ''Authorization'') in
     if bearer \<noteq> [] then bearer = token_of a \<and> an_Class actor = ''bearer''
     else IsLoopback (fe_net F) (mq_RemoteAddr rq) \<and> actor = AdminActor)"

definition mcp_admits :: "bool \<Rightarrow> frontend \<Rightarrow> mcp_request \<Rightarrow> app \<Rightarrow> actor \<Rightarrow> bool" where
  "mcp_admits legacy F rq a actor \<longleftrightarrow> LoopbackHostAllowed (fe_net F) (mq_RemoteAddr rq) (mq_Host rq) \<and> pinned legacy rq
     \<and> (\<exists>who. mcp_credentials F rq a who \<and> actor = who\<lparr>an_Transport := ''mcp''\<rparr>)"

lemma authenticate_mcp_Inr: "authenticate_mcp F rq a = Inr actor \<Longrightarrow> mcp_credentials F rq a actor"
  by (auto simp: authenticate_mcp_def mcp_credentials_def Authenticate_def Let_def split: if_splits)

lemma pin_step:
  assumes "pinProtocol legacy F rq actor a = (res, a')"
  shows "a' = a \<or> ((legacy \<or> mq_Version rq \<in> {[], ProtocolVersion}) \<and> (\<exists>cid. mcp_asks rq = Some cid \<and> handled (mcp_times rq) cid actor a (mcp_failed res) a'))"
proof (cases "\<not> legacy \<and> mq_Version rq \<noteq> [] \<and> mq_Version rq \<noteq> ProtocolVersion")
  case True
  then show ?thesis using assms by (simp add: pinProtocol_def)
next
  case False
  obtain a1 where d: "dispatch_call F rq actor a = (res, a1)"
    and a': "a' = (if res = MInvalid then RejectInput (mq_clk rq 2) actor (Validation ''MCP arguments rejected'' []) a1 else a1)"
    using assms False by (auto simp: pinProtocol_def Let_def split: prod.splits)
  show ?thesis
  proof (cases "res = MInvalid")
    case True
    then show ?thesis using dispatch_step(2) [OF d] a' False handled.rejected by (auto simp: mcp_failed_def)
  next
    case False
    then show ?thesis using dispatch_step(1) [OF d] a' \<open>\<not> (\<not> legacy \<and> mq_Version rq \<noteq> [] \<and> mq_Version rq \<noteq> ProtocolVersion)\<close> by auto
  qed
qed

lemma mcp_control_plane: "control_plane (mcp_serve legacy F) mcp_failed (mcp_admits legacy F) mcp_asks mcp_times"
proof
  fix rq a resp a'
  assume *: "mcp_serve legacy F rq a = (resp, a')"
  consider "a' = a" | e where "resp = MHttp 401 e" "a' = deny_anonymous (mq_clk rq 1) e a"
    | actor where "LoopbackHostAllowed (fe_net F) (mq_RemoteAddr rq) (mq_Host rq)" "\<not> legacy \<longrightarrow> validateProtocolVersion rq = None"
      "authenticate_mcp F rq a = Inr actor" "pinProtocol legacy F rq (actor\<lparr>an_Transport := ''mcp''\<rparr>) a = (resp, a')"
    using * by (auto simp: mcp_serve_def split: if_splits option.splits sum.splits)
  then show "a' = a \<or> (\<exists>a1. dropped (mcp_times rq) a a1 \<and> ((mcp_failed resp \<and> (\<exists>clk e. a' = deny_anonymous clk e a1))
      \<or> (\<exists>actor cid. mcp_admits legacy F rq a actor \<and> mcp_asks rq = Some cid \<and> handled (mcp_times rq) cid actor a1 (mcp_failed resp) a')))"
  proof cases
    case (2 e)
    then show ?thesis using dropped_refl [of "mcp_times rq" a] mcp_failed_simps(2) by blast
  next
    case (3 actor)
    have "\<not> legacy \<Longrightarrow> TrimSpace (values_Get (mq_Header rq) headerProtocol) = ProtocolVersion"
      using 3(2) by (auto simp: validateProtocolVersion_def Let_def split: if_splits)
    then have "legacy \<or> mq_Version rq \<in> {[], ProtocolVersion} \<Longrightarrow> mcp_admits legacy F rq a (actor\<lparr>an_Transport := ''mcp''\<rparr>)"
      using 3(1) authenticate_mcp_Inr [OF 3(3)] by (auto simp: mcp_admits_def pinned_def)
    then show ?thesis using pin_step [OF 3(4)] dropped_refl [of "mcp_times rq" a] by blast
  qed simp
qed

interpretation mcp: control_plane "mcp_serve legacy F" mcp_failed "mcp_admits legacy F" mcp_asks mcp_times for legacy F
  by (rule mcp_control_plane)

section \<open>Properties\<close>

text \<open>
  The tools and the resources of the front end are exactly the bindings of the catalogue: every capability
  that is not for REST alone has one tool, with its name and with what the catalogue says of
  mutation and idempotence, and the resources are those of the catalogue. A tool does one operation behind its
  capability for the actor of the call, and so does reading a resource.
\<close>

theorem mcp_tools_catalogue:
  "cap_row ` set catalogue_tools = tool_row ` set tools \<and> distinct (map fst tools)
   \<and> set catalogue_resources = (\<lambda>uri. (uri, resource_id uri)) ` set resources
   \<and> handles (range clk) (tool_id t) actor a isl (tool_call F clk mclk rnd t actor inp a)
   \<and> (case resource_id uri of None \<Rightarrow> snd (readResource F rq uri actor a) = a
      | Some cid \<Rightarrow> handles (mcp_times rq) cid actor a mcp_failed (readResource F rq uri actor a))"
proof (intro conjI)
  show "cap_row ` set catalogue_tools = tool_row ` set tools" using tool_bindings(1,2) unfolding list_all_iff set_map by blast
  show "set catalogue_resources = (\<lambda>uri. (uri, resource_id uri)) ` set resources"
    using resource_bindings unfolding list_all_iff set_map by blast
qed (rule tool_bindings(3) tool_handles [OF subset_refl] resource_handles(1))+

section \<open>The two front ends\<close>

fun endpoint_tool :: "endpoint \<Rightarrow> tool option" where
  "endpoint_tool EVersion = Some TVersionGet"
| "endpoint_tool ECapabilities = Some TCapabilitiesGet"
| "endpoint_tool EStatus = Some TStatusGet"
| "endpoint_tool ESchema = Some TSchemaGet"
| "endpoint_tool EState = Some TStateGet"
| "endpoint_tool EValidate = Some TStateValidate"
| "endpoint_tool EPlan = Some TChangePlan"
| "endpoint_tool EApply = Some TChangeApply"
| "endpoint_tool EExport = Some TStateExport"
| "endpoint_tool EReset = Some TStateReset"
| "endpoint_tool EClients = Some TClientsList"
| "endpoint_tool EClient = Some TClientGet"
| "endpoint_tool EUsers = Some TUsersList"
| "endpoint_tool EUser = Some TUserGet"
| "endpoint_tool EMFA = Some TMfaSet"
| "endpoint_tool EEnroll = Some TTotpEnroll"
| "endpoint_tool EClear = Some TTotpClear"
| "endpoint_tool EGroups = Some TGroupsList"
| "endpoint_tool EGroup = Some TGroupGet"
| "endpoint_tool ESessions = Some TSessionsList"
| "endpoint_tool ESessionExpire = Some TSessionExpire"
| "endpoint_tool EPause = Some TTokenPause"
| "endpoint_tool EResume = Some TTokenResume"
| "endpoint_tool EForceFail = Some TForceFail"
| "endpoint_tool EInject = Some TErrorInject"
| "endpoint_tool EVendor = Some TVendorSwap"
| "endpoint_tool EOverage = Some TOverageSet"
| "endpoint_tool EForceConsent = Some TConsentForce"
| "endpoint_tool EMint = Some TTokenMint"
| "endpoint_tool EAudit = Some TAuditQuery"
| "endpoint_tool EEvent = Some TAuditGet"
| "endpoint_tool EImportPlan = Some TImportPlan"
| "endpoint_tool EImportApply = Some TImportApply"
| "endpoint_tool ERedirect = Some TRedirectRewrite"
| "endpoint_tool EExpireAll = Some TExpireAll"
| "endpoint_tool _ = None"

text \<open>The fields that an endpoint reads from its body, and whether it needs one.\<close>

fun rest_fields :: "endpoint \<Rightarrow> (bool \<times> string list) option" where
  "rest_fields EValidate = Some (True, [''document'', ''operations'', ''expectedRevision'', ''reason'', ''idempotencyKey''])"
| "rest_fields EPlan = Some (True, [''expectedRevision'', ''idempotencyKey'', ''reason'', ''operations''])"
| "rest_fields EApply = Some (True, [''expectedRevision'', ''idempotencyKey'', ''reason'', ''operations''])"
| "rest_fields EReset = Some (True, [''reason'', ''expectedRevision'', ''idempotencyKey'', ''dryRun''])"
| "rest_fields EMFA = Some (True, [''mode'', ''expectedRevision'', ''idempotencyKey'', ''reason''])"
| "rest_fields EEnroll = Some (True, [''reason''])"
| "rest_fields EClear = Some (True, [''reason''])"
| "rest_fields ESessionExpire = Some (False, [''reason''])"
| "rest_fields EPause = Some (False, [''reason''])"
| "rest_fields EResume = Some (False, [''reason''])"
| "rest_fields EForceFail = Some (True, [''reason'', ''on''])"
| "rest_fields EInject = Some (True, [''reason'', ''code''])"
| "rest_fields EVendor = Some (True, [''vendor'', ''tenantId'', ''expectedRevision'', ''idempotencyKey'', ''reason''])"
| "rest_fields EOverage = Some (True, [''entraGraphStub'', ''oktaFailAt'', ''genericCap'', ''expectedRevision'', ''idempotencyKey'', ''reason''])"
| "rest_fields EForceConsent = Some (True, [''reason'', ''on''])"
| "rest_fields EMint = Some (True, [''userId'', ''clientId'', ''scope''])"
| "rest_fields EExpireAll = Some (False, [''reason''])"
| "rest_fields EImportPlan = Some (True, [''kind'', ''document'', ''expectedRevision'', ''idempotencyKey'', ''reason''])"
| "rest_fields EImportApply = Some (True, [''kind'', ''document'', ''expectedRevision'', ''idempotencyKey'', ''reason''])"
| "rest_fields ERedirect = Some (True, [''clientId'', ''redirectURIs'', ''expectedRevision'', ''idempotencyKey'', ''reason''])"
| "rest_fields _ = None"

definition rest_decoded :: "frontend \<Rightarrow> endpoint \<Rightarrow> rest_request \<Rightarrow> inputs option" where
  "rest_decoded F e rq = (case rest_fields e of
     None \<Rightarrow> Some zero_inputs
   | Some (needed, names) \<Rightarrow>
       if needed then case_sum (\<lambda>_. None) Some (decode_body F names (rr_Body rq))
       else if rr_Body rq = NilBody then Some zero_inputs
       else case read_body (rr_Body rq) of
         None \<Rightarrow> None
       | Some s \<Rightarrow> if TrimSpace s = [] then Some zero_inputs else case_sum (\<lambda>_. None) Some (decode_body F names (Body s)))"

text \<open>
  The inputs of a REST request, from its body, its headers, its path and its query, in the form of the inputs
  of a tool; \<open>None\<close> when the request is refused.
\<close>

definition rest_inputs :: "string \<Rightarrow> frontend \<Rightarrow> endpoint \<Rightarrow> rest_request \<Rightarrow> inputs option" where
  "rest_inputs p F e rq =
     (if e \<in> {EClients, EUsers, EGroups, ESessions, EAudit} then
        case_sum (\<lambda>_. None) (\<lambda>l. Some (zero_inputs\<lparr>jf_Cursor := li_Cursor l, jf_Limit := li_Limit l\<rparr>)) (listInput rq)
      else if e = EExport then Some (zero_inputs\<lparr>jf_Format := values_Get (rr_Query rq) ''format''\<rparr>)
      else case rest_decoded F e rq of
        None \<Rightarrow> None
      | Some inp \<Rightarrow>
          let inp1 = inp\<lparr>jf_ExpectedRevision := expected_of rq inp, jf_IdempotencyKey := key_of rq inp\<rparr> in
          if e = ESessionExpire then case_sum (\<lambda>_. None) (\<lambda>sid. Some (inp1\<lparr>jf_ID := sid\<rparr>)) (session_id p (rr_Path rq))
          else Some (inp1\<lparr>jf_ID := PathValue rq (if e = EEvent then ''eventId'' else ''id'')\<rparr>))"

definition rest_render :: "(go_error + reply) \<times> app \<Rightarrow> rest_response \<times> app" where
  "rest_render res = (case res of
     (Inr (VExport out), a) \<Rightarrow>
       (RData (if ev_Format out = ''json'' then ''application/json'' else ''application/yaml'') (ev_Data out), a)
   | _ \<Rightarrow> answer id res)"

definition compact_inputs :: "frontend \<Rightarrow> inputs \<Rightarrow> bool" where
  "compact_inputs F inp = list_all (\<lambda>op. op_Value op = [] \<or> fe_compact F (op_Value op) = Some (op_Value op)) (jf_Operations inp)"

lemma compact_ops_same:
  "list_all (\<lambda>op. op_Value op = [] \<or> fe_compact F (op_Value op) = Some (op_Value op)) ops \<Longrightarrow> compact_ops F ops = Inr ops"
  by (induction ops) (auto simp: compact_op_def bindE_def)

lemma toApp_compact:
  "compact_inputs F inp \<Longrightarrow> toApp F inp = Inr \<lparr>ci_ExpectedRevision = jf_ExpectedRevision inp, ci_IdempotencyKey = jf_IdempotencyKey inp,
     ci_Reason = jf_Reason inp, ci_Operations = jf_Operations inp, ci_fingerprint = []\<rparr>"
  by (simp add: toApp_def compact_inputs_def compact_ops_same bindE_def)

lemma ImportPlan_inputs:
  "ImportPlan Y I clk actor \<lparr>ii_Kind = k, ii_Document = d, ii_ExpectedRevision = e, ii_IdempotencyKey = i, ii_Reason = r\<rparr> a
   = ImportPlan Y I clk actor \<lparr>ii_Kind = k, ii_Document = d, ii_ExpectedRevision = [], ii_IdempotencyKey = [], ii_Reason = r\<rparr> a"
  by (simp add: ImportPlan_def rewrite_in_def)

lemma render_reply:
  "(\<And>v out. f v \<noteq> VExport out) \<Longrightarrow> rest_render (reply_of f r) = answer f r"
  by (cases r; cases "fst r"; cases "f (projr (fst r))") (auto simp: rest_render_def reply_of_def answer_def split: reply.splits)

lemma decoded_needed:
  "rest_fields e = Some (True, names) \<Longrightarrow> rest_decoded F e rq = Some inp \<Longrightarrow> with_input (decodeJSON F names rq actor a) k = k inp a"
  by (auto simp: rest_decoded_def decodeJSON_def with_input_def split: sum.splits)

lemma decoded_optional:
  "rest_fields e = Some (False, names) \<Longrightarrow> rest_decoded F e rq = Some inp \<Longrightarrow>
     with_input (decodeOptionalJSON F names rq actor a) k = k inp a"
  by (auto simp: rest_decoded_def decodeOptionalJSON_def decodeJSON_def with_input_def split: sum.splits option.splits if_splits)

text \<open>What an endpoint does once its inputs are decoded.\<close>

definition agrees :: "string \<Rightarrow> frontend \<Rightarrow> rest_request \<Rightarrow> endpoint \<Rightarrow> tool \<Rightarrow> inputs \<Rightarrow> bool" where
  "agrees p F rq e t inp \<longleftrightarrow> (\<exists>h. (\<forall>a. serve_endpoint p e F rq a = authed h F rq a) \<and> (\<forall>actor a. h F rq actor a
     = rest_render (tool_call F (rr_clk rq 3) (rr_clk rq 4) (rr_entropy rq) t actor inp a)))"

lemma agreesI:
  "(\<And>a. serve_endpoint p e F rq a = authed h F rq a) \<Longrightarrow>
   (\<And>actor a. h F rq actor a = rest_render (tool_call F (rr_clk rq 3) (rr_clk rq 4) (rr_entropy rq) t actor inp a)) \<Longrightarrow> agrees p F rq e t inp"
  unfolding agrees_def by blast

lemma list_in_eta: "\<lparr>li_Cursor = li_Cursor l, li_Limit = li_Limit l\<rparr> = (l :: list_in)"
  by simp

lemmas query_handler_defs = version_def capabilities_def status_rest_def schema_def state_rest_def clientGet_def userGet_def
  groupGet_def auditGet_def clients_rest_def users_rest_def groups_rest_def sessions_rest_def auditList_def

lemma agrees_queries:
  "rest_inputs p F e rq = Some inp \<Longrightarrow> endpoint_tool e \<noteq> None \<Longrightarrow> rest_fields e = None \<Longrightarrow> e \<noteq> EExport \<Longrightarrow>
   agrees p F rq e (the (endpoint_tool e)) inp"
  by (induction e; (simp; fail)?; simp only: endpoint_tool.simps option.sel; rule agreesI, rule serve_endpoint.simps)
    (auto simp: rest_inputs_def rest_decoded_def list_of_inputs_def list_in_eta with_list_def render_reply query_handler_defs
      split: sum.splits)

lemma agrees_export:
  assumes "rest_inputs p F EExport rq = Some inp"
  shows "agrees p F rq EExport TStateExport inp"
  by (rule agreesI, rule serve_endpoint.simps)
    (use assms in \<open>auto simp: rest_inputs_def export_rest_def rest_render_def reply_of_def answer_def split: prod.splits sum.splits\<close>)

lemma agrees_expire:
  assumes "rest_inputs p F ESessionExpire rq = Some inp"
  shows "agrees p F rq ESessionExpire TSessionExpire inp"
proof -
  obtain inp0 sid where d: "rest_decoded F ESessionExpire rq = Some inp0" "session_id p (rr_Path rq) = Inr sid" "jf_ID inp = sid"
    "jf_Reason inp = jf_Reason inp0"
    using assms by (auto simp: rest_inputs_def Let_def split: option.splits sum.splits)
  show ?thesis
    by (rule agreesI, rule serve_endpoint.simps)
      (simp add: sessionExpire_def decoded_optional [OF _ d(1)] d(2-4) render_reply)
qed

lemmas body_handler_defs = validate_def plan_rest_def apply_rest_def reset_rest_def setMFA_def swapVendor_def setOverage_def
  rewriteRedirect_def importPlan_def importApply_def decodeChange_def decodeImport_def totpEnroll_def totpClear_def
  forceFail_def injectError_def forceConsent_def mintToken_def change_of_def import_of_def

definition rest_completed :: "rest_request \<Rightarrow> inputs \<Rightarrow> inputs" where
  "rest_completed rq inp = inp\<lparr>jf_ExpectedRevision := expected_of rq inp, jf_IdempotencyKey := key_of rq inp, jf_ID := PathValue rq ''id''\<rparr>"

lemma rest_completed_fields [simp]:
  "jf_ExpectedRevision (rest_completed rq inp) = expected_of rq inp" "jf_IdempotencyKey (rest_completed rq inp) = key_of rq inp"
  "jf_ID (rest_completed rq inp) = PathValue rq ''id''" "jf_Reason (rest_completed rq inp) = jf_Reason inp"
  "jf_DryRun (rest_completed rq inp) = jf_DryRun inp" "jf_Mode (rest_completed rq inp) = jf_Mode inp" "jf_On (rest_completed rq inp) = jf_On inp"
  "jf_Code (rest_completed rq inp) = jf_Code inp" "jf_Vendor (rest_completed rq inp) = jf_Vendor inp"
  "jf_TenantID (rest_completed rq inp) = jf_TenantID inp" "jf_EntraGraphStub (rest_completed rq inp) = jf_EntraGraphStub inp"
  "jf_OktaFailAt (rest_completed rq inp) = jf_OktaFailAt inp" "jf_GenericCap (rest_completed rq inp) = jf_GenericCap inp"
  "jf_UserID (rest_completed rq inp) = jf_UserID inp" "jf_ClientID (rest_completed rq inp) = jf_ClientID inp"
  "jf_Scope (rest_completed rq inp) = jf_Scope inp" "jf_RedirectURIs (rest_completed rq inp) = jf_RedirectURIs inp"
  "jf_Kind (rest_completed rq inp) = jf_Kind inp" "jf_Text (rest_completed rq inp) = jf_Text inp"
  "jf_Document (rest_completed rq inp) = jf_Document inp" "jf_Operations (rest_completed rq inp) = jf_Operations inp"
  by (simp_all add: rest_completed_def)

lemma rest_inputs_completed:
  assumes "rest_inputs p F e rq = Some inp" "rest_fields e = Some (needed, names)" "e \<noteq> ESessionExpire"
  obtains inp0 where "rest_decoded F e rq = Some inp0" "inp = rest_completed rq inp0"
proof -
  have "e \<notin> {EClients, EUsers, EGroups, ESessions, EAudit, EExport, EEvent}" using assms(2) by auto
  then show ?thesis using assms(1,3) that
    by (auto simp: rest_inputs_def rest_completed_def Let_def split: option.splits if_splits)
qed

lemma compact_completed [simp]:
  "compact_inputs F (rest_completed rq inp) = compact_inputs F inp"
  "compact_inputs F (zero_inputs\<lparr>jf_Operations := jf_Operations inp\<rparr>) = compact_inputs F inp"
  by (simp_all add: compact_inputs_def)

text \<open>The body decodes to \<open>inp\<close>.\<close>

definition decodes :: "bool \<Rightarrow> frontend \<Rightarrow> rest_request \<Rightarrow> string list \<Rightarrow> inputs \<Rightarrow> bool" where
  "decodes needed F rq names inp \<longleftrightarrow>
     (\<forall>actor a k. with_input ((if needed then decodeJSON else decodeOptionalJSON) F names rq actor a) k = k inp a)"

lemma decodesD:
  "decodes True F rq names inp \<Longrightarrow> with_input (decodeJSON F names rq actor a) k = k inp a"
  "decodes False F rq names inp \<Longrightarrow> with_input (decodeOptionalJSON F names rq actor a) k = k inp a"
  by (simp_all add: decodes_def)

lemma decoded: "rest_fields e = Some (needed, names) \<Longrightarrow> rest_decoded F e rq = Some inp \<Longrightarrow> decodes needed F rq names inp"
  using decoded_needed [of e names F rq inp] decoded_optional [of e names F rq inp] by (cases needed) (simp_all add: decodes_def)

lemma agrees_needed:
  "rest_fields e = Some (True, names) \<Longrightarrow> decodes True F rq names inp \<Longrightarrow>
   compact_inputs F inp \<Longrightarrow> agrees p F rq e (the (endpoint_tool e)) (rest_completed rq inp)"
  by (induction e; (simp; fail)?; simp only: endpoint_tool.simps option.sel; rule agreesI, rule serve_endpoint.simps;
      simp add: body_handler_defs decodesD(1) toApp_compact with_change_def render_reply;
      rule arg_cong [OF ImportPlan_inputs])

lemma agrees_optional:
  "rest_fields e = Some (False, names) \<Longrightarrow> e \<noteq> ESessionExpire \<Longrightarrow> decodes False F rq names inp \<Longrightarrow>
   agrees p F rq e (the (endpoint_tool e)) (rest_completed rq inp)"
  by (induction e; (simp; fail)?; simp only: endpoint_tool.simps option.sel; rule agreesI, rule serve_endpoint.simps;
      simp add: pauseToken_def resumeToken_def expireAll_def decodesD(2) render_reply)

lemma endpoint_agrees:
  assumes "endpoint_tool e = Some t" "rest_inputs p F e rq = Some inp" "compact_inputs F inp"
  shows "agrees p F rq e t inp"
proof -
  consider "e = EExport" | "e = ESessionExpire" | "e \<noteq> EExport" "rest_fields e = None"
    | needed names where "e \<noteq> ESessionExpire" "rest_fields e = Some (needed, names)" by fastforce
  then have "agrees p F rq e (the (endpoint_tool e)) inp"
  proof cases
    case (4 needed names)
    then obtain inp0 where d: "rest_decoded F e rq = Some inp0" and i: "inp = rest_completed rq inp0"
      using rest_inputs_completed [OF assms(2)] by blast
    then show ?thesis
      using 4 agrees_needed [of e names F rq inp0 p] agrees_optional [of e names F rq inp0 p] decoded [of e needed names F rq inp0]
        assms(3) by (cases needed) auto
  next
    case 3
    then show ?thesis using agrees_queries [OF assms(2)] assms(1) by simp
  qed (use assms agrees_export agrees_expire in auto)
  then show ?thesis using assms(1) by simp
qed

text \<open>
  C13. The two front ends agree: an endpoint and the tool for the same capability, given the same inputs, clock and
  random bytes, do the same to the application for every actor, and render the same result. The
  inputs of the endpoint come from body, headers, path and query, those of the tool from its arguments.
  REST keeps the values of operations as they were sent and MCP makes them compact, so that they
  are assumed to be compact here.
\<close>

theorem front_ends_agree:
  assumes "endpoint_tool e = Some t" "rest_inputs p F e rq = Some inp" "compact_inputs F inp"
    and "(if args = [] then Inr inp0 else fe_unmarshal F (tool_fields t) args inp0) = Inr inp"
    and "mq_clk mq = rr_clk rq" "mq_entropy mq = rr_entropy rq"
  shows "\<exists>h. (\<forall>a. serve_endpoint p e F rq a = authed h F rq a)
    \<and> (\<forall>actor a. h F rq actor a = rest_render (tool_call F (rr_clk rq 3) (rr_clk rq 4) (rr_entropy rq) t actor inp a)
         \<and> run_tool F mq t args inp0 actor a = tool_result (tool_call F (rr_clk rq 3) (rr_clk rq 4) (rr_entropy rq) t actor inp a))"
proof -
  have "run_tool F mq t args inp0 actor a = tool_result (tool_call F (rr_clk rq 3) (rr_clk rq 4) (rr_entropy rq) t actor inp a)" for actor a
    using assms(4-6) by (simp add: run_tool_def)
  then show ?thesis using endpoint_agrees [OF assms(1-3)] unfolding agrees_def by auto
qed

definition mcp_pause :: mcp_request where
  "mcp_pause = \<lparr>mq_Header = [(headerProtocol, ProtocolVersion)], mq_RemoteAddr = ''127.0.0.1:5'', mq_Host = ''localhost'',
     mq_Version = ProtocolVersion, mq_Call = CallTool ''sso_tunable_token_pause'' [] (Some zero_inputs), mq_clk = (\<lambda>_ _. 2000),
     mq_entropy = None\<rparr>"

theorem front_ends_agree_witness:
  "\<exists>h. (\<forall>a. serve_endpoint ''/v1'' EPause rest_frontend rest_pause a = authed h rest_frontend rest_pause a)
    \<and> (\<forall>actor a. h rest_frontend rest_pause actor a
           = rest_render (tool_call rest_frontend (\<lambda>_. 2000) (\<lambda>_. 2000) None TTokenPause actor (rest_completed rest_pause zero_inputs) a)
         \<and> run_tool rest_frontend mcp_pause TTokenPause [] (rest_completed rest_pause zero_inputs) actor a
           = tool_result (tool_call rest_frontend (\<lambda>_. 2000) (\<lambda>_. 2000) None TTokenPause actor (rest_completed rest_pause zero_inputs) a))"
proof -
  have r: "rr_clk rest_pause = (\<lambda>_ _. 2000)" "rr_entropy rest_pause = None" "mq_clk mcp_pause = (\<lambda>_ _. 2000)" "mq_entropy mcp_pause = None"
    "rr_Body rest_pause = NilBody"
    by (simp_all add: rest_pause_def mcp_pause_def)
  have "rest_inputs ''/v1'' rest_frontend EPause rest_pause = Some (rest_completed rest_pause zero_inputs)"
    by (simp add: rest_inputs_def rest_decoded_def r rest_completed_def Let_def)
  moreover have "compact_inputs rest_frontend (rest_completed rest_pause zero_inputs)"
    by (simp add: compact_inputs_def zero_inputs_def)
  ultimately show ?thesis
    using front_ends_agree [of EPause TTokenPause "''/v1''" rest_frontend rest_pause "rest_completed rest_pause zero_inputs" "[]"
      "rest_completed rest_pause zero_inputs" mcp_pause]
    by (simp only: r endpoint_tool.simps if_True HOL.simp_thms)
qed

text \<open>A tool that is not annotated as mutating is behind a read-only capability, and so is every resource.\<close>

lemma read_only_tools:
  "list_all (\<lambda>(n, m, i, t). m \<or> (find_tool n = Some t \<and> tool_id t \<in> set read_only_ids)) tools"
  "list_all (\<lambda>cid. cid \<in> set read_only_ids) [''sso.state.get'', ''sso.capabilities.get'', ''sso.status.get'', ''sso.schema.config.get'',
     ''sso.audit.list'', ''sso.client.get'', ''sso.user.get'', ''sso.group.get'']"
  unfolding read_only_values by code_simp+

lemma resource_read_only: "resource_id uri = Some cid \<Longrightarrow> cid \<in> set read_only_ids"
  using read_only_tools(2) by (auto simp: resource_id_def split: if_splits)

text \<open>
  What a request to the MCP front end can do. When it changes the store, the protocol runtime, the
  remembered results or adds an operator session, then its host is allowed, its protocol version is the
  pinned one unless old clients are allowed, and it presents the access token of the active snapshot or, without
  any bearer token, comes from a loopback address; no cookie counts. An error leaves all of these
  alone up to expired sessions, and so does a tool that is annotated as read-only, and reading a resource.
\<close>

theorem mcp_guarded:
  assumes "mcp_serve legacy F rq a = (res, a')"
  shows "(changed (mcp_times rq) a a' \<longrightarrow> LoopbackHostAllowed (fe_net F) (mq_RemoteAddr rq) (mq_Host rq) \<and> pinned legacy rq
      \<and> (\<exists>actor. mcp_credentials F rq a actor))
    \<and> (mcp_failed res \<longrightarrow> quiet (mcp_times rq) a a' \<and> ic_m (ap_idemp a') = ic_m (ap_idemp a))
    \<and> (\<forall>name args v i t. mq_Call rq = CallTool name args v \<and> (name, False, i, t) \<in> set tools \<longrightarrow> quiet (mcp_times rq) a a')
    \<and> (\<forall>uri. mq_Call rq = ReadResource uri \<longrightarrow> quiet (mcp_times rq) a a')"
proof (intro conjI impI allI)
  show "quiet (mcp_times rq) a a'" if "mq_Call rq = CallTool name args v \<and> (name, False, i, t) \<in> set tools" for name args v i t
    using that read_only_tools(1) mcp.read_only_quiet [OF assms] by (fastforce simp: list_all_iff mcp_asks_def)
  show "quiet (mcp_times rq) a a'" if "mq_Call rq = ReadResource uri" for uri
    using that resource_read_only mcp.read_only_quiet [OF assms] by (auto simp: mcp_asks_def)
qed (use mcp.changes_admitted [OF assms] mcp.errors_atomic [OF assms] in \<open>auto simp: mcp_admits_def\<close>)

theorem mcp_guarded_witness:
  "quiet (mcp_times (mcp_pause\<lparr>mq_Call := ReadResource ''labsso://status''\<rparr>)) sample_app (snd (mcp_serve False rest_frontend (mcp_pause\<lparr>mq_Call := ReadResource ''labsso://status''\<rparr>) sample_app))"
proof -
  let ?rq = "mcp_pause\<lparr>mq_Call := ReadResource ''labsso://status''\<rparr>"
  obtain res a' where r: "mcp_serve False rest_frontend ?rq sample_app = (res, a')" by fastforce
  have "mq_Call ?rq = ReadResource ''labsso://status''" by simp
  then show ?thesis using mcp_guarded [OF r] r by auto
qed

end
