(* ===== verification/Dataplane_Props.thy ===== *)
theory Dataplane_Props
  imports Dataplane App_Props
begin

text \<open>
  The data plane against its abstraction. The state machine of the runtime and the reachable states of the
  application take the protocol handlers as arbitrary sequences of runtime operations; here every handler is
  shown to be one. Then the routes: whatever the vendor, its endpoints are served where its clothes say.
\<close>

section \<open>Handlers as sequences of runtime operations\<close>

text \<open>What every protocol operation of the runtime keeps, every handler of the data plane keeps.\<close>

definition fresh_ids :: "request \<Rightarrow> bool" where
  "fresh_ids rq \<longleftrightarrow> (\<forall>i. length (rq_rnd rq i) = 32)"

definition rejections :: "string list" where
  "rejections = [''oidc_request_rejected'', ''federation_request_rejected'', ''login_request_rejected'', ''consent_request_rejected'']"

locale protocol_laws =
  fixes hmac :: "string \<Rightarrow> string \<Rightarrow> string" and P :: "runtime \<Rightarrow> bool"
  assumes op: "P r \<Longrightarrow> protocol_op x \<Longrightarrow> P (snd (rt_exec hmac x r))"
begin

lemma ops [intro!]:
  "P r \<Longrightarrow> length rid = 32 \<Longrightarrow> P (snd (PutPending now now' rid pend r))"
  "P r \<Longrightarrow> P (snd (GetPending now pid r))"
  "P r \<Longrightarrow> P (snd (TakePending now pid r))"
  "P r \<Longrightarrow> P (snd (PutCode now c r))"
  "P r \<Longrightarrow> P (snd (TakeCode code r))"
  "P r \<Longrightarrow> P (snd (PutRefresh now row r))"
  "P r \<Longrightarrow> P (snd (TakeRefresh tok r))"
  "P r \<Longrightarrow> P (snd (RotateRefresh now old row r))"
  "P r \<Longrightarrow> length rid = 32 \<Longrightarrow> P (snd (PutSession now rid s r))"
  "P r \<Longrightarrow> P (snd (GetSession now sid r))"
  "P r \<Longrightarrow> P (snd (ExpireSession sid r))"
  "P r \<Longrightarrow> P (snd (VerifyAndRecordTOTPGeneration hmac uid secret code now g r))"
  "P r \<Longrightarrow> P (snd (TakeInject r))"
  "P r \<Longrightarrow> P (Reject reason r)"
  using op [of r "OpPutPending now now' rid pend"] op [of r "OpGetPending now pid"] op [of r "OpTakePending now pid"]
    op [of r "OpPutCode now c"] op [of r "OpTakeCode code"] op [of r "OpPutRefresh now row"] op [of r "OpTakeRefresh tok"]
    op [of r "OpRotateRefresh now old row"] op [of r "OpPutSession now rid s"] op [of r "OpGetSession now sid"]
    op [of r "OpExpireSession sid"] op [of r "OpVerifyTOTP uid secret code now g"] op [of r OpTakeInject]
    op [of r "OpReject reason"]
  by (simp_all add: case_prod_unfold Let_def)

lemma AuditRejected_P [intro!]: "P r \<Longrightarrow> P (AuditRejected category st r)"
  by (auto simp: AuditRejected_def)

lemma reject_P [intro!]: "P (pv_rt p) \<Longrightarrow> P (pv_rt (reject reason p))"
  by (auto simp: reject_def)

subsection \<open>OpenID\<close>

lemma start_pending_P: "P (pv_rt p) \<Longrightarrow> fresh_ids rq \<Longrightarrow> P (pv_rt (snd (start_pending snap rq target p)))"
  by (auto simp: start_pending_def Let_def case_prod_unfold fresh_ids_def)

lemma authorize_session_P:
  "P (pv_rt p) \<Longrightarrow> fresh_ids rq \<Longrightarrow> P (pv_rt (snd (authorize_session E snap rq cl sess p)))"
  by (auto simp: authorize_session_def Let_def case_prod_unfold intro!: start_pending_P split: option.split)

lemma authorize_client_P: "P (pv_rt p) \<Longrightarrow> fresh_ids rq \<Longrightarrow> P (pv_rt (snd (authorize_client E snap rq cl p)))"
  unfolding authorize_client_def Let_def case_prod_unfold
  by (simp add: ops reject_P start_pending_P authorize_session_P split: option.split)

lemma authorize_P: "P (pv_rt p) \<Longrightarrow> fresh_ids rq \<Longrightarrow> P (pv_rt (snd (authorize E s rq p)))"
  by (auto simp: authorize_def Let_def case_prod_unfold intro!: authorize_client_P split: sum.split option.split)

lemma issueTokens_P: "P (pv_rt p) \<Longrightarrow> P (pv_rt (snd (issueTokens E snap rq cid uid n scope nonce mfa spent p)))"
  by (auto simp: issueTokens_def Let_def case_prod_unfold split: option.split sum.split prod.split)

lemma writeTokens_P: "P (pv_rt p) \<Longrightarrow> P (pv_rt (snd (writeTokens E snap rq cid uid n scope nonce mfa spent p)))"
  by (auto simp: writeTokens_def Let_def intro!: issueTokens_P split: option.split)

lemma token_P: "P (pv_rt p) \<Longrightarrow> P (pv_rt (snd (token E s rq p)))"
proof -
  have code: "P (pv_rt (snd (tokenCode E snap rq p)))" if "P (pv_rt p)" for p snap
    using that by (auto simp: tokenCode_def Let_def case_prod_unfold intro!: writeTokens_P split: option.split)
  have refresh: "P (pv_rt (snd (tokenRefresh E snap rq p)))" if "P (pv_rt p)" for p snap
    using that by (auto simp: tokenRefresh_def Let_def case_prod_unfold intro!: writeTokens_P split: option.split)
  show "P (pv_rt p) \<Longrightarrow> P (pv_rt (snd (token E s rq p)))"
    by (auto simp: token_def Let_def case_prod_unfold intro!: code refresh split: sum.split)
qed

lemma logout_P: "P (pv_rt p) \<Longrightarrow> P (pv_rt (snd (logout E s rq p)))"
proof -
  have finish: "P (pv_rt (snd (logout_finish E snap rq post st redirect csrf hint p)))" if "P (pv_rt p)"
    for snap post st redirect csrf hint
    using that by (auto simp: logout_finish_def Let_def case_prod_unfold split: option.split)
  show "P (pv_rt p) \<Longrightarrow> P (pv_rt (snd (logout E s rq p)))"
    by (auto simp: logout_def Let_def intro!: finish split: sum.split option.split)
qed

lemma requirePath_P: "P (pv_rt p) \<Longrightarrow> P (pv_rt (snd (nxt p))) \<Longrightarrow> P (pv_rt (snd (requirePath sel s rq nxt p)))"
  by (auto simp: requirePath_def Let_def split: sum.split)

lemma oidc_page_P: "P (pv_rt p) \<Longrightarrow> fresh_ids rq \<Longrightarrow> P (pv_rt (snd (oidc_page D s bs rq pg p)))"
  by (cases pg) (auto intro!: requirePath_P authorize_P token_P logout_P)

lemma oidc_handler_P: "P (pv_rt p) \<Longrightarrow> fresh_ids rq \<Longrightarrow> P (pv_rt (snd (oidc_handler D s segs rq p)))"
  by (auto simp: oidc_handler_def Let_def case_prod_unfold intro!: oidc_page_P AuditRejected_P split: option.split)

lemma completion_P:
  "P (pv_rt p) \<Longrightarrow> P (pv_rt (snd (CompleteLoginSnapshot E s rq pid uid n mfa p)))"
  "P (pv_rt p) \<Longrightarrow> P (pv_rt (snd (DenyConsentSnapshot E s rq pid p)))"
  by (auto simp: CompleteLoginSnapshot_def DenyConsentSnapshot_def Let_def case_prod_unfold split: option.split)

subsection \<open>Federation\<close>

lemma federation_completion_P:
  "P r \<Longrightarrow> P (snd (finishPending L K s rq pid uid ok mfa r))" "P r \<Longrightarrow> P (snd (finish_wsfed L K s rq pid uid ok mfa r))"
  by (auto simp: finishPending_def finish_wsfed_def Let_def case_prod_unfold split: option.split sum.split)

lemmas completion_defs = CompleteSnapshot_def DenySnapshot_def CompleteSnapshot_wsfed_def DenySnapshot_wsfed_def

lemma federation_next_P:
  assumes "P r" "\<And>se r. P r \<Longrightarrow> P (snd (complete se r))"
  shows "P (snd (federation_next snap rq cl pid complete r))"
  using assms(1) by (auto simp: federation_next_def Let_def case_prod_unfold intro!: assms(2) split: option.split)

lemma sso_P: "P r \<Longrightarrow> fresh_ids rq \<Longrightarrow> P (snd (sso L K s rq r))"
proof -
  have client: "P (snd (sso_client L K snap rq req cl acs r))" if "P r" "fresh_ids rq" for snap req cl acs
    using that by (auto simp: sso_client_def Let_def case_prod_unfold fresh_ids_def completion_defs
        intro!: federation_next_P federation_completion_P)
  show "P r \<Longrightarrow> fresh_ids rq \<Longrightarrow> P (snd (sso L K s rq r))"
    by (auto simp: sso_def intro!: client split: sum.split option.split)
qed

lemma passive_P: "P r \<Longrightarrow> fresh_ids rq \<Longrightarrow> P (snd (passive_wsfed L K s rq r))"
  by (auto simp: passive_wsfed_def Let_def case_prod_unfold fresh_ids_def completion_defs
      intro!: federation_next_P federation_completion_P split: sum.split option.split)

lemma guarded_P:
  assumes "P r" "P (snd (nxt r))"
  shows "\<exists>x. requireMeta s rq nxt r = audited ''federation_request_rejected'' x \<and> P (snd x)"
    "\<exists>x. requireSSO m s rq nxt r = audited ''federation_request_rejected'' x \<and> P (snd x)"
    "\<exists>x. require_wsfed sel s rq nxt r = audited ''federation_request_rejected'' x \<and> P (snd x)"
  unfolding requireMeta_def requireSSO_def require_wsfed_def
  by (rule exI, rule conjI, rule refl, use assms in \<open>simp add: require_path_def split: sum.split\<close>)+

subsection \<open>Login forms\<close>

lemma ui_rt_simps [simp]:
  "ui_rt (set_ui_rt r u) = r" "ui_rt (u\<lparr>ui_limit := l\<rparr>) = ui_rt u" "ui_rt (u\<lparr>ui_oidc := p\<rparr>) = pv_rt p"
  "ui_oidc (set_ui_rt r u) = (ui_oidc u)\<lparr>pv_rt := r\<rparr>"
  by (simp_all add: ui_rt_def set_ui_rt_def)

lemma ui_reject_P [intro!]: "P (ui_rt u) \<Longrightarrow> P (ui_rt (ui_reject reason u))"
  by (auto simp: ui_reject_def)

lemma dispatch_P:
  assumes "P (ui_rt u)" "\<And>r. P r \<Longrightarrow> P (snd (w r))" "\<And>r. P r \<Longrightarrow> P (snd (m r))" "\<And>p. P (pv_rt p) \<Longrightarrow> P (pv_rt (snd (q p)))"
  shows "P (ui_rt (snd (dispatch rq pid w m q u)))"
  using assms(1) by (auto simp: dispatch_def Let_def case_prod_unfold intro!: assms(2-4))

lemma finish_P: "P (ui_rt u) \<Longrightarrow> P (ui_rt (snd (finish E L K s rq pid uid n mfa u)))"
  and deny_P: "P (ui_rt u) \<Longrightarrow> P (ui_rt (snd (deny E L K s rq pid u)))"
  by (auto simp: finish_def deny_def completion_defs intro!: dispatch_P federation_completion_P completion_P)

lemma open_session_P:
  assumes "P (ui_rt u)" "fresh_ids rq"
  shows "P (ui_rt (snd (open_session E L K snap rq pid rec mfaOK u)))"
  using assms
  by (auto simp: open_session_def Let_def case_prod_unfold pendingClient_def fresh_ids_def intro!: finish_P)

lemma second_factor_P:
  assumes "P (ui_rt u)" "fresh_ids rq" "hmac = ev_hmac1 E"
  shows "P (ui_rt (snd (second_factor E L K snap rq pid rec u)))"
  using assms
  by (auto simp: second_factor_def Let_def case_prod_unfold simp flip: assms(3) intro!: open_session_P split: option.split)

lemma login_P:
  assumes "P (ui_rt u)" "fresh_ids rq" "hmac = ev_hmac1 E"
  shows "P (ui_rt (snd (postLogin E L K s rq u)))"
proof -
  have "P (ui_rt (snd (login_attempt E L K s rq u)))" if "P (ui_rt u)" for u
    using that assms(2,3)
    by (auto simp: login_attempt_def Let_def case_prod_unfold intro!: second_factor_P split: option.split bool.split)
  with assms(1) show ?thesis by (auto simp: postLogin_def Let_def case_prod_unfold)
qed

lemma consent_P: "P (ui_rt u) \<Longrightarrow> P (ui_rt (snd (postConsent E L K s rq u)))"
  by (auto simp: postConsent_def Let_def case_prod_unfold intro!: finish_P deny_P split: option.split)

text \<open>The answer was reported when it is an error, as the last thing that happened to the runtime.\<close>

definition logged :: "response \<times> ui \<Rightarrow> bool" where
  "logged res \<longleftrightarrow> (\<exists>category r. category \<in> set rejections \<and> P r \<and> ui_rt (snd res) = AuditRejected category (status (fst res)) r)"

lemma logged_P: "logged res \<Longrightarrow> P (ui_rt (snd res))"
  by (auto simp: logged_def)

lemma logged_runtime:
  assumes "\<exists>x. f (ui_rt u) = audited ''federation_request_rejected'' x \<and> P (snd x)"
  shows "logged (on_runtime f u)"
proof -
  obtain x where "f (ui_rt u) = audited ''federation_request_rejected'' x" "P (snd x)" using assms by blast
  moreover have "''federation_request_rejected'' \<in> set rejections" by (simp add: rejections_def)
  ultimately show ?thesis unfolding logged_def by (intro exI [of _ "''federation_request_rejected''"] exI [of _ "snd x"])
      (simp add: on_runtime_def audited_def)
qed

lemma logged_form:
  assumes "category \<in> set rejections" "P (ui_rt u)" "P (ui_rt (snd (nxt u)))"
  shows "logged (audited_ui category (same_origin rq nxt u))"
proof -
  have "P (ui_rt (snd (same_origin rq nxt u)))" using assms by (auto simp: same_origin_def)
  then show ?thesis using assms(1) by (auto simp: logged_def audited_ui_def)
qed

lemma fed_page_logged:
  assumes "P (ui_rt u)" "fresh_ids rq" "hmac = ev_hmac1 (dl_env D)"
  shows "logged (fed_page D s rq pg u) \<or> (status (fst (fed_page D s rq pg u)) = 200 \<and> snd (fed_page D s rq pg u) = u)"
proof (cases pg)
  case (FSSO m)
  then show ?thesis using assms by (auto intro!: logged_runtime guarded_P sso_P)
next
  case FLoginPost
  then show ?thesis using assms
    by (auto simp: post_login_endpoint_def rejections_def intro!: logged_form login_P)
next
  case FConsentPost
  then show ?thesis using assms
    by (auto simp: post_consent_endpoint_def rejections_def intro!: logged_form consent_P)
qed (use assms in \<open>auto simp: getLogin_def getConsent_def intro!: logged_runtime guarded_P passive_P\<close>)

lemma oidc_handler_logged:
  assumes "P (ui_rt u)" "fresh_ids rq"
  shows "logged (fst (oidc_handler D s segs rq (ui_oidc u)), u\<lparr>ui_oidc := snd (oidc_handler D s segs rq (ui_oidc u))\<rparr>)"
proof -
  have "P (pv_rt (snd (case lookup_row (rq_Method rq) segs oidc_patterns of
        None \<Rightarrow> (unmatched segs oidc_patterns, ui_oidc u) | Some (pg, bs) \<Rightarrow> oidc_page D s bs rq pg (ui_oidc u))))"
    using assms by (auto simp: ui_rt_def intro!: oidc_page_P split: option.split)
  then show ?thesis by (auto simp: logged_def oidc_handler_def rejections_def case_prod_unfold Let_def)
qed

lemma https_handler_logged:
  assumes "P (ui_rt u)" "fresh_ids rq" "hmac = ev_hmac1 (dl_env D)"
  shows "logged (https_handler D s segs rq u) \<or> (status (fst (https_handler D s segs rq u)) < 400 \<and> snd (https_handler D s segs rq u) = u)"
proof -
  have page: "logged (fed_page D s rq pg u) \<or> (status (fst (fed_page D s rq pg u)) < 400 \<and> snd (fed_page D s rq pg u) = u)" for pg
    using fed_page_logged [OF assms, of s pg] by auto
  then show ?thesis using oidc_handler_logged [OF assms(1,2)]
    by (auto simp: https_handler_def case_prod_unfold Let_def split: option.split)
qed

lemma https_handler_P:
  assumes "P (ui_rt u)" "fresh_ids rq" "hmac = ev_hmac1 (dl_env D)"
  shows "P (ui_rt (snd (https_handler D s segs rq u)))"
  using https_handler_logged [OF assms] logged_P assms(1) by fastforce

end

section \<open>The data plane\<close>

text \<open>\<open>r'\<close> is left by a sequence of protocol operations from \<open>r\<close>.\<close>

definition protocol_run :: "(string \<Rightarrow> string \<Rightarrow> string) \<Rightarrow> runtime \<Rightarrow> runtime \<Rightarrow> bool" where
  "protocol_run hmac r r' \<longleftrightarrow> (\<exists>ops. list_all protocol_op ops \<and> r' = snd (rt_run hmac ops r))"

lemma rt_run_snoc: "snd (rt_run hmac (xs @ [x]) r) = snd (rt_exec hmac x (snd (rt_run hmac xs r)))"
  by (induction xs arbitrary: r) (auto simp: case_prod_unfold Let_def)

interpretation handlers: protocol_laws hmac "protocol_run hmac r0" for hmac r0
proof
  fix r x
  assume "protocol_run hmac r0 r" "protocol_op x"
  then obtain ops where "list_all protocol_op (ops @ [x])" "r = snd (rt_run hmac ops r0)" by (auto simp: protocol_run_def)
  then show "protocol_run hmac r0 (snd (rt_exec hmac x r))"
    unfolding protocol_run_def using rt_run_snoc [of hmac ops x r0] by metis
qed

lemma protocol_run_refl: "protocol_run hmac r r"
  unfolding protocol_run_def by (rule exI [of _ "[]"]) simp

text \<open>The callback stays installed, and its calls are only ever appended to.\<close>

definition reporting :: "runtime \<Rightarrow> runtime \<Rightarrow> bool" where
  "reporting r0 r \<longleftrightarrow> rt_hasReject r \<and> (\<exists>xs. rt_rejects r = rt_rejects r0 @ xs)"

lemma protocol_rejects:
  "protocol_op x \<Longrightarrow> rt_hasReject (snd (rt_exec hmac x r)) = rt_hasReject r
     \<and> (\<exists>xs. rt_rejects (snd (rt_exec hmac x r)) = rt_rejects r @ xs)"
  by (cases x) (auto simp: runtime_ops case_prod_unfold Let_def split: option.splits)

interpretation reports: protocol_laws hmac "reporting r0" for hmac r0
  using protocol_rejects by unfold_locales (fastforce simp: reporting_def)

subsection \<open>The audit ring\<close>

lemma emit_all_cap: "rg_cap (emit_all es r) = rg_cap r"
  by (induction es r rule: emit_all.induct) (simp_all add: Emit_completed)

lemma emit_all_ok: "ring_ok r \<Longrightarrow> ring_ok (emit_all es r)"
  by (induction es r rule: emit_all.induct) simp_all

lemma emit_all_snoc: "emit_all (es @ [(now, now', e)]) r = snd (Emit now now' e (emit_all es r))"
  by (induction es r rule: emit_all.induct) simp_all

lemma stamped_snoc: "stamped clk (es @ [e]) = stamped clk es @ [(clk (2 * length es), clk (2 * length es + 1), e)]"
  by (simp add: stamped_def enumerate_append_eq)

lemma last_n_last: "0 < n \<Longrightarrow> last (last_n n (xs @ [x])) = x \<and> last_n n (xs @ [x]) \<noteq> []"
  by (cases n) (simp_all add: last_n_def)

lemma last_emitted:
  assumes "0 < rg_cap r"
  shows "\<exists>now now' seq. last (rg_buf (emit_all (stamped clk (es @ [e])) r)) = Access.completed now now' seq e
     \<and> rg_buf (emit_all (stamped clk (es @ [e])) r) \<noteq> []"
proof -
  let ?r = "emit_all (stamped clk es) r"
  let ?e = "Access.completed (clk (2 * length es)) (clk (2 * length es + 1)) (Suc (rg_seq ?r)) e"
  have "rg_buf (emit_all (stamped clk (es @ [e])) r) = last_n (rg_cap ?r) (rg_buf ?r @ [?e])"
    by (simp add: stamped_snoc emit_all_snoc Emit_completed)
  moreover have "0 < rg_cap ?r" using assms by (simp add: emit_all_cap)
  ultimately show ?thesis using last_n_last [of "rg_cap ?r" "rg_buf ?r" ?e] by metis
qed

subsection \<open>Serving a request\<close>

lemma ui_of_rt [simp]: "ui_rt (ui_of b) = app_rt (lb_app b)"
  by (simp add: ui_of_def ui_rt_def app_rt_def)

lemma serve_data_parts:
  assumes "serve_data D clk segs rq b = (resp, b')"
  obtains u where "https_handler D (Load (ap_store (lb_app b))) segs rq (ui_of b) = (resp, u)"
    "lb_app b' = (lb_app b)\<lparr>ap_oidc := ui_oidc u,
       ap_audit := emit_all (stamped clk (new_events (ap_oidc (lb_app b)) (ui_oidc u))) (ap_audit (lb_app b))\<rparr>"
    "app_rt (lb_app b') = ui_rt u"
  using assms by (auto simp: serve_data_def Let_def app_rt_def ui_rt_def split: prod.splits)

text \<open>
  What no protocol operation touches: the enrolled second factors, the floor of generations and the tunables of
  the operators, of which the injected error alone may be spent, that is cleared by a request that reports it.
\<close>

definition operator_fields :: "runtime \<Rightarrow> bool \<times> bool \<times> bool \<times> string gmap \<times> int" where
  "operator_fields r = (rt_paused r, rt_forceFail r, rt_forceConsent r, rt_totpOverlay r, rt_minimumGeneration r)"

lemma protocol_fields: "protocol_op x \<Longrightarrow> operator_fields (snd (rt_exec hmac x r)) = operator_fields r"
  by (cases x) (auto simp: operator_fields_def runtime_ops case_prod_unfold Let_def split: option.splits)

lemma protocol_run_fields: "protocol_run hmac r r' \<Longrightarrow> operator_fields r' = operator_fields r"
proof -
  have "list_all protocol_op ops \<Longrightarrow> operator_fields (snd (rt_run hmac ops r)) = operator_fields r" for ops
    by (induction ops arbitrary: r) (auto simp: case_prod_unfold Let_def protocol_fields)
  then show "protocol_run hmac r r' \<Longrightarrow> operator_fields r' = operator_fields r" by (auto simp: protocol_run_def)
qed

definition inject_spent :: "runtime \<Rightarrow> runtime \<Rightarrow> bool" where
  "inject_spent r r' \<longleftrightarrow> rt_inject r' = rt_inject r \<or> rt_inject r' = []"

lemma protocol_spends: "protocol_op x \<Longrightarrow> inject_spent r (snd (rt_exec hmac x r))"
  by (cases x) (auto simp: inject_spent_def runtime_ops case_prod_unfold Let_def split: option.splits)

lemma protocol_run_spends: "protocol_run hmac r r' \<Longrightarrow> inject_spent r r'"
proof -
  have "list_all protocol_op ops \<Longrightarrow> inject_spent r (snd (rt_run hmac ops r))" for ops
  proof (induction ops arbitrary: r)
    case (Cons x ops)
    then have "inject_spent r (snd (rt_exec hmac x r))"
      "inject_spent (snd (rt_exec hmac x r)) (snd (rt_run hmac ops (snd (rt_exec hmac x r))))"
      using protocol_spends [of x r hmac] by simp_all
    then show ?case by (auto simp: inject_spent_def case_prod_unfold Let_def)
  qed (simp add: inject_spent_def)
  then show "protocol_run hmac r r' \<Longrightarrow> inject_spent r r'" by (auto simp: protocol_run_def)
qed

lemma protocol_run_inv: "protocol_run hmac r r' \<Longrightarrow> rt_inv r \<Longrightarrow> rt_inv r'"
proof -
  have "list_all protocol_op ops \<Longrightarrow> rt_inv r \<Longrightarrow> rt_inv (snd (rt_run hmac ops r))" for ops
    by (induction ops arbitrary: r) (simp_all add: case_prod_unfold Let_def rt_inv_exec protocol_op_random)
  then show "protocol_run hmac r r' \<Longrightarrow> rt_inv r \<Longrightarrow> rt_inv r'" by (auto simp: protocol_run_def)
qed

lemma serve_data_run:
  assumes "serve_data D clk segs rq b = (resp, b')" "fresh_ids rq"
  shows "protocol_run (ev_hmac1 (dl_env D)) (app_rt (lb_app b)) (app_rt (lb_app b'))"
  using serve_data_parts [OF assms(1)]
    handlers.https_handler_P [OF _ assms(2), of "ev_hmac1 (dl_env D)" "app_rt (lb_app b)" "ui_of b" D "Load (ap_store (lb_app b))" segs]
    protocol_run_refl
  by (metis snd_conv ui_of_rt)

lemma serve_data_frame:
  assumes "serve_data D clk segs rq b = (resp, b')"
  shows "lb_app b' = (lb_app b)\<lparr>ap_oidc := ap_oidc (lb_app b'), ap_audit := ap_audit (lb_app b')\<rparr>"
  using serve_data_parts [OF assms] by fastforce

lemma app_inv_data:
  assumes "app_inv a" "rt_inv (pv_rt p)" "rt_minimumGeneration (pv_rt p) = rt_minimumGeneration (app_rt a)"
  shows "app_inv (a\<lparr>ap_oidc := p, ap_audit := emit_all es (ap_audit a)\<rparr>)"
  using assms emit_all_ok [of "ap_audit a" es] unfolding app_inv_def by (simp add: app_rt_def)

lemma serve_data_inv:
  assumes "serve_data D clk segs rq b = (resp, b')" "fresh_ids rq" "app_inv (lb_app b)"
  shows "app_inv (lb_app b') \<and> ap_store (lb_app b') = ap_store (lb_app b)"
proof -
  note run = serve_data_run [OF assms(1,2)]
  obtain u where "https_handler D (Load (ap_store (lb_app b))) segs rq (ui_of b) = (resp, u)"
    and a: "lb_app b' = (lb_app b)\<lparr>ap_oidc := ui_oidc u,
       ap_audit := emit_all (stamped clk (new_events (ap_oidc (lb_app b)) (ui_oidc u))) (ap_audit (lb_app b))\<rparr>"
    and "app_rt (lb_app b') = ui_rt u"
    by (rule serve_data_parts [OF assms(1)])
  have "rt_inv (app_rt (lb_app b))" using assms(3) unfolding app_inv_def by simp
  then have "rt_inv (app_rt (lb_app b'))" "rt_minimumGeneration (app_rt (lb_app b')) = rt_minimumGeneration (app_rt (lb_app b))"
    using protocol_run_inv [OF run] protocol_run_fields [OF run] unfolding operator_fields_def by simp_all
  then show ?thesis using app_inv_data [OF assms(3), of "ui_oidc u"] unfolding a by (simp add: app_rt_def)
qed

section \<open>Properties\<close>

text \<open>
  C12. The data plane refines the state machine of the runtime: whatever the request, its handler is a
  sequence of protocol operations of the runtime, the operations of which the trace properties of the runtime
  speak. Of the application it changes only the runtime and the audit ring: not the
  store, the remembered results or the operator sessions, and in the runtime not the enrolled second factors, the
  invalidated generations or the tunables of the operators, except that an error which an operator has
  injected may be spent: it is cleared then, and never set.
\<close>

theorem data_plane_refines_runtime:
  assumes "serve_data D clk segs rq b = (resp, b')" "fresh_ids rq"
  shows "(\<exists>ops. list_all protocol_op ops \<and> app_rt (lb_app b') = snd (rt_run (ev_hmac1 (dl_env D)) ops (app_rt (lb_app b))))
    \<and> lb_app b' = (lb_app b)\<lparr>ap_oidc := ap_oidc (lb_app b'), ap_audit := ap_audit (lb_app b')\<rparr>
    \<and> operator_fields (app_rt (lb_app b')) = operator_fields (app_rt (lb_app b))
    \<and> inject_spent (app_rt (lb_app b)) (app_rt (lb_app b'))"
  using serve_data_run [OF assms] serve_data_frame [OF assms(1)] protocol_run_fields [OF serve_data_run [OF assms]]
    protocol_run_spends [OF serve_data_run [OF assms]]
  unfolding protocol_run_def by blast

text \<open>
  C35. Every refusal is recorded: when the data plane answers with a status of 400 or more, whether no route
  matched, a protocol is off, a guard failed or a credential was wrong, then the newest event of the audit ring is
  a denial with one of the four fixed categories as its reason, and nothing of the request in it.
\<close>

theorem refusals_audited:
  assumes "serve_data D clk segs rq b = (resp, b')" "fresh_ids rq" "app_inv (lb_app b)"
    and "rt_hasReject (app_rt (lb_app b))" "400 \<le> status resp"
  shows "\<exists>now now' seq. \<exists>category \<in> set rejections. Recent (ap_audit (lb_app b')) \<noteq> []
    \<and> last (Recent (ap_audit (lb_app b'))) = Access.completed now now' seq (rejection_event category)"
proof -
  let ?p = "ap_oidc (lb_app b)" and ?R = "ap_audit (lb_app b)"
  obtain u where u: "https_handler D (Load (ap_store (lb_app b))) segs rq (ui_of b) = (resp, u)"
    "lb_app b' = (lb_app b)\<lparr>ap_oidc := ui_oidc u, ap_audit := emit_all (stamped clk (new_events ?p (ui_oidc u))) ?R\<rparr>"
    using serve_data_parts [OF assms(1)] by blast
  have "reporting (app_rt (lb_app b)) (ui_rt (ui_of b))" using assms(4) by (simp add: reporting_def)
  from reports.https_handler_logged [OF this assms(2) refl, where D = D and s = "Load (ap_store (lb_app b))" and segs = segs]
  obtain category r where c: "category \<in> set rejections" "reporting (app_rt (lb_app b)) r" "ui_rt u = AuditRejected category (status resp) r"
    using u(1) assms(5) by (auto simp: reports.logged_def)
  then obtain xs where "rt_rejects (pv_rt (ui_oidc u)) = rt_rejects (pv_rt ?p) @ xs @ [category]"
    using assms(5) by (auto simp: reporting_def AuditRejected_def Reject_def app_rt_def ui_rt_def)
  then obtain es where "new_events ?p (ui_oidc u) = es @ [rejection_event category]" by (simp add: new_events_def)
  moreover have "0 < rg_cap ?R" using assms(3) by (auto simp: app_inv_def ring_ok_def)
  ultimately show ?thesis using last_emitted [of ?R clk es "rejection_event category"] c(1) u(2) by (auto simp: Recent_def)
qed

section \<open>Routes and clothes\<close>

text \<open>The segments of a path as the router splits it.\<close>

definition path_segments :: "string \<Rightarrow> string list" where
  "path_segments p = tl (Split p (CHR ''/''))"

text \<open>The endpoints that clothes name, with the method and the page behind them.\<close>

definition clothes_endpoints :: "clothes \<Rightarrow> (string \<times> string \<times> (oidc_target + fed_target)) list" where
  "clothes_endpoints c = [
     (''GET'', ct_AuthorizePath c, Inl PAuthorize), (''POST'', ct_TokenPath c, Inl PToken),
     (''GET'', ct_JWKSPath c, Inl PJWKS), (''GET'', ct_UserInfoPath c, Inl PUserInfo),
     (''GET'', ct_LogoutPath c, Inl PLogout), (''POST'', ct_LogoutPath c, Inl PLogout),
     (''GET'', ct_SAMLMetadataPath c, Inr FSAMLMeta), (''GET'', ct_SAMLSSOPath c, Inr (FSSO ''GET'')),
     (''POST'', ct_SAMLSSOPOSTPath c, Inr (FSSO ''POST'')),
     (''GET'', ct_WSFedMetadataPath c, Inr FWSMeta), (''GET'', ct_WSFedPassivePath c, Inr FWSPassive)]"

definition https_route :: "string \<Rightarrow> string list \<Rightarrow> (oidc_target + fed_target) option" where
  "https_route m segs = (case lookup_row m segs (saml_patterns @ wsfed_patterns @ login_patterns) of
     Some (pg, _) \<Rightarrow> Some (Inr pg) | None \<Rightarrow> map_option (\<lambda>(pg, _). Inl pg) (lookup_row m segs oidc_patterns))"

definition routed :: "string \<times> string \<times> (oidc_target + fed_target) \<Rightarrow> bool" where
  "routed e = (case e of (m, path, t) \<Rightarrow> path \<noteq> [] \<and> https_route m (path_segments path) = Some t)"

text \<open>
  All rows but those of discovery, which names no path of the clothes: no two of them overlap, so that a request
  that matches one of them is routed to it.
\<close>

definition federation_patterns :: "fed_target table" where
  "federation_patterns = saml_patterns @ wsfed_patterns @ login_patterns"

definition all_rows :: "(oidc_target + fed_target) table" where
  "all_rows = map (\<lambda>(m, p, t). (m, p, Inr t)) federation_patterns @ map (\<lambda>(m, p, t). (m, p, Inl t)) (drop 3 oidc_patterns)"

lemma all_separate: "separate (parsed all_rows)"
  by code_simp

lemma oidc_separate: "separate (parsed oidc_patterns)"
  by code_simp

lemma rest_separate:
  "separate (parsed federation_patterns)"
  "list_all (\<lambda>z. fst z \<noteq> ''HEAD'') all_rows" "list_all (\<lambda>z. fst z \<noteq> ''HEAD'') oidc_patterns"
  by code_simp+

lemmas tables_separate = all_separate oidc_separate rest_separate

lemma federation_in_all: "(m, pat, pg) \<in> set federation_patterns \<Longrightarrow> (m, pat, Inr pg) \<in> set all_rows"
  unfolding all_rows_def set_append set_map by (rule UnI1, rule image_eqI [of _ _ "(m, pat, pg)"]) simp_all

lemma federation_heads: "\<forall>z \<in> set federation_patterns. fst z \<noteq> ''HEAD''"
  using tables_separate(4) federation_in_all by (fastforce simp: list_all_iff)

lemma row_match_own: "match_segments (parse_pattern pat) segs = Some bs \<Longrightarrow> row_match m segs (m, pat, e) = Some bs"
  by (simp add: row_match_def method_matches_def)

lemma row_routed:
  assumes "(m, pat, t) \<in> set all_rows" "match_segments (parse_pattern pat) segs \<noteq> None"
  shows "https_route m segs = Some t"
proof -
  note once = separate_once [OF tables_separate(1), where meth = m and segs = segs, OF assms(1)]
  obtain bs where bs: "match_segments (parse_pattern pat) segs = Some bs" using assms(2) by blast
  have heads: "\<forall>z \<in> set all_rows. fst z \<noteq> ''HEAD''" "\<forall>z \<in> set oidc_patterns. fst z \<noteq> ''HEAD''"
    using tables_separate(4,5) by (simp_all add: list_all_iff)
  show ?thesis
  proof (cases t)
    case (Inr pg)
    then have "(m, pat, pg) \<in> set federation_patterns" using assms(1) by (auto simp: all_rows_def)
    then have "lookup_row m segs federation_patterns = Some (pg, bs)"
      using lookup_row_unique [OF tables_separate(3) federation_heads _ row_match_own [OF bs]] by simp
    then show ?thesis by (simp add: https_route_def federation_patterns_def [symmetric] Inr)
  next
    case (Inl pg)
    have "lookup_row m segs federation_patterns = None"
    proof (rule ccontr)
      assume "lookup_row m segs federation_patterns \<noteq> None"
      then obtain pg' cs where l: "lookup_row m segs federation_patterns = Some (pg', cs)" by auto
      obtain k pat' where r: "(k, pat', pg') \<in> set federation_patterns" "row_match m segs (k, pat', pg') = Some cs"
        using lookup_row_Some [OF l] by blast
      have "row_match m segs (k, pat', Inr pg' :: oidc_target + fed_target) \<noteq> None" using r(2) by (simp add: row_match_def)
      then have "(m, pat, t) = (k, pat', Inr pg')"
        using once [OF federation_in_all [OF r(1)]] row_match_own [OF bs, of m t] heads(1) by blast
      then show False by (simp add: Inl)
    qed
    moreover have "(m, pat, pg) \<in> set oidc_patterns" using assms(1) by (auto simp: all_rows_def Inl dest: in_set_dropD)
    then have "lookup_row m segs oidc_patterns = Some (pg, bs)"
      using lookup_row_unique [OF tables_separate(2) heads(2) _ row_match_own [OF bs]] by simp
    ultimately show ?thesis by (simp add: https_route_def federation_patterns_def [symmetric] Inl)
  qed
qed

text \<open>A path that is a pattern without wildcards, and one that fills the only wildcard of a pattern.\<close>

definition constant_rows :: "'e table \<Rightarrow> 'e table \<Rightarrow> bool" where
  "constant_rows tab es = list_all (\<lambda>(m, path, t). (m, path, t) \<in> set tab
     \<and> path \<noteq> [] \<and> match_segments (parse_pattern path) (path_segments path) \<noteq> None) es"

lemma constant_routed: "constant_rows all_rows es \<Longrightarrow> list_all routed es"
  using row_routed by (fastforce simp: constant_rows_def routed_def list_all_iff)

definition wild_row :: "string \<times> string list \<times> string \<times> string list \<times> (oidc_target + fed_target) \<Rightarrow> bool" where
  "wild_row w = (case w of (m, pre, n, post, t) \<Rightarrow>
     list_ex (\<lambda>(k, pat, t'). k = m \<and> t' = t \<and> parse_pattern pat = map Lit pre @ Wild n # map Lit post) all_rows)"

lemma wild_match: "s \<noteq> [] \<Longrightarrow> match_segments (map Lit pre @ Wild n # map Lit post) (pre @ s # post) = Some [(n, s)]"
proof -
  have "match_segments (map Lit post) post = Some []" by (induction post) simp_all
  then show "s \<noteq> [] \<Longrightarrow> ?thesis" by (induction pre) simp_all
qed

lemma wild_routed:
  assumes "wild_row (m, pre, n, post, t)" "path_segments path = pre @ s # post" "s \<noteq> []"
  shows "routed (m, path, t)"
proof -
  obtain pat where "(m, pat, t) \<in> set all_rows" "parse_pattern pat = map Lit pre @ Wild n # map Lit post"
    using assms(1) by (auto simp: wild_row_def list_ex_iff)
  moreover have "path \<noteq> []" using assms(2) by (auto simp: path_segments_def Split_def)
  ultimately show ?thesis using row_routed [of m pat t] wild_match [OF assms(3), of pre n post] by (simp add: routed_def assms(2))
qed

definition wild_rows :: "(string \<times> string list \<times> string \<times> string list \<times> (oidc_target + fed_target)) list" where
  "wild_rows = [
     (''GET'', [''realms''], ''realm'', [''protocol'', ''openid-connect'', ''auth''], Inl PAuthorize),
     (''POST'', [''realms''], ''realm'', [''protocol'', ''openid-connect'', ''token''], Inl PToken),
     (''GET'', [''realms''], ''realm'', [''protocol'', ''openid-connect'', ''certs''], Inl PJWKS),
     (''GET'', [''realms''], ''realm'', [''protocol'', ''openid-connect'', ''userinfo''], Inl PUserInfo),
     (''GET'', [''realms''], ''realm'', [''protocol'', ''openid-connect'', ''logout''], Inl PLogout),
     (''POST'', [''realms''], ''realm'', [''protocol'', ''openid-connect'', ''logout''], Inl PLogout),
     (''GET'', [''oidc''], ''name'', [''authorize''], Inl PAuthorize),
     (''POST'', [''oidc''], ''name'', [''token''], Inl PToken),
     (''GET'', [''oidc''], ''name'', [''jwks''], Inl PJWKS),
     (''GET'', [''oidc''], ''name'', [''userinfo''], Inl PUserInfo),
     (''GET'', [''oidc''], ''name'', [''logout''], Inl PLogout),
     (''POST'', [''oidc''], ''name'', [''logout''], Inl PLogout),
     (''GET'', [''affwebservices'', ''CASSO'', ''oidc''], ''name'', [''authorize''], Inl PAuthorize),
     (''POST'', [''affwebservices'', ''CASSO'', ''oidc''], ''name'', [''token''], Inl PToken),
     (''GET'', [''affwebservices'', ''CASSO'', ''oidc''], ''name'', [''jwks''], Inl PJWKS),
     (''GET'', [''affwebservices'', ''CASSO'', ''oidc''], ''name'', [''userinfo''], Inl PUserInfo),
     (''GET'', [''affwebservices'', ''CASSO'', ''oidc''], ''name'', [''logout''], Inl PLogout),
     (''POST'', [''affwebservices'', ''CASSO'', ''oidc''], ''name'', [''logout''], Inl PLogout),
     (''GET'', [''saml2'', ''sp''], ''name'', [''metadata''], Inr FSAMLMeta),
     (''GET'', [''saml2'', ''sp''], ''name'', [''sso''], Inr (FSSO ''GET'')),
     (''POST'', [''saml2'', ''sp''], ''name'', [''sso''], Inr (FSSO ''POST''))]"

lemma wild_rows_in: "list_all wild_row wild_rows"
  by code_simp

text \<open>The endpoints of clothes, from the list of their paths.\<close>

definition rows_of :: "string list \<Rightarrow> (string \<times> string \<times> (oidc_target + fed_target)) list" where
  "rows_of ps = (case ps of [a, t, j, u, l, sm, ss, sp, wm, wp] \<Rightarrow> [
     (''GET'', a, Inl PAuthorize), (''POST'', t, Inl PToken), (''GET'', j, Inl PJWKS), (''GET'', u, Inl PUserInfo),
     (''GET'', l, Inl PLogout), (''POST'', l, Inl PLogout), (''GET'', sm, Inr FSAMLMeta), (''GET'', ss, Inr (FSSO ''GET'')),
     (''POST'', sp, Inr (FSSO ''POST'')), (''GET'', wm, Inr FWSMeta), (''GET'', wp, Inr FWSPassive)] | _ \<Rightarrow> [])"

definition clothes_paths :: "clothes \<Rightarrow> string list" where
  "clothes_paths c = [ct_AuthorizePath c, ct_TokenPath c, ct_JWKSPath c, ct_UserInfoPath c, ct_LogoutPath c,
     ct_SAMLMetadataPath c, ct_SAMLSSOPath c, ct_SAMLSSOPOSTPath c, ct_WSFedMetadataPath c, ct_WSFedPassivePath c]"

lemma endpoints_paths: "clothes_endpoints c = rows_of (clothes_paths c)"
  by (simp add: clothes_endpoints_def rows_of_def clothes_paths_def)

lemma default_paths [simp]:
  "ct_AuthorizePath (clothes_defaults c) = ct_AuthorizePath c" "ct_TokenPath (clothes_defaults c) = ct_TokenPath c"
  "ct_JWKSPath (clothes_defaults c) = ct_JWKSPath c" "ct_UserInfoPath (clothes_defaults c) = ct_UserInfoPath c"
  "ct_LogoutPath (clothes_defaults c) = ct_LogoutPath c"
  "ct_SAMLMetadataPath (clothes_defaults c) = (if ct_SAMLMetadataPath c = [] then ''/saml/metadata'' else ct_SAMLMetadataPath c)"
  "ct_SAMLSSOPath (clothes_defaults c) = (if ct_SAMLSSOPath c = [] then ''/saml/sso'' else ct_SAMLSSOPath c)"
  "ct_SAMLSSOPOSTPath (clothes_defaults c) = (if ct_SAMLSSOPOSTPath c \<noteq> [] then ct_SAMLSSOPOSTPath c
     else if ct_SAMLSSOPath c = [] then ''/saml/sso'' else ct_SAMLSSOPath c)"
  "ct_WSFedMetadataPath (clothes_defaults c) = (if ct_WSFedMetadataPath c = [] then ''/wsfed/metadata'' else ct_WSFedMetadataPath c)"
  "ct_WSFedPassivePath (clothes_defaults c) = (if ct_WSFedMetadataPath c = [] then ''/wsfed/passive'' else ct_WSFedPassivePath c)"
  by (simp_all add: clothes_defaults_def Let_def)

definition no_paths :: "clothes \<Rightarrow> bool" where
  "no_paths c \<longleftrightarrow> clothes_paths c = replicate 10 []"

lemma vendor_clothes:
  assumes "no_paths b"
  shows
  "clothes_paths (clothes_defaults (vendor_paths ''generic'' realm b)) =
     [''/oauth2/authorize'', ''/oauth2/token'', ''/oauth2/jwks'', ''/oauth2/userinfo'', ''/oauth2/logout'', ''/saml/metadata'', ''/saml/sso'', ''/saml/sso'', ''/wsfed/metadata'', ''/wsfed/passive'']"
  "clothes_paths (clothes_defaults (vendor_paths ''entra'' realm b)) =
     [''/oauth2/v2.0/authorize'', ''/oauth2/v2.0/token'', ''/oauth2/v2.0/jwks'', ''/oauth2/v2.0/userinfo'', ''/oauth2/v2.0/logout'', ''/saml/metadata'', ''/saml/sso'', ''/saml/sso'', ''/wsfed/metadata'', ''/wsfed/passive'']"
  "clothes_paths (clothes_defaults (vendor_paths ''okta'' realm b)) =
     [''/oauth2/default/v1/authorize'', ''/oauth2/default/v1/token'', ''/oauth2/default/v1/jwks'', ''/oauth2/default/v1/userinfo'', ''/oauth2/default/v1/logout'', ''/saml/metadata'', ''/saml/sso'', ''/saml/sso'', ''/wsfed/metadata'', ''/wsfed/passive'']"
  "clothes_paths (clothes_defaults (vendor_paths ''ping'' realm b)) =
     [''/as/authorization.oauth2'', ''/as/token.oauth2'', ''/pf/JWKS'', ''/idp/userinfo.openid'', ''/idp/startSLO.ping'', ''/saml/metadata'', ''/saml/sso'', ''/saml/sso'', ''/wsfed/metadata'', ''/wsfed/passive'']"
  "clothes_paths (clothes_defaults (vendor_paths ''adfs'' realm b)) =
     [''/adfs/oauth2/authorize'', ''/adfs/oauth2/token'', ''/adfs/discovery/keys'', ''/adfs/userinfo'', ''/adfs/oauth2/logout'', ''/saml/metadata'', ''/saml/sso'', ''/saml/sso'', ''/FederationMetadata/2007-06/FederationMetadata.xml'', ''/adfs/ls/'']"
  "clothes_paths (clothes_defaults (vendor_paths ''google'' realm b)) =
     [''/o/oauth2/v2/auth'', ''/token'', ''/oauth2/v3/certs'', ''/oauth2/v3/userinfo'', ''/logout'', ''/saml/metadata'', ''/saml/sso'', ''/saml/sso'', ''/wsfed/metadata'', ''/wsfed/passive'']"
  "clothes_paths (clothes_defaults (vendor_paths ''iam-identity-center'' realm b)) =
     [''/authorize'', ''/token'', ''/jwks'', ''/userinfo'', ''/logout'', ''/saml/metadata'', ''/saml/sso'', ''/saml/sso'', ''/wsfed/metadata'', ''/wsfed/passive'']"
  "clothes_paths (clothes_defaults (vendor_paths ''shibboleth'' realm b)) =
     [''/idp/profile/oidc/authorize'', ''/idp/profile/oidc/token'', ''/idp/profile/oidc/keyset'', ''/idp/profile/oidc/userinfo'', ''/idp/profile/oidc/logout'', ''/idp/shibboleth'', ''/idp/profile/SAML2/Redirect/SSO'', ''/idp/profile/SAML2/POST/SSO'', ''/wsfed/metadata'', ''/wsfed/passive'']"
  "clothes_paths (clothes_defaults (vendor_paths ''keycloak'' realm b)) =
     [''/realms/'' @ realm @ ''/protocol/openid-connect/auth'', ''/realms/'' @ realm @ ''/protocol/openid-connect/token'', ''/realms/'' @ realm @ ''/protocol/openid-connect/certs'', ''/realms/'' @ realm @ ''/protocol/openid-connect/userinfo'', ''/realms/'' @ realm @ ''/protocol/openid-connect/logout'',
     ''/saml/metadata'', ''/saml/sso'', ''/saml/sso'', ''/wsfed/metadata'', ''/wsfed/passive'']"
  "clothes_paths (clothes_defaults (vendor_paths ''duo'' realm b)) =
     [''/oidc/'' @ realm @ ''/authorize'', ''/oidc/'' @ realm @ ''/token'', ''/oidc/'' @ realm @ ''/jwks'', ''/oidc/'' @ realm @ ''/userinfo'', ''/oidc/'' @ realm @ ''/logout'',
     ''/saml2/sp/'' @ realm @ ''/metadata'', ''/saml2/sp/'' @ realm @ ''/sso'', ''/saml2/sp/'' @ realm @ ''/sso'', ''/wsfed/metadata'', ''/wsfed/passive'']"
  "clothes_paths (clothes_defaults (vendor_paths ''siteminder'' realm b)) =
     [''/affwebservices/CASSO/oidc/'' @ realm @ ''/authorize'', ''/affwebservices/CASSO/oidc/'' @ realm @ ''/token'', ''/affwebservices/CASSO/oidc/'' @ realm @ ''/jwks'', ''/affwebservices/CASSO/oidc/'' @ realm @ ''/userinfo'', ''/affwebservices/CASSO/oidc/'' @ realm @ ''/logout'',
     ''/affwebservices/public/saml2meta'', ''/affwebservices/public/saml2sso'', ''/affwebservices/public/saml2sso'', ''/wsfed/metadata'', ''/wsfed/passive'']"
  using assms
  by (simp_all add: no_paths_def clothes_paths_def vendor_paths_def html_titles_def oidc_paths_def eval_nat_numeral)

lemma federation_list:
  "constant_rows all_rows [
     (''GET'', ''/saml/metadata'', Inr FSAMLMeta),
     (''GET'', ''/saml/sso'', Inr (FSSO ''GET'')),
     (''POST'', ''/saml/sso'', Inr (FSSO ''POST'')),
     (''GET'', ''/wsfed/metadata'', Inr FWSMeta),
     (''GET'', ''/wsfed/passive'', Inr FWSPassive),
     (''GET'', ''/affwebservices/public/saml2meta'', Inr FSAMLMeta),
     (''GET'', ''/affwebservices/public/saml2sso'', Inr (FSSO ''GET'')),
     (''POST'', ''/affwebservices/public/saml2sso'', Inr (FSSO ''POST''))]"
  by code_simp

lemma constant_generic:
  "constant_rows all_rows (rows_of [''/oauth2/authorize'', ''/oauth2/token'', ''/oauth2/jwks'', ''/oauth2/userinfo'', ''/oauth2/logout'', ''/saml/metadata'', ''/saml/sso'', ''/saml/sso'', ''/wsfed/metadata'', ''/wsfed/passive''])"
  by code_simp

lemma constant_entra:
  "constant_rows all_rows (rows_of [''/oauth2/v2.0/authorize'', ''/oauth2/v2.0/token'', ''/oauth2/v2.0/jwks'', ''/oauth2/v2.0/userinfo'', ''/oauth2/v2.0/logout'', ''/saml/metadata'', ''/saml/sso'', ''/saml/sso'', ''/wsfed/metadata'', ''/wsfed/passive''])"
  by code_simp

lemma constant_okta:
  "constant_rows all_rows (rows_of [''/oauth2/default/v1/authorize'', ''/oauth2/default/v1/token'', ''/oauth2/default/v1/jwks'', ''/oauth2/default/v1/userinfo'', ''/oauth2/default/v1/logout'', ''/saml/metadata'', ''/saml/sso'', ''/saml/sso'', ''/wsfed/metadata'', ''/wsfed/passive''])"
  by code_simp

lemma constant_ping:
  "constant_rows all_rows (rows_of [''/as/authorization.oauth2'', ''/as/token.oauth2'', ''/pf/JWKS'', ''/idp/userinfo.openid'', ''/idp/startSLO.ping'', ''/saml/metadata'', ''/saml/sso'', ''/saml/sso'', ''/wsfed/metadata'', ''/wsfed/passive''])"
  by code_simp

lemma constant_adfs:
  "constant_rows all_rows (rows_of [''/adfs/oauth2/authorize'', ''/adfs/oauth2/token'', ''/adfs/discovery/keys'', ''/adfs/userinfo'', ''/adfs/oauth2/logout'', ''/saml/metadata'', ''/saml/sso'', ''/saml/sso'', ''/FederationMetadata/2007-06/FederationMetadata.xml'', ''/adfs/ls/''])"
  by code_simp

lemma constant_google:
  "constant_rows all_rows (rows_of [''/o/oauth2/v2/auth'', ''/token'', ''/oauth2/v3/certs'', ''/oauth2/v3/userinfo'', ''/logout'', ''/saml/metadata'', ''/saml/sso'', ''/saml/sso'', ''/wsfed/metadata'', ''/wsfed/passive''])"
  by code_simp

lemma constant_identity_center:
  "constant_rows all_rows (rows_of [''/authorize'', ''/token'', ''/jwks'', ''/userinfo'', ''/logout'', ''/saml/metadata'', ''/saml/sso'', ''/saml/sso'', ''/wsfed/metadata'', ''/wsfed/passive''])"
  by code_simp

lemma constant_shibboleth:
  "constant_rows all_rows (rows_of [''/idp/profile/oidc/authorize'', ''/idp/profile/oidc/token'', ''/idp/profile/oidc/keyset'', ''/idp/profile/oidc/userinfo'', ''/idp/profile/oidc/logout'', ''/idp/shibboleth'', ''/idp/profile/SAML2/Redirect/SSO'', ''/idp/profile/SAML2/POST/SSO'', ''/wsfed/metadata'', ''/wsfed/passive''])"
  by code_simp

lemmas constant_paths = constant_generic constant_entra constant_okta constant_ping constant_adfs constant_google constant_identity_center constant_shibboleth
lemmas constant_paths_routed = constant_paths [THEN constant_routed]

text \<open>The three vendors whose paths hold the realm.\<close>

lemma realm_segments:
  assumes "CHR ''/'' \<notin> set s"
  shows
  "path_segments (''/realms/'' @ s @ ''/protocol/openid-connect/auth'') = [''realms''] @ s # [''protocol'', ''openid-connect'', ''auth'']"
  "path_segments (''/realms/'' @ s @ ''/protocol/openid-connect/token'') = [''realms''] @ s # [''protocol'', ''openid-connect'', ''token'']"
  "path_segments (''/realms/'' @ s @ ''/protocol/openid-connect/certs'') = [''realms''] @ s # [''protocol'', ''openid-connect'', ''certs'']"
  "path_segments (''/realms/'' @ s @ ''/protocol/openid-connect/userinfo'') = [''realms''] @ s # [''protocol'', ''openid-connect'', ''userinfo'']"
  "path_segments (''/realms/'' @ s @ ''/protocol/openid-connect/logout'') = [''realms''] @ s # [''protocol'', ''openid-connect'', ''logout'']"
  "path_segments (''/oidc/'' @ s @ ''/authorize'') = [''oidc''] @ s # [''authorize'']"
  "path_segments (''/oidc/'' @ s @ ''/token'') = [''oidc''] @ s # [''token'']"
  "path_segments (''/oidc/'' @ s @ ''/jwks'') = [''oidc''] @ s # [''jwks'']"
  "path_segments (''/oidc/'' @ s @ ''/userinfo'') = [''oidc''] @ s # [''userinfo'']"
  "path_segments (''/oidc/'' @ s @ ''/logout'') = [''oidc''] @ s # [''logout'']"
  "path_segments (''/affwebservices/CASSO/oidc/'' @ s @ ''/authorize'') = [''affwebservices'', ''CASSO'', ''oidc''] @ s # [''authorize'']"
  "path_segments (''/affwebservices/CASSO/oidc/'' @ s @ ''/token'') = [''affwebservices'', ''CASSO'', ''oidc''] @ s # [''token'']"
  "path_segments (''/affwebservices/CASSO/oidc/'' @ s @ ''/jwks'') = [''affwebservices'', ''CASSO'', ''oidc''] @ s # [''jwks'']"
  "path_segments (''/affwebservices/CASSO/oidc/'' @ s @ ''/userinfo'') = [''affwebservices'', ''CASSO'', ''oidc''] @ s # [''userinfo'']"
  "path_segments (''/affwebservices/CASSO/oidc/'' @ s @ ''/logout'') = [''affwebservices'', ''CASSO'', ''oidc''] @ s # [''logout'']"
  "path_segments (''/saml2/sp/'' @ s @ ''/metadata'') = [''saml2'', ''sp''] @ s # [''metadata'']"
  "path_segments (''/saml2/sp/'' @ s @ ''/sso'') = [''saml2'', ''sp''] @ s # [''sso'']"
  using assms by (simp_all add: path_segments_def Split_def split_acc_append)

lemma wild_in: "w \<in> set wild_rows \<Longrightarrow> wild_row w"
  using wild_rows_in by (simp add: list_all_iff)

lemma realm_routed:
  assumes "CHR ''/'' \<notin> set realm" "realm \<noteq> []"
  shows
  "routed (''GET'', ''/realms/'' @ realm @ ''/protocol/openid-connect/auth'', Inl PAuthorize)"
  "routed (''POST'', ''/realms/'' @ realm @ ''/protocol/openid-connect/token'', Inl PToken)"
  "routed (''GET'', ''/realms/'' @ realm @ ''/protocol/openid-connect/certs'', Inl PJWKS)"
  "routed (''GET'', ''/realms/'' @ realm @ ''/protocol/openid-connect/userinfo'', Inl PUserInfo)"
  "routed (''GET'', ''/realms/'' @ realm @ ''/protocol/openid-connect/logout'', Inl PLogout)"
  "routed (''POST'', ''/realms/'' @ realm @ ''/protocol/openid-connect/logout'', Inl PLogout)"
  "routed (''GET'', ''/oidc/'' @ realm @ ''/authorize'', Inl PAuthorize)"
  "routed (''POST'', ''/oidc/'' @ realm @ ''/token'', Inl PToken)"
  "routed (''GET'', ''/oidc/'' @ realm @ ''/jwks'', Inl PJWKS)"
  "routed (''GET'', ''/oidc/'' @ realm @ ''/userinfo'', Inl PUserInfo)"
  "routed (''GET'', ''/oidc/'' @ realm @ ''/logout'', Inl PLogout)"
  "routed (''POST'', ''/oidc/'' @ realm @ ''/logout'', Inl PLogout)"
  "routed (''GET'', ''/affwebservices/CASSO/oidc/'' @ realm @ ''/authorize'', Inl PAuthorize)"
  "routed (''POST'', ''/affwebservices/CASSO/oidc/'' @ realm @ ''/token'', Inl PToken)"
  "routed (''GET'', ''/affwebservices/CASSO/oidc/'' @ realm @ ''/jwks'', Inl PJWKS)"
  "routed (''GET'', ''/affwebservices/CASSO/oidc/'' @ realm @ ''/userinfo'', Inl PUserInfo)"
  "routed (''GET'', ''/affwebservices/CASSO/oidc/'' @ realm @ ''/logout'', Inl PLogout)"
  "routed (''POST'', ''/affwebservices/CASSO/oidc/'' @ realm @ ''/logout'', Inl PLogout)"
  "routed (''GET'', ''/saml2/sp/'' @ realm @ ''/metadata'', Inr FSAMLMeta)"
  "routed (''GET'', ''/saml2/sp/'' @ realm @ ''/sso'', Inr (FSSO ''GET''))"
  "routed (''POST'', ''/saml2/sp/'' @ realm @ ''/sso'', Inr (FSSO ''POST''))"
  by ((rule wild_routed [where n = "''realm''" and s = realm, rotated], rule realm_segments [OF assms(1)], rule assms(2), rule wild_in,
      simp add: wild_rows_def; fail)
    | (rule wild_routed [where n = "''name''" and s = realm, rotated], rule realm_segments [OF assms(1)], rule assms(2), rule wild_in,
      simp add: wild_rows_def; fail))+

lemma realm_paths_routed:
  assumes "CHR ''/'' \<notin> set realm" "realm \<noteq> []"
  shows "list_all routed (rows_of [''/realms/'' @ realm @ ''/protocol/openid-connect/auth'', ''/realms/'' @ realm @ ''/protocol/openid-connect/token'', ''/realms/'' @ realm @ ''/protocol/openid-connect/certs'', ''/realms/'' @ realm @ ''/protocol/openid-connect/userinfo'', ''/realms/'' @ realm @ ''/protocol/openid-connect/logout'',
     ''/saml/metadata'', ''/saml/sso'', ''/saml/sso'', ''/wsfed/metadata'', ''/wsfed/passive''])"
    "list_all routed (rows_of [''/oidc/'' @ realm @ ''/authorize'', ''/oidc/'' @ realm @ ''/token'', ''/oidc/'' @ realm @ ''/jwks'', ''/oidc/'' @ realm @ ''/userinfo'', ''/oidc/'' @ realm @ ''/logout'',
     ''/saml2/sp/'' @ realm @ ''/metadata'', ''/saml2/sp/'' @ realm @ ''/sso'', ''/saml2/sp/'' @ realm @ ''/sso'', ''/wsfed/metadata'', ''/wsfed/passive''])"
    "list_all routed (rows_of [''/affwebservices/CASSO/oidc/'' @ realm @ ''/authorize'', ''/affwebservices/CASSO/oidc/'' @ realm @ ''/token'', ''/affwebservices/CASSO/oidc/'' @ realm @ ''/jwks'', ''/affwebservices/CASSO/oidc/'' @ realm @ ''/userinfo'', ''/affwebservices/CASSO/oidc/'' @ realm @ ''/logout'',
     ''/affwebservices/public/saml2meta'', ''/affwebservices/public/saml2sso'', ''/affwebservices/public/saml2sso'', ''/wsfed/metadata'', ''/wsfed/passive''])"
  using constant_routed [OF federation_list] realm_routed [OF assms] by (simp_all add: rows_of_def)

lemma resolved_routed:
  assumes "Resolve v tenant realm = Inr c" "realm = [] \<or> validSegment realm"
  shows "list_all routed (clothes_endpoints c)"
proof -
  let ?v = "if v = [] then ''generic'' else v" and ?r = "if realm = [] then ''lab'' else realm"
  obtain b where c: "c = clothes_defaults (vendor_paths ?v ?r b)" and b: "no_paths b" and v: "Implemented ?v"
    using assms(1) by (auto simp: Resolve_def Let_def no_paths_def clothes_paths_def zero_clothes_def eval_nat_numeral split: if_splits)
  have "CHR ''/'' \<notin> set ?r" "?r \<noteq> []"
    using assms(2) by (auto simp: validSegment_def list_all_iff segment_char_def is_lower_def is_upper_def is_digit_def split: if_splits)
  note routed = constant_paths_routed realm_paths_routed [OF this]
  have "list_all routed (rows_of (clothes_paths (clothes_defaults (vendor_paths w ?r b))))" if "Implemented w" for w
    using that unfolding Implemented_def list.set insert_iff empty_iff by (elim disjE FalseE) (simp_all only: vendor_clothes [OF b] routed)
  then show ?thesis using v by (simp add: c endpoints_paths)
qed

text \<open>The page behind an endpoint, with its refusals reported.\<close>

fun oidc_core :: "datalib \<Rightarrow> snapshot option \<Rightarrow> request \<Rightarrow> oidc_target \<Rightarrow> provider \<Rightarrow> response \<times> provider" where
  "oidc_core D s rq PAuthorize p = authorize (dl_env D) s rq p"
| "oidc_core D s rq PToken p = token (dl_env D) s rq p"
| "oidc_core D s rq PJWKS p = (jwks D s, p)"
| "oidc_core D s rq PUserInfo p = (userinfo (dl_env D) s rq p, p)"
| "oidc_core D s rq PLogout p = logout (dl_env D) s rq p"
| "oidc_core D s rq _ p = (HttpError 404 ''not found'', p)"

fun fed_core :: "datalib \<Rightarrow> snapshot option \<Rightarrow> request \<Rightarrow> fed_target \<Rightarrow> runtime \<Rightarrow> response \<times> runtime" where
  "fed_core D s rq FSAMLMeta r = (metadata (dl_comp D) s, r)"
| "fed_core D s rq (FSSO m) r = sso (dl_saml D) (dl_comp D) s rq r"
| "fed_core D s rq FWSMeta r = (metadata_wsfed (dl_comp D) s, r)"
| "fed_core D s rq FWSPassive r = passive_wsfed (dl_saml D) (dl_comp D) s rq r"
| "fed_core D s rq _ r = (HttpError 404 ''not found'', r)"

fun https_target :: "datalib \<Rightarrow> snapshot option \<Rightarrow> request \<Rightarrow> oidc_target + fed_target \<Rightarrow> ui \<Rightarrow> response \<times> ui" where
  "https_target D s rq (Inl pg) u = (let (resp, p) = oidc_core D s rq pg (ui_oidc u) in
     (resp, u\<lparr>ui_oidc := p\<lparr>pv_rt := AuditRejected ''oidc_request_rejected'' (status resp) (pv_rt p)\<rparr>\<rparr>))"
| "https_target D s rq (Inr pg) u = on_runtime (\<lambda>r. audited ''federation_request_rejected'' (fed_core D s rq pg r)) u"

text \<open>The protocol of an endpoint is on.\<close>

fun protocol_on :: "snapshot \<Rightarrow> oidc_target + fed_target \<Rightarrow> bool" where
  "protocol_on snap (Inl pg) = (snapOIDC (Some snap) = Inr snap)"
| "protocol_on snap (Inr FSAMLMeta) = (snapSAML (Some snap) = Inr snap)"
| "protocol_on snap (Inr (FSSO m)) = (snapSAML (Some snap) = Inr snap)"
| "protocol_on snap (Inr pg) = (snapWSFed (Some snap) = Inr snap)"

lemma routed_split:
  assumes "https_route m segs = Some t"
  shows "(\<exists>pg bs. t = Inr pg \<and> lookup_row m segs (saml_patterns @ wsfed_patterns @ login_patterns) = Some (pg, bs))
    \<or> (\<exists>pg bs. t = Inl pg \<and> lookup_row m segs (saml_patterns @ wsfed_patterns @ login_patterns) = None
         \<and> lookup_row m segs oidc_patterns = Some (pg, bs))"
  using assms by (auto simp: https_route_def split: option.splits)

text \<open>The only subtree of the router is one of the vendor paths, which has a page of its own.\<close>

lemma subtree_rows:
  "list_all (\<lambda>(m, pat, _). last (parse_pattern pat) = Rest \<longrightarrow> butlast (parse_pattern pat) = [Lit ''adfs'', Lit ''ls''])
     (saml_patterns @ wsfed_patterns @ login_patterns)"
  by code_simp

lemma subtree_path:
  assumes "redirect_to_slash m segs (saml_patterns @ wsfed_patterns @ login_patterns)"
  shows "segs = [''adfs'', ''ls'']"
proof -
  obtain k pat e where r: "(k, pat, e) \<in> set (saml_patterns @ wsfed_patterns @ login_patterns)"
      "last (parse_pattern pat) = Rest" "match_segments (butlast (parse_pattern pat)) segs \<noteq> None"
    using assms unfolding redirect_to_slash_def list_ex_iff by blast
  then have "butlast (parse_pattern pat) = [Lit ''adfs'', Lit ''ls'']" using subtree_rows unfolding list_all_iff by blast
  with r(3) have "match_segments [Lit ''adfs'', Lit ''ls''] segs \<noteq> None" by simp
  then show ?thesis by (cases segs; cases "tl segs"; cases "tl (tl segs)") (auto split: if_splits)
qed

lemma subtree_open: "lookup_row m [''adfs'', ''ls''] oidc_patterns = None"
proof -
  have "\<not> known_path [''adfs'', ''ls''] oidc_patterns" by code_simp
  then have "row_match m [''adfs'', ''ls''] x = None" if "x \<in> set oidc_patterns" for x
    using that by (cases x) (auto simp: known_path_def list_ex_iff row_match_def)
  then show ?thesis using lookup_row_Some [of m "[''adfs'', ''ls'']" oidc_patterns] by (metis not_None_eq option.distinct(1) surj_pair)
qed

lemma not_subtree:
  assumes "lookup_row m segs oidc_patterns = Some x"
  shows "\<not> redirect_to_slash m segs (saml_patterns @ wsfed_patterns @ login_patterns)"
  using assms subtree_path [of m segs] subtree_open [of m] by auto

text \<open>
  C36. Swapping the vendor always leaves a working data plane: whatever vendor, tenant and realm the clothes were
  resolved for, a request with the method and path of any of their endpoints reaches the page of that endpoint, past the
  router and past the check of the path, when its protocol is on.
\<close>

theorem vendor_endpoints_served:
  assumes "Resolve v tenant realm = Inr c" "realm = [] \<or> validSegment realm" "sn_Clothes snap = c"
    and "protocol_on snap t" "(m, path, t) \<in> set (clothes_endpoints c)" "rq_Method rq = m" "rq_Path rq = path"
  shows "https_handler D (Some snap) (path_segments path) rq u = https_target D (Some snap) rq t u"
proof -
  note all = resolved_routed [OF assms(1,2)]
  then have r: "path \<noteq> []" "https_route m (path_segments path) = Some t"
    using assms(5) by (auto simp: list_all_iff routed_def)
  have "(''GET'', ct_AuthorizePath c, Inl PAuthorize) \<in> set (clothes_endpoints c)" by (simp add: clothes_endpoints_def)
  then have "ct_AuthorizePath c \<noteq> []" using all by (auto simp: list_all_iff routed_def)
  then have c: "clothesOf (Some snap) = c" by (simp add: clothesOf_def assms(3))
  show ?thesis
    using routed_split [OF r(2)] r(1) assms(3-7) not_subtree [of "rq_Method rq"]
    by (auto simp: https_handler_def oidc_handler_def clothes_endpoints_def requirePath_def requireMeta_def requireSSO_def
        require_wsfed_def require_path_def on_runtime_def audited_def c Let_def case_prod_unfold)
qed

section \<open>Witnesses\<close>

theorem vendor_endpoints_served_witness:
  "\<forall>D (snap :: snapshot) (rq :: request) u. \<exists>c. Resolve ''duo'' [] ''lab'' = Inr c
     \<and> https_handler D (Some (snap\<lparr>sn_Canonical := None, sn_Clothes := c\<rparr>)) [''oidc'', ''lab'', ''jwks'']
         (rq\<lparr>rq_Method := ''GET'', rq_Path := ''/oidc/lab/jwks''\<rparr>) u
       = https_target D (Some (snap\<lparr>sn_Canonical := None, sn_Clothes := c\<rparr>)) (rq\<lparr>rq_Method := ''GET'', rq_Path := ''/oidc/lab/jwks''\<rparr>)
           (Inl PJWKS) u"
proof (intro allI)
  fix D u and snap :: snapshot and rq :: request
  let ?snap = "\<lambda>c. snap\<lparr>sn_Canonical := None, sn_Clothes := c\<rparr>" and ?rq = "rq\<lparr>rq_Method := ''GET'', rq_Path := ''/oidc/lab/jwks''\<rparr>"
  obtain c where c: "Resolve ''duo'' [] ''lab'' = Inr c" by (simp add: Resolve_def Implemented_def Let_def)
  have "validSegment ''lab''" by code_simp
  moreover have "(''GET'', ''/oidc/lab/jwks'', Inl PJWKS) \<in> set (clothes_endpoints c)"
  proof -
    have "case Resolve ''duo'' [] ''lab'' of Inl _ \<Rightarrow> False | Inr c \<Rightarrow> ct_JWKSPath c = ''/oidc/lab/jwks''" by code_simp
    then show ?thesis using c by (simp add: clothes_endpoints_def)
  qed
  moreover have "path_segments ''/oidc/lab/jwks'' = [''oidc'', ''lab'', ''jwks'']" by code_simp
  moreover have "protocol_on (?snap c) (Inl PJWKS)" by (simp add: snapOIDC_def)
  ultimately have "https_handler D (Some (?snap c)) [''oidc'', ''lab'', ''jwks''] ?rq u = https_target D (Some (?snap c)) ?rq (Inl PJWKS) u"
    using vendor_endpoints_served [OF c, of "?snap c" "Inl PJWKS" "''GET''" "''/oidc/lab/jwks''" ?rq D u] by simp
  then show "\<exists>c. Resolve ''duo'' [] ''lab'' = Inr c
     \<and> https_handler D (Some (?snap c)) [''oidc'', ''lab'', ''jwks''] ?rq u = https_target D (Some (?snap c)) ?rq (Inl PJWKS) u"
    using c by blast
qed

definition sample_data :: datalib where
  "sample_data = \<lparr>dl_env = sample_env,
     dl_saml = \<lparr>sl_tokens = (\<lambda>_. ([], True)), sl_authn = (\<lambda>_. None), sl_metadata = (\<lambda>_. None), sl_inflate = (\<lambda>s n. Some s),
        sl_certificate = Some, sl_signEnveloped = (\<lambda>_ e. Some e), sl_write = (\<lambda>_. Some [])\<rparr>,
     dl_comp = sample_comp, dl_jwk = (\<lambda>_. (JNull, True))\<rparr>"

definition lost_request :: request where
  "lost_request = \<lparr>rq_Method = ''GET'', rq_Path = ''/nowhere'', rq_RemoteAddr = ''127.0.0.1:5'', rq_Query = [], rq_PostForm = [],
     rq_FormOK = True, rq_Cookies = [], rq_BasicAuth = None, rq_Authorization = [], rq_TLS = True, rq_SameOrigin = True,
     rq_clk = (\<lambda>_. 2000), rq_rnd = (\<lambda>_. replicate 32 (CHR ''a''))\<rparr>"

definition lost :: "response \<times> lab" where
  "lost = serve_data sample_data (\<lambda>_. 2000) [''nowhere''] lost_request (NewLab sample_app)"

lemma lost_fresh: "fresh_ids lost_request"
  by (simp add: fresh_ids_def lost_request_def)

lemma lost_status: "400 \<le> status (fst lost)"
proof -
  have "lookup_row ''GET'' [''nowhere''] (saml_patterns @ wsfed_patterns @ login_patterns) = None"
    "lookup_row ''GET'' [''nowhere''] oidc_patterns = None" by code_simp+
  moreover have "\<not> redirect_to_slash ''GET'' [''nowhere''] (saml_patterns @ wsfed_patterns @ login_patterns)" using subtree_path by blast
  moreover have "rq_Method lost_request = ''GET''" by (simp add: lost_request_def)
  ultimately show ?thesis
    by (simp add: lost_def serve_data_def https_handler_def oidc_handler_def unmatched_def Let_def case_prod_unfold)
qed

lemma sample_reports: "rt_hasReject (app_rt sample_app)"
  by (simp add: sample_app_def sample_start_def InstallBootstrapFile_def NewApp_def app_rt_def SetReject_def split: sum.split)

lemma new_lab_app [simp]: "lb_app (NewLab a) = a"
  by (simp add: NewLab_def Let_def)

theorem data_plane_refines_runtime_witness:
  "operator_fields (app_rt (lb_app (snd lost))) = operator_fields (app_rt sample_app)"
  using data_plane_refines_runtime [of sample_data "\<lambda>_. 2000" "[''nowhere'']" lost_request "NewLab sample_app" "fst lost" "snd lost"]
    lost_fresh by (simp add: lost_def)

theorem refusals_audited_witness:
  "\<exists>now now' seq. \<exists>category \<in> set rejections. Recent (ap_audit (lb_app (snd lost))) \<noteq> []
    \<and> last (Recent (ap_audit (lb_app (snd lost)))) = Access.completed now now' seq (rejection_event category)"
  using refusals_audited [of sample_data "\<lambda>_. 2000" "[''nowhere'']" lost_request "NewLab sample_app" "fst lost" "snd lost"]
    lost_fresh lost_status sample_reports app_reach_inv [OF sample_reach] by (simp add: lost_def)

end
