(* ===== verification/Serve_Props.thy ===== *)
theory Serve_Props
  imports Serve Mcp_Props Dataplane_Props Import_Props
begin

text \<open>
  The process as a whole: the two front ends behind one listener, the data plane behind the other, and any
  interleaving of their requests between the start and the end of \<^verbatim>\<open>labsso serve\<close>.
\<close>

section \<open>Preservation through the layers\<close>

text \<open>What every operation of the application keeps, every request of a front end keeps.\<close>

lemma handled_keeps:
  assumes "app_laws P (\<lambda>_. P)"
  shows "handled T cid actor a failed a' \<Longrightarrow> P a \<Longrightarrow> P a'"
proof (induction rule: handled.induct)
  case (rejected a clk e)
  then show ?case using app_laws.emit_error_P [OF assms, of a] by (simp add: RejectInput_def recordRejected_def)
next
  case (performed Y clk x a err a' failed)
  then show ?case using app_laws.app_exec_Q [OF assms, of a Y clk x] by simp
next
  case (looked_up clk sid a failed a')
  then show ?case using app_laws.app_exec_Q [OF assms, of a undefined clk "MLookupSession sid"] by simp
qed

context control_plane
begin

lemma keeps:
  assumes "app_laws P (\<lambda>_. P)" "serve rq a = (resp, a')" "P a"
  shows "P a'"
proof -
  have d: "P a1" if "dropped T a a1" for T a1
    using that assms(3) app_laws.P_del [OF assms(1), of a] by (auto simp: dropped_def opStore_Delete_def)
  show ?thesis using assms(2)
  proof (cases rule: step_cases)
    case 1
    then show ?thesis using assms(3) by simp
  next
    case (2 a1 clk e)
    then show ?thesis using app_laws.P_emit [OF assms(1) d [OF 2(1)]] by (simp add: deny_anonymous_def EmitDenied_def)
  next
    case (3 a1 actor cid)
    then show ?thesis using handled_keeps [OF assms(1) 3(4)] d by blast
  qed
qed

end

section \<open>The management listener\<close>

definition mgmt_failed :: "mgmt_response \<Rightarrow> bool" where
  "mgmt_failed r = (case r of GText _ _ \<Rightarrow> True | GRest x \<Rightarrow> rest_failed x | GMcp x \<Rightarrow> mcp_failed x)"

definition mgmt_admits :: "mounted \<Rightarrow> frontend \<Rightarrow> mgmt_request \<Rightarrow> app \<Rightarrow> actor \<Rightarrow> bool" where
  "mgmt_admits m F rq a actor \<longleftrightarrow> rr_SameOrigin (mg_rest rq)
     \<and> (if to_mcp m rq then mcp_admits (mn_legacy m) F (mg_mcp rq) a actor else rest_admits F (mg_rest rq) a actor)"

definition mgmt_asks :: "mounted \<Rightarrow> mgmt_request \<Rightarrow> string option" where
  "mgmt_asks m rq = (if to_mcp m rq then mcp_asks (mg_mcp rq) else rest_asks (mn_rest m) (mg_rest rq))"

definition mgmt_times :: "mounted \<Rightarrow> mgmt_request \<Rightarrow> go_time set" where
  "mgmt_times m rq = (if to_mcp m rq then mcp_times (mg_mcp rq) else rest_times (mg_rest rq))"

lemma mgmt_control_plane: "control_plane (mgmt_serve m F) mgmt_failed (mgmt_admits m F) (mgmt_asks m) (mgmt_times m)"
proof
  fix rq a resp a'
  assume *: "mgmt_serve m F rq a = (resp, a')"
  consider "a' = a" | r where "rr_SameOrigin (mg_rest rq)" "to_mcp m rq" "mcp_serve (mn_legacy m) F (mg_mcp rq) a = (r, a')" "resp = GMcp r"
    | r where "rr_SameOrigin (mg_rest rq)" "\<not> to_mcp m rq" "rest_serve (mn_rest m) F (mg_rest rq) a = (r, a')" "resp = GRest r"
    using * by (auto simp: mgmt_serve_def Let_def split: if_splits prod.splits)
  then show "a' = a \<or> (\<exists>a1. dropped (mgmt_times m rq) a a1 \<and> ((mgmt_failed resp \<and> (\<exists>clk e. a' = deny_anonymous clk e a1))
      \<or> (\<exists>actor cid. mgmt_admits m F rq a actor \<and> mgmt_asks m rq = Some cid
           \<and> handled (mgmt_times m rq) cid actor a1 (mgmt_failed resp) a')))"
  proof cases
    case (2 r)
    then show ?thesis using mcp.step [OF 2(3)] by (simp add: mgmt_failed_def mgmt_admits_def mgmt_asks_def mgmt_times_def)
  next
    case (3 r)
    then show ?thesis using rest.step [OF 3(3)] by (simp add: mgmt_failed_def mgmt_admits_def mgmt_asks_def mgmt_times_def)
  qed simp
qed

interpretation mgmt: control_plane "mgmt_serve m F" mgmt_failed "mgmt_admits m F" "mgmt_asks m" "mgmt_times m" for m F
  by (rule mgmt_control_plane)

section \<open>What stays while the process serves\<close>

lemma install_flags [simp]:
  "ap_requireHTTPS (snd (install_candidate Y clk actor capID inp fp cand a)) = ap_requireHTTPS a"
  "ap_httpsBound (snd (install_candidate Y clk actor capID inp fp cand a)) = ap_httpsBound a"
  "ap_requireHTTPS (snd (reset_install Y clk actor inr fp nxt p a)) = ap_requireHTTPS a"
  "ap_httpsBound (snd (reset_install Y clk actor inr fp nxt p a)) = ap_httpsBound a"
  by (simp_all add: install_candidate_def reset_install_def emit_ok_def set_rt_def Let_def case_prod_unfold)

interpretation https: app_laws "\<lambda>a. (ap_requireHTTPS a, ap_httpsBound a) = v" "\<lambda>_ a. (ap_requireHTTPS a, ap_httpsBound a) = v" for v
  by unfold_locales auto

text \<open>The settings of the listeners that the running servers have been started with.\<close>

definition live_listeners :: "document \<Rightarrow> string \<times> string \<times> string \<times> string \<times> bool" where
  "live_listeners d = (let l = sp_Listeners (dc_Spec d); m = ls_Management l in
     (hl_Address (ls_HTTPS l), ml_Address m, ml_RESTPath m, ml_MCPPath m, ml_AllowLegacyClients m))"

definition listening_as :: "string \<times> string \<times> string \<times> string \<times> bool \<Rightarrow> app \<Rightarrow> bool" where
  "listening_as L a \<longleftrightarrow> ap_requireHTTPS a \<and> map_option live_listeners (canonical_of (Load (ap_store a))) = Some L"

lemma same_listeners:
  assumes "validateLiveListeners True (Some p) (Some n) = None" "sn_Canonical p = Some b" "sn_Canonical n = Some d"
  shows "live_listeners d = live_listeners b"
  using assms by (simp add: validateLiveListeners_def canonical_of_def live_listeners_def check_def Let_def split: if_splits)

lemma Compile_canonical: "Compile K now g boot doc = Inr s \<Longrightarrow> sn_Canonical s = Some (Normalize doc)"
  using Compile_sound [of K now g boot doc s] by (simp add: compiled_from_def Let_def)

lemma install_listening:
  assumes "listening_as L a" "buildCandidate Y clk inp True a = Inr cand"
  shows "listening_as L (snd (install_candidate Y clk actor capID inp fp cand a))"
proof -
  obtain p doc base where p: "Load (ap_store a) = Some p" "sn_Canonical p = Some doc"
    and c: "Compile (sy_comp Y) (clk 4) (sn_Generation p + 1) (sn_BootstrapRevision p) base = Inr cand"
    and v: "validateLiveListeners (ap_requireHTTPS a) (Some p) (Some cand) = None"
    using assms(2) by (rule buildCandidate_compiled)
  from v same_listeners [OF _ p(2) Compile_canonical [OF c]] assms(1) p show ?thesis
    by (simp add: listening_as_def install_fields Load_Swap canonical_of_def Compile_canonical [OF c])
qed

lemma reset_listening:
  assumes "listening_as L a" "Load (ap_store a) = Some s" "loadBootstrap Y clk (sn_Generation s + 1) a = Inr nxt"
    and "validateLiveListeners (ap_requireHTTPS a) (Some s) (Some nxt) = None"
  shows "listening_as L (snd (reset_install Y clk actor inp fp nxt p a))"
proof -
  obtain boot doc where c: "Compile (sy_comp Y) (clk 4) (sn_Generation s + 1) boot doc = Inr nxt"
    using loadBootstrap_compiled [OF assms(3)] by blast
  obtain b where b: "sn_Canonical s = Some b" "live_listeners b = L"
    using assms(1,2) by (auto simp: listening_as_def canonical_of_def)
  have "Load (ap_store (snd (reset_install Y clk actor inp fp nxt p a))) = Some nxt"
    by (simp add: reset_fields SetBootstrap_def Load_def)
  with same_listeners [OF _ b(1) Compile_canonical [OF c]] assms(1,4) b show ?thesis
    by (simp add: listening_as_def canonical_of_def Compile_canonical [OF c])
qed

lemma listening_simps [simp]:
  "listening_as L (a\<lparr>ap_audit := r\<rparr>) = listening_as L a" "listening_as L (a\<lparr>ap_idemp := c\<rparr>) = listening_as L a"
  "listening_as L (a\<lparr>ap_oidc := p\<rparr>) = listening_as L a" "listening_as L (a\<lparr>ap_opsess := m\<rparr>) = listening_as L a"
  "listening_as L (set_rt rt a) = listening_as L a"
  by (simp_all add: listening_as_def)

interpretation pinned: app_laws "listening_as L" "\<lambda>_. listening_as L" for L
  by unfold_locales (simp_all add: install_listening reset_listening)

section \<open>Arrivals\<close>

lemma proc_app_simps [simp]:
  "proc_app (on_app f q) = f (proc_app q)" "proc_app (q\<lparr>pr_open := xs\<rparr>) = proc_app q" "proc_app (q\<lparr>pr_out := ys\<rparr>) = proc_app q"
  "proc_app (q\<lparr>pr_lab := b\<rparr>) = lb_app b"
  "pr_open (on_app f q) = pr_open q" "pr_out (on_app f q) = pr_out q"
  by (simp_all add: proc_app_def on_app_def)

lemma arrive_open [simp]: "pr_open (arrive H m x q) = pr_open q"
  by (cases x) (auto split: option.split)

lemma arrive_cases:
  obtains "proc_app (arrive H m x q) = proc_app q"
  | rq mn resp where "x = Managed rq" "m = Some mn"
      "mgmt_serve mn (ho_front H) rq (proc_app q) = (resp, proc_app (arrive H m x q))"
  | segs rq clk resp where "x = Public segs rq clk"
      "serve_data (ho_data H) clk segs rq (pr_lab q) = (resp, pr_lab (arrive H m x q))"
proof (cases x)
  case (Managed rq)
  show ?thesis
  proof (cases m)
    case None
    then show ?thesis using that(1) Managed by simp
  next
    case (Some mn)
    show ?thesis by (rule that(2) [OF Managed Some, of "fst (mgmt_serve mn (ho_front H) rq (proc_app q))"]) (simp add: Managed Some)
  qed
next
  case (Public segs rq clk)
  show ?thesis by (rule that(3) [OF Public, of "fst (serve_data (ho_data H) clk segs rq (pr_lab q))"]) (simp add: Public)
qed

lemma arrive_keeps:
  assumes "app_laws P (\<lambda>_. P)" "P (proc_app q)"
    and "\<And>a p r. P a \<Longrightarrow> P (a\<lparr>ap_oidc := p, ap_audit := r\<rparr>)"
  shows "P (proc_app (arrive H m x q))"
proof (cases rule: arrive_cases [of H m x q])
  case 1
  then show ?thesis using assms(2) by simp
next
  case (2 rq mn resp)
  then show ?thesis using mgmt.keeps [OF assms(1) 2(3) assms(2)] by simp
next
  case (3 segs rq clk resp)
  have "proc_app (arrive H m x q) = (proc_app q)\<lparr>ap_oidc := ap_oidc (proc_app (arrive H m x q)), ap_audit := ap_audit (proc_app (arrive H m x q))\<rparr>"
    using serve_data_frame [OF 3(2)] by (simp add: proc_app_def)
  then show ?thesis using assms(3) [OF assms(2)] by metis
qed

lemma arrivals_keep:
  assumes "app_laws P (\<lambda>_. P)" "\<And>a p r. P a \<Longrightarrow> P (a\<lparr>ap_oidc := p, ap_audit := r\<rparr>)"
  shows "P (proc_app q) \<Longrightarrow> P (proc_app (fold (arrive H m) xs q))"
  by (induction xs arbitrary: q) (simp_all add: arrive_keeps [OF assms(1) _ assms(2)])

lemma arrivals_https: "(ap_requireHTTPS (proc_app q), ap_httpsBound (proc_app q)) = v \<Longrightarrow>
   (ap_requireHTTPS (proc_app (fold (arrive H m) xs q)), ap_httpsBound (proc_app (fold (arrive H m) xs q))) = v"
  by (rule arrivals_keep [OF https.app_laws_axioms]) simp_all

lemma arrivals_pinned: "listening_as L (proc_app q) \<Longrightarrow> listening_as L (proc_app (fold (arrive H m) xs q))"
  by (rule arrivals_keep [OF pinned.app_laws_axioms]) simp_all

lemma arrivals_open [simp]: "pr_open (fold (arrive H m) xs q) = pr_open q"
  by (induction xs arbitrary: q) simp_all

section \<open>Starting and ending\<close>

lemma announce_simps [simp]:
  "pr_open (announce rt snap q) = pr_open q"
  "pr_out (announce rt snap q) = pr_out q
     @ [(''labsso serve https=%s management=%s issuer=%s'', [sr_HTTPSAddr rt, sr_MgmtAddr rt, sn_Issuer snap])]"
  "proc_app (announce rt snap q) = (proc_app q)\<lparr>ap_requireHTTPS := True, ap_httpsBound := True\<rparr>"
  by (simp_all add: announce_def SetHTTPSBound_def SetRequireHTTPS_def)

lemma listener_simps [simp]:
  "pr_open (opened l addr q) = pr_open q @ [(l, addr)]" "pr_open (closed l q) = filter (\<lambda>x. fst x \<noteq> l) (pr_open q)"
  "proc_app (opened l addr q) = proc_app q" "proc_app (closed l q) = proc_app q"
  "pr_out (opened l addr q) = pr_out q" "pr_out (closed l q) = pr_out q"
  by (simp_all add: opened_def closed_def)

lemma close_https_simps [simp]:
  "pr_open (close_https q) = filter (\<lambda>x. fst x \<noteq> HTTPSListener) (pr_open q)"
  "proc_app (close_https q) = (proc_app q)\<lparr>ap_httpsBound := False\<rparr>" "pr_out (close_https q) = pr_out q"
  by (simp_all add: close_https_def SetHTTPSBound_def)

lemma release_simps [simp]:
  "pr_open (release m q) = filter (\<lambda>x. fst x \<noteq> HTTPSListener \<and> (m = None \<or> fst x \<noteq> MgmtListener)) (pr_open q)"
  "proc_app (release m q) = (proc_app q)\<lparr>ap_httpsBound := False\<rparr>" "pr_out (release m q) = pr_out q"
  by (auto simp: release_def shut_down_def SetHTTPSBound_def intro: filter_cong)

text \<open>The listeners of a successful start.\<close>

definition listeners_of :: "serve_runtime \<Rightarrow> (listener \<times> string) list" where
  "listeners_of rt = (HTTPSListener, sr_HTTPSAddr rt) # (if sr_MgmtAddr rt = ''off'' then [] else [(MgmtListener, sr_MgmtAddr rt)])"

text \<open>How a start can end.\<close>

lemma serve_start_cases:
  assumes "serve_start H rt q0 = (r, q)"
  obtains e where "r = Refused e" "Load (ap_store (proc_app q0)) = None" "q = q0"
  | "\<forall>m. r \<noteq> Started m" "Load (ap_store (proc_app q0)) \<noteq> None" "set (pr_open q) \<subseteq> set (pr_open q0)"
      "proc_app q = (proc_app q0)\<lparr>ap_requireHTTPS := True, ap_httpsBound := False\<rparr>"
  | snap where "Load (ap_store (proc_app q0)) = Some snap" "sr_MgmtAddr rt = ''off'' \<or> sn_Canonical snap \<noteq> None"
      "r = Started (map_option mount (if sr_MgmtAddr rt = ''off'' then None else sn_Canonical snap))"
      "pr_open q = pr_open q0 @ listeners_of rt"
      "pr_out q = pr_out q0 @ [(''labsso serve https=%s management=%s issuer=%s'', [sr_HTTPSAddr rt, sr_MgmtAddr rt, sn_Issuer snap])]"
      "proc_app q = (proc_app q0)\<lparr>ap_requireHTTPS := True, ap_httpsBound := True\<rparr>"
proof (cases "Load (ap_store (proc_app q0))")
  case None
  then have "r = Refused (Errorf ''no snapshot'' [])" "q = q0" using assms by (simp_all add: serve_start_def Let_def)
  then show ?thesis by (intro that(1) [OF _ None])
next
  case (Some snap)
  have "(\<forall>m. r \<noteq> Started m) \<and> set (pr_open q) \<subseteq> set (pr_open q0)
        \<and> proc_app q = (proc_app q0)\<lparr>ap_requireHTTPS := True, ap_httpsBound := False\<rparr>
    \<or> (sr_MgmtAddr rt = ''off'' \<or> sn_Canonical snap \<noteq> None)
        \<and> r = Started (map_option mount (if sr_MgmtAddr rt = ''off'' then None else sn_Canonical snap))
        \<and> pr_open q = pr_open q0 @ listeners_of rt
        \<and> pr_out q = pr_out q0 @ [(''labsso serve https=%s management=%s issuer=%s'', [sr_HTTPSAddr rt, sr_MgmtAddr rt, sn_Issuer snap])]
        \<and> proc_app q = (proc_app q0)\<lparr>ap_requireHTTPS := True, ap_httpsBound := True\<rparr>"
    using assms Some unfolding serve_start_def Let_def
    by (auto simp: SetHTTPSBound_def SetRequireHTTPS_def listeners_of_def NewMcp_def split: option.splits if_splits)
  then show ?thesis
  proof (elim disjE conjE)
    assume "\<forall>m. r \<noteq> Started m" "set (pr_open q) \<subseteq> set (pr_open q0)"
      "proc_app q = (proc_app q0)\<lparr>ap_requireHTTPS := True, ap_httpsBound := False\<rparr>"
    then show thesis using Some by (intro that(2)) simp_all
  qed (rule that(3) [OF Some]; blast)+
qed

section \<open>Properties\<close>

text \<open>
  C15. What the listeners were started with cannot change under them. Whatever requests arrive after a
  successful start, in whatever order, the process stays ready, its listeners stay open, and the
  document of the active snapshot names the addresses, the paths and the policy for old clients with which the process was
  started; so the routes that are mounted are at any time those of the active configuration.
\<close>

theorem serving_pinned:
  assumes "serve_start H rt q0 = (Started m, q1)" "app_inv (proc_app q0)" "q = fold (arrive H m) xs q1"
  shows "snd (HealthReady (proc_app q)) \<and> pr_open q = pr_open q1
    \<and> (\<exists>d0 d. canonical_of (Load (ap_store (proc_app q0))) = Some d0 \<and> canonical_of (Load (ap_store (proc_app q))) = Some d
        \<and> live_listeners d = live_listeners d0 \<and> m \<in> {None, Some (mount d)})"
proof -
  obtain snap where s: "Load (ap_store (proc_app q0)) = Some snap" "m = map_option mount (if sr_MgmtAddr rt = ''off'' then None else sn_Canonical snap)"
    "proc_app q1 = (proc_app q0)\<lparr>ap_requireHTTPS := True, ap_httpsBound := True\<rparr>"
    by (rule serve_start_cases [OF assms(1)]) auto
  obtain d0 where d0: "sn_Canonical snap = Some d0" using assms(2) s(1) by (auto simp: app_inv_def compiled_from_def Let_def)
  have "listening_as (live_listeners d0) (proc_app q1)" by (simp add: listening_as_def s d0 canonical_of_def)
  then have l: "listening_as (live_listeners d0) (proc_app q)" using arrivals_pinned by (simp add: assms(3))
  then obtain d where d: "canonical_of (Load (ap_store (proc_app q))) = Some d" "live_listeners d = live_listeners d0"
    by (auto simp: listening_as_def)
  have "ap_httpsBound (proc_app q)" using arrivals_https [of q1 "(True, True)" H m xs] by (simp add: s assms(3))
  then have "snd (HealthReady (proc_app q))" using d(1) by (auto simp: HealthReady_def canonical_of_def split: option.splits)
  moreover have "mount d = mount d0" using d(2) by (simp add: mount_def live_listeners_def Let_def)
  ultimately show ?thesis using d d0 s by (auto simp: canonical_of_def assms(3))
qed

text \<open>
  What only an operator may change: the store, the enrolled second factors and the tunables, other than that an injected error
  is spent, the remembered results, and the operator sessions that have not expired at any time of \<open>T\<close>.
\<close>

definition controlled :: "go_time set \<Rightarrow> app \<Rightarrow> app \<Rightarrow> bool" where
  "controlled T a a' \<longleftrightarrow> ap_store a' \<noteq> ap_store a \<or> operator_fields (app_rt a') \<noteq> operator_fields (app_rt a)
     \<or> \<not> inject_spent (app_rt a) (app_rt a') \<or> ap_idemp a' \<noteq> ap_idemp a \<or> \<not> sessions_within a' a \<or> \<not> live_kept T a a'"

text \<open>The times that an arriving request reads while it decides about operator sessions.\<close>

definition arrival_times :: "mounted option \<Rightarrow> arrival \<Rightarrow> go_time set" where
  "arrival_times m x = (case (m, x) of (Some mn, Managed rq) \<Rightarrow> mgmt_times mn rq | _ \<Rightarrow> {})"

text \<open>The random bytes of a request to the data plane are complete.\<close>

fun supplied :: "arrival \<Rightarrow> bool" where
  "supplied (Managed rq) = True"
| "supplied (Public segs rq clk) = fresh_ids rq"

lemma arrive_inv:
  assumes "app_inv (proc_app q)" "supplied x"
  shows "app_inv (proc_app (arrive H m x q)) \<and> generation_of (proc_app q) \<le> generation_of (proc_app (arrive H m x q))"
proof (cases rule: arrive_cases [of H m x q])
  case (2 rq mn resp)
  then show ?thesis using mgmt.keeps_inv [OF 2(3) assms(1)] by simp
next
  case (3 segs rq clk resp)
  then show ?thesis using serve_data_inv [OF 3(2)] assms by (simp add: proc_app_def generation_of_def)
qed (simp add: assms(1))

lemma arrivals_inv:
  "app_inv (proc_app q) \<Longrightarrow> list_all supplied xs \<Longrightarrow>
     app_inv (proc_app (fold (arrive H m) xs q)) \<and> generation_of (proc_app q) \<le> generation_of (proc_app (fold (arrive H m) xs q))"
proof (induction xs arbitrary: q)
  case (Cons x xs)
  then have "app_inv (proc_app (arrive H m x q)) \<and> generation_of (proc_app q) \<le> generation_of (proc_app (arrive H m x q))"
    using arrive_inv [of q x H m] by simp
  then show ?case using Cons.IH [of "arrive H m x q"] Cons.prems(2) by (auto intro: order_trans)
qed simp

lemma frame_fields:
  "a' = a\<lparr>ap_oidc := p, ap_audit := r\<rparr> \<Longrightarrow> ap_store a' = ap_store a \<and> ap_idemp a' = ap_idemp a \<and> ap_opsess a' = ap_opsess a"
  by simp

lemma arrive_controlled:
  assumes "supplied x" "controlled (arrival_times m x) (proc_app q) (proc_app (arrive H m x q))"
  shows "\<exists>rq mn actor. x = Managed rq \<and> m = Some mn \<and> mgmt_admits mn (ho_front H) rq (proc_app q) actor"
proof (cases rule: arrive_cases [of H m x q])
  case 1
  then show ?thesis using assms(2) by (simp add: controlled_def inject_spent_def)
next
  case (2 rq mn resp)
  then have "changed (mgmt_times mn rq) (proc_app q) (proc_app (arrive H m x q))" using assms(2)
    by (auto simp: controlled_def changed_def arrival_times_def inject_spent_def)
  then show ?thesis using mgmt.changes_admitted [OF 2(3)] 2(1,2) by blast
next
  case (3 segs rq clk resp)
  let ?a = "proc_app q" and ?b = "proc_app (arrive H m x q)"
  have "ap_store ?b = ap_store ?a \<and> ap_idemp ?b = ap_idemp ?a \<and> ap_opsess ?b = ap_opsess ?a"
    using frame_fields [OF serve_data_frame [OF 3(2)]] by (simp add: proc_app_def)
  moreover have "operator_fields (app_rt ?b) = operator_fields (app_rt ?a)"
    using protocol_run_fields [OF serve_data_run [OF 3(2)]] assms(1) 3(1) by (simp add: proc_app_def)
  moreover have "inject_spent (app_rt ?a) (app_rt ?b)"
    using protocol_run_spends [OF serve_data_run [OF 3(2)]] assms(1) 3(1) by (simp add: proc_app_def)
  ultimately show ?thesis using assms(2) by (simp add: controlled_def sessions_within_def live_kept_same)
qed

text \<open>
  C14. The process is safe under every interleaving. Between any requests to its two listeners the application
  satisfies its invariant and the generation of the active snapshot has not decreased; and the next request
  changes the configuration, the tunables of the operators, the enrolled second factors or the remembered
  results, adds an operator session or removes one that had not expired when it read the clock, only when it
  came to the management listener and was admitted there with the credentials that its front end asks for. No
  request to the data plane ever does; of the tunables it can only spend an error that an operator has injected,
  which clears it.
\<close>

theorem serving_safe:
  assumes "serve_start H rt q0 = (Started m, q1)" "app_inv (proc_app q0)" "list_all supplied (xs @ [x])"
    and "q = fold (arrive H m) xs q1"
  shows "app_inv (proc_app q) \<and> generation_of (proc_app q0) \<le> generation_of (proc_app q)
    \<and> (controlled (arrival_times m x) (proc_app q) (proc_app (arrive H m x q)) \<longrightarrow>
        (\<exists>rq mn actor. x = Managed rq \<and> m = Some mn \<and> mgmt_admits mn (ho_front H) rq (proc_app q) actor))"
proof -
  have "proc_app q1 = (proc_app q0)\<lparr>ap_requireHTTPS := True, ap_httpsBound := True\<rparr>"
    by (rule serve_start_cases [OF assms(1)]) auto
  then have "app_inv (proc_app q1)" "generation_of (proc_app q1) = generation_of (proc_app q0)"
    using assms(2) by (simp_all add: app_inv_def app_rt_def generation_of_def)
  then show ?thesis using arrivals_inv [of q1 xs H m] arrive_controlled [where x = x and q = q and H = H and m = m] assms(3,4) by simp
qed

text \<open>
  C31. However \<^verbatim>\<open>runServe\<close> ends, whether the start was refused or broke down at any point, the servers were interrupted
  or one of them failed, every listener that was opened has been closed again, and the process is not ready. A start
  that was refused or broke down has served no request: but for the two marks of the HTTPS listener the application
  is as it was.
\<close>

theorem serve_releases:
  assumes "runServe H rt xs en q0 = (res, q)" "pr_open q0 = []"
  shows "pr_open q = [] \<and> (Load (ap_store (proc_app q0)) \<noteq> None \<longrightarrow> \<not> snd (HealthReady (proc_app q)))
    \<and> ((\<forall>m. fst (serve_start H rt q0) \<noteq> Started m) \<longrightarrow>
        (\<exists>v w. proc_app q = (proc_app q0)\<lparr>ap_requireHTTPS := v, ap_httpsBound := w\<rparr>))"
proof -
  obtain r q1 where s: "serve_start H rt q0 = (r, q1)" by fastforce
  show ?thesis
  proof (cases rule: serve_start_cases [OF s])
    case (1 e)
    then have "q = q0" using assms(1) s by (simp add: runServe_def)
    moreover have "proc_app q0 = (proc_app q0)\<lparr>ap_requireHTTPS := ap_requireHTTPS (proc_app q0), ap_httpsBound := ap_httpsBound (proc_app q0)\<rparr>"
      by simp
    ultimately show ?thesis using 1(2) assms(2) by metis
  next
    case 2
    then have "q = q1" using assms(1) s by (cases r) (auto simp: runServe_def)
    then show ?thesis using 2 assms(2) by (auto simp: HealthReady_def)
  next
    case (3 snap)
    let ?m = "map_option mount (if sr_MgmtAddr rt = ''off'' then None else sn_Canonical snap)"
    have q: "q = release ?m (fold (arrive H ?m) xs q1)" using assms(1) s 3(3) by (simp add: runServe_def)
    have "pr_open q = []" using 3(2,4) assms(2) by (auto simp: q listeners_of_def)
    moreover have "ap_requireHTTPS (proc_app q)" unfolding q using arrivals_https [of q1 "(True, True)"] 3(6) by simp
    ultimately show ?thesis using s 3(3) q by (simp add: HealthReady_def)
  qed
qed

section \<open>Commands\<close>

lemma Compile_generation: "Compile K now 0 boot doc = Compile K now 1 boot doc"
  by (simp add: Compile_def compile_def)

lemma RevisionOf_Normalize: "RevisionOf K (Normalize d) = RevisionOf K d"
  using normalize_idempotent [of d] by (simp add: RevisionOf_def)

lemma Compile_revision: "Compile K now g boot doc = Inr s \<Longrightarrow> RevisionOf K doc = Inr (sn_Revision s)"
  unfolding Compile_compile by (erule compile_parts) (simp add: RevisionOf_Normalize)

text \<open>
  C33. \<^verbatim>\<open>labsso validate\<close> says what \<^verbatim>\<open>labsso serve\<close> will do with the same file in the same directory: it reports the
  very error with which the installation of the bootstrap snapshot fails and with which \<^verbatim>\<open>serve\<close> then exits, or it
  exits with 0 and prints the revision of the snapshot that is installed.
\<close>

theorem validate_predicts_serve:
  assumes "path \<noteq> []" "boot = InstallBootstrapFile (fe_system (ho_front (in_dir base H))) clk (NewApp NewStore path)"
    and "sf_Config f = path" "base = (if sf_BaseDir f = [] then mustCwd H else sf_BaseDir f)" "sf_HTTPSListen f \<noteq> ''off''"
  shows "case fst boot of
       Inl e \<Rightarrow> validateCmd H (clk 4) (Some (path, base)) = fails 1 (Wrapf ''labsso validate: %v'' [] e)
         \<and> fst (serveCmd H clk (Some f) xs en) = fails 1 (Wrapf ''labsso serve: bootstrap: %v'' [] e)
     | Inr s \<Rightarrow> validateCmd H (clk 4) (Some (path, base)) = done_with [(''ok revision=%s'', [sn_Revision s])]
         \<and> Load (ap_store (snd boot)) = Some s"
proof (cases "fst boot")
  case (Inl e)
  have "InstallBootstrapFile (fe_system (ho_front (in_dir base H))) clk (NewApp NewStore path) = (Inl e, snd boot)"
    using Inl assms(2) by (metis prod.collapse)
  then have "fst (serveCmd H clk (Some f) xs en) = fails 1 (Wrapf ''labsso serve: bootstrap: %v'' [] e)"
    using assms(1,3,4,5) by (simp add: serveCmd_def Let_def NewProcess_def proc_app_def NewLab_def)
  moreover have "validateCmd H (clk 4) (Some (path, base)) = fails 1 (Wrapf ''labsso validate: %v'' [] e)"
    using Inl assms(1,2)
    by (auto simp: validateCmd_def command_comp_def InstallBootstrapFile_def NewApp_def Compile_generation Let_def split: sum.splits)
  ultimately show ?thesis using Inl by simp
next
  case (Inr s)
  obtain doc where "LoadFile (command_comp H base) path = Inr doc" and c: "Compile (command_comp H base) (clk 4) 1 [] doc = Inr s"
    and st: "ap_store (snd boot) = snd (InstallBootstrap (Some s) NewStore)"
    using Inr assms(2) by (auto simp: command_comp_def InstallBootstrapFile_def NewApp_def split: sum.splits)
  then have "validateCmd H (clk 4) (Some (path, base)) = done_with [(''ok revision=%s'', [sn_Revision s])]"
    using assms(1) Compile_revision [OF c] by (simp add: validateCmd_def Compile_generation Let_def)
  then show ?thesis using Inr st by (simp add: InstallBootstrap_def Load_def SetBootstrap_def)
qed

section \<open>Coming up\<close>

lemma listen_off: "ValidateListenAddress N ''off'' b \<noteq> None"
proof -
  have "SplitHostPort ''off'' = None" by code_simp
  then show ?thesis by (simp add: ValidateListenAddress_def)
qed

lemma load_refs_pair: "load_refs K d = Inr ld \<Longrightarrow> cm_keyPair K (ld_TLSCert ld) (ld_TLSKey ld)"
  by (auto simp: load_refs_def bindE_def guardE_def Let_def split: if_splits option.splits sum.splits)

text \<open>What the compiler has checked of the listeners.\<close>

lemma compiled_listeners:
  assumes "Compile K now g boot doc = Inr s"
  obtains d where "sn_Canonical s = Some d" "cm_keyPair K (sn_TLSCert s) (sn_TLSKey s)"
    "hl_Address (ls_HTTPS (sp_Listeners (dc_Spec d))) \<noteq> []" "ml_Address (ls_Management (sp_Listeners (dc_Spec d))) \<noteq> []"
    "ValidateListenAddress (cm_net K) (hl_Address (ls_HTTPS (sp_Listeners (dc_Spec d)))) False = None"
    "ValidateListenAddress (cm_net K) (ml_Address (ls_Management (sp_Listeners (dc_Spec d)))) True = None"
    "ml_MCPPath (ls_Management (sp_Listeners (dc_Spec d))) \<noteq> []"
    "ValidateManagementPaths (ml_RESTPath (ls_Management (sp_Listeners (dc_Spec d)))) (ml_MCPPath (ls_Management (sp_Listeners (dc_Spec d)))) = None"
proof (rule compile_parts [OF assms [unfolded Compile_compile]])
  fix clothes ld r labCert km um
  let ?d = "Normalize doc" let ?l = "sp_Listeners (dc_Spec ?d)"
  assume v: "ValidateIDs (cm_net K) ?d = None" and l: "load_refs K ?d = Inr ld"
    and s: "s = \<lparr>sn_passwords = um_passwords um, sn_totpSeeds = um_seeds um, sn_Canonical = Some ?d,
       sn_Revision = r, sn_BootstrapRevision = (if boot = [] then r else boot),
       sn_Generation = (if g = 0 then 1 else g), sn_CompiledAt = now,
       sn_Issuer = sp_Issuer (dc_Spec ?d), sn_TLSCert = ld_TLSCert ld, sn_TLSKey = ld_TLSKey ld,
       sn_SigningKey = ld_Signing ld, sn_SigningCert = labCert, sn_AccessToken = ld_Token ld,
       sn_ClientSecrets = km_Secrets km, sn_ClientsByID = km_ByID km,
       sn_ClientsByClientID = km_ByClientID km, sn_ClientsBySAMLEntity = km_BySAML km,
       sn_UsersByID = um_ByID um, sn_GroupsByID = gmap_of (map (\<lambda>g. (gr_ID g, g)) (sp_Groups (dc_Spec ?d))),
       sn_Clothes = clothes\<rparr>"
  have ne: "hl_Address (ls_HTTPS ?l) \<noteq> []" "ml_Address (ls_Management ?l) \<noteq> []" "ml_RESTPath (ls_Management ?l) \<noteq> []"
    "ml_MCPPath (ls_Management ?l) \<noteq> []" using normalize_idempotent [of doc] by (simp_all add: Let_def)
  have "header_ok (cm_net K) ?d" using v by (simp add: ValidateIDs_iff well_formed_def Let_def)
  then have "ValidateListenAddress (cm_net K) (hl_Address (ls_HTTPS ?l)) False = None"
    "ValidateListenAddress (cm_net K) (ml_Address (ls_Management ?l)) True = None"
    "ValidateManagementPaths (ml_RESTPath (ls_Management ?l)) (ml_MCPPath (ls_Management ?l)) = None"
    using ne by (simp_all add: header_ok_def Let_def)
  then show thesis using that [of ?d] load_refs_pair [OF l] ne s by simp
qed

text \<open>The line that announces the process.\<close>

definition announcement :: "snapshot \<Rightarrow> document \<Rightarrow> string \<times> string list" where
  "announcement s d = (''labsso serve https=%s management=%s issuer=%s'',
     [hl_Address (ls_HTTPS (sp_Listeners (dc_Spec d))), ml_Address (ls_Management (sp_Listeners (dc_Spec d))), sn_Issuer s])"

lemma arrivals_out [simp]: "pr_out (fold (arrive H m) xs q) = pr_out q"
proof (induction xs arbitrary: q)
  case (Cons x xs)
  have "pr_out (arrive H m x q) = pr_out q" by (cases x) (auto split: option.split)
  with Cons show ?case by simp
qed simp

lemma start_up:
  assumes "Compile (sy_comp (fe_system (ho_front H))) now g boot doc = Inr s" "Load (ap_store (proc_app q0)) = Some s"
    and "0 < sf_Shutdown f" "sf_HTTPSListen f = []" "sf_MgmtListen f = []" "\<forall>i addr. ho_listen H i addr = None"
  obtains d q1 where "sn_Canonical s = Some d"
    "validateRuntime (cm_net (sy_comp (fe_system (ho_front H)))) (serve_addresses f d) = None"
    "serve_start H (serve_addresses f d) q0 = (Started (Some (mount d)), q1)"
    "pr_open q1 = pr_open q0 @ [(HTTPSListener, hl_Address (ls_HTTPS (sp_Listeners (dc_Spec d)))),
       (MgmtListener, ml_Address (ls_Management (sp_Listeners (dc_Spec d))))]"
    "snd (HealthReady (proc_app q1))" "pr_out q1 = pr_out q0 @ [announcement s d]"
proof -
  let ?K = "sy_comp (fe_system (ho_front H))"
  obtain d where d: "sn_Canonical s = Some d" "cm_keyPair ?K (sn_TLSCert s) (sn_TLSKey s)"
    and v: "ValidateListenAddress (cm_net ?K) (hl_Address (ls_HTTPS (sp_Listeners (dc_Spec d)))) False = None"
    "ValidateListenAddress (cm_net ?K) (ml_Address (ls_Management (sp_Listeners (dc_Spec d)))) True = None"
    using compiled_listeners [OF assms(1)] .
  let ?rt = "serve_addresses f d"
  have rt: "sr_HTTPSAddr ?rt = hl_Address (ls_HTTPS (sp_Listeners (dc_Spec d)))"
    "sr_MgmtAddr ?rt = ml_Address (ls_Management (sp_Listeners (dc_Spec d)))" "sr_Shutdown ?rt = sf_Shutdown f"
    by (simp_all add: serve_addresses_def override_def assms(4,5) Let_def)
  have valid: "validateRuntime (cm_net ?K) ?rt = None" using assms(3) by (simp add: validateRuntime_def rt v check_def)
  have off: "sr_MgmtAddr ?rt \<noteq> ''off''" using v(2) listen_off [of "cm_net ?K" True] rt(2) by auto
  obtain q1 where st: "serve_start H ?rt q0 = (Started (Some (mount d)), q1)"
    using assms(2,6) valid off d(1,2) by (simp add: serve_start_def Let_def wrapListenErr_def NewMcp_def)
  have q1: "pr_open q1 = pr_open q0 @ [(HTTPSListener, sr_HTTPSAddr ?rt), (MgmtListener, sr_MgmtAddr ?rt)]"
    "proc_app q1 = (proc_app q0)\<lparr>ap_requireHTTPS := True, ap_httpsBound := True\<rparr>" "pr_out q1 = pr_out q0 @ [announcement s d]"
    by (rule serve_start_cases [OF st]; use off assms(2) rt in \<open>simp add: listeners_of_def announcement_def\<close>)+
  then show thesis using that [OF d(1) valid st] assms(2) rt(1,2) by (simp add: HealthReady_def)
qed

text \<open>
  C32. A configuration that installs comes up: without flags that override its addresses and with a positive
  shutdown timeout, when both addresses can be bound and the PID file, if one is asked for, can be written,
  \<^verbatim>\<open>labsso serve\<close> opens exactly the two addresses of the document, is ready, announces itself with these addresses
  and the issuer, serves until it is interrupted, and then exits with 0, without an error and with that
  announcement as its only output.
\<close>

theorem serve_comes_up:
  assumes "sf_Config f \<noteq> []" "sf_HTTPSListen f = []" "sf_MgmtListen f = []" "0 < sf_Shutdown f"
    and "sf_PidFile f = [] \<or> ho_writePid H0 (sf_PidFile f)"
    and "H = in_dir (if sf_BaseDir f = [] then mustCwd H0 else sf_BaseDir f) H0" "\<forall>i addr. ho_listen H0 i addr = None"
    and "InstallBootstrapFile (fe_system (ho_front H)) clk (NewApp NewStore (sf_Config f)) = (Inr s, a)"
    and "q0 = on_app (\<lambda>_. a) (NewProcess (sf_Config f))"
  shows "\<exists>d q1. sn_Canonical s = Some d \<and> serve_start H (serve_addresses f d) q0 = (Started (Some (mount d)), q1)
    \<and> pr_open q1 = [(HTTPSListener, hl_Address (ls_HTTPS (sp_Listeners (dc_Spec d)))),
         (MgmtListener, ml_Address (ls_Management (sp_Listeners (dc_Spec d))))]
    \<and> snd (HealthReady (proc_app q1)) \<and> pr_out q1 = [announcement s d]
    \<and> fst (serveCmd H0 clk (Some f) xs Interrupted) = done_with [announcement s d]"
proof -
  obtain doc where c: "Compile (sy_comp (fe_system (ho_front H))) (clk 4) 1 [] doc = Inr s"
    and a: "a = (NewApp NewStore (sf_Config f))\<lparr>ap_store := snd (InstallBootstrap (Some s) NewStore)\<rparr>"
    using assms(8) by (auto simp: InstallBootstrapFile_def NewApp_def split: sum.splits)
  have free: "\<forall>i addr. ho_listen H i addr = None" using assms(7) by (simp add: assms(6) in_dir_def)
  have ld: "Load (ap_store (proc_app q0)) = Some s" by (simp add: assms(9) a InstallBootstrap_def Load_def SetBootstrap_def)
  obtain d q1 where d: "sn_Canonical s = Some d"
    and valid: "validateRuntime (cm_net (sy_comp (fe_system (ho_front H)))) (serve_addresses f d) = None"
    and st: "serve_start H (serve_addresses f d) q0 = (Started (Some (mount d)), q1)"
    and q1: "pr_open q1 = pr_open q0 @ [(HTTPSListener, hl_Address (ls_HTTPS (sp_Listeners (dc_Spec d)))),
       (MgmtListener, ml_Address (ls_Management (sp_Listeners (dc_Spec d))))]"
      "snd (HealthReady (proc_app q1))" "pr_out q1 = pr_out q0 @ [announcement s d]"
    using start_up [OF c ld assms(4,2,3) free] .
  have new: "pr_open q0 = []" "pr_out q0 = []" by (simp_all add: assms(9) NewProcess_def)
  have pid: "sf_PidFile f = [] \<or> ho_writePid H (sf_PidFile f)" using assms(5) by (simp add: assms(6) in_dir_def)
  have "proc_app (NewProcess (sf_Config f)) = NewApp NewStore (sf_Config f)" by (simp add: NewProcess_def proc_app_def NewLab_def Let_def)
  moreover have "canonical_of (Load (ap_store a)) = Some d" using ld d by (simp add: assms(9) canonical_of_def)
  ultimately have "fst (serveCmd H0 clk (Some f) xs Interrupted) = done_with [announcement s d]"
    using assms(1,2,8) pid valid st q1(3) new(2) unfolding serveCmd_def option.case Let_def assms(6) [symmetric] assms(9)
    by (auto simp: runServe_def ended_def done_with_def)
  then show ?thesis using d st q1 new by auto
qed

section \<open>Paths of the management listener\<close>

text \<open>A path is the concatenation of its segments, each with its slash.\<close>

lemma joined: "concat (map ((#) sep) (split_acc sep acc s)) = sep # rev acc @ s"
  by (induction sep acc s rule: split_acc.induct) auto

lemma joined_Split: "concat (map ((#) sep) (Split s sep)) = sep # s"
  by (simp add: Split_def joined)

lemma split_acc_app: "split_acc sep acc (s @ sep # t) = split_acc sep acc s @ split_acc sep [] t"
  by (induction s arbitrary: acc) auto

lemma Split_app: "Split (s @ sep # t) sep = Split s sep @ Split t sep"
  by (simp add: Split_def split_acc_app)

lemma Split_Cons: "Split (sep # t) sep = [] # Split t sep"
  by (simp add: Split_def)

lemma split_ne [simp]: "split_acc sep acc s \<noteq> []" "Split s sep \<noteq> []"
proof -
  show "split_acc sep acc s \<noteq> []" for acc by (induction s arbitrary: acc) auto
  then show "Split s sep \<noteq> []" by (simp add: Split_def)
qed

lemma split_last: "last (split_acc sep acc s) = [] \<Longrightarrow> (s = [] \<and> acc = []) \<or> (s \<noteq> [] \<and> last s = sep)"
  by (induction sep acc s rule: split_acc.induct) (auto split: if_splits)

lemma Split_set: "x \<in> set (Split s sep) \<Longrightarrow> set x \<subseteq> insert sep (set s)"
proof -
  assume "x \<in> set (Split s sep)"
  then have "set x \<subseteq> set (concat (map ((#) sep) (Split s sep)))" by auto
  then show ?thesis by (simp add: joined_Split)
qed

text \<open>A literal path is a pattern of literal segments, also in front of a longer pattern.\<close>

lemma parse_literals:
  "\<forall>x \<in> set xs. CHR ''{'' \<notin> set x \<Longrightarrow> ys \<noteq> [] \<Longrightarrow> parse_segments (xs @ ys) = map Lit xs @ parse_segments ys"
proof (induction xs)
  case (Cons x xs)
  have "x \<noteq> [] \<Longrightarrow> hd x \<noteq> CHR ''{''" using Cons.prems(1) hd_in_set by fastforce
  moreover have "\<exists>z zs. xs @ ys = z # zs" using Cons.prems(2) by (cases "xs @ ys") auto
  ultimately show ?case using Cons by auto
qed simp

lemma parse_literal:
  assumes "\<forall>x \<in> set xs. CHR ''{'' \<notin> set x" "xs \<noteq> []" "last xs \<noteq> []"
  shows "parse_segments xs = map Lit xs"
proof -
  have l: "CHR ''{'' \<notin> set (last xs)" using assms(1,2) by simp
  then have "last xs \<noteq> ''{$}''" "hd (last xs) \<noteq> CHR ''{''" using hd_in_set [OF assms(3)] by auto
  then have "parse_segments [last xs] = [Lit (last xs)]" using assms(3) by simp
  moreover have "xs = butlast xs @ [last xs]" using assms(2) by simp
  moreover have "\<forall>x \<in> set (butlast xs). CHR ''{'' \<notin> set x" using assms(1) by (meson in_set_butlastD)
  ultimately show ?thesis using parse_literals [of "butlast xs" "[last xs]"]
    by (metis list.distinct(1) list.map(1,2) map_append)
qed

lemma match_literals: "match_segments (map Lit xs @ ps) segs \<noteq> None \<Longrightarrow> \<exists>ys. segs = xs @ ys \<and> match_segments ps ys \<noteq> None"
proof (induction xs arbitrary: segs)
  case (Cons x xs)
  then show ?case by (cases segs) (auto split: if_splits)
qed simp

lemma match_literal: "match_segments (map Lit xs) segs \<noteq> None \<Longrightarrow> segs = xs"
proof (induction xs arbitrary: segs)
  case (Cons x xs)
  then show ?case by (cases segs) (auto split: if_splits)
next
  case Nil
  then show ?case by (cases segs) auto
qed

lemma parse_ne: "xs \<noteq> [] \<Longrightarrow> parse_segments xs \<noteq> []"
  by (cases xs rule: parse_segments.cases) auto

text \<open>A management path as the validator accepts it.\<close>

definition literal :: "string \<Rightarrow> bool" where
  "literal p \<longleftrightarrow> (\<exists>r. p = CHR ''/'' # r \<and> r \<noteq> [] \<and> last r \<noteq> CHR ''/'' \<and> CHR ''{'' \<notin> set r)"

lemma not_literal: "\<not> path_not_literal p \<Longrightarrow> literal p"
proof -
  assume *: "\<not> path_not_literal p"
  then have "HasPrefix p ''/''" "p \<noteq> ''/''" "\<not> HasSuffix p ''/''" by (auto simp: path_not_literal_def)
  then obtain r where p: "p = CHR ''/'' # r" by (cases p) auto
  have r: "r \<noteq> []" using \<open>p \<noteq> ''/''\<close> p by auto
  then have "last r \<noteq> CHR ''/''" using \<open>\<not> HasSuffix p ''/''\<close> p by (cases r rule: rev_cases) (auto simp: HasSuffix_def)
  moreover have "CHR ''{'' \<notin> set p" using * by (auto simp: path_not_literal_def ContainsAny_def list_ex_iff)
  ultimately show ?thesis using p r by (auto simp: literal_def)
qed

lemma literal_pattern:
  assumes "literal p"
  shows "parse_pattern p = map Lit (tl (Split p (CHR ''/'')))"
    and "parse_pattern (p @ CHR ''/'' # t) = map Lit (tl (Split p (CHR ''/''))) @ parse_segments (Split t (CHR ''/''))"
    and "concat (map ((#) (CHR ''/'')) (tl (Split p (CHR ''/'')))) = p"
proof -
  obtain r where p: "p = CHR ''/'' # r" "r \<noteq> []" "last r \<noteq> CHR ''/''" "CHR ''{'' \<notin> set r" using assms by (auto simp: literal_def)
  have lit: "\<forall>x \<in> set (Split r (CHR ''/'')). CHR ''{'' \<notin> set x" using Split_set [of _ r "CHR ''/''"] p(4) by fastforce
  have "last (Split r (CHR ''/'')) \<noteq> []" using split_last [of "CHR ''/''" "[]" r] p(2,3) by (auto simp: Split_def)
  then show "parse_pattern p = map Lit (tl (Split p (CHR ''/'')))"
    using parse_literal [OF lit] by (simp add: parse_pattern_def p(1) Split_Cons)
  show "parse_pattern (p @ CHR ''/'' # t) = map Lit (tl (Split p (CHR ''/''))) @ parse_segments (Split t (CHR ''/''))"
    using parse_literals [OF lit] by (simp add: parse_pattern_def p(1) Split_Cons Split_app)
  show "concat (map ((#) (CHR ''/'')) (tl (Split p (CHR ''/'')))) = p" by (simp add: p(1) Split_Cons joined_Split)
qed

lemma HasPrefix_app: "HasPrefix (p @ q) p"
  by (induction p) auto

text \<open>Whatever follows a literal path, only a path below it matches.\<close>

lemma longer_overlaps:
  assumes "literal p" "literal q" "match_segments (parse_pattern (p @ CHR ''/'' # t)) segs \<noteq> None"
    and "match_segments (parse_pattern q) segs \<noteq> None"
  shows "paths_overlap p q"
proof -
  let ?seg = "\<lambda>p. tl (Split p (CHR ''/''))" and ?join = "\<lambda>xs. concat (map ((#) (CHR ''/'')) xs)"
  obtain ys where ys: "segs = ?seg p @ ys" "match_segments (parse_segments (Split t (CHR ''/''))) ys \<noteq> None"
    using match_literals assms(3) literal_pattern(2) [OF assms(1)] by metis
  have "ys \<noteq> []" using ys(2) match_Nil parse_ne [of "Split t (CHR ''/'')"] by fastforce
  then obtain y zs where y: "ys = y # zs" by (cases ys) auto
  have "segs = ?seg q" using match_literal assms(4) literal_pattern(1) [OF assms(2)] by metis
  then have "q = ?join (?seg p @ ys)" using ys(1) literal_pattern(3) [OF assms(2)] by metis
  also have "\<dots> = (p @ ''/'') @ (y @ ?join zs)" using literal_pattern(3) [OF assms(1)] y by simp
  finally show ?thesis using HasPrefix_app [of "p @ ''/''"] by (simp add: paths_overlap_def)
qed

lemma route_shape: "(meth, pat, e) \<in> set (routes p) \<Longrightarrow> pat \<in> {''/{$}'', ''/app.js''} \<or> (\<exists>t. pat = p @ CHR ''/'' # t)"
  by (auto simp: routes_def)

lemma NewRest_literal: "literal p \<Longrightarrow> NewRest p = p"
proof -
  assume "literal p"
  then obtain r where r: "p = CHR ''/'' # r" "r \<noteq> []" "last r \<noteq> CHR ''/''" by (auto simp: literal_def)
  then obtain xs where "r = xs @ [last r]" by (metis append_butlast_last_id)
  then obtain c where "r = xs @ [c]" "c \<noteq> CHR ''/''" using r(3) by metis
  then show "NewRest p = p" by (simp add: NewRest_def TrimRight_def r(1))
qed

text \<open>
  C34. The two front ends do not shadow each other. With the paths of a compiled document, a request goes to the MCP
  server exactly when its path is the configured one, and no request that one of the REST routes, the operator
  page or its script stands for goes there.
\<close>

theorem listener_paths_disjoint:
  assumes "Compile K now g boot doc = Inr s" "sn_Canonical s = Some d" "path = ml_MCPPath (ls_Management (sp_Listeners (dc_Spec d)))"
  shows "(to_mcp (mount d) rq \<longleftrightarrow> rr_Segments (mg_rest rq) = tl (Split path (CHR ''/'')))
    \<and> (row \<in> set (routes (mn_rest (mount d))) \<and> route_match (mg_rest rq) row \<noteq> None \<longrightarrow> \<not> to_mcp (mount d) rq)"
proof -
  let ?m = "ls_Management (sp_Listeners (dc_Spec d))" and ?segs = "rr_Segments (mg_rest rq)"
  have v: "ValidateManagementPaths (ml_RESTPath ?m) path = None" and "path \<noteq> []"
    using compiled_listeners [OF assms(1)] assms(2,3) by (metis option.inject)+
  then have m: "mn_mcp (mount d) = path" "mn_rest (mount d) = NewRest (ml_RESTPath ?m)" by (simp_all add: mount_def Let_def assms(3))
  have lit: "literal (ml_RESTPath ?m)" "literal path" and no: "\<not> paths_overlap (ml_RESTPath ?m) path" "\<not> paths_overlap path ''/app.js''"
    using v not_literal by (auto simp: ValidateManagementPaths_def split: if_splits)
  have to: "to_mcp (mount d) rq \<longleftrightarrow> ?segs = tl (Split path (CHR ''/''))"
  proof -
    have "match_segments (map Lit xs) xs \<noteq> None" for xs by (induction xs) simp_all
    then show ?thesis unfolding to_mcp_def m(1) literal_pattern(1) [OF lit(2)] using match_literal by metis
  qed
  moreover have "\<not> to_mcp (mount d) rq" if row: "row \<in> set (routes (mn_rest (mount d)))" "route_match (mg_rest rq) row \<noteq> None"
  proof
    assume mcp: "to_mcp (mount d) rq"
    obtain meth pat e where r: "row = (meth, pat, e)" by (cases row)
    have hit: "match_segments (parse_pattern pat) ?segs \<noteq> None"
      using row(2) row_match_parts [of "rr_Method (mg_rest rq)" ?segs meth pat e] by (simp add: r route_match_def)
    have same: "path = p" if "match_segments (parse_pattern p) ?segs \<noteq> None" "literal p" for p
    proof -
      have "?segs = tl (Split p (CHR ''/''))" using match_literal that(1) literal_pattern(1) [OF that(2)] by metis
      then show ?thesis using mcp to literal_pattern(3) [OF lit(2)] literal_pattern(3) [OF that(2)] by metis
    qed
    consider "pat = ''/{$}''" | "pat = ''/app.js''" | t where "pat = ml_RESTPath ?m @ CHR ''/'' # t"
      using route_shape row(1) unfolding r m(2) NewRest_literal [OF lit(1)] by blast
    then show False
    proof cases
      case 1
      have "parse_pattern ''/{$}'' = [Lit []]" by code_simp
      then have "?segs = [[]]" using hit match_literal [of "[[]]"] 1 by simp
      then have "tl (Split path (CHR ''/'')) = [[]]" using mcp to by simp
      then have "path = concat (map ((#) (CHR ''/'')) [[]])" using literal_pattern(3) [OF lit(2)] by metis
      then show False using lit(2) by (simp add: literal_def)
    next
      case 2
      then show False using same [of "''/app.js''"] hit no(2) by (auto simp: literal_def paths_overlap_def)
    next
      case 3
      then show False using longer_overlaps [OF lit] hit mcp no(1) unfolding to_mcp_def m(1) by blast
    qed
  qed
  ultimately show ?thesis by blast
qed

section \<open>Witnesses\<close>

definition sample_host :: host where
  "sample_host = \<lparr>ho_front = rest_frontend\<lparr>fe_system := sample_system\<rparr>, ho_data = sample_data, ho_listen = (\<lambda>_ _. None),
     ho_writePid = (\<lambda>_. True), ho_Getwd = Some (cm_BaseDir sample_comp), ho_json = (\<lambda>_. None), ho_get = (\<lambda>_. None),
     ho_info = (''0'', ''0'')\<rparr>"

definition sample_flags :: serve_flags where
  "sample_flags = \<lparr>sf_Config = ''/l/boot.yaml'', sf_BaseDir = [], sf_HTTPSListen = [], sf_MgmtListen = [],
     sf_Shutdown = 5000000000, sf_PidFile = []\<rparr>"

definition sample_proc :: process where
  "sample_proc = on_app (\<lambda>_. sample_app) (NewProcess ''/l/boot.yaml'')"

definition sample_public :: arrival where
  "sample_public = Public [''nowhere''] lost_request (\<lambda>_. 2000)"

lemma sample_host_system: "fe_system (ho_front sample_host) = sample_system"
  by (simp add: sample_host_def rest_frontend_def)

lemma sample_dir: "fe_system (ho_front (in_dir (mustCwd sample_host) sample_host)) = sample_system"
  by (simp add: in_dir_def mustCwd_def sample_host_def rest_frontend_def sample_system_def sample_comp_def)

lemma sample_proc_app: "proc_app sample_proc = sample_app" "pr_open sample_proc = []"
  by (simp_all add: sample_proc_def NewProcess_def)

lemma sample_serving:
  obtains s d q1 where "InstallBootstrapFile sample_system (\<lambda>_. 1000) (NewApp NewStore ''/l/boot.yaml'') = (Inr s, sample_app)"
    "Compile sample_comp 1000 1 [] (sample_config ''never'') = Inr s" "sn_Canonical s = Some d"
    "serve_start sample_host (serve_addresses sample_flags d) sample_proc = (Started (Some (mount d)), q1)"
proof -
  obtain s where s: "sample_start = (Inr s, sample_app)" "Compile sample_comp 1000 1 [] (sample_config ''never'') = Inr s"
    "Load (ap_store sample_app) = Some s"
    using sample_start_app by blast
  have c: "Compile (sy_comp (fe_system (ho_front sample_host))) 1000 1 [] (sample_config ''never'') = Inr s"
    using s(2) by (simp add: sample_host_system sample_system_def)
  have free: "\<forall>i addr. ho_listen sample_host i addr = None" by (simp add: sample_host_def)
  show thesis
    by (rule start_up [OF c _ _ _ _ free, of sample_proc sample_flags])
      (use s that in \<open>auto simp: sample_proc_app sample_flags_def sample_start_def\<close>)
qed

lemma sample_inv: "app_inv (proc_app sample_proc)"
  unfolding sample_proc_app by (rule app_reach_inv [OF sample_reach])

theorem serving_pinned_witness:
  "\<exists>m rt q1. serve_start sample_host rt sample_proc = (Started m, q1) \<and> snd (HealthReady (proc_app (fold (arrive sample_host m) [sample_public] q1)))"
proof -
  obtain s d q1 where "serve_start sample_host (serve_addresses sample_flags d) sample_proc = (Started (Some (mount d)), q1)"
    by (rule sample_serving)
  from serving_pinned [OF this sample_inv refl, of "[sample_public]"] this show ?thesis by blast
qed

theorem serving_safe_witness:
  "\<exists>m rt q1. serve_start sample_host rt sample_proc = (Started m, q1) \<and> app_inv (proc_app (fold (arrive sample_host m) [sample_public] q1))"
proof -
  obtain s d q1 where "serve_start sample_host (serve_addresses sample_flags d) sample_proc = (Started (Some (mount d)), q1)"
    by (rule sample_serving)
  moreover have "list_all supplied ([sample_public] @ [sample_public])" using lost_fresh by (simp add: sample_public_def)
  ultimately show ?thesis using serving_safe [OF _ sample_inv _ refl] by blast
qed

theorem serve_releases_witness:
  "\<exists>d. pr_open (snd (runServe sample_host (serve_addresses sample_flags d) [sample_public] Interrupted sample_proc)) = []
     \<and> \<not> snd (HealthReady (proc_app (snd (runServe sample_host (serve_addresses sample_flags d) [sample_public] Interrupted sample_proc))))"
proof -
  obtain s d q1 where s: "Compile sample_comp 1000 1 [] (sample_config ''never'') = Inr s"
    "serve_start sample_host (serve_addresses sample_flags d) sample_proc = (Started (Some (mount d)), q1)"
    by (rule sample_serving)
  obtain res q where r: "runServe sample_host (serve_addresses sample_flags d) [sample_public] Interrupted sample_proc = (res, q)" by fastforce
  have "Load (ap_store (proc_app sample_proc)) \<noteq> None" using sample_inv by (auto simp: app_inv_def)
  then show ?thesis using serve_releases [OF r sample_proc_app(2)] r by (intro exI [of _ d]) simp
qed

theorem validate_predicts_serve_witness:
  "\<exists>s. fst sample_start = Inr s
     \<and> validateCmd sample_host 1000 (Some (''/l/boot.yaml'', mustCwd sample_host)) = done_with [(''ok revision=%s'', [sn_Revision s])]"
proof -
  obtain s where s: "sample_start = (Inr s, sample_app)" using sample_start_app by blast
  have "sample_start = InstallBootstrapFile (fe_system (ho_front (in_dir (mustCwd sample_host) sample_host))) (\<lambda>_. 1000) (NewApp NewStore ''/l/boot.yaml'')"
    by (simp add: sample_start_def sample_dir)
  from validate_predicts_serve [OF _ this, where f = sample_flags and xs = "[]" and en = Interrupted]
  have "validateCmd sample_host 1000 (Some (''/l/boot.yaml'', mustCwd sample_host)) = done_with [(''ok revision=%s'', [sn_Revision s])]"
    unfolding s fst_conv sum.case by (simp add: sample_flags_def)
  then show ?thesis unfolding s fst_conv by blast
qed

theorem serve_comes_up_witness:
  "\<exists>s d. fst (serveCmd sample_host (\<lambda>_. 1000) (Some sample_flags) [sample_public] Interrupted) = done_with [announcement s d]"
proof -
  obtain s where "InstallBootstrapFile (fe_system (ho_front (in_dir (mustCwd sample_host) sample_host))) (\<lambda>_. 1000)
      (NewApp NewStore (sf_Config sample_flags)) = (Inr s, sample_app)"
    using sample_start_app by (auto simp: sample_start_def sample_dir sample_flags_def)
  moreover have "sf_Config sample_flags \<noteq> []" "sf_HTTPSListen sample_flags = []" "sf_MgmtListen sample_flags = []"
    "0 < sf_Shutdown sample_flags"
    "sf_PidFile sample_flags = [] \<or> ho_writePid sample_host (sf_PidFile sample_flags)" "sf_BaseDir sample_flags = []" by (simp_all add: sample_flags_def)
  moreover have "\<forall>i addr. ho_listen sample_host i addr = None" by (simp add: sample_host_def)
  ultimately show ?thesis using serve_comes_up [of sample_flags sample_host, OF _ _ _ _ _ refl _ _ refl] by simp blast
qed

theorem listener_paths_disjoint_witness:
  "\<exists>d s. Compile sample_comp 1000 1 [] (sample_config ''never'') = Inr s \<and> sn_Canonical s = Some d
     \<and> \<not> to_mcp (mount d) \<lparr>mg_rest = rest_pause\<lparr>rr_Method := ''GET'', rr_Segments := [[]]\<rparr>, mg_mcp = mcp_pause\<rparr>"
proof -
  obtain s d q1 where s: "Compile sample_comp 1000 1 [] (sample_config ''never'') = Inr s" "sn_Canonical s = Some d"
    by (rule sample_serving)
  have "parse_pattern ''/{$}'' = [Lit []]" by code_simp
  then have "route_match (rest_pause\<lparr>rr_Method := ''GET'', rr_Segments := [[]]\<rparr>) (''GET'', ''/{$}'', EIndex) \<noteq> None"
    by (simp add: route_match_def row_match_def method_matches_def)
  moreover have "(''GET'', ''/{$}'', EIndex) \<in> set (routes (mn_rest (mount d)))" by (simp add: routes_def)
  ultimately show ?thesis
    using listener_paths_disjoint [OF s refl, of "\<lparr>mg_rest = rest_pause\<lparr>rr_Method := ''GET'', rr_Segments := [[]]\<rparr>, mg_mcp = mcp_pause\<rparr>"
        "(''GET'', ''/{$}'', EIndex)"] s by auto
qed

end
