(* ===== verification/Spec2Isabelle.thy ===== *)
theory Spec2Isabelle
  imports Saml_Props Import_Props Change_Props Config_Props Secret_Props Serve_Props
begin

text \<open>
  LabSSO is a laboratory identity provider: one process that serves OpenID Connect, SAML and
  WS-Federation to test clients and a management interface to the operator. This library models its
  core and proves what makes it correct. All paths below are relative to \<^verbatim>\<open>src/internal/\<close>, except that of the
  command line, \<^verbatim>\<open>src/cmd/labsso\<close>.

  \<^bold>\<open>The program.\<close> A configuration document (\<^verbatim>\<open>model/\<close>, \<^verbatim>\<open>config/\<close>) is compiled (\<^verbatim>\<open>compiler/\<close>, \<^verbatim>\<open>vendor/\<close>)
  into an immutable snapshot (\<^verbatim>\<open>snapshot/\<close>), which carries a generation number. The store holds the
  active, the previous and the bootstrap snapshot. The data plane, that is the OpenID provider (\<^verbatim>\<open>oidc/\<close>), the
  federation providers (\<^verbatim>\<open>saml/\<close>, \<^verbatim>\<open>wsfed/\<close>) and the login pages (\<^verbatim>\<open>loginui/\<close>), serves every request from
  one snapshot and keeps what outlives a request (pending requests, codes, refresh handles, sessions) in
  one shared runtime, where each row carries the generation it was made under. The management
  application (\<^verbatim>\<open>app/\<close>, \<^verbatim>\<open>auth/\<close>, \<^verbatim>\<open>audit/\<close>, \<^verbatim>\<open>capabilities/\<close>, \<^verbatim>\<open>importrw/\<close>) plans and applies changes of the
  document, replaces the active snapshot and invalidates the rows that a change of the security settings
  makes stale. Its clients reach it through two front ends, a REST interface and an MCP server (\<^verbatim>\<open>control/\<close>).
  The command \<^verbatim>\<open>labsso serve\<close> opens an HTTPS listener for the data plane and a management listener for the
  front ends, and all of them share one application.

  \<^bold>\<open>Conventions.\<close> Strings are lists of bytes. A Go map is an association with one entry per key
  (\<open>gmap\<close> of \<open>Prelude\<close>); nil and empty slices are identified, except that an imported document renders a nil slice as
  null (\<open>JNilArr\<close>), and a nil pointer is \<open>None\<close>. A JSON number is an integer or the text of another number. Time is the
  number of nanoseconds since the zero time of Go. Every call of the clock or of the random generator is an argument
  (\<open>rq_clk rq i\<close> and \<open>rq_rnd rq i\<close> for the \<open>i\<close>-th call site of a handler), so a theorem holds for all answers.
  An error is a value of \<open>go_error\<close> that keeps the format and the arguments of its message. Cryptography, codecs
  (JSON, YAML, XML, PEM, X.509, DEFLATE), name resolution and the file system are fields of the records
  \<open>env\<close>, \<open>comp\<close>, \<open>codec\<close>, \<open>netlib\<close>, \<open>samllib\<close> and \<open>importlib\<close> and thus arguments of the definitions that use
  them; theories named \<open>_Props\<close> instantiate them by concrete functions (\<open>Sample\<close>) to show that hypotheses can hold. A
  handler is one atomic step on the runtime except where a theorem speaks of runs: the runtime
  theorems quantify over arbitrary interleavings of the locked operations, which is what the mutex gives.

  \<^bold>\<open>Theories and sources.\<close>
  \<^item> \<open>Prelude\<close>, \<open>Base64\<close>, \<open>Markup\<close>, \<open>Web\<close>: what the sources use of the standard library (strings, maps, base64,
    URLs, forms, cookies, HTML escaping, time formats) with the laws the components rest on.
  \<^item> \<open>Domainerr\<close>, \<open>Model\<close>, \<open>Snapshot\<close>, \<open>Vendor\<close>, \<open>Compiler\<close>: \<^verbatim>\<open>domainerr/\<close>, \<^verbatim>\<open>model/\<close> with \<^verbatim>\<open>config/load.go\<close>,
    \<^verbatim>\<open>snapshot/\<close>, \<^verbatim>\<open>vendor/clothes.go\<close>, \<^verbatim>\<open>compiler/\<close>.
  \<^item> \<open>Password\<close>, \<open>Totp\<close>, \<open>Limiter\<close>: \<^verbatim>\<open>password/\<close>, \<^verbatim>\<open>totp/\<close> (on 64-bit words), \<^verbatim>\<open>oidc/limit.go\<close>.
  \<^item> \<open>Runtime\<close>, \<open>Oidc\<close>, \<open>Provider\<close>: \<^verbatim>\<open>oidc/runtime.go\<close> and \<^verbatim>\<open>rejection.go\<close>; the helpers and the handlers of
    \<^verbatim>\<open>oidc/provider.go\<close>, \<^verbatim>\<open>pkce.go\<close>, \<^verbatim>\<open>overage.go\<close>, \<^verbatim>\<open>jose.go\<close>, \<^verbatim>\<open>logout.go\<close>.
  \<^item> \<open>Saml\<close>, \<open>Wsfed\<close>, \<open>Loginui\<close>: \<^verbatim>\<open>saml/\<close>, \<^verbatim>\<open>wsfed/\<close>, \<^verbatim>\<open>loginui/\<close>.
  \<^item> \<open>Access\<close>, \<open>Idemp\<close>, \<open>Page\<close>, \<open>App\<close>, \<open>Manage\<close>, \<open>Importrw\<close>, \<open>Import\<close>: \<^verbatim>\<open>auth/\<close>, \<^verbatim>\<open>capabilities/\<close> and \<^verbatim>\<open>audit/\<close>; the
    replay cache, paging, changes, the other operations, the import and the export of \<^verbatim>\<open>app/\<close>; \<^verbatim>\<open>importrw/\<close>.
  \<^item> \<open>Router\<close>: tables of routes as the router of the standard library matches them, and its own answers to other paths
    (301 to a subtree, 405, 404). \<open>Dataplane\<close>: the routes of the four
    providers, the key set, and their composition in \<^verbatim>\<open>app/app.go\<close>; \<open>serve_data\<close> is one request to the HTTPS listener.
  \<^item> \<open>Control\<close>, \<open>Rest\<close>, \<open>Mcp\<close>: \<^verbatim>\<open>control/rest/server.go\<close> (\<open>rest_serve\<close> is one request) and \<^verbatim>\<open>control/mcp/\<close>
    (\<open>mcp_serve\<close>), with the inputs and answers that they share.
  \<^item> \<open>Serve\<close>: \<^verbatim>\<open>src/cmd/labsso\<close>. \<open>serve_start\<close> is what \<^verbatim>\<open>runServe\<close> does until the process serves, \<open>arrive\<close> one request to
    either listener, \<open>ended\<close> and \<open>release\<close> its end, \<open>runServe\<close> their composition; the state holds each listener from
    the call that opens it to the call that closes it; \<open>run_command\<close> dispatches to
    the commands (\<open>serveCmd\<close>, \<open>validateCmd\<close>, \<open>canonicalizeCmd\<close>, \<open>healthcheckCmd\<close>, \<open>versionCmd\<close>).

  \<^bold>\<open>What is shown.\<close>
  \<^item> \<open>Runtime_Trace\<close>, \<open>Runtime_Props\<close>: an invariant of the runtime under every sequence of its operations;
    a code is redeemed once, a refresh handle rotated once, TOTP steps only increase, and what was
    invalidated never comes back.
  \<^item> \<open>Provider_Props\<close>, \<open>Token_Props\<close>, \<open>Login_Props\<close>: no open redirect, guarded issue of codes, soundness and
    liveness of the code grant, rotation of refresh tokens, completion and denial of a login, the userinfo
    endpoint, logout.
  \<^item> \<open>Loginui_Props\<close>: whoever gets a session has presented the password and, where it is required, the second
    factor; consent needs a usable session; the cost of a login does not depend on the user; no markup
    is injected; the limiter of the form equals that of the token endpoint.
  \<^item> \<open>Xml_Props\<close>, \<open>Saml_Props\<close>: an exact description of the documents that the structure check accepts; SAML and
    WS-Federation, through one locale \<open>federation\<close> interpreted for both, answer each request once, at a
    registered address, with an assertion of the user of the session.
  \<^item> \<open>Compiler_Props\<close>, \<open>Config_Props\<close>, \<open>Secret_Props\<close>: soundness of compilation, an exact description of valid
    documents, credentials, overage and the security comparison.
  \<^item> \<open>App_Trace\<close>, \<open>App_Props\<close>, \<open>Change_Props\<close>, \<open>Import_Props\<close>: the locale \<open>app_laws\<close> leads every management operation
    from a precondition to a postcondition; its interpretations give the invariant of the application,
    the history of generations and the atomicity of failures. Then the effects of a change, of a replay
    and of a reset, exactly which changes revoke the stored grants and sessions, authorisation, and that an import
    carries no secret in its values.
  \<^item> \<open>Control_Props\<close>, \<open>Rest_Props\<close>, \<open>Mcp_Props\<close>: the locale \<open>control_plane\<close> says what a front end may do to the
    application: drop an operator session that has expired, record a denial, or handle the request for an admitted
    actor behind the capability that the request asks for. Both front ends are interpretations; the locale gives the invariant, the
    need for credentials, the atomicity of errors and the harmlessness of queries. Routes and tools are those
    of the catalogue, and a tool answers as the route of the same operation does.
  \<^item> \<open>Dataplane_Props\<close>: the locale \<open>protocol_laws\<close> shows that every handler of the data plane is a
    sequence of runtime operations; hence the trace theorems hold of the handlers. Every refusal is in the audit
    ring, and every endpoint that the clothes of a vendor name is served by its handler.
  \<^item> \<open>Serve_Props\<close>: the management listener is the third interpretation of \<open>control_plane\<close>. Under every interleaving of
    requests to both listeners the invariants hold, nothing but an admitted actor changes the configuration,
    and the settings of the listeners stay those of the start (two more interpretations of \<open>app_laws\<close>). Every
    end of the process releases what it holds, a valid configuration comes up, \<^verbatim>\<open>validate\<close> refuses what
    \<^verbatim>\<open>serve\<close> refuses, and no path of one front end shadows one of the other.

  \<^bold>\<open>Termination.\<close> All definitions are total. Where the code loops over input, the recursion is on that
  input. The walk over pages in \<open>Page\<close> takes fuel, one more than the number of items, and
  \<open>pages_cover_the_list\<close> shows that this is always enough.

  \<^bold>\<open>Not modelled.\<close> The texts of the operator page (\<^verbatim>\<open>web\<close>), response headers other than Location and Set-Cookie,
  the redirection of unclean paths by the router, the generation of the self-signed certificate
  (\<^verbatim>\<open>compiler/cert.go\<close>), JSON schemas and the command that writes them (\<^verbatim>\<open>contracts\<close>, reflection over types), the
  build information, and of the serving process the parsing of flags by the standard library, sockets,
  timeouts of connections, and the goroutines that wait for signals and for the servers to drain.
\<close>

end
